(* ===== verification/Prelude.thy ===== *)
theory Prelude
  imports Main "HOL-Library.AList"
begin

text \<open>
  Shared vocabulary of the development: Go errors and the outcome of a call, sequencing of
  calls that thread a state, Go maps as association lists, and the lemmas on lists and maps
  that the component theories use.

  \<^item> A Go \<open>error\<close> is a value of type \<open>goerr\<close>. Wrapping with \<open>%w\<close> keeps the wrapped errors as
    children, so that \<open>errors.Is\<close> and \<open>errors.As\<close> can be answered as Go answers them. The text of
    a message is reduced to a tag.
  \<^item> A call returns (\<open>Ok\<close>), returns a non-nil error (\<open>Err\<close>) or panics (\<open>Panic\<close>).
  \<^item> A Go map is an association list with distinct keys. The order of the list is the order in
    which a \<open>range\<close> loop meets the entries; Go leaves that order open, so theorems that
    quantify over the list cover every order.
\<close>

named_theorems go_defs \<open>definitions of small accessors that proofs unfold freely\<close>
named_theorems frame \<open>what an operation leaves unchanged\<close>

subsection \<open>Errors and outcomes\<close>

datatype reason = NotFoundReason | BadRequestReason | InternalReason | InvalidReason

datatype goerr =
    Sentinel string            \<comment> \<open>a package level sentinel such as \<open>ErrObjectDeleted\<close>\<close>
  | ApiStatus reason           \<comment> \<open>a \<open>StatusError\<close> of apimachinery\<close>
  | Plain string               \<comment> \<open>\<open>fmt.Errorf\<close> or \<open>errors.New\<close> without a wrapped error\<close>
  | Wrapped string "goerr list" \<comment> \<open>\<open>fmt.Errorf\<close> with \<open>%w\<close> verbs, \<open>errors.Join\<close>\<close>

fun errorsIs :: "goerr \<Rightarrow> goerr \<Rightarrow> bool" where
  "errorsIs (Wrapped m es) t = (Wrapped m es = t \<or> list_ex (\<lambda>e. errorsIs e t) es)"
| "errorsIs e t = (e = t)"

text \<open>The first \<open>StatusError\<close> in a pre-order walk of the chain, as \<open>errors.As\<close> finds it.\<close>

fun asStatus :: "goerr \<Rightarrow> reason option" where
  "asStatus (ApiStatus r) = Some r"
| "asStatus (Wrapped m es) =
     fold (\<lambda>r acc. if acc = None then r else acc) (map asStatus es) None"
| "asStatus e = None"

definition isNotFound :: "goerr \<Rightarrow> bool" where
  "isNotFound e \<longleftrightarrow> asStatus e = Some NotFoundReason"

datatype 'a outcome = Ok 'a | Err goerr | Panic string

type_synonym ('a, 's) eff = "'a outcome \<times> 's"

text \<open>
  Sequencing: \<open>x, err := f(); if err != nil { return err }\<close>. The state reached by a failing
  call is kept, Go has no rollback.
\<close>

definition bindE :: "('a, 's) eff \<Rightarrow> ('a \<Rightarrow> 's \<Rightarrow> ('b, 's) eff) \<Rightarrow> ('b, 's) eff" where
  "bindE r f = (case r of (Ok x, s) \<Rightarrow> f x s | (Err e, s) \<Rightarrow> (Err e, s) | (Panic m, s) \<Rightarrow> (Panic m, s))"

definition bindO :: "'a outcome \<Rightarrow> ('a \<Rightarrow> 'b outcome) \<Rightarrow> 'b outcome" where
  "bindO r f = (case r of Ok x \<Rightarrow> f x | Err e \<Rightarrow> Err e | Panic m \<Rightarrow> Panic m)"

text \<open>The deferred \<open>err = fmt.Errorf("%w: ...", sentinel, err)\<close> of a named result.\<close>

definition wrapErr :: "(goerr \<Rightarrow> goerr) \<Rightarrow> 'a outcome \<Rightarrow> 'a outcome" where
  "wrapErr f r = (case r of Err e \<Rightarrow> Err (f e) | _ \<Rightarrow> r)"

definition mapState :: "('s \<Rightarrow> 't) \<Rightarrow> ('a, 's) eff \<Rightarrow> ('a, 't) eff" where
  "mapState g r = (fst r, g (snd r))"

lemma bindE_simps [simp]:
  "bindE (Ok x, s) f = f x s"
  "bindE (Err e, s) f = (Err e, s)"
  "bindE (Panic m, s) f = (Panic m, s)"
  by (simp_all add: bindE_def)

lemma bindO_simps [simp]:
  "bindO (Ok x) f = f x"
  "bindO (Err e) f = Err e"
  "bindO (Panic m) f = Panic m"
  by (simp_all add: bindO_def)

lemma bindE_eq_Ok:
  "bindE r f = (Ok y, s') \<longleftrightarrow> (\<exists>x s. r = (Ok x, s) \<and> f x s = (Ok y, s'))"
  by (cases r; cases "fst r") (auto simp: bindE_def split: outcome.splits)

lemma bindO_eq_Ok: "bindO r f = Ok y \<longleftrightarrow> (\<exists>x. r = Ok x \<and> f x = Ok y)"
  by (cases r) auto

lemma wrapErr_simps [simp]:
  "wrapErr f (Ok x) = Ok x"
  "wrapErr f (Err e) = Err (f e)"
  "wrapErr f (Panic m) = Panic m"
  by (simp_all add: wrapErr_def)

lemma wrapErr_eq_Ok [simp]: "wrapErr f r = Ok x \<longleftrightarrow> r = Ok x"
  by (cases r) auto

lemma mapState_pair [simp]: "mapState g (r, s) = (r, g s)"
  by (simp add: mapState_def)

text \<open>
  A predicate of the state that every step keeps is kept by a sequence of steps: the rule that
  carries invariants and frame conditions through the handlers.
\<close>

lemma bindE_state:
  assumes "P (snd r)" and "\<And>x s. r = (Ok x, s) \<Longrightarrow> P s \<Longrightarrow> P (snd (f x s))"
  shows "P (snd (bindE r f))"
  using assms by (cases r; cases "fst r") auto

subsection \<open>Maps as association lists\<close>

type_synonym ('k, 'v) gomap = "('k \<times> 'v) list"

abbreviation wf_map :: "('k, 'v) gomap \<Rightarrow> bool" where
  "wf_map m \<equiv> distinct (map fst m)"

declare map_of_eq_Some_iff [simp del] Some_eq_map_of_iff [simp del]

lemma map_of_update [simp]: "map_of (AList.update k v m) = (map_of m)(k \<mapsto> v)"
  by (rule update_conv')

lemma map_of_delete [simp]: "map_of (AList.delete k m) = (map_of m)(k := None)"
  by (rule delete_conv')

lemma wf_map_update [simp]: "wf_map m \<Longrightarrow> wf_map (AList.update k v m)"
  by (rule distinct_update)

lemma wf_map_delete [simp]: "wf_map m \<Longrightarrow> wf_map (AList.delete k m)"
  by (rule distinct_delete)

lemma in_set_map_of: "wf_map m \<Longrightarrow> (k, v) \<in> set m \<longleftrightarrow> map_of m k = Some v"
  by (auto intro: map_of_is_SomeI dest: map_of_SomeD)

lemma set_update_iff:
  assumes "wf_map m"
  shows "(k', v') \<in> set (AList.update k v m) \<longleftrightarrow>
     (if k' = k then v' = v else (k', v') \<in> set m)"
  using in_set_map_of [of "AList.update k v m" k' v'] in_set_map_of [of m k' v'] assms by simp blast

lemma set_delete_iff:
  assumes "wf_map m"
  shows "(k', v') \<in> set (AList.delete k m) \<longleftrightarrow> k' \<noteq> k \<and> (k', v') \<in> set m"
  using in_set_map_of [of "AList.delete k m" k' v'] in_set_map_of [of m k' v'] assms by simp

subsection \<open>Lists\<close>

lemma list_ex_iff_set [simp]: "list_ex P xs \<longleftrightarrow> (\<exists>x\<in>set xs. P x)"
  by (induction xs) auto

lemma fold_invariant_on:
  assumes "P s" and "\<And>x s. x \<in> set xs \<Longrightarrow> P s \<Longrightarrow> P (f x s)"
  shows "P (fold f xs s)"
  using assms by (induction xs arbitrary: s) auto

end
