(* ===== verification/GoLib.thy ===== *)
theory GoLib
  imports Prelude "HOL-Library.Word" "HOL-Library.Multiset"
begin

text \<open>
  What the sources use of Go's \<open>strconv\<close>, \<open>strings\<close> and \<open>slices\<close> packages: decimal formatting and
  parsing of \<open>int64\<close>, trimming, and stable sorting with a three-way comparison. The round trip
  of \<open>FormatInt\<close> and \<open>ParseInt\<close> is what makes resource versions readable again.
\<close>

declare map_of_eq_Some_iff [simp del] Some_eq_map_of_iff [simp del]

subsection \<open>strconv\<close>

fun digits :: "nat \<Rightarrow> string" where
  "digits n = (if n < 10 then [char_of (48 + n)] else digits (n div 10) @ [char_of (48 + n mod 10)])"

declare digits.simps [simp del]

definition FormatInt :: "64 word \<Rightarrow> string" where
  "FormatInt w = (if sint w < 0 then CHR ''-'' # digits (nat (- sint w)) else digits (nat (sint w)))"

definition isDigit :: "char \<Rightarrow> bool" where
  "isDigit c \<longleftrightarrow> 48 \<le> (of_char c :: nat) \<and> (of_char c :: nat) \<le> 57"

text \<open>
  \<open>ParseUint\<close> in base 10 at 64 bits: the loop stops at the first byte that is no digit (syntax
  error) or as soon as the value leaves the range (range error), whichever comes first.
\<close>

fun parseUintLoop :: "nat \<Rightarrow> string \<Rightarrow> nat outcome" where
  "parseUintLoop n [] = Ok n"
| "parseUintLoop n (c # cs) =
     (if \<not> isDigit c then Err (Sentinel ''ErrSyntax'')
      else let n' = n * 10 + (of_char c - 48) in
           if n' \<ge> 2 ^ 64 then Err (Sentinel ''ErrRange'') else parseUintLoop n' cs)"

definition ParseUint :: "string \<Rightarrow> nat outcome" where
  "ParseUint s = (if s = [] then Err (Sentinel ''ErrSyntax'') else parseUintLoop 0 s)"

text \<open>\<open>strconv.ParseInt(s, 10, 64)\<close>: an optional sign, then \<open>ParseUint\<close>, then the signed range.\<close>

definition ParseInt :: "string \<Rightarrow> 64 word outcome" where
  "ParseInt s =
     (if s = [] then Err (Sentinel ''ErrSyntax'')
      else let neg = (hd s = CHR ''-'');
               body = (if hd s = CHR ''-'' \<or> hd s = CHR ''+'' then tl s else s)
           in bindO (ParseUint body) (\<lambda>un.
                if \<not> neg \<and> un \<ge> 2 ^ 63 then Err (Sentinel ''ErrRange'')
                else if neg \<and> un > 2 ^ 63 then Err (Sentinel ''ErrRange'')
                else Ok (if neg then - of_nat un else of_nat un)))"

lemma of_char_digit: "d < 10 \<Longrightarrow> (of_char (char_of (48 + d) :: char) :: nat) = 48 + d"
  by (simp add: of_char_of)

lemma digits_not_Nil [simp]: "digits n \<noteq> []"
  by (subst digits.simps) simp

lemma digits_isDigit: "c \<in> set (digits n) \<Longrightarrow> isDigit c"
proof (induction n rule: digits.induct)
  case (1 n)
  then show ?case
    by (subst (asm) (2) digits.simps) (auto simp: isDigit_def of_char_digit split: if_splits)
qed

lemma digits_inj: "digits m = digits n \<Longrightarrow> m = n"
proof (induction m arbitrary: n rule: digits.induct)
  case (1 m)
  have last: "d mod 10 = e mod 10" if "digits d = digits e" for d e
  proof -
    have l: "last (digits x) = char_of (48 + x mod 10)" for x
      by (subst digits.simps) simp
    have "(of_char (char_of (48 + d mod 10) :: char) :: nat) = of_char (char_of (48 + e mod 10) :: char)"
      using l [of d] l [of e] that by simp
    then show ?thesis by (simp only: of_char_digit [of "d mod 10"] of_char_digit [of "e mod 10"])
  qed
  have len: "length (digits x) = 1 \<longleftrightarrow> x < 10" for x
    by (subst digits.simps) simp
  show ?case
  proof (cases "m < 10")
    case True
    then have "n < 10" using len [of m] len [of n] 1(2) by simp
    then show ?thesis using True last [OF 1(2)] by simp
  next
    case False
    then have n: "\<not> n < 10" using len [of m] len [of n] 1(2) by simp
    have "digits (m div 10) = digits (n div 10)"
      using 1(2) False n by (subst (asm) (1 2) digits.simps) simp
    then have "m div 10 = n div 10" using 1(1) False by simp
    then show ?thesis using last [OF 1(2)] by (metis div_mult_mod_eq)
  qed
qed

lemma parseUintLoop_append:
  "parseUintLoop n (xs @ ys) = bindO (parseUintLoop n xs) (\<lambda>m. parseUintLoop m ys)"
  by (induction n xs rule: parseUintLoop.induct) (auto simp: Let_def)

lemma parseUintLoop_digits: "n < 2 ^ 64 \<Longrightarrow> parseUintLoop 0 (digits n) = Ok n"
proof (induction n rule: digits.induct)
  case (1 n)
  show ?case
  proof (cases "n < 10")
    case True
    then show ?thesis
      by (subst digits.simps) (simp add: isDigit_def of_char_digit)
  next
    case False
    then have "parseUintLoop 0 (digits (n div 10)) = Ok (n div 10)"
      using 1 by (simp add: less_mult_imp_div_less)
    moreover have "n mod 10 < 10" by simp
    ultimately show ?thesis
      using False \<open>n < 2 ^ 64\<close>
      by (subst digits.simps) (simp add: parseUintLoop_append isDigit_def of_char_digit)
  qed
qed

lemma digits_no_sign: "hd (digits n) \<noteq> CHR ''-'' \<and> hd (digits n) \<noteq> CHR ''+''"
  using digits_isDigit [of "hd (digits n)" n] by (auto simp: isDigit_def)

lemma sint_range64: "- (2 ^ 63) \<le> sint (w :: 64 word)" "sint (w :: 64 word) < 2 ^ 63"
  using sint_greater_eq [of w] sint_less [of w] by simp_all

text \<open>Every \<open>int64\<close> that was formatted is parsed back unchanged.\<close>

lemma ParseInt_FormatInt [simp]: "ParseInt (FormatInt w) = Ok w"
proof -
  note r = sint_range64 [of w]
  show ?thesis
  proof (cases "sint w < 0")
    case True
    have "nat (- sint w) < 2 ^ 64" using r by simp
    moreover have "\<not> nat (- sint w) > 2 ^ 63" using r by simp
    moreover have "- (of_nat (nat (- sint w)) :: 64 word) = w" using True by simp
    ultimately show ?thesis
      using True by (simp add: ParseInt_def FormatInt_def ParseUint_def parseUintLoop_digits Let_def)
  next
    case False
    have "nat (sint w) < 2 ^ 64" "\<not> nat (sint w) \<ge> 2 ^ 63" using r by simp_all
    moreover have "(of_nat (nat (sint w)) :: 64 word) = w" using False by simp
    ultimately show ?thesis
      using False digits_no_sign [of "nat (sint w)"]
      by (simp add: ParseInt_def FormatInt_def ParseUint_def parseUintLoop_digits Let_def)
  qed
qed

lemma FormatInt_inj: "FormatInt v = FormatInt w \<Longrightarrow> v = w"
  by (metis ParseInt_FormatInt outcome.inject(1))

lemma FormatInt_not_Nil [simp]: "FormatInt w \<noteq> []"
  by (simp add: FormatInt_def)

subsection \<open>strings\<close>

text \<open>White space as \<open>strings.TrimSpace\<close> sees it on ASCII input.\<close>

definition isSpace :: "char \<Rightarrow> bool" where
  "isSpace c \<longleftrightarrow> (of_char c :: nat) \<in> {9, 10, 11, 12, 13, 32}"

definition TrimSpace :: "string \<Rightarrow> string" where
  "TrimSpace s = rev (dropWhile isSpace (rev (dropWhile isSpace s)))"

lemma TrimSpace_empty_iff: "TrimSpace s = [] \<longleftrightarrow> (\<forall>c\<in>set s. isSpace c)"
proof (cases "dropWhile isSpace s = []")
  case False
  then have "hd (dropWhile isSpace s) \<in> set s" "\<not> isSpace (hd (dropWhile isSpace s))"
    "hd (dropWhile isSpace s) \<in> set (dropWhile isSpace s)"
    using hd_dropWhile [of isSpace s] set_dropWhileD [of _ isSpace s] hd_in_set by blast+
  then show ?thesis by (auto simp: TrimSpace_def)
qed (auto simp: TrimSpace_def dest: set_dropWhileD)

subsection \<open>slices\<close>

text \<open>
  \<open>slices.SortStableFunc\<close> for a three-way comparison (negative, zero, positive): insertion of each
  element before the first one that is strictly greater. A stable sort is determined by its
  comparison, so this is what every stable algorithm returns.
\<close>

fun insertCmp :: "('a \<Rightarrow> 'a \<Rightarrow> int) \<Rightarrow> 'a \<Rightarrow> 'a list \<Rightarrow> 'a list" where
  "insertCmp cmp x [] = [x]"
| "insertCmp cmp x (y # ys) = (if cmp x y \<le> 0 then x # y # ys else y # insertCmp cmp x ys)"

definition SortStableFunc :: "('a \<Rightarrow> 'a \<Rightarrow> int) \<Rightarrow> 'a list \<Rightarrow> 'a list" where
  "SortStableFunc cmp xs = foldr (insertCmp cmp) xs []"

text \<open>\<open>cmp.Compare\<close> on an ordered type.\<close>

definition compare :: "'a::linorder \<Rightarrow> 'a \<Rightarrow> int" where
  "compare x y = (if x < y then - 1 else if x > y then 1 else 0)"

lemma compare_simps [simp]:
  "compare x y \<le> 0 \<longleftrightarrow> x \<le> y" "compare x y < 0 \<longleftrightarrow> x < y" "compare x y = 0 \<longleftrightarrow> x = y"
  "0 < compare x y \<longleftrightarrow> y < x"
  by (auto simp: compare_def)

text \<open>
  The contract of a comparison function (a total preorder) and what sorting with it gives.
\<close>

locale three_way =
  fixes cmp :: "'a \<Rightarrow> 'a \<Rightarrow> int"
  assumes cmp_antisym: "cmp x y \<le> 0 \<or> cmp y x \<le> 0"
    and cmp_trans: "cmp x y \<le> 0 \<Longrightarrow> cmp y z \<le> 0 \<Longrightarrow> cmp x z \<le> 0"
begin

lemma mset_insertCmp: "mset (insertCmp cmp x ys) = add_mset x (mset ys)"
  by (induction ys) auto

lemma mset_SortStableFunc: "mset (SortStableFunc cmp xs) = mset xs"
  by (induction xs) (auto simp: SortStableFunc_def mset_insertCmp)

lemma set_SortStableFunc: "set (SortStableFunc cmp xs) = set xs"
  using mset_SortStableFunc [of xs] by (metis set_mset_mset)

lemma sorted_insertCmp:
  "sorted_wrt (\<lambda>a b. cmp a b \<le> 0) ys \<Longrightarrow> sorted_wrt (\<lambda>a b. cmp a b \<le> 0) (insertCmp cmp x ys)"
proof (induction ys)
  case (Cons y ys)
  have "set (insertCmp cmp x ys) = insert x (set ys)"
    using mset_insertCmp [of x ys] by (metis set_mset_add_mset_insert set_mset_mset)
  with Cons show ?case using cmp_antisym [of x y] by (auto intro: cmp_trans)
qed simp

lemma sorted_SortStableFunc: "sorted_wrt (\<lambda>a b. cmp a b \<le> 0) (SortStableFunc cmp xs)"
  by (induction xs) (auto simp: SortStableFunc_def sorted_insertCmp)

lemma filter_insertCmp:
  assumes "\<And>a b. P a \<Longrightarrow> P b \<Longrightarrow> cmp a b \<le> 0"
  shows "sorted_wrt (\<lambda>a b. cmp a b \<le> 0) ys \<Longrightarrow>
    filter P (insertCmp cmp x ys) = (if P x then x # filter P ys else filter P ys)"
proof (induction ys)
  case (Cons y ys)
  then show ?case using assms [of x] by (auto intro: cmp_trans)
qed simp

text \<open>Elements that compare equal keep their order.\<close>

lemma stable_SortStableFunc:
  assumes "\<And>a b. P a \<Longrightarrow> P b \<Longrightarrow> cmp a b \<le> 0"
  shows "filter P (SortStableFunc cmp xs) = filter P xs"
proof (induction xs)
  case (Cons x xs)
  have "SortStableFunc cmp (x # xs) = insertCmp cmp x (SortStableFunc cmp xs)"
    by (simp add: SortStableFunc_def)
  with Cons show ?case
    using filter_insertCmp [OF assms sorted_SortStableFunc] by simp
qed (simp add: SortStableFunc_def)

end

end
