(* ===== verification/KubeTypes.thy ===== *)
theory KubeTypes
  imports GoLib
begin

text \<open>
  The Kubernetes objects the program stores and passes around, with the fields its code reads
  or writes. A structure the code only copies (a resource claim, the rest of a volume and the
  like) is an \<open>opaque\<close> value with equality.

  \<^item> A \<open>resource.Quantity\<close> is an integer number of nano units, its exact value; \<open>Add\<close>, \<open>Sub\<close> and
    \<open>Cmp\<close> are exact there.
  \<^item> A \<open>metav1.Time\<close> is an integer, \<open>0\<close> the zero time. A nil pointer is \<open>None\<close>.
  \<^item> A \<open>kobj\<close> is what a \<open>metav1.Object\<close> pointer points to. Its \<open>payload\<close> tells the dynamic Go
    type; \<open>MetaOnly\<close> stands for the types that are a \<open>metav1.Object\<close> but not a
    \<open>runtime.Object\<close> (\<open>PodInfo\<close>, \<open>NodeInfo\<close>).
\<close>

type_synonym opaque = string
type_synonym quantity = int
type_synonym time = int
type_synonym resource_list = "(string, quantity) gomap"
type_synonym labels = "(string, string) gomap"

record gvk =
  gvkGroup :: string
  gvkVersion :: string
  gvkKind :: string

record object_name =
  onNamespace :: string
  onName :: string

text \<open>\<open>cache.ObjectName.String()\<close>: the key of an object in a \<open>cache.Store\<close>.\<close>

definition objectNameString :: "object_name \<Rightarrow> string" where
  "objectNameString n =
     (if onNamespace n = [] then onName n else onNamespace n @ ''/'' @ onName n)"

record owner_reference =
  orAPIVersion :: string
  orKind :: string
  orName :: string
  orUID :: string

record object_meta =
  mName :: string
  mGenerateName :: string
  mNamespace :: string
  mUID :: string
  mResourceVersion :: string
  mCreationTimestamp :: time
  mDeletionTimestamp :: "time option"
  mLabels :: labels
  mAnnotations :: labels
  mOwnerReferences :: "owner_reference list"

text \<open>
  Scheduling constraints. Label and node selector requirements have the same three fields; a
  pod affinity and a pod anti-affinity have the same two lists.
\<close>

record selector_requirement =
  srKey :: string
  srOperator :: string
  srValues :: "string list"

record label_selector =
  selMatchLabels :: labels
  selMatchExpressions :: "selector_requirement list"

record node_selector_term =
  ntmMatchExpressions :: "selector_requirement list"
  ntmMatchFields :: "selector_requirement list"

record preferred_scheduling_term =
  psgWeight :: int
  psgPreference :: node_selector_term

record node_affinity =
  naRequired :: "node_selector_term list option"
  naPreferred :: "preferred_scheduling_term list"

record pod_affinity_term =
  patLabelSelector :: "label_selector option"
  patNamespaces :: "string list"
  patTopologyKey :: string
  patNamespaceSelector :: "label_selector option"
  patMatchLabelKeys :: "string list"
  patMismatchLabelKeys :: "string list"

record weighted_pod_affinity_term =
  wptWeight :: int
  wptTerm :: pod_affinity_term

record pod_affinity =
  paRequired :: "pod_affinity_term list"
  paPreferred :: "weighted_pod_affinity_term list"

record affinity =
  afNodeAffinity :: "node_affinity option"
  afPodAffinity :: "pod_affinity option"
  afPodAntiAffinity :: "pod_affinity option"

record toleration =
  tolKey :: string
  tolOperator :: string
  tolValue :: string
  tolEffect :: string
  tolSeconds :: "int option"

record taint =
  tntKey :: string
  tntValue :: string
  tntEffect :: string
  tntTimeAdded :: "time option"

record topology_spread_constraint =
  tscMaxSkew :: int
  tscTopologyKey :: string
  tscWhenUnsatisfiable :: string
  tscLabelSelector :: "label_selector option"
  tscMinDomains :: "int option"
  tscNodeAffinityPolicy :: "string option"
  tscNodeTaintsPolicy :: "string option"
  tscMatchLabelKeys :: "string list"

record container =
  cName :: string
  cRequests :: resource_list

record volume =
  volName :: string
  volPVC :: "string option"    \<comment> \<open>\<open>PersistentVolumeClaim.ClaimName\<close>\<close>
  volProjected :: "opaque option"
  volRest :: opaque

record pod_condition =
  pcType :: string
  pcStatus :: string
  pcReason :: string
  pcMessage :: string
  pcLastProbeTime :: time
  pcLastTransitionTime :: time

record pod_spec =
  psVolumes :: "volume list"
  psInitContainers :: "container list"
  psContainers :: "container list"
  psNodeSelector :: labels
  psNodeName :: string
  psAffinity :: "affinity option"
  psSchedulerName :: string
  psTolerations :: "toleration list"
  psPriorityClassName :: string
  psPriority :: "int option"
  psRuntimeClassName :: "string option"
  psPreemptionPolicy :: "string option"
  psOverhead :: resource_list
  psTopologySpreadConstraints :: "topology_spread_constraint list"
  psResourceClaims :: "opaque list"

record pod_status =
  pstPhase :: string
  pstConditions :: "pod_condition list"
  pstNominatedNodeName :: string

record node_condition =
  ncType :: string
  ncStatus :: string
  ncLastTransitionTime :: time

record node_spec =
  nsProviderID :: string
  nsTaints :: "taint list"
  nsUnschedulable :: bool

record node_status =
  nstCapacity :: resource_list
  nstAllocatable :: resource_list
  nstConditions :: "node_condition list"

record object_reference =
  refKind :: string
  refNamespace :: string
  refName :: string
  refUID :: string
  refAPIVersion :: string

text \<open>A node selector: terms, each a list of requirements (key, operator, values).\<close>

type_synonym node_selector = "(string \<times> string \<times> string list) list list"

record pv_spec =
  pvCapacity :: resource_list
  pvNodeAffinity :: "node_selector option option" \<comment> \<open>\<open>*VolumeNodeAffinity\<close>, then its \<open>Required\<close>\<close>
  pvClaimRef :: "object_reference option"
  pvStorageClassName :: string
  pvVolumeMode :: "string option"
  pvAccessModes :: "string list"
  pvReclaimPolicy :: string
  pvVolumeAttributesClassName :: "string option"

record pvc_spec =
  pvcStorageClassName :: "string option"
  pvcVolumeName :: string
  pvcVolumeMode :: "string option"
  pvcAccessModes :: "string list"
  pvcRequests :: resource_list
  pvcSelector :: "label_selector option"
  pvcVolumeAttributesClassName :: "string option"
  pvcRest :: opaque

record storage_class =
  scProvisioner :: string
  scVolumeBindingMode :: "string option"
  scAllowedTopologies :: "(string \<times> string list) list list option"
  scRest :: opaque

record csi_driver =
  cdName :: string
  cdNodeID :: string
  cdRest :: opaque

record event_body =
  evRegarding :: object_reference
  evReason :: string
  evAction :: string
  evNote :: string
  evType :: string
  evEventTime :: time

datatype payload =
    PodBody pod_spec pod_status
  | NodeBody node_spec node_status
  | PVBody pv_spec string "time option"      \<comment> \<open>spec, \<open>Status.Phase\<close>, \<open>Status.LastPhaseTransitionTime\<close>\<close>
  | PVCBody pvc_spec string resource_list    \<comment> \<open>spec, \<open>Status.Phase\<close>, \<open>Status.Capacity\<close>\<close>
  | StorageClassBody storage_class
  | EventBody event_body
  | CSINodeBody "csi_driver list"
  | OtherBody string opaque                  \<comment> \<open>kind of the Go type, content\<close>
  | MetaOnly opaque

record kobj =
  objGVK :: gvk
  ometa :: object_meta
  body :: payload

definition isRuntimeObject :: "kobj \<Rightarrow> bool" where
  "isRuntimeObject o' = (case body o' of MetaOnly _ \<Rightarrow> False | _ \<Rightarrow> True)"

text \<open>The \<open>Kind\<close> under which the scheme registers the Go type of a runtime object.\<close>

definition goKind :: "payload \<Rightarrow> string" where
  "goKind p = (case p of
       PodBody _ _ \<Rightarrow> ''Pod'' | NodeBody _ _ \<Rightarrow> ''Node'' | PVBody _ _ _ \<Rightarrow> ''PersistentVolume''
     | PVCBody _ _ _ \<Rightarrow> ''PersistentVolumeClaim'' | StorageClassBody _ \<Rightarrow> ''StorageClass''
     | EventBody _ \<Rightarrow> ''Event'' | CSINodeBody _ \<Rightarrow> ''CSINode'' | OtherBody k _ \<Rightarrow> k
     | MetaOnly _ \<Rightarrow> [])"

definition emptyMeta :: object_meta where
  "emptyMeta = \<lparr>mName = [], mGenerateName = [], mNamespace = [], mUID = [], mResourceVersion = [],
     mCreationTimestamp = 0, mDeletionTimestamp = None, mLabels = [], mAnnotations = [],
     mOwnerReferences = []\<rparr>"

definition emptyPodSpec :: pod_spec where
  "emptyPodSpec = \<lparr>psVolumes = [], psInitContainers = [], psContainers = [], psNodeSelector = [],
     psNodeName = [], psAffinity = None, psSchedulerName = [], psTolerations = [],
     psPriorityClassName = [], psPriority = None, psRuntimeClassName = None,
     psPreemptionPolicy = None, psOverhead = [], psTopologySpreadConstraints = [],
     psResourceClaims = []\<rparr>"

definition emptyPodStatus :: pod_status where
  "emptyPodStatus = \<lparr>pstPhase = [], pstConditions = [], pstNominatedNodeName = []\<rparr>"

definition emptyGVK :: gvk where
  "emptyGVK = \<lparr>gvkGroup = [], gvkVersion = [], gvkKind = []\<rparr>"

definition zeroObj :: kobj where
  "zeroObj = \<lparr>objGVK = emptyGVK, ometa = emptyMeta, body = MetaOnly []\<rparr>"

text \<open>\<open>schema.GroupVersion.String()\<close>.\<close>

definition groupVersionString :: "gvk \<Rightarrow> string" where
  "groupVersionString g = (if gvkGroup g = [] then gvkVersion g else gvkGroup g @ ''/'' @ gvkVersion g)"

end
