(* ===== verification/TypeInfo.thy ===== *)
theory TypeInfo
  imports KubeTypes
begin

text \<open>
  The type registry, \<open>src/api/minkapi/typeinfo/typeinfo.go\<close>: one descriptor per supported kind
  and the list of them, from which every view builds its resource stores, and the discovery
  documents derived from it. The group and version constants are those of the Kubernetes API
  packages the file names. The storage version hash is represented by the string that the
  code digests.
\<close>

record api_resource =
  arName :: string
  arSingularName :: string
  arNamespaced :: bool
  arGroup :: string
  arVersion :: string
  arKind :: string
  arVerbs :: "string list"
  arShortNames :: "string list"
  arCategories :: "string list"
  arStorageVersionHash :: string

record descriptor =
  GVK :: gvk
  ListGVK :: gvk
  GVR :: "string \<times> string \<times> string"   \<comment> \<open>group, version, resource\<close>
  ListTypeMeta :: "string \<times> string"      \<comment> \<open>kind, API version\<close>
  APIResource :: api_resource

definition GetKind :: "descriptor \<Rightarrow> string" where
  "GetKind d = gvkKind (GVK d)"

definition GetListKind :: "descriptor \<Rightarrow> string" where
  "GetListKind d = gvkKind (ListGVK d)"

definition storageVersionHash :: "gvk \<Rightarrow> string" where
  "storageVersionHash g = gvkGroup g @ ''/'' @ gvkVersion g @ ''/'' @ gvkKind g"

definition supportedVerbs :: "string list" where
  "supportedVerbs = [''create'', ''delete'', ''deletecollection'', ''get'', ''list'', ''patch'',
     ''watch'', ''update'']"

definition NewDescriptor :: "gvk \<Rightarrow> string \<Rightarrow> bool \<Rightarrow> string \<Rightarrow> string list \<Rightarrow> descriptor" where
  "NewDescriptor g listKind namespaced pluralName shortNames =
     \<lparr>GVK = g,
      ListGVK = g\<lparr>gvkKind := listKind\<rparr>,
      GVR = (gvkGroup g, gvkVersion g, pluralName),
      ListTypeMeta = (listKind, groupVersionString g),
      APIResource =
        \<lparr>arName = pluralName, arSingularName = gvkKind g, arNamespaced = namespaced,
         arGroup = gvkGroup g, arVersion = gvkVersion g, arKind = gvkKind g, arVerbs = supportedVerbs,
         arShortNames = shortNames, arCategories = [''all''],
         arStorageVersionHash = storageVersionHash g\<rparr>\<rparr>"

definition NamespacesDescriptor :: descriptor where
  "NamespacesDescriptor =
     NewDescriptor \<lparr>gvkGroup = [], gvkVersion = ''v1'', gvkKind = ''Namespace''\<rparr> ''NamespaceList''
       False ''namespaces'' [''ns'']"

definition ServiceAccountsDescriptor :: descriptor where
  "ServiceAccountsDescriptor =
     NewDescriptor \<lparr>gvkGroup = [], gvkVersion = ''v1'', gvkKind = ''ServiceAccount''\<rparr> ''ServiceAccountList''
       True ''serviceaccounts'' [''sa'']"

definition ConfigMapsDescriptor :: descriptor where
  "ConfigMapsDescriptor =
     NewDescriptor \<lparr>gvkGroup = [], gvkVersion = ''v1'', gvkKind = ''ConfigMap''\<rparr> ''ConfigMapList''
       True ''configmaps'' [''cm'']"

definition NodesDescriptor :: descriptor where
  "NodesDescriptor =
     NewDescriptor \<lparr>gvkGroup = [], gvkVersion = ''v1'', gvkKind = ''Node''\<rparr> ''NodeList''
       False ''nodes'' [''no'']"

definition PodsDescriptor :: descriptor where
  "PodsDescriptor =
     NewDescriptor \<lparr>gvkGroup = [], gvkVersion = ''v1'', gvkKind = ''Pod''\<rparr> ''PodList''
       True ''pods'' [''po'']"

definition ServicesDescriptor :: descriptor where
  "ServicesDescriptor =
     NewDescriptor \<lparr>gvkGroup = [], gvkVersion = ''v1'', gvkKind = ''Service''\<rparr> ''ServiceList''
       True ''services'' [''svc'']"

definition PersistentVolumesDescriptor :: descriptor where
  "PersistentVolumesDescriptor =
     NewDescriptor \<lparr>gvkGroup = [], gvkVersion = ''v1'', gvkKind = ''PersistentVolume''\<rparr> ''PersistentVolumeList''
       False ''persistentvolumes'' [''pv'']"

definition PersistentVolumeClaimsDescriptor :: descriptor where
  "PersistentVolumeClaimsDescriptor =
     NewDescriptor \<lparr>gvkGroup = [], gvkVersion = ''v1'', gvkKind = ''PersistentVolumeClaim''\<rparr> ''PersistentVolumeClaimList''
       True ''persistentvolumeclaims'' [''pvc'']"

definition ReplicationControllersDescriptor :: descriptor where
  "ReplicationControllersDescriptor =
     NewDescriptor \<lparr>gvkGroup = [], gvkVersion = ''v1'', gvkKind = ''ReplicationController''\<rparr> ''ReplicationControllerList''
       True ''replicationcontrollers'' [''rc'']"

definition PriorityClassesDescriptor :: descriptor where
  "PriorityClassesDescriptor =
     NewDescriptor \<lparr>gvkGroup = ''scheduling.k8s.io'', gvkVersion = ''v1'', gvkKind = ''PriorityClass''\<rparr> ''PriorityClassList''
       False ''priorityclasses'' [''pc'']"

definition LeaseDescriptor :: descriptor where
  "LeaseDescriptor =
     NewDescriptor \<lparr>gvkGroup = ''coordination.k8s.io'', gvkVersion = ''v1'', gvkKind = ''Lease''\<rparr> ''LeaseList''
       True ''leases'' []"

definition EventsDescriptor :: descriptor where
  "EventsDescriptor =
     NewDescriptor \<lparr>gvkGroup = ''events.k8s.io'', gvkVersion = ''v1'', gvkKind = ''Event''\<rparr> ''EventList''
       True ''events'' [''ev'']"

definition RolesDescriptor :: descriptor where
  "RolesDescriptor =
     NewDescriptor \<lparr>gvkGroup = ''rbac.authorization.k8s.io'', gvkVersion = ''v1'', gvkKind = ''Role''\<rparr> ''RoleList''
       True ''roles'' []"

definition DeploymentDescriptor :: descriptor where
  "DeploymentDescriptor =
     NewDescriptor \<lparr>gvkGroup = ''apps'', gvkVersion = ''v1'', gvkKind = ''Deployment''\<rparr> ''DeploymentList''
       True ''deployments'' [''deploy'']"

definition ReplicaSetDescriptor :: descriptor where
  "ReplicaSetDescriptor =
     NewDescriptor \<lparr>gvkGroup = ''apps'', gvkVersion = ''v1'', gvkKind = ''ReplicaSet''\<rparr> ''ReplicaSetList''
       True ''replicasets'' [''rs'']"

definition StatefulSetDescriptor :: descriptor where
  "StatefulSetDescriptor =
     NewDescriptor \<lparr>gvkGroup = ''apps'', gvkVersion = ''v1'', gvkKind = ''StatefulSet''\<rparr> ''StatefulSetList''
       True ''statefulsets'' [''sts'']"

definition PodDisruptionBudgetDescriptor :: descriptor where
  "PodDisruptionBudgetDescriptor =
     NewDescriptor \<lparr>gvkGroup = ''policy'', gvkVersion = ''v1'', gvkKind = ''PodDisruptionBudget''\<rparr> ''PodDisruptionBudgetList''
       True ''poddisruptionbudgets'' [''pdb'']"

definition StorageClassDescriptor :: descriptor where
  "StorageClassDescriptor =
     NewDescriptor \<lparr>gvkGroup = ''storage.k8s.io'', gvkVersion = ''v1'', gvkKind = ''StorageClass''\<rparr> ''StorageClassList''
       False ''storageclasses'' [''sc'']"

definition CSIDriverDescriptor :: descriptor where
  "CSIDriverDescriptor =
     NewDescriptor \<lparr>gvkGroup = ''storage.k8s.io'', gvkVersion = ''v1'', gvkKind = ''CSIDriver''\<rparr> ''CSIDriverList''
       False ''csidrivers'' []"

definition CSIStorageCapacityDescriptor :: descriptor where
  "CSIStorageCapacityDescriptor =
     NewDescriptor \<lparr>gvkGroup = ''storage.k8s.io'', gvkVersion = ''v1'', gvkKind = ''CSIStorageCapacity''\<rparr> ''CSIStorageCapacityList''
       True ''csistoragecapacities'' []"

definition CSINodeDescriptor :: descriptor where
  "CSINodeDescriptor =
     NewDescriptor \<lparr>gvkGroup = ''storage.k8s.io'', gvkVersion = ''v1'', gvkKind = ''CSINode''\<rparr> ''CSINodeList''
       False ''csinodes'' []"

definition VolumeAttachmentDescriptor :: descriptor where
  "VolumeAttachmentDescriptor =
     NewDescriptor \<lparr>gvkGroup = ''storage.k8s.io'', gvkVersion = ''v1'', gvkKind = ''VolumeAttachment''\<rparr> ''VolumeAttachmentList''
       False ''volumeattachments'' []"

definition VolumeAttributesClassDescriptor :: descriptor where
  "VolumeAttributesClassDescriptor =
     NewDescriptor \<lparr>gvkGroup = ''storage.k8s.io'', gvkVersion = ''v1'', gvkKind = ''VolumeAttributesClass''\<rparr> ''VolumeAttributesClassList''
       False ''volumeattributesclasses'' []"

definition RuntimeClassDescriptor :: descriptor where
  "RuntimeClassDescriptor =
     NewDescriptor \<lparr>gvkGroup = ''node.k8s.io'', gvkVersion = ''v1'', gvkKind = ''RuntimeClass''\<rparr> ''RuntimeClassList''
       False ''runtimeclasses'' []"

definition ResourceSliceDescriptor :: descriptor where
  "ResourceSliceDescriptor =
     NewDescriptor \<lparr>gvkGroup = ''resource.k8s.io'', gvkVersion = ''v1'', gvkKind = ''ResourceSlice''\<rparr> ''ResourceSliceList''
       False ''resourceslices'' []"

definition ResourceClaimDescriptor :: descriptor where
  "ResourceClaimDescriptor =
     NewDescriptor \<lparr>gvkGroup = ''resource.k8s.io'', gvkVersion = ''v1'', gvkKind = ''ResourceClaim''\<rparr> ''ResourceClaimList''
       True ''resourceclaims'' []"

definition DeviceClassDescriptor :: descriptor where
  "DeviceClassDescriptor =
     NewDescriptor \<lparr>gvkGroup = ''resource.k8s.io'', gvkVersion = ''v1'', gvkKind = ''DeviceClass''\<rparr> ''DeviceClassList''
       False ''deviceclasses'' []"

definition SupportedDescriptors :: "descriptor list" where
  "SupportedDescriptors =
     [NamespacesDescriptor, ServiceAccountsDescriptor, ConfigMapsDescriptor,
      NodesDescriptor, PodsDescriptor, ServicesDescriptor,
      PersistentVolumesDescriptor, PersistentVolumeClaimsDescriptor, ReplicationControllersDescriptor,
      PriorityClassesDescriptor, LeaseDescriptor, EventsDescriptor,
      RolesDescriptor, DeploymentDescriptor, ReplicaSetDescriptor,
      StatefulSetDescriptor, PodDisruptionBudgetDescriptor, StorageClassDescriptor,
      CSIDriverDescriptor, CSIStorageCapacityDescriptor, CSINodeDescriptor,
      VolumeAttachmentDescriptor, VolumeAttributesClassDescriptor, RuntimeClassDescriptor,
      ResourceSliceDescriptor, ResourceClaimDescriptor, DeviceClassDescriptor]"

lemmas descriptor_defs =
  NewDescriptor_def
  NamespacesDescriptor_def
  ServiceAccountsDescriptor_def
  ConfigMapsDescriptor_def
  NodesDescriptor_def
  PodsDescriptor_def
  ServicesDescriptor_def
  PersistentVolumesDescriptor_def
  PersistentVolumeClaimsDescriptor_def
  ReplicationControllersDescriptor_def
  PriorityClassesDescriptor_def
  LeaseDescriptor_def
  EventsDescriptor_def
  RolesDescriptor_def
  DeploymentDescriptor_def
  ReplicaSetDescriptor_def
  StatefulSetDescriptor_def
  PodDisruptionBudgetDescriptor_def
  StorageClassDescriptor_def
  CSIDriverDescriptor_def
  CSIStorageCapacityDescriptor_def
  CSINodeDescriptor_def
  VolumeAttachmentDescriptor_def
  VolumeAttributesClassDescriptor_def
  RuntimeClassDescriptor_def
  ResourceSliceDescriptor_def
  ResourceClaimDescriptor_def
  DeviceClassDescriptor_def

lemma gvk_descriptor [simp]: "GVK (NewDescriptor g l n p s) = g"
  "ListGVK (NewDescriptor g l n p s) = g\<lparr>gvkKind := l\<rparr>"
  by (simp_all add: NewDescriptor_def)

text \<open>Discovery: the non-core API groups, one per group name, in the order of first insertion.\<close>

record api_group =
  agName :: string
  agVersions :: "(string \<times> string) list"
  agPreferredVersion :: "string \<times> string"

definition buildAPIGroupList :: "descriptor list \<Rightarrow> api_group list" where
  "buildAPIGroupList ds = map snd
     (fold (\<lambda>d groups.
        if gvkGroup (GVK d) = [] then groups
        else let gv = (groupVersionString (GVK d), gvkVersion (GVK d)) in
             AList.update (fst (GVR d))
               \<lparr>agName = fst (GVR d), agVersions = [gv], agPreferredVersion = gv\<rparr> groups) ds [])"

end
