(* ===== verification/ObjUtil.thy ===== *)
theory ObjUtil
  imports TypeInfo
begin

text \<open>
  Object helpers, \<open>src/common/objutil/objutil.go\<close>: names and keys, resource versions, resource
  lists, patching, sorting. JSON encoding and the two patch algorithms belong to libraries and
  are the fields of a \<open>patcher\<close>, an argument of the functions that use them.
\<close>

subsection \<open>Names\<close>

definition CacheName :: "kobj \<Rightarrow> object_name" where
  "CacheName mo = \<lparr>onNamespace = mNamespace (ometa mo), onName = mName (ometa mo)\<rparr>"

record namespaced_name =
  nnNamespace :: string
  nnName :: string

text \<open>\<open>NamespacedName.String()\<close> of \<open>src/api/common/types\<close> always has the separator.\<close>

definition NamespacedName :: "object_meta \<Rightarrow> namespaced_name" where
  "NamespacedName m = \<lparr>nnNamespace = mNamespace m, nnName = mName m\<rparr>"

definition NamespacedNameFromEventRegarding :: "event_body \<Rightarrow> namespaced_name" where
  "NamespacedNameFromEventRegarding ev =
     \<lparr>nnNamespace = refNamespace (evRegarding ev), nnName = refName (evRegarding ev)\<rparr>"

definition namespacedNameString :: "namespaced_name \<Rightarrow> string" where
  "namespacedNameString n = nnNamespace n @ ''/'' @ nnName n"

definition GetFullNames :: "namespaced_name list \<Rightarrow> string list" where
  "GetFullNames ns = (if ns = [] then [] else map namespacedNameString ns)"

text \<open>
  \<open>GenerateName\<close>: the random suffix is an argument; the base is cut so that the result has at
  most 253 characters.
\<close>

definition GenerateName :: "string \<Rightarrow> string \<Rightarrow> string" where
  "GenerateName suffix base =
     (if length base + length suffix > 253 then take (253 - length suffix) base else base) @ suffix"

definition cacheKey :: "kobj \<Rightarrow> string" where
  "cacheKey mo = objectNameString (CacheName mo)"

lemmas name_defs = CacheName_def NamespacedName_def cacheKey_def objectNameString_def

subsection \<open>Kinds and resource versions\<close>

definition SetMetaObjectGVK :: "kobj \<Rightarrow> gvk \<Rightarrow> kobj" where
  "SetMetaObjectGVK o' g =
     (if isRuntimeObject o' \<and> gvkKind (objGVK o') = [] \<and> gvkVersion (objGVK o') = []
      then o'\<lparr>objGVK := g\<rparr> else o')"

definition ParseResourceVersion :: "string \<Rightarrow> 64 word outcome" where
  "ParseResourceVersion rv =
     (if rv = [] then Ok 0
      else wrapErr (\<lambda>e. Wrapped ''cannot parse resource version'' [e]) (ParseInt rv))"

definition ParseObjectResourceVersion :: "kobj \<Rightarrow> 64 word outcome" where
  "ParseObjectResourceVersion o' =
     wrapErr (\<lambda>e. Wrapped ''cannot parse resource version for object'' [e])
       (ParseResourceVersion (mResourceVersion (ometa o')))"

text \<open>Comparison of \<open>int64\<close> values is signed.\<close>

definition maxInt64 :: "64 word \<Rightarrow> 64 word \<Rightarrow> 64 word" where
  "maxInt64 a b = (if sint b > sint a then b else a)"

fun MaxResourceVersionLoop :: "64 word \<Rightarrow> kobj list \<Rightarrow> 64 word outcome" where
  "MaxResourceVersionLoop maxVersion [] = Ok maxVersion"
| "MaxResourceVersionLoop maxVersion (o' # os) =
     (case ParseInt (mResourceVersion (ometa o')) of
        Ok version \<Rightarrow> MaxResourceVersionLoop (maxInt64 maxVersion version) os
      | Err e \<Rightarrow> Err (Wrapped ''failed to parse resource version'' [e])
      | Panic m \<Rightarrow> Panic m)"

definition MaxResourceVersion :: "kobj list \<Rightarrow> 64 word outcome" where
  "MaxResourceVersion objs = MaxResourceVersionLoop 0 objs"

subsection \<open>Resource lists\<close>

definition IsResourceListEqual :: "resource_list \<Rightarrow> resource_list \<Rightarrow> bool" where
  "IsResourceListEqual r1 r2 \<longleftrightarrow>
     list_all (\<lambda>(n, q1). map_of r2 n = Some q1) r1 \<and>
     list_all (\<lambda>(n, q2). map_of r1 n = Some q2) r2"

definition SubtractResources :: "resource_list \<Rightarrow> resource_list \<Rightarrow> resource_list" where
  "SubtractResources a b = fold (\<lambda>(res, qty) a.
     case map_of a res of Some v \<Rightarrow> AList.update res (v - qty) a | None \<Rightarrow> a) b a"

text \<open>
  The values of the map are of type \<open>any\<close>; \<open>None\<close> stands for one that is not a string, on which
  the type assertion panics. \<open>resource.MustParse\<close> panics on a malformed string; the parser is an
  argument.
\<close>

fun StringKeyValueMapToResourceList ::
  "(string \<Rightarrow> quantity option) \<Rightarrow> (string, string option) gomap \<Rightarrow> resource_list outcome" where
  "StringKeyValueMapToResourceList parse [] = Ok []"
| "StringKeyValueMapToResourceList parse ((n, s) # m) =
     (case s of None \<Rightarrow> Panic ''interface conversion'' | Some str \<Rightarrow>
      case parse str of
        None \<Rightarrow> Panic ''cannot parse quantity''
      | Some q \<Rightarrow> bindO (StringKeyValueMapToResourceList parse m) (\<lambda>r. Ok ((n, q) # r)))"

subsection \<open>Labels, conversions, sorting\<close>

definition SelectorMatchesLabels ::
  "(label_selector \<Rightarrow> (labels \<Rightarrow> bool) outcome) \<Rightarrow> label_selector option \<Rightarrow> labels \<Rightarrow> bool outcome" where
  "SelectorMatchesLabels asSelector selector lbl =
     (case selector of
        None \<Rightarrow> Ok True
      | Some s \<Rightarrow> if selMatchLabels s = [] \<and> selMatchExpressions s = [] then Ok True
                  else bindO (asSelector s) (\<lambda>sel. Ok (sel lbl)))"

text \<open>Both slice conversions: the elements that are no runtime objects are an internal error.\<close>

fun SliceOfMetaObjToRuntimeObj :: "('a \<Rightarrow> kobj) \<Rightarrow> 'a list \<Rightarrow> 'a list outcome" where
  "SliceOfMetaObjToRuntimeObj rd [] = Ok []"
| "SliceOfMetaObjToRuntimeObj rd (item # items) =
     (if isRuntimeObject (rd item)
      then bindO (SliceOfMetaObjToRuntimeObj rd items) (\<lambda>r. Ok (item # r))
      else Err (ApiStatus InternalReason))"

definition SortByDecreasingCreationTime :: "kobj list \<Rightarrow> kobj list" where
  "SortByDecreasingCreationTime objs = SortStableFunc
     (\<lambda>a b. compare (mCreationTimestamp (ometa b)) (mCreationTimestamp (ometa a))) objs"

subsection \<open>Patching\<close>

type_synonym json = string

datatype patch_type = StrategicMergePatchType | MergePatchType | OtherPatchType string

record patcher =
  marshalObj :: "kobj \<Rightarrow> json outcome"
  strategicMerge :: "json \<Rightarrow> json \<Rightarrow> kobj \<Rightarrow> json outcome"
  jsonMerge :: "json \<Rightarrow> json \<Rightarrow> json outcome"
  unmarshalInto :: "json \<Rightarrow> kobj \<Rightarrow> goerr option \<times> kobj"
    \<comment> \<open>decoding writes into the object it is given, also when it fails\<close>
  parseWrapper :: "json \<Rightarrow> (string, json) gomap outcome"
  marshalStatus :: "payload \<Rightarrow> json outcome"
  strategicMergeStatus :: "json \<Rightarrow> json \<Rightarrow> payload \<Rightarrow> json outcome"
  unmarshalStatus :: "json \<Rightarrow> payload \<Rightarrow> payload outcome"
    \<comment> \<open>a fresh status of the same type, in a body of that type\<close>

text \<open>The object is patched in place: the second component is what the pointer holds after.\<close>

definition PatchObject :: "patcher \<Rightarrow> kobj \<Rightarrow> patch_type \<Rightarrow> json \<Rightarrow> (unit, kobj) eff" where
  "PatchObject pt o' patchType patchBytes =
     (case bindO (wrapErr (\<lambda>e. Wrapped ''failed to marshal object'' [e]) (marshalObj pt o')) (\<lambda>orig.
        case patchType of
          StrategicMergePatchType \<Rightarrow>
            wrapErr (\<lambda>e. Wrapped ''failed to apply strategic merge patch'' [e])
              (strategicMerge pt orig patchBytes o')
        | MergePatchType \<Rightarrow>
            wrapErr (\<lambda>e. Wrapped ''failed to apply merge-patch'' [e]) (jsonMerge pt orig patchBytes)
        | OtherPatchType _ \<Rightarrow> Err (Plain ''unsupported patch type'')) of
        Ok patched \<Rightarrow>
          (case unmarshalInto pt patched o' of
             (None, o'') \<Rightarrow> (Ok (), o'')
           | (Some e, o'') \<Rightarrow> (Err (Wrapped ''failed to unmarshal patched JSON'' [e]), o''))
      | Err e \<Rightarrow> (Err e, o')
      | Panic m \<Rightarrow> (Panic m, o'))"

definition hasStatus :: "payload \<Rightarrow> bool" where
  "hasStatus p = (case p of
       PodBody _ _ \<Rightarrow> True | NodeBody _ _ \<Rightarrow> True | PVBody _ _ _ \<Rightarrow> True | PVCBody _ _ _ \<Rightarrow> True
     | OtherBody k _ \<Rightarrow> k \<in> {''Namespace'', ''Service'', ''ReplicationController'', ''Deployment'',
         ''ReplicaSet'', ''StatefulSet'', ''PodDisruptionBudget'', ''VolumeAttachment'',
         ''ResourceClaim''}
     | _ \<Rightarrow> False)"

definition setStatus :: "payload \<Rightarrow> payload \<Rightarrow> payload" where
  "setStatus p q = (case (p, q) of
       (PodBody s _, PodBody _ st) \<Rightarrow> PodBody s st
     | (NodeBody s _, NodeBody _ st) \<Rightarrow> NodeBody s st
     | (PVBody s _ _, PVBody _ ph t) \<Rightarrow> PVBody s ph t
     | (PVCBody s _ _, PVCBody _ ph c) \<Rightarrow> PVCBody s ph c
     | (OtherBody k _, OtherBody _ c) \<Rightarrow> OtherBody k c
     | _ \<Rightarrow> p)"

definition PatchObjectStatus :: "patcher \<Rightarrow> kobj \<Rightarrow> json \<Rightarrow> kobj outcome" where
  "PatchObjectStatus pt o' patch =
     (if \<not> hasStatus (body o') then Err (Plain ''object has no Status field'')
      else bindO (wrapErr (\<lambda>e. Wrapped ''failed to parse patch'' [e]) (parseWrapper pt patch)) (\<lambda>w.
        case map_of w ''status'' of
          None \<Rightarrow> Err (Plain ''patch does not contain a status'')
        | Some raw \<Rightarrow>
            bindO (wrapErr (\<lambda>e. Wrapped ''failed to marshal original status'' [e])
                     (marshalStatus pt (body o'))) (\<lambda>orig.
            bindO (wrapErr (\<lambda>e. Wrapped ''failed to apply strategic merge patch'' [e])
                     (strategicMergeStatus pt orig raw (body o'))) (\<lambda>patched.
            bindO (wrapErr (\<lambda>e. Wrapped ''failed to unmarshal patched status'' [e])
                     (unmarshalStatus pt patched (body o'))) (\<lambda>st.
            Ok (o'\<lparr>body := setStatus (body o') st\<rparr>))))))"

end
