(* ===== verification/Memory.thy ===== *)
theory Memory
  imports ObjUtil
begin

text \<open>
  The memory the views share. Objects are held by pointer: a store keeps the pointer it is
  given, \<open>GetObject\<close> hands out that same pointer, and a patch writes through it, so two stores
  can share one object. The atomic \<open>int64\<close> version counters are shared between a sandbox store
  and the store of its delegate. The clock, the UUID generator and the random name suffix are
  infinite supplies read at a tick; nothing is known of their values.
\<close>

type_synonym addr = nat
type_synonym cref = nat

record mem =
  cells :: "addr \<Rightarrow> kobj"
  nextAddr :: addr
  counters :: "cref \<Rightarrow> 64 word"
  nextCounter :: cref
  tick :: nat
  nowAt :: "nat \<Rightarrow> time"
  uuidAt :: "nat \<Rightarrow> string"
  suffixAt :: "nat \<Rightarrow> string"

definition rd :: "mem \<Rightarrow> addr \<Rightarrow> kobj" where
  "rd m a = cells m a"

definition wr :: "addr \<Rightarrow> kobj \<Rightarrow> mem \<Rightarrow> mem" where
  "wr a o' m = m\<lparr>cells := (cells m)(a := o')\<rparr>"

text \<open>A new object: what a composite literal with \<open>&\<close> or \<open>DeepCopy\<close> allocates.\<close>

definition alloc :: "kobj \<Rightarrow> mem \<Rightarrow> addr \<times> mem" where
  "alloc o' m = (nextAddr m, m\<lparr>cells := (cells m)(nextAddr m := o'), nextAddr := Suc (nextAddr m)\<rparr>)"

definition deepCopy :: "addr \<Rightarrow> mem \<Rightarrow> addr \<times> mem" where
  "deepCopy a m = alloc (rd m a) m"

definition updMeta :: "addr \<Rightarrow> (object_meta \<Rightarrow> object_meta) \<Rightarrow> mem \<Rightarrow> mem" where
  "updMeta a f m = wr a (rd m a\<lparr>ometa := f (ometa (rd m a))\<rparr>) m"

text \<open>\<open>time.Now()\<close>, \<open>uuid.NewUUID()\<close> and \<open>rand.String(5)\<close>.\<close>

definition now :: "mem \<Rightarrow> time \<times> mem" where
  "now m = (nowAt m (tick m), m\<lparr>tick := Suc (tick m)\<rparr>)"

definition newUUID :: "mem \<Rightarrow> string \<times> mem" where
  "newUUID m = (uuidAt m (tick m), m\<lparr>tick := Suc (tick m)\<rparr>)"

definition randSuffix :: "mem \<Rightarrow> string \<times> mem" where
  "randSuffix m = (suffixAt m (tick m), m\<lparr>tick := Suc (tick m)\<rparr>)"

text \<open>\<open>atomic.Int64.Add(1)\<close> returns the new value; the addition wraps.\<close>

definition counterAdd :: "cref \<Rightarrow> mem \<Rightarrow> 64 word \<times> mem" where
  "counterAdd c m = (counters m c + 1, m\<lparr>counters := (counters m)(c := counters m c + 1)\<rparr>)"

definition newCounter :: "mem \<Rightarrow> cref \<times> mem" where
  "newCounter m = (nextCounter m,
     m\<lparr>counters := (counters m)(nextCounter m := 0), nextCounter := Suc (nextCounter m)\<rparr>)"

lemmas mem_defs = rd_def wr_def alloc_def deepCopy_def updMeta_def now_def newUUID_def
  randSuffix_def counterAdd_def newCounter_def

definition emptyMem :: "(nat \<Rightarrow> time) \<Rightarrow> (nat \<Rightarrow> string) \<Rightarrow> (nat \<Rightarrow> string) \<Rightarrow> mem" where
  "emptyMem nw uu sf = \<lparr>cells = (\<lambda>_. zeroObj), nextAddr = 0, counters = (\<lambda>_. 0), nextCounter = 0,
     tick = 0, nowAt = nw, uuidAt = uu, suffixAt = sf\<rparr>"

subsection \<open>Reading after writing\<close>

lemma rd_wr [simp]: "rd (wr a o' m) b = (if b = a then o' else rd m b)"
  by (simp add: mem_defs)

lemma rd_updMeta [simp]:
  "rd (updMeta a f m) b = (if b = a then rd m a\<lparr>ometa := f (ometa (rd m a))\<rparr> else rd m b)"
  by (simp add: updMeta_def)

lemma rd_counterAdd [simp]: "rd (snd (counterAdd c m)) a = rd m a"
  by (simp add: mem_defs)

lemma rd_ticks [simp]:
  "rd (snd (now m)) a = rd m a" "rd (snd (newUUID m)) a = rd m a" "rd (snd (randSuffix m)) a = rd m a"
  by (simp_all add: mem_defs)

lemma counters_frame [simp]:
  "counters (wr a o' m) = counters m" "counters (updMeta a f m) = counters m"
  "counters (snd (now m)) = counters m" "counters (snd (newUUID m)) = counters m"
  "counters (snd (randSuffix m)) = counters m" "counters (snd (alloc o' m)) = counters m"
  "counters (snd (deepCopy a m)) = counters m"
  by (simp_all add: mem_defs)

lemma nextAddr_frame [simp]:
  "nextAddr (wr a o' m) = nextAddr m" "nextAddr (updMeta a f m) = nextAddr m"
  "nextAddr (snd (now m)) = nextAddr m" "nextAddr (snd (newUUID m)) = nextAddr m"
  "nextAddr (snd (randSuffix m)) = nextAddr m" "nextAddr (snd (counterAdd c m)) = nextAddr m"
  by (simp_all add: mem_defs)

lemma alloc_simps [simp]:
  "fst (alloc o' m) = nextAddr m" "nextAddr (snd (alloc o' m)) = Suc (nextAddr m)"
  "rd (snd (alloc o' m)) a = (if a = nextAddr m then o' else rd m a)"
  by (simp_all add: mem_defs)

lemma deepCopy_simps [simp]:
  "fst (deepCopy a m) = nextAddr m" "nextAddr (snd (deepCopy a m)) = Suc (nextAddr m)"
  "rd (snd (deepCopy a m)) b = (if b = nextAddr m then rd m a else rd m b)"
  by (simp_all add: deepCopy_def)

lemma counterAdd_simps [simp]:
  "fst (counterAdd c m) = counters m c + 1"
  "counters (snd (counterAdd c m)) = (counters m)(c := counters m c + 1)"
  by (simp_all add: mem_defs)

end
