(* ===== verification/MatchCriteria.thy ===== *)
theory MatchCriteria
  imports Memory
begin

text \<open>
  The query and option types of the store and view interfaces, \<open>src/api/minkapi/types.go\<close>. A
  \<open>labels.Selector\<close> is a library interface: here its \<open>Matches\<close> method, a predicate on labels.
  A Go set is the list of its elements. A context is polled by loops; \<open>ctx i\<close> is the answer of
  the \<open>i\<close>-th poll of \<open>ctx.Err()\<close>.
\<close>

record object_options =
  NoBroadcast :: bool
  MarkAsDeleted :: bool

definition noOpts :: object_options where
  "noOpts = \<lparr>NoBroadcast = False, MarkAsDeleted = False\<rparr>"

type_synonym selector = "labels \<Rightarrow> bool"
type_synonym ctx = "nat \<Rightarrow> goerr option"

definition background :: ctx where
  "background = (\<lambda>_. None)"

record match_criteria =
  mcLabelSelector :: "selector option"
  mcExcludeNames :: "string list"
  mcNames :: "string list"
  mcNamespace :: string

definition MatchAllCriteria :: match_criteria where
  "MatchAllCriteria = \<lparr>mcLabelSelector = None, mcExcludeNames = [], mcNames = [], mcNamespace = []\<rparr>"

definition Matches :: "match_criteria \<Rightarrow> kobj \<Rightarrow> bool" where
  "Matches c obj =
     (let m = ometa obj in
      if mcNamespace c \<noteq> [] \<and> mNamespace m \<noteq> mcNamespace c then False
      else if length (mcExcludeNames c) > 0 \<and> mName m \<in> set (mcExcludeNames c) then False
      else if length (mcNames c) > 0 \<and> mName m \<notin> set (mcNames c) then False
      else case mcLabelSelector c of None \<Rightarrow> True | Some sel \<Rightarrow> sel (mLabels m))"

text \<open>The four guards are a conjunction, whatever the documented precedence among them.\<close>

lemma Matches_iff:
  "Matches c obj \<longleftrightarrow>
     (mcNamespace c = [] \<or> mNamespace (ometa obj) = mcNamespace c) \<and>
     mName (ometa obj) \<notin> set (mcExcludeNames c) \<and>
     (mcNames c = [] \<or> mName (ometa obj) \<in> set (mcNames c)) \<and>
     (\<forall>sel. mcLabelSelector c = Some sel \<longrightarrow> sel (mLabels (ometa obj)))"
  by (cases "mcLabelSelector c") (auto simp: Matches_def Let_def)

lemma Matches_all [simp]: "Matches MatchAllCriteria obj"
  by (simp add: Matches_iff MatchAllCriteria_def)

end
