(* ===== verification/ResStore.thy ===== *)
theory ResStore
  imports MatchCriteria
begin

text \<open>
  The in-memory resource store, \<open>src/minkapi/view/store/store.go\<close>: one store per kind, a
  \<open>cache.Store\<close> of pointers keyed by namespace and name, tombstones, resource versions, watch
  events. Every method takes the store's mutex for its whole body, so an operation is one
  atomic step from state to state; the state is the shared memory and the store.

  The broadcaster is represented by the events whose broadcast goroutines were started, in
  start order. Logging is left out.
\<close>

subsection \<open>State\<close>

text \<open>What the cache holds at a key: a pointer, or a \<open>DeletedFinalStateUnknown\<close> value.\<close>

datatype entry = Live addr | Tombstone string addr

datatype watch_type = Added | Modified | Deleted

record rstore =
  sName :: string
  sObjectGVK :: gvk
  sObjectListGVK :: gvk
  cache :: "(string, entry) gomap"
  launched :: "(watch_type \<times> addr) list"
  shutDown :: bool
  versionCounter :: cref

type_synonym sstate = "mem \<times> rstore"

definition isTombstone :: "entry \<Rightarrow> bool" where
  "isTombstone e = (case e of Tombstone _ _ \<Rightarrow> True | Live _ \<Rightarrow> False)"

definition filterOutTombstones :: "entry list \<Rightarrow> addr list" where
  "filterOutTombstones items = concat (map (\<lambda>e. case e of Live a \<Rightarrow> [a] | Tombstone _ _ \<Rightarrow> []) items)"

text \<open>\<open>DeletionHandlingMetaNamespaceKeyFunc\<close>: a tombstone is stored under the key it carries.\<close>

definition keyFunc :: "mem \<Rightarrow> entry \<Rightarrow> string" where
  "keyFunc m e = (case e of Live a \<Rightarrow> cacheKey (rd m a) | Tombstone k _ \<Rightarrow> k)"

definition cachePut :: "entry \<Rightarrow> sstate \<Rightarrow> sstate" where
  "cachePut e s = (fst s, snd s\<lparr>cache := AList.update (keyFunc (fst s) e) e (cache (snd s))\<rparr>)"

definition cacheDelete :: "addr \<Rightarrow> sstate \<Rightarrow> sstate" where
  "cacheDelete a s = (fst s, snd s\<lparr>cache := AList.delete (cacheKey (rd (fst s) a)) (cache (snd s))\<rparr>)"

definition cacheList :: "rstore \<Rightarrow> entry list" where
  "cacheList s = map snd (cache s)"

definition broadcast :: "watch_type \<Rightarrow> addr \<Rightarrow> sstate \<Rightarrow> sstate" where
  "broadcast t a s = (fst s, snd s\<lparr>launched := launched (snd s) @ [(t, a)]\<rparr>)"

definition onMem :: "(mem \<Rightarrow> mem) \<Rightarrow> sstate \<Rightarrow> sstate" where
  "onMem f s = (f (fst s), snd s)"

subsection \<open>Operations\<close>

definition NewInMemResourceStore ::
  "string \<Rightarrow> gvk \<Rightarrow> gvk \<Rightarrow> cref option \<Rightarrow> mem \<Rightarrow> rstore \<times> mem" where
  "NewInMemResourceStore nm g lg vc m =
     (let (c, m') = (case vc of Some c \<Rightarrow> (c, m) | None \<Rightarrow> newCounter m) in
      (\<lparr>sName = nm, sObjectGVK = g, sObjectListGVK = lg, cache = [], launched = [],
        shutDown = False, versionCounter = c\<rparr>, m'))"

definition Reset :: "rstore \<Rightarrow> rstore" where
  "Reset s = s\<lparr>cache := []\<rparr>"

definition Close :: "rstore \<Rightarrow> rstore" where
  "Close s = s\<lparr>cache := [], shutDown := True\<rparr>"

definition CurrentResourceVersion :: "sstate \<Rightarrow> 64 word" where
  "CurrentResourceVersion s = counters (fst s) (versionCounter (snd s))"

definition nextResourceVersion :: "sstate \<Rightarrow> 64 word \<times> sstate" where
  "nextResourceVersion s =
     (let (v, m) = counterAdd (versionCounter (snd s)) (fst s) in (v, (m, snd s)))"

text \<open>\<open>mo.SetResourceVersion(s.nextResourceVersionAsString())\<close>\<close>

definition stampVersion :: "addr \<Rightarrow> sstate \<Rightarrow> sstate" where
  "stampVersion a s =
     (let (v, s') = nextResourceVersion s in
      onMem (updMeta a (\<lambda>mt. mt\<lparr>mResourceVersion := FormatInt v\<rparr>)) s')"

text \<open>\<open>mo.SetDeletionTimestamp(&metav1.Time{Time: time.Now()})\<close>\<close>

definition stampDeletion :: "addr \<Rightarrow> sstate \<Rightarrow> sstate" where
  "stampDeletion a s =
     (let (t, m) = now (fst s) in
      (updMeta a (\<lambda>mt. mt\<lparr>mDeletionTimestamp := Some t\<rparr>) m, snd s))"

definition validateRuntimeObj :: "addr \<Rightarrow> sstate \<Rightarrow> unit outcome" where
  "validateRuntimeObj a s =
     (if \<not> isRuntimeObject (rd (fst s) a) then Err (Plain ''cannot convert to runtime.Object'')
      else if objGVK (rd (fst s) a) \<noteq> sObjectGVK (snd s) then Err (Plain ''objGVK mismatch'')
      else Ok ())"

definition ErrObjectDeleted :: goerr where
  "ErrObjectDeleted = Sentinel ''ErrObjectDeleted''"

text \<open>\<open>fmt.Errorf("%w: %w", minkapi.ErrObjectDeleted, err)\<close> around the not-found error\<close>

definition deletedErr :: goerr where
  "deletedErr = Wrapped ''object deleted'' [ErrObjectDeleted, ApiStatus NotFoundReason]"

definition GetByKey :: "string \<Rightarrow> sstate \<Rightarrow> addr outcome" where
  "GetByKey key s =
     (case map_of (cache (snd s)) key of
        None \<Rightarrow> Err (ApiStatus NotFoundReason)
      | Some (Tombstone _ _) \<Rightarrow>
          Err deletedErr
      | Some (Live a) \<Rightarrow>
          if isRuntimeObject (rd (fst s) a) then Ok a else Err (ApiStatus InternalReason))"

definition Get :: "object_name \<Rightarrow> sstate \<Rightarrow> addr outcome" where
  "Get objName s = GetByKey (objectNameString objName) s"

definition Add :: "addr \<Rightarrow> object_options \<Rightarrow> sstate \<Rightarrow> (unit, sstate) eff" where
  "Add mo opts s =
     bindE (validateRuntimeObj mo s, s) (\<lambda>_ s.
       let s = stampVersion mo s;
           s = cachePut (Live mo) s;
           s = (if \<not> NoBroadcast opts then broadcast Added mo s else s)
       in (Ok (), s))"

definition Update :: "addr \<Rightarrow> object_options \<Rightarrow> sstate \<Rightarrow> (unit, sstate) eff" where
  "Update mo opts s =
     bindE (validateRuntimeObj mo s, s) (\<lambda>_ s.
     bindE (GetByKey (cacheKey (rd (fst s) mo)) s, s) (\<lambda>_ s.
       let s = stampVersion mo s;
           s = cachePut (Live mo) s;
           s = (if \<not> NoBroadcast opts then broadcast Modified mo s else s)
       in (Ok (), s)))"

definition DeleteByKey :: "string \<Rightarrow> sstate \<Rightarrow> (unit, sstate) eff" where
  "DeleteByKey key s =
     bindE (GetByKey key s, s) (\<lambda>obj s.
       let s = cacheDelete obj s;
           s = stampDeletion obj s;
           s = broadcast Deleted obj s
       in (Ok (), s))"

definition markDeleted :: "string \<Rightarrow> sstate \<Rightarrow> (unit, sstate) eff" where
  "markDeleted key s =
     bindE (GetByKey key s, s) (\<lambda>obj s.
       let s = stampDeletion obj s;
           s = cachePut (Tombstone key obj) s
       in bindE (validateRuntimeObj obj s, s) (\<lambda>_ s. (Ok (), broadcast Deleted obj s)))"

definition Delete :: "object_name \<Rightarrow> object_options \<Rightarrow> sstate \<Rightarrow> (unit, sstate) eff" where
  "Delete objName opts s =
     (if MarkAsDeleted opts then markDeleted (objectNameString objName) s
      else DeleteByKey (objectNameString objName) s)"

text \<open>
  The loop of \<open>ListMetaObjects\<close>. A context error ends it; an unparsable version of a matching
  object ends it too. The partial results returned beside an error are not used by any caller.
\<close>

fun listMetaLoop :: "ctx \<Rightarrow> match_criteria \<Rightarrow> mem \<Rightarrow> nat \<Rightarrow> addr list \<Rightarrow> addr list \<Rightarrow> 64 word
    \<Rightarrow> (addr list \<times> 64 word) outcome" where
  "listMetaLoop ctx c m i [] metaObjs maxVersion = Ok (metaObjs, maxVersion)"
| "listMetaLoop ctx c m i (mo # items) metaObjs maxVersion =
     (case ctx i of Some e \<Rightarrow> Err e | None \<Rightarrow>
      if \<not> Matches c (rd m mo) then listMetaLoop ctx c m (Suc i) items metaObjs maxVersion
      else bindO (ParseObjectResourceVersion (rd m mo)) (\<lambda>version.
             listMetaLoop ctx c m (Suc i) items (metaObjs @ [mo]) (maxInt64 maxVersion version)))"

definition ListMetaObjects ::
  "ctx \<Rightarrow> match_criteria \<Rightarrow> sstate \<Rightarrow> (addr list \<times> 64 word) outcome" where
  "ListMetaObjects ctx c s =
     listMetaLoop ctx c (fst s) 0 (filterOutTombstones (cacheList (snd s))) [] 0"

fun tombstonedKeysLoop :: "ctx \<Rightarrow> nat \<Rightarrow> entry list \<Rightarrow> string list \<Rightarrow> string list outcome" where
  "tombstonedKeysLoop ctx i [] keys = Ok keys"
| "tombstonedKeysLoop ctx i (e # items) keys =
     (case ctx i of Some err \<Rightarrow> Err err | None \<Rightarrow>
      tombstonedKeysLoop ctx (Suc i) items
        (case e of Tombstone k _ \<Rightarrow> List.insert k keys | Live _ \<Rightarrow> keys))"

definition ListTombstonedKeys :: "ctx \<Rightarrow> sstate \<Rightarrow> string list outcome" where
  "ListTombstonedKeys ctx s = tombstonedKeysLoop ctx 0 (cacheList (snd s)) []"

text \<open>
  The loop of \<open>DeleteObjects\<close>. \<open>err\<close> is the named result: a not-found error lets the loop go on
  and is only cleared by the next poll of the context, so it is returned when it was met at
  the last item.
\<close>

fun deleteObjectsLoop :: "ctx \<Rightarrow> match_criteria \<Rightarrow> object_options \<Rightarrow> nat \<Rightarrow> addr list \<Rightarrow> nat
    \<Rightarrow> goerr option \<Rightarrow> sstate \<Rightarrow> (nat, sstate) eff" where
  "deleteObjectsLoop ctx c opts i [] delCount err s =
     (case err of None \<Rightarrow> (Ok delCount, s) | Some e \<Rightarrow> (Err e, s))"
| "deleteObjectsLoop ctx c opts i (mo # items) delCount err s =
     (case ctx i of Some e \<Rightarrow> (Err e, s) | None \<Rightarrow>
      if \<not> Matches c (rd (fst s) mo) then deleteObjectsLoop ctx c opts (Suc i) items delCount None s
      else let key = cacheKey (rd (fst s) mo);
               r = (if MarkAsDeleted opts then markDeleted key s else DeleteByKey key s)
           in case r of
                (Ok _, s') \<Rightarrow> deleteObjectsLoop ctx c opts (Suc i) items (Suc delCount) None s'
              | (Err e, s') \<Rightarrow>
                  if isNotFound e then deleteObjectsLoop ctx c opts (Suc i) items delCount (Some e) s'
                  else (Err (Wrapped ''delete objects'' [Sentinel ''ErrDeleteObject'', e]), s')
              | (Panic p, s') \<Rightarrow> (Panic p, s'))"

definition DeleteObjects ::
  "ctx \<Rightarrow> match_criteria \<Rightarrow> object_options \<Rightarrow> sstate \<Rightarrow> (nat, sstate) eff" where
  "DeleteObjects ctx c opts s =
     deleteObjectsLoop ctx c opts 0 (filterOutTombstones (cacheList (snd s))) 0 None s"

subsection \<open>Typed lists\<close>

text \<open>
  A \<open>*<Kind>List\<close>. Which list kinds a group version knows, and the kind of their items, is the
  knowledge of the runtime scheme, an argument.
\<close>

record list_obj =
  loKind :: string
  loAPIVersion :: string
  loResourceVersion :: string
  loItems :: "kobj list"

type_synonym scheme = "string \<Rightarrow> string \<Rightarrow> string option"
  \<comment> \<open>group version, list kind: the kind of the items if registered\<close>

fun listItemsLoop :: "match_criteria \<Rightarrow> string \<Rightarrow> kobj list \<Rightarrow> kobj list \<Rightarrow> kobj list outcome" where
  "listItemsLoop c itemKind [] res = Ok res"
| "listItemsLoop c itemKind (o' # objs) res =
     (if \<not> Matches c o' then listItemsLoop c itemKind objs res
      else if goKind (body o') \<noteq> itemKind then Err (Plain ''type mismatch'')
      else listItemsLoop c itemKind objs (res @ [o']))"

definition List :: "scheme \<Rightarrow> match_criteria \<Rightarrow> sstate \<Rightarrow> list_obj outcome" where
  "List sch c s =
     (let items = filterOutTombstones (cacheList (snd s));
          st = snd s in
      case sch (groupVersionString (sObjectGVK st)) (gvkKind (sObjectListGVK st)) of
        None \<Rightarrow> Err (Plain ''list kind not registered'')
      | Some itemKind \<Rightarrow>
          bindO (SliceOfMetaObjToRuntimeObj (rd (fst s)) items) (\<lambda>objs.
          bindO (listItemsLoop c itemKind (map (rd (fst s)) objs) []) (\<lambda>res.
          Ok \<lparr>loKind = gvkKind (sObjectListGVK st),
              loAPIVersion = groupVersionString (sObjectGVK st),
              loResourceVersion = FormatInt (CurrentResourceVersion s),
              loItems = res\<rparr>)))"

definition WrapMetaObjectsIntoRuntimeListObject ::
  "scheme \<Rightarrow> 64 word \<Rightarrow> gvk \<Rightarrow> gvk \<Rightarrow> mem \<Rightarrow> addr list \<Rightarrow> list_obj outcome" where
  "WrapMetaObjectsIntoRuntimeListObject sch rv g lg m items =
     (case sch (groupVersionString g) (gvkKind lg) of
        None \<Rightarrow> Err (Plain ''list kind not registered'')
      | Some itemKind \<Rightarrow>
          bindO (SliceOfMetaObjToRuntimeObj (rd m) items) (\<lambda>objs.
          bindO (listItemsLoop MatchAllCriteria itemKind (map (rd m) objs) []) (\<lambda>res.
          Ok \<lparr>loKind = gvkKind lg, loAPIVersion = groupVersionString g,
              loResourceVersion = FormatInt rv, loItems = res\<rparr>)))"

subsection \<open>Watching\<close>

definition shouldSkipObject :: "kobj \<Rightarrow> 64 word \<Rightarrow> string \<Rightarrow> selector \<Rightarrow> bool outcome" where
  "shouldSkipObject o' startVersion namespace sel =
     (if namespace \<noteq> [] \<and> mNamespace (ometa o') \<noteq> namespace then Ok True
      else if \<not> sel (mLabels (ometa o')) then Ok True
      else bindO (ParseObjectResourceVersion o') (\<lambda>rv. Ok (sint rv \<le> sint startVersion)))"

type_synonym watch_event = "watch_type \<times> kobj"

fun pendingLoop :: "64 word \<Rightarrow> string \<Rightarrow> selector \<Rightarrow> kobj list \<Rightarrow> watch_event list
    \<Rightarrow> watch_event list outcome" where
  "pendingLoop sv ns sel [] evs = Ok evs"
| "pendingLoop sv ns sel (o' # objs) evs =
     bindO (shouldSkipObject o' sv ns sel) (\<lambda>skip.
       pendingLoop sv ns sel objs (if skip then evs else evs @ [(Added, o')]))"

text \<open>The objects are cloned first: the events carry values, not the stored pointers.\<close>

definition buildPendingWatchEvents ::
  "64 word \<Rightarrow> string \<Rightarrow> selector \<Rightarrow> sstate \<Rightarrow> watch_event list outcome" where
  "buildPendingWatchEvents startVersion namespace sel s =
     bindO (SliceOfMetaObjToRuntimeObj (rd (fst s)) (filterOutTombstones (cacheList (snd s)))) (\<lambda>objs.
     pendingLoop startVersion namespace sel (map (rd (fst s)) objs) [])"

text \<open>
  The watch loop. The result channel holds the pending events and then what is broadcast while
  the watch runs; \<open>sched\<close> is the sequence of cases \<open>select\<close> picks. A receive from the exhausted
  channel finds it closed. When the schedule is used up the loop still blocks: \<open>None\<close>. The
  callback works on a state of its own.
\<close>

datatype choice = Receive | Timeout | CtxDone

type_synonym 'u callback = "watch_event \<Rightarrow> 'u \<Rightarrow> goerr option \<times> 'u"

fun watchLoop :: "64 word \<Rightarrow> string \<Rightarrow> selector \<Rightarrow> 'u callback \<Rightarrow> choice list \<Rightarrow> watch_event list
    \<Rightarrow> 'u \<Rightarrow> (unit outcome \<times> 'u) option" where
  "watchLoop sv ns sel cb [] chan u = None"
| "watchLoop sv ns sel cb (Timeout # sched) chan u = Some (Ok (), u)"
| "watchLoop sv ns sel cb (CtxDone # sched) chan u = Some (Ok (), u)"
| "watchLoop sv ns sel cb (Receive # sched) [] u = Some (Ok (), u)"
| "watchLoop sv ns sel cb (Receive # sched) (ev # chan) u =
     (case shouldSkipObject (snd ev) sv ns sel of
        Err e \<Rightarrow> Some (Err e, u)
      | Panic p \<Rightarrow> Some (Panic p, u)
      | Ok True \<Rightarrow> watchLoop sv ns sel cb sched chan u
      | Ok False \<Rightarrow>
          (case cb ev u of
             (Some e, u') \<Rightarrow> Some (Err e, u')
           | (None, u') \<Rightarrow> watchLoop sv ns sel cb sched chan u'))"

definition Watch :: "64 word \<Rightarrow> string \<Rightarrow> selector \<Rightarrow> 'u callback \<Rightarrow> choice list \<Rightarrow> watch_event list
    \<Rightarrow> sstate \<Rightarrow> 'u \<Rightarrow> (unit outcome \<times> 'u) option" where
  "Watch startVersion namespace sel cb sched live s u =
     (case buildPendingWatchEvents startVersion namespace sel s of
        Err e \<Rightarrow> Some (Err e, u)
      | Panic p \<Rightarrow> Some (Panic p, u)
      | Ok events \<Rightarrow>
          if shutDown (snd s) then Some (Err (Wrapped ''cannot start watch'' [Plain ''broadcaster stopped'']), u)
          else watchLoop startVersion namespace sel cb sched (events @ live) u)"

text \<open>
  \<open>GetWatcher\<close>: the parameters with which the goroutine calls \<open>Watch\<close>. Parsing a label selector
  is the library's. The goroutine's callback sends the event on the out channel unless the
  context is done or the proxy was stopped.
\<close>

definition GetWatcher :: "(string \<Rightarrow> selector outcome) \<Rightarrow> string \<Rightarrow> string \<Rightarrow> (64 word \<times> selector) outcome" where
  "GetWatcher parseSelector resourceVersion labelSelector =
     wrapErr (\<lambda>e. Wrapped ''create watcher'' [Sentinel ''ErrCreateWatcher'', e])
       (bindO (ParseResourceVersion resourceVersion) (\<lambda>startVersion.
        bindO (if labelSelector \<noteq> [] then parseSelector labelSelector else Ok (\<lambda>_. True)) (\<lambda>sel.
        Ok (startVersion, sel))))"

datatype send_case = OutSent | SendCtxDone goerr | ProxyStopped

definition watcherCallback :: "(nat \<Rightarrow> send_case) \<Rightarrow> (nat \<times> watch_event list) callback" where
  "watcherCallback sends ev u =
     (let (i, out) = u in
      case sends i of
        OutSent \<Rightarrow> (None, (Suc i, out @ [ev]))
      | SendCtxDone e \<Rightarrow> (Some e, (Suc i, out))
      | ProxyStopped \<Rightarrow> (Some (Sentinel ''context.Canceled''), (Suc i, out)))"

subsection \<open>The backing cache as an interface\<close>

text \<open>
  The promises of client-go's \<open>cache.Store\<close> the methods rely on: a lookup after an upsert or a
  removal, and that listing enumerates exactly the entries.
\<close>

locale keyed_cache =
  fixes lookup :: "'c \<Rightarrow> 'k \<Rightarrow> 'e option"
    and upsert :: "'k \<Rightarrow> 'e \<Rightarrow> 'c \<Rightarrow> 'c"
    and remove :: "'k \<Rightarrow> 'c \<Rightarrow> 'c"
    and entries :: "'c \<Rightarrow> ('k \<times> 'e) list"
    and wf :: "'c \<Rightarrow> bool"
  assumes lookup_upsert: "lookup (upsert k e c) k' = (if k' = k then Some e else lookup c k')"
    and lookup_remove: "lookup (remove k c) k' = (if k' = k then None else lookup c k')"
    and entries_lookup: "wf c \<Longrightarrow> (k, e) \<in> set (entries c) \<longleftrightarrow> lookup c k = Some e"
    and wf_upsert: "wf c \<Longrightarrow> wf (upsert k e c)"
    and wf_remove: "wf c \<Longrightarrow> wf (remove k c)"
begin

lemma entries_upsert:
  "wf c \<Longrightarrow> (k', e') \<in> set (entries (upsert k e c)) \<longleftrightarrow>
     (if k' = k then e' = e else (k', e') \<in> set (entries c))"
  by (auto simp: entries_lookup wf_upsert lookup_upsert)

lemma entries_remove:
  "wf c \<Longrightarrow> (k', e') \<in> set (entries (remove k c)) \<longleftrightarrow> k' \<noteq> k \<and> (k', e') \<in> set (entries c)"
  by (auto simp: entries_lookup wf_remove lookup_remove)

lemma all_entries_upsert:
  "wf c \<Longrightarrow> (\<And>k' e'. k' \<noteq> k \<Longrightarrow> lookup c k' = Some e' \<Longrightarrow> P k' e') \<Longrightarrow> P k e \<Longrightarrow>
     lookup (upsert k e c) k'' = Some e'' \<Longrightarrow> P k'' e''"
  by (auto simp: lookup_upsert split: if_splits)

end

interpretation kc: keyed_cache map_of AList.update AList.delete "\<lambda>c. c" "\<lambda>c. wf_map c"
proof
  show "(k, e) \<in> set c \<longleftrightarrow> map_of c k = Some e" if "wf_map c" for c :: "('a, 'b) gomap" and k e
    using that by (rule in_set_map_of)
qed simp_all

subsection \<open>Invariant\<close>

text \<open>
  A live entry sits under the key of the object it points to, has the kind of the store and a
  version the counter has handed out, and no two live entries have the same version. A
  tombstone carries the key it is stored under.
\<close>

definition entry_ok :: "mem \<Rightarrow> rstore \<Rightarrow> string \<Rightarrow> entry \<Rightarrow> bool" where
  "entry_ok m st k e = (case e of
       Live a \<Rightarrow> a < nextAddr m \<and> cacheKey (rd m a) = k \<and> isRuntimeObject (rd m a) \<and>
         objGVK (rd m a) = sObjectGVK st \<and>
         (\<exists>v. mResourceVersion (ometa (rd m a)) = FormatInt v \<and>
              0 < sint v \<and> sint v \<le> sint (counters m (versionCounter st)))
     | Tombstone k' a \<Rightarrow> k' = k \<and> a < nextAddr m)"

definition distinct_versions :: "mem \<Rightarrow> rstore \<Rightarrow> bool" where
  "distinct_versions m st \<longleftrightarrow> (\<forall>k a k' a'.
     map_of (cache st) k = Some (Live a) \<longrightarrow> map_of (cache st) k' = Some (Live a') \<longrightarrow>
     mResourceVersion (ometa (rd m a)) = mResourceVersion (ometa (rd m a')) \<longrightarrow> k = k')"

definition store_inv :: "sstate \<Rightarrow> bool" where
  "store_inv s \<longleftrightarrow> wf_map (cache (snd s)) \<and> 0 \<le> sint (CurrentResourceVersion s) \<and>
     (\<forall>k e. map_of (cache (snd s)) k = Some e \<longrightarrow> entry_ok (fst s) (snd s) k e) \<and>
     distinct_versions (fst s) (snd s)"

text \<open>The counter is below its maximum, so that the next version does not wrap.\<close>

definition noWrap :: "sstate \<Rightarrow> bool" where
  "noWrap s \<longleftrightarrow> sint (CurrentResourceVersion s) < 2 ^ 63 - 1"

lemma sint_plus1: "sint (w :: 64 word) < 2 ^ 63 - 1 \<Longrightarrow> sint (w + 1) = sint w + 1"
  using sint_range64 [of w] by (simp add: sint_word_ariths signed_take_bit_int_eq_self)

lemma store_invD:
  assumes "store_inv s" and "map_of (cache (snd s)) k = Some (Live a)"
  shows "a < nextAddr (fst s)" "cacheKey (rd (fst s) a) = k" "isRuntimeObject (rd (fst s) a)"
    "objGVK (rd (fst s) a) = sObjectGVK (snd s)"
    "\<exists>v. mResourceVersion (ometa (rd (fst s) a)) = FormatInt v \<and> 0 < sint v \<and>
       sint v \<le> sint (CurrentResourceVersion s)"
  using assms by (force simp: store_inv_def entry_ok_def CurrentResourceVersion_def)+

lemma store_inv_live_unique:
  "store_inv s \<Longrightarrow> map_of (cache (snd s)) k = Some (Live a) \<Longrightarrow>
   map_of (cache (snd s)) k' = Some (Live a) \<Longrightarrow> k = k'"
  using store_invD(2) by blast

subsection \<open>The abstract store\<close>

text \<open>What a caller can observe at a key: nothing, a deleted object, or an object value.\<close>

datatype slot = SlotLive kobj | SlotDeleted

definition absStore :: "sstate \<Rightarrow> string \<Rightarrow> slot option" where
  "absStore s k = (case map_of (cache (snd s)) k of
       None \<Rightarrow> None | Some (Live a) \<Rightarrow> Some (SlotLive (rd (fst s) a))
     | Some (Tombstone _ _) \<Rightarrow> Some SlotDeleted)"

text \<open>The object as \<open>Add\<close> and \<open>Update\<close> leave it: with the next version.\<close>

definition stamped :: "addr \<Rightarrow> sstate \<Rightarrow> kobj" where
  "stamped a s = rd (fst s) a
     \<lparr>ometa := ometa (rd (fst s) a)
       \<lparr>mResourceVersion := FormatInt (CurrentResourceVersion s + 1)\<rparr>\<rparr>"

lemma stampVersion_simps [simp]:
  "rd (fst (stampVersion a s)) b = (if b = a then stamped a s else rd (fst s) b)"
  "snd (stampVersion a s) = snd s"
  "nextAddr (fst (stampVersion a s)) = nextAddr (fst s)"
  "counters (fst (stampVersion a s)) =
     (counters (fst s))(versionCounter (snd s) := CurrentResourceVersion s + 1)"
  by (auto simp: stampVersion_def nextResourceVersion_def onMem_def stamped_def Let_def
      CurrentResourceVersion_def split_beta)

text \<open>The object as a deletion leaves it: with a deletion timestamp.\<close>

definition buried :: "addr \<Rightarrow> sstate \<Rightarrow> kobj" where
  "buried a s = rd (fst s) a
     \<lparr>ometa := ometa (rd (fst s) a)\<lparr>mDeletionTimestamp := Some (nowAt (fst s) (tick (fst s)))\<rparr>\<rparr>"

lemma stampDeletion_simps [simp]:
  "rd (fst (stampDeletion a s)) b = (if b = a then buried a s else rd (fst s) b)"
  "snd (stampDeletion a s) = snd s"
  "nextAddr (fst (stampDeletion a s)) = nextAddr (fst s)"
  "counters (fst (stampDeletion a s)) = counters (fst s)"
  by (simp_all add: stampDeletion_def buried_def Let_def split_beta) (simp_all add: now_def)

lemma buried_simps [simp]:
  "isRuntimeObject (buried a s) = isRuntimeObject (rd (fst s) a)"
  "objGVK (buried a s) = objGVK (rd (fst s) a)" "body (buried a s) = body (rd (fst s) a)"
  "cacheKey (buried a s) = cacheKey (rd (fst s) a)"
  by (simp_all add: buried_def name_defs isRuntimeObject_def)

lemma stamped_simps [simp]:
  "cacheKey (stamped a s) = cacheKey (rd (fst s) a)"
  "isRuntimeObject (stamped a s) = isRuntimeObject (rd (fst s) a)"
  "objGVK (stamped a s) = objGVK (rd (fst s) a)" "body (stamped a s) = body (rd (fst s) a)"
  "mResourceVersion (ometa (stamped a s)) = FormatInt (CurrentResourceVersion s + 1)"
  "mName (ometa (stamped a s)) = mName (ometa (rd (fst s) a))"
  "mNamespace (ometa (stamped a s)) = mNamespace (ometa (rd (fst s) a))"
  "mLabels (ometa (stamped a s)) = mLabels (ometa (rd (fst s) a))"
  by (simp_all add: stamped_def name_defs isRuntimeObject_def)

lemma cachePut_simps [simp]:
  "fst (cachePut e s) = fst s"
  "cache (snd (cachePut e s)) = AList.update (keyFunc (fst s) e) e (cache (snd s))"
  "sObjectGVK (snd (cachePut e s)) = sObjectGVK (snd s)"
  "sObjectListGVK (snd (cachePut e s)) = sObjectListGVK (snd s)"
  "sName (snd (cachePut e s)) = sName (snd s)"
  "versionCounter (snd (cachePut e s)) = versionCounter (snd s)"
  "launched (snd (cachePut e s)) = launched (snd s)"
  by (simp_all add: cachePut_def)

lemma cacheDelete_simps [simp]:
  "fst (cacheDelete a s) = fst s"
  "cache (snd (cacheDelete a s)) = AList.delete (cacheKey (rd (fst s) a)) (cache (snd s))"
  "sObjectGVK (snd (cacheDelete a s)) = sObjectGVK (snd s)"
  "sObjectListGVK (snd (cacheDelete a s)) = sObjectListGVK (snd s)"
  "sName (snd (cacheDelete a s)) = sName (snd s)"
  "versionCounter (snd (cacheDelete a s)) = versionCounter (snd s)"
  "launched (snd (cacheDelete a s)) = launched (snd s)"
  by (simp_all add: cacheDelete_def)

lemma broadcast_simps [simp]:
  "fst (broadcast t a s) = fst s" "cache (snd (broadcast t a s)) = cache (snd s)"
  "sObjectGVK (snd (broadcast t a s)) = sObjectGVK (snd s)"
  "sObjectListGVK (snd (broadcast t a s)) = sObjectListGVK (snd s)"
  "sName (snd (broadcast t a s)) = sName (snd s)"
  "versionCounter (snd (broadcast t a s)) = versionCounter (snd s)"
  "launched (snd (broadcast t a s)) = launched (snd s) @ [(t, a)]"
  by (simp_all add: broadcast_def)

lemma broadcast_inv [simp]:
  "store_inv (broadcast t a s) = store_inv s" "absStore (broadcast t a s) = absStore s"
  by (simp_all add: store_inv_def entry_ok_def distinct_versions_def CurrentResourceVersion_def
      absStore_def fun_eq_iff cong: entry.case_cong option.case_cong)

subsection \<open>Adding and updating\<close>

definition validObj :: "addr \<Rightarrow> sstate \<Rightarrow> bool" where
  "validObj a s \<longleftrightarrow> isRuntimeObject (rd (fst s) a) \<and> objGVK (rd (fst s) a) = sObjectGVK (snd s)"

lemma validateRuntimeObj_Ok: "validateRuntimeObj a s = Ok () \<longleftrightarrow> validObj a s"
  by (simp add: validateRuntimeObj_def validObj_def)

lemma validateRuntimeObj_cases:
  obtains (ok) "validObj a s" "validateRuntimeObj a s = Ok ()"
  | (err) e where "\<not> validObj a s" "validateRuntimeObj a s = Err e" "\<not> isNotFound e"
      "\<not> errorsIs e ErrObjectDeleted"
proof (cases "validateRuntimeObj a s")
  case (Err e)
  show thesis
    by (rule err [OF _ Err]) (use Err in \<open>auto simp: validateRuntimeObj_def validObj_def isNotFound_def
        ErrObjectDeleted_def split: if_splits\<close>)
qed (use ok in \<open>auto simp: validateRuntimeObj_def validObj_def split: if_splits\<close>)

text \<open>The common tail of \<open>Add\<close> and \<open>Update\<close>: stamp the version, put the pointer.\<close>

definition putLive :: "addr \<Rightarrow> sstate \<Rightarrow> sstate" where
  "putLive a s = cachePut (Live a) (stampVersion a s)"

lemma putLive_simps [simp]:
  "fst (putLive a s) = fst (stampVersion a s)"
  "cache (snd (putLive a s)) = AList.update (cacheKey (rd (fst s) a)) (Live a) (cache (snd s))"
  "sObjectGVK (snd (putLive a s)) = sObjectGVK (snd s)"
  "sObjectListGVK (snd (putLive a s)) = sObjectListGVK (snd s)"
  "sName (snd (putLive a s)) = sName (snd s)"
  "versionCounter (snd (putLive a s)) = versionCounter (snd s)"
  "launched (snd (putLive a s)) = launched (snd s)"
  by (simp_all add: putLive_def keyFunc_def)

lemma CurrentResourceVersion_putLive [simp]:
  "CurrentResourceVersion (putLive a s) = CurrentResourceVersion s + 1"
  by (simp add: CurrentResourceVersion_def [of "putLive a s"])

lemma Add_eq:
  "Add mo opts s = (if validObj mo s
     then (Ok (), if NoBroadcast opts then putLive mo s else broadcast Added mo (putLive mo s))
     else (validateRuntimeObj mo s, s))"
  by (cases rule: validateRuntimeObj_cases [of mo s]) (simp_all add: Add_def putLive_def Let_def)

lemma Update_eq:
  "Update mo opts s = (if \<not> validObj mo s then (validateRuntimeObj mo s, s)
     else bindE (GetByKey (cacheKey (rd (fst s) mo)) s, s) (\<lambda>_ s.
       (Ok (), if NoBroadcast opts then putLive mo s else broadcast Modified mo (putLive mo s))))"
  by (cases rule: validateRuntimeObj_cases [of mo s]; cases "NoBroadcast opts")
    (simp_all add: Update_def putLive_def Let_def)

lemma entry_ok_putLive:
  assumes inv: "store_inv s" and v: "validObj mo s" "mo < nextAddr (fst s)" "noWrap s"
    and look: "map_of (cache (snd (putLive mo s))) k = Some e"
  shows "entry_ok (fst (putLive mo s)) (snd (putLive mo s)) k e"
proof -
  have one: "sint (CurrentResourceVersion s + 1) = sint (CurrentResourceVersion s) + 1"
    using v by (simp add: noWrap_def sint_plus1)
  have pos: "0 \<le> sint (CurrentResourceVersion s)" using inv by (simp add: store_inv_def)
  have live: "entry_ok (fst (putLive mo s)) (snd (putLive mo s)) (cacheKey (rd (fst s) mo)) (Live mo)"
    using v one pos by (auto simp: entry_ok_def validObj_def)
  show ?thesis
  proof (cases "k = cacheKey (rd (fst s) mo)")
    case True
    then show ?thesis using look live by simp
  next
    case False
    with look have old: "entry_ok (fst s) (snd s) k e" using inv by (simp add: store_inv_def)
    then show ?thesis
      using False v one by (cases e) (auto simp: entry_ok_def CurrentResourceVersion_def)
  qed
qed

lemma distinct_versions_putLive:
  assumes inv: "store_inv s" and "noWrap s"
  shows "distinct_versions (fst (putLive mo s)) (snd (putLive mo s))"
proof -
  let ?k = "cacheKey (rd (fst s) mo)"
  have fresh: "mResourceVersion (ometa (rd (fst s) a)) \<noteq> FormatInt (CurrentResourceVersion s + 1)"
    if look: "map_of (cache (snd s)) k = Some (Live a)" for k a
  proof -
    obtain v where v: "mResourceVersion (ometa (rd (fst s) a)) = FormatInt v"
      "sint v \<le> sint (CurrentResourceVersion s)"
      using store_invD(5) [OF inv look] by blast
    have "v \<noteq> CurrentResourceVersion s + 1"
      using v assms(2) by (auto simp: noWrap_def sint_plus1)
    then show ?thesis using v FormatInt_inj by auto
  qed
  have "k = ?k" if "map_of (cache (snd s)) k = Some (Live mo)" for k
    using store_invD(2) [OF inv that] by simp
  with fresh inv show ?thesis
    unfolding distinct_versions_def store_inv_def by (auto split: if_splits) (metis fresh)+
qed

lemma store_inv_putLive:
  assumes "store_inv s" "validObj mo s" "mo < nextAddr (fst s)" "noWrap s"
  shows "store_inv (putLive mo s)"
  using assms entry_ok_putLive [OF assms] distinct_versions_putLive [OF assms(1,4)]
  by (simp add: store_inv_def noWrap_def sint_plus1)

lemma store_inv_Add:
  "store_inv s \<Longrightarrow> mo < nextAddr (fst s) \<Longrightarrow> noWrap s \<Longrightarrow> store_inv (snd (Add mo opts s))"
  by (simp add: Add_eq store_inv_putLive)

lemma store_inv_Update:
  "store_inv s \<Longrightarrow> mo < nextAddr (fst s) \<Longrightarrow> noWrap s \<Longrightarrow> store_inv (snd (Update mo opts s))"
  by (cases "GetByKey (cacheKey (rd (fst s) mo)) s") (auto simp: Update_eq store_inv_putLive)

lemma absStore_putLive:
  assumes "store_inv s"
  shows "absStore (putLive mo s) = (absStore s)(cacheKey (rd (fst s) mo) \<mapsto> SlotLive (stamped mo s))"
proof
  fix k
  have "map_of (cache (snd s)) k = Some (Live mo) \<Longrightarrow> k = cacheKey (rd (fst s) mo)"
    using store_invD(2) [OF assms] by simp
  then show "absStore (putLive mo s) k =
      ((absStore s)(cacheKey (rd (fst s) mo) \<mapsto> SlotLive (stamped mo s))) k"
    by (auto simp: absStore_def split: option.splits entry.splits)
qed

subsection \<open>Looking up\<close>

lemma GetByKey_Ok_iff:
  assumes "store_inv s"
  shows "GetByKey key s = Ok a \<longleftrightarrow> map_of (cache (snd s)) key = Some (Live a)"
  using store_invD(3) [OF assms, of key]
  by (auto simp: GetByKey_def split: option.splits entry.splits)

lemma GetByKey_abs:
  assumes "store_inv s"
  shows "(case absStore s key of
       Some (SlotLive o') \<Rightarrow> \<exists>a. GetByKey key s = Ok a \<and> rd (fst s) a = o' \<and>
          map_of (cache (snd s)) key = Some (Live a)
     | Some SlotDeleted \<Rightarrow>
         GetByKey key s = Err deletedErr
     | None \<Rightarrow> GetByKey key s = Err (ApiStatus NotFoundReason))"
  using store_invD(3) [OF assms, of key]
  by (auto simp: absStore_def GetByKey_def split: option.splits entry.splits)

lemma deletedErr_simps [simp]:
  "isNotFound deletedErr" "errorsIs deletedErr ErrObjectDeleted"
  "isNotFound (ApiStatus NotFoundReason)" "\<not> errorsIs (ApiStatus r) ErrObjectDeleted"
  "ApiStatus r \<noteq> ErrObjectDeleted"
  by (simp_all add: isNotFound_def ErrObjectDeleted_def deletedErr_def)

subsection \<open>Deleting\<close>

definition dropKey :: "addr \<Rightarrow> sstate \<Rightarrow> sstate" where
  "dropKey obj s = stampDeletion obj (cacheDelete obj s)"

definition entomb :: "string \<Rightarrow> addr \<Rightarrow> sstate \<Rightarrow> sstate" where
  "entomb key obj s = cachePut (Tombstone key obj) (stampDeletion obj s)"

lemma DeleteByKey_eq:
  "DeleteByKey key s = bindE (GetByKey key s, s) (\<lambda>obj s. (Ok (), broadcast Deleted obj (dropKey obj s)))"
  by (simp add: DeleteByKey_def dropKey_def Let_def)

lemma markDeleted_eq:
  assumes "store_inv s"
  shows "markDeleted key s =
     bindE (GetByKey key s, s) (\<lambda>obj s. (Ok (), broadcast Deleted obj (entomb key obj s)))"
proof (cases "GetByKey key s")
  case (Ok a)
  then have "map_of (cache (snd s)) key = Some (Live a)" using GetByKey_Ok_iff [OF assms] by simp
  from store_invD(3,4) [OF assms this] have "validObj a (entomb key a s)"
    by (simp add: validObj_def entomb_def)
  then have "validateRuntimeObj a (entomb key a s) = Ok ()" by (simp add: validateRuntimeObj_Ok)
  with Ok show ?thesis by (simp add: markDeleted_def entomb_def Let_def)
qed (simp_all add: markDeleted_def)

text \<open>Losing the live entry of \<open>a\<close> and writing to \<open>a\<close> afterwards concerns no other entry.\<close>

lemma store_inv_without:
  assumes inv: "store_inv s" and live: "map_of (cache (snd s)) key = Some (Live a)"
    and frame: "nextAddr (fst s') = nextAddr (fst s)" "counters (fst s') = counters (fst s)"
      "\<And>b. b \<noteq> a \<Longrightarrow> rd (fst s') b = rd (fst s) b"
      "sObjectGVK (snd s') = sObjectGVK (snd s)" "versionCounter (snd s') = versionCounter (snd s)"
    and wf: "wf_map (cache (snd s'))"
    and other: "\<And>k. k \<noteq> key \<Longrightarrow> map_of (cache (snd s')) k = map_of (cache (snd s)) k"
    and here: "map_of (cache (snd s')) key \<in> {None, Some (Tombstone key a)}"
  shows "store_inv s'"
proof -
  have nota: "b \<noteq> a" if "k \<noteq> key" "map_of (cache (snd s)) k = Some (Live b)" for k b
    using store_inv_live_unique [OF inv] that live by blast
  have e: "entry_ok (fst s') (snd s') k e" if "map_of (cache (snd s')) k = Some e" for k e
  proof (cases "k = key")
    case True
    then show ?thesis using that here store_invD(1) [OF inv live] frame(1) by (auto simp: entry_ok_def)
  next
    case False
    with that other have look: "map_of (cache (snd s)) k = Some e" by simp
    then have "entry_ok (fst s) (snd s) k e" using inv by (simp add: store_inv_def)
    then show ?thesis
      using nota [OF False] look frame by (cases e) (auto simp: entry_ok_def)
  qed
  have d: "distinct_versions (fst s') (snd s')"
    unfolding distinct_versions_def
  proof (intro allI impI)
    fix k b k' b'
    assume l: "map_of (cache (snd s')) k = Some (Live b)" "map_of (cache (snd s')) k' = Some (Live b')"
      and eq: "mResourceVersion (ometa (rd (fst s') b)) = mResourceVersion (ometa (rd (fst s') b'))"
    have "k \<noteq> key" "k' \<noteq> key" using l here by auto
    then show "k = k'"
      using l eq nota other frame(3) inv unfolding store_inv_def distinct_versions_def by metis
  qed
  show ?thesis using e d wf inv frame by (simp add: store_inv_def CurrentResourceVersion_def)
qed

lemma dropKey_facts:
  assumes "store_inv s" and "map_of (cache (snd s)) key = Some (Live a)"
  shows "store_inv (dropKey a s)" "absStore (dropKey a s) = (absStore s)(key := None)"
    "snd (dropKey a s) = snd s\<lparr>cache := AList.delete key (cache (snd s))\<rparr>"
proof -
  note k = store_invD(2) [OF assms]
  have wf: "wf_map (cache (snd s))" using assms(1) by (simp add: store_inv_def)
  show "store_inv (dropKey a s)"
    by (rule store_inv_without [OF assms]) (use k wf in \<open>auto simp: dropKey_def\<close>)
  show "absStore (dropKey a s) = (absStore s)(key := None)"
  proof
    fix k'
    show "absStore (dropKey a s) k' = ((absStore s)(key := None)) k'"
      using store_inv_live_unique [OF assms] k
      by (auto simp: absStore_def dropKey_def split: option.splits entry.splits if_splits)
  qed
  show "snd (dropKey a s) = snd s\<lparr>cache := AList.delete key (cache (snd s))\<rparr>"
    using k by (simp add: dropKey_def cacheDelete_def)
qed

lemma entomb_facts:
  assumes "store_inv s" and "map_of (cache (snd s)) key = Some (Live a)"
  shows "store_inv (entomb key a s)" "absStore (entomb key a s) = (absStore s)(key \<mapsto> SlotDeleted)"
    "snd (entomb key a s) = snd s\<lparr>cache := AList.update key (Tombstone key a) (cache (snd s))\<rparr>"
proof -
  have wf: "wf_map (cache (snd s))" using assms(1) by (simp add: store_inv_def)
  show "store_inv (entomb key a s)"
    by (rule store_inv_without [OF assms]) (use wf in \<open>auto simp: entomb_def keyFunc_def\<close>)
  show "absStore (entomb key a s) = (absStore s)(key \<mapsto> SlotDeleted)"
  proof
    fix k'
    show "absStore (entomb key a s) k' = ((absStore s)(key \<mapsto> SlotDeleted)) k'"
      using store_inv_live_unique [OF assms]
      by (auto simp: absStore_def entomb_def keyFunc_def split: option.splits entry.splits)
  qed
  show "snd (entomb key a s) = snd s\<lparr>cache := AList.update key (Tombstone key a) (cache (snd s))\<rparr>"
    by (simp add: entomb_def keyFunc_def cachePut_def)
qed

text \<open>Both ways of deleting a key at once: what is left behind is the only difference.\<close>

definition deleteKey :: "object_options \<Rightarrow> string \<Rightarrow> sstate \<Rightarrow> (unit, sstate) eff" where
  "deleteKey opts key s = (if MarkAsDeleted opts then markDeleted key s else DeleteByKey key s)"

definition leftBehind :: "object_options \<Rightarrow> slot option" where
  "leftBehind opts = (if MarkAsDeleted opts then Some SlotDeleted else None)"

lemma deleteKey_live:
  assumes "store_inv s" and "map_of (cache (snd s)) key = Some (Live a)"
  obtains s' where "deleteKey opts key s = (Ok (), s')" "store_inv s'"
    "absStore s' = (absStore s)(key := leftBehind opts)"
    "\<And>k. k \<noteq> key \<Longrightarrow> map_of (cache (snd s')) k = map_of (cache (snd s)) k"
    "\<And>b. b \<noteq> a \<Longrightarrow> rd (fst s') b = rd (fst s) b"
    "counters (fst s') = counters (fst s)" "nextAddr (fst s') = nextAddr (fst s)"
    "launched (snd s') = launched (snd s) @ [(Deleted, a)]"
proof (cases "MarkAsDeleted opts")
  case True
  have "deleteKey opts key s = (Ok (), broadcast Deleted a (entomb key a s))"
    using True assms by (simp add: deleteKey_def markDeleted_eq GetByKey_Ok_iff [THEN iffD2])
  then show thesis
    by (rule that) (use entomb_facts [OF assms] True in \<open>auto simp: leftBehind_def entomb_def keyFunc_def\<close>)
next
  case False
  have "deleteKey opts key s = (Ok (), broadcast Deleted a (dropKey a s))"
    using False assms by (simp add: deleteKey_def DeleteByKey_eq GetByKey_Ok_iff [THEN iffD2])
  then show thesis
    by (rule that) (use dropKey_facts [OF assms] False store_invD(2) [OF assms] in
        \<open>auto simp: leftBehind_def dropKey_def\<close>)
qed

lemma deleteKey_missing:
  assumes "store_inv s" and "\<forall>a. map_of (cache (snd s)) key \<noteq> Some (Live a)"
  shows "\<exists>e. deleteKey opts key s = (Err e, s) \<and> isNotFound e"
  using assms by (auto simp: deleteKey_def markDeleted_eq DeleteByKey_eq GetByKey_def
      split: option.splits entry.splits)

lemma store_inv_deleteKey: "store_inv s \<Longrightarrow> store_inv (snd (deleteKey opts key s))"
  using deleteKey_live [of s key _ opts] deleteKey_missing [of s key opts]
  by (metis snd_conv)

lemma Delete_eq: "Delete objName opts s = deleteKey opts (objectNameString objName) s"
  by (simp add: Delete_def deleteKey_def)

end
