(* ===== verification/StoreLists.thy ===== *)
theory StoreLists
  imports ResStore
begin

text \<open>
  The bulk operations of the resource store: what listing returns, what a bulk delete removes
  and which events a watch starts with, each as an equation over the live entries.
\<close>

subsection \<open>Live entries\<close>

definition liveAddrs :: "rstore \<Rightarrow> addr list" where
  "liveAddrs st = filterOutTombstones (cacheList st)"

lemma set_filterOutTombstones: "a \<in> set (filterOutTombstones es) \<longleftrightarrow> Live a \<in> set es"
  by (induction es) (auto simp: filterOutTombstones_def split: entry.splits)

lemma in_cacheList:
  assumes "store_inv s"
  shows "e \<in> set (cacheList (snd s)) \<longleftrightarrow> (\<exists>k. map_of (cache (snd s)) k = Some e)"
proof -
  have "wf_map (cache (snd s))" using assms by (simp add: store_inv_def)
  note iff = kc.entries_lookup [OF this]
  have "e \<in> set (cacheList (snd s)) \<longleftrightarrow> (\<exists>k. (k, e) \<in> set (cache (snd s)))"
    by (force simp: cacheList_def)
  then show ?thesis by (simp only: iff)
qed

lemma liveAddrs_iff:
  "store_inv s \<Longrightarrow> a \<in> set (liveAddrs (snd s)) \<longleftrightarrow> (\<exists>k. map_of (cache (snd s)) k = Some (Live a))"
  by (simp add: liveAddrs_def set_filterOutTombstones in_cacheList)

lemma liveAddrs_key:
  "store_inv s \<Longrightarrow> a \<in> set (liveAddrs (snd s)) \<longleftrightarrow>
     map_of (cache (snd s)) (cacheKey (rd (fst s) a)) = Some (Live a)"
  using liveAddrs_iff store_invD(2) by metis

lemma distinct_liveAddrs:
  assumes "store_inv s"
  shows "distinct (liveAddrs (snd s))"
proof -
  have wf: "wf_map (cache (snd s))" using assms by (simp add: store_inv_def)
  have key: "cacheKey (rd (fst s) a) = k" if "(k, Live a) \<in> set (cache (snd s))" for k a
    using that wf store_invD(2) [OF assms] by (metis in_set_map_of)
  have "distinct (filterOutTombstones (map snd c))"
    if "wf_map c" "set c \<subseteq> set (cache (snd s))" for c
    using that
  proof (induction c)
    case (Cons x c)
    obtain k e where x: "x = (k, e)" by (cases x)
    have "a \<notin> set (filterOutTombstones (map snd c))" if "e = Live a" for a
    proof
      assume "a \<in> set (filterOutTombstones (map snd c))"
      then obtain k' where "(k', Live a) \<in> set c" by (auto simp: set_filterOutTombstones)
      moreover have "k = k'"
        using calculation Cons.prems x that key [of k a] key [of k' a] by auto
      ultimately show False using Cons.prems x by force
    qed
    with Cons x show ?case by (auto simp: filterOutTombstones_def split: entry.splits)
  qed (simp add: filterOutTombstones_def)
  then show ?thesis using wf by (simp add: liveAddrs_def cacheList_def)
qed

definition versionOf :: "kobj \<Rightarrow> 64 word" where
  "versionOf o' = (case ParseObjectResourceVersion o' of Ok v \<Rightarrow> v | _ \<Rightarrow> 0)"

lemma live_version:
  assumes "store_inv s" and "a \<in> set (liveAddrs (snd s))"
  shows "ParseObjectResourceVersion (rd (fst s) a) = Ok (versionOf (rd (fst s) a))"
    "0 < sint (versionOf (rd (fst s) a))"
    "sint (versionOf (rd (fst s) a)) \<le> sint (CurrentResourceVersion s)"
    "mResourceVersion (ometa (rd (fst s) a)) = FormatInt (versionOf (rd (fst s) a))"
proof -
  obtain k where "map_of (cache (snd s)) k = Some (Live a)" using assms by (auto simp: liveAddrs_iff)
  from store_invD(5) [OF assms(1) this] obtain v where
    v: "mResourceVersion (ometa (rd (fst s) a)) = FormatInt v" "0 < sint v"
      "sint v \<le> sint (CurrentResourceVersion s)" by blast
  then have "ParseObjectResourceVersion (rd (fst s) a) = Ok v"
    by (simp add: ParseObjectResourceVersion_def ParseResourceVersion_def)
  with v show "ParseObjectResourceVersion (rd (fst s) a) = Ok (versionOf (rd (fst s) a))"
    "0 < sint (versionOf (rd (fst s) a))"
    "sint (versionOf (rd (fst s) a)) \<le> sint (CurrentResourceVersion s)"
    "mResourceVersion (ometa (rd (fst s) a)) = FormatInt (versionOf (rd (fst s) a))"
    by (simp_all add: versionOf_def)
qed

lemma live_runtime:
  "store_inv s \<Longrightarrow> a \<in> set (liveAddrs (snd s)) \<Longrightarrow>
     isRuntimeObject (rd (fst s) a) \<and> objGVK (rd (fst s) a) = sObjectGVK (snd s)"
  by (auto simp: liveAddrs_iff dest: store_invD(3,4))

subsection \<open>Listing\<close>

lemma listMetaLoop_eq:
  assumes "\<And>i. ctx i = None" and "\<And>a. a \<in> set items \<Longrightarrow>
      ParseObjectResourceVersion (rd m a) = Ok (versionOf (rd m a))"
  shows "listMetaLoop ctx c m i items acc mv =
     Ok (acc @ filter (\<lambda>a. Matches c (rd m a)) items,
         fold (\<lambda>a mv. maxInt64 mv (versionOf (rd m a))) (filter (\<lambda>a. Matches c (rd m a)) items) mv)"
  using assms(2) by (induction items arbitrary: i acc mv) (simp_all add: assms(1))

definition matching :: "match_criteria \<Rightarrow> sstate \<Rightarrow> addr list" where
  "matching c s = filter (\<lambda>a. Matches c (rd (fst s) a)) (liveAddrs (snd s))"

lemma ListMetaObjects_eq:
  assumes "store_inv s"
  shows "ListMetaObjects background c s =
     Ok (matching c s, fold (\<lambda>a mv. maxInt64 mv (versionOf (rd (fst s) a))) (matching c s) 0)"
  unfolding ListMetaObjects_def matching_def liveAddrs_def
  by (subst listMetaLoop_eq)
    (use live_version(1) [OF assms] in \<open>auto simp: background_def liveAddrs_def\<close>)

lemma fold_maxInt64:
  "(\<forall>x\<in>set xs. sint (f x) \<le> sint (fold (\<lambda>x mv. maxInt64 mv (f x)) xs mv)) \<and>
   sint mv \<le> sint (fold (\<lambda>x mv. maxInt64 mv (f x)) xs mv) \<and>
   (fold (\<lambda>x mv. maxInt64 mv (f x)) xs mv = mv \<or>
    (\<exists>x\<in>set xs. fold (\<lambda>x mv. maxInt64 mv (f x)) xs mv = f x))"
proof (induction xs arbitrary: mv)
  case (Cons x xs)
  have "sint mv \<le> sint (maxInt64 mv (f x))" "sint (f x) \<le> sint (maxInt64 mv (f x))"
    "maxInt64 mv (f x) = mv \<or> maxInt64 mv (f x) = f x"
    by (auto simp: maxInt64_def)
  with Cons [of "maxInt64 mv (f x)"] show ?case by force
qed simp

lemma SliceOfMetaObj_all:
  "(\<And>a. a \<in> set xs \<Longrightarrow> isRuntimeObject (r a)) \<Longrightarrow> SliceOfMetaObjToRuntimeObj r xs = Ok xs"
  by (induction xs) auto

lemma listItemsLoop_eq:
  "(\<And>x. x \<in> set xs \<Longrightarrow> Matches c x \<Longrightarrow> goKind (body x) = k) \<Longrightarrow>
     listItemsLoop c k xs res = Ok (res @ filter (Matches c) xs)"
  by (induction xs arbitrary: res) auto

lemma tombstonedKeysLoop_eq:
  "(\<And>i. ctx i = None) \<Longrightarrow> \<exists>ks. tombstonedKeysLoop ctx i es keys = Ok ks \<and>
     set ks = set keys \<union> {k. \<exists>a. Tombstone k a \<in> set es}"
  by (induction es arbitrary: i keys) (fastforce split: entry.splits)+

lemma ListTombstonedKeys_eq:
  assumes "store_inv s"
  shows "\<exists>ks. ListTombstonedKeys background s = Ok ks \<and> set ks = {k. absStore s k = Some SlotDeleted}"
proof -
  obtain ks where ks: "ListTombstonedKeys background s = Ok ks"
    "set ks = {k. \<exists>a. Tombstone k a \<in> set (cacheList (snd s))}"
    using tombstonedKeysLoop_eq [of background 0 "cacheList (snd s)" "[]"]
    by (auto simp: ListTombstonedKeys_def background_def)
  have "Tombstone k a \<in> set (cacheList (snd s)) \<longleftrightarrow> map_of (cache (snd s)) k = Some (Tombstone k a)"
    for k a
  proof
    assume "Tombstone k a \<in> set (cacheList (snd s))"
    then obtain k' where k': "map_of (cache (snd s)) k' = Some (Tombstone k a)"
      using in_cacheList [OF assms] by blast
    then have "entry_ok (fst s) (snd s) k' (Tombstone k a)" using assms by (simp add: store_inv_def)
    with k' show "map_of (cache (snd s)) k = Some (Tombstone k a)" by (simp add: entry_ok_def)
  qed (use in_cacheList [OF assms] in blast)
  moreover have "absStore s k = Some SlotDeleted \<longleftrightarrow> (\<exists>a. map_of (cache (snd s)) k = Some (Tombstone k a))"
    for k
    using assms by (auto simp: absStore_def store_inv_def entry_ok_def split: option.splits entry.splits)
  ultimately show ?thesis using ks by auto
qed

subsection \<open>Bulk deletion\<close>

text \<open>
  The loop deletes the listed objects that match, one after the other. Each is still live
  when its turn comes: deleting another key does not touch it.
\<close>

lemma deleteObjectsLoop_eq:
  assumes "store_inv s" and "\<And>i. ctx i = None" and "distinct items"
    and "set items \<subseteq> set (liveAddrs (snd s))"
  shows "\<exists>s'. deleteObjectsLoop ctx c opts i items n None s =
       (Ok (n + length (filter (\<lambda>a. Matches c (rd (fst s) a)) items)), s') \<and> store_inv s' \<and>
     absStore s' = (\<lambda>k. if \<exists>a\<in>set items. Matches c (rd (fst s) a) \<and> cacheKey (rd (fst s) a) = k
                        then leftBehind opts else absStore s k) \<and>
     counters (fst s') = counters (fst s) \<and> nextAddr (fst s') = nextAddr (fst s)"
  using assms(1,3,4)
proof (induction items arbitrary: i n s)
  case Nil
  then show ?case by auto
next
  case (Cons mo items)
  show ?case
  proof (cases "Matches c (rd (fst s) mo)")
    case False
    with Cons.IH [of s "Suc i" n] Cons.prems show ?thesis by (auto simp: assms(2))
  next
    case True
    let ?key = "cacheKey (rd (fst s) mo)"
    have look: "map_of (cache (snd s)) ?key = Some (Live mo)"
      using Cons.prems liveAddrs_key by auto
    obtain s1 where s1: "deleteKey opts ?key s = (Ok (), s1)" "store_inv s1"
      "absStore s1 = (absStore s)(?key := leftBehind opts)"
      "\<And>k. k \<noteq> ?key \<Longrightarrow> map_of (cache (snd s1)) k = map_of (cache (snd s)) k"
      "\<And>b. b \<noteq> mo \<Longrightarrow> rd (fst s1) b = rd (fst s) b"
      "counters (fst s1) = counters (fst s)" "nextAddr (fst s1) = nextAddr (fst s)"
      using deleteKey_live [OF Cons.prems(1) look] by metis
    have same: "rd (fst s1) b = rd (fst s) b" if "b \<in> set items" for b
      by (rule s1(5)) (use that Cons.prems(2) in auto)
    have live: "b \<in> set (liveAddrs (snd s1))" if "b \<in> set items" for b
    proof -
      have "map_of (cache (snd s)) (cacheKey (rd (fst s) b)) = Some (Live b)"
        using that Cons.prems liveAddrs_key [OF Cons.prems(1), of b] by auto
      moreover have "b \<noteq> mo" using that Cons.prems(2) by auto
      then have "cacheKey (rd (fst s) b) \<noteq> ?key" using calculation look by force
      ultimately show ?thesis using s1(2,4) same [OF that] by (simp add: liveAddrs_key)
    qed
    have step: "deleteObjectsLoop ctx c opts i (mo # items) n None s =
        deleteObjectsLoop ctx c opts (Suc i) items (Suc n) None s1"
      using True s1(1) by (simp add: assms(2) deleteKey_def)
    have len: "length (filter (\<lambda>a. Matches c (rd (fst s1) a)) items) =
        length (filter (\<lambda>a. Matches c (rd (fst s) a)) items)"
      using same by (metis (no_types, lifting) filter_cong)
    have "distinct items" "set items \<subseteq> set (liveAddrs (snd s1))" using Cons.prems(2) live by auto
    from Cons.IH [OF s1(2) this, of "Suc i" "Suc n"] obtain s' where
      s': "deleteObjectsLoop ctx c opts (Suc i) items (Suc n) None s1 =
         (Ok (Suc n + length (filter (\<lambda>a. Matches c (rd (fst s1) a)) items)), s')" "store_inv s'"
       "absStore s' = (\<lambda>k. if \<exists>a\<in>set items. Matches c (rd (fst s1) a) \<and> cacheKey (rd (fst s1) a) = k
                        then leftBehind opts else absStore s1 k)"
       "counters (fst s') = counters (fst s1)" "nextAddr (fst s') = nextAddr (fst s1)"
      by blast
    have "absStore s' = (\<lambda>k. if \<exists>a\<in>set (mo # items). Matches c (rd (fst s) a) \<and>
        cacheKey (rd (fst s) a) = k then leftBehind opts else absStore s k)"
      using s'(3) s1(3) same True by (auto simp: fun_eq_iff)
    with s' s1(6,7) step len True show ?thesis by simp
  qed
qed

lemma absStore_live_iff:
  assumes "store_inv s"
  shows "absStore s k = Some (SlotLive o') \<longleftrightarrow>
     (\<exists>a\<in>set (liveAddrs (snd s)). cacheKey (rd (fst s) a) = k \<and> rd (fst s) a = o')"
proof
  assume "absStore s k = Some (SlotLive o')"
  then obtain a where a: "map_of (cache (snd s)) k = Some (Live a)" "rd (fst s) a = o'"
    by (auto simp: absStore_def split: option.splits entry.splits)
  moreover have "a \<in> set (liveAddrs (snd s))" using a(1) liveAddrs_iff [OF assms] by blast
  ultimately show "\<exists>a\<in>set (liveAddrs (snd s)). cacheKey (rd (fst s) a) = k \<and> rd (fst s) a = o'"
    using store_invD(2) [OF assms a(1)] by blast
next
  assume "\<exists>a\<in>set (liveAddrs (snd s)). cacheKey (rd (fst s) a) = k \<and> rd (fst s) a = o'"
  then show "absStore s k = Some (SlotLive o')"
    using liveAddrs_key [OF assms] by (auto simp: absStore_def)
qed

lemma DeleteObjects_eq:
  assumes "store_inv s"
  obtains s' where "DeleteObjects background c opts s = (Ok (length (matching c s)), s')" "store_inv s'"
    "absStore s' = (\<lambda>k. case absStore s k of
        Some (SlotLive o') \<Rightarrow> if Matches c o' then leftBehind opts else Some (SlotLive o')
      | x \<Rightarrow> x)"
    "counters (fst s') = counters (fst s)" "nextAddr (fst s') = nextAddr (fst s)"
proof -
  obtain s' where s': "DeleteObjects background c opts s = (Ok (length (matching c s)), s')"
    "store_inv s'"
    "absStore s' = (\<lambda>k. if \<exists>a\<in>set (liveAddrs (snd s)). Matches c (rd (fst s) a) \<and>
        cacheKey (rd (fst s) a) = k then leftBehind opts else absStore s k)"
    "counters (fst s') = counters (fst s)" "nextAddr (fst s') = nextAddr (fst s)"
    using deleteObjectsLoop_eq [OF assms _ distinct_liveAddrs [OF assms], of background c opts 0 0]
    by (auto simp: DeleteObjects_def matching_def background_def liveAddrs_def)
  have "(\<exists>a\<in>set (liveAddrs (snd s)). Matches c (rd (fst s) a) \<and> cacheKey (rd (fst s) a) = k) \<longleftrightarrow>
      (\<exists>o'. absStore s k = Some (SlotLive o') \<and> Matches c o')" for k
    by (auto simp: absStore_live_iff [OF assms])
  then have "absStore s' = (\<lambda>k. case absStore s k of
        Some (SlotLive o') \<Rightarrow> if Matches c o' then leftBehind opts else Some (SlotLive o')
      | x \<Rightarrow> x)"
    unfolding s'(3) by (auto simp: fun_eq_iff split: option.splits slot.splits)
  with s' show thesis using that by blast
qed

subsection \<open>Watching\<close>

lemma shouldSkip_live:
  assumes "store_inv s" and "a \<in> set (liveAddrs (snd s))"
  shows "shouldSkipObject (rd (fst s) a) sv ns sel = Ok (\<not> (
     (ns = [] \<or> mNamespace (ometa (rd (fst s) a)) = ns) \<and> sel (mLabels (ometa (rd (fst s) a))) \<and>
     sint sv < sint (versionOf (rd (fst s) a))))"
  by (auto simp: shouldSkipObject_def live_version(1) [OF assms] not_le)

text \<open>The live objects a watch from a version has to replay.\<close>

definition pendingObjs :: "64 word \<Rightarrow> string \<Rightarrow> selector \<Rightarrow> sstate \<Rightarrow> kobj list" where
  "pendingObjs sv ns sel s = filter (\<lambda>o'. (ns = [] \<or> mNamespace (ometa o') = ns) \<and>
     sel (mLabels (ometa o')) \<and> sint sv < sint (versionOf o')) (map (rd (fst s)) (liveAddrs (snd s)))"

lemma pendingLoop_eq:
  "(\<And>x. x \<in> set xs \<Longrightarrow> shouldSkipObject x sv ns sel = Ok (\<not> P x)) \<Longrightarrow>
     pendingLoop sv ns sel xs evs = Ok (evs @ map (Pair Added) (filter P xs))"
  by (induction xs arbitrary: evs) auto

lemma buildPending_eq:
  assumes "store_inv s"
  shows "buildPendingWatchEvents sv ns sel s = Ok (map (Pair Added) (pendingObjs sv ns sel s))"
    "x \<in> set (pendingObjs sv ns sel s) \<Longrightarrow> shouldSkipObject x sv ns sel = Ok False"
proof -
  have skip: "shouldSkipObject x sv ns sel = Ok (\<not> ((ns = [] \<or> mNamespace (ometa x) = ns) \<and>
      sel (mLabels (ometa x)) \<and> sint sv < sint (versionOf x)))"
    if "x \<in> set (map (rd (fst s)) (liveAddrs (snd s)))" for x
    using that shouldSkip_live [OF assms] by auto
  then show "x \<in> set (pendingObjs sv ns sel s) \<Longrightarrow> shouldSkipObject x sv ns sel = Ok False"
    by (auto simp: pendingObjs_def)
  have "SliceOfMetaObjToRuntimeObj (rd (fst s)) (liveAddrs (snd s)) = Ok (liveAddrs (snd s))"
    by (rule SliceOfMetaObj_all) (use live_runtime [OF assms] in blast)
  then show "buildPendingWatchEvents sv ns sel s = Ok (map (Pair Added) (pendingObjs sv ns sel s))"
    using pendingLoop_eq [OF skip, of "map (rd (fst s)) (liveAddrs (snd s))" "[]"]
    by (simp add: buildPendingWatchEvents_def liveAddrs_def [symmetric] pendingObjs_def)
qed

lemma filter_map_rd: "filter P (map f xs) = map f (filter (\<lambda>a. P (f a)) xs)"
  by (simp add: filter_map comp_def)

text \<open>A schedule that receives every event of the channel hands over those not skipped, in order.\<close>

fun deliverable :: "64 word \<Rightarrow> string \<Rightarrow> selector \<Rightarrow> watch_event list \<Rightarrow> watch_event list" where
  "deliverable sv ns sel evs = filter (\<lambda>ev. shouldSkipObject (snd ev) sv ns sel = Ok False) evs"

lemma watchLoop_delivers:
  assumes "\<And>ev u. cb ev u = (None, u @ [ev])"
    and "\<And>ev. ev \<in> set chan \<Longrightarrow> \<exists>b. shouldSkipObject (snd ev) sv ns sel = Ok b"
  shows "watchLoop sv ns sel cb (replicate (length chan) Receive @ rest) chan u =
     watchLoop sv ns sel cb rest [] (u @ deliverable sv ns sel chan)"
  using assms(2)
proof (induction chan arbitrary: u)
  case (Cons ev chan)
  obtain b where "shouldSkipObject (snd ev) sv ns sel = Ok b" using Cons.prems [of ev] by auto
  with Cons show ?case by (cases b) (auto simp: assms(1))
qed simp

end
