(* ===== verification/StoreProps.thy ===== *)
theory StoreProps
  imports StoreLists
begin

text \<open>
  Correctness of the resource store: the invariant over every sequence of operations and of
  changes made by others to the shared memory, and the behaviour of each operation against the
  abstract store.
\<close>

subsection \<open>Histories\<close>

text \<open>
  A step is an operation of the store, or what the rest of the program may do to the memory in
  between: allocate objects, write to objects this store does not hold, advance the version
  counter it shares with another store.
\<close>

definition env_change :: "rstore \<Rightarrow> mem \<Rightarrow> mem \<Rightarrow> bool" where
  "env_change st m m' \<longleftrightarrow> nextAddr m \<le> nextAddr m' \<and>
     (\<forall>k a. map_of (cache st) k = Some (Live a) \<longrightarrow> rd m' a = rd m a) \<and>
     sint (counters m (versionCounter st)) \<le> sint (counters m' (versionCounter st))"

inductive store_step :: "sstate \<Rightarrow> sstate \<Rightarrow> bool" where
  addStep: "mo < nextAddr (fst s) \<Longrightarrow> noWrap s \<Longrightarrow> store_step s (snd (Add mo opts s))"
| updateStep: "mo < nextAddr (fst s) \<Longrightarrow> noWrap s \<Longrightarrow> store_step s (snd (Update mo opts s))"
| deleteStep: "store_step s (snd (Delete objName opts s))"
| deleteObjectsStep: "store_step s (snd (DeleteObjects ctx c opts s))"
| resetStep: "store_step s (fst s, Reset (snd s))"
| closeStep: "store_step s (fst s, Close (snd s))"
| envStep: "env_change (snd s) (fst s) m' \<Longrightarrow> store_step s (m', snd s)"

inductive store_reachable :: "sstate \<Rightarrow> bool" where
  created: "NewInMemResourceStore nm g lg vc m = (st, m') \<Longrightarrow>
    0 \<le> sint (counters m' (versionCounter st)) \<Longrightarrow> store_reachable (m', st)"
| stepped: "store_reachable s \<Longrightarrow> store_step s s' \<Longrightarrow> store_reachable s'"

inductive_simps store_step_simps: "store_step s s'"

lemma store_inv_empty:
  "cache (snd s) = [] \<Longrightarrow> 0 \<le> sint (CurrentResourceVersion s) \<Longrightarrow> store_inv s"
  by (simp add: store_inv_def distinct_versions_def)

lemma NewInMemResourceStore_inv:
  "NewInMemResourceStore nm g lg vc m = (st, m') \<Longrightarrow> 0 \<le> sint (counters m' (versionCounter st)) \<Longrightarrow>
     store_inv (m', st)"
  by (rule store_inv_empty)
    (auto simp: NewInMemResourceStore_def Let_def CurrentResourceVersion_def split: prod.splits)

lemma store_inv_deleteObjectsLoop:
  "store_inv s \<Longrightarrow> store_inv (snd (deleteObjectsLoop ctx c opts i items n err s))"
proof (induction ctx c opts i items n err s rule: deleteObjectsLoop.induct)
  case (2 ctx c opts i mo items n err s)
  let ?r = "deleteKey opts (cacheKey (rd (fst s) mo)) s"
  have inv: "store_inv (snd ?r)" using store_inv_deleteKey "2.prems" .
  show ?case
  proof (cases "ctx i")
    case None
    show ?thesis
    proof (cases "Matches c (rd (fst s) mo)")
      case True
      obtain o' s' where r: "?r = (o', s')" by (cases ?r)
      then show ?thesis
        using None True inv "2.IH"(2,3) [OF None]
        by (cases o') (auto simp: deleteKey_def [symmetric] Let_def)
    qed (use None 2 in simp)
  qed (use "2.prems" in simp)
qed (simp split: option.splits)

lemma store_inv_env: "store_inv s \<Longrightarrow> env_change (snd s) (fst s) m' \<Longrightarrow> store_inv (m', snd s)"
proof -
  assume inv: "store_inv s" and env: "env_change (snd s) (fst s) m'"
  have same: "rd m' a = rd (fst s) a" if "map_of (cache (snd s)) k = Some (Live a)" for k a
    using that env by (simp add: env_change_def)
  have "entry_ok m' (snd s) k e" if look: "map_of (cache (snd s)) k = Some e" for k e
  proof -
    have "entry_ok (fst s) (snd s) k e" using inv look by (simp add: store_inv_def)
    then show ?thesis
      using env same look by (cases e) (force simp: entry_ok_def env_change_def)+
  qed
  moreover have "distinct_versions m' (snd s)"
    using inv same unfolding store_inv_def distinct_versions_def by metis
  ultimately show ?thesis
    using inv env by (simp add: store_inv_def env_change_def CurrentResourceVersion_def)
qed

lemma store_inv_step: "store_step s s' \<Longrightarrow> store_inv s \<Longrightarrow> store_inv s'"
proof (induction rule: store_step.induct)
  case (deleteObjectsStep s ctx c opts)
  then show ?case by (simp add: DeleteObjects_def store_inv_deleteObjectsLoop)
next
  case (resetStep s)
  then show ?case
    by (intro store_inv_empty) (simp_all add: Reset_def store_inv_def CurrentResourceVersion_def)
next
  case (closeStep s)
  then show ?case
    by (intro store_inv_empty) (simp_all add: Close_def store_inv_def CurrentResourceVersion_def)
qed (auto intro: store_inv_Add store_inv_Update store_inv_env simp: Delete_eq store_inv_deleteKey)

subsection \<open>A concrete store\<close>

text \<open>A pod at address 0 and an empty store of pods, for the instances of the theorems below.\<close>

definition demoPod :: kobj where
  "demoPod = \<lparr>objGVK = GVK PodsDescriptor,
     ometa = emptyMeta\<lparr>mName := ''p'', mNamespace := ''d''\<rparr>,
     body = PodBody emptyPodSpec emptyPodStatus\<rparr>"

definition demoMem :: mem where
  "demoMem = (emptyMem (\<lambda>n. int n + 1) (\<lambda>n. replicate (Suc n) CHR ''u'') (\<lambda>n. replicate 5 CHR ''x''))
     \<lparr>cells := (\<lambda>_. zeroObj)(0 := demoPod), nextAddr := 1, nextCounter := 1\<rparr>"

definition demoStore :: rstore where
  "demoStore = \<lparr>sName = ''pods'', sObjectGVK = GVK PodsDescriptor, sObjectListGVK = ListGVK PodsDescriptor,
     cache = [], launched = [], shutDown = False, versionCounter = 0\<rparr>"

lemmas demo_defs = demoPod_def demoMem_def demoStore_def emptyMem_def emptyMeta_def PodsDescriptor_def

lemma demo_facts:
  "rd demoMem 0 = demoPod" "nextAddr demoMem = 1" "counters demoMem = (\<lambda>_. 0)"
  "store_inv (demoMem, demoStore)" "noWrap (demoMem, demoStore)" "validObj 0 (demoMem, demoStore)"
  "cacheKey demoPod = ''d/p''" "absStore (demoMem, demoStore) = (\<lambda>_. None)"
proof -
  show "store_inv (demoMem, demoStore)"
    by (rule store_inv_empty) (simp_all add: demo_defs CurrentResourceVersion_def)
  show "absStore (demoMem, demoStore) = (\<lambda>_. None)"
    by (simp add: absStore_def fun_eq_iff demo_defs)
qed (simp_all add: demo_defs rd_def noWrap_def CurrentResourceVersion_def validObj_def
    isRuntimeObject_def name_defs)

definition demoState1 :: sstate where
  "demoState1 = snd (Add 0 noOpts (demoMem, demoStore))"

lemma demo1_facts:
  "store_inv demoState1" "noWrap demoState1" "nextAddr (fst demoState1) = 1"
  "rd (fst demoState1) 0 = stamped 0 (demoMem, demoStore)"
  "absStore demoState1 = [''d/p'' \<mapsto> SlotLive (stamped 0 (demoMem, demoStore))]"
  "CurrentResourceVersion demoState1 = 1"
  "map_of (cache (snd demoState1)) ''d/p'' = Some (Live 0)"
proof -
  have eq: "demoState1 = broadcast Added 0 (putLive 0 (demoMem, demoStore))"
    by (simp add: demoState1_def Add_eq demo_facts noOpts_def)
  show "store_inv demoState1" by (simp add: demoState1_def store_inv_Add demo_facts)
  have cur: "CurrentResourceVersion (demoMem, demoStore) = 0"
    by (simp add: CurrentResourceVersion_def demo_facts)
  show "CurrentResourceVersion demoState1 = 1"
    by (simp add: eq CurrentResourceVersion_def [of "broadcast _ _ _"] demo_facts cur)
  then show "noWrap demoState1" by (simp add: noWrap_def)
  show "absStore demoState1 = [''d/p'' \<mapsto> SlotLive (stamped 0 (demoMem, demoStore))]"
    by (simp add: eq absStore_putLive demo_facts)
qed (simp_all add: demoState1_def Add_eq demo_facts noOpts_def)

subsection \<open>Properties\<close>

text \<open>
  C21. Every state a store can reach, whatever the order of \<open>Add\<close>, \<open>Update\<close>, \<open>Delete\<close>,
  \<open>DeleteObjects\<close>, \<open>Reset\<close> and \<open>Close\<close> and of the changes others make to the memory they share
  with it, is well-formed: keys are unique and agree with the objects stored under them, live
  objects have the kind of the store and pairwise distinct versions the counter has issued.
\<close>

theorem store_reachable_inv: "store_reachable s \<Longrightarrow> store_inv s"
  by (induction rule: store_reachable.induct) (auto intro: NewInMemResourceStore_inv store_inv_step)

theorem store_reachable_inv_witness: "store_inv demoState1"
proof -
  have "NewInMemResourceStore ''pods'' (GVK PodsDescriptor) (ListGVK PodsDescriptor) (Some 0) demoMem
      = (demoStore, demoMem)"
    by (simp add: NewInMemResourceStore_def demoStore_def)
  then have "store_reachable (demoMem, demoStore)"
    by (rule store_reachable.created) (simp add: demo_facts)
  moreover have "store_step (demoMem, demoStore) demoState1"
    unfolding demoState1_def by (rule addStep) (simp_all add: demo_facts)
  ultimately have "store_reachable demoState1" by (rule store_reachable.stepped)
  then show ?thesis by (rule store_reachable_inv)
qed

text \<open>
  \<open>Add\<close> of an object of the store's kind succeeds and changes the abstract store at the
  object's own key only: there is now a live object with the next resource version, also when
  the key was tombstoned. The version is larger than every version held before, and \<open>Get\<close> finds the added pointer.
\<close>

theorem Add_refines:
  assumes "store_inv s" "validObj mo s" "noWrap s"
  shows "\<exists>s'. Add mo opts s = (Ok (), s') \<and>
     absStore s' = (absStore s)(cacheKey (rd (fst s) mo) \<mapsto> SlotLive (stamped mo s)) \<and>
     sint (CurrentResourceVersion s') = sint (CurrentResourceVersion s) + 1 \<and>
     ParseObjectResourceVersion (rd (fst s') mo) = Ok (CurrentResourceVersion s') \<and>
     (\<forall>a\<in>set (liveAddrs (snd s)).
        sint (versionOf (rd (fst s) a)) < sint (CurrentResourceVersion s')) \<and>
     Get (CacheName (rd (fst s) mo)) s' = Ok mo"
proof -
  let ?s' = "if NoBroadcast opts then putLive mo s else broadcast Added mo (putLive mo s)"
  have cur: "CurrentResourceVersion ?s' = CurrentResourceVersion s + 1"
    by (simp add: CurrentResourceVersion_def [of "broadcast _ _ _"])
  have "sint (CurrentResourceVersion s + 1) = sint (CurrentResourceVersion s) + 1"
    using assms(3) by (simp add: noWrap_def sint_plus1)
  moreover have "\<forall>a\<in>set (liveAddrs (snd s)).
      sint (versionOf (rd (fst s) a)) \<le> sint (CurrentResourceVersion s)"
    using live_version(3) [OF assms(1)] by blast
  moreover have "Get (CacheName (rd (fst s) mo)) ?s' = Ok mo"
    using assms(2) by (simp add: Get_def GetByKey_def cacheKey_def [symmetric] validObj_def)
  moreover have "Add mo opts s = (Ok (), ?s')" using assms(2) by (simp add: Add_eq)
  moreover have "ParseObjectResourceVersion (rd (fst ?s') mo) = Ok (CurrentResourceVersion s + 1)"
    by (simp add: ParseObjectResourceVersion_def ParseResourceVersion_def)
  moreover have "absStore ?s' = (absStore s)(cacheKey (rd (fst s) mo) \<mapsto> SlotLive (stamped mo s))"
    using assms(1) by (simp add: absStore_putLive)
  ultimately show ?thesis by (intro exI [of _ ?s']) (simp add: cur)
qed

theorem Add_refines_witness:
  "\<exists>s'. Add 0 noOpts (demoMem, demoStore) = (Ok (), s') \<and>
     absStore s' = (\<lambda>_. None)(''d/p'' \<mapsto> SlotLive (stamped 0 (demoMem, demoStore)))"
  using Add_refines [of "(demoMem, demoStore)" 0 noOpts] by (auto simp: demo_facts)

text \<open>
  \<open>Update\<close> replaces a live object at its key and nothing else. On a key that never existed it
  is a not-found error, on a tombstoned key an error that is both \<open>ErrObjectDeleted\<close> and
  not-found; on an error nothing changes, not even the version counter.
\<close>

theorem Update_refines:
  assumes "store_inv s" "validObj mo s" "noWrap s"
  shows "(case absStore s (cacheKey (rd (fst s) mo)) of
       Some (SlotLive _) \<Rightarrow> fst (Update mo opts s) = Ok () \<and> absStore (snd (Update mo opts s)) =
         (absStore s)(cacheKey (rd (fst s) mo) \<mapsto> SlotLive (stamped mo s))
     | Some SlotDeleted \<Rightarrow> (\<exists>e. Update mo opts s = (Err e, s) \<and> errorsIs e ErrObjectDeleted \<and> isNotFound e)
     | None \<Rightarrow> (\<exists>e. Update mo opts s = (Err e, s) \<and> isNotFound e \<and> \<not> errorsIs e ErrObjectDeleted))"
  using GetByKey_abs [OF assms(1), of "cacheKey (rd (fst s) mo)"] assms(2)
  by (auto simp: Update_eq absStore_putLive [OF assms(1)] split: option.splits slot.splits)

theorem Update_refines_witness:
  "fst (Update 0 noOpts demoState1) = Ok () \<and>
     absStore (snd (Update 0 noOpts demoState1)) = [''d/p'' \<mapsto> SlotLive (stamped 0 demoState1)]"
  using Update_refines [of demoState1 0 noOpts] demo1_facts demo_facts
  by (simp add: validObj_def demoState1_def Add_eq noOpts_def)

text \<open>
  \<open>Delete\<close> of a live object removes it, leaving a tombstone exactly when \<open>MarkAsDeleted\<close> is set,
  touches no other key, stamps the object with a deletion time and starts one \<open>Deleted\<close>
  broadcast. Of a key that is not live it is a not-found error and changes nothing.
\<close>

theorem Delete_refines:
  assumes "store_inv s"
  shows "(case absStore s (objectNameString objName) of
       Some (SlotLive _) \<Rightarrow> (\<exists>s' a. Delete objName opts s = (Ok (), s') \<and>
         absStore s' = (absStore s)(objectNameString objName := leftBehind opts) \<and>
         map_of (cache (snd s)) (objectNameString objName) = Some (Live a) \<and>
         launched (snd s') = launched (snd s) @ [(Deleted, a)] \<and>
         (\<forall>b. b \<noteq> a \<longrightarrow> rd (fst s') b = rd (fst s) b))
     | _ \<Rightarrow> (\<exists>e. Delete objName opts s = (Err e, s) \<and> isNotFound e))"
proof (cases "\<exists>a. map_of (cache (snd s)) (objectNameString objName) = Some (Live a)")
  case True
  then obtain a where a: "map_of (cache (snd s)) (objectNameString objName) = Some (Live a)" by blast
  from deleteKey_live [OF assms a, of opts] obtain s' where
    "Delete objName opts s = (Ok (), s')"
    "absStore s' = (absStore s)(objectNameString objName := leftBehind opts)"
    "\<And>b. b \<noteq> a \<Longrightarrow> rd (fst s') b = rd (fst s) b"
    "launched (snd s') = launched (snd s) @ [(Deleted, a)]"
    by (metis Delete_eq)
  with a show ?thesis by (auto simp: absStore_def)
next
  case False
  then show ?thesis
    using deleteKey_missing [OF assms, of "objectNameString objName" opts]
    by (auto simp: Delete_eq absStore_def split: option.splits slot.splits entry.splits)
qed

theorem Delete_refines_witness:
  "\<exists>s'. Delete \<lparr>onNamespace = ''d'', onName = ''p''\<rparr> \<lparr>NoBroadcast = False, MarkAsDeleted = True\<rparr> demoState1
     = (Ok (), s') \<and> absStore s' ''d/p'' = Some SlotDeleted"
  using Delete_refines [OF demo1_facts(1), of "\<lparr>onNamespace = ''d'', onName = ''p''\<rparr>"
      "\<lparr>NoBroadcast = False, MarkAsDeleted = True\<rparr>"]
  by (auto simp: objectNameString_def demo1_facts leftBehind_def)

text \<open>
  \<open>ListMetaObjects\<close> returns exactly the live objects that match the criteria, each once and
  never a tombstone, and the largest of their versions (0 when there is none).
\<close>

theorem ListMetaObjects_exact:
  assumes "store_inv s"
  shows "\<exists>res maxVersion. ListMetaObjects background c s = Ok (res, maxVersion) \<and> distinct res \<and>
     rd (fst s) ` set res = {o'. Matches c o' \<and> (\<exists>k. absStore s k = Some (SlotLive o'))} \<and>
     (\<forall>a\<in>set res. sint (versionOf (rd (fst s) a)) \<le> sint maxVersion) \<and>
     (if res = [] then maxVersion = 0 else maxVersion \<in> versionOf ` rd (fst s) ` set res)"
proof -
  let ?mv = "fold (\<lambda>a mv. maxInt64 mv (versionOf (rd (fst s) a))) (matching c s) 0"
  note f = fold_maxInt64 [of "matching c s" "\<lambda>a. versionOf (rd (fst s) a)" 0]
  have pos: "0 < sint (versionOf (rd (fst s) a))" if "a \<in> set (matching c s)" for a
    using that live_version(2) [OF assms] by (simp add: matching_def)
  have "?mv \<in> versionOf ` rd (fst s) ` set (matching c s)"
    if ne: "matching c s \<noteq> []"
  proof -
    obtain a where "a \<in> set (matching c s)" using ne by (cases "matching c s") auto
    then have "?mv \<noteq> 0" using f pos [of a] by force
    with f show ?thesis by blast
  qed
  moreover have "rd (fst s) ` set (matching c s) =
      {o'. Matches c o' \<and> (\<exists>k. absStore s k = Some (SlotLive o'))}"
    by (auto simp: matching_def absStore_live_iff [OF assms])
  moreover have "distinct (matching c s)" using distinct_liveAddrs [OF assms] by (simp add: matching_def)
  ultimately show ?thesis
    using f by (auto simp: ListMetaObjects_eq [OF assms])
qed

theorem ListMetaObjects_exact_witness:
  "\<exists>res mv. ListMetaObjects background MatchAllCriteria demoState1 = Ok (res, mv) \<and>
     rd (fst demoState1) ` set res = {stamped 0 (demoMem, demoStore)}"
proof -
  have "{o'. \<exists>k. absStore demoState1 k = Some (SlotLive o')} = {stamped 0 (demoMem, demoStore)}"
    by (auto simp: demo1_facts split: if_splits)
  then show ?thesis
    using ListMetaObjects_exact [OF demo1_facts(1), of MatchAllCriteria] by auto
qed

text \<open>
  \<open>DeleteObjects\<close> succeeds, deletes exactly the live objects that match the criteria (leaving
  tombstones if asked to) and returns how many it deleted; every other key, tombstoned or not,
  is as before.
\<close>

theorem DeleteObjects_exact:
  assumes "store_inv s"
  shows "\<exists>n s'. DeleteObjects background c opts s = (Ok n, s') \<and>
     n = card {k. \<exists>o'. absStore s k = Some (SlotLive o') \<and> Matches c o'} \<and>
     absStore s' = (\<lambda>k. case absStore s k of
        Some (SlotLive o') \<Rightarrow> if Matches c o' then leftBehind opts else Some (SlotLive o')
      | x \<Rightarrow> x)"
proof -
  obtain s' where s': "DeleteObjects background c opts s = (Ok (length (matching c s)), s')"
    "absStore s' = (\<lambda>k. case absStore s k of
        Some (SlotLive o') \<Rightarrow> if Matches c o' then leftBehind opts else Some (SlotLive o')
      | x \<Rightarrow> x)"
    using DeleteObjects_eq [OF assms] by metis
  have keys: "{k. \<exists>o'. absStore s k = Some (SlotLive o') \<and> Matches c o'} =
      (\<lambda>a. cacheKey (rd (fst s) a)) ` set (matching c s)"
    by (auto simp: absStore_live_iff [OF assms] matching_def)
  have look: "map_of (cache (snd s)) (cacheKey (rd (fst s) a)) = Some (Live a)"
    if "a \<in> set (matching c s)" for a
    using that liveAddrs_key [OF assms, of a] by (simp add: matching_def)
  have "inj_on (\<lambda>a. cacheKey (rd (fst s) a)) (set (matching c s))"
    by (rule inj_onI) (metis look entry.inject(1) option.inject)
  then have "card {k. \<exists>o'. absStore s k = Some (SlotLive o') \<and> Matches c o'} = length (matching c s)"
    unfolding keys using distinct_card [of "matching c s"] distinct_liveAddrs [OF assms]
    by (simp add: card_image matching_def del: set_filter)
  with s' show ?thesis by auto
qed

theorem DeleteObjects_exact_witness:
  "\<exists>n s'. DeleteObjects background MatchAllCriteria noOpts demoState1 = (Ok n, s') \<and>
     absStore s' = (\<lambda>_. None)"
proof -
  have "(\<lambda>k. case absStore demoState1 k of
        Some (SlotLive o') \<Rightarrow> if Matches MatchAllCriteria o' then leftBehind noOpts else Some (SlotLive o')
      | x \<Rightarrow> x) = (\<lambda>_. None)"
    by (simp add: demo1_facts fun_eq_iff leftBehind_def noOpts_def)
  then show ?thesis using DeleteObjects_exact [OF demo1_facts(1), of MatchAllCriteria noOpts] by auto
qed

text \<open>
  A watch that starts at a version first delivers an \<open>Added\<close> event for exactly those live
  objects that are in the namespace, match the selector and are newer than that version, and
  a schedule that receives them all and then times out ends without error, having delivered them in
  the order of the cache.
\<close>

theorem Watch_replays:
  assumes "store_inv s" and "\<not> shutDown (snd s)"
    and "\<And>ev u. cb ev u = (None, u @ [ev])"
  shows "buildPendingWatchEvents sv ns sel s = Ok (map (Pair Added) (pendingObjs sv ns sel s)) \<and>
     Watch sv ns sel cb (replicate (length (pendingObjs sv ns sel s)) Receive @ [Timeout]) [] s [] =
       Some (Ok (), map (Pair Added) (pendingObjs sv ns sel s))"
proof -
  let ?pend = "pendingObjs sv ns sel s"
  note b = buildPending_eq(1) [OF assms(1), of sv ns sel]
  have noskip: "shouldSkipObject (snd ev) sv ns sel = Ok False" if "ev \<in> set (map (Pair Added) ?pend)" for ev
    using that buildPending_eq(2) [OF assms(1)] by auto
  then have "filter (\<lambda>ev. shouldSkipObject (snd ev) sv ns sel = Ok False) (map (Pair Added) ?pend)
      = map (Pair Added) ?pend"
    by (simp add: filter_id_conv)
  moreover have "watchLoop sv ns sel cb (replicate (length (map (Pair Added) ?pend)) Receive @ [Timeout])
      (map (Pair Added) ?pend) [] =
      watchLoop sv ns sel cb [Timeout] [] ([] @ deliverable sv ns sel (map (Pair Added) ?pend))"
    by (rule watchLoop_delivers) (use assms(3) noskip in blast)+
  ultimately show ?thesis using b assms(2) by (simp add: Watch_def)
qed

theorem Watch_replays_witness:
  "Watch 0 [] (\<lambda>_. True) (\<lambda>ev u. (None, u @ [ev])) [Receive, Timeout] [] demoState1 [] =
     Some (Ok (), [(Added, stamped 0 (demoMem, demoStore))])"
proof -
  have live: "liveAddrs (snd demoState1) = [0]"
    by (simp add: liveAddrs_def filterOutTombstones_def cacheList_def demoState1_def Add_eq demo_facts
        noOpts_def) (simp add: demoStore_def)
  have v: "0 < sint (versionOf (stamped 0 (demoMem, demoStore)))"
    using live_version(2) [OF demo1_facts(1), of 0] by (simp add: live demo1_facts)
  have "\<not> shutDown (snd demoState1)"
    by (simp add: demoState1_def Add_eq demo_facts noOpts_def) (simp add: broadcast_def putLive_def cachePut_def demoStore_def)
  from Watch_replays [OF demo1_facts(1) this, of "\<lambda>ev u. (None, u @ [ev])" 0 "[]" "\<lambda>_. True"]
  show ?thesis by (simp add: live demo1_facts v pendingObjs_def)
qed

end
