(* ===== verification/PlannerTypes.thy ===== *)
theory PlannerTypes
  imports ObjUtil
begin

text \<open>
  The planner's data, \<open>src/api/planner\<close> and \<open>src/api/core/v1alpha1\<close>: node pools and placements,
  the scheduling view of pods and nodes, scores, plans, and the order of priorities.
\<close>

subsection \<open>Placements and node pools\<close>

record node_placement =
  npPoolName :: string
  npTemplateName :: string
  npInstanceType :: string
  npRegion :: string
  npAvailabilityZone :: string

record node_template =
  ntCapacity :: resource_list
  ntKubeReserved :: resource_list
  ntSystemReserved :: resource_list
  ntName :: string
  ntArchitecture :: string
  ntInstanceType :: string
  ntPriority :: int
  ntMaxVolumes :: int

record node_pool =
  plLabels :: labels
  plAnnotations :: labels
  plQuota :: resource_list
  plName :: string
  plRegion :: string
  plTaints :: "taint list"
  plAvailabilityZones :: "string list"
  plNodeTemplates :: "node_template list"
  plPriority :: int

definition GetNodePlacements :: "node_pool \<Rightarrow> node_placement list" where
  "GetNodePlacements p = concat (map (\<lambda>nt. map (\<lambda>az.
     \<lparr>npPoolName = plName p, npTemplateName = ntName nt, npInstanceType = ntInstanceType nt,
      npRegion = plRegion p, npAvailabilityZone = az\<rparr>) (plAvailabilityZones p)) (plNodeTemplates p))"

text \<open>Strings are ordered byte by byte; the set's \<open>List\<close> is already sorted.\<close>

fun string_le :: "string \<Rightarrow> string \<Rightarrow> bool" where
  "string_le [] _ = True"
| "string_le (c # cs) [] = False"
| "string_le (c # cs) (d # ds) =
     ((of_char c :: nat) < of_char d \<or> c = d \<and> string_le cs ds)"

definition cmpString :: "string \<Rightarrow> string \<Rightarrow> int" where
  "cmpString a b = (if a = b then 0 else if string_le a b then - 1 else 1)"

definition GetAllAvailabilityZones :: "node_pool list \<Rightarrow> string list" where
  "GetAllAvailabilityZones pools =
     SortStableFunc cmpString (remdups (concat (map plAvailabilityZones pools)))"

subsection \<open>Priorities\<close>

datatype priority_key = PriorityKey (pkFirst: int) (pkSecond: int)

instantiation priority_key :: linorder
begin

definition less_eq_priority_key :: "priority_key \<Rightarrow> priority_key \<Rightarrow> bool" where
  "a \<le> b \<longleftrightarrow> pkFirst a < pkFirst b \<or> pkFirst a = pkFirst b \<and> pkSecond a \<le> pkSecond b"

definition less_priority_key :: "priority_key \<Rightarrow> priority_key \<Rightarrow> bool" where
  "a < b \<longleftrightarrow> pkFirst a < pkFirst b \<or> pkFirst a = pkFirst b \<and> pkSecond a < pkSecond b"

instance
  by standard (auto simp: less_eq_priority_key_def less_priority_key_def priority_key.expand)

end

definition CmpPriorityKeyDecreasing :: "priority_key \<Rightarrow> priority_key \<Rightarrow> int" where
  "CmpPriorityKeyDecreasing a b =
     (let firstCmp = compare (pkFirst b) (pkFirst a) in
      if firstCmp \<noteq> 0 then firstCmp else compare (pkSecond b) (pkSecond a))"

lemma CmpPriorityKeyDecreasing_le [simp]: "CmpPriorityKeyDecreasing a b \<le> 0 \<longleftrightarrow> b \<le> a"
  by (auto simp: CmpPriorityKeyDecreasing_def Let_def less_eq_priority_key_def compare_def)

text \<open>\<open>PriorityKey.String()\<close>, \<open>"%d-%d"\<close>.\<close>

definition formatD :: "int \<Rightarrow> string" where
  "formatD i = (if i < 0 then CHR ''-'' # digits (nat (- i)) else digits (nat i))"

definition priorityKeyString :: "priority_key \<Rightarrow> string" where
  "priorityKeyString k = formatD (pkFirst k) @ ''-'' @ formatD (pkSecond k)"

subsection \<open>Pods, nodes and their resources\<close>

record pod_info =
  piMeta :: object_meta
  piAggregatedRequests :: resource_list
  piNodeSelector :: labels
  piAffinity :: "affinity option"
  piOverhead :: resource_list
  piNodeName :: string
  piSchedulerName :: string
  piPriorityClassName :: string
  piPreemptionPolicy :: string
  piRuntimeClassName :: string
  piVolumes :: "volume list"
  piTolerations :: "toleration list"
  piTopologySpreadConstraints :: "topology_spread_constraint list"
  piResourceClaims :: "opaque list"
  piPriority :: int

record pod_resource_info =
  priName :: namespaced_name
  priAggregatedRequests :: resource_list

record node_info =
  niMeta :: object_meta
  niCapacity :: resource_list
  niAllocatable :: resource_list
  niCSINodeSpec :: "csi_driver list option"
  niInstanceType :: string
  niTaints :: "taint list"
  niConditions :: "node_condition list"
  niUnschedulable :: bool

record node_resource_info =
  nriCapacity :: resource_list
  nriAllocatable :: resource_list
  nriName :: string
  nriInstanceType :: string

definition PodInfo_GetResourceInfo :: "pod_info \<Rightarrow> pod_resource_info" where
  "PodInfo_GetResourceInfo p =
     \<lparr>priName = NamespacedName (piMeta p), priAggregatedRequests = piAggregatedRequests p\<rparr>"

definition NodeInfo_GetResourceInfo :: "node_info \<Rightarrow> node_resource_info" where
  "NodeInfo_GetResourceInfo n =
     \<lparr>nriCapacity = niCapacity n, nriAllocatable = niAllocatable n, nriName = mName (niMeta n),
      nriInstanceType = niInstanceType n\<rparr>"

definition LabelInstanceTypeStable :: string where
  "LabelInstanceTypeStable = ''node.kubernetes.io/instance-type''"
definition LabelArchStable :: string where
  "LabelArchStable = ''kubernetes.io/arch''"
definition LabelOSStable :: string where
  "LabelOSStable = ''kubernetes.io/os''"
definition LabelTopologyZone :: string where
  "LabelTopologyZone = ''topology.kubernetes.io/zone''"
definition LabelTopologyRegion :: string where
  "LabelTopologyRegion = ''topology.kubernetes.io/region''"
definition LabelHostname :: string where
  "LabelHostname = ''kubernetes.io/hostname''"
definition LabelNodePoolName :: string where
  "LabelNodePoolName = ''sa.gardener.cloud/node-pool-name''"
definition LabelNodeTemplateName :: string where
  "LabelNodeTemplateName = ''sa.gardener.cloud/node-template-name''"

lemmas label_defs = LabelInstanceTypeStable_def LabelArchStable_def LabelOSStable_def
  LabelTopologyZone_def LabelTopologyRegion_def LabelHostname_def LabelNodePoolName_def
  LabelNodeTemplateName_def

definition RequiredNodeLabelNames :: "string list" where
  "RequiredNodeLabelNames = [LabelInstanceTypeStable, LabelArchStable, LabelTopologyZone,
     LabelTopologyRegion, LabelHostname, LabelNodePoolName, LabelNodeTemplateName]"

text \<open>A missing key of a Go map reads as the zero value.\<close>

definition lookupStr :: "labels \<Rightarrow> string \<Rightarrow> string" where
  "lookupStr m k = (case map_of m k of Some v \<Rightarrow> v | None \<Rightarrow> [])"

fun validateLabelsLoop :: "labels \<Rightarrow> string list \<Rightarrow> unit outcome" where
  "validateLabelsLoop lbls [] = Ok ()"
| "validateLabelsLoop lbls (l # ls) =
     (case map_of lbls l of
        None \<Rightarrow> Err (Wrapped ''missing label'' [Sentinel ''ErrMissingRequiredLabel''])
      | Some _ \<Rightarrow> validateLabelsLoop lbls ls)"

definition ValidateLabels :: "node_info \<Rightarrow> unit outcome" where
  "ValidateLabels n = validateLabelsLoop (mLabels (niMeta n)) RequiredNodeLabelNames"

definition GetNodePlacement :: "node_info \<Rightarrow> node_placement outcome" where
  "GetNodePlacement n = bindO (ValidateLabels n) (\<lambda>_.
     let l = lookupStr (mLabels (niMeta n)) in
     Ok \<lparr>npPoolName = l LabelNodePoolName, npTemplateName = l LabelNodeTemplateName,
         npInstanceType = niInstanceType n, npRegion = l LabelTopologyRegion,
         npAvailabilityZone = l LabelTopologyZone\<rparr>)"

subsection \<open>Snapshots\<close>

record pvc_info =
  pciSpec :: pvc_spec
  pciPhase :: string
  pciMeta :: object_meta

record pv_info =
  pviCapacity :: resource_list
  pviNodeAffinity :: "node_selector option"
  pviClaimRef :: namespaced_name
  pviStorageClassName :: string
  pviPhase :: string
  pviMeta :: object_meta
  pviVolumeMode :: string
  pviAccessModes :: "string list"

text \<open>Storage, priority and runtime classes are API objects.\<close>

record cluster_snapshot =
  csPods :: "pod_info list"
  csNodes :: "node_info list"
  csPVs :: "pv_info list"
  csPVCs :: "pvc_info list"
  csStorageClasses :: "kobj list"
  csPriorityClasses :: "kobj list"
  csRuntimeClasses :: "kobj list"

definition GetUnscheduledPods :: "cluster_snapshot \<Rightarrow> pod_info list" where
  "GetUnscheduledPods c = filter (\<lambda>p. piNodeName p = []) (csPods c)"

text \<open>The counts are \<open>int32\<close>.\<close>

fun countByPlacementLoop ::
  "node_info list \<Rightarrow> (node_placement, 32 word) gomap \<Rightarrow> (node_placement, 32 word) gomap outcome" where
  "countByPlacementLoop [] cnt = Ok cnt"
| "countByPlacementLoop (n # ns) cnt =
     bindO (GetNodePlacement n) (\<lambda>p.
       countByPlacementLoop ns
         (AList.update p ((case map_of cnt p of Some c \<Rightarrow> c | None \<Rightarrow> 0) + 1) cnt))"

definition GetNodeCountByPlacement :: "cluster_snapshot \<Rightarrow> (node_placement, 32 word) gomap outcome" where
  "GetNodeCountByPlacement c = countByPlacementLoop (csNodes c) []"

subsection \<open>Scores and plans\<close>

record node_pod_assignment =
  npaNodeResources :: node_resource_info
  npaScheduledPods :: "pod_resource_info list"

record node_scorer_args =
  nsaID :: string
  nsaScaledNodePlacement :: node_placement
  nsaScaledNodePodAssignment :: "node_pod_assignment option"
  nsaOtherNodePodAssignments :: "node_pod_assignment list"
  nsaLeftOverUnscheduledPods :: "namespaced_name list"

record node_score =
  nscScaledNodeResource :: node_resource_info
  nscPlacement :: node_placement
  nscName :: string
  nscUnscheduledPods :: "namespaced_name list"
  nscValue :: "64 word"

record scale_out_item =
  soiPlacement :: node_placement
  soiCurrentReplicas :: "32 word"
  soiDelta :: "32 word"

record scale_out_plan =
  sopUnsatisfiedPodNames :: "string list"
  sopItems :: "scale_out_item list"

record scale_out_node_template =
  sotLabels :: labels
  sotAnnotations :: labels
  sotQuota :: resource_list
  sotCapacity :: resource_list
  sotKubeReserved :: resource_list
  sotSystemReserved :: resource_list
  sotPlacement :: node_placement
  sotArchitecture :: string
  sotTaints :: "taint list"
  sotPriorityKey :: priority_key

definition CmpScaleOutNodeTemplate :: "scale_out_node_template \<Rightarrow> scale_out_node_template \<Rightarrow> int" where
  "CmpScaleOutNodeTemplate a b = CmpPriorityKeyDecreasing (sotPriorityKey a) (sotPriorityKey b)"

text \<open>
  \<open>AsGenError\<close>: the arguments of \<open>errors.Is\<close> are the sentinel and the error, in this order, so only
  the bare sentinel counts as already wrapped.
\<close>

definition ErrGenScalingPlan :: goerr where
  "ErrGenScalingPlan = Sentinel ''ErrGenScalingPlan''"

definition AsGenError :: "goerr option \<Rightarrow> goerr option" where
  "AsGenError err = (case err of None \<Rightarrow> None
     | Some e \<Rightarrow> if errorsIs ErrGenScalingPlan e then Some e
                 else Some (Wrapped ''could not process request'' [ErrGenScalingPlan, e]))"

subsection \<open>Cloud providers\<close>

definition AsCloudProvider :: "string \<Rightarrow> string outcome" where
  "AsCloudProvider s =
     (if s = ''aws'' \<or> s = ''gcp'' \<or> s = ''azure'' \<or> s = ''ali'' \<or> s = ''openstack'' then Ok s
      else Err (Wrapped ''unknown'' [Sentinel ''ErrUnsupportedCloudProvider'']))"

end
