(* ===== verification/PodNodeUtil.thy ===== *)
theory PodNodeUtil
  imports PlannerTypes
begin

text \<open>
  Pod and node helpers, \<open>src/common/podutil/podutil.go\<close> and \<open>src/common/nodeutil/nodeutil.go\<close>:
  conversion between API objects and the planner's records, aggregation of resource requests,
  allocatable resources, pod conditions.
\<close>

subsection \<open>Pod conditions\<close>

definition GetPodCondition :: "pod_status \<Rightarrow> string \<Rightarrow> (nat \<times> pod_condition) option" where
  "GetPodCondition status conditionType =
     (case find (\<lambda>(i, c). pcType c = conditionType) (enumerate 0 (pstConditions status)) of
        Some ic \<Rightarrow> Some ic | None \<Rightarrow> None)"

text \<open>The time is what \<open>metav1.Now()\<close> returns. The result tells whether anything changed.\<close>

definition UpdatePodCondition :: "time \<Rightarrow> pod_status \<Rightarrow> pod_condition \<Rightarrow> bool \<times> pod_status" where
  "UpdatePodCondition nw status cond0 =
     (let cond = cond0\<lparr>pcLastTransitionTime := nw\<rparr> in
      case GetPodCondition status (pcType cond) of
        None \<Rightarrow> (True, status\<lparr>pstConditions := pstConditions status @ [cond]\<rparr>)
      | Some (i, old) \<Rightarrow>
          let cond' = (if pcStatus cond = pcStatus old
                       then cond\<lparr>pcLastTransitionTime := pcLastTransitionTime old\<rparr> else cond);
              isEqual = (pcStatus cond' = pcStatus old \<and> pcReason cond' = pcReason old \<and>
                pcMessage cond' = pcMessage old \<and> pcLastProbeTime cond' = pcLastProbeTime old \<and>
                pcLastTransitionTime cond' = pcLastTransitionTime old)
          in (\<not> isEqual, status\<lparr>pstConditions := (pstConditions status)[i := cond']\<rparr>))"

subsection \<open>Resource requests\<close>

definition addRequests :: "resource_list \<Rightarrow> resource_list \<Rightarrow> resource_list" where
  "addRequests req aggregate = fold (\<lambda>(k, v) aggregate.
     AList.update k ((case map_of aggregate k of Some q \<Rightarrow> q | None \<Rightarrow> 0) + v) aggregate) req aggregate"

definition AggregatePodRequests :: "pod_spec \<Rightarrow> resource_list" where
  "AggregatePodRequests p =
     fold (\<lambda>c. addRequests (cRequests c)) (psInitContainers p @ psContainers p) []"

definition PodResourceInfoFromCoreV1Pod :: "object_meta \<Rightarrow> pod_spec \<Rightarrow> pod_resource_info" where
  "PodResourceInfoFromCoreV1Pod mt p =
     \<lparr>priName = \<lparr>nnNamespace = mNamespace mt, nnName = mName mt\<rparr>,
      priAggregatedRequests = AggregatePodRequests p\<rparr>"

definition PodResourceInfosFromCoreV1Pods :: "(object_meta \<times> pod_spec) list \<Rightarrow> pod_resource_info list" where
  "PodResourceInfosFromCoreV1Pods pods = map (\<lambda>(mt, p). PodResourceInfoFromCoreV1Pod mt p) pods"

definition PodResourceInfosFromPodInfo :: "pod_info list \<Rightarrow> pod_resource_info list" where
  "PodResourceInfosFromPodInfo infos = map (\<lambda>pi.
     \<lparr>priName = NamespacedName (piMeta pi), priAggregatedRequests = piAggregatedRequests pi\<rparr>) infos"

definition GetObjectNamesFromPodResourceInfos :: "pod_resource_info list \<Rightarrow> string list" where
  "GetObjectNamesFromPodResourceInfos pods = map (\<lambda>p. namespacedNameString (priName p)) pods"

subsection \<open>Pods\<close>

definition AsPod :: "pod_info \<Rightarrow> kobj" where
  "AsPod info =
     \<lparr>objGVK = emptyGVK, ometa = piMeta info,
      body = PodBody
       \<lparr>psVolumes = piVolumes info, psInitContainers = [],
        psContainers = [\<lparr>cName = mName (piMeta info) @ ''-aggregated-container'',
                         cRequests = piAggregatedRequests info\<rparr>],
        psNodeSelector = piNodeSelector info, psNodeName = piNodeName info,
        psAffinity = piAffinity info, psSchedulerName = piSchedulerName info,
        psTolerations = piTolerations info, psPriorityClassName = piPriorityClassName info,
        psPriority = Some (piPriority info), psRuntimeClassName = Some (piRuntimeClassName info),
        psPreemptionPolicy = Some (piPreemptionPolicy info), psOverhead = piOverhead info,
        psTopologySpreadConstraints = piTopologySpreadConstraints info,
        psResourceClaims = piResourceClaims info\<rparr> emptyPodStatus\<rparr>"

text \<open>\<open>ptr.Deref(p, default)\<close>\<close>

definition deref :: "'a option \<Rightarrow> 'a \<Rightarrow> 'a" where
  "deref p d = (case p of Some x \<Rightarrow> x | None \<Rightarrow> d)"

definition AsPodInfo :: "object_meta \<Rightarrow> pod_spec \<Rightarrow> pod_info" where
  "AsPodInfo mt p =
     \<lparr>piMeta = mt, piAggregatedRequests = AggregatePodRequests p, piNodeSelector = psNodeSelector p,
      piAffinity = psAffinity p, piOverhead = psOverhead p, piNodeName = psNodeName p,
      piSchedulerName = psSchedulerName p, piPriorityClassName = psPriorityClassName p,
      piPreemptionPolicy = deref (psPreemptionPolicy p) [],
      piRuntimeClassName = deref (psRuntimeClassName p) [], piVolumes = psVolumes p,
      piTolerations = psTolerations p,
      piTopologySpreadConstraints = psTopologySpreadConstraints p,
      piResourceClaims = psResourceClaims p, piPriority = deref (psPriority p) 0\<rparr>"

definition PodInfosFromCoreV1Pods :: "(object_meta \<times> pod_spec) list \<Rightarrow> pod_info list" where
  "PodInfosFromCoreV1Pods pods = map (\<lambda>(mt, p). AsPodInfo mt p) pods"

definition GetPVCNames :: "pod_spec \<Rightarrow> string list" where
  "GetPVCNames p = concat (map (\<lambda>vol. case volPVC vol of Some n \<Rightarrow> [n] | None \<Rightarrow> []) (psVolumes p))"

definition IsUnscheduledPod :: "pod_spec \<Rightarrow> bool" where
  "IsUnscheduledPod p \<longleftrightarrow> psNodeName p = []"

definition CountUnscheduledPods :: "pod_spec list \<Rightarrow> nat" where
  "CountUnscheduledPods pods = length (filter IsUnscheduledPod pods)"

subsection \<open>Nodes\<close>

definition GetInstanceType :: "object_meta \<Rightarrow> string" where
  "GetInstanceType mt = lookupStr (mLabels mt) LabelInstanceTypeStable"

definition AsNodeInfo :: "object_meta \<Rightarrow> node_spec \<Rightarrow> node_status \<Rightarrow> node_info" where
  "AsNodeInfo mt sp st =
     \<lparr>niMeta = mt, niCapacity = nstCapacity st, niAllocatable = nstAllocatable st,
      niCSINodeSpec = None, niInstanceType = lookupStr (mLabels mt) LabelInstanceTypeStable,
      niTaints = nsTaints sp, niConditions = nstConditions st, niUnschedulable = nsUnschedulable sp\<rparr>"

definition AsNode :: "node_info \<Rightarrow> kobj" where
  "AsNode info =
     \<lparr>objGVK = emptyGVK, ometa = niMeta info,
      body = NodeBody \<lparr>nsProviderID = [], nsTaints = niTaints info, nsUnschedulable = niUnschedulable info\<rparr>
        \<lparr>nstCapacity = niCapacity info, nstAllocatable = niAllocatable info,
         nstConditions = niConditions info\<rparr>\<rparr>"

definition ResourcePods :: string where
  "ResourcePods = ''pods''"

text \<open>\<open>resource.MustParse("110")\<close> in nano units.\<close>

definition BuildAllocatable :: "resource_list \<Rightarrow> resource_list \<Rightarrow> resource_list \<Rightarrow> resource_list" where
  "BuildAllocatable capacity systemReserved kubeReserved =
     (let allocatable = SubtractResources (SubtractResources capacity systemReserved) kubeReserved in
      if map_of allocatable ResourcePods = None
      then AList.update ResourcePods (110 * 10 ^ 9) allocatable else allocatable)"

definition BuildReadyConditions :: "time \<Rightarrow> node_condition list" where
  "BuildReadyConditions t = [\<lparr>ncType = ''Ready'', ncStatus = ''True'', ncLastTransitionTime = t\<rparr>]"

definition AddNodeLabels :: "labels \<Rightarrow> string \<Rightarrow> string \<Rightarrow> node_placement \<Rightarrow> labels" where
  "AddNodeLabels nodeLabels arch hostName placement =
     AList.update LabelNodeTemplateName (npTemplateName placement)
    (AList.update LabelNodePoolName (npPoolName placement)
    (AList.update LabelHostname hostName
    (AList.update LabelOSStable ''linux''
    (AList.update LabelTopologyRegion (npRegion placement)
    (AList.update LabelTopologyZone (npAvailabilityZone placement)
    (AList.update LabelArchStable arch
    (AList.update LabelInstanceTypeStable (npInstanceType placement) nodeLabels)))))))"

definition NewCSINode :: "string \<Rightarrow> string \<Rightarrow> csi_driver list \<Rightarrow> kobj" where
  "NewCSINode nodeName nodeUID csiNodeSpec =
     \<lparr>objGVK = emptyGVK,
      ometa = emptyMeta\<lparr>mName := nodeName,
        mOwnerReferences := [\<lparr>orAPIVersion = ''v1'', orKind = GetKind CSINodeDescriptor,
          orName = nodeName, orUID = nodeUID\<rparr>]\<rparr>,
      body = CSINodeBody csiNodeSpec\<rparr>"

subsection \<open>Lemmas\<close>

definition requested :: "resource_list \<Rightarrow> string \<Rightarrow> quantity" where
  "requested r k = (case map_of r k of Some q \<Rightarrow> q | None \<Rightarrow> 0)"

lemma map_of_addRequests:
  assumes "wf_map req"
  shows "map_of (addRequests req agg) k =
     (case map_of req k of None \<Rightarrow> map_of agg k | Some v \<Rightarrow> Some (requested agg k + v))"
  using assms
proof (induction req arbitrary: agg)
  case (Cons kv req)
  obtain k' v where kv: "kv = (k', v)" by (cases kv)
  with Cons.prems have "map_of req k' = None" by (simp add: map_of_eq_None_iff)
  with Cons kv show ?case
    by (auto simp: addRequests_def requested_def split: option.splits)
qed (simp add: addRequests_def)

lemma requested_addRequests:
  "wf_map req \<Longrightarrow> requested (addRequests req agg) k = requested agg k + requested req k"
  by (simp add: requested_def [of "addRequests req agg"] map_of_addRequests requested_def [of req]
      requested_def split: option.splits)

lemma requested_fold:
  "list_all (\<lambda>c. wf_map (cRequests c)) cs \<Longrightarrow>
     requested (fold (\<lambda>c. addRequests (cRequests c)) cs agg) k =
     requested agg k + (\<Sum>c\<leftarrow>cs. requested (cRequests c) k)"
  by (induction cs arbitrary: agg) (auto simp: requested_addRequests)

lemma dom_fold:
  "list_all (\<lambda>c. wf_map (cRequests c)) cs \<Longrightarrow>
     map_of (fold (\<lambda>c. addRequests (cRequests c)) cs agg) k = None \<longleftrightarrow>
     map_of agg k = None \<and> (\<forall>c\<in>set cs. map_of (cRequests c) k = None)"
  by (induction cs arbitrary: agg) (auto simp: map_of_addRequests split: option.splits)

lemma update_fresh: "map_of m k = None \<Longrightarrow> AList.update k v m = m @ [(k, v)]"
  by (induction m) (auto split: if_splits)

lemma addRequests_fresh:
  "wf_map req \<Longrightarrow> (\<forall>k\<in>fst ` set req. map_of agg k = None) \<Longrightarrow> addRequests req agg = agg @ req"
proof (induction req arbitrary: agg)
  case (Cons kv req)
  obtain k v where kv: "kv = (k, v)" by (cases kv)
  have "addRequests (kv # req) agg = addRequests req (agg @ [(k, v)])"
    using Cons.prems kv by (simp add: addRequests_def update_fresh)
  also have "\<dots> = (agg @ [(k, v)]) @ req"
    by (rule Cons.IH) (use Cons.prems kv in \<open>auto simp: map_of_eq_None_iff image_iff\<close>)
  finally show ?case using kv by simp
qed (simp add: addRequests_def)

lemma map_of_SubtractResources:
  assumes "wf_map b"
  shows "map_of (SubtractResources a b) k = map_option (\<lambda>v. v - requested b k) (map_of a k)"
  using assms
proof (induction b arbitrary: a)
  case Nil
  then show ?case by (simp add: SubtractResources_def requested_def option.map_ident)
next
  case (Cons kv b)
  obtain k' q where kv: "kv = (k', q)" by (cases kv)
  with Cons.prems have "map_of b k' = None" by (simp add: map_of_eq_None_iff)
  with Cons kv show ?case
    by (auto simp: SubtractResources_def requested_def option.map_comp split: option.splits)
qed


lemma GetPodCondition_find:
  "GetPodCondition st ty = find (\<lambda>(i, c). pcType c = ty) (enumerate 0 (pstConditions st))"
  unfolding GetPodCondition_def by (simp split: option.split)

lemma GetPodCondition_iff:
  "GetPodCondition st ty = Some (i, c) \<longleftrightarrow> i < length (pstConditions st) \<and> pstConditions st ! i = c \<and>
     pcType c = ty \<and> (\<forall>j<i. pcType (pstConditions st ! j) \<noteq> ty)"
  by (auto simp: GetPodCondition_find find_Some_iff nth_enumerate_eq)

lemma GetPodCondition_None:
  "GetPodCondition st ty = None \<longleftrightarrow> (\<forall>c\<in>set (pstConditions st). pcType c \<noteq> ty)"
proof -
  have "snd ` set (enumerate 0 (pstConditions st)) = set (pstConditions st)"
    by (metis list.set_map map_snd_enumerate)
  then show ?thesis unfolding GetPodCondition_find find_None_iff by force
qed

text \<open>The two branches of \<open>UpdatePodCondition\<close>.\<close>

lemma UpdatePodCondition_new:
  assumes "UpdatePodCondition nw st cond = (changed, st')" "GetPodCondition st (pcType cond) = None"
  shows "changed" "pstConditions st' = pstConditions st @ [cond\<lparr>pcLastTransitionTime := nw\<rparr>]"
    "GetPodCondition st' (pcType cond) =
       Some (length (pstConditions st), cond\<lparr>pcLastTransitionTime := nw\<rparr>)"
proof -
  show c: "changed" "pstConditions st' = pstConditions st @ [cond\<lparr>pcLastTransitionTime := nw\<rparr>]"
    using assms by (auto simp: UpdatePodCondition_def Let_def)
  have "\<forall>c\<in>set (pstConditions st). pcType c \<noteq> pcType cond" using assms(2) by (simp add: GetPodCondition_None)
  then show "GetPodCondition st' (pcType cond) =
       Some (length (pstConditions st), cond\<lparr>pcLastTransitionTime := nw\<rparr>)"
    by (auto simp: GetPodCondition_iff c(2) nth_append)
qed

lemma UpdatePodCondition_old:
  fixes cond :: pod_condition
  assumes "UpdatePodCondition nw st cond = (changed, st')" "GetPodCondition st (pcType cond) = Some (i, old)"
  defines "new \<equiv> cond\<lparr>pcLastTransitionTime := if pcStatus cond = pcStatus old then pcLastTransitionTime old else nw\<rparr>"
  shows "st' = st\<lparr>pstConditions := (pstConditions st)[i := new]\<rparr>" "\<not> changed \<Longrightarrow> new = old"
    "GetPodCondition st' (pcType cond) = Some (i, new)"
proof -
  have at: "i < length (pstConditions st)" "pstConditions st ! i = old" "pcType old = pcType cond"
    "\<forall>j<i. pcType (pstConditions st ! j) \<noteq> pcType cond"
    using assms(2) by (auto simp: GetPodCondition_iff)
  show st': "st' = st\<lparr>pstConditions := (pstConditions st)[i := new]\<rparr>"
    using assms by (auto simp: UpdatePodCondition_def Let_def)
  show "new = old" if "\<not> changed"
    using that assms at(3) by (auto simp: UpdatePodCondition_def Let_def intro: pod_condition.equality)
  show "GetPodCondition st' (pcType cond) = Some (i, new)"
    using at by (auto simp: GetPodCondition_iff st' new_def)
qed

lemma UpdatePodCondition_get:
  "\<exists>i t. GetPodCondition (snd (UpdatePodCondition nw st cond)) (pcType cond) =
     Some (i, cond\<lparr>pcLastTransitionTime := t\<rparr>)"
proof -
  obtain changed st' where u: "UpdatePodCondition nw st cond = (changed, st')" by fastforce
  show ?thesis
  proof (cases "GetPodCondition st (pcType cond)")
    case None
    with UpdatePodCondition_new(3) [OF u] u show ?thesis by auto
  next
    case (Some ic)
    with UpdatePodCondition_old(3) [OF u, of "fst ic" "snd ic"] u show ?thesis by auto
  qed
qed

lemma label_distinct:
  "LabelNodePoolName \<noteq> LabelNodeTemplateName" "LabelTopologyRegion \<noteq> LabelNodeTemplateName"
  "LabelTopologyRegion \<noteq> LabelNodePoolName" "LabelTopologyRegion \<noteq> LabelHostname"
  "LabelTopologyRegion \<noteq> LabelOSStable" "LabelTopologyZone \<noteq> LabelNodeTemplateName"
  "LabelTopologyZone \<noteq> LabelNodePoolName" "LabelTopologyZone \<noteq> LabelHostname"
  "LabelTopologyZone \<noteq> LabelOSStable" "LabelTopologyZone \<noteq> LabelTopologyRegion"
  "LabelInstanceTypeStable \<noteq> LabelNodeTemplateName" "LabelInstanceTypeStable \<noteq> LabelNodePoolName"
  "LabelInstanceTypeStable \<noteq> LabelHostname" "LabelInstanceTypeStable \<noteq> LabelOSStable"
  "LabelInstanceTypeStable \<noteq> LabelTopologyRegion" "LabelInstanceTypeStable \<noteq> LabelTopologyZone"
  "LabelInstanceTypeStable \<noteq> LabelArchStable"
  by (simp_all add: label_defs)

lemma map_of_updates_labels:
  "lookupStr (AList.update k v m) k' = (if k' = k then v else lookupStr m k')"
  by (simp add: lookupStr_def update_conv')

subsection \<open>Claims\<close>

text \<open>
  The aggregated requests of a pod are, resource by resource, the sum over all its init
  containers and containers, and name exactly the resources some container requests.
\<close>

theorem AggregatePodRequests_sum:
  assumes "\<forall>c\<in>set (psInitContainers p @ psContainers p). wf_map (cRequests c)"
  shows "requested (AggregatePodRequests p) k =
      (\<Sum>c\<leftarrow>psInitContainers p @ psContainers p. requested (cRequests c) k) \<and>
    (map_of (AggregatePodRequests p) k = None \<longleftrightarrow>
      (\<forall>c\<in>set (psInitContainers p @ psContainers p). map_of (cRequests c) k = None))"
proof -
  have wf: "list_all (\<lambda>c. wf_map (cRequests c)) (psInitContainers p @ psContainers p)"
    using assms by (simp add: list_all_iff)
  show ?thesis
    unfolding AggregatePodRequests_def requested_fold [OF wf] dom_fold [OF wf]
    by (simp add: requested_def [of "[]"])
qed

theorem AggregatePodRequests_sum_witness:
  "requested (AggregatePodRequests (emptyPodSpec\<lparr>
      psInitContainers := [\<lparr>cName = ''i'', cRequests = [(''cpu'', 1)]\<rparr>],
      psContainers := [\<lparr>cName = ''c'', cRequests = [(''cpu'', 2), (''memory'', 5)]\<rparr>]\<rparr>)) ''cpu'' = 3"
  by (subst AggregatePodRequests_sum [THEN conjunct1]) (simp_all add: requested_def emptyPodSpec_def)

text \<open>
  C34. Converting planner pod information to a pod and back loses nothing: the aggregated requests
  travel in one container, the optional fields as pointers.
\<close>

theorem AsPodInfo_AsPod:
  assumes "wf_map (piAggregatedRequests info)" "body (AsPod info) = PodBody sp st"
  shows "AsPodInfo (ometa (AsPod info)) sp = info"
  using assms addRequests_fresh [of "piAggregatedRequests info" "[]"]
  by (auto simp: AsPod_def AsPodInfo_def AggregatePodRequests_def deref_def)

theorem AsPodInfo_AsPod_witness:
  "\<exists>info sp st. body (AsPod info) = PodBody sp st \<and> piAggregatedRequests info = [(''cpu'', 1)] \<and>
     AsPodInfo (ometa (AsPod info)) sp = info"
proof -
  let ?info = "(AsPodInfo emptyMeta emptyPodSpec)\<lparr>piAggregatedRequests := [(''cpu'', 1)]\<rparr>"
  obtain sp st where "body (AsPod ?info) = PodBody sp st" by (simp add: AsPod_def)
  moreover have "piAggregatedRequests ?info = [(''cpu'', 1)]" by simp
  ultimately show ?thesis using AsPodInfo_AsPod [of ?info sp st] by (intro exI [of _ ?info] exI [of _ sp] exI [of _ st]) simp
qed

text \<open>
  \<open>UpdatePodCondition\<close> leaves exactly one kind of condition changed: the one of the given type
  ends with the given status, reason, message and probe time, keeps its transition time when the
  status did not change and otherwise gets the current time, and every other type is untouched.
  It reports no change only if the status is the one it was given.
\<close>

theorem UpdatePodCondition_correct:
  assumes "UpdatePodCondition nw st cond = (changed, st')"
  shows "(\<exists>i t. GetPodCondition st' (pcType cond) = Some (i, cond\<lparr>pcLastTransitionTime := t\<rparr>) \<and>
      t = (case GetPodCondition st (pcType cond) of
         Some (_, old) \<Rightarrow> if pcStatus cond = pcStatus old then pcLastTransitionTime old else nw
       | None \<Rightarrow> nw)) \<and>
    (\<forall>ty. ty \<noteq> pcType cond \<longrightarrow> GetPodCondition st' ty = GetPodCondition st ty) \<and>
    (\<not> changed \<longrightarrow> st' = st)"
proof (cases "GetPodCondition st (pcType cond)")
  case None
  note new = UpdatePodCondition_new [OF assms None]
  have "GetPodCondition st' ty = GetPodCondition st ty" if "ty \<noteq> pcType cond" for ty
  proof (cases "GetPodCondition st ty")
    case (Some ic)
    obtain i c where ic: "ic = (i, c)" by (cases ic)
    from Some [unfolded ic GetPodCondition_iff] have "GetPodCondition st' ty = Some (i, c)"
      unfolding GetPodCondition_iff new(2) by (auto simp: nth_append)
    with Some ic show ?thesis by simp
  next
    case None
    moreover from this have "GetPodCondition st' ty = None"
      using that new(2) by (auto simp: GetPodCondition_None)
    ultimately show ?thesis by simp
  qed
  then show ?thesis using None new by auto
next
  case (Some ic)
  obtain i old where ic: "ic = (i, old)" by (cases ic)
  note upd = UpdatePodCondition_old [OF assms Some [unfolded ic]]
  have at: "i < length (pstConditions st)" "pstConditions st ! i = old" "pcType old = pcType cond"
    using Some ic by (auto simp: GetPodCondition_iff)
  have keep: "GetPodCondition st' ty = GetPodCondition st ty" if ne: "ty \<noteq> pcType cond" for ty
  proof (cases "GetPodCondition st ty")
    case None
    moreover from this have "GetPodCondition st' ty = None"
      using ne upd(1) by (auto simp: GetPodCondition_None dest!: set_update_subset_insert [THEN subsetD])
    ultimately show ?thesis by simp
  next
    case (Some jc)
    obtain j c where jc: "jc = (j, c)" by (cases jc)
    from Some [unfolded jc GetPodCondition_iff] have "GetPodCondition st' ty = Some (j, c)"
      unfolding GetPodCondition_iff upd(1) using ne at by (auto simp: nth_list_update)
    with Some jc show ?thesis by simp
  qed
  have "\<not> changed \<longrightarrow> st' = st"
    using upd(1,2) at(2) by (metis list_update_id pod_status.surjective pod_status.update_convs(2))
  then show ?thesis using Some ic keep upd(3) by auto
qed

theorem UpdatePodCondition_correct_witness:
  "\<exists>changed st' i t. UpdatePodCondition 7 emptyPodStatus
       \<lparr>pcType = ''Ready'', pcStatus = ''True'', pcReason = [], pcMessage = [], pcLastProbeTime = 0,
        pcLastTransitionTime = 0\<rparr> = (changed, st') \<and> GetPodCondition st' ''Ready'' = Some (i,
       \<lparr>pcType = ''Ready'', pcStatus = ''True'', pcReason = [], pcMessage = [], pcLastProbeTime = 0,
        pcLastTransitionTime = t\<rparr>)"
proof -
  let ?c = "\<lparr>pcType = ''Ready'', pcStatus = ''True'', pcReason = [], pcMessage = [], pcLastProbeTime = 0,
        pcLastTransitionTime = 0\<rparr> :: pod_condition"
  obtain changed st' where u: "UpdatePodCondition 7 emptyPodStatus ?c = (changed, st')" by fastforce
  show ?thesis using UpdatePodCondition_correct [OF u] u by auto
qed

text \<open>
  The labels written on a simulated node are those its placement is read back from: whatever
  labels the pool already gives, the required labels are all present and the placement of the
  node comes back unchanged.
\<close>

theorem GetNodePlacement_AddNodeLabels:
  "GetNodePlacement (AsNodeInfo (mt\<lparr>mLabels := AddNodeLabels ls arch host pl\<rparr>) sp st) = Ok pl"
proof -
  let ?l = "AddNodeLabels ls arch host pl"
  have present: "map_of ?l k \<noteq> None" if "k \<in> set RequiredNodeLabelNames" for k
    using that by (auto simp: AddNodeLabels_def RequiredNodeLabelNames_def update_conv')
  have "validateLabelsLoop ?l ks = Ok ()" if "set ks \<subseteq> set RequiredNodeLabelNames" for ks
    using that present by (induction ks) (auto split: option.split)
  then show ?thesis
    by (simp add: GetNodePlacement_def ValidateLabels_def AsNodeInfo_def AddNodeLabels_def
        map_of_updates_labels label_distinct)
qed

text \<open>
  The allocatable resources of a node template are its capacity less both reservations, for the
  resources of the capacity and no others, except that \<open>pods\<close> defaults to 110.
\<close>

theorem BuildAllocatable_spec:
  assumes "wf_map systemReserved" "wf_map kubeReserved"
  shows "map_of (BuildAllocatable capacity systemReserved kubeReserved) k =
    (case map_of capacity k of
       Some q \<Rightarrow> Some (q - requested systemReserved k - requested kubeReserved k)
     | None \<Rightarrow> if k = ResourcePods then Some (110 * 10 ^ 9) else None)"
  using assms
  by (simp add: BuildAllocatable_def Let_def map_of_SubtractResources update_conv' option.map_comp comp_def
      split: option.split)

theorem BuildAllocatable_spec_witness:
  "map_of (BuildAllocatable [(''cpu'', 8)] [(''cpu'', 1)] [(''cpu'', 2)]) ''cpu'' = Some 5"
  by (subst BuildAllocatable_spec) (simp_all add: requested_def)

end
