(* ===== verification/EventSink.thy ===== *)
theory EventSink
  imports ObjUtil
begin

text \<open>
  The in-memory event sink, \<open>src/minkapi/view/eventsink/eventsink.go\<close>: a slice of events. JSON and
  strategic merge are the library's: \<open>mergeEvent e patch\<close> stands for marshalling, patching and
  unmarshalling one event.
\<close>

record event =
  eName :: string
  eNamespace :: string
  eBody :: event_body

type_synonym sink = "event list"

definition EventSink_New :: sink where
  "EventSink_New = []"

definition EventSink_Create :: "event \<Rightarrow> sink \<Rightarrow> (event, sink) eff" where
  "EventSink_Create ev s = (Ok ev, s @ [ev])"

fun EventSink_Update :: "event \<Rightarrow> sink \<Rightarrow> (event, sink) eff" where
  "EventSink_Update ev [] = (Err (ApiStatus NotFoundReason), [])"
| "EventSink_Update ev (e # s) =
     (if eName e = eName ev \<and> eNamespace e = eNamespace ev then (Ok ev, ev # s)
      else mapState ((#) e) (EventSink_Update ev s))"

fun EventSink_Patch :: "(event \<Rightarrow> json \<Rightarrow> event outcome) \<Rightarrow> event \<Rightarrow> json \<Rightarrow> sink \<Rightarrow> (event, sink) eff" where
  "EventSink_Patch mergeEvent old patchData [] = (Err (ApiStatus NotFoundReason), [])"
| "EventSink_Patch mergeEvent old patchData (e # s) =
     (if eName e = eName old \<and> eNamespace e = eNamespace old then
        (case mergeEvent e patchData of
           Ok e' \<Rightarrow> (Ok e', e' # s) | Err x \<Rightarrow> (Err x, e # s) | Panic p \<Rightarrow> (Panic p, e # s))
      else mapState ((#) e) (EventSink_Patch mergeEvent old patchData s))"

definition EventSink_List :: "sink \<Rightarrow> event list" where
  "EventSink_List s = s"

definition EventSink_Reset :: "sink \<Rightarrow> sink" where
  "EventSink_Reset s = []"

subsection \<open>Lemmas\<close>

definition sameEvent :: "event \<Rightarrow> event \<Rightarrow> bool" where
  "sameEvent a b \<longleftrightarrow> eName a = eName b \<and> eNamespace a = eNamespace b"

lemma EventSink_Update_eq:
  "EventSink_Update ev s =
     (if \<exists>e\<in>set s. sameEvent e ev
      then (Ok ev, takeWhile (\<lambda>e. \<not> sameEvent e ev) s @ ev # tl (dropWhile (\<lambda>e. \<not> sameEvent e ev) s))
      else (Err (ApiStatus NotFoundReason), s))"
  by (induction s) (auto simp: sameEvent_def)

lemma EventSink_Patch_length: "length (snd (EventSink_Patch f old p s)) = length s"
  by (induction s) (auto simp: mapState_def split: outcome.splits)

end
