(* ===== verification/Views.thy ===== *)
theory Views
  imports StoreProps PodNodeUtil EventSink
begin

text \<open>
  The views of MinKAPI, \<open>src/minkapi/view/base.go\<close>, \<open>sandbox.go\<close> and \<open>access.go\<close>. A view is a handle:
  a base view, or a sandbox over a delegate view; the delegate of a sandbox never changes. The
  world holds the memory of objects and the state of every view: its stores by kind, its event
  sink, its change counter. A view method that locks runs as one step; the methods that call
  several store operations are the sequence of those steps.
\<close>

subsection \<open>State\<close>

datatype view = BaseView nat | SandboxView nat view

record vstate =
  vName :: string
  vStores :: "gvk \<Rightarrow> rstore option"
  vSink :: sink
  vChangeCount :: "64 word"
  vKubeConfigPath :: string

record world =
  wMem :: mem
  wViews :: "nat \<Rightarrow> vstate"
  wNext :: nat

fun viewId :: "view \<Rightarrow> nat" where
  "viewId (BaseView i) = i"
| "viewId (SandboxView i d) = i"

definition vs :: "world \<Rightarrow> view \<Rightarrow> vstate" where
  "vs w v = wViews w (viewId v)"

definition setView :: "nat \<Rightarrow> vstate \<Rightarrow> world \<Rightarrow> world" where
  "setView i s w = w\<lparr>wViews := (wViews w)(i := s)\<rparr>"

definition podsGVK :: gvk where
  "podsGVK = GVK PodsDescriptor"

definition GetResourceStore :: "view \<Rightarrow> gvk \<Rightarrow> world \<Rightarrow> rstore outcome" where
  "GetResourceStore v g w = (case vStores (vs w v) g of
       None \<Rightarrow> Err (Wrapped ''store not found'' [Sentinel ''ErrStoreNotFound'']) | Some s \<Rightarrow> Ok s)"

text \<open>A store operation on the store of a kind: \<open>s, err := v.GetResourceStore(gvk)\<close>, then \<open>s.op\<close>.\<close>

definition putStore :: "view \<Rightarrow> gvk \<Rightarrow> sstate \<Rightarrow> world \<Rightarrow> world" where
  "putStore v g s w = setView (viewId v)
     (vs w v\<lparr>vStores := (vStores (vs w v))(g := Some (snd s))\<rparr>) (w\<lparr>wMem := fst s\<rparr>)"

definition withStore :: "view \<Rightarrow> gvk \<Rightarrow> (sstate \<Rightarrow> ('a, sstate) eff) \<Rightarrow> world \<Rightarrow> ('a, world) eff" where
  "withStore v g f w = (case GetResourceStore v g w of
       Err e \<Rightarrow> (Err e, w) | Panic p \<Rightarrow> (Panic p, w)
     | Ok s \<Rightarrow> let (r, s') = f (wMem w, s) in (r, putStore v g s' w))"

definition readStore :: "view \<Rightarrow> gvk \<Rightarrow> (sstate \<Rightarrow> 'a outcome) \<Rightarrow> world \<Rightarrow> 'a outcome" where
  "readStore v g f w = bindO (GetResourceStore v g w) (\<lambda>s. f (wMem w, s))"

definition addChange :: "view \<Rightarrow> nat \<Rightarrow> world \<Rightarrow> world" where
  "addChange v n w = setView (viewId v)
     (vs w v\<lparr>vChangeCount := vChangeCount (vs w v) + of_nat n\<rparr>) w"

definition onWMem :: "(mem \<Rightarrow> mem) \<Rightarrow> world \<Rightarrow> world" where
  "onWMem f w = w\<lparr>wMem := f (wMem w)\<rparr>"

definition obj :: "world \<Rightarrow> addr \<Rightarrow> kobj" where
  "obj w a = rd (wMem w) a"

definition deepCopyW :: "addr \<Rightarrow> world \<Rightarrow> addr \<times> world" where
  "deepCopyW a w = (let (b, m) = deepCopy a (wMem w) in (b, w\<lparr>wMem := m\<rparr>))"

subsection \<open>Creation\<close>

definition createInMemStore :: "descriptor \<Rightarrow> cref \<Rightarrow> mem \<Rightarrow> rstore \<times> mem" where
  "createInMemStore d c m = NewInMemResourceStore (snd (snd (GVR d))) (GVK d) (ListGVK d) (Some c) m"

fun newBaseStores :: "descriptor list \<Rightarrow> (gvk \<Rightarrow> rstore option) \<Rightarrow> mem \<Rightarrow> (gvk \<Rightarrow> rstore option) \<times> mem" where
  "newBaseStores [] stores m = (stores, m)"
| "newBaseStores (d # ds) stores m =
     (let (c, m1) = newCounter m; (s, m2) = createInMemStore d c m1
      in newBaseStores ds (stores(GVK d \<mapsto> s)) m2)"

definition newViewState :: "string \<Rightarrow> (gvk \<Rightarrow> rstore option) \<Rightarrow> string \<Rightarrow> vstate" where
  "newViewState nm stores path = \<lparr>vName = nm, vStores = stores, vSink = EventSink_New,
     vChangeCount = 0, vKubeConfigPath = path\<rparr>"

definition NewBase :: "string \<Rightarrow> string \<Rightarrow> world \<Rightarrow> view \<times> world" where
  "NewBase nm path w =
     (let (stores, m) = newBaseStores SupportedDescriptors (\<lambda>_. None) (wMem w)
      in (BaseView (wNext w),
          setView (wNext w) (newViewState nm stores path) (w\<lparr>wMem := m, wNext := Suc (wNext w)\<rparr>)))"

text \<open>A sandbox shares the version counter of each of its delegate's stores.\<close>

fun newSandboxStores :: "view \<Rightarrow> descriptor list \<Rightarrow> (gvk \<Rightarrow> rstore option) \<Rightarrow> world
    \<Rightarrow> (gvk \<Rightarrow> rstore option) outcome" where
  "newSandboxStores delegate [] stores w = Ok stores"
| "newSandboxStores delegate (d # ds) stores w =
     bindO (GetResourceStore delegate (GVK d) w) (\<lambda>baseStore.
       newSandboxStores delegate ds
         (stores(GVK d \<mapsto> fst (createInMemStore d (versionCounter baseStore) (wMem w)))) w)"

definition NewSandbox :: "view \<Rightarrow> string \<Rightarrow> world \<Rightarrow> (view, world) eff" where
  "NewSandbox delegate nm w =
     bindE (newSandboxStores delegate SupportedDescriptors (\<lambda>_. None) w, w) (\<lambda>stores w.
       (Ok (SandboxView (wNext w) delegate),
        setView (wNext w) (newViewState nm stores []) (w\<lparr>wNext := Suc (wNext w)\<rparr>)))"

subsection \<open>Reading one object\<close>

definition getStoreObject :: "view \<Rightarrow> gvk \<Rightarrow> object_name \<Rightarrow> world \<Rightarrow> addr outcome" where
  "getStoreObject v g objName w = readStore v g (Get objName) w"

fun GetObject :: "view \<Rightarrow> gvk \<Rightarrow> object_name \<Rightarrow> world \<Rightarrow> addr outcome" where
  "GetObject (BaseView i) g objName w = getStoreObject (BaseView i) g objName w"
| "GetObject (SandboxView i d) g objName w =
     (case getStoreObject (SandboxView i d) g objName w of
        Ok a \<Rightarrow> Ok a
      | Err e \<Rightarrow> if errorsIs e ErrObjectDeleted \<or> \<not> isNotFound e then Err e
                 else GetObject d g objName w
      | Panic p \<Rightarrow> Panic p)"

subsection \<open>Creating and updating\<close>

text \<open>The defaults \<open>storeObject\<close> fills in before it adds: name, creation time, UID and kind.\<close>

definition defaultName :: "addr \<Rightarrow> world \<Rightarrow> (unit, world) eff" where
  "defaultName a w =
     (let mt = ometa (obj w a) in
      if mName mt = [] then
        if mGenerateName mt = [] then (Err (ApiStatus BadRequestReason), w)
        else let (sfx, m) = randSuffix (wMem w) in
             (Ok (), w\<lparr>wMem := updMeta a (\<lambda>mt. mt\<lparr>mName := GenerateName sfx (mGenerateName mt)\<rparr>) m\<rparr>)
      else (Ok (), w))"

definition defaultCreationTimestamp :: "addr \<Rightarrow> world \<Rightarrow> world" where
  "defaultCreationTimestamp a w =
     (if mCreationTimestamp (ometa (obj w a)) = 0 then
        let (t, m) = now (wMem w) in w\<lparr>wMem := updMeta a (\<lambda>mt. mt\<lparr>mCreationTimestamp := t\<rparr>) m\<rparr>
      else w)"

definition defaultUID :: "addr \<Rightarrow> world \<Rightarrow> world" where
  "defaultUID a w =
     (if mUID (ometa (obj w a)) = [] then
        let (u, m) = newUUID (wMem w) in w\<lparr>wMem := updMeta a (\<lambda>mt. mt\<lparr>mUID := u\<rparr>) m\<rparr>
      else w)"

definition defaultGVK :: "addr \<Rightarrow> gvk \<Rightarrow> world \<Rightarrow> world" where
  "defaultGVK a g w = onWMem (wr a (SetMetaObjectGVK (obj w a) g)) w"

definition storeObject :: "view \<Rightarrow> gvk \<Rightarrow> addr \<Rightarrow> object_options \<Rightarrow> world \<Rightarrow> (addr, world) eff" where
  "storeObject v g a opts w =
     bindE (GetResourceStore v g w, w) (\<lambda>_ w.
     bindE (defaultName a w) (\<lambda>_ w.
       let w = defaultGVK a g (defaultUID a (defaultCreationTimestamp a w)) in
     bindE (withStore v g (Add a opts) w) (\<lambda>_ w.
       (Ok a, addChange v 1 w))))"

definition CreateObject :: "view \<Rightarrow> gvk \<Rightarrow> addr \<Rightarrow> object_options \<Rightarrow> world \<Rightarrow> (addr, world) eff" where
  "CreateObject v g a opts w = storeObject v g a opts w"

definition updateObject :: "view \<Rightarrow> gvk \<Rightarrow> addr \<Rightarrow> object_options \<Rightarrow> world \<Rightarrow> (unit, world) eff" where
  "updateObject v g a opts w =
     bindE (withStore v g (Update a opts) w) (\<lambda>_ w. (Ok (), addChange v 1 w))"

definition copyFromDelegate :: "view \<Rightarrow> view \<Rightarrow> gvk \<Rightarrow> object_name \<Rightarrow> world \<Rightarrow> (addr, world) eff" where
  "copyFromDelegate v d g objName w =
     bindE (GetObject d g objName w, w) (\<lambda>delegateObj w.
       let (sandboxObj, w) = deepCopyW delegateObj w in
       CreateObject v g sandboxObj \<lparr>NoBroadcast = True, MarkAsDeleted = False\<rparr> w)"

fun UpdateObject :: "view \<Rightarrow> gvk \<Rightarrow> addr \<Rightarrow> object_options \<Rightarrow> world \<Rightarrow> (unit, world) eff" where
  "UpdateObject (BaseView i) g a opts w = updateObject (BaseView i) g a opts w"
| "UpdateObject (SandboxView i d) g a opts w =
     (let objName = CacheName (obj w a) in
      case updateObject (SandboxView i d) g a opts w of
        (Err e, w') \<Rightarrow>
          if isNotFound e \<and> \<not> errorsIs e ErrObjectDeleted then
            bindE (copyFromDelegate (SandboxView i d) d g objName w') (\<lambda>_ w.
              updateObject (SandboxView i d) g a opts w)
          else (Err e, w')
      | r \<Rightarrow> r)"

subsection \<open>Binding pods\<close>

record binding =
  bTargetName :: string

definition bindPodBody :: "time \<Rightarrow> string \<Rightarrow> pod_spec \<Rightarrow> pod_status \<Rightarrow> payload" where
  "bindPodBody t node sp st =
     PodBody (sp\<lparr>psNodeName := node\<rparr>)
       (snd (UpdatePodCondition t st \<lparr>pcType = ''PodScheduled'', pcStatus = ''True'', pcReason = [],
          pcMessage = [], pcLastProbeTime = 0, pcLastTransitionTime = 0\<rparr>))"

text \<open>
  \<open>updatePodNodeBinding\<close>: the binding is written to a deep copy of the pod. The type assertion on
  the existing object panics if it is no pod.
\<close>

definition updatePodNodeBinding :: "view \<Rightarrow> addr \<Rightarrow> pod_spec \<Rightarrow> pod_status \<Rightarrow> binding \<Rightarrow> world
    \<Rightarrow> (addr, world) eff" where
  "updatePodNodeBinding v pod sp st b w =
     (let (pod', w) = deepCopyW pod w;
          (t, m) = now (wMem w);
          w = w\<lparr>wMem := wr pod' (rd m pod'\<lparr>body := bindPodBody t (bTargetName b) sp st\<rparr>) m\<rparr>
      in bindE (GetObject v podsGVK (CacheName (obj w pod')) w, w) (\<lambda>existing w.
         case body (obj w existing) of
           PodBody esp _ \<Rightarrow>
             if psNodeName esp \<noteq> [] then (Err (Plain ''pod was already bound''), w)
             else bindE (UpdateObject v podsGVK pod' noOpts w) (\<lambda>_ w. (Ok pod', w))
         | _ \<Rightarrow> (Panic ''interface conversion'', w)))"

definition notAPod :: goerr where
  "notAPod = Wrapped ''not a corev1.Pod'' [Sentinel ''ErrUpdateObject'']"

definition bindPodAt :: "view \<Rightarrow> addr \<Rightarrow> binding \<Rightarrow> world \<Rightarrow> (addr, world) eff" where
  "bindPodAt v a b w = (case body (obj w a) of
       PodBody sp st \<Rightarrow> updatePodNodeBinding v a sp st b w
     | _ \<Rightarrow> (Err notAPod, w))"

fun UpdatePodNodeBinding :: "view \<Rightarrow> object_name \<Rightarrow> binding \<Rightarrow> world \<Rightarrow> (addr, world) eff" where
  "UpdatePodNodeBinding (BaseView i) podName b w =
     (if onName podName = [] then
        (Err (Wrapped ''podName must not be empty'' [Sentinel ''ErrUpdateObject'']), w)
      else bindE (GetObject (BaseView i) podsGVK podName w, w) (\<lambda>a w.
        bindPodAt (BaseView i) a b w))"
| "UpdatePodNodeBinding (SandboxView i d) podName b w =
     (case getStoreObject (SandboxView i d) podsGVK podName w of
        Ok a \<Rightarrow> bindPodAt (SandboxView i d) a b w
      | Panic p \<Rightarrow> (Panic p, w)
      | Err e \<Rightarrow>
          if errorsIs e ErrObjectDeleted \<or> \<not> isNotFound e then (Err e, w)
          else bindE (GetObject d podsGVK podName w, w) (\<lambda>a w.
            case body (obj w a) of
              PodBody _ _ \<Rightarrow>
                let (sandboxPod, w) = deepCopyW a w in
                bindE (CreateObject (SandboxView i d) podsGVK sandboxPod
                         \<lparr>NoBroadcast = True, MarkAsDeleted = False\<rparr> w) (\<lambda>_ w.
                  bindPodAt (SandboxView i d) sandboxPod b w)
            | _ \<Rightarrow> (Err notAPod, w)))"

subsection \<open>Patching\<close>

text \<open>
  \<open>patchObject\<close> patches the object that \<open>GetObject\<close> handed out, in place; the checks for a changed
  name or namespace come after.
\<close>

definition patchObject :: "patcher \<Rightarrow> view \<Rightarrow> gvk \<Rightarrow> object_name \<Rightarrow> patch_type \<Rightarrow> json \<Rightarrow> world
    \<Rightarrow> (addr, world) eff" where
  "patchObject pt v g objName patchType patchData w =
     bindE (GetObject v g objName w, w) (\<lambda>a w.
       let (r, o') = PatchObject pt (obj w a) patchType patchData;
           w = onWMem (wr a o') w
       in bindE (wrapErr (\<lambda>e. Wrapped ''failed to patch object'' [e]) r, w) (\<lambda>_ w.
          if mName (ometa (obj w a)) \<noteq> onName objName then (Err (ApiStatus InvalidReason), w)
          else if mNamespace (ometa (obj w a)) \<noteq> onNamespace objName then (Err (ApiStatus InvalidReason), w)
          else bindE (UpdateObject v g a noOpts w) (\<lambda>_ w. (Ok a, w))))"

definition patchObjectStatus :: "patcher \<Rightarrow> view \<Rightarrow> gvk \<Rightarrow> object_name \<Rightarrow> json \<Rightarrow> world
    \<Rightarrow> (addr, world) eff" where
  "patchObjectStatus pt v g objName patchData w =
     bindE (GetObject v g objName w, w) (\<lambda>a w.
       let (a', w) = deepCopyW a w in
       bindE (wrapErr (\<lambda>e. Wrapped ''failed to patch object status'' [e])
                (PatchObjectStatus pt (obj w a') patchData), w) (\<lambda>o' w.
         let w = onWMem (wr a' o') w in
         bindE (UpdateObject v g a' noOpts w) (\<lambda>_ w. (Ok a', w))))"

subsection \<open>Listing\<close>

text \<open>
  Each loop over a store polls the context; \<open>ctxs n\<close> is the context as the \<open>n\<close>-th such loop of a
  call sees it.
\<close>

type_synonym ctxs = "nat \<Rightarrow> ctx"

definition noCancel :: ctxs where
  "noCancel = (\<lambda>_. background)"

definition listMetaObjects ::
  "ctx \<Rightarrow> view \<Rightarrow> gvk \<Rightarrow> match_criteria \<Rightarrow> world \<Rightarrow> (addr list \<times> 64 word) outcome" where
  "listMetaObjects ctx v g c w = readStore v g (ResStore.ListMetaObjects ctx c) w"

definition listTombstonedKeys :: "ctx \<Rightarrow> view \<Rightarrow> gvk \<Rightarrow> world \<Rightarrow> string list outcome" where
  "listTombstonedKeys ctx v g w = readStore v g (ListTombstonedKeys ctx) w"

definition combinePrimarySecondary :: "world \<Rightarrow> addr list \<Rightarrow> addr list \<Rightarrow> addr list" where
  "combinePrimarySecondary w primary secondary =
     filter (\<lambda>o'. CacheName (obj w o') \<notin> (\<lambda>p. CacheName (obj w p)) ` set primary) secondary @ primary"

fun View_ListMetaObjects ::
  "ctxs \<Rightarrow> view \<Rightarrow> gvk \<Rightarrow> match_criteria \<Rightarrow> world \<Rightarrow> (addr list \<times> 64 word) outcome" where
  "View_ListMetaObjects ctxs (BaseView i) g c w = listMetaObjects (ctxs 0) (BaseView i) g c w"
| "View_ListMetaObjects ctxs (SandboxView i d) g c w =
     bindO (listMetaObjects (ctxs 0) (SandboxView i d) g c w) (\<lambda>(sandboxItems, myMax).
     bindO (listTombstonedKeys (ctxs 1) (SandboxView i d) g w) (\<lambda>tombstoned.
     bindO (View_ListMetaObjects (\<lambda>n. ctxs (n + 2)) d g (c\<lparr>mcExcludeNames := tombstoned\<rparr>) w)
       (\<lambda>(delegateItems, delegateMax).
     Ok (combinePrimarySecondary w sandboxItems delegateItems, maxInt64 myMax delegateMax))))"

fun ListObjects :: "scheme \<Rightarrow> ctxs \<Rightarrow> view \<Rightarrow> gvk \<Rightarrow> match_criteria \<Rightarrow> world \<Rightarrow> list_obj outcome" where
  "ListObjects sch ctxs (BaseView i) g c w = readStore (BaseView i) g (ResStore.List sch c) w"
| "ListObjects sch ctxs (SandboxView i d) g c w =
     bindO (GetResourceStore (SandboxView i d) g w) (\<lambda>s.
     bindO (View_ListMetaObjects ctxs (SandboxView i d) g c w) (\<lambda>(items, maxVersion).
     WrapMetaObjectsIntoRuntimeListObject sch maxVersion (sObjectGVK s) (sObjectListGVK s) (wMem w) items))"

text \<open>
  \<open>asNodes\<close>, \<open>asPods\<close> and \<open>asEvents\<close> differ in the expected type; an object of another type or an
  unparsable version is an error.
\<close>

fun asTyped :: "string \<Rightarrow> world \<Rightarrow> addr list \<Rightarrow> kobj list \<Rightarrow> kobj list outcome" where
  "asTyped k w [] res = Ok res"
| "asTyped k w (a # as) res =
     (if goKind (body (obj w a)) \<noteq> k then Err (Plain ''object is not of the expected type'')
      else bindO (ParseObjectResourceVersion (obj w a)) (\<lambda>_. asTyped k w as (res @ [obj w a])))"

text \<open>The base view asserts the type of pods and events: another type panics.\<close>

fun assertTyped :: "string \<Rightarrow> world \<Rightarrow> addr list \<Rightarrow> kobj list \<Rightarrow> kobj list outcome" where
  "assertTyped k w [] res = Ok res"
| "assertTyped k w (a # as) res =
     (if goKind (body (obj w a)) \<noteq> k then Panic ''interface conversion''
      else assertTyped k w as (res @ [obj w a]))"

fun ListNodes :: "ctxs \<Rightarrow> view \<Rightarrow> string list \<Rightarrow> world \<Rightarrow> kobj list outcome" where
  "ListNodes ctxs (BaseView i) names w =
     bindO (listMetaObjects (ctxs 0) (BaseView i) (GVK NodesDescriptor)
              (MatchAllCriteria\<lparr>mcNames := names\<rparr>) w) (\<lambda>(objs, _).
       asTyped ''Node'' w objs [])"
| "ListNodes ctxs (SandboxView i d) names w =
     bindO (View_ListMetaObjects ctxs (SandboxView i d) (GVK NodesDescriptor)
              (MatchAllCriteria\<lparr>mcNames := names\<rparr>) w) (\<lambda>(objs, _).
       asTyped ''Node'' w objs [])"

fun ListPods :: "ctxs \<Rightarrow> view \<Rightarrow> match_criteria \<Rightarrow> world \<Rightarrow> kobj list outcome" where
  "ListPods ctxs (BaseView i) c w =
     bindO (listMetaObjects (ctxs 0) (BaseView i) podsGVK c w) (\<lambda>(objs, _).
       assertTyped ''Pod'' w objs [])"
| "ListPods ctxs (SandboxView i d) c w =
     bindO (View_ListMetaObjects ctxs (SandboxView i d) podsGVK c w) (\<lambda>(objs, _).
       asTyped ''Pod'' w objs [])"

fun ListEvents :: "ctxs \<Rightarrow> view \<Rightarrow> string \<Rightarrow> world \<Rightarrow> kobj list outcome" where
  "ListEvents ctxs (BaseView i) namespace w =
     (if TrimSpace namespace = [] then Err (ApiStatus BadRequestReason)
      else bindO (listMetaObjects (ctxs 0) (BaseView i) (GVK EventsDescriptor)
              (MatchAllCriteria\<lparr>mcNamespace := namespace\<rparr>) w) (\<lambda>(objs, _).
       assertTyped ''Event'' w objs []))"
| "ListEvents ctxs (SandboxView i d) namespace w =
     bindO (View_ListMetaObjects ctxs (SandboxView i d) (GVK EventsDescriptor)
              (MatchAllCriteria\<lparr>mcNamespace := namespace\<rparr>) w) (\<lambda>(objs, _).
       asTyped ''Event'' w objs [])"

subsection \<open>Deleting\<close>

definition markOpts :: object_options where
  "markOpts = \<lparr>NoBroadcast = False, MarkAsDeleted = True\<rparr>"

definition deleteAndCount :: "view \<Rightarrow> gvk \<Rightarrow> object_name \<Rightarrow> object_options \<Rightarrow> world \<Rightarrow> (unit, world) eff" where
  "deleteAndCount v g objName opts w =
     bindE (withStore v g (Delete objName opts) w) (\<lambda>_ w. (Ok (), addChange v 1 w))"

fun DeleteObject :: "view \<Rightarrow> gvk \<Rightarrow> object_name \<Rightarrow> world \<Rightarrow> (unit, world) eff" where
  "DeleteObject (BaseView i) g objName w = deleteAndCount (BaseView i) g objName noOpts w"
| "DeleteObject (SandboxView i d) g objName w =
     bindE (GetResourceStore (SandboxView i d) g w, w) (\<lambda>s w.
       case Get objName (wMem w, s) of
         Ok _ \<Rightarrow> deleteAndCount (SandboxView i d) g objName markOpts w
       | Panic p \<Rightarrow> (Panic p, w)
       | Err gerr \<Rightarrow>
           if errorsIs gerr ErrObjectDeleted \<or> \<not> isNotFound gerr then (Err gerr, w)
           else bindE (copyFromDelegate (SandboxView i d) d g objName w) (\<lambda>_ w.
             deleteAndCount (SandboxView i d) g objName markOpts w))"

fun deleteItems :: "view \<Rightarrow> gvk \<Rightarrow> addr list \<Rightarrow> world \<Rightarrow> (unit, world) eff" where
  "deleteItems v g [] w = (Ok (), w)"
| "deleteItems v g (a # as) w =
     (case DeleteObject v g (CacheName (obj w a)) w of
        (Ok _, w') \<Rightarrow> deleteItems v g as w'
      | (Err e, w') \<Rightarrow> if isNotFound e then deleteItems v g as w' else (Err e, w')
      | (Panic p, w') \<Rightarrow> (Panic p, w'))"

fun View_DeleteObjects :: "ctxs \<Rightarrow> view \<Rightarrow> gvk \<Rightarrow> match_criteria \<Rightarrow> world \<Rightarrow> (unit, world) eff" where
  "View_DeleteObjects ctxs (BaseView i) g c w =
     bindE (withStore (BaseView i) g (ResStore.DeleteObjects (ctxs 0) c noOpts) w) (\<lambda>delCount w.
       (Ok (), addChange (BaseView i) delCount w))"
| "View_DeleteObjects ctxs (SandboxView i d) g c w =
     bindE (wrapErr (\<lambda>e. Wrapped ''cannot list objects for bulk delete'' [Sentinel ''ErrDeleteObject'', e])
              (View_ListMetaObjects ctxs (SandboxView i d) g c w), w) (\<lambda>(items, _) w.
       deleteItems (SandboxView i d) g items w)"

subsection \<open>Reset, close, names\<close>

definition View_Reset :: "view \<Rightarrow> world \<Rightarrow> world" where
  "View_Reset v w = setView (viewId v) (vs w v\<lparr>vStores := (\<lambda>g. map_option Reset (vStores (vs w v) g)),
     vSink := EventSink_Reset (vSink (vs w v)), vChangeCount := 0\<rparr>) w"

definition View_Close :: "view \<Rightarrow> world \<Rightarrow> world" where
  "View_Close v w = setView (viewId v)
     (vs w v\<lparr>vStores := (\<lambda>g. map_option Close (vStores (vs w v) g))\<rparr>) w"

definition GetObjectChangeCount :: "view \<Rightarrow> world \<Rightarrow> 64 word" where
  "GetObjectChangeCount v w = vChangeCount (vs w v)"

definition SetKubeConfigPath :: "view \<Rightarrow> string \<Rightarrow> world \<Rightarrow> world" where
  "SetKubeConfigPath v path w = setView (viewId v) (vs w v\<lparr>vKubeConfigPath := path\<rparr>) w"

text \<open>The base view waits until the path is set; \<open>None\<close> is a call that blocks.\<close>

fun GetKubeConfigPath :: "view \<Rightarrow> world \<Rightarrow> string option" where
  "GetKubeConfigPath (BaseView i) w =
     (let p = vKubeConfigPath (vs w (BaseView i)) in if p = [] then None else Some p)"
| "GetKubeConfigPath (SandboxView i d) w = Some (vKubeConfigPath (vs w (SandboxView i d)))"

subsection \<open>View access\<close>

record view_access =
  vaBaseView :: view
  vaSandboxViews :: "(string, view) gomap"

definition defaultNamespaceObj :: kobj where
  "defaultNamespaceObj = \<lparr>objGVK = emptyGVK, ometa = emptyMeta\<lparr>mName := ''default''\<rparr>,
     body = OtherBody ''Namespace'' []\<rparr>"

definition createBaseView :: "string \<Rightarrow> string \<Rightarrow> world \<Rightarrow> (view, world) eff" where
  "createBaseView nm path w =
     (let (bv, w) = NewBase nm path w;
          (a, m) = alloc defaultNamespaceObj (wMem w);
          w = w\<lparr>wMem := m\<rparr>
      in bindE (CreateObject bv (GVK NamespacesDescriptor) a noOpts w) (\<lambda>_ w. (Ok bv, w)))"

definition NewAccess :: "string \<Rightarrow> string \<Rightarrow> world \<Rightarrow> (view_access, world) eff" where
  "NewAccess nm path w =
     (case bindE (createBaseView nm path w) (\<lambda>bv w. (Ok \<lparr>vaBaseView = bv, vaSandboxViews = []\<rparr>, w)) of
        (r, w') \<Rightarrow> (wrapErr (\<lambda>e. Wrapped ''create view'' [Sentinel ''ErrCreateView'', e]) r, w'))"

definition GetSandboxViewOverDelegate ::
  "string \<Rightarrow> view \<Rightarrow> view_access \<Rightarrow> world \<Rightarrow> (view \<times> view_access, world) eff" where
  "GetSandboxViewOverDelegate nm delegate va w =
     (case map_of (vaSandboxViews va) nm of
        Some sv \<Rightarrow> (Ok (sv, va), w)
      | None \<Rightarrow>
          (case NewSandbox delegate nm w of
             (Ok sv, w') \<Rightarrow> (Ok (sv, va\<lparr>vaSandboxViews := AList.update nm sv (vaSandboxViews va)\<rparr>), w')
           | (Err e, w') \<Rightarrow> (Err (Wrapped ''cannot create sandbox view'' [Sentinel ''ErrCreateView'', e]), w')
           | (Panic p, w') \<Rightarrow> (Panic p, w')))"

definition GetSandboxView :: "string \<Rightarrow> view_access \<Rightarrow> world \<Rightarrow> (view \<times> view_access, world) eff" where
  "GetSandboxView nm va w = GetSandboxViewOverDelegate nm (vaBaseView va) va w"

definition Access_Close :: "view_access \<Rightarrow> world \<Rightarrow> world" where
  "Access_Close va w = View_Close (vaBaseView va) (fold View_Close (map snd (vaSandboxViews va)) w)"

end
