(* ===== verification/ViewInv.thy ===== *)
theory ViewInv
  imports Views
begin

text \<open>
  The invariant of a chain of views and the frame of an operation: which cells and which store
  it may change. The delegate of a sandbox is outside every frame.
\<close>

subsection \<open>Names\<close>

text \<open>Kubernetes names are not empty and contain no slash, so the cache key determines the name.\<close>

definition nameOk :: "kobj \<Rightarrow> bool" where
  "nameOk o' \<longleftrightarrow> mName (ometa o') \<noteq> [] \<and> CHR ''/'' \<notin> set (mName (ometa o')) \<union> set (mNamespace (ometa o'))"

lemma split_at_slash:
  "c \<notin> set xs \<Longrightarrow> c \<notin> set xs' \<Longrightarrow> xs @ c # ys = xs' @ c # ys' \<Longrightarrow> xs = xs' \<and> ys = ys'"
  by (induction xs arbitrary: xs') (auto simp: Cons_eq_append_conv append_eq_Cons_conv)

lemma sep_in_set: "xs @ c # ys = zs \<Longrightarrow> c \<in> set zs" "zs = xs @ c # ys \<Longrightarrow> c \<in> set zs"
  by auto

lemma cacheKey_inj:
  assumes "nameOk o1" "nameOk o2" "cacheKey o1 = cacheKey o2"
  shows "CacheName o1 = CacheName o2"
  using assms split_at_slash
    [of "CHR ''/''" "mNamespace (ometa o1)" "mNamespace (ometa o2)" "mName (ometa o1)" "mName (ometa o2)"]
  by (auto simp: nameOk_def name_defs split: if_splits dest: sep_in_set)

subsection \<open>Chains of views\<close>

fun chain :: "view \<Rightarrow> nat list" where
  "chain (BaseView i) = [i]"
| "chain (SandboxView i d) = i # chain d"

lemma viewId_in_chain [simp]: "viewId v \<in> set (chain v)"
  by (cases v) auto

definition supported :: "gvk \<Rightarrow> bool" where
  "supported g \<longleftrightarrow> g \<in> GVK ` set SupportedDescriptors"

text \<open>\<open>held w i g a\<close>: the store of kind \<open>g\<close> of view \<open>i\<close> has a live entry pointing to \<open>a\<close>.\<close>

definition held :: "world \<Rightarrow> nat \<Rightarrow> gvk \<Rightarrow> addr \<Rightarrow> bool" where
  "held w i g a \<longleftrightarrow> (\<exists>st k. vStores (wViews w i) g = Some st \<and> map_of (cache st) k = Some (Live a))"

definition store_ok :: "mem \<Rightarrow> gvk \<Rightarrow> rstore \<Rightarrow> bool" where
  "store_ok m g st \<longleftrightarrow> store_inv (m, st) \<and> sObjectGVK st = g \<and>
     (\<forall>k a. map_of (cache st) k = Some (Live a) \<longrightarrow> nameOk (rd m a))"

definition own_ok :: "world \<Rightarrow> nat \<Rightarrow> bool" where
  "own_ok w i \<longleftrightarrow> (\<forall>g. vStores (wViews w i) g \<noteq> None \<longleftrightarrow> supported g) \<and>
     (\<forall>g st. vStores (wViews w i) g = Some st \<longrightarrow> store_ok (wMem w) g st)"

text \<open>
  A sandbox shares no object with its delegates, and each of its stores shares the version
  counter of the delegate's store.
\<close>

fun view_ok :: "world \<Rightarrow> view \<Rightarrow> bool" where
  "view_ok w (BaseView i) \<longleftrightarrow> own_ok w i"
| "view_ok w (SandboxView i d) \<longleftrightarrow> own_ok w i \<and> i \<notin> set (chain d) \<and> view_ok w d \<and>
     (\<forall>g a. held w i g a \<longrightarrow> (\<forall>j\<in>set (chain d). \<not> held w j g a)) \<and>
     (\<forall>g st st'. vStores (wViews w i) g = Some st \<longrightarrow> vStores (wViews w (viewId d)) g = Some st' \<longrightarrow>
        versionCounter st = versionCounter st')"

lemma view_ok_own: "view_ok w v \<Longrightarrow> own_ok w (viewId v)"
  by (cases v) auto

lemma view_ok_chain: "view_ok w v \<Longrightarrow> j \<in> set (chain v) \<Longrightarrow> own_ok w j"
  by (induction v) auto

lemma own_store:
  assumes "own_ok w i" "supported g"
  obtains st where "vStores (wViews w i) g = Some st" "store_ok (wMem w) g st"
  using assms that unfolding own_ok_def by (metis not_None_eq)

lemma held_facts:
  assumes "own_ok w i" "held w i g a"
  shows "a < nextAddr (wMem w)" "objGVK (obj w a) = g" "nameOk (obj w a)" "supported g"
    "isRuntimeObject (obj w a)"
proof -
  obtain st k where st: "vStores (wViews w i) g = Some st" "map_of (cache st) k = Some (Live a)"
    using assms(2) by (auto simp: held_def)
  then have ok: "store_ok (wMem w) g st" and "supported g" using assms(1) by (auto simp: own_ok_def)
  then show "supported g" by simp
  have inv: "store_inv (wMem w, st)" using ok by (simp add: store_ok_def)
  show "a < nextAddr (wMem w)" using store_invD(1) [OF inv] st by simp
  show "objGVK (obj w a) = g" using store_invD(4) [OF inv] st ok by (simp add: store_ok_def obj_def)
  show "isRuntimeObject (obj w a)" using store_invD(3) [OF inv] st by (simp add: obj_def)
  show "nameOk (obj w a)" using st ok by (simp add: store_ok_def obj_def)
qed

subsection \<open>The abstract view\<close>

text \<open>A sandbox overlays its own slots, tombstones included, on those of its delegate.\<close>

definition absOwn :: "world \<Rightarrow> nat \<Rightarrow> gvk \<Rightarrow> string \<Rightarrow> slot option" where
  "absOwn w i g = (case vStores (wViews w i) g of None \<Rightarrow> (\<lambda>_. None) | Some st \<Rightarrow> absStore (wMem w, st))"

fun absView :: "world \<Rightarrow> view \<Rightarrow> gvk \<Rightarrow> string \<Rightarrow> slot option" where
  "absView w (BaseView i) g = absOwn w i g"
| "absView w (SandboxView i d) g = absView w d g ++ absOwn w i g"

fun absDelegate :: "world \<Rightarrow> view \<Rightarrow> gvk \<Rightarrow> string \<Rightarrow> slot option" where
  "absDelegate w (BaseView i) g = (\<lambda>_. None)"
| "absDelegate w (SandboxView i d) g = absView w d g"

lemma absView_alt: "absView w v g = absDelegate w v g ++ absOwn w (viewId v) g"
  by (cases v) auto

subsection \<open>Frames\<close>

text \<open>
  \<open>frame v g A w w'\<close>: from \<open>w\<close> to \<open>w'\<close> only the store of kind \<open>g\<close> of view \<open>v\<close> and the cells in \<open>A\<close> (and
  newly allocated ones) changed, no cell was freed, no counter went back, and what the store
  holds in addition is in \<open>A\<close> or new.
\<close>

definition frame :: "view \<Rightarrow> gvk \<Rightarrow> addr set \<Rightarrow> world \<Rightarrow> world \<Rightarrow> bool" where
  "frame v g A w w' \<longleftrightarrow> wNext w' = wNext w \<and>
     (\<forall>j. j \<noteq> viewId v \<longrightarrow> wViews w' j = wViews w j) \<and>
     (\<forall>g'. g' \<noteq> g \<longrightarrow> vStores (vs w' v) g' = vStores (vs w v) g') \<and>
     (\<forall>b. b \<notin> A \<longrightarrow> b < nextAddr (wMem w) \<longrightarrow> obj w' b = obj w b) \<and>
     nextAddr (wMem w) \<le> nextAddr (wMem w') \<and>
     (\<forall>c. sint (counters (wMem w) c) \<le> sint (counters (wMem w') c)) \<and>
     (\<forall>b. held w' (viewId v) g b \<longrightarrow> held w (viewId v) g b \<or> b \<in> A \<or> nextAddr (wMem w) \<le> b) \<and>
     (\<forall>st. vStores (vs w v) g = Some st \<longrightarrow>
        (\<exists>st'. vStores (vs w' v) g = Some st' \<and> versionCounter st' = versionCounter st))"

lemma frame_refl [simp]: "frame v g A w w"
  by (auto simp: frame_def)

lemma frameD:
  assumes "frame v g A w w'"
  shows "j \<noteq> viewId v \<Longrightarrow> wViews w' j = wViews w j"
    "g' \<noteq> g \<Longrightarrow> vStores (vs w' v) g' = vStores (vs w v) g'"
    "b \<notin> A \<Longrightarrow> b < nextAddr (wMem w) \<Longrightarrow> obj w' b = obj w b"
    "nextAddr (wMem w) \<le> nextAddr (wMem w')"
    "sint (counters (wMem w) c) \<le> sint (counters (wMem w') c)"
    "held w' (viewId v) g b \<Longrightarrow> held w (viewId v) g b \<or> b \<in> A \<or> nextAddr (wMem w) \<le> b"
    "vStores (vs w v) g = Some st \<Longrightarrow>
       \<exists>st'. vStores (vs w' v) g = Some st' \<and> versionCounter st' = versionCounter st"
    "wNext w' = wNext w"
  using assms unfolding frame_def by blast+

lemma frame_mono: "frame v g A w w' \<Longrightarrow> A \<subseteq> B \<Longrightarrow> frame v g B w w'"
  unfolding frame_def by blast

text \<open>The addresses nobody in the chain holds, except possibly the store that is changed.\<close>

definition mayWrite :: "view \<Rightarrow> gvk \<Rightarrow> addr set \<Rightarrow> world \<Rightarrow> bool" where
  "mayWrite v g A w \<longleftrightarrow> (\<forall>a\<in>A. \<forall>j\<in>set (chain v). \<forall>g'. held w j g' a \<longrightarrow> j = viewId v \<and> g' = g)"

lemma store_ok_env:
  assumes "store_ok m g st" and "nextAddr m \<le> nextAddr m'"
    and "\<And>k a. map_of (cache st) k = Some (Live a) \<Longrightarrow> rd m' a = rd m a"
    and "\<And>c. sint (counters m c) \<le> sint (counters m' c)"
  shows "store_ok m' g st"
proof -
  have "store_inv (m', snd (m, st))"
    by (rule store_inv_env) (use assms in \<open>auto simp: store_ok_def env_change_def\<close>)
  then show ?thesis using assms by (simp add: store_ok_def)
qed

lemma absStore_env:
  "(\<And>k a. map_of (cache st) k = Some (Live a) \<Longrightarrow> rd m' a = rd m a) \<Longrightarrow>
     absStore (m', st) = absStore (m, st)"
  by (force simp: absStore_def fun_eq_iff split: option.splits entry.splits)

text \<open>A store that is not the one changed stays well-formed and looks the same.\<close>

lemma frame_other_store:
  assumes fr: "frame v g A w w'" and ok: "own_ok w j" and st: "vStores (wViews w j) g' = Some st"
    and other: "j \<noteq> viewId v \<or> g' \<noteq> g" and free: "\<And>a. a \<in> A \<Longrightarrow> \<not> held w j g' a"
  shows "vStores (wViews w' j) g' = Some st" "store_ok (wMem w') g' st"
    "absStore (wMem w', st) = absStore (wMem w, st)"
proof -
  show "vStores (wViews w' j) g' = Some st"
    using fr st other by (cases "j = viewId v") (auto simp: frame_def vs_def)
  have same: "rd (wMem w') a = rd (wMem w) a" if "map_of (cache st) k = Some (Live a)" for k a
  proof -
    have h: "held w j g' a" using that st by (auto simp: held_def)
    then have "a \<notin> A" "a < nextAddr (wMem w)" using free held_facts(1) [OF ok h] by auto
    then show ?thesis using fr by (auto simp: frame_def obj_def)
  qed
  show "store_ok (wMem w') g' st"
    by (rule store_ok_env) (use ok st fr same in \<open>auto simp: own_ok_def frame_def\<close>)
  show "absStore (wMem w', st) = absStore (wMem w, st)"
    by (rule absStore_env) (rule same)
qed

lemma frame_own_other:
  assumes "frame v g A w w'" "own_ok w j" "j \<noteq> viewId v" "\<And>a g'. a \<in> A \<Longrightarrow> \<not> held w j g' a"
  shows "own_ok w' j" "absOwn w' j g'' = absOwn w j g''"
proof -
  have same: "vStores (wViews w' j) = vStores (wViews w j)" using assms(1,3) by (simp add: frame_def)
  show "own_ok w' j"
    using assms(2) frame_other_store [OF assms(1,2) _ _ assms(4)] assms(3)
    by (auto simp: own_ok_def same)
  show "absOwn w' j g'' = absOwn w j g''"
    using frame_other_store(3) [OF assms(1,2) _ _ assms(4)] assms(3)
    by (auto simp: absOwn_def same split: option.splits)
qed

lemma frame_view_other:
  assumes "frame v g A w w'" "view_ok w d" "viewId v \<notin> set (chain d)"
    "\<And>a j g'. a \<in> A \<Longrightarrow> j \<in> set (chain d) \<Longrightarrow> \<not> held w j g' a"
  shows "view_ok w' d \<and> (\<forall>g''. absView w' d g'' = absView w d g'')"
  using assms(2-)
proof (induction d)
  case (BaseView j)
  then show ?case using frame_own_other [OF assms(1), of j] by auto
next
  case (SandboxView j d)
  have held: "held w' i g' a \<longleftrightarrow> held w i g' a" if "i \<noteq> viewId v" for i g' a
    using that assms(1) by (simp add: frame_def held_def)
  have vsame: "wViews w' i = wViews w i" if "i \<noteq> viewId v" for i
    using that assms(1) by (simp add: frame_def)
  have ih: "view_ok w' d \<and> (\<forall>g''. absView w' d g'' = absView w d g'')"
    using SandboxView by auto
  moreover have "own_ok w' j" "\<And>g''. absOwn w' j g'' = absOwn w j g''"
    using frame_own_other [OF assms(1), of j] SandboxView.prems by auto
  moreover have "viewId d \<noteq> viewId v" using SandboxView.prems(2) by (metis chain.simps(2) list.set_intros(2) viewId_in_chain)
  moreover have "j \<noteq> viewId v" "\<And>i. i \<in> set (chain d) \<Longrightarrow> i \<noteq> viewId v"
    using SandboxView.prems(2) by auto
  ultimately show ?case using SandboxView.prems(1) by (auto simp: held vsame)
qed

lemma frame_trans:
  assumes f1: "frame v g A w w1" and f2: "frame v g B w1 w2" and AB: "B \<subseteq> A \<union> {nextAddr (wMem w)..}"
  shows "frame v g A w w2"
  unfolding frame_def
proof (intro conjI allI impI)
  show "wNext w2 = wNext w" using frameD(8) [OF f1] frameD(8) [OF f2] by simp
  show "wViews w2 j = wViews w j" if "j \<noteq> viewId v" for j
    using frameD(1) [OF f1 that] frameD(1) [OF f2 that] by simp
  show "vStores (vs w2 v) g' = vStores (vs w v) g'" if "g' \<noteq> g" for g'
    using frameD(2) [OF f1 that] frameD(2) [OF f2 that] by simp
  show "obj w2 b = obj w b" if "b \<notin> A" "b < nextAddr (wMem w)" for b
  proof -
    have "b \<notin> B" "b < nextAddr (wMem w1)" using that AB frameD(4) [OF f1] by auto
    then show ?thesis using frameD(3) [OF f2] frameD(3) [OF f1 that] by simp
  qed
  show "nextAddr (wMem w) \<le> nextAddr (wMem w2)" using frameD(4) [OF f1] frameD(4) [OF f2] by simp
  show "sint (counters (wMem w) c) \<le> sint (counters (wMem w2) c)" for c
    by (rule order_trans [OF frameD(5) [OF f1] frameD(5) [OF f2]])
  show "held w (viewId v) g b \<or> b \<in> A \<or> nextAddr (wMem w) \<le> b" if h: "held w2 (viewId v) g b" for b
  proof -
    consider "held w1 (viewId v) g b" | "b \<in> B" | "nextAddr (wMem w1) \<le> b"
      using frameD(6) [OF f2 h] by blast
    then show ?thesis
    proof cases
      case 1
      then show ?thesis by (rule frameD(6) [OF f1])
    next
      case 2
      then show ?thesis using AB by auto
    next
      case 3
      then show ?thesis using frameD(4) [OF f1] by simp
    qed
  qed
  show "\<exists>st'. vStores (vs w2 v) g = Some st' \<and> versionCounter st' = versionCounter st"
    if "vStores (vs w v) g = Some st" for st
    using frameD(7) [OF f1 that] frameD(7) [OF f2] by metis
qed

text \<open>
  An operation within a frame that leaves its store well-formed leaves the whole chain
  well-formed, the delegate's content unchanged, and the view's other kinds unchanged.
\<close>

lemma mayWrite_free:
  assumes "mayWrite v g A w" "a \<in> A"
  shows "g' \<noteq> g \<Longrightarrow> \<not> held w (viewId v) g' a"
    "j \<in> set (chain v) \<Longrightarrow> j \<noteq> viewId v \<Longrightarrow> \<not> held w j g' a"
  using assms viewId_in_chain [of v] unfolding mayWrite_def by blast+

lemma own_ok_frame:
  assumes ok: "view_ok w v" and fr: "frame v g A w w'" and wr: "mayWrite v g A w"
    and st': "vStores (vs w' v) g = Some st'" "store_ok (wMem w') g st'" and "supported g"
  shows "own_ok w' (viewId v)" "g' \<noteq> g \<Longrightarrow> absOwn w' (viewId v) g' = absOwn w (viewId v) g'"
proof -
  let ?i = "viewId v"
  note own = view_ok_own [OF ok]
  have other: "vStores (wViews w' ?i) g' = Some st" "store_ok (wMem w') g' st"
    "absStore (wMem w', st) = absStore (wMem w, st)"
    if "vStores (wViews w ?i) g' = Some st" "g' \<noteq> g" for g' st
    using frame_other_store [OF fr own that(1) disjI2 [OF that(2)] mayWrite_free(1) [OF wr _ that(2)]] by auto
  have stores: "vStores (wViews w' ?i) g' = vStores (wViews w ?i) g'" if "g' \<noteq> g" for g'
    using frameD(2) [OF fr that] by (simp add: vs_def)
  show "own_ok w' ?i"
    unfolding own_ok_def
  proof (intro conjI allI impI)
    fix g'
    show "(vStores (wViews w' ?i) g' \<noteq> None) = supported g'"
      using own stores [of g'] st'(1) assms(6) by (cases "g' = g") (auto simp: own_ok_def vs_def)
  next
    fix g' st
    assume "vStores (wViews w' ?i) g' = Some st"
    then show "store_ok (wMem w') g' st"
      using other(2) stores [of g'] st' by (cases "g' = g") (auto simp: vs_def)
  qed
  show "g' \<noteq> g \<Longrightarrow> absOwn w' ?i g' = absOwn w ?i g'"
    using other stores by (auto simp: absOwn_def split: option.splits)
qed

text \<open>The two relations a sandbox keeps to its delegate: no shared cells, one shared counter.\<close>

lemma frame_separate:
  assumes ok: "view_ok w (SandboxView i d)" and fr: "frame (SandboxView i d) g A w w'"
    and wr: "mayWrite (SandboxView i d) g A w" and h: "held w' i g' a" and j: "j \<in> set (chain d)"
  shows "\<not> held w' j g' a"
proof
  have ij: "j \<noteq> i" and dok: "view_ok w d" using ok j by auto
  assume "held w' j g' a"
  then have hw: "held w j g' a" using frameD(1) [OF fr, of j] ij by (simp add: held_def)
  have "a < nextAddr (wMem w)" using held_facts(1) [OF view_ok_chain [OF dok j] hw] .
  moreover have "a \<notin> A" using mayWrite_free(2) [OF wr, of a j g'] j ij hw by auto
  moreover have "held w i g' a = held w' i g' a" if "g' \<noteq> g"
    using frameD(2) [OF fr that] by (simp add: held_def vs_def)
  ultimately have "held w i g' a" using h frameD(6) [OF fr, of a] by (cases "g' = g") auto
  then show False using ok j hw by auto
qed

lemma frame_counter:
  assumes ok: "view_ok w (SandboxView i d)" and fr: "frame (SandboxView i d) g A w w'" and "supported g"
    and st: "vStores (wViews w' i) g' = Some st" and sd: "vStores (wViews w' (viewId d)) g' = Some sd"
  shows "versionCounter st = versionCounter sd"
proof -
  have "viewId d \<noteq> i" using ok viewId_in_chain [of d] by auto
  then have sd': "vStores (wViews w (viewId d)) g' = Some sd"
    using sd frameD(1) [OF fr, of "viewId d"] by simp
  obtain s0 where s0: "vStores (vs w (SandboxView i d)) g = Some s0"
    using view_ok_own [OF ok] \<open>supported g\<close> by (auto simp: vs_def elim: own_store)
  have "\<exists>s0. vStores (wViews w i) g' = Some s0 \<and> versionCounter s0 = versionCounter st"
  proof (cases "g' = g")
    case True
    then show ?thesis using st s0 frameD(7) [OF fr s0] by (auto simp: vs_def)
  next
    case False
    have "vStores (wViews w i) g' = Some st" using st frameD(2) [OF fr False] by (simp add: vs_def)
    then show ?thesis by blast
  qed
  then show ?thesis using ok sd' by auto
qed

lemma view_ok_frame:
  assumes ok: "view_ok w v" and fr: "frame v g A w w'" and wr: "mayWrite v g A w"
    and st': "vStores (vs w' v) g = Some st'" "store_ok (wMem w') g st'" and "supported g"
  shows "view_ok w' v" "absDelegate w' v = absDelegate w v"
    "g' \<noteq> g \<Longrightarrow> absOwn w' (viewId v) g' = absOwn w (viewId v) g'"
proof -
  note own' = own_ok_frame [OF assms]
  have "view_ok w' v \<and> absDelegate w' v = absDelegate w v"
  proof (cases v)
    case (BaseView i)
    then show ?thesis using own'(1) by (simp add: fun_eq_iff)
  next
    case (SandboxView i d)
    note sandbox = ok [unfolded SandboxView] fr [unfolded SandboxView] wr [unfolded SandboxView]
    have notin: "i \<notin> set (chain d)" and dok: "view_ok w d" using sandbox(1) by auto
    have "\<not> held w j g' a" if "a \<in> A" "j \<in> set (chain d)" for a j g'
      using mayWrite_free(2) [OF sandbox(3) that(1), of j g'] that(2) notin by auto
    then have d: "view_ok w' d" "\<And>g''. absView w' d g'' = absView w d g''"
      using frame_view_other [OF sandbox(2) dok] notin by auto
    have "view_ok w' v"
      unfolding SandboxView view_ok.simps
      using own'(1) SandboxView notin d(1) frame_separate [OF sandbox] frame_counter [OF sandbox(1,2) \<open>supported g\<close>]
      by simp
    then show ?thesis using SandboxView d(2) by (simp add: fun_eq_iff)
  qed
  then show "view_ok w' v" "absDelegate w' v = absDelegate w v" by auto
  show "g' \<noteq> g \<Longrightarrow> absOwn w' (viewId v) g' = absOwn w (viewId v) g'" by (rule own'(2))
qed

subsection \<open>Store operations through a view\<close>

lemma putStore_simps [simp]:
  "wMem (putStore v g s w) = fst s"
  "vStores (vs (putStore v g s w) v) = (vStores (vs w v))(g \<mapsto> snd s)"
  "j \<noteq> viewId v \<Longrightarrow> wViews (putStore v g s w) j = wViews w j"
  "wNext (putStore v g s w) = wNext w"
  "vSink (vs (putStore v g s w) v) = vSink (vs w v)"
  by (simp_all add: putStore_def setView_def vs_def)

lemma addChange_simps [simp]:
  "wMem (addChange v n w) = wMem w" "vStores (wViews (addChange v n w) j) = vStores (wViews w j)"
  "vStores (vs (addChange v n w) v') = vStores (vs w v')"
  "obj (addChange v n w) = obj w" "held (addChange v n w) = held w"
  "own_ok (addChange v n w) = own_ok w"
  "absOwn (addChange v n w) = absOwn w" "wNext (addChange v n w) = wNext w"
  by (auto simp: addChange_def setView_def vs_def obj_def held_def own_ok_def absOwn_def fun_eq_iff
      split: option.splits)

lemma addChange_views [simp]:
  "view_ok (addChange v n w) v' = view_ok w v'" "absView (addChange v n w) v' = absView w v'"
proof -
  show "view_ok (addChange v n w) v' = view_ok w v'" by (induction v') simp_all
  show "absView (addChange v n w) v' = absView w v'" by (induction v') (rule ext, simp)+
qed

lemma addChange_absDelegate [simp]: "absDelegate (addChange v n w) v' = absDelegate w v'"
  by (cases v') (auto simp: fun_eq_iff)

lemma frame_addChange [simp]: "frame v g A w (addChange v n w') \<longleftrightarrow> frame v g A w w'"
proof -
  have "j \<noteq> viewId v \<Longrightarrow> wViews (addChange v n w') j = wViews w' j" for j
    by (simp add: addChange_def setView_def)
  then show ?thesis by (auto simp: frame_def)
qed

text \<open>How many versions may still be issued before a counter wraps.\<close>

definition room :: "world \<Rightarrow> nat \<Rightarrow> bool" where
  "room w n \<longleftrightarrow> (\<forall>c. sint (counters (wMem w) c) + int n < 2 ^ 63)"

lemma room_mono: "room w n \<Longrightarrow> m \<le> n \<Longrightarrow> room w m"
  unfolding room_def by (meson add_left_mono le_less_trans of_nat_le_iff)

lemma room_addChange [simp]: "room (addChange v k w) n = room w n"
  by (simp add: room_def)

lemma room_noWrap: "room w (Suc n) \<Longrightarrow> noWrap (wMem w, st)"
  unfolding room_def noWrap_def CurrentResourceVersion_def
  by (drule spec [of _ "versionCounter st"]) simp

lemma putStore_frame:
  assumes "vStores (vs w v) g = Some st"
    and "\<And>b. b \<notin> A \<Longrightarrow> b < nextAddr (wMem w) \<Longrightarrow> rd m' b = rd (wMem w) b"
    and "nextAddr (wMem w) \<le> nextAddr m'"
    and "\<And>c. sint (counters (wMem w) c) \<le> sint (counters m' c)"
    and "\<And>k b. map_of (cache st') k = Some (Live b) \<Longrightarrow>
           b \<in> A \<or> nextAddr (wMem w) \<le> b \<or> (\<exists>k. map_of (cache st) k = Some (Live b))"
    and "versionCounter st' = versionCounter st"
  shows "frame v g A w (putStore v g (m', st') w)"
proof -
  have "held w (viewId v) g b \<or> b \<in> A \<or> nextAddr (wMem w) \<le> b"
    if h: "held (putStore v g (m', st') w) (viewId v) g b" for b
  proof -
    obtain k where "map_of (cache st') k = Some (Live b)"
      using h by (auto simp: held_def vs_def [symmetric])
    then show ?thesis using assms(1,5) by (auto simp: held_def vs_def)
  qed
  then show ?thesis using assms unfolding frame_def by (auto simp: obj_def)
qed

text \<open>What the callers of a store operation through a view get to know.\<close>

definition result_ok :: "view \<Rightarrow> gvk \<Rightarrow> addr set \<Rightarrow> world \<Rightarrow> world \<Rightarrow> bool" where
  "result_ok v g A w w' \<longleftrightarrow> frame v g A w w' \<and> view_ok w' v \<and> absDelegate w' v = absDelegate w v \<and>
     (\<forall>g'. g' \<noteq> g \<longrightarrow> absView w' v g' = absView w v g')"

lemma result_okD:
  assumes "result_ok v g A w w'"
  shows "frame v g A w w'" "view_ok w' v" "absDelegate w' v = absDelegate w v"
    "g' \<noteq> g \<Longrightarrow> absView w' v g' = absView w v g'"
  using assms by (auto simp: result_ok_def)

lemma result_ok_refl: "view_ok w v \<Longrightarrow> result_ok v g A w w"
  by (simp add: result_ok_def)

lemma result_ok_trans:
  "result_ok v g A w w1 \<Longrightarrow> result_ok v g B w1 w2 \<Longrightarrow> B \<subseteq> A \<union> {nextAddr (wMem w)..} \<Longrightarrow>
     result_ok v g A w w2"
  by (auto simp: result_ok_def intro: frame_trans)

lemma result_ok_addChange [simp]: "result_ok v g A w (addChange v n w') = result_ok v g A w w'"
  by (simp add: result_ok_def)

lemma result_ok_frame:
  assumes "view_ok w v" "frame v g A w w'" "mayWrite v g A w" "vStores (vs w' v) g = Some st'"
    "store_ok (wMem w') g st'" "supported g"
  shows "result_ok v g A w w'"
  unfolding result_ok_def
  using view_ok_frame [OF assms] assms(2) by (auto simp: absView_alt)

lemma absView_result:
  assumes "result_ok v g A w w'" "absOwn w' (viewId v) g = (absOwn w (viewId v) g)(k \<mapsto> s)"
  shows "absView w' v g = (absView w v g)(k \<mapsto> s)"
  using assms by (simp add: absView_alt result_ok_def)

text \<open>\<open>mayWrite\<close> holds of a cell nobody in the chain holds, such as a fresh copy.\<close>

definition unheld :: "view \<Rightarrow> addr \<Rightarrow> world \<Rightarrow> bool" where
  "unheld v a w \<longleftrightarrow> (\<forall>j\<in>set (chain v). \<forall>g. \<not> held w j g a)"

lemma held_mayWrite:
  assumes ok: "view_ok w v" and h: "held w (viewId v) g a"
  shows "mayWrite v g {a} w"
  unfolding mayWrite_def
proof (intro ballI allI impI)
  fix b j g'
  assume b: "b \<in> {a}" "j \<in> set (chain v)" and hj: "held w j g' b"
  have "g' = g" using held_facts(2) [OF view_ok_chain [OF ok b(2)] hj]
      held_facts(2) [OF view_ok_own [OF ok] h] b by simp
  moreover have "j = viewId v" using ok h hj b \<open>g' = g\<close> by (cases v) auto
  ultimately show "j = viewId v \<and> g' = g" by simp
qed

lemma unheld_mayWrite: "unheld v a w \<Longrightarrow> mayWrite v g {a} w"
  by (simp add: unheld_def mayWrite_def)

lemma fresh_unheld: "view_ok w v \<Longrightarrow> nextAddr (wMem w) \<le> a \<Longrightarrow> unheld v a w"
  unfolding unheld_def using held_facts(1) view_ok_chain not_less by metis

end
