(* ===== verification/ViewOps.thy ===== *)
theory ViewOps
  imports ViewInv
begin

text \<open>
  The view operations against the abstract view: reading, creating, updating, deleting and
  binding, for base views and sandboxes alike.
\<close>

subsection \<open>Single store operations\<close>

definition withRV :: "string \<Rightarrow> kobj \<Rightarrow> kobj" where
  "withRV rv o' = o'\<lparr>ometa := ometa o'\<lparr>mResourceVersion := rv\<rparr>\<rparr>"

lemma withRV_simps [simp]:
  "cacheKey (withRV rv o') = cacheKey o'" "nameOk (withRV rv o') = nameOk o'"
  "objGVK (withRV rv o') = objGVK o'" "body (withRV rv o') = body o'"
  "isRuntimeObject (withRV rv o') = isRuntimeObject o'" "CacheName (withRV rv o') = CacheName o'"
  by (simp_all add: withRV_def name_defs nameOk_def isRuntimeObject_def)

lemma stamped_withRV: "stamped a s = withRV (FormatInt (CurrentResourceVersion s + 1)) (rd (fst s) a)"
  by (simp add: stamped_def withRV_def)

lemma putStore_same: "vStores (vs w v) g = Some st \<Longrightarrow> putStore v g (wMem w, st) w = w"
  by (simp add: putStore_def setView_def vs_def map_upd_triv)

lemma GetResourceStore_own:
  assumes "view_ok w v" "supported g"
  obtains st where "vStores (vs w v) g = Some st" "GetResourceStore v g w = Ok st"
    "store_ok (wMem w) g st" "store_inv (wMem w, st)" "sObjectGVK st = g"
    "absOwn w (viewId v) g = absStore (wMem w, st)"
proof -
  obtain st where st: "vStores (wViews w (viewId v)) g = Some st" "store_ok (wMem w) g st"
    using own_store [OF view_ok_own [OF assms(1)] assms(2)] .
  show thesis
    by (rule that [of st]) (use st in \<open>simp_all add: GetResourceStore_def absOwn_def store_ok_def vs_def\<close>)
qed

lemma withStore_eq:
  "vStores (vs w v) g = Some st \<Longrightarrow>
     withStore v g f w = (fst (f (wMem w, st)), putStore v g (snd (f (wMem w, st))) w)"
  by (simp add: withStore_def GetResourceStore_def split: prod.split)

lemma sint_succ_mono:
  "noWrap s \<Longrightarrow> sint (counters (fst s) c) \<le>
     sint (((counters (fst s))(versionCounter (snd s) := CurrentResourceVersion s + 1)) c)"
  by (simp add: noWrap_def sint_plus1 CurrentResourceVersion_def)

text \<open>The effect of putting an object: the tail \<open>Add\<close> and \<open>Update\<close> have in common.\<close>

lemma putLive_view:
  assumes ok: "view_ok w v" "supported g" and a: "a < nextAddr (wMem w)" "mayWrite v g {a} w"
    and o: "objGVK (obj w a) = g" "isRuntimeObject (obj w a)" "nameOk (obj w a)"
    and room: "room w (Suc n)" and st: "vStores (vs w v) g = Some st"
    and s': "s' = putLive a (wMem w, st) \<or> (\<exists>t. s' = broadcast t a (putLive a (wMem w, st)))"
    and w': "w' = putStore v g s' w"
  shows "result_ok v g {a} w w'"
    "absOwn w' (viewId v) g = (absOwn w (viewId v) g)(cacheKey (obj w a) \<mapsto> SlotLive (obj w' a))"
    "\<exists>rv. obj w' a = withRV rv (obj w a)" "held w' (viewId v) g a" "room w' n"
    "nextAddr (wMem w') = nextAddr (wMem w)"
proof -
  let ?s = "(wMem w, st)"
  have sok: "store_ok (wMem w) g st" using own_store [OF view_ok_own [OF ok(1)] ok(2)] st
    by (metis option.inject vs_def)
  then have inv: "store_inv ?s" by (simp add: store_ok_def)
  note nw = room_noWrap [OF room, of st]
  have valid: "validObj a ?s" using o sok by (simp add: validObj_def store_ok_def obj_def)
  have inv': "store_inv s'" using s' store_inv_putLive [OF inv valid _ nw] a(1) by auto
  have mem: "fst s' = fst (stampVersion a ?s)" "versionCounter (snd s') = versionCounter st"
    "sObjectGVK (snd s') = sObjectGVK st"
    "cache (snd s') = AList.update (cacheKey (obj w a)) (Live a) (cache st)"
    using s' by (auto simp: obj_def)
  have rv: "obj w' a = withRV (FormatInt (CurrentResourceVersion ?s + 1)) (obj w a)"
    by (simp add: w' obj_def mem stamped_withRV)
  then show "\<exists>rv. obj w' a = withRV rv (obj w a)" by blast
  have e: "obj w' a = stamped a ?s" by (simp add: rv stamped_withRV) (simp add: obj_def)
  have entries: "b = a \<or> (\<exists>k. map_of (cache st) k = Some (Live b))"
    if "map_of (cache (snd s')) k = Some (Live b)" for k b
    using that by (auto simp: mem split: if_splits)
  have "frame v g {a} w (putStore v g (fst s', snd s') w)"
  proof (rule putStore_frame [OF st])
    show "sint (counters (wMem w) c) \<le> sint (counters (fst s') c)" for c
      using sint_succ_mono [OF nw, of c] by (simp add: mem)
  qed (use entries in \<open>auto simp: mem\<close>)
  then have fr: "frame v g {a} w w'" by (simp add: w')
  have "nameOk (rd (fst s') b)" if "map_of (cache (snd s')) k = Some (Live b)" for k b
    using entries [OF that] sok o(3) by (auto simp: mem stamped_withRV store_ok_def obj_def)
  then have sok': "store_ok (wMem w') g (snd s')"
    using inv' sok mem(3) by (simp add: store_ok_def w')
  show "result_ok v g {a} w w'"
    by (rule result_ok_frame [OF ok(1) fr a(2) _ sok' ok(2)]) (simp add: w')
  have "absOwn w' (viewId v) g = absStore s'"
    using w' by (simp add: absOwn_def vs_def [symmetric])
  moreover have "absStore s' = (absStore ?s)(cacheKey (obj w a) \<mapsto> SlotLive (stamped a ?s))"
    using s' absStore_putLive [OF inv, of a] by (auto simp: obj_def)
  ultimately show "absOwn w' (viewId v) g = (absOwn w (viewId v) g)(cacheKey (obj w a) \<mapsto> SlotLive (obj w' a))"
    using st unfolding e by (simp add: absOwn_def vs_def [symmetric])
  show "held w' (viewId v) g a"
    unfolding held_def by (rule exI [of _ "snd s'"]) (auto simp: w' vs_def [symmetric] mem)
  show "nextAddr (wMem w') = nextAddr (wMem w)" by (simp add: w' mem)
  show "room w' n"
    unfolding room_def
  proof
    fix c
    have "sint (counters (wMem w) c) + int (Suc n) < 2 ^ 63" using room by (auto simp only: room_def)
    then show "sint (counters (wMem w') c) + int n < 2 ^ 63"
      using nw by (cases "c = versionCounter st")
        (simp_all add: w' mem noWrap_def sint_plus1 CurrentResourceVersion_def)
  qed
qed

lemma withStore_Add:
  assumes "view_ok w v" "supported g" "a < nextAddr (wMem w)" "mayWrite v g {a} w"
    "objGVK (obj w a) = g" "isRuntimeObject (obj w a)" "nameOk (obj w a)" "room w (Suc n)"
  obtains w' where "withStore v g (Add a opts) w = (Ok (), w')" "result_ok v g {a} w w'"
    "absOwn w' (viewId v) g = (absOwn w (viewId v) g)(cacheKey (obj w a) \<mapsto> SlotLive (obj w' a))"
    "\<exists>rv. obj w' a = withRV rv (obj w a)" "held w' (viewId v) g a" "room w' n"
    "nextAddr (wMem w') = nextAddr (wMem w)"
proof -
  obtain st where st: "vStores (vs w v) g = Some st" "sObjectGVK st = g"
    using GetResourceStore_own [OF assms(1,2)] .
  let ?s' = "if NoBroadcast opts then putLive a (wMem w, st) else broadcast Added a (putLive a (wMem w, st))"
  have "validObj a (wMem w, st)" using assms(5,6) st by (simp add: validObj_def obj_def)
  then have "withStore v g (Add a opts) w = (Ok (), putStore v g ?s' w)"
    by (simp add: withStore_eq [OF st(1)] Add_eq)
  moreover have "?s' = putLive a (wMem w, st) \<or> (\<exists>t. ?s' = broadcast t a (putLive a (wMem w, st)))" by auto
  ultimately show thesis
    using putLive_view [OF assms(1-8) st(1) _ refl, of ?s'] that by blast
qed

lemma withStore_Update:
  assumes "view_ok w v" "supported g" "a < nextAddr (wMem w)" "mayWrite v g {a} w"
    "objGVK (obj w a) = g" "isRuntimeObject (obj w a)" "nameOk (obj w a)" "room w (Suc n)"
  obtains (found) w' where "withStore v g (Update a opts) w = (Ok (), w')" "result_ok v g {a} w w'"
      "absOwn w (viewId v) g (cacheKey (obj w a)) \<notin> {None, Some SlotDeleted}"
      "absOwn w' (viewId v) g = (absOwn w (viewId v) g)(cacheKey (obj w a) \<mapsto> SlotLive (obj w' a))"
      "\<exists>rv. obj w' a = withRV rv (obj w a)" "held w' (viewId v) g a" "room w' n"
      "nextAddr (wMem w') = nextAddr (wMem w)"
  | (deleted) "withStore v g (Update a opts) w = (Err deletedErr, w)"
      "absOwn w (viewId v) g (cacheKey (obj w a)) = Some SlotDeleted"
  | (missing) "withStore v g (Update a opts) w = (Err (ApiStatus NotFoundReason), w)"
      "absOwn w (viewId v) g (cacheKey (obj w a)) = None"
proof -
  obtain st where st: "vStores (vs w v) g = Some st" "sObjectGVK st = g" "store_inv (wMem w, st)"
    and own: "absOwn w (viewId v) g = absStore (wMem w, st)"
    using GetResourceStore_own [OF assms(1,2)] .
  let ?key = "cacheKey (obj w a)"
  have valid: "validObj a (wMem w, st)" using assms(5,6) st by (simp add: validObj_def obj_def)
  note abs = GetByKey_abs [OF st(3), of ?key]
  show thesis
  proof (cases "absStore (wMem w, st) ?key")
    case None
    with abs valid show thesis
      by (intro missing) (simp_all add: withStore_eq [OF st(1)] Update_eq own obj_def putStore_same st)
  next
    case (Some sl)
    show thesis
    proof (cases sl)
      case SlotDeleted
      with Some abs valid show thesis
        by (intro deleted) (simp_all add: withStore_eq [OF st(1)] Update_eq own obj_def putStore_same st)
    next
      case (SlotLive o')
      let ?s' = "if NoBroadcast opts then putLive a (wMem w, st)
        else broadcast Modified a (putLive a (wMem w, st))"
      have "withStore v g (Update a opts) w = (Ok (), putStore v g ?s' w)"
        using Some SlotLive abs valid by (auto simp: withStore_eq [OF st(1)] Update_eq obj_def)
      moreover have "?s' = putLive a (wMem w, st) \<or> (\<exists>t. ?s' = broadcast t a (putLive a (wMem w, st)))"
        by auto
      moreover have "absOwn w (viewId v) g ?key \<notin> {None, Some SlotDeleted}"
        using Some SlotLive own by simp
      ultimately show thesis
        using putLive_view [OF assms(1-8) st(1) _ refl, of ?s'] found by blast
    qed
  qed
qed

text \<open>Deleting a live entry keeps every other one, and no cell is shared with the deleted entry.\<close>

lemma deleteKey_store_ok:
  assumes inv: "store_inv (m, st)" and ok: "store_ok m g st" and a: "map_of (cache st) k = Some (Live a)"
  obtains s' where "deleteKey opts k (m, st) = (Ok (), s')" "store_ok (fst s') g (snd s')"
    "absStore s' = (absStore (m, st))(k := leftBehind opts)"
    "\<And>b. b \<noteq> a \<Longrightarrow> rd (fst s') b = rd m b"
    "counters (fst s') = counters m" "nextAddr (fst s') = nextAddr m"
    "versionCounter (snd s') = versionCounter st"
    "\<And>k' b. map_of (cache (snd s')) k' = Some (Live b) \<Longrightarrow> map_of (cache st) k' = Some (Live b)"
proof -
  obtain s' where s': "deleteKey opts k (m, st) = (Ok (), s')" "store_inv s'"
    "absStore s' = (absStore (m, st))(k := leftBehind opts)"
    "\<And>k'. k' \<noteq> k \<Longrightarrow> map_of (cache (snd s')) k' = map_of (cache st) k'"
    "\<And>b. b \<noteq> a \<Longrightarrow> rd (fst s') b = rd m b"
    "counters (fst s') = counters m" "nextAddr (fst s') = nextAddr m"
    using deleteKey_live [OF inv, of k a opts] a by (metis fst_conv snd_conv)
  have g: "sObjectGVK st = g" using ok by (simp add: store_ok_def)
  have same: "sObjectGVK (snd s') = g" "versionCounter (snd s') = versionCounter st"
    using s'(1) inv a g by (auto simp: deleteKey_def markDeleted_eq DeleteByKey_eq GetByKey_Ok_iff [THEN iffD2]
        entomb_def dropKey_def split: if_splits)
  have gone: "\<forall>b. map_of (cache (snd s')) k \<noteq> Some (Live b)"
    using fun_cong [OF s'(3), of k] by (auto simp: absStore_def leftBehind_def split: if_splits)
  have live: "map_of (cache st) k' = Some (Live b)" if "map_of (cache (snd s')) k' = Some (Live b)" for k' b
    using that gone s'(4) by (cases "k' = k") auto
  have nota: "b \<noteq> a" if "map_of (cache (snd s')) k' = Some (Live b)" for k' b
    using live [OF that] that gone store_inv_live_unique [OF inv] a by (metis snd_conv)
  have "store_ok (fst s') g (snd s')"
    unfolding store_ok_def
  proof (intro conjI allI impI)
    fix k' b
    assume look: "map_of (cache (snd s')) k' = Some (Live b)"
    have "nameOk (rd m b)" using live [OF look] ok by (auto simp: store_ok_def)
    then show "nameOk (rd (fst s') b)" using s'(5) [OF nota [OF look]] by simp
  qed (use s'(2) same in simp_all)
  then show thesis using s' same live by (intro that)
qed

lemma withStore_Delete:
  assumes ok: "view_ok w v" "supported g" and room: "room w n"
  obtains (found) w' a where "withStore v g (Delete objName opts) w = (Ok (), w')"
      "result_ok v g {a} w w'" "held w (viewId v) g a" "cacheKey (obj w a) = objectNameString objName"
      "absOwn w (viewId v) g (objectNameString objName) = Some (SlotLive (obj w a))"
      "absOwn w' (viewId v) g = (absOwn w (viewId v) g)(objectNameString objName := leftBehind opts)"
      "room w' n"
  | (missing) e where "withStore v g (Delete objName opts) w = (Err e, w)" "isNotFound e"
      "absOwn w (viewId v) g (objectNameString objName) \<in> {None, Some SlotDeleted}"
proof -
  obtain st where st: "vStores (vs w v) g = Some st" "sObjectGVK st = g" "store_inv (wMem w, st)"
    "store_ok (wMem w) g st"
    and own: "absOwn w (viewId v) g = absStore (wMem w, st)"
    using GetResourceStore_own [OF ok] .
  let ?k = "objectNameString objName"
  show thesis
  proof (cases "\<exists>a. map_of (cache st) ?k = Some (Live a)")
    case False
    then obtain e where "deleteKey opts ?k (wMem w, st) = (Err e, (wMem w, st))" "isNotFound e"
      using deleteKey_missing [OF st(3), of ?k opts] by auto
    moreover have "absStore (wMem w, st) ?k \<in> {None, Some SlotDeleted}"
      using False by (auto simp: absStore_def split: option.splits entry.splits)
    ultimately show thesis
      by (intro missing) (auto simp: withStore_eq [OF st(1)] Delete_eq putStore_same st own)
  next
    case True
    then obtain a where a: "map_of (cache st) ?k = Some (Live a)" by auto
    obtain s' where s': "deleteKey opts ?k (wMem w, st) = (Ok (), s')" "store_ok (fst s') g (snd s')"
      "absStore s' = (absStore (wMem w, st))(?k := leftBehind opts)"
      "\<And>b. b \<noteq> a \<Longrightarrow> rd (fst s') b = rd (wMem w) b"
      "counters (fst s') = counters (wMem w)" "nextAddr (fst s') = nextAddr (wMem w)"
      "versionCounter (snd s') = versionCounter st"
      "\<And>k b. map_of (cache (snd s')) k = Some (Live b) \<Longrightarrow> map_of (cache st) k = Some (Live b)"
      by (rule deleteKey_store_ok [OF st(3,4) a, of opts]) (rule that)
    let ?w' = "putStore v g s' w"
    have "frame v g {a} w (putStore v g (fst s', snd s') w)"
    proof (rule putStore_frame [OF st(1)])
      show "b \<in> {a} \<or> nextAddr (wMem w) \<le> b \<or> (\<exists>k. map_of (cache st) k = Some (Live b))"
        if "map_of (cache (snd s')) k = Some (Live b)" for k b
        using s'(8) [OF that] by blast
    qed (use s' in auto)
    then have fr: "frame v g {a} w ?w'" by simp
    have h: "held w (viewId v) g a" using a st(1) by (auto simp: held_def vs_def)
    have "result_ok v g {a} w ?w'"
      by (rule result_ok_frame [OF ok(1) fr held_mayWrite [OF ok(1) h] _ _ ok(2)]) (use s'(2) in simp_all)
    moreover have "absOwn ?w' (viewId v) g = absStore s'" by (simp add: absOwn_def vs_def [symmetric])
    moreover have "absStore (wMem w, st) ?k = Some (SlotLive (obj w a))" "cacheKey (obj w a) = ?k"
      using a store_invD(2) [OF st(3), of ?k a] by (simp_all add: absStore_def obj_def)
    ultimately show thesis
      using h s' room
      by (intro found [of ?w' a]) (simp_all add: withStore_eq [OF st(1)] Delete_eq own room_def)
  qed
qed

subsection \<open>Reading\<close>

lemma getStoreObject_abs:
  assumes "view_ok w v" "supported g"
  shows "(case absOwn w (viewId v) g (objectNameString n) of
       Some (SlotLive o') \<Rightarrow> \<exists>a. getStoreObject v g n w = Ok a \<and> obj w a = o' \<and> held w (viewId v) g a
     | Some SlotDeleted \<Rightarrow> getStoreObject v g n w = Err deletedErr
     | None \<Rightarrow> getStoreObject v g n w = Err (ApiStatus NotFoundReason))"
proof -
  obtain st where st: "vStores (vs w v) g = Some st" "GetResourceStore v g w = Ok st"
    "store_inv (wMem w, st)" "absOwn w (viewId v) g = absStore (wMem w, st)"
    using GetResourceStore_own [OF assms] .
  have "getStoreObject v g n w = GetByKey (objectNameString n) (wMem w, st)"
    using st by (simp add: getStoreObject_def readStore_def Get_def)
  moreover have "held w (viewId v) g a" if "map_of (cache st) k = Some (Live a)" for k a
    using that st(1) by (auto simp: held_def vs_def)
  ultimately show ?thesis
    using GetByKey_abs [OF st(3), of "objectNameString n"]
    by (auto simp: st(4) obj_def split: option.splits slot.splits)
qed

lemma GetObject_abs:
  assumes "view_ok w v" "supported g"
  shows "(case absView w v g (objectNameString n) of
       Some (SlotLive o') \<Rightarrow> \<exists>a. GetObject v g n w = Ok a \<and> obj w a = o' \<and> (\<exists>j\<in>set (chain v). held w j g a)
     | Some SlotDeleted \<Rightarrow> GetObject v g n w = Err deletedErr
     | None \<Rightarrow> GetObject v g n w = Err (ApiStatus NotFoundReason))"
  using assms
proof (induction v)
  case (BaseView i)
  then show ?case
    using getStoreObject_abs [of w "BaseView i" g n] by (auto split: option.splits slot.splits)
next
  case (SandboxView i d)
  note own = getStoreObject_abs [OF SandboxView.prems, of n]
  have ih: "(case absView w d g (objectNameString n) of
       Some (SlotLive o') \<Rightarrow> \<exists>a. GetObject d g n w = Ok a \<and> obj w a = o' \<and> (\<exists>j\<in>set (chain d). held w j g a)
     | Some SlotDeleted \<Rightarrow> GetObject d g n w = Err deletedErr
     | None \<Rightarrow> GetObject d g n w = Err (ApiStatus NotFoundReason))"
    using SandboxView by simp
  show ?case
  proof (cases "absOwn w i g (objectNameString n)")
    case None
    then have "GetObject (SandboxView i d) g n w = GetObject d g n w" using own by simp
    with ih None show ?thesis by (auto split: option.splits slot.splits simp: map_add_None)
  next
    case (Some sl)
    then show ?thesis using own by (cases sl) auto
  qed
qed

subsection \<open>Changes to the memory only\<close>

definition memStep :: "addr set \<Rightarrow> world \<Rightarrow> world \<Rightarrow> bool" where
  "memStep A w w' \<longleftrightarrow> wViews w' = wViews w \<and> wNext w' = wNext w \<and>
     (\<forall>b. b \<notin> A \<longrightarrow> b < nextAddr (wMem w) \<longrightarrow> obj w' b = obj w b) \<and>
     nextAddr (wMem w) \<le> nextAddr (wMem w') \<and> counters (wMem w') = counters (wMem w)"

lemma memStep_trans: "memStep A w w1 \<Longrightarrow> memStep A w1 w2 \<Longrightarrow> memStep A w w2"
  by (auto simp: memStep_def)

lemma memStep_held: "memStep A w w' \<Longrightarrow> held w' j g a = held w j g a"
  by (simp add: memStep_def held_def)

lemma memStep_own:
  assumes "memStep A w w'" "own_ok w j" "\<And>a g. a \<in> A \<Longrightarrow> \<not> held w j g a"
  shows "own_ok w' j" "absOwn w' j = absOwn w j"
proof -
  have same: "rd (wMem w') a = rd (wMem w) a"
    if "vStores (wViews w j) g = Some st" "map_of (cache st) k = Some (Live a)" for g st k a
  proof -
    have h: "held w j g a" using that by (auto simp: held_def)
    then show ?thesis
      using assms(1,3) held_facts(1) [OF assms(2) h] by (auto simp: memStep_def obj_def)
  qed
  have "store_ok (wMem w') g st" if "vStores (wViews w j) g = Some st" for g st
    by (rule store_ok_env) (use that assms(1,2) same [OF that] in \<open>auto simp: own_ok_def memStep_def\<close>)
  then show "own_ok w' j" using assms(1,2) by (simp add: own_ok_def memStep_def)
  have "absStore (wMem w', st) = absStore (wMem w, st)" if "vStores (wViews w j) g = Some st" for g st
    by (rule absStore_env) (rule same [OF that])
  then show "absOwn w' j = absOwn w j"
    using assms(1) by (auto simp: absOwn_def memStep_def fun_eq_iff split: option.splits)
qed

lemma memStep_view:
  assumes "memStep A w w'" "view_ok w v" "\<And>a. a \<in> A \<Longrightarrow> unheld v a w"
  shows "view_ok w' v \<and> absView w' v = absView w v"
  using assms(2,3)
proof (induction v)
  case (BaseView i)
  then show ?case using memStep_own [OF assms(1), of i] by (auto simp: unheld_def fun_eq_iff)
next
  case (SandboxView i d)
  have own: "own_ok w' i" "absOwn w' i = absOwn w i"
    using memStep_own [OF assms(1), of i] SandboxView.prems by (auto simp: unheld_def)
  moreover have "view_ok w' d \<and> absView w' d = absView w d"
    using SandboxView by (auto simp: unheld_def)
  moreover have "wViews w' = wViews w" using assms(1) by (simp add: memStep_def)
  ultimately show ?case
    using SandboxView.prems(1) by (auto simp: memStep_held [OF assms(1)] intro!: ext)
qed

lemma memStep_result:
  assumes "memStep A w w'" "view_ok w v" "\<And>a. a \<in> A \<Longrightarrow> unheld v a w"
  shows "result_ok v g A w w'" "absOwn w' (viewId v) = absOwn w (viewId v)" "unheld v a w' = unheld v a w"
proof -
  have "absDelegate w' v = absDelegate w v"
  proof (cases v)
    case (SandboxView i d)
    then show ?thesis
      using memStep_view [OF assms(1), of d] assms(2,3) by (auto simp: unheld_def fun_eq_iff)
  qed (auto simp: fun_eq_iff)
  moreover have "frame v g A w w'"
    using assms(1) by (auto simp: frame_def memStep_def vs_def held_def)
  ultimately show "result_ok v g A w w'"
    using memStep_view [OF assms] by (simp add: result_ok_def)
  show "absOwn w' (viewId v) = absOwn w (viewId v)"
    by (rule memStep_own(2) [OF assms(1) view_ok_own [OF assms(2)]]) (use assms(3) in \<open>auto simp: unheld_def\<close>)
  show "unheld v a w' = unheld v a w" by (simp add: unheld_def memStep_held [OF assms(1)])
qed

lemma deepCopyW_simps [simp]:
  "fst (deepCopyW a w) = nextAddr (wMem w)"
  "obj (snd (deepCopyW a w)) b = (if b = nextAddr (wMem w) then obj w a else obj w b)"
  "nextAddr (wMem (snd (deepCopyW a w))) = Suc (nextAddr (wMem w))"
  "counters (wMem (snd (deepCopyW a w))) = counters (wMem w)"
  "wViews (snd (deepCopyW a w)) = wViews w" "wNext (snd (deepCopyW a w)) = wNext w"
  by (simp_all add: deepCopyW_def obj_def split: prod.split) (simp_all add: deepCopy_def alloc_def rd_def)

lemma memStep_deepCopyW: "memStep {} w (snd (deepCopyW a w))"
  by (simp add: memStep_def)

subsection \<open>Creating\<close>

text \<open>
  \<open>defaulted g o' o''\<close>: \<open>o''\<close> is \<open>o'\<close> stored as kind \<open>g\<close>: only the kind, the version, an empty UID
  and a zero creation time may differ.
\<close>

definition defaulted :: "gvk \<Rightarrow> kobj \<Rightarrow> kobj \<Rightarrow> bool" where
  "defaulted g o' o'' \<longleftrightarrow> body o'' = body o' \<and> objGVK o'' = g \<and>
     (let m = ometa o'; m' = ometa o'' in
      mName m' = mName m \<and> mGenerateName m' = mGenerateName m \<and> mNamespace m' = mNamespace m \<and>
      mDeletionTimestamp m' = mDeletionTimestamp m \<and> mLabels m' = mLabels m \<and>
      mAnnotations m' = mAnnotations m \<and> mOwnerReferences m' = mOwnerReferences m \<and>
      (mUID m \<noteq> [] \<longrightarrow> mUID m' = mUID m) \<and>
      (mCreationTimestamp m \<noteq> 0 \<longrightarrow> mCreationTimestamp m' = mCreationTimestamp m))"

lemma defaulted_simps:
  assumes "defaulted g o' o''"
  shows "cacheKey o'' = cacheKey o'" "nameOk o'' = nameOk o'" "body o'' = body o'" "objGVK o'' = g"
    "CacheName o'' = CacheName o'" "isRuntimeObject o'' = isRuntimeObject o'"
    "mName (ometa o'') = mName (ometa o')" "mNamespace (ometa o'') = mNamespace (ometa o')"
    "mLabels (ometa o'') = mLabels (ometa o')"
  using assms by (simp_all add: defaulted_def name_defs nameOk_def isRuntimeObject_def Let_def)

lemma defaulted_withRV: "defaulted g o' o'' \<Longrightarrow> defaulted g o' (withRV rv o'')"
  by (simp add: defaulted_def withRV_def Let_def)

definition prepare :: "addr \<Rightarrow> gvk \<Rightarrow> world \<Rightarrow> world" where
  "prepare a g w = defaultGVK a g (defaultUID a (defaultCreationTimestamp a w))"

lemma defaultCreationTimestamp_simps:
  "memStep {a} w (defaultCreationTimestamp a w)"
  "nextAddr (wMem (defaultCreationTimestamp a w)) = nextAddr (wMem w)"
  "\<exists>ct. obj (defaultCreationTimestamp a w) a =
     obj w a\<lparr>ometa := ometa (obj w a)\<lparr>mCreationTimestamp := ct\<rparr>\<rparr> \<and>
     (mCreationTimestamp (ometa (obj w a)) \<noteq> 0 \<longrightarrow> ct = mCreationTimestamp (ometa (obj w a)))"
  by (auto simp: defaultCreationTimestamp_def memStep_def obj_def now_def rd_def updMeta_def wr_def
      intro: exI [of _ "mCreationTimestamp (ometa (obj w a))"])

lemma defaultUID_simps:
  "memStep {a} w (defaultUID a w)" "nextAddr (wMem (defaultUID a w)) = nextAddr (wMem w)"
  "\<exists>u. obj (defaultUID a w) a = obj w a\<lparr>ometa := ometa (obj w a)\<lparr>mUID := u\<rparr>\<rparr> \<and>
     (mUID (ometa (obj w a)) \<noteq> [] \<longrightarrow> u = mUID (ometa (obj w a)))"
  by (auto simp: defaultUID_def memStep_def obj_def newUUID_def rd_def updMeta_def wr_def
      intro: exI [of _ "mUID (ometa (obj w a))"])

lemma defaultGVK_simps:
  "memStep {a} w (defaultGVK a g w)" "nextAddr (wMem (defaultGVK a g w)) = nextAddr (wMem w)"
  "obj (defaultGVK a g w) a = SetMetaObjectGVK (obj w a) g"
  by (auto simp: defaultGVK_def memStep_def obj_def onWMem_def)

definition storable :: "gvk \<Rightarrow> kobj \<Rightarrow> bool" where
  "storable g o' \<longleftrightarrow> isRuntimeObject o' \<and> nameOk o' \<and>
     (objGVK o' = g \<or> gvkKind (objGVK o') = [] \<and> gvkVersion (objGVK o') = [])"

lemma prepare_facts:
  assumes "storable g (obj w a)"
  shows "memStep {a} w (prepare a g w)" "nextAddr (wMem (prepare a g w)) = nextAddr (wMem w)"
    "defaulted g (obj w a) (obj (prepare a g w) a)"
proof -
  let ?w1 = "defaultCreationTimestamp a w" and ?w2 = "defaultUID a (defaultCreationTimestamp a w)"
  show "memStep {a} w (prepare a g w)"
    unfolding prepare_def
    using defaultCreationTimestamp_simps(1) defaultUID_simps(1) defaultGVK_simps(1) memStep_trans by metis
  show "nextAddr (wMem (prepare a g w)) = nextAddr (wMem w)"
    by (simp add: prepare_def defaultCreationTimestamp_simps defaultUID_simps defaultGVK_simps)
  obtain ct where ct: "obj ?w1 a = obj w a\<lparr>ometa := ometa (obj w a)\<lparr>mCreationTimestamp := ct\<rparr>\<rparr>"
    "mCreationTimestamp (ometa (obj w a)) \<noteq> 0 \<longrightarrow> ct = mCreationTimestamp (ometa (obj w a))"
    using defaultCreationTimestamp_simps(3) by blast
  obtain u where u: "obj ?w2 a = obj ?w1 a\<lparr>ometa := ometa (obj ?w1 a)\<lparr>mUID := u\<rparr>\<rparr>"
    "mUID (ometa (obj ?w1 a)) \<noteq> [] \<longrightarrow> u = mUID (ometa (obj ?w1 a))"
    using defaultUID_simps(3) by blast
  have "obj (prepare a g w) a = SetMetaObjectGVK (obj ?w2 a) g"
    by (simp add: prepare_def defaultGVK_simps)
  also have "\<dots> = obj ?w2 a\<lparr>objGVK := g\<rparr>"
    using assms u(1) ct(1) by (auto simp: SetMetaObjectGVK_def storable_def isRuntimeObject_def)
  finally have e: "obj (prepare a g w) a = obj ?w2 a\<lparr>objGVK := g\<rparr>" .
  show "defaulted g (obj w a) (obj (prepare a g w) a)"
    unfolding defaulted_def e using u ct by (simp add: Let_def)
qed

lemma CreateObject_ok:
  assumes ok: "view_ok w v" "supported g" and a: "a < nextAddr (wMem w)" "unheld v a w"
    and o: "storable g (obj w a)" and room: "room w (Suc n)"
  obtains w' where "CreateObject v g a opts w = (Ok a, w')" "result_ok v g {a} w w'"
    "absOwn w' (viewId v) g = (absOwn w (viewId v) g)(cacheKey (obj w a) \<mapsto> SlotLive (obj w' a))"
    "defaulted g (obj w a) (obj w' a)" "held w' (viewId v) g a" "room w' n"
    "nextAddr (wMem w') = nextAddr (wMem w)"
proof -
  let ?w1 = "prepare a g w"
  note p = prepare_facts [OF o]
  have un: "\<And>b. b \<in> {a} \<Longrightarrow> unheld v b w" using a(2) by simp
  note m = memStep_result [OF p(1) ok(1) un]
  note d = defaulted_simps [OF p(3)]
  have room1: "room ?w1 (Suc n)" using room p(1) by (simp add: room_def memStep_def)
  have pre: "view_ok ?w1 v" "a < nextAddr (wMem ?w1)" "mayWrite v g {a} ?w1"
    "objGVK (obj ?w1 a) = g" "isRuntimeObject (obj ?w1 a)" "nameOk (obj ?w1 a)"
    using result_okD(2) [OF m(1)] a p(2) d o m(3) by (simp_all add: storable_def unheld_mayWrite)
  obtain w2 where w2: "withStore v g (Add a opts) ?w1 = (Ok (), w2)" "result_ok v g {a} ?w1 w2"
    "absOwn w2 (viewId v) g = (absOwn ?w1 (viewId v) g)(cacheKey (obj ?w1 a) \<mapsto> SlotLive (obj w2 a))"
    "\<exists>rv. obj w2 a = withRV rv (obj ?w1 a)" "held w2 (viewId v) g a" "room w2 n"
    "nextAddr (wMem w2) = nextAddr (wMem ?w1)"
    using withStore_Add [OF pre(1) ok(2) pre(2-6) room1] .
  obtain st where "GetResourceStore v g w = Ok st" using GetResourceStore_own [OF ok] .
  moreover have "defaultName a w = (Ok (), w)"
    using o by (simp add: defaultName_def storable_def nameOk_def Let_def)
  ultimately have "CreateObject v g a opts w = (Ok a, addChange v 1 w2)"
    using w2(1) by (simp add: CreateObject_def storeObject_def prepare_def Let_def)
  moreover have "result_ok v g {a} w w2" by (rule result_ok_trans [OF m(1) w2(2)]) auto
  ultimately show thesis
    using w2 p(2,3) m(2) d(1) defaulted_withRV
    by (intro that [of "addChange v 1 w2"]) auto
qed

subsection \<open>Updating\<close>

lemma result_ok_mono: "result_ok v g A w w' \<Longrightarrow> A \<subseteq> B \<Longrightarrow> result_ok v g B w w'"
  by (auto simp: result_ok_def intro: frame_mono)

lemma mayWrite_result:
  assumes "result_ok v g A w w1" "mayWrite v g {a} w"
  shows "mayWrite v g {a} w1"
  unfolding mayWrite_def
proof (intro ballI allI impI)
  fix b j g'
  assume "b \<in> {a}" "j \<in> set (chain v)" and h: "held w1 j g' b"
  show "j = viewId v \<and> g' = g"
  proof (rule ccontr)
    assume n: "\<not> (j = viewId v \<and> g' = g)"
    have "vStores (wViews w1 j) g' = vStores (wViews w j) g'"
      using n frameD(1,2) [OF result_okD(1) [OF assms(1)]] by (cases "j = viewId v") (auto simp: vs_def)
    then have "held w j g' b" using h by (simp add: held_def)
    then show False using n assms(2) \<open>b \<in> {a}\<close> \<open>j \<in> set (chain v)\<close> by (auto simp: mayWrite_def)
  qed
qed

lemma CacheName_key [simp]: "objectNameString (CacheName o') = cacheKey o'"
  by (simp add: cacheKey_def)

lemma absStore_key:
  "store_inv s \<Longrightarrow> absStore s k = Some (SlotLive o') \<Longrightarrow> cacheKey o' = k"
  using store_invD(2) by (fastforce simp: absStore_def split: option.splits entry.splits)

lemma absOwn_key:
  assumes "own_ok w i" "absOwn w i g k = Some (SlotLive o')"
  shows "cacheKey o' = k" "nameOk o'" "objGVK o' = g" "isRuntimeObject o'"
proof -
  obtain st where st: "vStores (wViews w i) g = Some st" "absStore (wMem w, st) k = Some (SlotLive o')"
    using assms(2) by (auto simp: absOwn_def split: option.splits)
  then have ok: "store_ok (wMem w) g st" using assms(1) by (simp add: own_ok_def)
  then show "cacheKey o' = k" using st absStore_key [of "(wMem w, st)" k o'] by (simp add: store_ok_def)
  obtain a where a: "map_of (cache st) k = Some (Live a)" "obj w a = o'"
    using st(2) by (auto simp: absStore_def obj_def split: option.splits entry.splits)
  then have "held w i g a" using st(1) by (auto simp: held_def)
  from held_facts [OF assms(1) this] a show "nameOk o'" "objGVK o' = g" "isRuntimeObject o'" by auto
qed

lemma absView_key:
  assumes "view_ok w v" "absView w v g k = Some (SlotLive o')"
  shows "cacheKey o' = k" "nameOk o'" "objGVK o' = g" "isRuntimeObject o'"
proof -
  have "\<exists>i. own_ok w i \<and> absOwn w i g k = Some (SlotLive o')"
    using assms by (induction v) (auto simp: map_add_Some_iff)
  then show "cacheKey o' = k" "nameOk o'" "objGVK o' = g" "isRuntimeObject o'"
    using absOwn_key by blast+
qed

lemma copyFromDelegate_ok:
  assumes ok: "view_ok w (SandboxView i d)" "supported g" and room: "room w (Suc n)"
    and live: "absView w d g (objectNameString nm) = Some (SlotLive o')"
  obtains c w' where "copyFromDelegate (SandboxView i d) d g nm w = (Ok c, w')"
    "result_ok (SandboxView i d) g {} w w'" "c = nextAddr (wMem w)"
    "absOwn w' i g = (absOwn w i g)(objectNameString nm \<mapsto> SlotLive (obj w' c))"
    "defaulted g o' (obj w' c)" "held w' i g c" "room w' n" "c < nextAddr (wMem w')"
proof -
  let ?v = "SandboxView i d" and ?c = "nextAddr (wMem w)"
  have dok: "view_ok w d" using ok by simp
  obtain a j where a: "GetObject d g nm w = Ok a" "obj w a = o'" "j \<in> set (chain d)" "held w j g a"
    using GetObject_abs [OF dok ok(2), of nm] live by auto
  note h = held_facts [OF view_ok_chain [OF dok a(3)] a(4)]
  let ?w1 = "snd (deepCopyW a w)"
  have m: "memStep {} w ?w1" by (rule memStep_deepCopyW)
  note r1 = memStep_result [OF m ok(1)]
  have v1: "view_ok ?w1 ?v" by (rule result_okD(2) [OF r1(1)]) auto
  have un: "unheld ?v ?c ?w1" using fresh_unheld [OF ok(1)] r1(3) by auto
  have st: "storable g (obj ?w1 ?c)" using h a(2) by (simp add: storable_def)
  have room1: "room ?w1 (Suc n)" using room by (simp add: room_def)
  obtain w2 where w2: "CreateObject ?v g ?c \<lparr>NoBroadcast = True, MarkAsDeleted = False\<rparr> ?w1 = (Ok ?c, w2)"
    "result_ok ?v g {?c} ?w1 w2"
    "absOwn w2 (viewId ?v) g = (absOwn ?w1 (viewId ?v) g)(cacheKey (obj ?w1 ?c) \<mapsto> SlotLive (obj w2 ?c))"
    "defaulted g (obj ?w1 ?c) (obj w2 ?c)" "held w2 (viewId ?v) g ?c" "room w2 n"
    "nextAddr (wMem w2) = nextAddr (wMem ?w1)"
    by (rule CreateObject_ok [OF v1 ok(2) _ un st room1, of "\<lparr>NoBroadcast = True, MarkAsDeleted = False\<rparr>"])
      simp_all
  note key = absView_key(1) [OF dok live]
  show thesis
  proof (rule that [of ?c w2])
    show "copyFromDelegate ?v d g nm w = (Ok ?c, w2)"
      using a(1) w2(1) by (simp add: copyFromDelegate_def split_beta)
    show "result_ok ?v g {} w w2"
      by (rule result_ok_trans [OF r1(1) w2(2)]) auto
  qed (use w2 r1(2) a(2) key in auto)
qed

text \<open>\<open>UpdateObject\<close> of either kind of view, by what the view shows at the object's key.\<close>

text \<open>A sandbox that does not hold the object takes the delegate's copy first, then overwrites it.\<close>

lemma UpdateObject_delegated:
  assumes ok: "view_ok w (SandboxView i d)" "supported g"
    and a: "a < nextAddr (wMem w)" "mayWrite (SandboxView i d) g {a} w"
    and o: "objGVK (obj w a) = g" "isRuntimeObject (obj w a)" "nameOk (obj w a)"
    and room: "room w (Suc (Suc n))"
    and live: "absView w d g (cacheKey (obj w a)) = Some (SlotLive o')"
  obtains w' where "bindE (copyFromDelegate (SandboxView i d) d g (CacheName (obj w a)) w)
        (\<lambda>_ w. updateObject (SandboxView i d) g a opts w) = (Ok (), w')"
    "result_ok (SandboxView i d) g {a} w w'"
    "absView w' (SandboxView i d) g = (absView w (SandboxView i d) g)(cacheKey (obj w a) \<mapsto> SlotLive (obj w' a))"
    "\<exists>rv. obj w' a = withRV rv (obj w a)" "room w' n"
proof -
  let ?v = "SandboxView i d" and ?k = "cacheKey (obj w a)"
  obtain c w1 where c: "copyFromDelegate ?v d g (CacheName (obj w a)) w = (Ok c, w1)"
    "result_ok ?v g {} w w1" "absOwn w1 i g = (absOwn w i g)(?k \<mapsto> SlotLive (obj w1 c))" "room w1 (Suc n)"
    using copyFromDelegate_ok [OF ok room, of "CacheName (obj w a)" o'] live by (metis CacheName_key)
  note fr = result_okD(1) [OF c(2)]
  have same: "obj w1 a = obj w a" using frameD(3) [OF fr] a(1) by simp
  have pre: "view_ok w1 ?v" "a < nextAddr (wMem w1)" "mayWrite ?v g {a} w1"
    "objGVK (obj w1 a) = g" "isRuntimeObject (obj w1 a)" "nameOk (obj w1 a)"
    using result_okD(2) [OF c(2)] frameD(4) [OF fr] a(1) mayWrite_result [OF c(2) a(2)] o same by auto
  show thesis
  proof (cases rule: withStore_Update [OF pre(1) ok(2) pre(2-6) c(4), of opts])
    case (1 w2)
    have r2: "result_ok ?v g {a} w w2"
      by (rule result_ok_trans [OF result_ok_mono [OF c(2)] 1(2)]) auto
    have "absView w2 ?v g = (absView w ?v g)(?k \<mapsto> SlotLive (obj w2 a))"
      using absView_result [OF r2, of ?k "SlotLive (obj w2 a)"] 1(4) c(3) same by simp
    moreover have "updateObject ?v g a opts w1 = (Ok (), addChange ?v 1 w2)"
      using 1(1) by (simp add: updateObject_def)
    ultimately show thesis
      using r2 c(1) 1(5,7) same by (intro that [of "addChange ?v 1 w2"]) auto
  qed (use c(3) same in auto)
qed

lemma UpdateObject_ok:
  assumes ok: "view_ok w v" "supported g" and a: "a < nextAddr (wMem w)" "mayWrite v g {a} w"
    and o: "objGVK (obj w a) = g" "isRuntimeObject (obj w a)" "nameOk (obj w a)"
    and room: "room w (Suc (Suc n))"
  obtains (live) w' where "UpdateObject v g a opts w = (Ok (), w')" "result_ok v g {a} w w'"
      "absView w v g (cacheKey (obj w a)) \<notin> {None, Some SlotDeleted}"
      "absView w' v g = (absView w v g)(cacheKey (obj w a) \<mapsto> SlotLive (obj w' a))"
      "\<exists>rv. obj w' a = withRV rv (obj w a)" "room w' n"
  | (deleted) "UpdateObject v g a opts w = (Err deletedErr, w)"
      "absView w v g (cacheKey (obj w a)) = Some SlotDeleted"
  | (missing) "UpdateObject v g a opts w = (Err (ApiStatus NotFoundReason), w)"
      "absView w v g (cacheKey (obj w a)) = None"
proof -
  let ?k = "cacheKey (obj w a)"
  have room1: "room w (Suc n)" using room room_mono by auto
  show thesis
  proof (cases rule: withStore_Update [OF ok a o room1, of opts])
    case (1 w1)
    show thesis
    proof (rule live [of "addChange v 1 w1"])
      show "UpdateObject v g a opts w = (Ok (), addChange v 1 w1)"
        using 1(1) by (cases v) (simp_all add: updateObject_def Let_def)
      show "absView w v g ?k \<notin> {None, Some SlotDeleted}" using 1(3) by (auto simp: absView_alt map_add_Some_iff)
      show "absView (addChange v 1 w1) v g = (absView w v g)(?k \<mapsto> SlotLive (obj (addChange v 1 w1) a))"
        using absView_result [OF 1(2,4)] by simp
    qed (use 1 in auto)
  next
    case 2
    then show thesis
      by (intro deleted; cases v) (simp_all add: updateObject_def Let_def map_add_Some_iff)
  next
    case 3
    show thesis
    proof (cases v)
      case (BaseView i)
      with 3 show thesis by (intro missing) (simp_all add: updateObject_def)
    next
      case (SandboxView i d)
      have dok: "view_ok w d" using ok SandboxView by auto
      have view_d: "absView w v g ?k = absView w d g ?k" using 3(2) SandboxView by (simp add: map_add_def)
      have "updateObject (SandboxView i d) g a opts w = (Err (ApiStatus NotFoundReason), w)"
        using 3(1) SandboxView by (simp add: updateObject_def)
      then have upd: "UpdateObject v g a opts w =
          bindE (copyFromDelegate (SandboxView i d) d g (CacheName (obj w a)) w)
            (\<lambda>_ w. updateObject (SandboxView i d) g a opts w)"
        using SandboxView by (simp add: Let_def)
      note get = GetObject_abs [OF dok ok(2), of "CacheName (obj w a)", unfolded CacheName_key]
      consider "absView w d g ?k = None" | "absView w d g ?k = Some SlotDeleted"
        | o' where "absView w d g ?k = Some (SlotLive o')"
        by (metis option.exhaust slot.exhaust)
      then show thesis
      proof cases
        case (3 o')
        show thesis
          by (rule UpdateObject_delegated [OF ok(1) [unfolded SandboxView] ok(2) a(1) a(2) [unfolded SandboxView]
                o room 3, of opts], rule live) (use upd view_d 3 SandboxView in simp_all)
      qed (use upd get view_d missing deleted in \<open>simp_all add: copyFromDelegate_def\<close>)
    qed
  qed
qed

subsection \<open>Deleting\<close>

text \<open>What a deleted name looks like afterwards: gone in a base view, a tombstone in a sandbox.\<close>

fun afterDelete :: "view \<Rightarrow> slot option" where
  "afterDelete (BaseView i) = None"
| "afterDelete (SandboxView i d) = Some SlotDeleted"

lemma absView_upd:
  assumes "result_ok v g A w w'" "absOwn w' (viewId v) g = (absOwn w (viewId v) g)(k := afterDelete v)"
  shows "absView w' v g = (absView w v g)(k := afterDelete v)"
  using assms(2) absView_result [OF assms(1), of k SlotDeleted] by (cases v) simp_all

lemma deleteAndCount_ok:
  assumes "view_ok w v" "supported g" "room w n"
    and "absOwn w (viewId v) g (objectNameString nm) = Some (SlotLive o')"
    and "opts = (case v of BaseView _ \<Rightarrow> noOpts | SandboxView _ _ \<Rightarrow> markOpts)"
  obtains w' a where "deleteAndCount v g nm opts w = (Ok (), w')" "result_ok v g {a} w w'"
    "held w (viewId v) g a"
    "absView w' v g = (absView w v g)(objectNameString nm := afterDelete v)" "room w' n"
proof -
  have left: "leftBehind opts = afterDelete v"
    using assms(5) by (cases v) (simp_all add: leftBehind_def noOpts_def markOpts_def)
  show thesis
  proof (cases rule: withStore_Delete [OF assms(1-3), of nm opts])
    case (1 w1 a)
    show thesis
    proof (rule that [of "addChange v 1 w1" a])
      show "deleteAndCount v g nm opts w = (Ok (), addChange v 1 w1)"
        using 1(1) by (simp add: deleteAndCount_def)
      show "absView (addChange v 1 w1) v g = (absView w v g)(objectNameString nm := afterDelete v)"
        using absView_upd [OF 1(2)] 1(6) left by simp
    qed (use 1 in auto)
  qed (use assms(4) in auto)
qed

text \<open>\<open>DeleteObject\<close> of either kind of view.\<close>

lemma DeleteObject_delegated:
  assumes ok: "view_ok w (SandboxView i d)" "supported g" and room: "room w (Suc n)"
    and live: "absView w d g (objectNameString nm) = Some (SlotLive o')"
  obtains w' a where "bindE (copyFromDelegate (SandboxView i d) d g nm w)
        (\<lambda>_ w. deleteAndCount (SandboxView i d) g nm markOpts w) = (Ok (), w')"
    "result_ok (SandboxView i d) g {a} w w'" "a < nextAddr (wMem w) \<Longrightarrow> held w i g a"
    "absView w' (SandboxView i d) g =
       (absView w (SandboxView i d) g)(objectNameString nm := afterDelete (SandboxView i d))"
    "room w' n"
proof -
  let ?v = "SandboxView i d" and ?k = "objectNameString nm"
  obtain c w1 where c: "copyFromDelegate ?v d g nm w = (Ok c, w1)" "result_ok ?v g {} w w1"
    "absOwn w1 i g = (absOwn w i g)(?k \<mapsto> SlotLive (obj w1 c))" "room w1 n"
    using copyFromDelegate_ok [OF ok room live] by metis
  have own1: "absOwn w1 (viewId ?v) g ?k = Some (SlotLive (obj w1 c))" using c(3) by simp
  obtain w2 a where w2: "deleteAndCount ?v g nm markOpts w1 = (Ok (), w2)" "result_ok ?v g {a} w1 w2"
    "held w1 (viewId ?v) g a" "absView w2 ?v g = (absView w1 ?v g)(?k := afterDelete ?v)" "room w2 n"
    using deleteAndCount_ok [OF result_okD(2) [OF c(2)] ok(2) c(4) own1] by auto
  have av: "absView w1 ?v g = (absView w ?v g)(?k \<mapsto> SlotLive (obj w1 c))"
    using absView_result [OF c(2)] c(3) by simp
  show thesis
  proof (rule that [of w2 a])
    show "result_ok ?v g {a} w w2" by (rule result_ok_trans [OF result_ok_mono [OF c(2)] w2(2)]) auto
    show "held w i g a" if "a < nextAddr (wMem w)"
      using that w2(3) frameD(6) [OF result_okD(1) [OF c(2)], of a] by auto
    show "absView w2 ?v g = (absView w ?v g)(?k := afterDelete ?v)" using w2(4) av by (simp add: fun_eq_iff)
  qed (use c(1) w2 in simp_all)
qed

lemma DeleteObject_own:
  assumes ok: "view_ok w v" "supported g" and room: "room w n"
    and own: "absOwn w (viewId v) g (objectNameString nm) = Some (SlotLive o')"
    and del: "DeleteObject v g nm w = deleteAndCount v g nm (case v of BaseView _ \<Rightarrow> noOpts | SandboxView _ _ \<Rightarrow> markOpts) w"
  obtains w' A where "DeleteObject v g nm w = (Ok (), w')" "result_ok v g A w w'"
      "\<And>a. a \<in> A \<Longrightarrow> a < nextAddr (wMem w) \<Longrightarrow> held w (viewId v) g a"
      "absView w v g (objectNameString nm) \<notin> {None, Some SlotDeleted}"
      "absView w' v g = (absView w v g)(objectNameString nm := afterDelete v)" "room w' n"
proof -
  obtain w' a where w': "DeleteObject v g nm w = (Ok (), w')" "result_ok v g {a} w w'"
    "held w (viewId v) g a" "absView w' v g = (absView w v g)(objectNameString nm := afterDelete v)" "room w' n"
    unfolding del using deleteAndCount_ok [OF ok room own refl] .
  show thesis
    by (rule that [of w' "{a}"]) (use w' own in \<open>auto simp: absView_alt map_add_Some_iff\<close>)
qed

lemma DeleteObject_sandbox:
  assumes ok: "view_ok w v" "supported g" and room: "room w (Suc n)" and v: "v = SandboxView i d"
    and none: "absOwn w i g (objectNameString nm) = None"
  obtains (live) w' A where "DeleteObject v g nm w = (Ok (), w')" "result_ok v g A w w'"
      "\<And>a. a \<in> A \<Longrightarrow> a < nextAddr (wMem w) \<Longrightarrow> held w (viewId v) g a"
      "absView w v g (objectNameString nm) \<notin> {None, Some SlotDeleted}"
      "absView w' v g = (absView w v g)(objectNameString nm := afterDelete v)" "room w' n"
  | (missing) e where "DeleteObject v g nm w = (Err e, w)" "isNotFound e"
      "absView w v g (objectNameString nm) \<in> {None, Some SlotDeleted}"
proof -
  let ?k = "objectNameString nm"
  obtain st where st: "GetResourceStore v g w = Ok st" "vStores (vs w v) g = Some st"
    using GetResourceStore_own [OF ok] .
  have "Get nm (wMem w, st) = getStoreObject v g nm w"
    using st by (simp add: getStoreObject_def readStore_def)
  then have del: "DeleteObject v g nm w = bindE (copyFromDelegate v d g nm w) (\<lambda>_ w. deleteAndCount v g nm markOpts w)"
    using getStoreObject_abs [OF ok, of nm] st v none by simp
  have view: "absView w v g ?k = absView w d g ?k" using none v by (simp add: map_add_def)
  consider o' where "absView w d g ?k = Some (SlotLive o')" | "absView w d g ?k \<in> {None, Some SlotDeleted}"
    by (metis insertCI option.exhaust slot.exhaust)
  then show thesis
  proof cases
    case (1 o')
    show thesis
    proof (rule DeleteObject_delegated [OF ok(1) [unfolded v] ok(2) room 1])
      fix w' a
      assume "bindE (copyFromDelegate (SandboxView i d) d g nm w)
          (\<lambda>_ w. deleteAndCount (SandboxView i d) g nm markOpts w) = (Ok (), w')"
        "result_ok (SandboxView i d) g {a} w w'" "a < nextAddr (wMem w) \<Longrightarrow> held w i g a"
        "absView w' (SandboxView i d) g = (absView w (SandboxView i d) g)(?k := afterDelete (SandboxView i d))"
        "room w' n"
      then show thesis using del view 1 v by (intro live [of w' "{a}"]) auto
    qed
  next
    case 2
    then obtain e where "GetObject d g nm w = Err e" "isNotFound e"
      using GetObject_abs [of w d g nm] ok v by auto
    then show thesis using del view 2 by (intro missing [of e]) (simp_all add: copyFromDelegate_def)
  qed
qed

lemma DeleteObject_ok:
  assumes ok: "view_ok w v" "supported g" and room: "room w (Suc n)"
  obtains (live) w' A where "DeleteObject v g nm w = (Ok (), w')" "result_ok v g A w w'"
      "\<And>a. a \<in> A \<Longrightarrow> a < nextAddr (wMem w) \<Longrightarrow> held w (viewId v) g a"
      "absView w v g (objectNameString nm) \<notin> {None, Some SlotDeleted}"
      "absView w' v g = (absView w v g)(objectNameString nm := afterDelete v)" "room w' n"
  | (missing) e where "DeleteObject v g nm w = (Err e, w)" "isNotFound e"
      "absView w v g (objectNameString nm) \<in> {None, Some SlotDeleted}"
proof -
  let ?k = "objectNameString nm"
  have roomn: "room w n" using room room_mono by auto
  obtain st where st: "GetResourceStore v g w = Ok st" "vStores (vs w v) g = Some st"
    using GetResourceStore_own [OF ok] .
  have get: "Get nm (wMem w, st) = getStoreObject v g nm w"
    using st by (simp add: getStoreObject_def readStore_def)
  note own = getStoreObject_abs [OF ok, of nm]
  show thesis
  proof (cases v)
    case (BaseView i)
    show thesis
    proof (cases rule: withStore_Delete [OF ok roomn, of nm noOpts])
      case (1 w1 a)
      have "DeleteObject v g nm w = deleteAndCount v g nm (case v of BaseView _ \<Rightarrow> noOpts | SandboxView _ _ \<Rightarrow> markOpts) w"
        using BaseView by simp
      from DeleteObject_own [OF ok roomn 1(5) this live] show thesis .
    next
      case (2 e)
      then show thesis using BaseView by (intro missing) (simp_all add: deleteAndCount_def)
    qed
  next
    case (SandboxView i d)
    consider o' where "absOwn w (viewId v) g ?k = Some (SlotLive o')"
      | "absOwn w (viewId v) g ?k = Some SlotDeleted" | "absOwn w (viewId v) g ?k = None"
      by (metis option.exhaust slot.exhaust)
    then show thesis
    proof cases
      case (1 o')
      have "DeleteObject v g nm w = deleteAndCount v g nm (case v of BaseView _ \<Rightarrow> noOpts | SandboxView _ _ \<Rightarrow> markOpts) w"
        using 1 own get st SandboxView by auto
      from DeleteObject_own [OF ok roomn 1 this live] show thesis .
    next
      case 2
      then show thesis using own get st SandboxView
        by (intro missing [of deletedErr]) (auto simp: absView_alt map_add_Some_iff)
    next
      case 3
      then have "absOwn w i g ?k = None" using SandboxView by simp
      from DeleteObject_sandbox [OF ok room SandboxView this live missing] show thesis .
    qed
  qed
qed

subsection \<open>Binding\<close>

lemma supported_descriptor: "d \<in> set SupportedDescriptors \<Longrightarrow> supported (GVK d)"
  by (simp add: supported_def)

lemma supported_pods [simp]: "supported podsGVK"
  unfolding podsGVK_def by (rule supported_descriptor) (simp add: SupportedDescriptors_def)

text \<open>
  Binding the pod \<open>p\<close>, found at address \<open>a\<close>: a bound copy replaces it, unless it is bound already.
  Nothing but fresh cells and the view's own store of pods changes.
\<close>

definition boundPod :: "time \<Rightarrow> binding \<Rightarrow> kobj \<Rightarrow> kobj" where
  "boundPod t b p = (case body p of
       PodBody sp st \<Rightarrow> p\<lparr>body := bindPodBody t (bTargetName b) sp st\<rparr> | _ \<Rightarrow> p)"

lemma boundPod_simps [simp]:
  "cacheKey (boundPod t b p) = cacheKey p" "CacheName (boundPod t b p) = CacheName p"
  "nameOk (boundPod t b p) = nameOk p" "objGVK (boundPod t b p) = objGVK p"
  "isRuntimeObject (boundPod t b p) = isRuntimeObject p" "ometa (boundPod t b p) = ometa p"
  by (simp_all add: boundPod_def name_defs nameOk_def isRuntimeObject_def bindPodBody_def split: payload.split)

lemma bindPodAt_ok:
  assumes ok: "view_ok w v" and room: "room w (Suc (Suc n))"
    and at: "absView w v podsGVK (cacheKey (obj w a)) = Some (SlotLive (obj w a))"
    and pod: "body (obj w a) = PodBody sp st"
  shows "psNodeName sp = [] \<Longrightarrow> \<exists>a' w' t rv. bindPodAt v a b w = (Ok a', w') \<and>
       result_ok v podsGVK {} w w' \<and> room w' n \<and> obj w' a' = withRV rv (boundPod t b (obj w a)) \<and>
       absView w' v podsGVK = (absView w v podsGVK)(cacheKey (obj w a) \<mapsto> SlotLive (obj w' a'))"
    and "psNodeName sp \<noteq> [] \<Longrightarrow> \<exists>w'. bindPodAt v a b w = (Err (Plain ''pod was already bound''), w') \<and>
       result_ok v podsGVK {} w w' \<and> absView w' v podsGVK = absView w v podsGVK"
proof -
  let ?p = "obj w a" and ?c = "nextAddr (wMem w)"
  let ?w1 = "snd (deepCopyW a w)"
  let ?t = "fst (now (wMem ?w1))" and ?m = "snd (now (wMem ?w1))"
  define w2 where "w2 = ?w1\<lparr>wMem := wr ?c (rd ?m ?c\<lparr>body := bindPodBody ?t (bTargetName b) sp st\<rparr>) ?m\<rparr>"
  have "rd ?m ?c = ?p" by (simp add: now_def rd_def) (use deepCopyW_simps(2) [of a w ?c] in \<open>simp add: obj_def rd_def\<close>)
  then have objc: "obj w2 ?c = boundPod ?t b ?p" by (simp add: w2_def obj_def) (simp add: boundPod_def pod [unfolded obj_def] obj_def)
  have m: "memStep {} w w2"
    unfolding memStep_def
  proof (intro conjI allI impI)
    show "obj w2 x = obj w x" if "x \<notin> {}" "x < nextAddr (wMem w)" for x
      using that deepCopyW_simps(2) [of a w x] by (simp add: w2_def obj_def)
  qed (simp_all add: w2_def)
  note r = memStep_result [OF m ok]
  have r1: "result_ok v podsGVK {} w w2" by (rule r(1)) simp
  note ok2 = result_okD(2) [OF r1]
  have av: "absView w2 v = absView w v" using memStep_view [OF m ok] by simp
  have un: "unheld v ?c w2" using fresh_unheld [OF ok, of ?c] r(3) by simp
  have room2: "room w2 (Suc (Suc n))" using room m by (simp add: room_def memStep_def)
  note key = absView_key [OF ok at]
  obtain e where e: "GetObject v podsGVK (CacheName ?p) w2 = Ok e" "obj w2 e = ?p"
    using GetObject_abs [OF ok2 supported_pods, of "CacheName ?p"] at av by auto
  have bind: "bindPodAt v a b w =
      (if psNodeName sp \<noteq> [] then (Err (Plain ''pod was already bound''), w2)
       else bindE (UpdateObject v podsGVK ?c noOpts w2) (\<lambda>_ w. (Ok ?c, w)))"
  proof -
    have "updatePodNodeBinding v a sp st b w =
        bindE (GetObject v podsGVK (CacheName (obj w2 ?c)) w2, w2) (\<lambda>existing w.
          case body (obj w existing) of
            PodBody esp _ \<Rightarrow>
              if psNodeName esp \<noteq> [] then (Err (Plain ''pod was already bound''), w)
              else bindE (UpdateObject v podsGVK ?c noOpts w) (\<lambda>_ w. (Ok ?c, w))
          | _ \<Rightarrow> (Panic ''interface conversion'', w))"
      unfolding updatePodNodeBinding_def w2_def Let_def split_beta deepCopyW_simps(1) by (rule refl)
    then show ?thesis using e pod objc by (simp add: bindPodAt_def)
  qed
  show "psNodeName sp \<noteq> [] \<Longrightarrow> \<exists>w'. bindPodAt v a b w = (Err (Plain ''pod was already bound''), w') \<and>
       result_ok v podsGVK {} w w' \<and> absView w' v podsGVK = absView w v podsGVK"
    using bind r1 av by auto
  assume free: "psNodeName sp = []"
  have lt: "?c < nextAddr (wMem w2)" by (simp add: w2_def)
  have pre: "objGVK (obj w2 ?c) = podsGVK" "isRuntimeObject (obj w2 ?c)" "nameOk (obj w2 ?c)"
    using key objc by simp_all
  show "\<exists>a' w' t rv. bindPodAt v a b w = (Ok a', w') \<and>
       result_ok v podsGVK {} w w' \<and> room w' n \<and> obj w' a' = withRV rv (boundPod t b (obj w a)) \<and>
       absView w' v podsGVK = (absView w v podsGVK)(cacheKey (obj w a) \<mapsto> SlotLive (obj w' a'))"
  proof (cases rule: UpdateObject_ok
      [OF ok2 supported_pods lt unheld_mayWrite [OF un] pre room2, of noOpts])
    case (1 w3)
    obtain rv where "obj w3 ?c = withRV rv (boundPod ?t b ?p)" using 1(5) objc by auto
    moreover have "result_ok v podsGVK {} w w3" by (rule result_ok_trans [OF r1 1(2)]) auto
    moreover have "bindPodAt v a b w = (Ok ?c, w3)" using bind free 1(1) by simp
    moreover have "absView w3 v podsGVK = (absView w v podsGVK)(cacheKey ?p \<mapsto> SlotLive (obj w3 ?c))"
      using 1(4) objc av by simp
    ultimately show ?thesis using 1(6) by blast
  qed (use at av objc in auto)
qed

subsection \<open>New views\<close>

definition freshStores :: "(gvk \<Rightarrow> rstore option) \<Rightarrow> bool" where
  "freshStores stores \<longleftrightarrow> (\<forall>g st. stores g = Some st \<longrightarrow> cache st = [] \<and> sObjectGVK st = g)"

lemma newBaseStores_ok:
  assumes "freshStores stores"
    and "\<forall>g st. stores g = Some st \<longrightarrow> versionCounter st < nextCounter m \<and> counters m (versionCounter st) = 0"
    and "newBaseStores ds stores m = (stores', m')"
  shows "freshStores stores' \<and> cells m' = cells m \<and> nextAddr m' = nextAddr m \<and>
    (\<forall>g. stores' g \<noteq> None \<longleftrightarrow> stores g \<noteq> None \<or> g \<in> GVK ` set ds) \<and>
    (\<forall>g st. stores' g = Some st \<longrightarrow> counters m' (versionCounter st) = 0) \<and>
    (\<forall>c < nextCounter m. counters m' c = counters m c) \<and> (\<forall>c. counters m' c \<in> {0, counters m c})"
  using assms
proof (induction ds arbitrary: stores m)
  case (Cons d ds)
  let ?m1 = "snd (newCounter m)" and ?c = "nextCounter m"
  let ?s = "fst (createInMemStore d ?c ?m1)"
  have s: "cache ?s = []" "sObjectGVK ?s = GVK d" "versionCounter ?s = ?c"
    by (simp_all add: createInMemStore_def NewInMemResourceStore_def)
  have step: "newBaseStores ds (stores(GVK d \<mapsto> ?s)) ?m1 = (stores', m')"
    using Cons.prems(3) by (simp add: newCounter_def createInMemStore_def NewInMemResourceStore_def)
  have pre: "freshStores (stores(GVK d \<mapsto> ?s))"
    "\<forall>g st. (stores(GVK d \<mapsto> ?s)) g = Some st \<longrightarrow>
       versionCounter st < nextCounter ?m1 \<and> counters ?m1 (versionCounter st) = 0"
    using Cons.prems(1,2) s by (auto simp: freshStores_def newCounter_def less_Suc_eq)
  have n: "cells ?m1 = cells m" "nextAddr ?m1 = nextAddr m" "nextCounter ?m1 = Suc ?c"
    "counters ?m1 = (counters m)(?c := 0)"
    by (simp_all add: newCounter_def)
  have ih: "freshStores stores' \<and> cells m' = cells ?m1 \<and> nextAddr m' = nextAddr ?m1 \<and>
    (\<forall>g. stores' g \<noteq> None \<longleftrightarrow> (stores(GVK d \<mapsto> ?s)) g \<noteq> None \<or> g \<in> GVK ` set ds) \<and>
    (\<forall>g st. stores' g = Some st \<longrightarrow> counters m' (versionCounter st) = 0)"
    and c: "\<And>c. counters m' c \<in> {0, counters ?m1 c}"
      "\<And>c. c < nextCounter ?m1 \<Longrightarrow> counters m' c = counters ?m1 c"
    using Cons.IH [OF pre step] by blast+
  have "counters m' c \<in> {0, counters m c}" for c using c(1) [of c] n(4) by (auto split: if_splits)
  moreover have "counters m' c = counters m c" if "c < nextCounter m" for c
    using c(2) [of c] that n by simp
  ultimately show ?case using ih unfolding n by auto
qed auto

lemma NewBase_ok:
  assumes "NewBase nm path w = (v, w')"
  shows "view_ok w' v" "\<forall>g k. absView w' v g k = None" "cells (wMem w') = cells (wMem w)"
    "nextAddr (wMem w') = nextAddr (wMem w)" "v = BaseView (wNext w)" "wNext w' = Suc (wNext w)"
    "\<forall>c. counters (wMem w') c \<in> {0, counters (wMem w) c}"
proof -
  obtain stores m where sm: "newBaseStores SupportedDescriptors (\<lambda>_. None) (wMem w) = (stores, m)"
    by fastforce
  have fr: "freshStores stores \<and> cells m = cells (wMem w) \<and> nextAddr m = nextAddr (wMem w) \<and>
    (\<forall>g. stores g \<noteq> None \<longleftrightarrow> g \<in> GVK ` set SupportedDescriptors) \<and>
    (\<forall>g st. stores g = Some st \<longrightarrow> counters m (versionCounter st) = 0) \<and>
    (\<forall>c < nextCounter (wMem w). counters m c = counters (wMem w) c) \<and>
    (\<forall>c. counters m c \<in> {0, counters (wMem w) c})"
    using newBaseStores_ok [OF _ _ sm] by (simp add: freshStores_def)
  have w': "w' = setView (wNext w) (newViewState nm stores path) (w\<lparr>wMem := m, wNext := Suc (wNext w)\<rparr>)"
    "v = BaseView (wNext w)"
    using assms sm by (simp_all add: NewBase_def)
  then have stores: "vStores (wViews w' (wNext w)) = stores" "wMem w' = m"
    by (simp_all add: setView_def newViewState_def)
  have inv: "store_ok m g st" if "stores g = Some st" for g st
    using that fr store_inv_empty [of "(m, st)"]
    by (auto simp: store_ok_def freshStores_def CurrentResourceVersion_def)
  show "view_ok w' v" using fr inv by (simp add: w'(2) own_ok_def stores supported_def)
  have "absStore (m, st) k = None" if "stores g = Some st" for g st k
    using that fr by (simp add: absStore_def freshStores_def)
  then show "\<forall>g k. absView w' v g k = None"
    by (simp add: w'(2) absOwn_def stores split: option.split)
  show "cells (wMem w') = cells (wMem w)" "nextAddr (wMem w') = nextAddr (wMem w)"
    "v = BaseView (wNext w)" "wNext w' = Suc (wNext w)"
    using fr by (simp_all add: stores) (simp_all add: w' setView_def)
  show "\<forall>c. counters (wMem w') c \<in> {0, counters (wMem w) c}"
    using fr by (simp add: stores)
qed

lemma newSandboxStores_ok:
  assumes "view_ok w d" and "freshStores stores" and "\<forall>x\<in>set ds. supported (GVK x)"
    and "\<forall>g st st'. stores g = Some st \<longrightarrow> vStores (vs w d) g = Some st' \<longrightarrow> versionCounter st = versionCounter st'"
  shows "\<exists>stores'. newSandboxStores d ds stores w = Ok stores' \<and> freshStores stores' \<and>
    (\<forall>g. stores' g \<noteq> None \<longleftrightarrow> stores g \<noteq> None \<or> g \<in> GVK ` set ds) \<and>
    (\<forall>g st st'. stores' g = Some st \<longrightarrow> vStores (vs w d) g = Some st' \<longrightarrow> versionCounter st = versionCounter st')"
  using assms(2-)
proof (induction ds arbitrary: stores)
  case (Cons x ds)
  obtain b where b: "vStores (vs w d) (GVK x) = Some b" "GetResourceStore d (GVK x) w = Ok b"
    using GetResourceStore_own [OF assms(1), of "GVK x"] Cons.prems(2) by auto
  let ?s = "fst (createInMemStore x (versionCounter b) (wMem w))"
  have s: "cache ?s = []" "sObjectGVK ?s = GVK x" "versionCounter ?s = versionCounter b"
    by (simp_all add: createInMemStore_def NewInMemResourceStore_def)
  have "freshStores (stores(GVK x \<mapsto> ?s))" "\<forall>g st st'. (stores(GVK x \<mapsto> ?s)) g = Some st \<longrightarrow>
      vStores (vs w d) g = Some st' \<longrightarrow> versionCounter st = versionCounter st'"
    using Cons.prems(1,3) s b by (auto simp: freshStores_def)
  moreover have "\<forall>x\<in>set ds. supported (GVK x)" using Cons.prems(2) by simp
  ultimately obtain stores' where "newSandboxStores d ds (stores(GVK x \<mapsto> ?s)) w = Ok stores'"
    "freshStores stores'" "\<forall>g. stores' g \<noteq> None \<longleftrightarrow> (stores(GVK x \<mapsto> ?s)) g \<noteq> None \<or> g \<in> GVK ` set ds"
    "\<forall>g st st'. stores' g = Some st \<longrightarrow> vStores (vs w d) g = Some st' \<longrightarrow> versionCounter st = versionCounter st'"
    using Cons.IH [of "stores(GVK x \<mapsto> ?s)"] by blast
  with b show ?case by (intro exI [of _ stores']) simp
qed auto

text \<open>A new sandbox shows exactly what its delegate shows.\<close>

lemma view_same:
  assumes mem: "wMem w' = wMem w" and same: "\<And>j. j \<in> set (chain e) \<Longrightarrow> wViews w' j = wViews w j" and "view_ok w e"
  shows "view_ok w' e \<and> absView w' e = absView w e"
  using same \<open>view_ok w e\<close>
proof (induction e)
  case (BaseView j)
  then show ?case by (auto simp: own_ok_def mem absOwn_def fun_eq_iff split: option.split)
next
  case (SandboxView j e)
  have ve: "wViews w' j = wViews w j" "wViews w' (viewId e) = wViews w (viewId e)"
    using SandboxView.prems(1) viewId_in_chain by auto
  have held: "held w' i g a = held w i g a" if "i = j \<or> i \<in> set (chain e)" for i g a
    using that SandboxView.prems(1) [of i] by (auto simp: held_def)
  have own: "own_ok w' j = own_ok w j" "absOwn w' j = absOwn w j"
    using ve by (auto simp: own_ok_def mem absOwn_def fun_eq_iff split: option.split)
  have "view_ok w' e \<and> absView w' e = absView w e" using SandboxView by auto
  then show ?case using SandboxView.prems(2) own ve by (auto simp: held intro!: ext)
qed

lemma NewSandbox_ok:
  assumes "view_ok w d" "\<forall>j\<in>set (chain d). j < wNext w"
  obtains w' where "NewSandbox d nm w = (Ok (SandboxView (wNext w) d), w')"
    "view_ok w' (SandboxView (wNext w) d)" "wMem w' = wMem w"
    "absView w' (SandboxView (wNext w) d) = absView w d" "absView w' d = absView w d"
    "wNext w' = Suc (wNext w)" "absOwn w' (wNext w) = (\<lambda>_ _. None)"
proof -
  have sup: "\<forall>x\<in>set SupportedDescriptors. supported (GVK x)" by (simp add: supported_def)
  obtain stores where st: "newSandboxStores d SupportedDescriptors (\<lambda>_. None) w = Ok stores"
    "freshStores stores" "\<forall>g. stores g \<noteq> None \<longleftrightarrow> g \<in> GVK ` set SupportedDescriptors"
    "\<forall>g st st'. stores g = Some st \<longrightarrow> vStores (vs w d) g = Some st' \<longrightarrow> versionCounter st = versionCounter st'"
    using newSandboxStores_ok [OF assms(1) _ sup, of "\<lambda>_. None"] by (auto simp: freshStores_def)
  let ?i = "wNext w" and ?v = "SandboxView (wNext w) d"
  define w' where "w' = setView ?i (newViewState nm stores []) (w\<lparr>wNext := Suc (wNext w)\<rparr>)"
  have stores: "vStores (wViews w' ?i) = stores" "wMem w' = wMem w"
    and other: "j \<noteq> ?i \<Longrightarrow> wViews w' j = wViews w j" for j
    by (simp_all add: w'_def setView_def newViewState_def)
  have notin: "?i \<notin> set (chain d)" using assms(2) by auto
  have d: "view_ok w' d \<and> absView w' d = absView w d"
    by (rule view_same [OF stores(2) other assms(1)]) (use notin in auto)
  have inv: "store_ok (wMem w) g st" if look: "stores g = Some st" for g st
  proof -
    have "supported g" using look st(3) by (metis option.simps(3) supported_def)
    then obtain sd where sd: "vStores (vs w d) g = Some sd" "store_inv (wMem w, sd)"
      using GetResourceStore_own [OF assms(1)] by blast
    then have "versionCounter st = versionCounter sd" using st(4) look by blast
    then have "0 \<le> sint (CurrentResourceVersion (wMem w, st))"
      using sd(2) by (simp add: store_inv_def CurrentResourceVersion_def)
    then show ?thesis
      using st(2) look store_inv_empty [of "(wMem w, st)"] by (simp add: store_ok_def freshStores_def)
  qed
  have empty: "absStore (wMem w, s) k = None" if "stores g = Some s" for g s k
    using that st(2) by (simp add: absStore_def freshStores_def)
  show thesis
  proof (rule that [of w'])
    show "NewSandbox d nm w = (Ok ?v, w')" using st(1) by (simp add: NewSandbox_def w'_def)
    have "\<not> held w' ?i g a" for g a using st(2) by (auto simp: held_def stores freshStores_def)
    moreover have "wViews w' (viewId d) = wViews w (viewId d)" by (rule other) (use notin viewId_in_chain in metis)
    ultimately show "view_ok w' ?v"
      using d inv st(3,4) notin
      by (auto simp: own_ok_def stores supported_def vs_def)
    show "absView w' ?v = absView w d"
      using d empty
      by (auto simp: absOwn_def stores fun_eq_iff map_add_def split: option.split)
    show "absView w' d = absView w d" using d by simp
    show "absOwn w' ?i = (\<lambda>_ _. None)"
      using empty by (auto simp: absOwn_def stores fun_eq_iff split: option.split)
  qed (simp_all add: stores w'_def setView_def)
qed

end
