(* ===== verification/ViewProps.thy ===== *)
theory ViewProps
  imports ViewOps
begin

text \<open>
  Properties of base views and sandboxes: a sandbox is an overlay over its delegate, its
  operations leave the delegate's content alone, and where the code does not keep to that.
\<close>

subsection \<open>The repository contract\<close>

text \<open>
  What code that only reads and deletes by name relies on, whatever view it works on: \<open>shown\<close> is
  what the view shows, \<open>gone\<close> what a deleted name looks like, \<open>budget\<close> how many versions may
  still be issued.
\<close>

locale object_repository =
  fixes ok :: "'w \<Rightarrow> bool" and shown :: "'w \<Rightarrow> string \<Rightarrow> slot option"
    and get :: "object_name \<Rightarrow> 'w \<Rightarrow> addr outcome" and val :: "'w \<Rightarrow> addr \<Rightarrow> kobj"
    and del :: "object_name \<Rightarrow> 'w \<Rightarrow> (unit, 'w) eff"
    and gone :: "slot option" and budget :: "'w \<Rightarrow> nat \<Rightarrow> bool"
  assumes get_live: "ok w \<Longrightarrow> shown w (objectNameString n) = Some (SlotLive o') \<Longrightarrow>
      \<exists>a. get n w = Ok a \<and> val w a = o'"
    and get_gone: "ok w \<Longrightarrow> shown w (objectNameString n) \<in> {None, Some SlotDeleted} \<Longrightarrow>
      \<exists>e. get n w = Err e \<and> isNotFound e"
    and del_live: "ok w \<Longrightarrow> budget w (Suc b) \<Longrightarrow> shown w (objectNameString n) = Some (SlotLive o') \<Longrightarrow>
      \<exists>w'. del n w = (Ok (), w') \<and> ok w' \<and> budget w' b \<and> shown w' = (shown w)(objectNameString n := gone)"
    and del_missing: "ok w \<Longrightarrow> budget w (Suc b) \<Longrightarrow>
      shown w (objectNameString n) \<in> {None, Some SlotDeleted} \<Longrightarrow>
      \<exists>e. del n w = (Err e, w) \<and> isNotFound e"
    and gone_gone: "gone \<in> {None, Some SlotDeleted}"
begin

lemma get_after_del:
  assumes "ok w" "budget w (Suc b)" "shown w (objectNameString n) = Some (SlotLive o')"
  shows "\<exists>w' e. del n w = (Ok (), w') \<and> ok w' \<and> get n w' = Err e \<and> isNotFound e"
  using del_live [OF assms] get_gone [of _ n] gone_gone by fastforce

lemma del_twice:
  assumes "ok w" "budget w (Suc (Suc b))" "shown w (objectNameString n) = Some (SlotLive o')"
  shows "\<exists>w' e. del n w = (Ok (), w') \<and> del n w' = (Err e, w') \<and> isNotFound e"
  using del_live [OF assms] del_missing [of _ b n] gone_gone by fastforce

lemma get_other_after_del:
  assumes "ok w" "budget w (Suc b)" "shown w (objectNameString n) = Some (SlotLive o')"
    and "objectNameString n' \<noteq> objectNameString n" "shown w (objectNameString n') = Some (SlotLive p)"
  shows "\<exists>w' a. del n w = (Ok (), w') \<and> get n' w' = Ok a \<and> val w' a = p"
proof -
  obtain w' where w': "del n w = (Ok (), w')" "ok w'" "shown w' = (shown w)(objectNameString n := gone)"
    using del_live [OF assms(1-3)] by blast
  then have "shown w' (objectNameString n') = Some (SlotLive p)" using assms(4,5) by simp
  from get_live [OF w'(2) this] w'(1) show ?thesis by blast
qed

end

interpretation vr: object_repository "\<lambda>w. view_ok w v \<and> supported g" "\<lambda>w. absView w v g"
  "GetObject v g" obj "DeleteObject v g" "afterDelete v" room for v g
proof
  fix w n o'
  assume a: "view_ok w v \<and> supported g" "absView w v g (objectNameString n) = Some (SlotLive o')"
  then show "\<exists>a. GetObject v g n w = Ok a \<and> obj w a = o'"
    using GetObject_abs [of w v g n] by auto
next
  fix w n
  assume "view_ok w v \<and> supported g" "absView w v g (objectNameString n) \<in> {None, Some SlotDeleted}"
  then show "\<exists>e. GetObject v g n w = Err e \<and> isNotFound e"
    using GetObject_abs [of w v g n] by auto
next
  fix w b n o'
  assume a: "view_ok w v \<and> supported g" "room w (Suc b)"
    "absView w v g (objectNameString n) = Some (SlotLive o')"
  show "\<exists>w'. DeleteObject v g n w = (Ok (), w') \<and> (view_ok w' v \<and> supported g) \<and> room w' b \<and>
      absView w' v g = (absView w v g)(objectNameString n := afterDelete v)"
    by (rule DeleteObject_ok [of w v g b n]) (use a in \<open>auto dest: result_okD(2)\<close>)
next
  fix w b n
  assume a: "view_ok w v \<and> supported g" "room w (Suc b)"
    "absView w v g (objectNameString n) \<in> {None, Some SlotDeleted}"
  show "\<exists>e. DeleteObject v g n w = (Err e, w) \<and> isNotFound e"
    by (rule DeleteObject_ok [of w v g b n]) (use a in auto)
next
  show "afterDelete v \<in> {None, Some SlotDeleted}" by (cases v) auto
qed

subsection \<open>A concrete world\<close>

text \<open>A base view with one pod and a sandbox over it.\<close>

definition demoWorld0 :: world where
  "demoWorld0 = \<lparr>wMem = demoMem, wViews = (\<lambda>_. newViewState [] (\<lambda>_. None) []), wNext = 0\<rparr>"

definition demoBase :: view where
  "demoBase = BaseView 0"

definition demoSandbox :: view where
  "demoSandbox = SandboxView 1 demoBase"

definition demoWorld1 :: world where
  "demoWorld1 = snd (NewBase ''base'' [] demoWorld0)"

definition demoWorld2 :: world where
  "demoWorld2 = snd (CreateObject demoBase podsGVK 0 noOpts demoWorld1)"

definition demoWorld :: world where
  "demoWorld = snd (NewSandbox demoBase ''sandbox'' demoWorld2)"

definition podName :: object_name where
  "podName = \<lparr>onNamespace = ''d'', onName = ''p''\<rparr>"

lemma demo1: "view_ok demoWorld1 demoBase" "absView demoWorld1 demoBase g k = None"
  "obj demoWorld1 0 = demoPod" "nextAddr (wMem demoWorld1) = 1" "wNext demoWorld1 = 1"
  "room demoWorld1 9"
proof -
  have nb: "NewBase ''base'' [] demoWorld0 = (fst (NewBase ''base'' [] demoWorld0), demoWorld1)"
    by (simp add: demoWorld1_def)
  note ok = NewBase_ok [OF nb]
  have v: "fst (NewBase ''base'' [] demoWorld0) = demoBase" using ok(5) by (simp add: demoBase_def demoWorld0_def)
  show "view_ok demoWorld1 demoBase" "absView demoWorld1 demoBase g k = None" using ok(1,2) v by auto
  show "obj demoWorld1 0 = demoPod"
    using ok(3) demo_facts(1) by (simp add: obj_def rd_def demoWorld0_def)
  show "nextAddr (wMem demoWorld1) = 1" using ok(4) demo_facts(2) by (simp add: demoWorld0_def)
  show "wNext demoWorld1 = 1" using ok(6) by (simp add: demoWorld0_def)
  show "room demoWorld1 9"
    unfolding room_def
  proof
    fix c
    have "counters (wMem demoWorld1) c \<in> {0, counters demoMem c}" using ok(7) by (simp add: demoWorld0_def)
    then show "sint (counters (wMem demoWorld1) c) + int 9 < 2 ^ 63" by (auto simp: demo_facts)
  qed
qed

lemma demoPod_storable: "storable podsGVK demoPod" "cacheKey demoPod = ''d/p''" "nameOk demoPod"
  "body demoPod = PodBody emptyPodSpec emptyPodStatus" "CacheName demoPod = podName"
  by (simp_all add: storable_def nameOk_def name_defs podName_def podsGVK_def isRuntimeObject_def demo_defs)

lemma demo2: "view_ok demoWorld2 demoBase" "wNext demoWorld2 = 1" "room demoWorld2 8"
  "\<exists>p. absView demoWorld2 demoBase podsGVK = [''d/p'' \<mapsto> SlotLive p] \<and> defaulted podsGVK demoPod p"
  "g \<noteq> podsGVK \<Longrightarrow> absView demoWorld2 demoBase g = (\<lambda>_. None)"
proof -
  have un: "unheld demoBase 0 demoWorld1"
  proof -
    have none: "absOwn demoWorld1 0 g k = None" for g k
      using demo1(2) [of g k] by (simp add: demoBase_def)
    have "\<not> held demoWorld1 0 g 0" for g
      using none [of g] by (auto simp: held_def absOwn_def absStore_def)
        (metis entry.simps(5) option.case(2) option.distinct(1))
    then show ?thesis by (simp add: unheld_def demoBase_def)
  qed
  have st: "storable podsGVK (obj demoWorld1 0)" using demoPod_storable demo1(3) by simp
  have room: "room demoWorld1 (Suc 8)" using demo1(6) by simp
  obtain w' where w': "CreateObject demoBase podsGVK 0 noOpts demoWorld1 = (Ok 0, w')"
    "result_ok demoBase podsGVK {0} demoWorld1 w'"
    "absOwn w' (viewId demoBase) podsGVK =
       (absOwn demoWorld1 (viewId demoBase) podsGVK)(cacheKey (obj demoWorld1 0) \<mapsto> SlotLive (obj w' 0))"
    "defaulted podsGVK (obj demoWorld1 0) (obj w' 0)" "room w' 8"
    by (rule CreateObject_ok [OF demo1(1) supported_pods _ un st room, of noOpts]) (simp_all add: demo1)
  have eq: "demoWorld2 = w'" using w'(1) by (simp add: demoWorld2_def)
  show "view_ok demoWorld2 demoBase" "room demoWorld2 8" using w' result_okD(2) eq by auto
  have "absView demoWorld2 demoBase podsGVK = [''d/p'' \<mapsto> SlotLive (obj w' 0)]"
    using absView_result [OF w'(2,3)] demo1(2,3) demoPod_storable(2) eq by (simp add: fun_eq_iff)
  then show "\<exists>p. absView demoWorld2 demoBase podsGVK = [''d/p'' \<mapsto> SlotLive p] \<and> defaulted podsGVK demoPod p"
    using w'(4) demo1(3) by auto
  show "absView demoWorld2 demoBase g = (\<lambda>_. None)" if "g \<noteq> podsGVK"
    using result_okD(4) [OF w'(2) that] eq demo1(2) by (simp add: fun_eq_iff)
  show "wNext demoWorld2 = 1"
    using frameD(8) [OF result_okD(1) [OF w'(2)]] eq demo1(5) by simp
qed

lemma demo: "view_ok demoWorld demoSandbox" "view_ok demoWorld demoBase" "room demoWorld 8"
  "\<exists>p. absView demoWorld demoSandbox podsGVK = [''d/p'' \<mapsto> SlotLive p] \<and>
     absView demoWorld demoBase podsGVK = [''d/p'' \<mapsto> SlotLive p] \<and> defaulted podsGVK demoPod p"
  "wNext demoWorld = 2" "absOwn demoWorld 1 g = (\<lambda>_. None)"
  "g \<noteq> podsGVK \<Longrightarrow> absView demoWorld demoBase g = (\<lambda>_. None)"
proof -
  have ids: "\<forall>j\<in>set (chain demoBase). j < wNext demoWorld2" by (simp add: demoBase_def demo2)
  obtain w' where w': "NewSandbox demoBase ''sandbox'' demoWorld2 = (Ok (SandboxView (wNext demoWorld2) demoBase), w')"
    "view_ok w' (SandboxView (wNext demoWorld2) demoBase)" "wMem w' = wMem demoWorld2"
    "absView w' (SandboxView (wNext demoWorld2) demoBase) = absView demoWorld2 demoBase"
    "absView w' demoBase = absView demoWorld2 demoBase" "wNext w' = Suc (wNext demoWorld2)"
    "absOwn w' (wNext demoWorld2) = (\<lambda>_ _. None)"
    using NewSandbox_ok [OF demo2(1) ids, of "''sandbox''"] .
  have eq: "demoWorld = w'" "SandboxView (wNext demoWorld2) demoBase = demoSandbox"
    using w'(1) by (simp_all add: demoWorld_def demoSandbox_def demo2)
  show ok: "view_ok demoWorld demoSandbox" using w'(2) eq by simp
  then show "view_ok demoWorld demoBase" by (simp add: demoSandbox_def)
  show "room demoWorld 8" using demo2(3) w'(3) eq by (simp add: room_def)
  show "\<exists>p. absView demoWorld demoSandbox podsGVK = [''d/p'' \<mapsto> SlotLive p] \<and>
     absView demoWorld demoBase podsGVK = [''d/p'' \<mapsto> SlotLive p] \<and> defaulted podsGVK demoPod p"
    using demo2(4) w'(4,5) eq by (metis (no_types))
  show "wNext demoWorld = 2" "absOwn demoWorld 1 g = (\<lambda>_. None)"
    using w'(6,7) eq demo2(2) by (simp_all)
  show "g \<noteq> podsGVK \<Longrightarrow> absView demoWorld demoBase g = (\<lambda>_. None)"
    using demo2(5) w'(5) eq by simp
qed

text \<open>The same world with a caller's own object in memory: an updated pod \<open>p\<close>, or a new pod \<open>q\<close>.\<close>

definition demoWith :: "kobj \<Rightarrow> world" where
  "demoWith o' = demoWorld\<lparr>wMem := snd (alloc o' (wMem demoWorld))\<rparr>"

definition demoAddr :: addr where
  "demoAddr = nextAddr (wMem demoWorld)"

definition demoPodQ :: kobj where
  "demoPodQ = demoPod\<lparr>ometa := ometa demoPod\<lparr>mName := ''q''\<rparr>\<rparr>"

lemma demoPodQ_storable: "storable podsGVK demoPodQ" "cacheKey demoPodQ = ''d/q''"
  by (simp_all add: storable_def nameOk_def name_defs podsGVK_def isRuntimeObject_def demo_defs demoPodQ_def)

definition demoNode :: kobj where
  "demoNode = \<lparr>objGVK = GVK NodesDescriptor, ometa = emptyMeta\<lparr>mName := ''n''\<rparr>,
     body = NodeBody \<lparr>nsProviderID = [], nsTaints = [], nsUnschedulable = False\<rparr>
       \<lparr>nstCapacity = [], nstAllocatable = [], nstConditions = []\<rparr>\<rparr>"

lemma demoNode_facts: "storable (GVK NodesDescriptor) demoNode" "cacheKey demoNode = ''n''"
  "mNamespace (ometa demoNode) = []" "supported (GVK NodesDescriptor)" "GVK NodesDescriptor \<noteq> podsGVK"
  by (simp_all add: storable_def nameOk_def name_defs isRuntimeObject_def demoNode_def emptyMeta_def
      supported_def podsGVK_def PodsDescriptor_def NodesDescriptor_def SupportedDescriptors_def)

text \<open>A patch library for the witness: a document is the new name.\<close>

definition demoPatcher :: patcher where
  "demoPatcher = \<lparr>marshalObj = (\<lambda>o'. Ok (mName (ometa o'))), strategicMerge = (\<lambda>_ patch _. Ok patch),
     jsonMerge = (\<lambda>_ patch. Ok patch),
     unmarshalInto = (\<lambda>doc o'. (None, o'\<lparr>ometa := ometa o'\<lparr>mName := doc\<rparr>\<rparr>)),
     parseWrapper = (\<lambda>doc. Ok [(''status'', doc)]), marshalStatus = (\<lambda>_. Ok []),
     strategicMergeStatus = (\<lambda>_ patch _. Ok patch), unmarshalStatus = (\<lambda>_ p. Ok p)\<rparr>"

lemma demoWith: "view_ok (demoWith o') demoSandbox" "room (demoWith o') 8"
  "absView (demoWith o') demoSandbox = absView demoWorld demoSandbox"
  "obj (demoWith o') demoAddr = o'" "demoAddr < nextAddr (wMem (demoWith o'))"
  "unheld demoSandbox demoAddr (demoWith o')"
  "absOwn (demoWith o') 1 g = (\<lambda>_. None)" "absDelegate (demoWith o') demoSandbox = absView demoWorld demoBase"
proof -
  have m: "memStep {} demoWorld (demoWith o')"
    by (auto simp: memStep_def demoWith_def obj_def)
  note v = memStep_view [OF m demo(1)]
  show "view_ok (demoWith o') demoSandbox"
    "absView (demoWith o') demoSandbox = absView demoWorld demoSandbox"
    using v by simp_all
  show "room (demoWith o') 8" using demo(3) by (simp add: room_def demoWith_def)
  show "obj (demoWith o') demoAddr = o'" "demoAddr < nextAddr (wMem (demoWith o'))"
    by (simp_all add: obj_def demoWith_def demoAddr_def)
  show "unheld demoSandbox demoAddr (demoWith o')"
    using memStep_held [OF m] fresh_unheld [OF demo(1), of demoAddr]
    by (simp add: unheld_def demoAddr_def)
  show "absDelegate (demoWith o') demoSandbox = absView demoWorld demoBase"
    using memStep_view [OF m demo(2)] by (simp add: demoSandbox_def fun_eq_iff)
  show "absOwn (demoWith o') 1 g = (\<lambda>_. None)"
    using memStep_own(2) [OF m, of 1] demo(1,6) by (simp add: demoSandbox_def)
qed

lemma podName_key: "objectNameString podName = ''d/p''"
  by (simp add: podName_def objectNameString_def)

lemma demo_pod:
  obtains p where "absView demoWorld demoSandbox podsGVK = [''d/p'' \<mapsto> SlotLive p]"
    "absDelegate demoWorld demoSandbox podsGVK = [''d/p'' \<mapsto> SlotLive p]" "defaulted podsGVK demoPod p"
    "cacheKey p = ''d/p''" "CacheName p = podName" "body p = PodBody emptyPodSpec emptyPodStatus"
proof -
  have del: "absDelegate demoWorld demoSandbox = absView demoWorld demoBase"
    by (simp add: demoSandbox_def fun_eq_iff)
  obtain p where "absView demoWorld demoSandbox podsGVK = [''d/p'' \<mapsto> SlotLive p]"
    "absView demoWorld demoBase podsGVK = [''d/p'' \<mapsto> SlotLive p]" "defaulted podsGVK demoPod p"
    using demo(4) by blast
  moreover note defaulted_simps [OF this(3)] demoPod_storable
  ultimately show thesis using that del by metis
qed

subsection \<open>Binding through either kind of view\<close>

lemma UpdatePodNodeBinding_copy:
  assumes "view_ok w (SandboxView i d)" "absOwn w i podsGVK (objectNameString n) = None"
    and "absView w d podsGVK (objectNameString n) = Some (SlotLive p)" "body p = PodBody sp st"
  shows "UpdatePodNodeBinding (SandboxView i d) n b w =
     bindE (copyFromDelegate (SandboxView i d) d podsGVK n w) (\<lambda>c w. bindPodAt (SandboxView i d) c b w)"
proof -
  have dok: "view_ok w d" using assms(1) by simp
  obtain a where a: "GetObject d podsGVK n w = Ok a" "obj w a = p"
    using GetObject_abs [OF dok supported_pods, of n] assms(3) by auto
  have own: "getStoreObject (SandboxView i d) podsGVK n w = Err (ApiStatus NotFoundReason)"
    using getStoreObject_abs [OF assms(1) supported_pods, of n] assms(2) by simp
  have ret: "bindE (CreateObject v g x opts w') (\<lambda>_ w. f x w) = bindE (CreateObject v g x opts w') f"
    for v g x opts w' and f :: "addr \<Rightarrow> world \<Rightarrow> (addr, world) eff"
    by (cases "CreateObject v g x opts w'"; cases "fst (CreateObject v g x opts w')")
      (auto simp: CreateObject_def storeObject_def bindE_eq_Ok Let_def)
  note r = ret [of "SandboxView i d" podsGVK "nextAddr (wMem w)"
      "\<lparr>NoBroadcast = True, MarkAsDeleted = False\<rparr>" "snd (deepCopyW a w)"
      "\<lambda>c. bindPodAt (SandboxView i d) c b"]
  show ?thesis using own a assms(4) by (simp add: copyFromDelegate_def split_beta r)
qed

text \<open>In every case the binding happens at an object the view itself holds, a copy if need be.\<close>

lemma UpdatePodNodeBinding_at:
  assumes ok: "view_ok w v" and room: "room w (Suc (Suc (Suc n)))"
    and at: "absView w v podsGVK (cacheKey p) = Some (SlotLive p)" and pod: "body p = PodBody sp st"
  obtains (bound) w1 a where "UpdatePodNodeBinding v (CacheName p) b w = bindPodAt v a b w1"
    "defaulted podsGVK p (obj w1 a)" "view_ok w1 v" "room w1 (Suc (Suc n))"
    "absView w1 v podsGVK = (absView w v podsGVK)(cacheKey p \<mapsto> SlotLive (obj w1 a))"
    "absDelegate w1 v = absDelegate w v"
proof -
  note key = absView_key [OF ok at]
  have refl': "defaulted podsGVK p p" using key by (simp add: defaulted_def Let_def)
  have room2: "room w (Suc (Suc n))" using room room_mono by auto
  have own: thesis
    if "UpdatePodNodeBinding v (CacheName p) b w = bindPodAt v a b w" "obj w a = p" for a
    by (rule bound [OF that(1)]) (use that(2) refl' ok room2 at in \<open>simp_all add: fun_upd_idem\<close>)
  show thesis
  proof (cases v)
    case (BaseView i)
    obtain a where "GetObject v podsGVK (CacheName p) w = Ok a" "obj w a = p"
      using GetObject_abs [OF ok supported_pods, of "CacheName p"] at by auto
    moreover have "onName (CacheName p) \<noteq> []" using key(2) by (simp add: nameOk_def CacheName_def)
    ultimately show thesis using own BaseView by simp
  next
    case (SandboxView i d)
    show thesis
    proof (cases "absOwn w i podsGVK (cacheKey p)")
      case (Some sl)
      then have "sl = SlotLive p" using at SandboxView by (simp add: map_add_Some_iff)
      then obtain a where "getStoreObject v podsGVK (CacheName p) w = Ok a" "obj w a = p"
        using getStoreObject_abs [OF ok supported_pods, of "CacheName p"] Some SandboxView by auto
      then show thesis using own SandboxView by simp
    next
      case None
      have vd: "view_ok w (SandboxView i d)" using ok SandboxView by simp
      have live: "absView w d podsGVK (objectNameString (CacheName p)) = Some (SlotLive p)"
        using at None SandboxView by (simp add: map_add_Some_iff)
      obtain c w1 where c: "copyFromDelegate (SandboxView i d) d podsGVK (CacheName p) w = (Ok c, w1)"
        "result_ok (SandboxView i d) podsGVK {} w w1"
        "absOwn w1 i podsGVK = (absOwn w i podsGVK)(cacheKey p \<mapsto> SlotLive (obj w1 c))"
        "defaulted podsGVK p (obj w1 c)" "room w1 (Suc (Suc n))"
        using copyFromDelegate_ok [OF vd supported_pods room live] unfolding CacheName_key by blast
      have "UpdatePodNodeBinding v (CacheName p) b w = bindPodAt v c b w1"
        using UpdatePodNodeBinding_copy [OF vd _ live pod] None SandboxView c(1) by simp
      then show thesis
        using bound c(2,3,4,5) absView_result [OF c(2)] result_okD(2,3) [OF c(2)] SandboxView by simp
    qed
  qed
qed

lemma UpdatePodNodeBinding_ok:
  assumes ok: "view_ok w v" and room: "room w (Suc (Suc (Suc n)))"
    and at: "absView w v podsGVK (cacheKey p) = Some (SlotLive p)" and pod: "body p = PodBody sp st"
    and free: "psNodeName sp = []"
  shows "\<exists>a w' t. UpdatePodNodeBinding v (CacheName p) b w = (Ok a, w') \<and> view_ok w' v \<and> room w' n \<and>
     absDelegate w' v = absDelegate w v \<and>
     absView w' v podsGVK = (absView w v podsGVK)(cacheKey p \<mapsto> SlotLive (obj w' a)) \<and>
     defaulted podsGVK (p\<lparr>body := bindPodBody t (bTargetName b) sp st\<rparr>) (obj w' a)"
proof -
  obtain w1 a where a: "UpdatePodNodeBinding v (CacheName p) b w = bindPodAt v a b w1"
    "defaulted podsGVK p (obj w1 a)" "view_ok w1 v" "room w1 (Suc (Suc n))"
    "absView w1 v podsGVK = (absView w v podsGVK)(cacheKey p \<mapsto> SlotLive (obj w1 a))"
    "absDelegate w1 v = absDelegate w v"
    using UpdatePodNodeBinding_at [OF assms(1-4)] .
  note d = defaulted_simps [OF a(2)]
  have "absView w1 v podsGVK (cacheKey (obj w1 a)) = Some (SlotLive (obj w1 a))" using a(5) d(1) by simp
  moreover have "body (obj w1 a) = PodBody sp st" using d(3) pod by simp
  ultimately obtain a' w' t rv where r: "bindPodAt v a b w1 = (Ok a', w')"
    "result_ok v podsGVK {} w1 w'" "room w' n" "obj w' a' = withRV rv (boundPod t b (obj w1 a))"
    "absView w' v podsGVK = (absView w1 v podsGVK)(cacheKey p \<mapsto> SlotLive (obj w' a'))"
    using bindPodAt_ok(1) [OF a(3,4), of a sp st b] free d(1) by auto
  have "defaulted podsGVK (p\<lparr>body := bindPodBody t (bTargetName b) sp st\<rparr>) (obj w' a')"
    using a(2) pod by (simp add: r(4) defaulted_def withRV_def boundPod_def Let_def)
  then show ?thesis
    using a r result_okD(2,3) [OF r(2)] by (intro exI [of _ a'] exI [of _ w'] exI [of _ t]) simp
qed

subsection \<open>Listing through a sandbox\<close>

lemma store_listing:
  assumes "own_ok w i" "supported g" "viewId v = i"
  obtains xs mv where "readStore v g (ResStore.ListMetaObjects background c) w = Ok (xs, mv)" "distinct xs"
      "set xs = {a. held w i g a \<and> Matches c (obj w a)}"
proof -
  obtain st where st: "vStores (wViews w i) g = Some st" "store_ok (wMem w) g st"
    using own_store [OF assms(1,2)] .
  then have inv: "store_inv (wMem w, st)" by (simp add: store_ok_def)
  have "a \<in> set (liveAddrs st) \<longleftrightarrow> held w i g a" for a
    using liveAddrs_iff [OF inv] st(1) by (auto simp: held_def)
  then have "set (matching c (wMem w, st)) = {a. held w i g a \<and> Matches c (obj w a)}"
    by (auto simp: matching_def obj_def)
  moreover have "distinct (matching c (wMem w, st))"
    using distinct_liveAddrs [OF inv] by (simp add: matching_def)
  ultimately show thesis
    using that ListMetaObjects_eq [OF inv, of c] st(1) assms(3)
    by (auto simp: readStore_def GetResourceStore_def vs_def)
qed

lemma store_tombstones:
  assumes "own_ok w (viewId v)" "supported g"
  obtains ks where "listTombstonedKeys background v g w = Ok ks"
    "set ks = {k. absOwn w (viewId v) g k = Some SlotDeleted}"
proof -
  obtain st where st: "vStores (wViews w (viewId v)) g = Some st" "store_ok (wMem w) g st"
    using own_store [OF assms] .
  then have inv: "store_inv (wMem w, st)" by (simp add: store_ok_def)
  from ListTombstonedKeys_eq [OF inv] that st(1) show thesis
    by (auto simp: listTombstonedKeys_def readStore_def GetResourceStore_def vs_def absOwn_def)
qed

lemma held_live:
  assumes "own_ok w i" "supported g"
  shows "(\<exists>k. absOwn w i g k = Some (SlotLive o')) \<longleftrightarrow> (\<exists>a. held w i g a \<and> obj w a = o')"
proof -
  obtain st where st: "vStores (wViews w i) g = Some st" "store_ok (wMem w) g st"
    using own_store [OF assms] .
  then have inv: "store_inv (wMem w, st)" by (simp add: store_ok_def)
  have "held w i g a \<longleftrightarrow> a \<in> set (liveAddrs st)" for a
    using liveAddrs_iff [OF inv] st(1) by (auto simp: held_def)
  then show ?thesis
    using absStore_live_iff [OF inv] st(1) by (auto simp: absOwn_def obj_def)
qed

text \<open>
  What a sandbox over a base view lists: its own matching objects, and the delegate's objects
  that are not listed already and whose \<^emph>\<open>name\<close> is not a tombstoned \<^emph>\<open>key\<close> of the sandbox.
\<close>

lemma sandbox_listing:
  assumes ok: "view_ok w (SandboxView i (BaseView j))" and g: "supported g"
  obtains items mv where
    "View_ListMetaObjects noCancel (SandboxView i (BaseView j)) g MatchAllCriteria w = Ok (items, mv)"
    "distinct items"
    "set items = {a. held w i g a} \<union> {a. held w j g a \<and>
       absOwn w i g (mName (ometa (obj w a))) \<noteq> Some SlotDeleted \<and>
       (\<forall>b. held w i g b \<longrightarrow> CacheName (obj w a) \<noteq> CacheName (obj w b))}"
proof -
  let ?v = "SandboxView i (BaseView j)"
  have oi: "own_ok w i" and oj: "own_ok w j" using ok by simp_all
  obtain ks where ks: "listTombstonedKeys background ?v g w = Ok ks"
    "set ks = {k. absOwn w i g k = Some SlotDeleted}"
    using store_tombstones [of w ?v g] oi g by auto
  let ?c = "MatchAllCriteria\<lparr>mcExcludeNames := ks\<rparr>"
  obtain xs mv1 where xs: "readStore ?v g (ResStore.ListMetaObjects background MatchAllCriteria) w = Ok (xs, mv1)"
    "distinct xs" "set xs = {a. held w i g a \<and> Matches MatchAllCriteria (obj w a)}"
    using store_listing [OF oi g, where v = ?v and c = MatchAllCriteria] by auto
  obtain ys mv2 where ys: "readStore (BaseView j) g (ResStore.ListMetaObjects background ?c) w = Ok (ys, mv2)"
    "distinct ys" "set ys = {a. held w j g a \<and> Matches ?c (obj w a)}"
    using store_listing [OF oj g, where v = "BaseView j" and c = ?c] by auto
  have m: "Matches ?c o' \<longleftrightarrow> absOwn w i g (mName (ometa o')) \<noteq> Some SlotDeleted" for o'
    using ks(2) by (auto simp: Matches_iff MatchAllCriteria_def)
  have disj: "held w i g a \<Longrightarrow> \<not> held w j g a" for a using ok by auto
  let ?items = "combinePrimarySecondary w xs ys"
  have "View_ListMetaObjects noCancel ?v g MatchAllCriteria w = Ok (?items, maxInt64 mv1 mv2)"
    using xs(1) ys(1) ks(1) by (simp add: listMetaObjects_def noCancel_def)
  moreover have "distinct ?items"
    using xs(2,3) ys(2,3) disj by (auto simp: combinePrimarySecondary_def)
  moreover have "set ?items = {a. held w i g a} \<union> {a. held w j g a \<and>
       absOwn w i g (mName (ometa (obj w a))) \<noteq> Some SlotDeleted \<and>
       (\<forall>b. held w i g b \<longrightarrow> CacheName (obj w a) \<noteq> CacheName (obj w b))}"
  proof -
    have "a \<in> set ?items \<longleftrightarrow> held w i g a \<or> held w j g a \<and>
        absOwn w i g (mName (ometa (obj w a))) \<noteq> Some SlotDeleted \<and>
        CacheName (obj w a) \<notin> (\<lambda>p. CacheName (obj w p)) ` {b. held w i g b}" for a
      unfolding combinePrimarySecondary_def using xs(3) ys(3) m by auto
    then show ?thesis by (auto simp: image_iff)
  qed
  ultimately show thesis using that by blast
qed


definition listed :: "world \<Rightarrow> nat \<Rightarrow> nat \<Rightarrow> gvk \<Rightarrow> kobj set" where
  "listed w i j g = {o'. absOwn w i g (cacheKey o') = Some (SlotLive o')} \<union>
     {o'. absOwn w j g (cacheKey o') = Some (SlotLive o') \<and>
          absOwn w i g (mName (ometa o')) \<noteq> Some SlotDeleted \<and>
          (\<forall>q. absOwn w i g (cacheKey q) = Some (SlotLive q) \<longrightarrow> CacheName o' \<noteq> CacheName q)}"

lemma held_at_key:
  assumes "own_ok w v" "supported g"
  shows "absOwn w v g (cacheKey o') = Some (SlotLive o') \<longleftrightarrow> (\<exists>a. held w v g a \<and> obj w a = o')"
  using held_live [OF assms] absOwn_key(1) [OF assms(1)] by metis

lemma sandbox_listing_objs:
  assumes ok: "view_ok w (SandboxView i (BaseView j))" and g: "supported g"
  shows "\<exists>items mv.
    View_ListMetaObjects noCancel (SandboxView i (BaseView j)) g MatchAllCriteria w = Ok (items, mv) \<and>
    distinct items \<and> obj w ` set items = listed w i j g"
proof -
  have oi: "own_ok w i" and oj: "own_ok w j" using ok by simp_all
  obtain items mv where l:
    "View_ListMetaObjects noCancel (SandboxView i (BaseView j)) g MatchAllCriteria w = Ok (items, mv)"
    "distinct items"
    "set items = {a. held w i g a} \<union> {a. held w j g a \<and>
       absOwn w i g (mName (ometa (obj w a))) \<noteq> Some SlotDeleted \<and>
       (\<forall>b. held w i g b \<longrightarrow> CacheName (obj w a) \<noteq> CacheName (obj w b))}"
    using sandbox_listing [OF ok g] .
  have "obj w ` set items = listed w i j g"
    unfolding l(3) listed_def held_at_key [OF oi g] held_at_key [OF oj g] by blast
  with l show ?thesis by blast
qed

text \<open>Handing out a pointer does not depend on what the cell holds, as long as it is an object.\<close>

lemma getStoreObject_onWMem:
  "isRuntimeObject p' \<Longrightarrow> getStoreObject v g n w = Ok a \<Longrightarrow> getStoreObject v g n (onWMem (wr b p') w) = Ok a"
  "getStoreObject v g n w = Err e \<Longrightarrow> isNotFound e \<Longrightarrow> getStoreObject v g n (onWMem (wr b p') w) = Err e"
  by (auto simp: getStoreObject_def readStore_def GetResourceStore_def onWMem_def vs_def Get_def GetByKey_def isNotFound_def
      split: option.splits entry.splits if_splits)

lemma GetObject_onWMem:
  assumes "isRuntimeObject p'"
  shows "GetObject v g n w = Ok a \<Longrightarrow> GetObject v g n (onWMem (wr b p') w) = Ok a"
proof (induction v)
  case (SandboxView i d)
  then show ?case
    using getStoreObject_onWMem(1) [OF assms, of "SandboxView i d" g n w _ b]
      getStoreObject_onWMem(2) [of "SandboxView i d" g n w _ b p']
    by (auto split: outcome.splits if_splits)
qed (simp add: getStoreObject_onWMem(1) [OF assms])

text \<open>Nor does it depend on anything but the stores of the chain and the object handed out.\<close>

lemma getStoreObject_env:
  assumes "vStores (vs w' v) = vStores (vs w v)"
  shows "getStoreObject v g n w = Ok a \<Longrightarrow> isRuntimeObject (obj w' a) \<Longrightarrow> getStoreObject v g n w' = Ok a"
    "getStoreObject v g n w = Err e \<Longrightarrow> isNotFound e \<Longrightarrow> getStoreObject v g n w' = Err e"
  using assms
  by (auto simp: getStoreObject_def readStore_def GetResourceStore_def obj_def Get_def GetByKey_def isNotFound_def
      split: option.splits entry.splits if_splits)

lemma GetObject_env:
  assumes "\<And>j. j \<in> set (chain v) \<Longrightarrow> vStores (wViews w' j) = vStores (wViews w j)" "isRuntimeObject (obj w' a)"
  shows "GetObject v g n w = Ok a \<Longrightarrow> GetObject v g n w' = Ok a"
  using assms(1)
proof (induction v)
  case (BaseView i)
  then show ?case using getStoreObject_env(1) [of w' "BaseView i" w g n a] assms(2) by (simp add: vs_def)
next
  case (SandboxView i d)
  have "vStores (vs w' (SandboxView i d)) = vStores (vs w (SandboxView i d))" using SandboxView.prems(2) by (simp add: vs_def)
  note own = getStoreObject_env [OF this, of g n]
  show ?case
  proof (cases "getStoreObject (SandboxView i d) g n w")
    case (Err e)
    then have "isNotFound e" "\<not> errorsIs e ErrObjectDeleted" "GetObject d g n w = Ok a"
      using SandboxView.prems(1) by (auto split: if_splits)
    then show ?thesis using SandboxView own(2) [OF Err] by simp
  qed (use SandboxView.prems(1) own(1) assms(2) in simp_all)
qed

subsection \<open>Updating with a pointer the delegate holds\<close>

text \<open>What the store's \<open>Update\<close> answers for a pointer, whoever else holds it.\<close>

lemma withStore_Update_any:
  assumes "view_ok w v" "supported g" "objGVK (obj w a) = g" "isRuntimeObject (obj w a)"
  shows "case absOwn w (viewId v) g (cacheKey (obj w a)) of
      Some (SlotLive _) \<Rightarrow> \<exists>w' rv st'. withStore v g (Update a opts) w = (Ok (), w') \<and> obj w' a = withRV rv (obj w a) \<and>
        (\<forall>j. j \<noteq> viewId v \<longrightarrow> wViews w' j = wViews w j) \<and> vStores (vs w' v) g = Some st' \<and>
        map_of (cache st') (cacheKey (obj w a)) = Some (Live a)
    | Some SlotDeleted \<Rightarrow> withStore v g (Update a opts) w = (Err deletedErr, w)
    | None \<Rightarrow> withStore v g (Update a opts) w = (Err (ApiStatus NotFoundReason), w)"
proof -
  obtain st where st: "vStores (vs w v) g = Some st" "sObjectGVK st = g" "store_inv (wMem w, st)"
    and own: "absOwn w (viewId v) g = absStore (wMem w, st)"
    using GetResourceStore_own [OF assms(1,2)] .
  let ?s' = "if NoBroadcast opts then putLive a (wMem w, st) else broadcast Modified a (putLive a (wMem w, st))"
  have valid: "validObj a (wMem w, st)" using assms(3,4) st by (simp add: validObj_def obj_def)
  note abs = GetByKey_abs [OF st(3), of "cacheKey (obj w a)"]
  show ?thesis
  proof (cases "absOwn w (viewId v) g (cacheKey (obj w a))")
    case None
    with abs valid show ?thesis by (simp add: withStore_eq [OF st(1)] Update_eq own obj_def putStore_same st)
  next
    case (Some sl)
    show ?thesis
    proof (cases sl)
      case SlotDeleted
      with Some abs valid show ?thesis by (simp add: withStore_eq [OF st(1)] Update_eq own obj_def putStore_same st)
    next
      case (SlotLive o')
      let ?w' = "putStore v g ?s' w"
      have "withStore v g (Update a opts) w = (Ok (), ?w')"
        using Some SlotLive abs valid by (auto simp: own withStore_eq [OF st(1)] Update_eq obj_def)
      moreover have "obj ?w' a = withRV (FormatInt (CurrentResourceVersion (wMem w, st) + 1)) (obj w a)"
        by (simp add: obj_def stamped_withRV)
      ultimately have "\<exists>w' rv st'. withStore v g (Update a opts) w = (Ok (), w') \<and> obj w' a = withRV rv (obj w a) \<and>
        (\<forall>j. j \<noteq> viewId v \<longrightarrow> wViews w' j = wViews w j) \<and> vStores (vs w' v) g = Some st' \<and>
        map_of (cache st') (cacheKey (obj w a)) = Some (Live a)"
        by (intro exI [of _ ?w'] exI [of _ "snd ?s'"] exI conjI) (assumption | simp add: obj_def)+
      then show ?thesis using Some SlotLive by simp
    qed
  qed
qed

lemma withRV_runtime [simp]: "isRuntimeObject (withRV rv o') = isRuntimeObject o'"
  by (simp add: withRV_def isRuntimeObject_def)

lemma updateObject_shared:
  assumes "view_ok w (SandboxView i d)" "supported g" "objGVK (obj w a) = g" "isRuntimeObject (obj w a)"
    and own: "absOwn w i g (cacheKey (obj w a)) = Some (SlotLive q)"
    and "GetObject d g (CacheName (obj w a)) w = Ok a"
  shows "\<exists>w' rv. updateObject (SandboxView i d) g a opts w = (Ok (), w') \<and> obj w' a = withRV rv (obj w a) \<and>
    GetObject d g (CacheName (obj w a)) w' = Ok a \<and> GetObject (SandboxView i d) g (CacheName (obj w a)) w' = Ok a"
proof -
  let ?v = "SandboxView i d" and ?n = "CacheName (obj w a)"
  obtain w1 rv st' where w1: "withStore ?v g (Update a opts) w = (Ok (), w1)" "obj w1 a = withRV rv (obj w a)"
    "\<forall>j. j \<noteq> i \<longrightarrow> wViews w1 j = wViews w j" "vStores (vs w1 ?v) g = Some st'"
    "map_of (cache st') (cacheKey (obj w a)) = Some (Live a)"
    using withStore_Update_any [OF assms(1-4), of opts] own by auto
  let ?w' = "addChange ?v 1 w1"
  have o: "obj ?w' a = withRV rv (obj w a)" using w1(2) by (simp add: obj_def)
  have "GetObject d g ?n ?w' = Ok a"
    by (rule GetObject_env [OF _ _ assms(6)]) (use assms(1,4) w1(3) o in auto)
  moreover have "getStoreObject ?v g ?n ?w' = Ok a"
    using w1(2,4,5) assms(4) by (simp add: getStoreObject_def readStore_def GetResourceStore_def Get_def GetByKey_def obj_def)
  ultimately show ?thesis using w1(1) o by (auto simp: updateObject_def)
qed

lemma UpdateObject_shared:
  assumes "view_ok w (SandboxView i d)" "supported g" "a < nextAddr (wMem w)" "objGVK (obj w a) = g" "isRuntimeObject (obj w a)"
    and "room w (Suc n)" and own: "absOwn w i g (cacheKey (obj w a)) \<noteq> Some SlotDeleted"
    and get: "GetObject d g (CacheName (obj w a)) w = Ok a"
  shows "\<exists>w' rv. UpdateObject (SandboxView i d) g a opts w = (Ok (), w') \<and> obj w' a = withRV rv (obj w a) \<and>
    GetObject d g (CacheName (obj w a)) w' = Ok a \<and> GetObject (SandboxView i d) g (CacheName (obj w a)) w' = Ok a"
proof -
  let ?v = "SandboxView i d" and ?n = "CacheName (obj w a)" and ?k = "cacheKey (obj w a)"
  have dok: "view_ok w d" using assms(1) by simp
  show ?thesis
  proof (cases "absOwn w i g ?k")
    case None
    have "absView w d g ?k = Some (SlotLive (obj w a))"
      using GetObject_abs [OF dok assms(2), of ?n] get by (auto split: option.splits slot.splits)
    then obtain c w1 where c: "copyFromDelegate ?v d g ?n w = (Ok c, w1)" "result_ok ?v g {} w w1"
      "absOwn w1 i g = (absOwn w i g)(?k \<mapsto> SlotLive (obj w1 c))"
      using copyFromDelegate_ok [OF assms(1,2,6), of ?n "obj w a"] by (metis CacheName_key)
    note fr = result_okD(1) [OF c(2)]
    have same: "obj w1 a = obj w a" using frameD(3) [OF fr] assms(3) by simp
    have "j \<noteq> i" if "j \<in> set (chain d)" for j using assms(1) that by auto
    then have get1: "GetObject d g (CacheName (obj w1 a)) w1 = Ok a" unfolding same
      by (intro GetObject_env [OF _ _ get]) (use frameD(1) [OF fr] assms(5) same in simp_all)
    have "updateObject ?v g a opts w = (Err (ApiStatus NotFoundReason), w)"
      using withStore_Update_any [OF assms(1,2,4,5), of opts] None by (simp add: updateObject_def)
    then have "UpdateObject ?v g a opts w = updateObject ?v g a opts w1" using c(1) by simp
    then show ?thesis
      using updateObject_shared [OF _ assms(2) _ _ _ get1, of i "obj w1 c" opts] result_okD(2) [OF c(2)] assms(4,5) same c(3) by simp
  next
    case (Some sl)
    then obtain q where "absOwn w i g ?k = Some (SlotLive q)" using own by (cases sl) auto
    from updateObject_shared [OF assms(1,2,4,5) this get, of opts] show ?thesis by (auto simp: Let_def)
  qed
qed

subsection \<open>Claims\<close>

text \<open>
  A new sandbox shows, for every kind and name, exactly what its delegate shows, and leaves the
  delegate as it was.
\<close>

theorem NewSandbox_transparent:
  assumes "view_ok w d" "\<forall>j\<in>set (chain d). j < wNext w"
  shows "\<exists>v w'. NewSandbox d nm w = (Ok v, w') \<and> view_ok w' v \<and>
     absView w' v = absView w d \<and> absView w' d = absView w d"
  using NewSandbox_ok [OF assms, of nm] by metis

theorem NewSandbox_transparent_witness:
  "\<exists>v w'. NewSandbox demoSandbox ''s2'' demoWorld = (Ok v, w') \<and> view_ok w' v \<and>
     absView w' v = absView demoWorld demoSandbox \<and> absView w' demoSandbox = absView demoWorld demoSandbox"
  by (rule NewSandbox_transparent) (simp_all add: demo demoSandbox_def [symmetric],
    simp add: demoSandbox_def demoBase_def)

text \<open>
  C5. \<open>GetObject\<close> of a sandbox: its own live object wins, its own tombstone is reported as a not-found
  error that also is \<open>ErrObjectDeleted\<close>, and only a name the sandbox knows nothing of is looked up
  in the delegate.
\<close>

theorem GetObject_overlay:
  assumes "view_ok w (SandboxView i d)" "supported g"
  shows "case absOwn w i g (objectNameString n) of
      Some (SlotLive o') \<Rightarrow> \<exists>a. GetObject (SandboxView i d) g n w = Ok a \<and> obj w a = o'
    | Some SlotDeleted \<Rightarrow> \<exists>e. GetObject (SandboxView i d) g n w = Err e \<and> isNotFound e \<and> errorsIs e ErrObjectDeleted
    | None \<Rightarrow> GetObject (SandboxView i d) g n w = GetObject d g n w"
  using getStoreObject_abs [OF assms, of n] by (auto split: option.splits slot.splits)

theorem GetObject_overlay_witness:
  "GetObject demoSandbox podsGVK podName demoWorld = GetObject demoBase podsGVK podName demoWorld"
  using GetObject_overlay [of demoWorld 1 demoBase podsGVK podName] demo
  by (simp add: demoSandbox_def)

text \<open>
  C2. \<open>CreateObject\<close> in any view stores the object under its own name, with only defaults filled in
  (UID, creation time, kind, version), shows it at once, and changes nothing of what the delegate
  shows, nor any other name, nor any other kind.
\<close>

theorem CreateObject_refines:
  assumes "view_ok w v" "supported g" "a < nextAddr (wMem w)" "unheld v a w"
    and "storable g (obj w a)" "room w (Suc n)"
  shows "\<exists>w'. CreateObject v g a opts w = (Ok a, w') \<and> view_ok w' v \<and>
     defaulted g (obj w a) (obj w' a) \<and> absDelegate w' v = absDelegate w v \<and>
     absView w' v g = (absView w v g)(cacheKey (obj w a) \<mapsto> SlotLive (obj w' a)) \<and>
     (\<forall>g'. g' \<noteq> g \<longrightarrow> absView w' v g' = absView w v g')"
proof -
  obtain w' where w': "CreateObject v g a opts w = (Ok a, w')" "result_ok v g {a} w w'"
    "absOwn w' (viewId v) g = (absOwn w (viewId v) g)(cacheKey (obj w a) \<mapsto> SlotLive (obj w' a))"
    "defaulted g (obj w a) (obj w' a)"
    using CreateObject_ok [OF assms, of opts] .
  then show ?thesis
    using absView_result [OF w'(2,3)] result_okD [OF w'(2)] by auto
qed


theorem CreateObject_refines_witness:
  "\<exists>w'. CreateObject demoSandbox podsGVK demoAddr noOpts (demoWith demoPodQ) = (Ok demoAddr, w') \<and>
     absView w' demoSandbox podsGVK ''d/q'' = Some (SlotLive (obj w' demoAddr)) \<and>
     absDelegate w' demoSandbox = absDelegate (demoWith demoPodQ) demoSandbox"
  using CreateObject_refines [OF demoWith(1) supported_pods demoWith(5,6), of demoPodQ 7 noOpts]
    demoWith(2,4) demoPodQ_storable by force

text \<open>
  C3. \<open>UpdateObject\<close> succeeds exactly on a name the view shows as live, where it replaces the object
  shown (a sandbox first takes its own copy from the delegate); a deleted or unknown name is a
  not-found error and no change. What the delegate shows does not change as long as the pointer that is
  passed is not one another store of the chain holds. Called on a sandbox with the very pointer its
  delegate hands out, as \<open>patchObject\<close> and the \<open>PUT\<close> handler do, it is not isolated: the version is
  stamped into the delegate's object, and from then on the sandbox and its delegate hand out the same
  pointer.
\<close>

theorem UpdateObject_refines:
  assumes "view_ok w v" "supported g" "a < nextAddr (wMem w)"
    and "objGVK (obj w a) = g" "isRuntimeObject (obj w a)" "nameOk (obj w a)" "room w (Suc (Suc n))"
  shows "(mayWrite v g {a} w \<longrightarrow>
      (case absView w v g (cacheKey (obj w a)) of
        Some (SlotLive _) \<Rightarrow> \<exists>w' rv. UpdateObject v g a opts w = (Ok (), w') \<and> view_ok w' v \<and>
          obj w' a = withRV rv (obj w a) \<and> absDelegate w' v = absDelegate w v \<and>
          absView w' v g = (absView w v g)(cacheKey (obj w a) \<mapsto> SlotLive (obj w' a))
      | _ \<Rightarrow> \<exists>e. UpdateObject v g a opts w = (Err e, w) \<and> isNotFound e)) \<and>
    (\<forall>i d. v = SandboxView i d \<and> absOwn w i g (cacheKey (obj w a)) \<noteq> Some SlotDeleted \<and>
        GetObject d g (CacheName (obj w a)) w = Ok a \<longrightarrow>
      (\<exists>w' rv. UpdateObject v g a opts w = (Ok (), w') \<and> obj w' a = withRV rv (obj w a) \<and>
        GetObject d g (CacheName (obj w a)) w' = Ok a \<and> GetObject v g (CacheName (obj w a)) w' = Ok a))"
proof (intro conjI impI allI)
  assume "mayWrite v g {a} w"
  then show "case absView w v g (cacheKey (obj w a)) of
        Some (SlotLive _) \<Rightarrow> \<exists>w' rv. UpdateObject v g a opts w = (Ok (), w') \<and> view_ok w' v \<and>
          obj w' a = withRV rv (obj w a) \<and> absDelegate w' v = absDelegate w v \<and>
          absView w' v g = (absView w v g)(cacheKey (obj w a) \<mapsto> SlotLive (obj w' a))
      | _ \<Rightarrow> \<exists>e. UpdateObject v g a opts w = (Err e, w) \<and> isNotFound e"
  proof (cases rule: UpdateObject_ok [OF assms(1-3) _ assms(4-7), of opts])
    case (2 w')
    then show ?thesis using result_okD(2,3) [OF 2(2)] by (auto split: option.splits slot.splits)
  qed simp_all
next
  fix i d
  assume "v = SandboxView i d \<and> absOwn w i g (cacheKey (obj w a)) \<noteq> Some SlotDeleted \<and> GetObject d g (CacheName (obj w a)) w = Ok a"
  then show "\<exists>w' rv. UpdateObject v g a opts w = (Ok (), w') \<and> obj w' a = withRV rv (obj w a) \<and>
      GetObject d g (CacheName (obj w a)) w' = Ok a \<and> GetObject v g (CacheName (obj w a)) w' = Ok a"
    using UpdateObject_shared [OF _ assms(2-5), of i d "Suc n"] assms(1,7) by simp
qed

theorem UpdateObject_refines_witness:
  "(\<exists>w'. UpdateObject demoSandbox podsGVK demoAddr noOpts (demoWith demoPod) = (Ok (), w') \<and>
     absDelegate w' demoSandbox = absDelegate (demoWith demoPod) demoSandbox) \<and>
   (\<exists>a w' rv. GetObject demoBase podsGVK podName demoWorld = Ok a \<and>
     UpdateObject demoSandbox podsGVK a noOpts demoWorld = (Ok (), w') \<and>
     GetObject demoBase podsGVK podName w' = Ok a \<and> obj w' a = withRV rv (obj demoWorld a))"
proof
  have "objGVK demoPod = podsGVK" "isRuntimeObject demoPod"
    by (simp_all add: demoPod_def podsGVK_def isRuntimeObject_def)
  moreover obtain p where "absView (demoWith demoPod) demoSandbox podsGVK ''d/p'' = Some (SlotLive p)"
    using demo(4) by (auto simp: demoWith)
  moreover have "mayWrite demoSandbox podsGVK {demoAddr} (demoWith demoPod)"
    by (rule unheld_mayWrite [OF demoWith(6)])
  ultimately show "\<exists>w'. UpdateObject demoSandbox podsGVK demoAddr noOpts (demoWith demoPod) = (Ok (), w') \<and>
     absDelegate w' demoSandbox = absDelegate (demoWith demoPod) demoSandbox"
    using UpdateObject_refines [OF demoWith(1) supported_pods demoWith(5), of demoPod 6 noOpts]
      demoWith(2,4) demoPod_storable by force
next
  have dok: "view_ok demoWorld demoBase" using demo(1) by (simp add: demoSandbox_def)
  obtain p where p: "absView demoWorld demoBase podsGVK = [''d/p'' \<mapsto> SlotLive p]" "CacheName p = podName"
    using demo_pod by (auto simp: demoSandbox_def)
  obtain a j where a: "GetObject demoBase podsGVK podName demoWorld = Ok a" "obj demoWorld a = p"
    "j \<in> set (chain demoBase)" "held demoWorld j podsGVK a"
    using GetObject_abs [OF dok supported_pods, of podName] p(1) by (auto simp: podName_key)
  note h = held_facts [OF view_ok_chain [OF dok a(3)] a(4)]
  have "absOwn demoWorld 1 podsGVK (cacheKey p) \<noteq> Some SlotDeleted" using demo(6) by simp
  moreover have "room demoWorld (Suc (Suc 6))" using demo(3) by simp
  ultimately obtain w' rv where "UpdateObject demoSandbox podsGVK a noOpts demoWorld = (Ok (), w')"
      "GetObject demoBase podsGVK podName w' = Ok a" "obj w' a = withRV rv (obj demoWorld a)"
    using UpdateObject_refines [OF demo(1) supported_pods h(1,2,5,3), of 6 noOpts, THEN conjunct2, THEN spec [of _ 1], THEN spec [of _ demoBase]]
      a(1) demoSandbox_def unfolding a(2) p(2) by blast
  then show "\<exists>a w' rv. GetObject demoBase podsGVK podName demoWorld = Ok a \<and>
     UpdateObject demoSandbox podsGVK a noOpts demoWorld = (Ok (), w') \<and>
     GetObject demoBase podsGVK podName w' = Ok a \<and> obj w' a = withRV rv (obj demoWorld a)"
    using a(1) by blast
qed



text \<open>
  What was deleted through a view is gone for that view: a later \<open>GetObject\<close> and a later
  \<open>DeleteObject\<close> of the same name are not-found errors, whatever the delegate still holds.
\<close>

theorem delete_then_get:
  assumes "view_ok w v" "supported g" "room w (Suc (Suc n))"
    and "absView w v g (objectNameString nm) = Some (SlotLive o')"
  shows "\<exists>w' e e'. DeleteObject v g nm w = (Ok (), w') \<and> GetObject v g nm w' = Err e \<and> isNotFound e \<and>
     DeleteObject v g nm w' = (Err e', w') \<and> isNotFound e'"
proof -
  have r: "room w (Suc n)" using assms(3) room_mono by auto
  obtain w' e where "DeleteObject v g nm w = (Ok (), w')" "GetObject v g nm w' = Err e" "isNotFound e"
    using vr.get_after_del [of w v g n nm o'] assms r by auto
  moreover obtain w'' e' where "DeleteObject v g nm w = (Ok (), w'')"
    "DeleteObject v g nm w'' = (Err e', w'')" "isNotFound e'"
    using vr.del_twice [of w v g n nm o'] assms by auto
  ultimately show ?thesis by auto
qed

theorem delete_then_get_witness:
  "\<exists>w' e. DeleteObject demoSandbox podsGVK podName demoWorld = (Ok (), w') \<and>
     GetObject demoSandbox podsGVK podName w' = Err e \<and> isNotFound e"
proof -
  obtain p where p: "absView demoWorld demoSandbox podsGVK ''d/p'' = Some (SlotLive p)"
    using demo(4) by auto
  have "room demoWorld (Suc (Suc 6))" using demo(3) by simp
  then show ?thesis
    using delete_then_get [OF demo(1) supported_pods, of 6 podName p] p by (auto simp: podName_key)
qed

text \<open>
  C6. Binding a pod that has no node yet, in any view, yields a bound pod with the target node name
  and a true \<open>PodScheduled\<close> condition in that view only; a sandbox leaves the pod of its delegate
  unbound.
\<close>

theorem UpdatePodNodeBinding_binds:
  assumes "view_ok w v" "room w (Suc (Suc (Suc n)))"
    and "absView w v podsGVK (cacheKey p) = Some (SlotLive p)" "body p = PodBody sp st" "psNodeName sp = []"
  shows "\<exists>a w' sp' st'. UpdatePodNodeBinding v (CacheName p) b w = (Ok a, w') \<and> view_ok w' v \<and>
     absDelegate w' v = absDelegate w v \<and>
     absView w' v podsGVK = (absView w v podsGVK)(cacheKey p \<mapsto> SlotLive (obj w' a)) \<and>
     body (obj w' a) = PodBody sp' st' \<and> psNodeName sp' = bTargetName b \<and>
     (\<exists>i c. GetPodCondition st' ''PodScheduled'' = Some (i, c) \<and> pcStatus c = ''True'')"
proof -
  obtain a w' t where r: "UpdatePodNodeBinding v (CacheName p) b w = (Ok a, w')" "view_ok w' v"
    "absDelegate w' v = absDelegate w v"
    "absView w' v podsGVK = (absView w v podsGVK)(cacheKey p \<mapsto> SlotLive (obj w' a))"
    "defaulted podsGVK (p\<lparr>body := bindPodBody t (bTargetName b) sp st\<rparr>) (obj w' a)"
    using UpdatePodNodeBinding_ok [OF assms] by blast
  let ?c = "\<lparr>pcType = ''PodScheduled'', pcStatus = ''True'', pcReason = [], pcMessage = [],
      pcLastProbeTime = 0, pcLastTransitionTime = 0\<rparr> :: pod_condition"
  obtain i t' where c: "GetPodCondition (snd (UpdatePodCondition t st ?c)) ''PodScheduled'' =
      Some (i, ?c\<lparr>pcLastTransitionTime := t'\<rparr>)"
    using UpdatePodCondition_get [of t st ?c] by auto
  have b: "body (obj w' a) = PodBody (sp\<lparr>psNodeName := bTargetName b\<rparr>) (snd (UpdatePodCondition t st ?c))"
    using r(5) by (simp add: defaulted_def bindPodBody_def)
  show ?thesis
    using r(1-4) b c by (intro exI [of _ a] exI [of _ w'] exI conjI) (assumption | simp)+
qed

theorem UpdatePodNodeBinding_binds_witness:
  "\<exists>a w' sp' st'. UpdatePodNodeBinding demoSandbox podName \<lparr>bTargetName = ''n''\<rparr> demoWorld = (Ok a, w') \<and>
     body (obj w' a) = PodBody sp' st' \<and> psNodeName sp' = ''n'' \<and>
     absDelegate w' demoSandbox = absDelegate demoWorld demoSandbox"
proof -
  obtain p where p: "absView demoWorld demoSandbox podsGVK = [''d/p'' \<mapsto> SlotLive p]"
    "cacheKey p = ''d/p''" "CacheName p = podName" "body p = PodBody emptyPodSpec emptyPodStatus"
    using demo_pod by metis
  have r: "room demoWorld (Suc (Suc (Suc 5)))" using demo(3) by (simp add: numeral_eq_Suc)
  from UpdatePodNodeBinding_binds [OF demo(1) r, of p emptyPodSpec emptyPodStatus "\<lparr>bTargetName = ''n''\<rparr>"] p
  show ?thesis by (fastforce simp: emptyPodSpec_def)
qed

text \<open>
  A pod that is already bound to a node is never bound again, in no view: the call fails, and
  what the delegate shows is unchanged.
\<close>

theorem UpdatePodNodeBinding_once:
  assumes "view_ok w v" "room w (Suc (Suc (Suc n)))"
    and "absView w v podsGVK (cacheKey p) = Some (SlotLive p)" "body p = PodBody sp st" "psNodeName sp \<noteq> []"
  shows "\<exists>w'. UpdatePodNodeBinding v (CacheName p) b w = (Err (Plain ''pod was already bound''), w') \<and>
     view_ok w' v \<and> absDelegate w' v = absDelegate w v"
proof -
  obtain w1 a where a: "UpdatePodNodeBinding v (CacheName p) b w = bindPodAt v a b w1"
    "defaulted podsGVK p (obj w1 a)" "view_ok w1 v" "room w1 (Suc (Suc n))"
    "absView w1 v podsGVK = (absView w v podsGVK)(cacheKey p \<mapsto> SlotLive (obj w1 a))"
    "absDelegate w1 v = absDelegate w v"
    using UpdatePodNodeBinding_at [OF assms(1-4)] .
  note d = defaulted_simps [OF a(2)]
  have "absView w1 v podsGVK (cacheKey (obj w1 a)) = Some (SlotLive (obj w1 a))" using a(5) d(1) by simp
  then obtain w' where "bindPodAt v a b w1 = (Err (Plain ''pod was already bound''), w')"
    "result_ok v podsGVK {} w1 w'"
    using bindPodAt_ok(2) [OF a(3,4), of a sp st b] assms(4,5) d(3) by auto
  then show ?thesis using a result_okD(2,3) by auto
qed

theorem UpdatePodNodeBinding_once_witness:
  "\<exists>a w' w''. UpdatePodNodeBinding demoSandbox podName \<lparr>bTargetName = ''n''\<rparr> demoWorld = (Ok a, w') \<and>
     UpdatePodNodeBinding demoSandbox podName \<lparr>bTargetName = ''m''\<rparr> w' =
       (Err (Plain ''pod was already bound''), w'')"
proof -
  obtain p where p: "absView demoWorld demoSandbox podsGVK = [''d/p'' \<mapsto> SlotLive p]"
    "cacheKey p = ''d/p''" "CacheName p = podName" "body p = PodBody emptyPodSpec emptyPodStatus"
    using demo_pod by metis
  have r: "room demoWorld (Suc (Suc (Suc 5)))" using demo(3) by (simp add: numeral_eq_Suc)
  from UpdatePodNodeBinding_ok [OF demo(1) r, of p emptyPodSpec emptyPodStatus "\<lparr>bTargetName = ''n''\<rparr>"] p
  obtain a w' t where w': "UpdatePodNodeBinding demoSandbox podName \<lparr>bTargetName = ''n''\<rparr> demoWorld = (Ok a, w')"
    "view_ok w' demoSandbox" "room w' 5" "absView w' demoSandbox podsGVK ''d/p'' = Some (SlotLive (obj w' a))"
    "defaulted podsGVK (p\<lparr>body := bindPodBody t ''n'' emptyPodSpec emptyPodStatus\<rparr>) (obj w' a)"
    by (auto simp: emptyPodSpec_def)
  note d = defaulted_simps [OF w'(5)]
  have n: "CacheName (obj w' a) = podName" using d(5) p(3) by (simp add: CacheName_def)
  moreover have "cacheKey (obj w' a) = ''d/p''" using CacheName_key [of "obj w' a"] by (simp add: n podName_key)
  moreover have "room w' (Suc (Suc (Suc 2)))" using w'(3) by (simp add: numeral_eq_Suc)
  ultimately show ?thesis
    using UpdatePodNodeBinding_once [OF w'(2), of 2 "obj w' a" _ _ "\<lparr>bTargetName = ''m''\<rparr>"] w'(1,4) d(3)
    by (auto simp: bindPodBody_def)
qed

text \<open>
  C16. A sandbox over a base view lists, for objects without a namespace, exactly the objects it
  shows: its own, those of the base it has not replaced, and none it has deleted; none twice.
\<close>

theorem Sandbox_ListMetaObjects_exact:
  assumes "view_ok w (SandboxView i (BaseView j))" "supported g"
    and "\<forall>k o'. absOwn w i g k = Some (SlotLive o') \<or> absOwn w j g k = Some (SlotLive o') \<longrightarrow>
           mNamespace (ometa o') = []"
  shows "\<exists>items mv.
     View_ListMetaObjects noCancel (SandboxView i (BaseView j)) g MatchAllCriteria w = Ok (items, mv) \<and>
     distinct items \<and>
     obj w ` set items = {o'. \<exists>k. absView w (SandboxView i (BaseView j)) g k = Some (SlotLive o')}"
proof -
  have oi: "own_ok w i" and oj: "own_ok w j" using assms(1) by simp_all
  have key: "cacheKey o' = mName (ometa o')"
    if "absOwn w i g (cacheKey o') = Some (SlotLive o') \<or> absOwn w j g (cacheKey o') = Some (SlotLive o')" for o'
    using assms(3) that by (auto simp: name_defs)
  have "o' \<in> listed w i j g \<longleftrightarrow>
      absView w (SandboxView i (BaseView j)) g (cacheKey o') = Some (SlotLive o')" for o'
  proof (cases "absOwn w i g (cacheKey o')")
    case None
    have "CacheName o' \<noteq> CacheName q" if "absOwn w i g (cacheKey q) = Some (SlotLive q)" for q
      using that None by (metis CacheName_key option.distinct(1))
    then show ?thesis using None key by (auto simp: listed_def map_add_Some_iff)
  next
    case (Some sl)
    have "absOwn w i g (mName (ometa o')) = Some SlotDeleted \<or>
        (\<exists>q. absOwn w i g (cacheKey q) = Some (SlotLive q) \<and> CacheName o' = CacheName q)"
      if j: "absOwn w j g (cacheKey o') = Some (SlotLive o')"
    proof (cases sl)
      case (SlotLive q)
      then show ?thesis
        using Some absOwn_key(1,2) [OF oi] absOwn_key(2) [OF oj j] cacheKey_inj by metis
    next
      case SlotDeleted
      then show ?thesis using Some j key by metis
    qed
    then show ?thesis using Some by (auto simp: listed_def map_add_Some_iff)
  qed
  moreover have "(\<exists>k. absView w (SandboxView i (BaseView j)) g k = Some (SlotLive o')) \<longleftrightarrow>
      absView w (SandboxView i (BaseView j)) g (cacheKey o') = Some (SlotLive o')" for o'
    using absView_key(1) [OF assms(1)] by metis
  ultimately have "listed w i j g = {o'. \<exists>k. absView w (SandboxView i (BaseView j)) g k = Some (SlotLive o')}"
    by blast
  then show ?thesis using sandbox_listing_objs [OF assms(1,2)] by metis
qed

theorem Sandbox_ListMetaObjects_exact_witness:
  "\<exists>w' items mv. CreateObject demoSandbox (GVK NodesDescriptor) demoAddr noOpts (demoWith demoNode) = (Ok demoAddr, w') \<and>
     View_ListMetaObjects noCancel demoSandbox (GVK NodesDescriptor) MatchAllCriteria w' = Ok (items, mv) \<and>
     obj w' ` set items = {obj w' demoAddr}"
proof -
  let ?g = "GVK NodesDescriptor"
  have room: "room (demoWith demoNode) (Suc 7)" using demoWith(2) by simp
  obtain w' where w': "CreateObject demoSandbox ?g demoAddr noOpts (demoWith demoNode) = (Ok demoAddr, w')"
    "result_ok demoSandbox ?g {demoAddr} (demoWith demoNode) w'"
    "absOwn w' (viewId demoSandbox) ?g = (absOwn (demoWith demoNode) (viewId demoSandbox) ?g)
       (cacheKey (obj (demoWith demoNode) demoAddr) \<mapsto> SlotLive (obj w' demoAddr))"
    "defaulted ?g (obj (demoWith demoNode) demoAddr) (obj w' demoAddr)"
    by (rule CreateObject_ok [OF demoWith(1) demoNode_facts(4) demoWith(5,6) _ room, of noOpts])
      (simp_all add: demoWith demoNode_facts)
  have own: "absOwn w' 1 ?g = [''n'' \<mapsto> SlotLive (obj w' demoAddr)]"
    using w'(3) demoWith(7) [of demoNode ?g] demoWith(4) demoNode_facts(2) by (simp add: demoSandbox_def)
  have "absDelegate w' demoSandbox ?g = (\<lambda>_. None)"
    using result_okD(3) [OF w'(2)] demo(7) [OF demoNode_facts(5)] by (simp add: demoWith(8))
  then have base: "absOwn w' 0 ?g = (\<lambda>_. None)" by (simp add: demoSandbox_def demoBase_def)
  have shape: "demoSandbox = SandboxView 1 (BaseView 0)" by (simp add: demoSandbox_def demoBase_def)
  have "mNamespace (ometa (obj w' demoAddr)) = []"
    using defaulted_simps(8) [OF w'(4)] by (simp add: demoWith demoNode_facts)
  then have ns: "\<forall>k o'. absOwn w' 1 ?g k = Some (SlotLive o') \<or> absOwn w' 0 ?g k = Some (SlotLive o') \<longrightarrow>
      mNamespace (ometa o') = []"
    unfolding own base by simp
  have set: "{o'. \<exists>k. absView w' (SandboxView 1 (BaseView 0)) ?g k = Some (SlotLive o')} = {obj w' demoAddr}"
    unfolding absView.simps own base by (auto split: if_splits)
  have ok: "view_ok w' (SandboxView 1 (BaseView 0))" using result_okD(2) [OF w'(2)] by (simp add: shape)
  from Sandbox_ListMetaObjects_exact [OF ok demoNode_facts(4) ns] obtain items mv where
    "View_ListMetaObjects noCancel demoSandbox ?g MatchAllCriteria w' = Ok (items, mv)"
    "obj w' ` set items = {obj w' demoAddr}"
    unfolding shape set by blast
  with w'(1) show ?thesis by blast
qed

text \<open>
  C35. The listing compares tombstone \<^emph>\<open>keys\<close> with object \<^emph>\<open>names\<close>, so an object in a namespace that was
  deleted in a sandbox over a base view is still listed by that sandbox, although \<open>GetObject\<close>
  reports it as deleted.
\<close>

theorem Sandbox_lists_deleted:
  assumes "view_ok w (SandboxView i (BaseView j))" "supported g"
    and "absOwn w j g k = Some (SlotLive o')" "absOwn w i g k = Some SlotDeleted"
    and "\<forall>k'. absOwn w i g k' = Some SlotDeleted \<longrightarrow> CHR ''/'' \<in> set k'"
  shows "\<exists>items mv e.
     View_ListMetaObjects noCancel (SandboxView i (BaseView j)) g MatchAllCriteria w = Ok (items, mv) \<and>
     o' \<in> obj w ` set items \<and>
     GetObject (SandboxView i (BaseView j)) g (CacheName o') w = Err e \<and> errorsIs e ErrObjectDeleted"
proof -
  have oi: "own_ok w i" and oj: "own_ok w j" using assms(1) by simp_all
  note o' = absOwn_key [OF oj assms(3)]
  have "absOwn w i g (mName (ometa o')) \<noteq> Some SlotDeleted"
    using assms(5) o'(2) by (auto simp: nameOk_def)
  moreover have "CacheName o' \<noteq> CacheName q" if "absOwn w i g (cacheKey q) = Some (SlotLive q)" for q
    using that assms(4) o'(1) by (metis CacheName_key option.inject slot.distinct(1))
  ultimately have "o' \<in> listed w i j g" using assms(3) o'(1) by (simp add: listed_def)
  moreover have "GetObject (SandboxView i (BaseView j)) g (CacheName o') w = Err deletedErr"
    using GetObject_abs [OF assms(1,2), of "CacheName o'"] assms(4) o'(1)
    by (simp add: map_add_def)
  ultimately show ?thesis using sandbox_listing_objs [OF assms(1,2)] by fastforce
qed


theorem Sandbox_lists_deleted_witness:
  "\<exists>w' items mv. DeleteObject demoSandbox podsGVK podName demoWorld = (Ok (), w') \<and>
     View_ListMetaObjects noCancel demoSandbox podsGVK MatchAllCriteria w' = Ok (items, mv) \<and> items \<noteq> []"
proof -
  obtain p where p: "absView demoWorld demoSandbox podsGVK = [''d/p'' \<mapsto> SlotLive p]"
    "absDelegate demoWorld demoSandbox podsGVK = [''d/p'' \<mapsto> SlotLive p]"
    using demo_pod by metis
  have room: "room demoWorld (Suc 7)" using demo(3) by simp
  show ?thesis
  proof (cases rule: DeleteObject_ok [OF demo(1) supported_pods room, of podName])
    case (1 w' A)
    have shape: "demoSandbox = SandboxView 1 (BaseView 0)" by (simp add: demoSandbox_def demoBase_def)
    have view: "absView w' demoSandbox podsGVK = [''d/p'' \<mapsto> SlotDeleted]"
      using 1(5) p(1) by (simp add: podName_key demoSandbox_def)
    have base: "absOwn w' 0 podsGVK = [''d/p'' \<mapsto> SlotLive p]"
      using result_okD(3) [OF 1(2)] p(2) by (simp add: shape fun_eq_iff)
    have own: "absOwn w' 1 podsGVK k = Some SlotDeleted \<longleftrightarrow> k = ''d/p''" for k
    proof -
      have "absView w' demoSandbox podsGVK k = ([''d/p'' \<mapsto> SlotLive p] ++ absOwn w' 1 podsGVK) k"
        by (simp add: shape base)
      then show ?thesis unfolding view by (auto simp: map_add_def split: option.splits if_splits)
    qed
    have ok: "view_ok w' (SandboxView 1 (BaseView 0))" using result_okD(2) [OF 1(2)] by (simp add: shape)
    obtain items mv where "View_ListMetaObjects noCancel demoSandbox podsGVK MatchAllCriteria w' = Ok (items, mv)"
      "p \<in> obj w' ` set items"
      using Sandbox_lists_deleted [OF ok supported_pods, of "''d/p''" p] base unfolding own shape by auto
    then show ?thesis using 1(1) by auto
  qed (use p in \<open>simp add: podName_key\<close>)
qed


text \<open>
  C36. Patching through a sandbox is not isolated: a patch that changes the name of an object the
  sandbox has not touched yet is refused as invalid, and still the object its \<^emph>\<open>delegate\<close> hands out
  is the patched one from then on.
\<close>

theorem patchObject_leaks:
  assumes "view_ok w (SandboxView i d)" "supported g" "absOwn w i g (objectNameString n) = None"
    and "absView w d g (objectNameString n) = Some (SlotLive p)"
    and "PatchObject pt p ty data = (Ok (), p')" "mName (ometa p') \<noteq> onName n" "isRuntimeObject p'"
  shows "\<exists>w' a. patchObject pt (SandboxView i d) g n ty data w = (Err (ApiStatus InvalidReason), w') \<and>
     GetObject d g n w' = Ok a \<and> obj w' a = p'"
proof -
  have dok: "view_ok w d" using assms(1) by simp
  obtain a where a: "GetObject d g n w = Ok a" "obj w a = p"
    using GetObject_abs [OF dok assms(2), of n] assms(4) by auto
  have g: "GetObject (SandboxView i d) g n w = Ok a"
    using getStoreObject_abs [OF assms(1,2), of n] assms(3) a(1) by simp
  let ?w = "onWMem (wr a p') w"
  have "patchObject pt (SandboxView i d) g n ty data w = (Err (ApiStatus InvalidReason), ?w)"
    using g a(2) assms(5,6) by (simp add: patchObject_def del: GetObject.simps) (simp add: obj_def onWMem_def)
  moreover have "GetObject d g n ?w = Ok a" by (rule GetObject_onWMem [OF assms(7) a(1)])
  moreover have "obj ?w a = p'" by (simp add: obj_def onWMem_def)
  ultimately show ?thesis by blast
qed

theorem patchObject_leaks_witness:
  "\<exists>w' a. patchObject demoPatcher demoSandbox podsGVK podName MergePatchType ''x'' demoWorld =
       (Err (ApiStatus InvalidReason), w') \<and>
     GetObject demoBase podsGVK podName w' = Ok a \<and> mName (ometa (obj w' a)) = ''x''"
proof -
  obtain p where p: "absDelegate demoWorld demoSandbox podsGVK = [''d/p'' \<mapsto> SlotLive p]" "defaulted podsGVK demoPod p"
    using demo_pod by metis
  let ?p' = "p\<lparr>ometa := ometa p\<lparr>mName := ''x''\<rparr>\<rparr>"
  have base: "absView demoWorld demoBase podsGVK (objectNameString podName) = Some (SlotLive p)"
    using p(1) by (simp add: demoSandbox_def podName_key)
  have run: "isRuntimeObject ?p'"
    using defaulted_simps(3) [OF p(2)] demoPod_storable(4) by (simp add: isRuntimeObject_def)
  have patch: "PatchObject demoPatcher p MergePatchType ''x'' = (Ok (), ?p')"
    by (simp add: PatchObject_def demoPatcher_def)
  have own: "absOwn demoWorld 1 podsGVK (objectNameString podName) = None" using demo(6) by simp
  have new: "mName (ometa ?p') \<noteq> onName podName" by (simp add: podName_def)
  obtain w' a where "patchObject demoPatcher demoSandbox podsGVK podName MergePatchType ''x'' demoWorld =
       (Err (ApiStatus InvalidReason), w')" "GetObject demoBase podsGVK podName w' = Ok a" "obj w' a = ?p'"
    using patchObject_leaks [OF demo(1) [unfolded demoSandbox_def] supported_pods own base patch new run]
    unfolding demoSandbox_def by blast
  then show ?thesis by auto
qed

text \<open>
  \<open>GetSandboxViewOverDelegate\<close> finds a sandbox by its name alone: asked for an existing name, it
  returns the existing view, over whatever delegate that was created, and never the one asked for.
\<close>

theorem GetSandboxViewOverDelegate_by_name:
  assumes "GetSandboxViewOverDelegate nm d va w = (Ok (sv, va'), w')"
  shows "GetSandboxViewOverDelegate nm d' va' w' = (Ok (sv, va'), w') \<and>
    (map_of (vaSandboxViews va) nm = None \<longrightarrow> sv = SandboxView (wNext w) d)"
  using assms
  by (auto simp: GetSandboxViewOverDelegate_def NewSandbox_def bindE_eq_Ok update_conv' split: option.splits prod.splits outcome.splits)


theorem GetSandboxViewOverDelegate_by_name_witness:
  "\<exists>va' w'. GetSandboxViewOverDelegate ''s'' demoSandbox \<lparr>vaBaseView = demoBase, vaSandboxViews = []\<rparr> demoWorld =
       (Ok (SandboxView 2 demoSandbox, va'), w') \<and>
     GetSandboxViewOverDelegate ''s'' demoBase va' w' = (Ok (SandboxView 2 demoSandbox, va'), w')"
proof -
  let ?va = "\<lparr>vaBaseView = demoBase, vaSandboxViews = []\<rparr>"
  have ids: "\<forall>j\<in>set (chain demoSandbox). j < wNext demoWorld"
    by (simp add: demo) (simp add: demoSandbox_def demoBase_def)
  obtain w' where "NewSandbox demoSandbox ''s'' demoWorld = (Ok (SandboxView (wNext demoWorld) demoSandbox), w')"
    using NewSandbox_ok [OF demo(1) ids, of "''s''"] .
  then have "GetSandboxViewOverDelegate ''s'' demoSandbox ?va demoWorld =
      (Ok (SandboxView 2 demoSandbox, ?va\<lparr>vaSandboxViews := [(''s'', SandboxView 2 demoSandbox)]\<rparr>), w')"
    by (simp add: GetSandboxViewOverDelegate_def demo)
  with GetSandboxViewOverDelegate_by_name [OF this, of demoBase] show ?thesis by blast
qed

end
