(* ===== verification/Float64.thy ===== *)
theory Float64
  imports Prelude Complex_Main
begin

text \<open>
  Go's \<open>float64\<close> arithmetic as the planner uses it. A finite float is the rational number it
  stands for; every operation rounds its exact result to 53 significant bits, ties to even.
  Infinities, NaN, overflow past \<open>2 ^ 1024\<close> and subnormal numbers are not represented: prices,
  weights and quantities stay far from them, and the one division is guarded against zero.
\<close>

type_synonym float64 = rat

fun bitLen :: "nat \<Rightarrow> nat" where
  "bitLen n = (if n = 0 then 0 else Suc (bitLen (n div 2)))"

declare bitLen.simps [simp del]

text \<open>The binade of a positive number: \<open>2 powi binade x \<le> x < 2 powi (binade x + 1)\<close>.\<close>

definition binade :: "rat \<Rightarrow> int" where
  "binade x = (let (n, d) = quotient_of x; k = int (bitLen (nat n)) - int (bitLen (nat d))
     in if 2 powi k \<le> x then k else k - 1)"

definition roundHalfEven :: "rat \<Rightarrow> int" where
  "roundHalfEven x = (let f = \<lfloor>x\<rfloor>; r = x - of_int f in
     if r < 1 / 2 then f else if 1 / 2 < r then f + 1 else if even f then f else f + 1)"

definition roundPos :: "rat \<Rightarrow> float64" where
  "roundPos x = (let u = 2 powi (binade x - 52) in of_int (roundHalfEven (x / u)) * u)"

definition roundF :: "rat \<Rightarrow> float64" where
  "roundF x = (if x = 0 then 0 else if 0 < x then roundPos x else - roundPos (- x))"

definition fadd :: "float64 \<Rightarrow> float64 \<Rightarrow> float64" where "fadd a b = roundF (a + b)"
definition fmul :: "float64 \<Rightarrow> float64 \<Rightarrow> float64" where "fmul a b = roundF (a * b)"
definition fdiv :: "float64 \<Rightarrow> float64 \<Rightarrow> float64" where "fdiv a b = roundF (a / b)"

text \<open>\<open>math.Round\<close>: to the nearest integer, ties away from zero.\<close>

definition mathRound :: "float64 \<Rightarrow> float64" where
  "mathRound x = (if 0 \<le> x then of_int \<lfloor>x + 1 / 2\<rfloor> else - of_int \<lfloor>1 / 2 - x\<rfloor>)"

text \<open>
  The conversion \<open>int(x)\<close> truncates. Out of range Go leaves the result to the implementation; this
  is what amd64 gives.
\<close>

definition truncInt :: "float64 \<Rightarrow> int" where
  "truncInt x = (if 0 \<le> x then \<lfloor>x\<rfloor> else - \<lfloor>- x\<rfloor>)"

definition floatToInt :: "float64 \<Rightarrow> int" where
  "floatToInt x = (let t = truncInt x in if - (2 ^ 63) \<le> t \<and> t < 2 ^ 63 then t else - (2 ^ 63))"

subsection \<open>Lemmas\<close>

lemma bitLen_bounds: "0 < n \<Longrightarrow> 2 ^ bitLen n \<le> 2 * n \<and> n < 2 ^ bitLen n"
proof (induction n rule: bitLen.induct)
  case (1 n)
  show ?case
  proof (cases "n div 2 = 0")
    case True
    then have "n = 1" using "1.prems" by auto
    then show ?thesis by (simp add: bitLen.simps)
  next
    case False
    then have "2 ^ bitLen (n div 2) \<le> 2 * (n div 2)" "n div 2 < 2 ^ bitLen (n div 2)"
      using 1 by auto
    moreover have "2 * (n div 2) \<le> n" "n < 2 * (n div 2) + 2" by simp_all
    ultimately have "2 ^ bitLen (n div 2) \<le> n" "n < 2 * 2 ^ bitLen (n div 2)" by linarith+
    then show ?thesis using "1.prems" by (simp add: bitLen.simps [of n])
  qed
qed

lemma binade_bounds:
  assumes "0 < x"
  shows "2 powi binade x \<le> x" "x < 2 powi (binade x + 1)"
proof -
  obtain n d where q: "quotient_of x = (n, d)" by (cases "quotient_of x")
  have d: "0 < d" using quotient_of_denom_pos [OF q] .
  have x: "x = of_int n / of_int d" using quotient_of_div [OF q] .
  with assms d have n: "0 < n" by (simp add: zero_less_divide_iff)
  let ?bn = "bitLen (nat n)" and ?bd = "bitLen (nat d)"
  let ?k = "int ?bn - int ?bd"
  have r: "(2::rat) ^ bitLen (nat m) \<le> 2 * of_int m" "of_int m < (2::rat) ^ bitLen (nat m)" if "0 < m" for m
  proof -
    have "of_nat (2 ^ bitLen (nat m)) \<le> (of_nat (2 * nat m) :: rat)"
      "of_nat (nat m) < (of_nat (2 ^ bitLen (nat m)) :: rat)"
      using bitLen_bounds [of "nat m"] that by (simp_all only: of_nat_le_iff of_nat_less_iff)
    then show "(2::rat) ^ bitLen (nat m) \<le> 2 * of_int m" "of_int m < (2::rat) ^ bitLen (nat m)"
      using that by simp_all
  qed
  have pk: "2 powi ?k = (2::rat) ^ ?bn / 2 ^ ?bd"
    by (simp add: power_int_diff)
  have hi: "x < 2 powi (?k + 1)"
  proof -
    have "of_int n * 2 ^ ?bd < (2::rat) ^ ?bn * (2 * of_int d)"
      using r(2) [OF n] r(1) [OF d] d n by (intro mult_less_le_imp_less) auto
    then have "x < (2::rat) ^ ?bn / 2 ^ ?bd * 2" using d by (simp add: x field_simps)
    also have "\<dots> = 2 powi (?k + 1)" unfolding pk [symmetric] by (simp add: power_int_add)
    finally show ?thesis .
  qed
  have lo: "2 powi (?k - 1) \<le> x"
  proof -
    have "(2::rat) ^ ?bn * of_int d \<le> (2 * of_int n) * 2 ^ ?bd"
      using r(1) [OF n] less_imp_le [OF r(2) [OF d]] d n by (intro mult_mono) auto
    then have "(2::rat) ^ ?bn / 2 ^ ?bd / 2 \<le> x" using d by (simp add: x field_simps)
    moreover have "(2::rat) ^ ?bn / 2 ^ ?bd / 2 = 2 powi (?k - 1)"
      unfolding pk [symmetric] by (simp add: power_int_diff)
    ultimately show ?thesis by simp
  qed
  have b: "binade x = (if 2 powi ?k \<le> x then ?k else ?k - 1)" by (simp add: binade_def q)
  show "2 powi binade x \<le> x" using lo by (simp add: b)
  show "x < 2 powi (binade x + 1)" using hi by (auto simp: b)
qed

lemma binade_mono:
  assumes "0 < x" "x \<le> y"
  shows "binade x \<le> binade y"
proof (rule ccontr)
  assume "\<not> ?thesis"
  then have "(2::rat) powi (binade y + 1) \<le> 2 powi binade x"
    by (intro power_int_increasing) auto
  with binade_bounds [of x] binade_bounds [of y] assms show False by linarith
qed

lemma roundHalfEven_floor: "\<lfloor>x\<rfloor> \<le> roundHalfEven x" "roundHalfEven x \<le> \<lfloor>x\<rfloor> + 1"
  by (auto simp: roundHalfEven_def Let_def)

lemma roundHalfEven_int [simp]: "roundHalfEven (of_int n) = n"
  by (simp add: roundHalfEven_def)

lemma roundHalfEven_mono: "x \<le> y \<Longrightarrow> roundHalfEven x \<le> roundHalfEven y"
proof (cases "\<lfloor>x\<rfloor> = \<lfloor>y\<rfloor>")
  case True
  assume "x \<le> y"
  with True show ?thesis by (auto simp: roundHalfEven_def Let_def)
next
  case False
  assume "x \<le> y"
  with False have "\<lfloor>x\<rfloor> + 1 \<le> \<lfloor>y\<rfloor>" using floor_mono [of x y] by linarith
  then show ?thesis using roundHalfEven_floor [of x] roundHalfEven_floor [of y] by linarith
qed

lemma roundPos_bounds:
  assumes "0 < x"
  shows "2 powi binade x \<le> roundPos x" "roundPos x \<le> 2 powi (binade x + 1)"
proof -
  let ?u = "2 powi (binade x - 52) :: rat"
  have u: "0 < ?u" by simp
  have "2 powi binade x = of_int (2 ^ 52) * ?u" "2 powi (binade x + 1) = of_int (2 ^ 53) * ?u"
    by (simp_all add: power_int_diff power_int_add)
  moreover note b = binade_bounds [OF assms]
  ultimately have "of_int (2 ^ 52) \<le> x / ?u" "x / ?u \<le> of_int (2 ^ 53)"
    and *: "2 powi binade x = of_int (2 ^ 52) * ?u" "2 powi (binade x + 1) = of_int (2 ^ 53) * ?u"
    using u by (simp_all only: pos_le_divide_eq pos_divide_le_eq less_imp_le)
  from this(1,2) [THEN roundHalfEven_mono]
  have "2 ^ 52 \<le> roundHalfEven (x / ?u)" "roundHalfEven (x / ?u) \<le> 2 ^ 53" by (simp_all only: roundHalfEven_int)
  then have "of_int (2 ^ 52) * ?u \<le> of_int (roundHalfEven (x / ?u)) * ?u"
    "of_int (roundHalfEven (x / ?u)) * ?u \<le> of_int (2 ^ 53) * ?u"
    using u by (simp_all only: mult_le_cancel_right_pos of_int_le_iff)
  then show "2 powi binade x \<le> roundPos x" "roundPos x \<le> 2 powi (binade x + 1)"
    by (simp_all only: * roundPos_def Let_def)
qed

lemma roundPos_mono:
  assumes "0 < x" "x \<le> y"
  shows "roundPos x \<le> roundPos y"
proof (cases "binade x = binade y")
  case True
  let ?u = "2 powi (binade x - 52) :: rat"
  have "roundHalfEven (x / ?u) \<le> roundHalfEven (y / ?u)"
    by (rule roundHalfEven_mono) (simp add: assms divide_right_mono)
  then show ?thesis using True by (simp add: roundPos_def Let_def)
next
  case False
  then have "(2::rat) powi (binade x + 1) \<le> 2 powi binade y"
    using binade_mono [OF assms] by (intro power_int_increasing) auto
  then show ?thesis using roundPos_bounds [of x] roundPos_bounds [of y] assms by linarith
qed

lemma roundPos_pos: "0 < x \<Longrightarrow> 0 < roundPos x"
  using roundPos_bounds(1) [of x] by (meson less_le_trans zero_less_numeral zero_less_power_int)

text \<open>Rounding is monotone, so are the operations in their positive arguments.\<close>

lemma roundF_mono:
  assumes "x \<le> y"
  shows "roundF x \<le> roundF y"
proof -
  consider "0 < x" | "x \<le> 0" "0 \<le> y" | "y < 0" using assms by linarith
  then show ?thesis
  proof cases
    case 1
    then show ?thesis using assms roundPos_mono by (simp add: roundF_def)
  next
    case 2
    then show ?thesis using roundPos_pos [of y] roundPos_pos [of "- x"] by (auto simp: roundF_def)
  next
    case 3
    then show ?thesis using assms roundPos_mono [of "- y" "- x"] by (simp add: roundF_def)
  qed
qed

lemma roundF_0 [simp]: "roundF 0 = 0"
  by (simp add: roundF_def)

lemma fdiv_antimono: "0 \<le> a \<Longrightarrow> 0 < b \<Longrightarrow> b \<le> c \<Longrightarrow> fdiv a c \<le> fdiv a b"
  unfolding fdiv_def by (intro roundF_mono divide_left_mono) auto

lemma fdiv_mono: "a \<le> b \<Longrightarrow> 0 < c \<Longrightarrow> fdiv a c \<le> fdiv b c"
  unfolding fdiv_def by (intro roundF_mono divide_right_mono) auto

lemma fmul_mono: "a \<le> b \<Longrightarrow> 0 \<le> c \<Longrightarrow> fmul a c \<le> fmul b c"
  unfolding fmul_def by (intro roundF_mono mult_right_mono) auto

lemma fadd_mono: "a \<le> b \<Longrightarrow> c \<le> d \<Longrightarrow> fadd a c \<le> fadd b d"
  unfolding fadd_def by (intro roundF_mono add_mono)

lemma roundF_nonneg: "0 \<le> x \<Longrightarrow> 0 \<le> roundF x"
  using roundF_mono [of 0 x] by simp

lemma mathRound_mono: "x \<le> y \<Longrightarrow> mathRound x \<le> mathRound y"
proof -
  assume "x \<le> y"
  then have a: "\<lfloor>x + 1 / 2\<rfloor> \<le> \<lfloor>y + 1 / 2\<rfloor>" and b: "\<lfloor>1 / 2 - y\<rfloor> \<le> \<lfloor>1 / 2 - x\<rfloor>" by (simp_all add: floor_mono)
  have "0 \<le> \<lfloor>y + 1 / 2\<rfloor>" if "0 \<le> y" using that by simp
  moreover have "0 \<le> \<lfloor>1 / 2 - x\<rfloor>" if "x < 0" using that by simp
  ultimately show ?thesis using \<open>x \<le> y\<close> a b by (auto simp: mathRound_def intro: order_trans [of _ 0])
qed

lemma truncInt_mono:
  assumes "x \<le> y"
  shows "truncInt x \<le> truncInt y"
proof -
  consider "0 \<le> x" | "x < 0" "0 \<le> y" | "y < 0" by linarith
  then show ?thesis
  proof cases
    case 1
    then show ?thesis using assms by (simp add: truncInt_def floor_mono)
  next
    case 2
    then have "0 \<le> \<lfloor>- x\<rfloor>" "0 \<le> \<lfloor>y\<rfloor>" by simp_all
    then have "- \<lfloor>- x\<rfloor> \<le> \<lfloor>y\<rfloor>" by linarith
    then show ?thesis using 2 by (simp add: truncInt_def)
  next
    case 3
    then have "\<lfloor>- y\<rfloor> \<le> \<lfloor>- x\<rfloor>" using assms by (simp add: floor_mono)
    then show ?thesis using 3 assms by (simp add: truncInt_def)
  qed
qed

end
