(* ===== verification/Scoring.thy ===== *)
theory Scoring
  imports PodNodeUtil Float64
begin

text \<open>
  Node scoring, \<open>src/planner/scorer/scorer.go\<close>, with the weigher \<open>src/planner/weigher/weigher.go\<close> and
  instance prices \<open>src/pricing/pricing.go\<close>. The interfaces \<open>ResourceWeigher\<close> and
  \<open>InstancePricingAccess\<close> are functions, the method each has. \<open>approx\<close> is the library's
  \<open>Quantity.AsApproximateFloat64\<close>, \<open>rnd\<close> a random number, \<open>rand.IntN(n)\<close> being \<open>rnd mod n\<close>.
\<close>

subsection \<open>Weights and prices\<close>

type_synonym weights = "(string, float64) gomap"
type_synonym weigher = "string \<Rightarrow> weights outcome"

definition createDefaultWeights :: weights where
  "createDefaultWeights = [(''memory'', 1), (''cpu'', 9), (''nvidia.com/gpu'', 20)]"

definition GetWeights :: weigher where
  "GetWeights instanceType = Ok createDefaultWeights"

record instance_price_info =
  ipInstanceType :: string
  ipRegion :: string
  ipOS :: string
  ipMemory :: "64 word"
  ipGPUMemory :: "64 word"
  ipHourlyPrice :: float64
  ipGPU :: "32 word"
  ipVCPU :: "32 word"

type_synonym price_key = "string \<times> string"
type_synonym pricing_access = "string \<Rightarrow> string \<Rightarrow> instance_price_info outcome"

text \<open>\<open>decode\<close> is \<open>json.Unmarshal\<close> into a slice of price infos.\<close>

definition parseInstanceTypeInfos ::
  "(string \<Rightarrow> instance_price_info list outcome) \<Rightarrow> string \<Rightarrow> (price_key, instance_price_info) gomap outcome" where
  "parseInstanceTypeInfos decode raw =
     bindO (decode raw) (\<lambda>entries.
       Ok (fold (\<lambda>info m. AList.update (ipInstanceType info, ipRegion info) info m) entries []))"

definition GetInfo :: "(price_key, instance_price_info) gomap \<Rightarrow> pricing_access" where
  "GetInfo infos region instanceType = (case map_of infos (instanceType, region) of
       Some info \<Rightarrow> Ok info | None \<Rightarrow> Err (Plain ''no instance type info found''))"

definition GetInstancePricingFromData ::
  "(string \<Rightarrow> instance_price_info list outcome) \<Rightarrow> string \<Rightarrow> pricing_access outcome" where
  "GetInstancePricingFromData decode raw = bindO (parseInstanceTypeInfos decode raw) (\<lambda>infos. Ok (GetInfo infos))"

subsection \<open>Aggregation\<close>

definition addPodRequests :: "resource_list \<Rightarrow> resource_list \<Rightarrow> resource_list" where
  "addPodRequests podRequest aggregate = fold (\<lambda>(n, request) aggregate.
     case map_of aggregate n of
       Some v \<Rightarrow> AList.update n (v + request) aggregate
     | None \<Rightarrow> AList.update n request aggregate) podRequest aggregate"

definition getAggregatedScheduledPodsResources ::
  "node_pod_assignment option \<Rightarrow> node_pod_assignment list \<Rightarrow> resource_list" where
  "getAggregatedScheduledPodsResources scaled others =
     fold (\<lambda>pod. addPodRequests (priAggregatedRequests pod))
       ((case scaled of None \<Rightarrow> [] | Some a \<Rightarrow> npaScheduledPods a) @ concat (map npaScheduledPods others)) []"

definition getNormalizedAggregate :: "(quantity \<Rightarrow> float64) \<Rightarrow> resource_list \<Rightarrow> weights \<Rightarrow> float64" where
  "getNormalizedAggregate approx resources weights =
     fold (\<lambda>(n, q) nru. case map_of weights n of
        None \<Rightarrow> nru | Some weight \<Rightarrow> fadd nru (fmul weight (approx q))) resources 0"

subsection \<open>The scorers\<close>

definition ErrComputeNodeScore :: goerr where "ErrComputeNodeScore = Sentinel ''ErrComputeNodeScore''"
definition ErrNoWinningNodeScore :: goerr where "ErrNoWinningNodeScore = Sentinel ''ErrNoWinningNodeScore''"
definition ErrCreateNodeScorer :: goerr where "ErrCreateNodeScorer = Sentinel ''ErrCreateNodeScorer''"

datatype scorer_kind = LeastCost | LeastWaste

record node_scorer =
  scKind :: scorer_kind
  scPricing :: pricing_access
  scWeigher :: weigher

definition GetNodeScorer :: "string \<Rightarrow> pricing_access \<Rightarrow> weigher \<Rightarrow> node_scorer outcome" where
  "GetNodeScorer strategy pricing weigher =
     (if strategy = [] then Err (Wrapped ''scoring strategy must be specified'' [ErrCreateNodeScorer])
      else if strategy = ''least-cost'' then Ok \<lparr>scKind = LeastCost, scPricing = pricing, scWeigher = weigher\<rparr>
      else if strategy = ''least-waste'' then Ok \<lparr>scKind = LeastWaste, scPricing = pricing, scWeigher = weigher\<rparr>
      else Err (Wrapped ''unsupported'' [ErrCreateNodeScorer]))"

text \<open>The deferred wrapping formats the cause with \<open>%v\<close>: only the sentinel is wrapped.\<close>

definition computeErr :: "'a outcome \<Rightarrow> 'a outcome" where
  "computeErr r = wrapErr (\<lambda>e. Wrapped ''node scoring failed'' [ErrComputeNodeScore]) r"

definition mkScore :: "node_scorer_args \<Rightarrow> node_pod_assignment \<Rightarrow> 64 word \<Rightarrow> node_score" where
  "mkScore args scaled v = \<lparr>nscScaledNodeResource = npaNodeResources scaled,
     nscPlacement = nsaScaledNodePlacement args, nscName = nsaID args,
     nscUnscheduledPods = nsaLeftOverUnscheduledPods args, nscValue = v\<rparr>"

definition leastCostValue :: "float64 \<Rightarrow> float64 \<Rightarrow> 64 word" where
  "leastCostValue nru price =
     (if price = 0 then - 1 else word_of_int (floatToInt (mathRound (fdiv (fmul nru 100) price))))"

definition LeastCost_Compute ::
  "(quantity \<Rightarrow> float64) \<Rightarrow> node_scorer \<Rightarrow> node_scorer_args \<Rightarrow> node_score outcome" where
  "LeastCost_Compute approx l args = computeErr (
     let aggregated = getAggregatedScheduledPodsResources
           (nsaScaledNodePodAssignment args) (nsaOtherNodePodAssignments args) in
     bindO (scWeigher l (npInstanceType (nsaScaledNodePlacement args))) (\<lambda>weights.
       let nru = getNormalizedAggregate approx aggregated weights in
     bindO (scPricing l (npRegion (nsaScaledNodePlacement args)) (npInstanceType (nsaScaledNodePlacement args)))
       (\<lambda>info.
       case nsaScaledNodePodAssignment args of
         None \<Rightarrow> Panic ''nil pointer dereference''
       | Some scaled \<Rightarrow> Ok (mkScore args scaled (leastCostValue nru (ipHourlyPrice info))))))"

definition wastageOf :: "node_pod_assignment \<Rightarrow> node_scorer_args \<Rightarrow> resource_list" where
  "wastageOf scaled args = SubtractResources (nriAllocatable (npaNodeResources scaled))
     (getAggregatedScheduledPodsResources (Some scaled) (nsaOtherNodePodAssignments args))"

definition LeastWaste_Compute ::
  "(quantity \<Rightarrow> float64) \<Rightarrow> node_scorer \<Rightarrow> node_scorer_args \<Rightarrow> node_score outcome" where
  "LeastWaste_Compute approx l args = computeErr (
     case nsaScaledNodePodAssignment args of
       None \<Rightarrow> Panic ''nil pointer dereference''
     | Some scaled \<Rightarrow>
     bindO (scWeigher l (npInstanceType (nsaScaledNodePlacement args))) (\<lambda>weights.
       Ok (mkScore args scaled (word_of_int (floatToInt
         (fmul (getNormalizedAggregate approx (wastageOf scaled args) weights) 100))))))"

definition Compute ::
  "(quantity \<Rightarrow> float64) \<Rightarrow> node_scorer \<Rightarrow> node_scorer_args \<Rightarrow> node_score outcome" where
  "Compute approx l args = (case scKind l of
     LeastCost \<Rightarrow> LeastCost_Compute approx l args | LeastWaste \<Rightarrow> LeastWaste_Compute approx l args)"

subsection \<open>Selection\<close>

text \<open>
  The loop over the scores that share the first value, with what it looks up for each: the
  weights for the least-cost tie break, the price for the least-waste one.
\<close>

fun leadingScores :: "(node_score \<Rightarrow> 'b outcome) \<Rightarrow> 64 word \<Rightarrow> node_score list \<Rightarrow> 'b list outcome" where
  "leadingScores f v [] = Ok []"
| "leadingScores f v (s # ss) =
     (if nscValue s \<noteq> v then Ok []
      else bindO (f s) (\<lambda>x. bindO (leadingScores f v ss) (\<lambda>xs. Ok (x # xs))))"

definition indicesOf :: "'b \<Rightarrow> 'b list \<Rightarrow> nat list" where
  "indicesOf x xs = filter (\<lambda>i. xs ! i = x) [0..<length xs]"

text \<open>\<open>slices.Max\<close> and \<open>slices.Min\<close> panic on an empty slice.\<close>

definition slicesMax :: "float64 list \<Rightarrow> float64 outcome" where
  "slicesMax xs = (case xs of [] \<Rightarrow> Panic ''slices.Max: empty list'' | y # ys \<Rightarrow> Ok (fold max ys y))"

definition slicesMin :: "float64 list \<Rightarrow> float64 outcome" where
  "slicesMin xs = (case xs of [] \<Rightarrow> Panic ''slices.Min: empty list'' | y # ys \<Rightarrow> Ok (fold min ys y))"

definition cmpValueDesc :: "node_score \<Rightarrow> node_score \<Rightarrow> int" where
  "cmpValueDesc a b = compare (sint (nscValue b)) (sint (nscValue a))"

definition cmpValueAsc :: "node_score \<Rightarrow> node_score \<Rightarrow> int" where
  "cmpValueAsc a b = compare (sint (nscValue a)) (sint (nscValue b))"

text \<open>
  The weights are cached by instance type, a later lookup of the same type replacing an earlier
  one, and read back for the normalized allocatable of each leading score.
\<close>

definition normalizedAllocs :: "(quantity \<Rightarrow> float64) \<Rightarrow> node_score list \<Rightarrow> weights list \<Rightarrow> float64 list" where
  "normalizedAllocs approx scores ws =
     (let leading = take (length ws) scores;
          cache = fold (\<lambda>(s, w) m. AList.update (npInstanceType (nscPlacement s)) w m) (zip leading ws) []
      in map (\<lambda>s. getNormalizedAggregate approx (nriAllocatable (nscScaledNodeResource s))
                (case map_of cache (npInstanceType (nscPlacement s)) of Some w \<Rightarrow> w | None \<Rightarrow> [])) leading)"

definition pickAt :: "nat \<Rightarrow> node_score list \<Rightarrow> nat list \<Rightarrow> node_score outcome" where
  "pickAt rnd scores candidates =
     (if candidates = [] then Panic ''invalid argument to IntN''
      else Ok (scores ! (candidates ! (rnd mod length candidates))))"

text \<open>The slice is sorted in place: the second component is what the caller's slice holds after.\<close>

definition LeastCost_Select :: "(quantity \<Rightarrow> float64) \<Rightarrow> nat \<Rightarrow> node_scorer \<Rightarrow> node_score list
    \<Rightarrow> (node_score, node_score list) eff" where
  "LeastCost_Select approx rnd l nodeScores =
     (if length nodeScores = 0 then (Err ErrNoWinningNodeScore, nodeScores)
      else if length nodeScores = 1 then (Ok (nodeScores ! 0), nodeScores)
      else let nodeScores = SortStableFunc cmpValueDesc nodeScores in
        (bindO (leadingScores (\<lambda>s. scWeigher l (npInstanceType (nscPlacement s))) (nscValue (nodeScores ! 0)) nodeScores)
          (\<lambda>ws. let allocs = normalizedAllocs approx nodeScores ws in
             bindO (slicesMax allocs) (\<lambda>maxAlloc. pickAt rnd nodeScores (indicesOf maxAlloc allocs))),
         nodeScores))"

definition LeastWaste_Select :: "nat \<Rightarrow> node_scorer \<Rightarrow> node_score list
    \<Rightarrow> (node_score, node_score list) eff" where
  "LeastWaste_Select rnd l nodeScores =
     (if length nodeScores = 0 then (Err ErrNoWinningNodeScore, nodeScores)
      else if length nodeScores = 1 then (Ok (nodeScores ! 0), nodeScores)
      else let nodeScores = SortStableFunc cmpValueAsc nodeScores in
        (bindO (leadingScores (\<lambda>s. bindO (scPricing l (npRegion (nscPlacement s)) (npInstanceType (nscPlacement s)))
                   (\<lambda>info. Ok (ipHourlyPrice info))) (nscValue (nodeScores ! 0)) nodeScores)
          (\<lambda>prices. bindO (slicesMin prices) (\<lambda>minPrice. pickAt rnd nodeScores (indicesOf minPrice prices))),
         nodeScores))"

definition Select :: "(quantity \<Rightarrow> float64) \<Rightarrow> nat \<Rightarrow> node_scorer \<Rightarrow> node_score list
    \<Rightarrow> (node_score, node_score list) eff" where
  "Select approx rnd l nodeScores = (case scKind l of
     LeastCost \<Rightarrow> LeastCost_Select approx rnd l nodeScores | LeastWaste \<Rightarrow> LeastWaste_Select rnd l nodeScores)"

end
