(* ===== verification/ScoreProps.thy ===== *)
theory ScoreProps
  imports Scoring
begin

text \<open>
  What node scoring guarantees: a score carries the identity of the simulation it was computed
  for, a cheaper instance type never scores worse, and selection returns a best score of those
  it was given. The contract the simulator relies on is the locale \<open>node_scoring\<close>.
\<close>

subsection \<open>Sorting\<close>

interpretation vd: three_way cmpValueDesc
  by unfold_locales (auto simp: cmpValueDesc_def)

interpretation va: three_way cmpValueAsc
  by unfold_locales (auto simp: cmpValueAsc_def)

interpretation pd: three_way CmpPriorityKeyDecreasing
  by unfold_locales (auto simp: linear)

subsection \<open>Leading scores\<close>

lemma leadingScores_Ok:
  assumes "\<forall>s\<in>set ss. \<exists>x. f s = Ok x"
  obtains xs where "leadingScores f v ss = Ok xs" "map f (takeWhile (\<lambda>s. nscValue s = v) ss) = map Ok xs"
proof -
  have "\<exists>xs. leadingScores f v ss = Ok xs \<and> map f (takeWhile (\<lambda>s. nscValue s = v) ss) = map Ok xs"
    using assms
  proof (induction ss)
    case (Cons s ss)
    then obtain x xs where "f s = Ok x" "leadingScores f v ss = Ok xs"
      "map f (takeWhile (\<lambda>s. nscValue s = v) ss) = map Ok xs" by auto
    then show ?case by (cases "nscValue s = v") (auto intro: exI [of _ "x # xs"])
  qed simp
  then show thesis using that by blast
qed

lemma slicesMax_Ok:
  assumes "xs \<noteq> []"
  obtains m where "slicesMax xs = Ok m" "m \<in> set xs" "\<forall>x\<in>set xs. x \<le> m"
proof -
  obtain y ys where xs: "xs = y # ys" using assms by (cases xs) auto
  have "fold max ys y = Max (set xs)" unfolding xs by (rule Max.set_eq_fold [symmetric])
  then have "slicesMax xs = Ok (Max (set xs))" by (simp add: slicesMax_def xs)
  moreover have "Max (set xs) \<in> set xs" "\<forall>x\<in>set xs. x \<le> Max (set xs)" using Max_in [of "set xs"] assms by auto
  ultimately show thesis by (rule that)
qed

lemma slicesMin_Ok:
  assumes "xs \<noteq> []"
  obtains m where "slicesMin xs = Ok m" "m \<in> set xs" "\<forall>x\<in>set xs. m \<le> x"
proof -
  obtain y ys where xs: "xs = y # ys" using assms by (cases xs) auto
  have "fold min ys y = Min (set xs)" unfolding xs by (rule Min.set_eq_fold [symmetric])
  then have "slicesMin xs = Ok (Min (set xs))" by (simp add: slicesMin_def xs)
  moreover have "Min (set xs) \<in> set xs" "\<forall>x\<in>set xs. Min (set xs) \<le> x" using Min_in [of "set xs"] assms by auto
  ultimately show thesis by (rule that)
qed

lemma pickAt_Ok:
  assumes "m \<in> set ys"
  obtains i where "pickAt rnd scores (indicesOf m ys) = Ok (scores ! i)" "i < length ys" "ys ! i = m"
proof -
  let ?c = "indicesOf m ys"
  have ne: "?c \<noteq> []" using assms by (auto simp: indicesOf_def filter_empty_conv in_set_conv_nth)
  let ?i = "?c ! (rnd mod length ?c)"
  have "?i \<in> set ?c" using ne by simp
  then have "?i < length ys" "ys ! ?i = m" by (auto simp: indicesOf_def)
  then show thesis using that ne by (simp add: pickAt_def)
qed

text \<open>
  Among scores sorted by a value, the leading ones are exactly those with the best value.
\<close>

lemma leading_best:
  fixes val :: "node_score \<Rightarrow> int"
  assumes "sorted (map val ss)" and "\<And>a b. nscValue a = nscValue b \<longleftrightarrow> val a = val b"
  defines "lead \<equiv> takeWhile (\<lambda>s. nscValue s = nscValue (ss ! 0)) ss"
  shows "s \<in> set lead \<longleftrightarrow> s \<in> set ss \<and> (\<forall>t\<in>set ss. val s \<le> val t)"
    and "i < length lead \<Longrightarrow> ss ! i = lead ! i"
proof -
  show "i < length lead \<Longrightarrow> ss ! i = lead ! i" by (simp add: lead_def takeWhile_nth)
  show "s \<in> set lead \<longleftrightarrow> s \<in> set ss \<and> (\<forall>t\<in>set ss. val s \<le> val t)"
  proof (cases ss)
    case (Cons a rest)
    have first: "\<forall>t\<in>set ss. val a \<le> val t" using assms(1) Cons by auto
    have lead: "lead = takeWhile (\<lambda>s. val s = val a) ss" by (simp add: lead_def assms(2) Cons)
    have "set (takeWhile (\<lambda>s. val s = val a) xs) = {s \<in> set xs. val s = val a}"
      if "sorted (map val xs)" "\<forall>x\<in>set xs. val a \<le> val x" for xs
      using that by (induction xs) force+
    from this [OF assms(1) first] have "set lead = {s \<in> set ss. val s = val a}" by (simp add: lead)
    then show ?thesis using first Cons by (auto intro: antisym)
  qed (simp add: lead_def)
qed

text \<open>The selection of either scorer: among the best values, one with an extreme attribute.\<close>

lemma pick_best:
  fixes val :: "node_score \<Rightarrow> int"
  assumes sorted: "sorted (map val ss)" and inj: "\<And>a b. nscValue a = nscValue b \<longleftrightarrow> val a = val b"
    and i: "i < length ys" and ys: "ys = map key (takeWhile (\<lambda>s. nscValue s = nscValue (ss ! 0)) ss)"
  shows "ss ! i \<in> set ss" "\<forall>t\<in>set ss. val (ss ! i) \<le> val t" "key (ss ! i) = ys ! i"
    "t \<in> set ss \<Longrightarrow> nscValue t = nscValue (ss ! i) \<Longrightarrow> key t \<in> set ys"
proof -
  let ?lead = "takeWhile (\<lambda>s. nscValue s = nscValue (ss ! 0)) ss"
  note best = leading_best [where val = val, OF sorted inj]
  have il: "i < length ?lead" using i ys by simp
  then have "ss ! i \<in> set ?lead" using best(2) by simp
  then have b: "ss ! i \<in> set ss \<and> (\<forall>t\<in>set ss. val (ss ! i) \<le> val t)" using best(1) by blast
  then show "ss ! i \<in> set ss" "\<forall>t\<in>set ss. val (ss ! i) \<le> val t" by simp_all
  show "key (ss ! i) = ys ! i" using il best(2) ys by simp
  show "key t \<in> set ys" if "t \<in> set ss" "nscValue t = nscValue (ss ! i)"
  proof -
    have "val t = val (ss ! i)" using that(2) inj by blast
    then have "t \<in> set ?lead" using that(1) b best(1) by metis
    then show ?thesis using ys by simp
  qed
qed

lemma sint_value_inj: "nscValue a = nscValue b \<longleftrightarrow> sint (nscValue a) = sint (nscValue b)"
  by (rule word_eq_iff_signed)

lemma sorted_desc: "sorted (map (\<lambda>s. - sint (nscValue s)) (SortStableFunc cmpValueDesc ss))"
  using vd.sorted_SortStableFunc [of ss] by (simp add: sorted_map cmpValueDesc_def)

lemma sorted_asc: "sorted (map (\<lambda>s. sint (nscValue s)) (SortStableFunc cmpValueAsc ss))"
  using va.sorted_SortStableFunc [of ss] by (simp add: sorted_map cmpValueAsc_def)

subsection \<open>The normalized allocatable of a score\<close>

definition allocOf :: "(quantity \<Rightarrow> float64) \<Rightarrow> weigher \<Rightarrow> node_score \<Rightarrow> float64" where
  "allocOf approx weigher s = (case weigher (npInstanceType (nscPlacement s)) of
     Ok w \<Rightarrow> getNormalizedAggregate approx (nriAllocatable (nscScaledNodeResource s)) w | _ \<Rightarrow> 0)"

lemma cache_lookup:
  fixes weigher :: weigher
  assumes "map (\<lambda>s. weigher (npInstanceType (nscPlacement s))) ss = map Ok ws"
    and "\<forall>k w. map_of m k = Some w \<longrightarrow> weigher k = Ok w"
  defines "upd \<equiv> \<lambda>(s, w) m. AList.update (npInstanceType (nscPlacement s)) w m"
  shows "(\<forall>k w. map_of (fold upd (zip ss ws) m) k = Some w \<longrightarrow> weigher k = Ok w) \<and>
    (\<forall>k. k \<in> dom (map_of m) \<union> (\<lambda>s. npInstanceType (nscPlacement s)) ` set ss \<longrightarrow>
       map_of (fold upd (zip ss ws) m) k \<noteq> None)"
  using assms(1,2)
proof (induction ss arbitrary: ws m)
  case (Cons s ss)
  obtain w ws' where ws: "ws = w # ws'" "weigher (npInstanceType (nscPlacement s)) = Ok w"
    "map (\<lambda>s. weigher (npInstanceType (nscPlacement s))) ss = map Ok ws'"
    using Cons.prems(1) by (cases ws) auto
  let ?m = "AList.update (npInstanceType (nscPlacement s)) w m"
  have "\<forall>k w. map_of ?m k = Some w \<longrightarrow> weigher k = Ok w"
    using Cons.prems(2) ws(2) by (auto simp: update_conv' split: if_splits)
  from Cons.IH [OF ws(3) this] show ?case unfolding ws(1) by (simp add: upd_def update_conv' dom_def)
qed auto

lemma normalizedAllocs_eq:
  assumes "map (\<lambda>s. scWeigher l (npInstanceType (nscPlacement s))) lead = map Ok ws"
    and "lead = take (length lead) scores"
  shows "normalizedAllocs approx scores ws = map (allocOf approx (scWeigher l)) lead"
proof -
  have len: "length ws = length lead" using assms(1) by (metis length_map)
  let ?cache = "fold (\<lambda>(s, w) m. AList.update (npInstanceType (nscPlacement s)) w m) (zip lead ws) []"
  note c = cache_lookup [OF assms(1), of "[]"]
  have "(case map_of ?cache (npInstanceType (nscPlacement s)) of Some w \<Rightarrow> w | None \<Rightarrow> []) = w"
    if "s \<in> set lead" "scWeigher l (npInstanceType (nscPlacement s)) = Ok w" for s w
    using c that by (force split: option.split)
  moreover have "\<exists>w. scWeigher l (npInstanceType (nscPlacement s)) = Ok w" if "s \<in> set lead" for s
    using assms(1) that by (metis (no_types, lifting) ex_map_conv list.set_map image_eqI imageE)
  ultimately have "allocOf approx (scWeigher l) s = getNormalizedAggregate approx (nriAllocatable (nscScaledNodeResource s))
      (case map_of ?cache (npInstanceType (nscPlacement s)) of Some w \<Rightarrow> w | None \<Rightarrow> [])" if "s \<in> set lead" for s
    using that by (force simp: allocOf_def)
  then show ?thesis
    unfolding normalizedAllocs_def Let_def len assms(2) [symmetric] by (intro map_cong) simp_all
qed

subsection \<open>Selection\<close>

lemma LeastCost_Select_eq:
  assumes "2 \<le> length scores" and "\<forall>s\<in>set scores. \<exists>w. scWeigher l (npInstanceType (nscPlacement s)) = Ok w"
  obtains s where "LeastCost_Select approx rnd l scores = (Ok s, SortStableFunc cmpValueDesc scores)"
    "s \<in> set scores" "\<forall>t\<in>set scores. sint (nscValue t) \<le> sint (nscValue s)"
    "\<forall>t\<in>set scores. nscValue t = nscValue s \<longrightarrow> allocOf approx (scWeigher l) t \<le> allocOf approx (scWeigher l) s"
proof -
  let ?ss = "SortStableFunc cmpValueDesc scores"
  let ?lead = "takeWhile (\<lambda>s. nscValue s = nscValue (?ss ! 0)) ?ss"
  let ?f = "\<lambda>s. scWeigher l (npInstanceType (nscPlacement s))"
  have set: "set ?ss = set scores" by (rule vd.set_SortStableFunc)
  have ne: "?ss \<noteq> []" using assms(1) set by auto
  have two: "scores \<noteq> []" "length scores \<noteq> Suc 0" using assms(1) by auto
  obtain ws where ws: "leadingScores ?f (nscValue (?ss ! 0)) ?ss = Ok ws" "map ?f ?lead = map Ok ws"
    using leadingScores_Ok [of ?ss ?f "nscValue (?ss ! 0)"] assms(2) set by auto
  define ys where "ys = map (allocOf approx (scWeigher l)) ?lead"
  have allocs: "normalizedAllocs approx ?ss ws = ys"
    unfolding ys_def by (rule normalizedAllocs_eq [OF ws(2)]) (rule takeWhile_eq_take)
  have "ys \<noteq> []" using ne by (cases ?ss) (simp_all add: ys_def)
  then obtain m where m: "slicesMax ys = Ok m" "m \<in> set ys" "\<forall>y\<in>set ys. y \<le> m" by (rule slicesMax_Ok)
  obtain i where i: "pickAt rnd ?ss (indicesOf m ys) = Ok (?ss ! i)" "i < length ys" "ys ! i = m"
    using pickAt_Ok [OF m(2)] .
  have inj: "\<And>a b. nscValue a = nscValue b \<longleftrightarrow> - sint (nscValue a) = - sint (nscValue b)"
    using sint_value_inj by simp
  note best = pick_best [OF sorted_desc inj i(2) ys_def]
  show thesis
  proof (rule that [of "?ss ! i"])
    show "LeastCost_Select approx rnd l scores = (Ok (?ss ! i), ?ss)"
      using two ws(1) allocs m(1) i(1) by (simp add: LeastCost_Select_def Let_def)
    show "?ss ! i \<in> set scores" "\<forall>t\<in>set scores. sint (nscValue t) \<le> sint (nscValue (?ss ! i))"
      using best(1,2) set by auto
    show "\<forall>t\<in>set scores. nscValue t = nscValue (?ss ! i) \<longrightarrow>
        allocOf approx (scWeigher l) t \<le> allocOf approx (scWeigher l) (?ss ! i)"
      using best(3,4) set m(3) i(3) by auto
  qed
qed

lemma LeastWaste_Select_eq:
  assumes "2 \<le> length scores"
    and "\<forall>s\<in>set scores. scPricing l (npRegion (nscPlacement s)) (npInstanceType (nscPlacement s)) = Ok (info s)"
  obtains s where "LeastWaste_Select rnd l scores = (Ok s, SortStableFunc cmpValueAsc scores)"
    "s \<in> set scores" "\<forall>t\<in>set scores. sint (nscValue s) \<le> sint (nscValue t)"
    "\<forall>t\<in>set scores. nscValue t = nscValue s \<longrightarrow> ipHourlyPrice (info s) \<le> ipHourlyPrice (info t)"
proof -
  let ?ss = "SortStableFunc cmpValueAsc scores"
  let ?lead = "takeWhile (\<lambda>s. nscValue s = nscValue (?ss ! 0)) ?ss"
  let ?f = "\<lambda>s. bindO (scPricing l (npRegion (nscPlacement s)) (npInstanceType (nscPlacement s)))
      (\<lambda>info. Ok (ipHourlyPrice info))"
  have set: "set ?ss = set scores" by (rule va.set_SortStableFunc)
  have ne: "?ss \<noteq> []" using assms(1) set by auto
  have two: "scores \<noteq> []" "length scores \<noteq> Suc 0" using assms(1) by auto
  have f: "?f s = Ok (ipHourlyPrice (info s))" if "s \<in> set ?ss" for s using assms(2) set that by simp
  obtain ps where ps: "leadingScores ?f (nscValue (?ss ! 0)) ?ss = Ok ps" "map ?f ?lead = map Ok ps"
    using leadingScores_Ok [of ?ss ?f "nscValue (?ss ! 0)"] f by auto
  have "map Ok ps = map (\<lambda>s. Ok (ipHourlyPrice (info s))) ?lead"
    unfolding ps(2) [symmetric] using f by (intro map_cong) (auto dest: set_takeWhileD)
  then have ps': "ps = map (\<lambda>s. ipHourlyPrice (info s)) ?lead"
    using inj_map_eq_map [of Ok ps "map (\<lambda>s. ipHourlyPrice (info s)) ?lead"] by (simp add: inj_def comp_def)
  have "ps \<noteq> []" using ne by (cases ?ss) (simp_all add: ps')
  then obtain m where m: "slicesMin ps = Ok m" "m \<in> set ps" "\<forall>y\<in>set ps. m \<le> y" by (rule slicesMin_Ok)
  obtain i where i: "pickAt rnd ?ss (indicesOf m ps) = Ok (?ss ! i)" "i < length ps" "ps ! i = m"
    using pickAt_Ok [OF m(2)] .
  note best = pick_best [OF sorted_asc sint_value_inj i(2) ps']
  show thesis
  proof (rule that [of "?ss ! i"])
    show "LeastWaste_Select rnd l scores = (Ok (?ss ! i), ?ss)"
      using two ps(1) m(1) i(1) by (simp add: LeastWaste_Select_def Let_def)
    show "?ss ! i \<in> set scores" "\<forall>t\<in>set scores. sint (nscValue (?ss ! i)) \<le> sint (nscValue t)"
      using best(1,2) set by auto
    show "\<forall>t\<in>set scores. nscValue t = nscValue (?ss ! i) \<longrightarrow>
        ipHourlyPrice (info (?ss ! i)) \<le> ipHourlyPrice (info t)"
      using best(3,4) set m(3) i(3) by auto
  qed
qed

subsection \<open>The contract\<close>

text \<open>
  What the simulator relies on: a score names the simulation and the leftover pods it was computed
  from, and selection returns one of the scores it was given.
\<close>

locale node_scoring =
  fixes compute :: "node_scorer_args \<Rightarrow> node_score outcome" and select :: "node_score list \<Rightarrow> node_score outcome"
  assumes compute_id: "compute args = Ok s \<Longrightarrow> nscName s = nsaID args \<and>
      nscPlacement s = nsaScaledNodePlacement args \<and> nscUnscheduledPods s = nsaLeftOverUnscheduledPods args"
    and select_member: "select ss = Ok s \<Longrightarrow> s \<in> set ss"
begin

text \<open>A winner selected among computed scores comes from one of the computations.\<close>

lemma winner_origin:
  assumes "list_all2 (\<lambda>args s. compute args = Ok s) argss ss" "select ss = Ok s"
  shows "\<exists>args\<in>set argss. compute args = Ok s \<and> nscName s = nsaID args \<and>
    nscUnscheduledPods s = nsaLeftOverUnscheduledPods args"
proof -
  obtain i where i: "i < length ss" "ss ! i = s"
    using select_member [OF assms(2)] by (auto simp: in_set_conv_nth)
  then have "compute (argss ! i) = Ok s" "argss ! i \<in> set argss"
    using assms(1) by (auto simp: list_all2_conv_all_nth)
  then show ?thesis using compute_id by blast
qed

end

lemma computeErr_Ok [simp]: "computeErr r = Ok s \<longleftrightarrow> r = Ok s"
  by (cases r) (simp_all add: computeErr_def)

lemma Compute_score:
  assumes "Compute approx l args = Ok s"
  shows "\<exists>scaled v. nsaScaledNodePodAssignment args = Some scaled \<and> s = mkScore args scaled v"
  using assms
  by (auto simp: Compute_def LeastCost_Compute_def LeastWaste_Compute_def Let_def bindO_def
      split: scorer_kind.splits option.splits outcome.splits)

lemma pickAt_member:
  assumes "pickAt rnd scores (indicesOf m ys) = Ok s" "length ys \<le> length scores"
  shows "s \<in> set scores"
proof -
  let ?c = "indicesOf m ys"
  have ne: "?c \<noteq> []" using assms(1) by (auto simp: pickAt_def)
  have "?c ! (rnd mod length ?c) \<in> set ?c" using ne by simp
  then have "?c ! (rnd mod length ?c) < length scores" using assms(2) by (auto simp: indicesOf_def)
  then show ?thesis using assms(1) ne by (auto simp: pickAt_def)
qed

lemma leadingScores_length: "leadingScores f v ss = Ok xs \<Longrightarrow> length xs \<le> length ss"
  by (induction ss arbitrary: xs) (auto simp: bindO_def split: if_splits outcome.splits)

lemma Select_member:
  assumes "fst (Select approx rnd l ss) = Ok s"
  shows "s \<in> set ss"
proof (cases "length ss < 2")
  case True
  then show ?thesis
    using assms by (cases ss; cases "scKind l") (auto simp: Select_def LeastCost_Select_def LeastWaste_Select_def)
next
  case False
  have len: "length (normalizedAllocs approx xs ws) \<le> length xs" for xs ws
    by (simp add: normalizedAllocs_def Let_def)
  have "s \<in> set (SortStableFunc cmpValueDesc ss) \<or> s \<in> set (SortStableFunc cmpValueAsc ss)"
    using assms False len
    by (auto simp: Select_def LeastCost_Select_def LeastWaste_Select_def Let_def bindO_def
        split: scorer_kind.splits if_splits outcome.splits
        dest!: leadingScores_length dest: pickAt_member)
  then show ?thesis by (simp add: vd.set_SortStableFunc va.set_SortStableFunc)
qed

interpretation ns: node_scoring "Compute approx l" "\<lambda>ss. fst (Select approx rnd l ss)" for approx l rnd
  by unfold_locales (auto dest: Compute_score Select_member simp: mkScore_def)

subsection \<open>Values\<close>

lemma floatToInt_mono:
  assumes "x \<le> y" "0 \<le> x" "y < 2 ^ 62 + 1"
  shows "sint (word_of_int (floatToInt x) :: 64 word) \<le> sint (word_of_int (floatToInt y) :: 64 word)"
proof -
  have r: "0 \<le> truncInt z" "truncInt z < 2 ^ 63" if "0 \<le> z" "z < 2 ^ 62 + 1" for z :: rat
  proof -
    show "0 \<le> truncInt z" using that by (simp add: truncInt_def)
    have "z < of_int (2 ^ 63)" using that(2) by (rule less_le_trans) simp
    then show "truncInt z < 2 ^ 63" using that(1) unfolding truncInt_def by (simp only: floor_less_iff if_True)
  qed
  have s: "sint (word_of_int (floatToInt z) :: 64 word) = truncInt z" if "0 \<le> z" "z < 2 ^ 62 + 1" for z
    using r [OF that] by (simp add: floatToInt_def Let_def signed_of_int signed_take_bit_int_eq_self)
  show ?thesis using truncInt_mono [OF assms(1)] assms by (simp add: s)
qed

lemma mathRound_bounds: "0 \<le> x \<Longrightarrow> 0 \<le> mathRound x" "x < 2 ^ 62 \<Longrightarrow> 0 \<le> x \<Longrightarrow> mathRound x < 2 ^ 62 + 1"
proof -
  show "0 \<le> x \<Longrightarrow> 0 \<le> mathRound x" by (simp add: mathRound_def)
  assume x: "x < 2 ^ 62" "0 \<le> x"
  have "of_int \<lfloor>x + 1 / 2\<rfloor> \<le> x + 1 / 2" by (rule of_int_floor_le)
  then show "mathRound x < 2 ^ 62 + 1" using x unfolding mathRound_def by simp
qed

lemma leastCostValue_antimono:
  assumes "0 \<le> nru" "0 < p" "p \<le> q" "fdiv (fmul nru 100) p < 2 ^ 62"
  shows "sint (leastCostValue nru q) \<le> sint (leastCostValue nru p)"
proof -
  let ?x = "fdiv (fmul nru 100) p" and ?y = "fdiv (fmul nru 100) q"
  have a: "0 \<le> fmul nru 100" using assms(1) by (simp add: fmul_def roundF_nonneg)
  then have "?y \<le> ?x" "0 \<le> ?y" "0 \<le> ?x"
    using assms(2,3) by (simp_all add: fdiv_antimono) (simp_all add: fdiv_def roundF_nonneg)
  then have "mathRound ?y \<le> mathRound ?x" "0 \<le> mathRound ?y" "mathRound ?x < 2 ^ 62 + 1"
    using assms(4) mathRound_mono mathRound_bounds by auto
  from floatToInt_mono [OF this] show ?thesis using assms(2,3) by (simp add: leastCostValue_def)
qed

subsection \<open>Aggregates\<close>

lemma addPodRequests_addRequests: "addPodRequests req agg = addRequests req agg"
  unfolding addPodRequests_def addRequests_def
  by (rule arg_cong [where f = "\<lambda>f. fold f req agg"]) (auto simp: fun_eq_iff split: option.split)

lemma aggregated_sum:
  assumes "\<forall>p\<in>set pods. wf_map (priAggregatedRequests p)"
  shows "requested (fold (\<lambda>pod. addPodRequests (priAggregatedRequests pod)) pods agg) k =
     requested agg k + (\<Sum>p\<leftarrow>pods. requested (priAggregatedRequests p) k)"
  using assms by (induction pods arbitrary: agg) (simp_all add: addPodRequests_addRequests requested_addRequests)

lemma aggregated_wf:
  "wf_map agg \<Longrightarrow> wf_map (fold (\<lambda>pod. addPodRequests (priAggregatedRequests pod)) pods agg)"
proof (induction pods arbitrary: agg)
  case (Cons p pods)
  have "wf_map (addRequests req agg)" if "wf_map agg" for req agg
    using that unfolding addRequests_def by (induction req arbitrary: agg) auto
  with Cons show ?case by (simp add: addPodRequests_addRequests)
qed simp

lemma single: "length xs = 1 \<Longrightarrow> \<exists>x. xs = [x]"
  by (cases xs) auto

subsection \<open>A concrete scorer\<close>

text \<open>Two instance types at prices 2 and 4; a quantity's approximation is its number of units.\<close>

definition demoPlacement :: "string \<Rightarrow> node_placement" where
  "demoPlacement it = \<lparr>npPoolName = ''pool'', npTemplateName = ''tmpl'', npInstanceType = it,
     npRegion = ''r'', npAvailabilityZone = ''z''\<rparr>"

definition demoInfo :: "string \<Rightarrow> instance_price_info" where
  "demoInfo it = \<lparr>ipInstanceType = it, ipRegion = ''r'', ipOS = ''linux'', ipMemory = 0, ipGPUMemory = 0,
     ipHourlyPrice = (if it = ''small'' then 2 else 4), ipGPU = 0, ipVCPU = 0\<rparr>"

definition demoScorer :: "scorer_kind \<Rightarrow> node_scorer" where
  "demoScorer k = \<lparr>scKind = k, scPricing = (\<lambda>_ it. Ok (demoInfo it)), scWeigher = GetWeights\<rparr>"

definition demoAssignment :: node_pod_assignment where
  "demoAssignment = \<lparr>npaNodeResources = \<lparr>nriCapacity = [(''cpu'', 4)], nriAllocatable = [(''cpu'', 4)],
       nriName = ''n'', nriInstanceType = ''small''\<rparr>,
     npaScheduledPods = [\<lparr>priName = \<lparr>nnNamespace = ''d'', nnName = ''p''\<rparr>, priAggregatedRequests = [(''cpu'', 1)]\<rparr>]\<rparr>"

definition demoArgs :: "string \<Rightarrow> node_scorer_args" where
  "demoArgs it = \<lparr>nsaID = it, nsaScaledNodePlacement = demoPlacement it,
     nsaScaledNodePodAssignment = Some demoAssignment, nsaOtherNodePodAssignments = [],
     nsaLeftOverUnscheduledPods = []\<rparr>"

lemmas demo_score_defs = demoPlacement_def demoInfo_def demoScorer_def demoAssignment_def demoArgs_def

lemma roundF_samples: "roundF 9 = 9" "roundF 900 = 900" "roundF 450 = 450" "roundF 225 = 225"
  by code_simp+

lemma demo_aggregate:
  "getNormalizedAggregate of_int (getAggregatedScheduledPodsResources (Some demoAssignment) []) createDefaultWeights = 9"
  by (simp add: demoAssignment_def getAggregatedScheduledPodsResources_def addPodRequests_def
      getNormalizedAggregate_def createDefaultWeights_def fadd_def fmul_def roundF_samples)

subsection \<open>Claims\<close>

text \<open>
  C30. Least-cost selection succeeds on every non-empty slice for which weights are known, and picks,
  whatever the random choice, a score of that slice with the highest value and, among those, the
  largest normalized allocatable. The caller's slice is only reordered.
\<close>

theorem LeastCost_Select_best:
  assumes "scKind l = LeastCost" "scores \<noteq> []"
    and "\<forall>s\<in>set scores. \<exists>w. scWeigher l (npInstanceType (nscPlacement s)) = Ok w"
  shows "\<exists>s scores'. Select approx rnd l scores = (Ok s, scores') \<and> mset scores' = mset scores \<and> s \<in> set scores \<and>
     (\<forall>t\<in>set scores. sint (nscValue t) \<le> sint (nscValue s) \<and>
       (nscValue t = nscValue s \<longrightarrow> allocOf approx (scWeigher l) t \<le> allocOf approx (scWeigher l) s))"
proof (cases "length scores = 1")
  case True
  then show ?thesis using assms(1) single by (fastforce simp: Select_def LeastCost_Select_def)
next
  case False
  then have "2 \<le> length scores" using assms(2) by (cases scores) (auto simp: Suc_le_eq)
  from LeastCost_Select_eq [OF this assms(3)] show ?thesis
    using assms(1) vd.mset_SortStableFunc by (metis Select_def scorer_kind.simps(3))
qed

theorem LeastCost_Select_best_witness:
  "\<exists>s ss. Select of_int 7 (demoScorer LeastCost)
      [mkScore (demoArgs ''small'') demoAssignment 1, mkScore (demoArgs ''large'') demoAssignment 2] = (Ok s, ss) \<and>
     nscName s = ''large''"
proof -
  let ?a = "mkScore (demoArgs ''small'') demoAssignment 1" and ?b = "mkScore (demoArgs ''large'') demoAssignment 2"
  have "scKind (demoScorer LeastCost) = LeastCost"
    "\<forall>s\<in>set [?a, ?b]. \<exists>w. scWeigher (demoScorer LeastCost) (npInstanceType (nscPlacement s)) = Ok w"
    by (simp_all add: demoScorer_def GetWeights_def)
  from LeastCost_Select_best [OF this(1) _ this(2), of of_int 7] obtain s ss where
    s: "Select of_int 7 (demoScorer LeastCost) [?a, ?b] = (Ok s, ss)" "s \<in> {?a, ?b}"
      "sint (nscValue ?b) \<le> sint (nscValue s)" by auto
  then have "s = ?b" by (auto simp: mkScore_def)
  with s(1) show ?thesis by (auto simp: mkScore_def demoArgs_def)
qed

text \<open>
  Least-waste selection succeeds on every non-empty slice whose instance types have a price, and
  picks a score of that slice with the smallest waste and, among those, the lowest hourly price.
\<close>

theorem LeastWaste_Select_best:
  assumes "scKind l = LeastWaste" "scores \<noteq> []"
    and "\<forall>s\<in>set scores. scPricing l (npRegion (nscPlacement s)) (npInstanceType (nscPlacement s)) = Ok (info s)"
  shows "\<exists>s scores'. Select approx rnd l scores = (Ok s, scores') \<and> mset scores' = mset scores \<and> s \<in> set scores \<and>
     (\<forall>t\<in>set scores. sint (nscValue s) \<le> sint (nscValue t) \<and>
       (nscValue t = nscValue s \<longrightarrow> ipHourlyPrice (info s) \<le> ipHourlyPrice (info t)))"
proof (cases "length scores = 1")
  case True
  then show ?thesis using assms(1) single by (fastforce simp: Select_def LeastWaste_Select_def)
next
  case False
  then have "2 \<le> length scores" using assms(2) by (cases scores) (auto simp: Suc_le_eq)
  from LeastWaste_Select_eq [OF this assms(3)] show ?thesis
    using assms(1) va.mset_SortStableFunc by (metis Select_def scorer_kind.simps(4))
qed

theorem LeastWaste_Select_best_witness:
  "\<exists>s ss. Select of_int 7 (demoScorer LeastWaste)
      [mkScore (demoArgs ''large'') demoAssignment 1, mkScore (demoArgs ''small'') demoAssignment 1] = (Ok s, ss) \<and>
     nscName s = ''small''"
proof -
  let ?a = "mkScore (demoArgs ''large'') demoAssignment 1" and ?b = "mkScore (demoArgs ''small'') demoAssignment 1"
  let ?info = "\<lambda>s. demoInfo (npInstanceType (nscPlacement s))"
  have "scKind (demoScorer LeastWaste) = LeastWaste"
    "\<forall>s\<in>set [?a, ?b]. scPricing (demoScorer LeastWaste) (npRegion (nscPlacement s)) (npInstanceType (nscPlacement s)) =
       Ok (?info s)"
    by (simp_all add: demoScorer_def)
  from LeastWaste_Select_best [OF this(1) _ this(2), of of_int 7] obtain s ss where
    s: "Select of_int 7 (demoScorer LeastWaste) [?a, ?b] = (Ok s, ss)" "s \<in> {?a, ?b}"
      "nscValue ?b = nscValue s \<longrightarrow> ipHourlyPrice (?info s) \<le> ipHourlyPrice (?info ?b)" by auto
  then have "s = ?b" by (auto simp: mkScore_def demo_score_defs)
  with s(1) show ?thesis by (auto simp: mkScore_def demoArgs_def)
qed

text \<open>
  A cheaper instance type never scores worse: of two simulations that schedule the same pods and
  whose instance types have the same weights, the one with the lower positive price gets at least
  the value of the other under the least-cost strategy, as long as values fit in an \<open>int\<close>.
\<close>

theorem LeastCost_cheaper:
  assumes "Compute approx l args = Ok s" "Compute approx l args' = Ok s'" "scKind l = LeastCost"
    and "nsaScaledNodePodAssignment args' = nsaScaledNodePodAssignment args"
    and "nsaOtherNodePodAssignments args' = nsaOtherNodePodAssignments args"
    and "scWeigher l (npInstanceType (nsaScaledNodePlacement args)) = Ok w"
    and "scWeigher l (npInstanceType (nsaScaledNodePlacement args')) = Ok w"
    and "scPricing l (npRegion (nsaScaledNodePlacement args)) (npInstanceType (nsaScaledNodePlacement args)) = Ok p"
    and "scPricing l (npRegion (nsaScaledNodePlacement args')) (npInstanceType (nsaScaledNodePlacement args')) = Ok p'"
    and "0 < ipHourlyPrice p" "ipHourlyPrice p \<le> ipHourlyPrice p'"
    and "0 \<le> getNormalizedAggregate approx (getAggregatedScheduledPodsResources
           (nsaScaledNodePodAssignment args) (nsaOtherNodePodAssignments args)) w"
    and "fdiv (fmul (getNormalizedAggregate approx (getAggregatedScheduledPodsResources
           (nsaScaledNodePodAssignment args) (nsaOtherNodePodAssignments args)) w) 100) (ipHourlyPrice p) < 2 ^ 62"
  shows "sint (nscValue s') \<le> sint (nscValue s)"
proof -
  let ?nru = "getNormalizedAggregate approx (getAggregatedScheduledPodsResources
           (nsaScaledNodePodAssignment args) (nsaOtherNodePodAssignments args)) w"
  have v: "nscValue s = leastCostValue ?nru (ipHourlyPrice p)" "nscValue s' = leastCostValue ?nru (ipHourlyPrice p')"
    using assms(1-9) by (auto simp: Compute_def LeastCost_Compute_def mkScore_def Let_def split: option.splits)
  show ?thesis unfolding v by (rule leastCostValue_antimono [OF assms(12,10,11,13)])
qed

theorem LeastCost_cheaper_witness:
  "\<exists>s s'. Compute of_int (demoScorer LeastCost) (demoArgs ''small'') = Ok s \<and>
     Compute of_int (demoScorer LeastCost) (demoArgs ''large'') = Ok s' \<and> sint (nscValue s') \<le> sint (nscValue s)"
proof -
  have "\<exists>s. Compute of_int (demoScorer LeastCost) (demoArgs it) = Ok s" for it
    by (simp add: Compute_def LeastCost_Compute_def demo_score_defs GetWeights_def computeErr_def Let_def)
  then obtain s s' where s: "Compute of_int (demoScorer LeastCost) (demoArgs ''small'') = Ok s"
    "Compute of_int (demoScorer LeastCost) (demoArgs ''large'') = Ok s'" by metis
  have "sint (nscValue s') \<le> sint (nscValue s)"
    by (rule LeastCost_cheaper [OF s, of createDefaultWeights "demoInfo ''small''" "demoInfo ''large''"])
      (simp_all add: demoScorer_def demoArgs_def GetWeights_def demo_aggregate,
       simp_all add: demoInfo_def demoPlacement_def fdiv_def fmul_def roundF_samples)
  with s show ?thesis by blast
qed

text \<open>
  The waste a least-waste score is computed from is, for every resource of the candidate node,
  its allocatable less everything requested by the pods scheduled in the simulation, on the new
  node or elsewhere; other resources do not count.
\<close>

theorem wastageOf_spec:
  assumes "\<forall>p\<in>set (npaScheduledPods scaled @ concat (map npaScheduledPods (nsaOtherNodePodAssignments args))).
      wf_map (priAggregatedRequests p)"
  shows "map_of (wastageOf scaled args) k = map_option (\<lambda>q. q -
     (\<Sum>p\<leftarrow>npaScheduledPods scaled @ concat (map npaScheduledPods (nsaOtherNodePodAssignments args)).
        requested (priAggregatedRequests p) k)) (map_of (nriAllocatable (npaNodeResources scaled)) k)"
proof -
  let ?pods = "npaScheduledPods scaled @ concat (map npaScheduledPods (nsaOtherNodePodAssignments args))"
  let ?agg = "fold (\<lambda>pod. addPodRequests (priAggregatedRequests pod)) ?pods []"
  have agg: "getAggregatedScheduledPodsResources (Some scaled) (nsaOtherNodePodAssignments args) = ?agg"
    by (simp add: getAggregatedScheduledPodsResources_def)
  have "requested ?agg k = (\<Sum>p\<leftarrow>?pods. requested (priAggregatedRequests p) k)"
    unfolding aggregated_sum [OF assms] by (simp add: requested_def)
  then show ?thesis
    unfolding wastageOf_def agg map_of_SubtractResources [OF aggregated_wf, of "[]", simplified] by simp
qed

theorem wastageOf_spec_witness:
  "map_of (wastageOf demoAssignment (demoArgs ''small'')) ''cpu'' = Some 3"
  by (subst wastageOf_spec) (simp_all add: demo_score_defs requested_def)

end
