(* ===== verification/Volumes.thy ===== *)
theory Volumes
  imports ViewProps
begin

text \<open>
  Claims and volumes, \<open>src/common/volutil/volutil.go\<close>, and the listing helpers of
  \<open>src/common/viewutil/viewutil.go\<close>. Listed objects are the pointers the view hands out. Library
  functions are arguments: \<open>isDefault\<close> is \<open>storageutil.IsDefaultAnnotation\<close> and \<open>fm\<close> is
  \<open>storagevolume.FindMatchingVolume\<close> (claim, volumes, excluded volumes by name). Diagnostics dumps
  are off.
\<close>

abbreviation pvGVK :: gvk where "pvGVK \<equiv> GVK PersistentVolumesDescriptor"
abbreviation pvcGVK :: gvk where "pvcGVK \<equiv> GVK PersistentVolumeClaimsDescriptor"

type_synonym cxs = "nat \<Rightarrow> ctxs"
type_synonym volume_finder = "kobj \<Rightarrow> (addr \<times> kobj) list \<Rightarrow> (string, addr) gomap \<Rightarrow> addr option outcome"

definition ErrBindClaimVolume :: goerr where "ErrBindClaimVolume = Sentinel ''ErrBindClaimVolume''"
definition ErrProvisionVolume :: goerr where "ErrProvisionVolume = Sentinel ''ErrProvisionVolume''"

definition AnnSelectedNode :: string where "AnnSelectedNode = ''volume.kubernetes.io/selected-node''"
definition AnnBindCompleted :: string where "AnnBindCompleted = ''pv.kubernetes.io/bind-completed''"
definition AnnBoundByController :: string where "AnnBoundByController = ''pv.kubernetes.io/bound-by-controller''"
definition AnnDynamicallyProvisioned :: string where
  "AnnDynamicallyProvisioned = ''pv.kubernetes.io/provisioned-by''"

subsection \<open>Listing helpers\<close>

definition ListUnscheduledPods :: "ctxs \<Rightarrow> view \<Rightarrow> world \<Rightarrow> kobj list outcome" where
  "ListUnscheduledPods cx v w =
     bindO (ListPods cx v MatchAllCriteria w) (\<lambda>pods.
       Ok (filter (\<lambda>p. case body p of PodBody sp _ \<Rightarrow> psNodeName sp = [] | _ \<Rightarrow> False) pods))"

fun castAll :: "string \<Rightarrow> world \<Rightarrow> addr list \<Rightarrow> addr list outcome" where
  "castAll k w [] = Ok []"
| "castAll k w (a # as) =
     (if goKind (body (obj w a)) \<noteq> k then Err (Plain ''unexpected object'')
      else bindO (castAll k w as) (\<lambda>r. Ok (a # r)))"

definition ListPersistentVolumes :: "ctxs \<Rightarrow> view \<Rightarrow> world \<Rightarrow> addr list outcome" where
  "ListPersistentVolumes cx v w =
     bindO (View_ListMetaObjects cx v pvGVK MatchAllCriteria w) (\<lambda>(objs, _).
       castAll ''PersistentVolume'' w objs)"

definition ListPersistentVolumeClaims :: "ctxs \<Rightarrow> view \<Rightarrow> world \<Rightarrow> addr list outcome" where
  "ListPersistentVolumeClaims cx v w =
     bindO (View_ListMetaObjects cx v pvcGVK MatchAllCriteria w) (\<lambda>(objs, _).
       castAll ''PersistentVolumeClaim'' w objs)"

definition ListStorageClassesClaimsAndVolumes ::
  "cxs \<Rightarrow> view \<Rightarrow> world \<Rightarrow> (addr list \<times> addr list \<times> addr list) outcome" where
  "ListStorageClassesClaimsAndVolumes cx v w =
     bindO (View_ListMetaObjects (cx 0) v (GVK StorageClassDescriptor) MatchAllCriteria w) (\<lambda>(scObjs, _).
     bindO (castAll ''StorageClass'' w scObjs) (\<lambda>scs.
     bindO (ListPersistentVolumeClaims (cx 1) v w) (\<lambda>pvcs.
     bindO (ListPersistentVolumes (cx 2) v w) (\<lambda>pvs.
       Ok (scs, pvcs, pvs)))))"

definition GetPersistentVolume :: "string \<Rightarrow> view \<Rightarrow> world \<Rightarrow> addr outcome" where
  "GetPersistentVolume nm v w =
     bindO (GetObject v pvGVK \<lparr>onNamespace = [], onName = nm\<rparr> w) (\<lambda>a.
       case body (obj w a) of PVBody _ _ _ \<Rightarrow> Ok a | _ \<Rightarrow> Panic ''interface conversion'')"

subsection \<open>Conversions\<close>

text \<open>\<open>AsPVInfo\<close> reads \<open>pv.Spec.NodeAffinity.Required\<close> without looking whether there is an affinity.\<close>

definition AsPVInfo :: "object_meta \<Rightarrow> pv_spec \<Rightarrow> string \<Rightarrow> pv_info outcome" where
  "AsPVInfo mt sp phase = (case pvNodeAffinity sp of
       None \<Rightarrow> Panic ''nil pointer dereference''
     | Some required \<Rightarrow> Ok
        \<lparr>pviCapacity = pvCapacity sp, pviNodeAffinity = required,
         pviClaimRef = (case pvClaimRef sp of
            Some r \<Rightarrow> \<lparr>nnNamespace = refNamespace r, nnName = refName r\<rparr>
          | None \<Rightarrow> \<lparr>nnNamespace = [], nnName = []\<rparr>),
         pviStorageClassName = pvStorageClassName sp, pviPhase = phase, pviMeta = mt,
         pviVolumeMode = deref (pvVolumeMode sp) ''Filesystem'', pviAccessModes = pvAccessModes sp\<rparr>)"

definition AsObjectReference :: "namespaced_name \<Rightarrow> object_reference option" where
  "AsObjectReference nn = (if nnName nn = [] then None
     else Some \<lparr>refKind = [], refNamespace = nnNamespace nn, refName = nnName nn, refUID = [], refAPIVersion = []\<rparr>)"

definition AsPV :: "pv_info \<Rightarrow> kobj" where
  "AsPV p = \<lparr>objGVK = emptyGVK, ometa = pviMeta p,
     body = PVBody
       \<lparr>pvCapacity = pviCapacity p,
        pvNodeAffinity = (case pviNodeAffinity p of None \<Rightarrow> None | Some s \<Rightarrow> Some (Some s)),
        pvClaimRef = AsObjectReference (pviClaimRef p), pvStorageClassName = pviStorageClassName p,
        pvVolumeMode = None, pvAccessModes = pviAccessModes p, pvReclaimPolicy = ''Delete'',
        pvVolumeAttributesClassName = None\<rparr> (pviPhase p) None\<rparr>"

definition AsPVCInfo :: "object_meta \<Rightarrow> pvc_spec \<Rightarrow> string \<Rightarrow> pvc_info" where
  "AsPVCInfo mt sp phase = \<lparr>pciSpec = sp, pciPhase = phase, pciMeta = mt\<rparr>"

definition AsPVC :: "pvc_info \<Rightarrow> kobj" where
  "AsPVC p = \<lparr>objGVK = emptyGVK, ometa = pciMeta p, body = PVCBody (pciSpec p) (pciPhase p) []\<rparr>"

subsection \<open>Storage classes and claims\<close>

text \<open>Both sorts reorder the slice of pointers; for claims Go leaves the order of ties open.\<close>

definition SortAddrsByCreation :: "world \<Rightarrow> addr list \<Rightarrow> addr list" where
  "SortAddrsByCreation w classes = SortStableFunc (\<lambda>a b.
     compare (mCreationTimestamp (ometa (obj w b))) (mCreationTimestamp (ometa (obj w a)))) classes"

definition GetDefaultStorageClass :: "(object_meta \<Rightarrow> bool) \<Rightarrow> world \<Rightarrow> addr list \<Rightarrow> addr option" where
  "GetDefaultStorageClass isDefault w classes =
     find (\<lambda>a. isDefault (ometa (obj w a))) (SortAddrsByCreation w classes)"

definition FindStorageClassWithName :: "string \<Rightarrow> world \<Rightarrow> addr list \<Rightarrow> addr option" where
  "FindStorageClassWithName nm w classes = find (\<lambda>a. mName (ometa (obj w a)) = nm) classes"

definition claimStorage :: "kobj \<Rightarrow> quantity" where
  "claimStorage o' = (case body o' of
     PVCBody sp _ _ \<Rightarrow> (case map_of (pvcRequests sp) ''storage'' of Some q \<Rightarrow> q | None \<Rightarrow> 0) | _ \<Rightarrow> 0)"

definition SortPVCByIncreasingStorage :: "world \<Rightarrow> addr list \<Rightarrow> addr list" where
  "SortPVCByIncreasingStorage w pvcs =
     SortStableFunc (\<lambda>a b. compare (claimStorage (obj w a)) (claimStorage (obj w b))) pvcs"

fun zoneInTerm :: "(string \<times> string list) list \<Rightarrow> string option" where
  "zoneInTerm [] = None"
| "zoneInTerm ((k, vals) # exprs) =
     (if k = LabelTopologyZone \<and> 0 < length vals then Some (hd vals) else zoneInTerm exprs)"

fun zoneInTerms :: "(string \<times> string list) list list \<Rightarrow> string option" where
  "zoneInTerms [] = None"
| "zoneInTerms (t # ts) = (case zoneInTerm t of Some z \<Rightarrow> Some z | None \<Rightarrow> zoneInTerms ts)"

definition pickZoneFromAllowedTopologies :: "storage_class \<Rightarrow> string outcome" where
  "pickZoneFromAllowedTopologies sc = (case scAllowedTopologies sc of
       None \<Rightarrow> Ok []
     | Some terms \<Rightarrow> (case zoneInTerms terms of
         Some z \<Rightarrow> Ok z | None \<Rightarrow> Err (Plain ''allowedTopologies specified but no zone found'')))"

subsection \<open>Binding a claim to a volume\<close>

definition updObj :: "addr \<Rightarrow> (kobj \<Rightarrow> kobj) \<Rightarrow> world \<Rightarrow> world" where
  "updObj a f w = onWMem (wr a (f (obj w a))) w"

definition setAnnotation :: "string \<Rightarrow> string \<Rightarrow> kobj \<Rightarrow> kobj" where
  "setAnnotation k val o' = o'\<lparr>ometa := ometa o'\<lparr>mAnnotations := AList.update k val (mAnnotations (ometa o'))\<rparr>\<rparr>"

definition bindClaimBody :: "string \<Rightarrow> kobj \<Rightarrow> kobj" where
  "bindClaimBody pvName o' = (case body o' of
     PVCBody sp _ cap \<Rightarrow> o'\<lparr>body := PVCBody (sp\<lparr>pvcVolumeName := pvName\<rparr>) ''Bound'' cap\<rparr> | _ \<Rightarrow> o')"

definition bindVolumeBody :: "object_meta \<Rightarrow> time \<Rightarrow> kobj \<Rightarrow> kobj" where
  "bindVolumeBody claim t o' = (case body o' of
     PVBody sp _ _ \<Rightarrow> o'\<lparr>body := PVBody (sp\<lparr>pvClaimRef := Some
       \<lparr>refKind = ''PersistentVolumeClaim'', refNamespace = mNamespace claim, refName = mName claim,
        refUID = mUID claim, refAPIVersion = ''v1''\<rparr>\<rparr>) ''Bound'' (Some t)\<rparr> | _ \<Rightarrow> o')"

definition BindClaimAndVolume :: "view \<Rightarrow> addr \<Rightarrow> addr \<Rightarrow> world \<Rightarrow> (unit, world) eff" where
  "BindClaimAndVolume v pvc pv w =
     (let (pv, w) = deepCopyW pv w;
          (pvc, w) = deepCopyW pvc w;
          w = updObj pvc (\<lambda>o'. setAnnotation AnnBoundByController ''yes''
                (setAnnotation AnnBindCompleted ''yes'' (bindClaimBody (mName (ometa (obj w pv))) o'))) w
      in case UpdateObject v pvcGVK pvc noOpts w of
           (Err e, w) \<Rightarrow> (Err (Wrapped ''failed to bind pvc'' [ErrBindClaimVolume, e]), w)
         | (Panic p, w) \<Rightarrow> (Panic p, w)
         | (Ok _, w) \<Rightarrow>
             (let (t, m) = now (wMem w);
                  w = w\<lparr>wMem := m\<rparr>;
                  w = updObj pv (\<lambda>o'. setAnnotation AnnBoundByController ''yes''
                        (bindVolumeBody (ometa (obj w pvc)) t o')) w
              in case UpdateObject v pvGVK pv noOpts w of
                   (Err e, w) \<Rightarrow> (Err (Wrapped ''failed to bind pv'' [ErrBindClaimVolume, e]), w)
                 | r \<Rightarrow> r))"

subsection \<open>Simulated volumes\<close>

definition simulatedVolumeName :: "object_meta \<Rightarrow> string" where
  "simulatedVolumeName claim = ''simVol-'' @ mNamespace claim @ ''-'' @ mName claim"

definition simulatedVolume :: "object_meta \<Rightarrow> pvc_spec \<Rightarrow> string \<Rightarrow> kobj" where
  "simulatedVolume claim sp zone =
     \<lparr>objGVK = emptyGVK,
      ometa = emptyMeta\<lparr>mName := simulatedVolumeName claim,
        mAnnotations := [(AnnDynamicallyProvisioned, ''scaling-advisor'')]\<rparr>,
      body = PVBody
       \<lparr>pvCapacity = [(''storage'', case map_of (pvcRequests sp) ''storage'' of Some q \<Rightarrow> q | None \<Rightarrow> 0)],
        pvNodeAffinity = (if zone \<noteq> [] then Some (Some [[(LabelTopologyZone, ''In'', [zone])]]) else None),
        pvClaimRef = None, pvStorageClassName = deref (pvcStorageClassName sp) [],
        pvVolumeMode = pvcVolumeMode sp, pvAccessModes = pvcAccessModes sp, pvReclaimPolicy = ''Delete'',
        pvVolumeAttributesClassName = pvcVolumeAttributesClassName sp\<rparr> ''Available'' None\<rparr>"

definition createSimulatedVolumeMatchingClaim :: "view \<Rightarrow> addr \<Rightarrow> string \<Rightarrow> world \<Rightarrow> (addr, world) eff" where
  "createSimulatedVolumeMatchingClaim v pvc zone w =
     (case GetObject v pvGVK \<lparr>onNamespace = [], onName = simulatedVolumeName (ometa (obj w pvc))\<rparr> w of
        Ok a \<Rightarrow> (case body (obj w a) of PVBody _ _ _ \<Rightarrow> (Ok a, w) | _ \<Rightarrow> (Panic ''interface conversion'', w))
      | Panic p \<Rightarrow> (Panic p, w)
      | Err e \<Rightarrow>
          if \<not> isNotFound e then (Err e, w)
          else case body (obj w pvc) of
            PVCBody sp _ _ \<Rightarrow>
              (let (pv, m) = alloc (simulatedVolume (ometa (obj w pvc)) sp zone) (wMem w)
               in case CreateObject v pvGVK pv noOpts (w\<lparr>wMem := m\<rparr>) of
                    (Err e, w) \<Rightarrow> (Err (Wrapped ''could not create simulated PV'' [e]), w)
                  | (Panic p, w) \<Rightarrow> (Panic p, w)
                  | (Ok _, w) \<Rightarrow> (Ok pv, w))
          | _ \<Rightarrow> (Panic ''not a claim'', w))"

definition FindExistingOrCreateSimulatedBindableVolume ::
  "volume_finder \<Rightarrow> view \<Rightarrow> storage_class \<Rightarrow> addr \<Rightarrow> addr list \<Rightarrow> (string, addr) gomap \<Rightarrow> world \<Rightarrow> (addr, world) eff" where
  "FindExistingOrCreateSimulatedBindableVolume fm v sc pvc pvs chosenPVs w =
     (case fm (obj w pvc) (map (\<lambda>a. (a, obj w a)) pvs) chosenPVs of
        Err e \<Rightarrow> (Err (Plain ''failed finding chosen PV''), w)
      | Panic p \<Rightarrow> (Panic p, w)
      | Ok (Some a) \<Rightarrow> (Ok a, w)
      | Ok None \<Rightarrow>
          bindE (pickZoneFromAllowedTopologies sc, w) (\<lambda>zone w.
          bindE (createSimulatedVolumeMatchingClaim v pvc zone w) (\<lambda>simPV w.
            case fm (obj w pvc) [(simPV, obj w simPV)] chosenPVs of
              Err e \<Rightarrow> (Err (Wrapped ''simulated PV was not chosen'' [e]), w)
            | Panic p \<Rightarrow> (Panic p, w)
            | Ok None \<Rightarrow> (Err (Plain ''simulated PV was not chosen''), w)
            | Ok (Some a) \<Rightarrow> (Ok a, w))))"

subsection \<open>Immediate binding\<close>

record volume_claim_assignment =
  vcaClaimName :: namespaced_name
  vcaVolumeName :: string

text \<open>
  One claim of the loop: the storage class it resolves to, if it is pending. A claim without
  class gets the default one, written into the listed object itself.
\<close>

definition resolveClass :: "addr option \<Rightarrow> addr list \<Rightarrow> addr \<Rightarrow> world \<Rightarrow> addr option \<times> world" where
  "resolveClass defaultSc scs pvc w = (case body (obj w pvc) of
       PVCBody sp phase cap \<Rightarrow>
         if phase \<noteq> ''Pending'' then (None, w)
         else (case pvcStorageClassName sp of
             None \<Rightarrow> (case defaultSc of
                 None \<Rightarrow> (None, w)
               | Some d \<Rightarrow> (Some d, updObj pvc (\<lambda>o'. o'\<lparr>body := PVCBody
                   (sp\<lparr>pvcStorageClassName := Some (mName (ometa (obj w d)))\<rparr>) phase cap\<rparr>) w))
           | Some nm \<Rightarrow> (FindStorageClassWithName nm w scs, w))
     | _ \<Rightarrow> (None, w))"

text \<open>The map of chosen volumes is passed on but never filled.\<close>

fun bindImmediateLoop :: "volume_finder \<Rightarrow> view \<Rightarrow> addr option \<Rightarrow> addr list \<Rightarrow> addr list \<Rightarrow> addr list
    \<Rightarrow> (string, volume_claim_assignment) gomap \<Rightarrow> world
    \<Rightarrow> ((string, volume_claim_assignment) gomap, world) eff" where
  "bindImmediateLoop fm v defaultSc scs pvs [] boundPVs w = (Ok boundPVs, w)"
| "bindImmediateLoop fm v defaultSc scs pvs (pvc # pvcs) boundPVs w =
     (case resolveClass defaultSc scs pvc w of
        (None, w) \<Rightarrow> bindImmediateLoop fm v defaultSc scs pvs pvcs boundPVs w
      | (Some sc, w) \<Rightarrow>
          (case body (obj w sc) of
             StorageClassBody scb \<Rightarrow>
               if scVolumeBindingMode scb = Some ''WaitForFirstConsumer''
               then bindImmediateLoop fm v defaultSc scs pvs pvcs boundPVs w
               else bindE (FindExistingOrCreateSimulatedBindableVolume fm v scb pvc pvs [] w) (\<lambda>pv w.
                 let pvName = mName (ometa (obj w pv));
                     claim = \<lparr>nnNamespace = mNamespace (ometa (obj w pvc)), nnName = mName (ometa (obj w pvc))\<rparr>
                 in bindE (BindClaimAndVolume v pvc pv w) (\<lambda>_ w.
                   bindImmediateLoop fm v defaultSc scs pvs pvcs
                     (AList.update pvName \<lparr>vcaClaimName = claim, vcaVolumeName = pvName\<rparr> boundPVs) w))
           | _ \<Rightarrow> (Panic ''not a storage class'', w)))"

definition BindClaimsForImmediateMode :: "(object_meta \<Rightarrow> bool) \<Rightarrow> volume_finder \<Rightarrow> cxs \<Rightarrow> view \<Rightarrow> world
    \<Rightarrow> (volume_claim_assignment list, world) eff" where
  "BindClaimsForImmediateMode isDefault fm cx v w =
     (let (r, w') = bindE (ListStorageClassesClaimsAndVolumes cx v w, w) (\<lambda>(scs, pvcs, pvs) w.
            if scs = [] \<or> pvcs = [] then (Ok [], w)
            else bindE (bindImmediateLoop fm v (GetDefaultStorageClass isDefault w scs)
                    (SortAddrsByCreation w scs) pvs (SortPVCByIncreasingStorage w pvcs) [] w) (\<lambda>bound w.
              (Ok (map snd bound), w)))
      in (wrapErr (\<lambda>e. Wrapped ''cannot bind claims for immediate mode'' [ErrBindClaimVolume, e]) r, w'))"

subsection \<open>Wait for first consumer\<close>

definition getSelectedNodeZone :: "view \<Rightarrow> addr \<Rightarrow> world \<Rightarrow> string outcome" where
  "getSelectedNodeZone v pvc w =
     (let node = lookupStr (mAnnotations (ometa (obj w pvc))) AnnSelectedNode in
      if node = [] then Err (Plain ''selected node annotation empty'')
      else bindO (GetObject v (GVK NodesDescriptor) \<lparr>onNamespace = [], onName = node\<rparr> w) (\<lambda>a.
        case body (obj w a) of
          NodeBody _ _ \<Rightarrow> (case map_of (mLabels (ometa (obj w a))) LabelTopologyZone of
              Some z \<Rightarrow> Ok z | None \<Rightarrow> Err (Plain ''zone label not found for selected node''))
        | _ \<Rightarrow> Panic ''interface conversion''))"

definition selectedForProvisioning :: "kobj \<Rightarrow> bool" where
  "selectedForProvisioning o' = (case body o' of
     PVCBody _ phase _ \<Rightarrow> phase = ''Pending'' \<and> map_of (mAnnotations (ometa o')) AnnSelectedNode \<noteq> None
   | _ \<Rightarrow> False)"

fun provisionLoop :: "view \<Rightarrow> addr list \<Rightarrow> addr list \<Rightarrow> world \<Rightarrow> (addr list, world) eff" where
  "provisionLoop v [] provisioned w = (Ok provisioned, w)"
| "provisionLoop v (pvc # pvcs) provisioned w =
     (if \<not> selectedForProvisioning (obj w pvc) then provisionLoop v pvcs provisioned w
      else bindE (getSelectedNodeZone v pvc w, w) (\<lambda>zone w.
           bindE (createSimulatedVolumeMatchingClaim v pvc zone w) (\<lambda>simPV w.
           bindE (BindClaimAndVolume v pvc simPV w) (\<lambda>_ w.
             provisionLoop v pvcs (provisioned @ [simPV]) w))))"

definition ProvisionAndBindVolumesFoSelectedClaimsInWFFC :: "ctxs \<Rightarrow> view \<Rightarrow> world \<Rightarrow> (addr list, world) eff" where
  "ProvisionAndBindVolumesFoSelectedClaimsInWFFC cx v w =
     (let (r, w') = bindE (ListPersistentVolumeClaims cx v w, w) (\<lambda>pvcs w. provisionLoop v pvcs [] w)
      in (wrapErr (\<lambda>e. Wrapped ''provision'' [ErrProvisionVolume, e]) r, w'))"

text \<open>
  The loop of \<open>FinalizeStaticBindingsForSelectedClaimsInWFFC\<close>. \<open>err\<close> is the named result: a claim that
  cannot be read is skipped, but its error stays until another claim is read.
\<close>

definition staticallySelected :: "kobj \<Rightarrow> object_reference option" where
  "staticallySelected o' = (case body o' of
     PVBody sp phase _ \<Rightarrow> if phase = ''Bound'' then None else pvClaimRef sp | _ \<Rightarrow> None)"

definition markVolumeBound :: "kobj \<Rightarrow> kobj" where
  "markVolumeBound o' = (case body o' of PVBody sp _ t \<Rightarrow> o'\<lparr>body := PVBody sp ''Bound'' t\<rparr> | _ \<Rightarrow> o')"

fun finalizeLoop :: "view \<Rightarrow> addr list \<Rightarrow> goerr option \<Rightarrow> nat \<Rightarrow> world \<Rightarrow> (nat, world) eff" where
  "finalizeLoop v [] err numBound w = ((case err of None \<Rightarrow> Ok numBound | Some e \<Rightarrow> Err e), w)"
| "finalizeLoop v (pv # pvs) err numBound w =
     (case staticallySelected (obj w pv) of
        None \<Rightarrow> finalizeLoop v pvs err numBound w
      | Some ref \<Rightarrow>
          (case GetObject v pvcGVK \<lparr>onNamespace = refNamespace ref, onName = refName ref\<rparr> w of
             Err e \<Rightarrow> finalizeLoop v pvs (Some e) numBound w
           | Panic p \<Rightarrow> (Panic p, w)
           | Ok pvc \<Rightarrow>
               if goKind (body (obj w pvc)) \<noteq> ''PersistentVolumeClaim'' then (Panic ''interface conversion'', w) else
               (let (pv', w) = deepCopyW pv w;
                    (pvc', w) = deepCopyW pvc w;
                    w = updObj pvc' (\<lambda>o'. setAnnotation AnnBindCompleted ''yes''
                          (bindClaimBody (mName (ometa (obj w pv'))) o')) w;
                    w = updObj pv' markVolumeBound w
                in bindE (UpdateObject v pvcGVK pvc' noOpts w) (\<lambda>_ w.
                   bindE (UpdateObject v pvGVK pv' noOpts w) (\<lambda>_ w.
                     finalizeLoop v pvs None (numBound + 1) w)))))"

definition FinalizeStaticBindingsForSelectedClaimsInWFFC :: "ctxs \<Rightarrow> view \<Rightarrow> world \<Rightarrow> (nat, world) eff" where
  "FinalizeStaticBindingsForSelectedClaimsInWFFC cx v w =
     (let (r, w') = bindE (ListPersistentVolumes cx v w, w) (\<lambda>pvs w. finalizeLoop v pvs None 0 w)
      in (wrapErr (\<lambda>e. Wrapped ''finalize'' [ErrBindClaimVolume, e]) r, w'))"

end
