(* ===== verification/Client.thy ===== *)
theory Client
  imports Volumes
begin

text \<open>
  The in-memory client, \<open>src/minkapi/view/inmclient\<close>: the Kubernetes client interface the scheduler is
  started with, implemented on a view. \<open>GenericResourceAccess\<close> has the operations; each typed access
  is a table of its methods and of the generic operation each of them is. The arguments of a call are
  a record with what any method takes.

  Parsing of label selectors is a parameter, as are patching and the type registry of the lists. A
  watch is what is asked of the view. Two things of the typed accesses are left out:
  \<open>UpdateWithEventNamespace\<close> and \<open>GetScale\<close>, on fields the objects here do not have. The ephemeral
  containers of a pod are such a field too: their update leaves the copy as it is.
\<close>

subsection \<open>Accesses and calls\<close>

datatype access_impl =
    CreateInAccessNamespace | CreateAsGiven | Updates | UpdatesEphemeral | Deletes | DeletesCollection | Gets | Lists
  | Watches | Patches | PatchesEvent | PatchesStatus | Binds | Refuses string | Panics

type_synonym methods = "(string, access_impl) gomap"

record resource_access =
  raView :: view
  raGVK :: gvk
  raNamespace :: string
  raType :: "string \<times> string"      \<comment> \<open>the type parameter \<open>T\<close>, by API version and kind\<close>
  raListType :: "string \<times> string"  \<comment> \<open>the type parameter \<open>L\<close>, by API version and kind\<close>
  raMethods :: methods

record list_options =
  lopFieldSelector :: string
  lopLabelSelector :: string
  lopResourceVersion :: string

record client_args =
  caObj :: addr
  caName :: string
  caPropagationPolicy :: "string option"
  caList :: list_options
  caResourceVersion :: string
  caPatchType :: patch_type
  caData :: json
  caSubResources :: "string list"
  caBinding :: binding

datatype client_result = ROk | RObj addr | RList list_obj | RWatch view gvk string list_options

record client_lib =
  clParse :: "string \<Rightarrow> selector outcome"
  clPatcher :: patcher
  clScheme :: scheme
  clCtx :: ctxs

definition ErrUnexpectedType :: goerr where "ErrUnexpectedType = Sentinel ''ErrUnexpectedType''"

text \<open>
  \<open>objutil.Cast\<close>. A Go type is given by its API version and its kind. The typed events of the client
  are those of \<open>core/v1\<close>, the event payload here is that of \<open>events.k8s.io/v1\<close>: two Go types. The
  kind of any other payload determines its Go type.
\<close>

definition ofGoType :: "string \<times> string \<Rightarrow> payload \<Rightarrow> bool" where
  "ofGoType t p = (case p of EventBody _ \<Rightarrow> t = (''events.k8s.io/v1'', ''Event'')
     | _ \<Rightarrow> goKind p = snd t \<and> t \<noteq> (''events.k8s.io/v1'', ''Event''))"

definition Cast :: "string \<times> string \<Rightarrow> addr \<Rightarrow> world \<Rightarrow> addr outcome" where
  "Cast t a w = (if ofGoType t (body (obj w a)) then Ok a else Err (Wrapped ''obj has unexpected type'' [ErrUnexpectedType]))"

definition CastList :: "string \<times> string \<Rightarrow> list_obj \<Rightarrow> list_obj outcome" where
  "CastList t l = (if (loAPIVersion l, loKind l) = t then Ok l else Err (Wrapped ''obj has unexpected type'' [ErrUnexpectedType]))"

subsection \<open>Generic access\<close>

definition Access_CreateObject :: "resource_access \<Rightarrow> addr \<Rightarrow> world \<Rightarrow> (addr, world) eff" where
  "Access_CreateObject acc a w = bindE (CreateObject (raView acc) (raGVK acc) a noOpts w) (\<lambda>b w. (Cast (raType acc) b w, w))"

definition CreateObjectWithAccessNamespace :: "resource_access \<Rightarrow> addr \<Rightarrow> world \<Rightarrow> (addr, world) eff" where
  "CreateObjectWithAccessNamespace acc a w =
     (let w = (if mNamespace (ometa (obj w a)) \<noteq> raNamespace acc
               then onWMem (updMeta a (\<lambda>mt. mt\<lparr>mNamespace := raNamespace acc\<rparr>)) w else w)
      in bindE (CreateObject (raView acc) (raGVK acc) a noOpts w) (\<lambda>b w. (Cast (raType acc) b w, w)))"

definition validateMinimumResourceVersion :: "string \<Rightarrow> string \<Rightarrow> unit outcome" where
  "validateMinimumResourceVersion desired current =
     (if desired = [] then Ok ()
      else bindO (wrapErr (\<lambda>_. ApiStatus BadRequestReason) (ParseResourceVersion desired)) (\<lambda>desiredRV.
        bindO (wrapErr (\<lambda>_. ApiStatus BadRequestReason) (ParseResourceVersion current)) (\<lambda>currentRV.
          if sint currentRV < sint desiredRV then Err (ApiStatus BadRequestReason) else Ok ())))"

definition Access_GetObject :: "resource_access \<Rightarrow> string \<Rightarrow> string \<Rightarrow> string \<Rightarrow> world \<Rightarrow> addr outcome" where
  "Access_GetObject acc ns nm rv w =
     bindO (GetObject (raView acc) (raGVK acc) \<lparr>onNamespace = ns, onName = nm\<rparr> w) (\<lambda>a.
     bindO (Cast (raType acc) a w) (\<lambda>a.
     bindO (validateMinimumResourceVersion rv (mResourceVersion (ometa (obj w a)))) (\<lambda>_. Ok a)))"

definition Access_UpdateObject :: "resource_access \<Rightarrow> addr \<Rightarrow> world \<Rightarrow> (addr, world) eff" where
  "Access_UpdateObject acc a w = bindE (UpdateObject (raView acc) (raGVK acc) a noOpts w) (\<lambda>_ w.
     (Access_GetObject acc (mNamespace (ometa (obj w a))) (mName (ometa (obj w a))) [] w, w))"

definition Access_DeleteObject :: "resource_access \<Rightarrow> string \<Rightarrow> string \<Rightarrow> world \<Rightarrow> (unit, world) eff" where
  "Access_DeleteObject acc ns nm w = DeleteObject (raView acc) (raGVK acc) \<lparr>onNamespace = ns, onName = nm\<rparr> w"

definition checkUnimplementedRequiredListOptions :: "list_options \<Rightarrow> unit outcome" where
  "checkUnimplementedRequiredListOptions opts = (if lopFieldSelector opts \<noteq> []
     then Err (Wrapped ''listOptions.FieldSelector is unimplemented'' [Sentinel ''ErrUnimplemented'']) else Ok ())"

definition asMatchCriteria :: "client_lib \<Rightarrow> string \<Rightarrow> list_options \<Rightarrow> match_criteria outcome" where
  "asMatchCriteria lib ns opts =
     bindO (if lopLabelSelector opts = [] then Ok (\<lambda>_. True) else clParse lib (lopLabelSelector opts)) (\<lambda>selector.
       Ok \<lparr>mcLabelSelector = Some selector, mcExcludeNames = [], mcNames = [], mcNamespace = ns\<rparr>)"

definition DeleteObjectCollection :: "client_lib \<Rightarrow> resource_access \<Rightarrow> string \<Rightarrow> string option \<Rightarrow> list_options \<Rightarrow> world
    \<Rightarrow> (unit, world) eff" where
  "DeleteObjectCollection lib acc ns policy opts w =
     (if policy \<noteq> None then (Err (Wrapped ''propagationPolicy is unimplemented'' [Sentinel ''ErrUnimplemented'']), w)
      else bindE (checkUnimplementedRequiredListOptions opts, w) (\<lambda>_ w.
        bindE (asMatchCriteria lib ns opts, w) (\<lambda>c w. View_DeleteObjects (clCtx lib) (raView acc) (raGVK acc) c w)))"

definition GetObjectList :: "client_lib \<Rightarrow> resource_access \<Rightarrow> string \<Rightarrow> list_options \<Rightarrow> world \<Rightarrow> list_obj outcome" where
  "GetObjectList lib acc ns opts w =
     bindO (checkUnimplementedRequiredListOptions opts) (\<lambda>_.
     bindO (asMatchCriteria lib ns opts) (\<lambda>c.
     bindO (ListObjects (clScheme lib) (clCtx lib) (raView acc) (raGVK acc) c w) (CastList (raListType acc))))"

definition Access_PatchObjectStatus :: "client_lib \<Rightarrow> resource_access \<Rightarrow> string \<Rightarrow> json \<Rightarrow> world \<Rightarrow> (addr, world) eff" where
  "Access_PatchObjectStatus lib acc nm data w =
     bindE (patchObjectStatus (clPatcher lib) (raView acc) (raGVK acc) \<lparr>onNamespace = raNamespace acc, onName = nm\<rparr> data w)
       (\<lambda>b w. (Cast (raType acc) b w, w))"

definition Access_PatchObject :: "client_lib \<Rightarrow> resource_access \<Rightarrow> string \<Rightarrow> patch_type \<Rightarrow> json \<Rightarrow> string list \<Rightarrow> world
    \<Rightarrow> (addr, world) eff" where
  "Access_PatchObject lib acc nm pt data subs w = (case subs of
       s # _ \<Rightarrow> if s \<noteq> ''status'' then (Err (Wrapped ''patch of subResources is unsupported'' [Sentinel ''ErrInvalidOptVal'']), w)
         else Access_PatchObjectStatus lib acc nm data w
     | [] \<Rightarrow> bindE (patchObject (clPatcher lib) (raView acc) (raGVK acc) \<lparr>onNamespace = raNamespace acc, onName = nm\<rparr> pt data w)
         (\<lambda>b w. (Cast (raType acc) b w, w)))"

subsection \<open>Typed accesses\<close>

definition UpdateEphemeralContainers :: "resource_access \<Rightarrow> string \<Rightarrow> world \<Rightarrow> (addr, world) eff" where
  "UpdateEphemeralContainers acc nm w =
     bindE (Access_GetObject acc (raNamespace acc) nm [] w, w) (\<lambda>a w.
       let (b, w) = deepCopyW a w in Access_UpdateObject acc b w)"

definition Bind :: "resource_access \<Rightarrow> string \<Rightarrow> binding \<Rightarrow> world \<Rightarrow> (unit, world) eff" where
  "Bind acc nm b w = bindE (UpdatePodNodeBinding (raView acc) \<lparr>onNamespace = raNamespace acc, onName = nm\<rparr> b w)
     (\<lambda>_ w. (Ok (), w))"

definition PatchWithEventNamespaceWithContext :: "client_lib \<Rightarrow> resource_access \<Rightarrow> addr \<Rightarrow> json \<Rightarrow> world \<Rightarrow> (addr, world) eff" where
  "PatchWithEventNamespaceWithContext lib acc a data w =
     (if mName (ometa (obj w a)) = [] then (Err (Plain ''event name must be specified''), w)
      else if mNamespace (ometa (obj w a)) = [] then (Err (Plain ''event namespace must be specified''), w)
      else Access_PatchObject lib acc (mName (ometa (obj w a))) (OtherPatchType ''application/json-patch+json'') data [] w)"

definition objResult :: "(addr, world) eff \<Rightarrow> (client_result, world) eff" where
  "objResult r = bindE r (\<lambda>a w. (Ok (RObj a), w))"

definition okResult :: "(unit, world) eff \<Rightarrow> (client_result, world) eff" where
  "okResult r = bindE r (\<lambda>_ w. (Ok ROk, w))"

fun invoke :: "client_lib \<Rightarrow> resource_access \<Rightarrow> access_impl \<Rightarrow> client_args \<Rightarrow> world \<Rightarrow> (client_result, world) eff" where
  "invoke lib acc CreateInAccessNamespace c w = objResult (CreateObjectWithAccessNamespace acc (caObj c) w)"
| "invoke lib acc CreateAsGiven c w = objResult (Access_CreateObject acc (caObj c) w)"
| "invoke lib acc Updates c w = objResult (Access_UpdateObject acc (caObj c) w)"
| "invoke lib acc UpdatesEphemeral c w = objResult (UpdateEphemeralContainers acc (caName c) w)"
| "invoke lib acc Deletes c w = okResult (Access_DeleteObject acc (raNamespace acc) (caName c) w)"
| "invoke lib acc DeletesCollection c w =
     okResult (DeleteObjectCollection lib acc (raNamespace acc) (caPropagationPolicy c) (caList c) w)"
| "invoke lib acc Gets c w = objResult (Access_GetObject acc (raNamespace acc) (caName c) (caResourceVersion c) w, w)"
| "invoke lib acc Lists c w = bindE (GetObjectList lib acc (raNamespace acc) (caList c) w, w) (\<lambda>l w. (Ok (RList l), w))"
| "invoke lib acc Watches c w = bindE (checkUnimplementedRequiredListOptions (caList c), w)
     (\<lambda>_ w. (Ok (RWatch (raView acc) (raGVK acc) (raNamespace acc) (caList c)), w))"
| "invoke lib acc Patches c w =
     objResult (Access_PatchObject lib acc (caName c) (caPatchType c) (caData c) (caSubResources c) w)"
| "invoke lib acc PatchesEvent c w = objResult (PatchWithEventNamespaceWithContext lib acc (caObj c) (caData c) w)"
| "invoke lib acc PatchesStatus c w = objResult (Access_PatchObjectStatus lib acc (caName c) (caData c) w)"
| "invoke lib acc Binds c w = okResult (Bind acc (caName c) (caBinding c) w)"
| "invoke lib acc (Refuses e) c w = (Err (Wrapped ''not supported'' [Sentinel e]), w)"
| "invoke lib acc Panics c w = (Panic ''not implemented'', w)"

text \<open>A call of a method by name; \<open>None\<close> for a method the interface does not have.\<close>

definition call :: "client_lib \<Rightarrow> resource_access \<Rightarrow> string \<Rightarrow> client_args \<Rightarrow> world \<Rightarrow> (client_result, world) eff option" where
  "call lib acc m c w = map_option (\<lambda>i. invoke lib acc i c w) (map_of (raMethods acc) m)"

subsection \<open>The methods of each access\<close>

definition configMapAccess :: methods where
  "configMapAccess = [
     (''Create'', CreateInAccessNamespace), (''Update'', Updates),
     (''Delete'', Deletes), (''DeleteCollection'', DeletesCollection),
     (''Get'', Gets), (''List'', Lists),
     (''Watch'', Watches), (''Patch'', Patches),
     (''Apply'', Refuses ''ErrUnimplemented'')]"

definition eventAccess :: methods where
  "eventAccess = [
     (''Create'', CreateInAccessNamespace), (''CreateWithEventNamespaceWithContext'', CreateAsGiven),
     (''CreateWithEventNamespace'', CreateAsGiven), (''Update'', Updates),
     (''Delete'', Deletes), (''DeleteCollection'', DeletesCollection),
     (''Get'', Gets), (''List'', Lists),
     (''Watch'', Watches), (''Patch'', Patches),
     (''PatchWithEventNamespace'', PatchesEvent), (''PatchWithEventNamespaceWithContext'', PatchesEvent),
     (''Apply'', Refuses ''ErrUnimplemented''), (''Search'', Refuses ''ErrUnimplemented''),
     (''SearchWithContext'', Refuses ''ErrUnimplemented'')]"

definition namespaceAccess :: methods where
  "namespaceAccess = [
     (''Create'', CreateInAccessNamespace), (''Update'', Updates),
     (''UpdateStatus'', Updates), (''Delete'', Deletes),
     (''Get'', Gets), (''List'', Lists),
     (''Watch'', Watches), (''Patch'', Patches),
     (''Apply'', Refuses ''ErrUnimplemented''), (''ApplyStatus'', Refuses ''ErrUnimplemented''),
     (''Finalize'', Updates)]"

definition nodeAccess :: methods where
  "nodeAccess = [
     (''Create'', CreateInAccessNamespace), (''Update'', Updates),
     (''UpdateStatus'', Updates), (''Delete'', Deletes),
     (''DeleteCollection'', DeletesCollection), (''Get'', Gets),
     (''List'', Lists), (''Watch'', Watches),
     (''Patch'', Patches), (''PatchStatus'', PatchesStatus),
     (''Apply'', Refuses ''ErrUnimplemented''), (''ApplyStatus'', Refuses ''ErrUnimplemented'')]"

definition pvAccess :: methods where
  "pvAccess = [
     (''Create'', CreateInAccessNamespace), (''Update'', Updates),
     (''UpdateStatus'', Updates), (''Delete'', Deletes),
     (''DeleteCollection'', DeletesCollection), (''Get'', Gets),
     (''List'', Lists), (''Watch'', Watches),
     (''Patch'', Patches), (''Apply'', Refuses ''ErrUnimplemented''),
     (''ApplyStatus'', Refuses ''ErrUnimplemented'')]"

definition pvcAccess :: methods where
  "pvcAccess = [
     (''Create'', CreateInAccessNamespace), (''CreateWithPersistentVolumeClaimNamespaceWithContext'', CreateAsGiven),
     (''CreateWithPersistentVolumeClaimNamespace'', CreateAsGiven), (''Update'', Updates),
     (''UpdateStatus'', Updates), (''UpdateWithPersistentVolumeClaimNamespaceWithContext'', Refuses ''ErrUnimplemented''),
     (''UpdateWithPersistentVolumeClaimNamespace'', Refuses ''ErrUnimplemented''), (''Delete'', Deletes),
     (''DeleteCollection'', DeletesCollection), (''Get'', Gets),
     (''List'', Lists), (''Watch'', Watches),
     (''Patch'', Patches), (''PatchWithPersistentVolumeClaimNamespace'', Refuses ''ErrUnimplemented''),
     (''PatchWithPersistentVolumeClaimNamespaceWithContext'', Refuses ''ErrUnimplemented''), (''Apply'', Refuses ''ErrUnimplemented''),
     (''ApplyStatus'', Refuses ''ErrUnimplemented'')]"

definition podAccess :: methods where
  "podAccess = [
     (''Create'', CreateInAccessNamespace), (''Update'', Updates),
     (''UpdateStatus'', Updates), (''Delete'', Deletes),
     (''DeleteCollection'', DeletesCollection), (''Get'', Gets),
     (''List'', Lists), (''Watch'', Watches),
     (''Patch'', Patches), (''Apply'', Refuses ''ErrUnimplemented''),
     (''ApplyStatus'', Refuses ''ErrUnimplemented''), (''UpdateEphemeralContainers'', UpdatesEphemeral),
     (''UpdateResize'', Refuses ''ErrUnimplemented''), (''Bind'', Binds),
     (''Evict'', Refuses ''ErrUnimplemented''), (''EvictV1'', Refuses ''ErrUnimplemented''),
     (''EvictV1beta1'', Refuses ''ErrUnimplemented''), (''GetLogs'', Panics),
     (''ProxyGet'', Panics)]"

definition replicationControllerAccess :: methods where
  "replicationControllerAccess = [
     (''Create'', CreateInAccessNamespace), (''Update'', Updates),
     (''UpdateStatus'', Updates), (''Delete'', Deletes),
     (''DeleteCollection'', DeletesCollection), (''Get'', Gets),
     (''List'', Lists), (''Watch'', Watches),
     (''Patch'', Patches), (''Apply'', Refuses ''ErrUnimplemented''),
     (''ApplyStatus'', Refuses ''ErrUnimplemented''), (''UpdateScale'', Refuses ''ErrUnimplemented'')]"

definition serviceAccess :: methods where
  "serviceAccess = [
     (''Create'', CreateInAccessNamespace), (''Update'', Updates),
     (''UpdateStatus'', Updates), (''Delete'', Deletes),
     (''Get'', Gets), (''List'', Lists),
     (''Watch'', Watches), (''Patch'', Patches),
     (''Apply'', Refuses ''ErrUnimplemented''), (''ApplyStatus'', Refuses ''ErrUnimplemented''),
     (''ProxyGet'', Panics)]"

definition replicaSetAccess :: methods where
  "replicaSetAccess = [
     (''Create'', CreateInAccessNamespace), (''Update'', Updates),
     (''UpdateStatus'', Updates), (''Delete'', Deletes),
     (''DeleteCollection'', DeletesCollection), (''Get'', Gets),
     (''List'', Lists), (''Watch'', Watches),
     (''Patch'', Patches), (''Apply'', Refuses ''ErrUnimplemented''),
     (''ApplyStatus'', Refuses ''ErrUnimplemented''), (''GetScale'', Refuses ''ErrUnimplemented''),
     (''UpdateScale'', Refuses ''ErrUnimplemented''), (''ApplyScale'', Refuses ''ErrUnimplemented'')]"

definition statefulSetAccess :: methods where
  "statefulSetAccess = [
     (''Create'', CreateInAccessNamespace), (''Update'', Updates),
     (''UpdateStatus'', Updates), (''Delete'', Deletes),
     (''DeleteCollection'', DeletesCollection), (''Get'', Gets),
     (''List'', Lists), (''Watch'', Watches),
     (''Patch'', Patches), (''Apply'', Refuses ''ErrUnimplemented''),
     (''ApplyStatus'', Refuses ''ErrUnimplemented''), (''GetScale'', Refuses ''ErrUnimplemented''),
     (''UpdateScale'', Refuses ''ErrUnimplemented''), (''ApplyScale'', Refuses ''ErrUnimplemented'')]"

definition podDisruptionBudgetAccess :: methods where
  "podDisruptionBudgetAccess = [
     (''Create'', CreateInAccessNamespace), (''Update'', Updates),
     (''UpdateStatus'', Updates), (''Delete'', Deletes),
     (''DeleteCollection'', DeletesCollection), (''Get'', Gets),
     (''List'', Lists), (''Watch'', Watches),
     (''Patch'', Patches), (''Apply'', Refuses ''ErrUnimplemented''),
     (''ApplyStatus'', Refuses ''ErrUnimplemented'')]"

definition deviceClassAccess :: methods where
  "deviceClassAccess = [
     (''Create'', CreateInAccessNamespace), (''Update'', Updates),
     (''Delete'', Deletes), (''DeleteCollection'', DeletesCollection),
     (''Get'', Gets), (''List'', Lists),
     (''Watch'', Watches), (''Patch'', Patches),
     (''Apply'', Refuses ''ErrUnimplemented'')]"

definition resourceClaimAccess :: methods where
  "resourceClaimAccess = [
     (''Create'', CreateInAccessNamespace), (''Update'', Updates),
     (''UpdateStatus'', Updates), (''Delete'', Deletes),
     (''DeleteCollection'', DeletesCollection), (''Get'', Gets),
     (''List'', Lists), (''Watch'', Watches),
     (''Patch'', Patches), (''Apply'', Refuses ''ErrUnimplemented''),
     (''ApplyStatus'', Refuses ''ErrUnimplemented'')]"

definition resourceSliceAccess :: methods where
  "resourceSliceAccess = [
     (''Create'', CreateInAccessNamespace), (''Update'', Updates),
     (''Delete'', Deletes), (''DeleteCollection'', DeletesCollection),
     (''Get'', Gets), (''List'', Lists),
     (''Watch'', Watches), (''Patch'', Patches),
     (''Apply'', Refuses ''ErrUnimplemented'')]"

definition csiDriverAccess :: methods where
  "csiDriverAccess = [
     (''Create'', CreateInAccessNamespace), (''Update'', Updates),
     (''Delete'', Deletes), (''DeleteCollection'', DeletesCollection),
     (''Get'', Gets), (''List'', Lists),
     (''Watch'', Watches), (''Patch'', Patches),
     (''Apply'', Refuses ''ErrUnimplemented'')]"

definition csiNodeAccess :: methods where
  "csiNodeAccess = [
     (''Create'', CreateInAccessNamespace), (''Update'', Updates),
     (''Delete'', Deletes), (''DeleteCollection'', DeletesCollection),
     (''Get'', Gets), (''List'', Lists),
     (''Watch'', Watches), (''Patch'', Patches),
     (''Apply'', Refuses ''ErrUnimplemented''), (''ApplyStatus'', Refuses ''ErrUnimplemented'')]"

definition csiStorageCapacityAccess :: methods where
  "csiStorageCapacityAccess = [
     (''Create'', CreateInAccessNamespace), (''CreateWithCsiStorageCapacityNamespaceWithContext'', CreateAsGiven),
     (''CreateWithCsiStorageCapacityNamespace'', CreateAsGiven), (''Update'', Updates),
     (''UpdateWithCsiStorageCapacityNamespaceWithContext'', Refuses ''ErrInvalidOptVal''), (''UpdateWithCsiStorageCapacityNamespace'', Refuses ''ErrInvalidOptVal''),
     (''Delete'', Deletes), (''DeleteCollection'', DeletesCollection),
     (''Get'', Gets), (''List'', Lists),
     (''Watch'', Watches), (''Patch'', Patches),
     (''PatchWithCsiStorageCapacityNamespace'', Refuses ''ErrInvalidOptVal''), (''PatchWithCsiStorageCapacityNamespaceWithContext'', Refuses ''ErrInvalidOptVal''),
     (''Apply'', Refuses ''ErrInvalidOptVal'')]"

definition storageClassAccess :: methods where
  "storageClassAccess = [
     (''Create'', CreateInAccessNamespace), (''Update'', Updates),
     (''Delete'', Deletes), (''DeleteCollection'', DeletesCollection),
     (''Get'', Gets), (''List'', Lists),
     (''Watch'', Watches), (''Patch'', Patches),
     (''Apply'', Refuses ''ErrUnimplemented''), (''ApplyStatus'', Refuses ''ErrUnimplemented'')]"

definition volumeAttachmentAccess :: methods where
  "volumeAttachmentAccess = [
     (''Create'', CreateInAccessNamespace), (''Update'', Updates),
     (''UpdateStatus'', Updates), (''Delete'', Deletes),
     (''DeleteCollection'', DeletesCollection), (''Get'', Gets),
     (''List'', Lists), (''Watch'', Watches),
     (''Patch'', Patches), (''Apply'', Refuses ''ErrUnimplemented''),
     (''ApplyStatus'', Refuses ''ErrUnimplemented'')]"

definition volumeAttributesClassAccess :: methods where
  "volumeAttributesClassAccess = [
     (''Create'', CreateInAccessNamespace), (''Update'', Updates),
     (''Delete'', Deletes), (''DeleteCollection'', DeletesCollection),
     (''Get'', Gets), (''List'', Lists),
     (''Watch'', Watches), (''Patch'', Patches),
     (''Apply'', Refuses ''ErrUnimplemented'')]"

definition NewConfigMapAccess :: "view \<Rightarrow> string \<Rightarrow> resource_access" where
  "NewConfigMapAccess v ns = \<lparr>raView = v, raGVK = GVK ConfigMapsDescriptor, raNamespace = ns, raType = (''v1'', ''ConfigMap''),
     raListType = (''v1'', ''ConfigMapList''), raMethods = configMapAccess\<rparr>"

definition NewEventAccess :: "view \<Rightarrow> string \<Rightarrow> resource_access" where
  "NewEventAccess v ns = \<lparr>raView = v, raGVK = GVK EventsDescriptor, raNamespace = ns, raType = (''v1'', ''Event''),
     raListType = (''v1'', ''EventList''), raMethods = eventAccess\<rparr>"

definition NewNamespaceAccess :: "view \<Rightarrow> resource_access" where
  "NewNamespaceAccess v = \<lparr>raView = v, raGVK = GVK NamespacesDescriptor, raNamespace = [], raType = (''v1'', ''Namespace''),
     raListType = (''v1'', ''NamespaceList''), raMethods = namespaceAccess\<rparr>"

definition NewNodeAccess :: "view \<Rightarrow> resource_access" where
  "NewNodeAccess v = \<lparr>raView = v, raGVK = GVK NodesDescriptor, raNamespace = [], raType = (''v1'', ''Node''),
     raListType = (''v1'', ''NodeList''), raMethods = nodeAccess\<rparr>"

definition NewPersistentVolumeAccess :: "view \<Rightarrow> resource_access" where
  "NewPersistentVolumeAccess v = \<lparr>raView = v, raGVK = GVK PersistentVolumesDescriptor, raNamespace = [], raType = (''v1'', ''PersistentVolume''),
     raListType = (''v1'', ''PersistentVolumeList''), raMethods = pvAccess\<rparr>"

definition NewPersistentVolumeClaimAccess :: "view \<Rightarrow> string \<Rightarrow> resource_access" where
  "NewPersistentVolumeClaimAccess v ns = \<lparr>raView = v, raGVK = GVK PersistentVolumeClaimsDescriptor, raNamespace = ns, raType = (''v1'', ''PersistentVolumeClaim''),
     raListType = (''v1'', ''PersistentVolumeClaimList''), raMethods = pvcAccess\<rparr>"

definition NewPodAccess :: "view \<Rightarrow> string \<Rightarrow> resource_access" where
  "NewPodAccess v ns = \<lparr>raView = v, raGVK = GVK PodsDescriptor, raNamespace = ns, raType = (''v1'', ''Pod''),
     raListType = (''v1'', ''PodList''), raMethods = podAccess\<rparr>"

definition NewReplicationControllerAccess :: "view \<Rightarrow> string \<Rightarrow> resource_access" where
  "NewReplicationControllerAccess v ns = \<lparr>raView = v, raGVK = GVK ReplicationControllersDescriptor, raNamespace = ns, raType = (''v1'', ''ReplicationController''),
     raListType = (''v1'', ''ReplicationControllerList''), raMethods = replicationControllerAccess\<rparr>"

definition NewServiceAccess :: "view \<Rightarrow> string \<Rightarrow> resource_access" where
  "NewServiceAccess v ns = \<lparr>raView = v, raGVK = GVK ServicesDescriptor, raNamespace = ns, raType = (''v1'', ''Service''),
     raListType = (''v1'', ''ServiceList''), raMethods = serviceAccess\<rparr>"

definition NewReplicaSetAccess :: "view \<Rightarrow> string \<Rightarrow> resource_access" where
  "NewReplicaSetAccess v ns = \<lparr>raView = v, raGVK = GVK ReplicaSetDescriptor, raNamespace = ns, raType = (''apps/v1'', ''ReplicaSet''),
     raListType = (''apps/v1'', ''ReplicaSetList''), raMethods = replicaSetAccess\<rparr>"

definition NewStatefulSetAccess :: "view \<Rightarrow> string \<Rightarrow> resource_access" where
  "NewStatefulSetAccess v ns = \<lparr>raView = v, raGVK = GVK StatefulSetDescriptor, raNamespace = ns, raType = (''apps/v1'', ''StatefulSet''),
     raListType = (''apps/v1'', ''StatefulSetList''), raMethods = statefulSetAccess\<rparr>"

definition NewPodDisruptionBudgetAccess :: "view \<Rightarrow> string \<Rightarrow> resource_access" where
  "NewPodDisruptionBudgetAccess v ns = \<lparr>raView = v, raGVK = GVK PodDisruptionBudgetDescriptor, raNamespace = ns, raType = (''policy/v1'', ''PodDisruptionBudget''),
     raListType = (''policy/v1'', ''PodDisruptionBudgetList''), raMethods = podDisruptionBudgetAccess\<rparr>"

definition NewDeviceClassAccess :: "view \<Rightarrow> resource_access" where
  "NewDeviceClassAccess v = \<lparr>raView = v, raGVK = GVK DeviceClassDescriptor, raNamespace = [], raType = (''resource.k8s.io/v1'', ''DeviceClass''),
     raListType = (''resource.k8s.io/v1'', ''DeviceClassList''), raMethods = deviceClassAccess\<rparr>"

definition NewResourceClaimAccess :: "view \<Rightarrow> string \<Rightarrow> resource_access" where
  "NewResourceClaimAccess v ns = \<lparr>raView = v, raGVK = GVK ResourceClaimDescriptor, raNamespace = ns, raType = (''resource.k8s.io/v1'', ''ResourceClaim''),
     raListType = (''resource.k8s.io/v1'', ''ResourceClaimList''), raMethods = resourceClaimAccess\<rparr>"

definition NewResourceSliceAccess :: "view \<Rightarrow> resource_access" where
  "NewResourceSliceAccess v = \<lparr>raView = v, raGVK = GVK ResourceSliceDescriptor, raNamespace = [], raType = (''resource.k8s.io/v1'', ''ResourceSlice''),
     raListType = (''resource.k8s.io/v1'', ''ResourceSliceList''), raMethods = resourceSliceAccess\<rparr>"

definition NewCSIDriverAccess :: "view \<Rightarrow> resource_access" where
  "NewCSIDriverAccess v = \<lparr>raView = v, raGVK = GVK CSIDriverDescriptor, raNamespace = [], raType = (''storage.k8s.io/v1'', ''CSIDriver''),
     raListType = (''storage.k8s.io/v1'', ''CSIDriverList''), raMethods = csiDriverAccess\<rparr>"

definition NewCSINodeAccess :: "view \<Rightarrow> resource_access" where
  "NewCSINodeAccess v = \<lparr>raView = v, raGVK = GVK CSINodeDescriptor, raNamespace = [], raType = (''storage.k8s.io/v1'', ''CSINode''),
     raListType = (''storage.k8s.io/v1'', ''CSINodeList''), raMethods = csiNodeAccess\<rparr>"

definition NewCSIStorageCapacityAccess :: "view \<Rightarrow> string \<Rightarrow> resource_access" where
  "NewCSIStorageCapacityAccess v ns = \<lparr>raView = v, raGVK = GVK CSIStorageCapacityDescriptor, raNamespace = ns, raType = (''storage.k8s.io/v1'', ''CSIStorageCapacity''),
     raListType = (''storage.k8s.io/v1'', ''CSIStorageCapacityList''), raMethods = csiStorageCapacityAccess\<rparr>"

definition NewStorageClassAccess :: "view \<Rightarrow> resource_access" where
  "NewStorageClassAccess v = \<lparr>raView = v, raGVK = GVK StorageClassDescriptor, raNamespace = [], raType = (''storage.k8s.io/v1'', ''StorageClass''),
     raListType = (''storage.k8s.io/v1'', ''StorageClassList''), raMethods = storageClassAccess\<rparr>"

definition NewVolumeAttachmentAccess :: "view \<Rightarrow> resource_access" where
  "NewVolumeAttachmentAccess v = \<lparr>raView = v, raGVK = GVK VolumeAttachmentDescriptor, raNamespace = [], raType = (''storage.k8s.io/v1'', ''VolumeAttachment''),
     raListType = (''storage.k8s.io/v1'', ''VolumeAttachmentList''), raMethods = volumeAttachmentAccess\<rparr>"

definition NewVolumeAttributesClassAccess :: "view \<Rightarrow> resource_access" where
  "NewVolumeAttributesClassAccess v = \<lparr>raView = v, raGVK = GVK VolumeAttributesClassDescriptor, raNamespace = [], raType = (''storage.k8s.io/v1'', ''VolumeAttributesClass''),
     raListType = (''storage.k8s.io/v1'', ''VolumeAttributesClassList''), raMethods = volumeAttributesClassAccess\<rparr>"

subsection \<open>The client\<close>

text \<open>
  The groups of the client and their resources; what is not listed panics. \<open>ns\<close> is the namespace argument of
  a namespaced resource.
\<close>

datatype client_group = AppsV1 | CoreV1 | PolicyV1 | ResourceV1 | StorageV1

definition inMemClient :: "string \<Rightarrow> client_group outcome" where
  "inMemClient g =
     (if g = ''AppsV1'' then Ok AppsV1 else if g = ''CoreV1'' then Ok CoreV1 else if g = ''StorageV1'' then Ok StorageV1
      else if g = ''PolicyV1'' then Ok PolicyV1 else if g = ''ResourceV1'' then Ok ResourceV1
      else Panic ''not implemented'')"

definition coreV1Impl :: "view \<Rightarrow> string \<Rightarrow> string \<Rightarrow> resource_access outcome" where
  "coreV1Impl v r ns =
     (if r = ''ConfigMaps'' then Ok (NewConfigMapAccess v ns) else if r = ''Events'' then Ok (NewEventAccess v ns)
      else if r = ''Namespaces'' then Ok (NewNamespaceAccess v) else if r = ''Nodes'' then Ok (NewNodeAccess v)
      else if r = ''PersistentVolumes'' then Ok (NewPersistentVolumeAccess v)
      else if r = ''PersistentVolumeClaims'' then Ok (NewPersistentVolumeClaimAccess v ns)
      else if r = ''Pods'' then Ok (NewPodAccess v ns)
      else if r = ''ReplicationControllers'' then Ok (NewReplicationControllerAccess v ns)
      else if r = ''Services'' then Ok (NewServiceAccess v ns)
      else Panic ''not implemented'')"

definition appsV1Impl :: "view \<Rightarrow> string \<Rightarrow> string \<Rightarrow> resource_access outcome" where
  "appsV1Impl v r ns =
     (if r = ''ReplicaSets'' then Ok (NewReplicaSetAccess v ns) else if r = ''StatefulSets'' then Ok (NewStatefulSetAccess v ns)
      else Panic ''not implemented'')"

definition policyV1Impl :: "view \<Rightarrow> string \<Rightarrow> string \<Rightarrow> resource_access outcome" where
  "policyV1Impl v r ns =
     (if r = ''PodDisruptionBudgets'' then Ok (NewPodDisruptionBudgetAccess v ns) else Panic ''not implemented'')"

definition resourceV1Impl :: "view \<Rightarrow> string \<Rightarrow> string \<Rightarrow> resource_access outcome" where
  "resourceV1Impl v r ns =
     (if r = ''DeviceClasses'' then Ok (NewDeviceClassAccess v) else if r = ''ResourceClaims'' then Ok (NewResourceClaimAccess v ns)
      else if r = ''ResourceSlices'' then Ok (NewResourceSliceAccess v) else Panic ''not implemented'')"

definition storageV1Impl :: "view \<Rightarrow> string \<Rightarrow> string \<Rightarrow> resource_access outcome" where
  "storageV1Impl v r ns =
     (if r = ''CSIDrivers'' then Ok (NewCSIDriverAccess v) else if r = ''CSINodes'' then Ok (NewCSINodeAccess v)
      else if r = ''CSIStorageCapacities'' then Ok (NewCSIStorageCapacityAccess v ns)
      else if r = ''StorageClasses'' then Ok (NewStorageClassAccess v)
      else if r = ''VolumeAttachments'' then Ok (NewVolumeAttachmentAccess v)
      else if r = ''VolumeAttributesClasses'' then Ok (NewVolumeAttributesClassAccess v) else Panic ''not implemented'')"

definition accessOf :: "view \<Rightarrow> string \<Rightarrow> string \<Rightarrow> string \<Rightarrow> resource_access outcome" where
  "accessOf v g r ns = bindO (inMemClient g) (\<lambda>grp. case grp of
       AppsV1 \<Rightarrow> appsV1Impl v r ns | CoreV1 \<Rightarrow> coreV1Impl v r ns | PolicyV1 \<Rightarrow> policyV1Impl v r ns
     | ResourceV1 \<Rightarrow> resourceV1Impl v r ns | StorageV1 \<Rightarrow> storageV1Impl v r ns)"

end
