(* ===== verification/VolumeProps.thy ===== *)
theory VolumeProps
  imports Volumes
begin

text \<open>
  What binding claims to volumes does to a view: both sides of the binding are written, in that
  view only; and where the static binding loop fails although it means to go on.
\<close>

subsection \<open>Lemmas\<close>

lemma unheld_result:
  assumes r: "result_ok v g A w w1" and "unheld v a w" "a \<notin> A" "a < nextAddr (wMem w)"
  shows "unheld v a w1"
  unfolding unheld_def
proof (intro ballI allI notI)
  fix j g'
  assume j: "j \<in> set (chain v)" and h: "held w1 j g' a"
  note fr = result_okD(1) [OF r]
  show False
  proof (cases "j = viewId v \<and> g' = g")
    case True
    then show ?thesis using frameD(6) [OF fr, of a] h assms(2-) j by (auto simp: unheld_def)
  next
    case False
    then have "vStores (wViews w1 j) g' = vStores (wViews w j) g'"
      using frameD(1,2) [OF fr] by (cases "j = viewId v") (auto simp: vs_def)
    then show ?thesis using h assms(2) j by (auto simp: held_def unheld_def)
  qed
qed

lemma updObj_simps [simp]:
  "obj (updObj a f w) b = (if b = a then f (obj w a) else obj w b)"
  "nextAddr (wMem (updObj a f w)) = nextAddr (wMem w)" "counters (wMem (updObj a f w)) = counters (wMem w)"
  "wViews (updObj a f w) = wViews w" "wNext (updObj a f w) = wNext w"
  by (simp_all add: updObj_def onWMem_def obj_def)

lemma memStep_updObj: "memStep {a} w (updObj a f w)"
  by (simp add: memStep_def)

lemma memStep_now: "memStep {} w (w\<lparr>wMem := snd (now (wMem w))\<rparr>)"
  by (simp add: memStep_def obj_def)

lemma obj_now [simp]: "obj (w\<lparr>wMem := snd (now (wMem w))\<rparr>) a = obj w a"
  by (simp add: obj_def)

lemma room_memStep: "memStep A w w' \<Longrightarrow> room w' n = room w n"
  by (simp add: memStep_def room_def)

lemma kind_simps [simp]:
  "cacheKey (setAnnotation k x o') = cacheKey o'" "nameOk (setAnnotation k x o') = nameOk o'"
  "isRuntimeObject (setAnnotation k x o') = isRuntimeObject o'" "objGVK (setAnnotation k x o') = objGVK o'"
  "body (setAnnotation k x o') = body o'"
  "mName (ometa (setAnnotation k x o')) = mName (ometa o')" "mUID (ometa (setAnnotation k x o')) = mUID (ometa o')"
  "mNamespace (ometa (setAnnotation k x o')) = mNamespace (ometa o')"
  by (simp_all add: setAnnotation_def name_defs nameOk_def isRuntimeObject_def)

lemma bindClaimBody_simps [simp]:
  "cacheKey (bindClaimBody n o') = cacheKey o'" "nameOk (bindClaimBody n o') = nameOk o'"
  "isRuntimeObject (bindClaimBody n o') = isRuntimeObject o'" "objGVK (bindClaimBody n o') = objGVK o'"
  "ometa (bindClaimBody n o') = ometa o'"
  by (simp_all add: bindClaimBody_def name_defs nameOk_def isRuntimeObject_def split: payload.split)

lemma bindVolumeBody_simps [simp]:
  "cacheKey (bindVolumeBody c t o') = cacheKey o'" "nameOk (bindVolumeBody c t o') = nameOk o'"
  "isRuntimeObject (bindVolumeBody c t o') = isRuntimeObject o'" "objGVK (bindVolumeBody c t o') = objGVK o'"
  by (simp_all add: bindVolumeBody_def name_defs nameOk_def isRuntimeObject_def split: payload.split)

lemma supported_volumes: "supported pvGVK" "supported pvcGVK" "pvGVK \<noteq> pvcGVK"
  by (simp_all add: supported_def SupportedDescriptors_def PersistentVolumesDescriptor_def
      PersistentVolumeClaimsDescriptor_def)

text \<open>Updating a live name with an object nobody holds yet.\<close>

lemma UpdateObject_live:
  assumes "view_ok w v" "supported g" "a < nextAddr (wMem w)" "unheld v a w"
    and "objGVK (obj w a) = g" "isRuntimeObject (obj w a)" "nameOk (obj w a)" "room w (Suc (Suc n))"
    and "absView w v g (cacheKey (obj w a)) = Some (SlotLive q)"
  obtains w' rv where "UpdateObject v g a noOpts w = (Ok (), w')" "result_ok v g {a} w w'"
    "absView w' v g = (absView w v g)(cacheKey (obj w a) \<mapsto> SlotLive (obj w' a))"
    "obj w' a = withRV rv (obj w a)" "room w' n"
  by (rule UpdateObject_ok [OF assms(1-3) unheld_mayWrite [OF assms(4)] assms(5-8), of noOpts])
    (use assms(9) that in auto)

text \<open>Changing an object nobody holds yet, and updating the live object of that name with it.\<close>

lemma modify_live:
  assumes ok: "view_ok w v" "supported g" and x: "x < nextAddr (wMem w)" "unheld v x w" "obj w x = old"
    and f: "objGVK (f old) = g" "isRuntimeObject (f old)" "nameOk (f old)" "cacheKey (f old) = k"
    and live: "absView w v g k = Some (SlotLive q)" and room: "room w (Suc (Suc n))"
  obtains w' rv where "UpdateObject v g x noOpts (updObj x f w) = (Ok (), w')" "result_ok v g {x} w w'"
    "absView w' v g = (absView w v g)(k \<mapsto> SlotLive (obj w' x))" "obj w' x = withRV rv (f old)" "room w' n"
proof -
  let ?w = "updObj x f w"
  have un: "\<And>b. b \<in> {x} \<Longrightarrow> unheld v b w" using x(2) by simp
  note m = memStep_updObj [of x w f]
  note r = memStep_result(1) [OF m ok(1) un, of g] and v = memStep_view [OF m ok(1) un]
  have pre: "unheld v x ?w" "room ?w (Suc (Suc n))"
    using memStep_result(3) [OF m ok(1) un] x(2) room room_memStep [OF m] by simp_all
  obtain w' rv where w': "UpdateObject v g x noOpts ?w = (Ok (), w')" "result_ok v g {x} ?w w'"
      "absView w' v g = (absView ?w v g)(cacheKey (obj ?w x) \<mapsto> SlotLive (obj w' x))" "obj w' x = withRV rv (obj ?w x)" "room w' n"
    by (rule UpdateObject_live [of ?w v g x n q]) (use v ok(2) x pre f live in simp_all)
  then show ?thesis using that [of w' rv] result_ok_trans [OF r w'(2)] v x(3) f(4) by simp
qed

text \<open>No object operation touches the event sink.\<close>

lemma putStore_sink [simp]: "vSink (vs (putStore u g s w) v) = vSink (vs w v)"
  by (simp add: putStore_def setView_def vs_def)

lemma sink_simps [simp]:
  "vSink (vs (w\<lparr>wMem := m\<rparr>) v) = vSink (vs w v)" "vSink (vs (onWMem f w) v) = vSink (vs w v)"
  "vSink (vs (addChange u n w) v) = vSink (vs w v)" "vSink (vs (defaultGVK a g w) v) = vSink (vs w v)"
  "vSink (vs (defaultUID a w) v) = vSink (vs w v)" "vSink (vs (defaultCreationTimestamp a w) v) = vSink (vs w v)"
  "vSink (vs (updObj a h w) v) = vSink (vs w v)" "vSink (vs (snd (deepCopyW a w)) v) = vSink (vs w v)"
  "vSink (vs (snd (defaultName a w)) v) = vSink (vs w v)"
  by (simp_all add: vs_def onWMem_def addChange_def setView_def defaultGVK_def defaultUID_def
      defaultCreationTimestamp_def updObj_def defaultName_def Let_def split_beta)

lemma withStore_sink [simp]: "vSink (vs (snd (withStore u g f w)) v) = vSink (vs w v)"
  by (simp add: withStore_def split_beta split: outcome.split)

lemma bindE_keeps:
  assumes "P (snd r)" "\<And>x s. P s \<Longrightarrow> P (snd (f x s))"
  shows "P (snd (bindE r f))"
  using assms by (cases r) (auto simp: bindE_def split: outcome.split)

lemma CreateObject_sink: "vSink (vs (snd (CreateObject u g a opts w)) v) = vSink (vs w v)"
  unfolding CreateObject_def storeObject_def Let_def
  by (intro bindE_keeps [where P = "\<lambda>w'. vSink (vs w' v) = vSink (vs w v)"]) simp_all

text \<open>Creating a new object: what \<open>CreateObject\<close> of a composite literal does.\<close>

definition createNew :: "view \<Rightarrow> gvk \<Rightarrow> kobj \<Rightarrow> world \<Rightarrow> (addr, world) eff" where
  "createNew v g o' w = (let (a, m) = alloc o' (wMem w) in CreateObject v g a noOpts (w\<lparr>wMem := m\<rparr>))"

lemma createNew_ok:
  assumes ok: "view_ok w v" "supported g" and st: "storable g o'" and room: "room w (Suc n)"
  obtains w' where "createNew v g o' w = (Ok (nextAddr (wMem w)), w')" "view_ok w' v" "room w' n"
    "absView w' v g = (absView w v g)(cacheKey o' \<mapsto> SlotLive (obj w' (nextAddr (wMem w))))"
    "defaulted g o' (obj w' (nextAddr (wMem w)))" "absDelegate w' v = absDelegate w v"
    "\<And>g'. g' \<noteq> g \<Longrightarrow> absView w' v g' = absView w v g'"
    "\<And>b. b < nextAddr (wMem w) \<Longrightarrow> obj w' b = obj w b" "nextAddr (wMem w') = Suc (nextAddr (wMem w))"
    "\<And>j. j \<noteq> viewId v \<Longrightarrow> wViews w' j = wViews w j" "wNext w' = wNext w" "vSink (vs w' v) = vSink (vs w v)"
proof -
  let ?a = "nextAddr (wMem w)"
  define w1 where "w1 = w\<lparr>wMem := snd (alloc o' (wMem w))\<rparr>"
  have m: "memStep {} w w1" by (auto simp: memStep_def w1_def obj_def)
  have o1: "obj w1 ?a = o'" "?a < nextAddr (wMem w1)" "nextAddr (wMem w1) = Suc ?a" by (simp_all add: w1_def obj_def)
  have ok1: "view_ok w1 v" and av1: "absView w1 v = absView w v" using memStep_view [OF m ok(1)] by auto
  have r1: "result_ok v g {} w w1" by (rule memStep_result(1) [OF m ok(1)]) simp
  have un: "unheld v ?a w1" using fresh_unheld [OF ok(1), of ?a] memStep_result(3) [OF m ok(1)] by simp
  have room1: "room w1 (Suc n)" using room room_memStep [OF m] by simp
  have st1: "storable g (obj w1 ?a)" using st o1 by simp
  obtain w' where w': "CreateObject v g ?a noOpts w1 = (Ok ?a, w')" "result_ok v g {?a} w1 w'"
    "absOwn w' (viewId v) g = (absOwn w1 (viewId v) g)(cacheKey (obj w1 ?a) \<mapsto> SlotLive (obj w' ?a))"
    "defaulted g (obj w1 ?a) (obj w' ?a)" "room w' n" "nextAddr (wMem w') = nextAddr (wMem w1)"
    using CreateObject_ok [OF ok1 ok(2) o1(2) un st1 room1, of noOpts] by metis
  have r: "result_ok v g {} w w'" by (rule result_ok_trans [OF r1 w'(2)]) auto
  have fr: "frame v g {} w w'" using result_okD(1) [OF r] .
  show thesis
  proof (rule that [of w'])
    show "createNew v g o' w = (Ok ?a, w')"
      using w'(1) by (simp add: createNew_def w1_def split_beta)
    show "view_ok w' v" "absDelegate w' v = absDelegate w v" using result_okD(2,3) [OF r] by auto
    show "absView w' v g = (absView w v g)(cacheKey o' \<mapsto> SlotLive (obj w' ?a))"
      using absView_result [OF w'(2,3)] av1 o1(1) by simp
    show "\<And>g'. g' \<noteq> g \<Longrightarrow> absView w' v g' = absView w v g'" using result_okD(4) [OF r] by simp
    show "\<And>b. b < ?a \<Longrightarrow> obj w' b = obj w b" using frameD(3) [OF fr] by simp
    show "\<And>j. j \<noteq> viewId v \<Longrightarrow> wViews w' j = wViews w j" using frameD(1) [OF fr] by simp
    show "wNext w' = wNext w" using frameD(8) [OF fr] .
    have "vSink (vs w1 v) = vSink (vs w v)" by (simp add: w1_def vs_def)
    then show "vSink (vs w' v) = vSink (vs w v)" using CreateObject_sink [of v g ?a noOpts w1 v] w'(1) by simp
  qed (use w' o1 in auto)
qed

subsection \<open>Concrete claims and volumes\<close>

definition demoClaimSpec :: pvc_spec where
  "demoClaimSpec = \<lparr>pvcStorageClassName = None, pvcVolumeName = [], pvcVolumeMode = None, pvcAccessModes = [],
     pvcRequests = [(''storage'', 5)], pvcSelector = None, pvcVolumeAttributesClassName = None, pvcRest = []\<rparr>"

definition demoClaim :: kobj where
  "demoClaim = \<lparr>objGVK = emptyGVK, ometa = emptyMeta\<lparr>mName := ''c'', mNamespace := ''d''\<rparr>,
     body = PVCBody demoClaimSpec ''Pending'' []\<rparr>"

definition demoVolumeSpec :: pv_spec where
  "demoVolumeSpec = \<lparr>pvCapacity = [(''storage'', 10)], pvNodeAffinity = None, pvClaimRef = None,
     pvStorageClassName = [], pvVolumeMode = None, pvAccessModes = [], pvReclaimPolicy = ''Delete'',
     pvVolumeAttributesClassName = None\<rparr>"

definition demoVolume :: kobj where
  "demoVolume = \<lparr>objGVK = emptyGVK, ometa = emptyMeta\<lparr>mName := ''v''\<rparr>,
     body = PVBody demoVolumeSpec ''Available'' None\<rparr>"

definition demoDangling :: kobj where
  "demoDangling = demoVolume\<lparr>body := PVBody (demoVolumeSpec\<lparr>pvClaimRef := Some
     \<lparr>refKind = [], refNamespace = ''d'', refName = ''c'', refUID = [], refAPIVersion = []\<rparr>\<rparr>) ''Released'' None\<rparr>"

lemma demoClaim_facts: "storable pvcGVK demoClaim" "cacheKey demoClaim = ''d/c''"
  "body demoClaim = PVCBody demoClaimSpec ''Pending'' []"
  by (simp_all add: storable_def nameOk_def name_defs isRuntimeObject_def demoClaim_def emptyMeta_def emptyGVK_def)

lemma demoVolume_facts: "storable pvGVK demoVolume" "cacheKey demoVolume = ''v''" "mName (ometa demoVolume) = ''v''"
  "body demoVolume = PVBody demoVolumeSpec ''Available'' None" "storable pvGVK demoDangling" "cacheKey demoDangling = ''v''"
  by (simp_all add: storable_def nameOk_def name_defs isRuntimeObject_def demoVolume_def demoDangling_def
      emptyMeta_def emptyGVK_def)

text \<open>A claim and a volume in the sandbox, and a dangling volume in the base view.\<close>

definition demoV1 :: world where
  "demoV1 = snd (createNew demoSandbox pvcGVK demoClaim demoWorld)"

definition demoV2 :: world where
  "demoV2 = snd (createNew demoSandbox pvGVK demoVolume demoV1)"

definition demoD :: world where
  "demoD = snd (createNew demoBase pvGVK demoDangling demoWorld1)"

lemma demoV2:
  "\<exists>c p. view_ok demoV2 demoSandbox \<and> room demoV2 6 \<and> obj demoV2 demoAddr = c \<and> obj demoV2 (Suc demoAddr) = p \<and>
    nextAddr (wMem demoV2) = Suc (Suc demoAddr) \<and>
    absView demoV2 demoSandbox pvcGVK ''d/c'' = Some (SlotLive c) \<and>
    absView demoV2 demoSandbox pvGVK ''v'' = Some (SlotLive p) \<and>
    defaulted pvcGVK demoClaim c \<and> defaulted pvGVK demoVolume p"
proof -
  have r: "room demoWorld (Suc 7)" using demo(3) by simp
  obtain w1 where w1: "createNew demoSandbox pvcGVK demoClaim demoWorld = (Ok (nextAddr (wMem demoWorld)), w1)"
    "view_ok w1 demoSandbox" "room w1 7"
    "absView w1 demoSandbox pvcGVK = (absView demoWorld demoSandbox pvcGVK)
       (cacheKey demoClaim \<mapsto> SlotLive (obj w1 (nextAddr (wMem demoWorld))))"
    "defaulted pvcGVK demoClaim (obj w1 (nextAddr (wMem demoWorld)))"
    "nextAddr (wMem w1) = Suc (nextAddr (wMem demoWorld))"
    using createNew_ok [OF demo(1) supported_volumes(2) demoClaim_facts(1) r] by metis
  have e1: "demoV1 = w1" using w1(1) by (simp add: demoV1_def)
  have r1: "room w1 (Suc 6)" using w1(3) by simp
  obtain w2 where w2: "createNew demoSandbox pvGVK demoVolume w1 = (Ok (nextAddr (wMem w1)), w2)"
    "view_ok w2 demoSandbox" "room w2 6"
    "absView w2 demoSandbox pvGVK = (absView w1 demoSandbox pvGVK)(cacheKey demoVolume \<mapsto> SlotLive (obj w2 (nextAddr (wMem w1))))"
    "defaulted pvGVK demoVolume (obj w2 (nextAddr (wMem w1)))"
    "absView w2 demoSandbox pvcGVK = absView w1 demoSandbox pvcGVK"
    "obj w2 (nextAddr (wMem demoWorld)) = obj w1 (nextAddr (wMem demoWorld))"
    "nextAddr (wMem w2) = Suc (nextAddr (wMem w1))"
    using createNew_ok [OF w1(2) supported_volumes(1) demoVolume_facts(1) r1] supported_volumes(3) w1(6)
    by (metis lessI)
  have e2: "demoV2 = w2" using w2(1) by (simp add: demoV2_def e1)
  show ?thesis using w1 w2 by (simp add: e2 demoAddr_def demoClaim_facts demoVolume_facts)
qed

lemma demoD:
  "\<exists>p. view_ok demoD demoBase \<and> absView demoD demoBase pvGVK = [''v'' \<mapsto> SlotLive p] \<and>
    absView demoD demoBase pvcGVK = (\<lambda>_. None) \<and> body p = body demoDangling"
proof -
  have r: "room demoWorld1 (Suc 8)" using demo1(6) by simp
  have none: "absView demoWorld1 demoBase g = (\<lambda>_. None)" for g using demo1(2) by auto
  obtain w1 where w1: "createNew demoBase pvGVK demoDangling demoWorld1 = (Ok (nextAddr (wMem demoWorld1)), w1)"
    "view_ok w1 demoBase"
    "absView w1 demoBase pvGVK = (absView demoWorld1 demoBase pvGVK)
       (cacheKey demoDangling \<mapsto> SlotLive (obj w1 (nextAddr (wMem demoWorld1))))"
    "defaulted pvGVK demoDangling (obj w1 (nextAddr (wMem demoWorld1)))"
    "absView w1 demoBase pvcGVK = absView demoWorld1 demoBase pvcGVK"
    using createNew_ok [OF demo1(1) supported_volumes(1) demoVolume_facts(5) r] supported_volumes(3) by metis
  have e1: "demoD = w1" using w1(1) by (simp add: demoD_def)
  show ?thesis using w1 none defaulted_simps(3) [OF w1(4)] by (auto simp: e1 demoVolume_facts)
qed

subsection \<open>Claims\<close>

text \<open>
  C26. Binding a claim to a volume that a view both shows writes both sides in that view: the claim
  gets the volume's name and the phase \<open>Bound\<close>, the volume a reference to the claim and the phase
  \<open>Bound\<close>; nothing else the view shows changes, and what the delegate shows is untouched.
\<close>

theorem BindClaimAndVolume_binds:
  assumes ok: "view_ok w v" and room: "room w (Suc (Suc (Suc (Suc n))))"
    and alloc: "pvc < nextAddr (wMem w)" "pv < nextAddr (wMem w)"
    and c: "absView w v pvcGVK (cacheKey (obj w pvc)) = Some (SlotLive (obj w pvc))"
      "body (obj w pvc) = PVCBody sp ph cap"
    and p: "absView w v pvGVK (cacheKey (obj w pv)) = Some (SlotLive (obj w pv))"
      "body (obj w pv) = PVBody psp pph pt"
  shows "\<exists>w' c' p' t. BindClaimAndVolume v pvc pv w = (Ok (), w') \<and> view_ok w' v \<and>
     absDelegate w' v = absDelegate w v \<and>
     absView w' v pvcGVK = (absView w v pvcGVK)(cacheKey (obj w pvc) \<mapsto> SlotLive c') \<and>
     absView w' v pvGVK = (absView w v pvGVK)(cacheKey (obj w pv) \<mapsto> SlotLive p') \<and>
     body c' = PVCBody (sp\<lparr>pvcVolumeName := mName (ometa (obj w pv))\<rparr>) ''Bound'' cap \<and>
     body p' = PVBody (psp\<lparr>pvClaimRef := Some \<lparr>refKind = ''PersistentVolumeClaim'',
         refNamespace = mNamespace (ometa (obj w pvc)), refName = mName (ometa (obj w pvc)),
         refUID = mUID (ometa (obj w pvc)), refAPIVersion = ''v1''\<rparr>\<rparr>) ''Bound'' (Some t)"
proof -
  let ?c = "obj w pvc" and ?p = "obj w pv" and ?a = "nextAddr (wMem w)"
  let ?b = "Suc ?a" and ?w1 = "snd (deepCopyW pv w)"
  let ?w2 = "snd (deepCopyW pvc ?w1)"
  let ?f = "\<lambda>o'. setAnnotation AnnBoundByController ''yes'' (setAnnotation AnnBindCompleted ''yes'' (bindClaimBody (mName (ometa ?p)) o'))"
  note key = absView_key [OF ok c(1)] and keyp = absView_key [OF ok p(1)]
  have m: "memStep {} w ?w2" by (auto simp: memStep_def)
  note v2 = memStep_view [OF m ok, simplified] and un2 = memStep_result(3) [OF m ok, simplified]
  have o2: "obj ?w2 ?a = ?p" "obj ?w2 ?b = ?c" and lt2: "?a < nextAddr (wMem ?w2)" "?b < nextAddr (wMem ?w2)"
    using alloc by simp_all
  have un: "unheld v x ?w2" if "?a \<le> x" for x using fresh_unheld [OF ok that] un2 by simp
  have r2: "room ?w2 (Suc (Suc (Suc (Suc n))))" using room room_memStep [OF m] by simp
  have fc: "body (?f ?c) = PVCBody (sp\<lparr>pvcVolumeName := mName (ometa ?p)\<rparr>) ''Bound'' cap"
    using c(2) by (simp add: bindClaimBody_def)
  obtain w4 rv where w4: "UpdateObject v pvcGVK ?b noOpts (updObj ?b ?f ?w2) = (Ok (), w4)" "result_ok v pvcGVK {?b} ?w2 w4"
      "absView w4 v pvcGVK = (absView ?w2 v pvcGVK)(cacheKey ?c \<mapsto> SlotLive (obj w4 ?b))" "obj w4 ?b = withRV rv (?f ?c)" "room w4 (Suc (Suc n))"
    by (rule modify_live [of ?w2 v pvcGVK ?b ?c ?f "cacheKey ?c" ?c];
        (rule that; assumption | use v2 lt2 un o2 key c r2 supported_volumes in simp))
  let ?m4 = "snd (now (wMem w4))" and ?t = "fst (now (wMem w4))"
  let ?w5 = "w4\<lparr>wMem := ?m4\<rparr>"
  let ?g = "\<lambda>o'. setAnnotation AnnBoundByController ''yes'' (bindVolumeBody (ometa (obj ?w5 ?b)) ?t o')"
  have ok4: "view_ok w4 v" by (rule result_okD(2) [OF w4(2)])
  note m5 = memStep_now [of w4]
  note v5 = memStep_view [OF m5 ok4, simplified] and un5 = memStep_result(3) [OF m5 ok4, simplified]
  have o5: "obj ?w5 ?a = ?p" and lt5: "?a < nextAddr (wMem ?w5)"
    using frameD(3) [OF result_okD(1) [OF w4(2)], of ?a] frameD(4) [OF result_okD(1) [OF w4(2)]] lt2 o2 by simp_all
  have un': "unheld v ?a ?w5" using unheld_result [OF w4(2) un [of ?a]] un5 lt2 by simp
  have av: "absView ?w5 v pvGVK = absView w v pvGVK" using result_okD(4) [OF w4(2) supported_volumes(3)] v2 v5 by simp
  obtain w6 rv' where w6: "UpdateObject v pvGVK ?a noOpts (updObj ?a ?g ?w5) = (Ok (), w6)" "result_ok v pvGVK {?a} ?w5 w6"
      "absView w6 v pvGVK = (absView ?w5 v pvGVK)(cacheKey ?p \<mapsto> SlotLive (obj w6 ?a))" "obj w6 ?a = withRV rv' (?g ?p)"
    by (rule modify_live [of ?w5 v pvGVK ?a ?p ?g "cacheKey ?p" ?p n];
        (rule that; assumption | use v5 lt5 un' o5 keyp p av w4(5) room_memStep [OF m5] supported_volumes in simp))
  have "BindClaimAndVolume v pvc pv w = (Ok (), w6)"
    using w4(1) w6(1) o2 by (simp add: BindClaimAndVolume_def Let_def case_prod_beta)
  moreover have "absView w6 v pvcGVK = (absView w v pvcGVK)(cacheKey ?c \<mapsto> SlotLive (obj w4 ?b))"
    using result_okD(4) [OF w6(2), of pvcGVK] supported_volumes(3) v5 v2 w4(3) by simp
  moreover have "absDelegate w6 v = absDelegate w v"
    using result_okD(3) [OF w6(2)] result_okD(3) [OF w4(2)] memStep_result(1) [OF m ok, THEN result_okD(3), simplified]
      memStep_result(1) [OF m5 ok4, THEN result_okD(3), simplified] by simp
  moreover have "body (obj w4 ?b) = PVCBody (sp\<lparr>pvcVolumeName := mName (ometa ?p)\<rparr>) ''Bound'' cap" using w4(4) fc by simp
  moreover have "body (obj w6 ?a) = PVBody (psp\<lparr>pvClaimRef := Some \<lparr>refKind = ''PersistentVolumeClaim'',
         refNamespace = mNamespace (ometa ?c), refName = mName (ometa ?c),
         refUID = mUID (ometa ?c), refAPIVersion = ''v1''\<rparr>\<rparr>) ''Bound'' (Some ?t)"
    using w6(4) p(2) w4(4) by (simp add: bindVolumeBody_def withRV_def)
  ultimately show ?thesis using result_okD(2) [OF w6(2)] w6(3) av by (simp, blast)
qed


theorem BindClaimAndVolume_binds_witness:
  "\<exists>w' c'. BindClaimAndVolume demoSandbox demoAddr (Suc demoAddr) demoV2 = (Ok (), w') \<and>
     absView w' demoSandbox pvcGVK ''d/c'' = Some (SlotLive c') \<and>
     body c' = PVCBody (demoClaimSpec\<lparr>pvcVolumeName := ''v''\<rparr>) ''Bound'' []"
proof -
  obtain c p where v: "view_ok demoV2 demoSandbox" "room demoV2 6" "obj demoV2 demoAddr = c" "obj demoV2 (Suc demoAddr) = p"
    "nextAddr (wMem demoV2) = Suc (Suc demoAddr)"
    "absView demoV2 demoSandbox pvcGVK ''d/c'' = Some (SlotLive c)" "absView demoV2 demoSandbox pvGVK ''v'' = Some (SlotLive p)"
    "defaulted pvcGVK demoClaim c" "defaulted pvGVK demoVolume p"
    using demoV2 by metis
  note c = defaulted_simps [OF v(8)] and p = defaulted_simps [OF v(9)]
  have room: "room demoV2 (Suc (Suc (Suc (Suc 2))))" using v(2) by (simp add: numeral_eq_Suc)
  from BindClaimAndVolume_binds [OF v(1) room, of demoAddr "Suc demoAddr" demoClaimSpec "''Pending''" "[]"]
  show ?thesis
    using v(3-7) c p by (fastforce simp: demoClaim_facts demoVolume_facts)
qed

text \<open>
  A volume whose claim reference cannot be resolved makes the whole static binding step fail,
  although the loop means to skip it: if all volumes that are referenced and not yet bound dangle,
  and there is one, the step ends in an error.
\<close>

theorem finalize_dangling_fails:
  assumes "ListPersistentVolumes cx v w = Ok pvs"
    and "\<forall>q\<in>set pvs. \<forall>ref. staticallySelected (obj w q) = Some ref \<longrightarrow>
      (\<exists>e. GetObject v pvcGVK \<lparr>onNamespace = refNamespace ref, onName = refName ref\<rparr> w = Err e)"
    and "\<exists>q\<in>set pvs. staticallySelected (obj w q) \<noteq> None"
  shows "\<exists>e. FinalizeStaticBindingsForSelectedClaimsInWFFC cx v w = (Err (Wrapped ''finalize'' [ErrBindClaimVolume, e]), w)"
proof -
  have "\<exists>e. finalizeLoop v pvs err n w = (Err e, w)"
    if "err \<noteq> None \<or> (\<exists>q\<in>set pvs. staticallySelected (obj w q) \<noteq> None)" for err n
    using that assms(2)
  proof (induction pvs arbitrary: err)
    case (Cons q pvs)
    show ?case
    proof (cases "staticallySelected (obj w q)")
      case None
      then show ?thesis using Cons.IH [of err] Cons.prems by auto
    next
      case (Some ref)
      then obtain e where "GetObject v pvcGVK \<lparr>onNamespace = refNamespace ref, onName = refName ref\<rparr> w = Err e"
        using Cons.prems(2) by auto
      then show ?thesis using Some Cons.IH [of "Some e"] Cons.prems(2) by auto
    qed
  qed auto
  then obtain e where "finalizeLoop v pvs None 0 w = (Err e, w)" using assms(3) by blast
  then show ?thesis using assms(1) by (simp add: FinalizeStaticBindingsForSelectedClaimsInWFFC_def)
qed

theorem finalize_dangling_fails_witness:
  "\<exists>e. FinalizeStaticBindingsForSelectedClaimsInWFFC noCancel demoBase demoD =
     (Err (Wrapped ''finalize'' [ErrBindClaimVolume, e]), demoD)"
proof -
  obtain p where v: "view_ok demoD demoBase" "absView demoD demoBase pvGVK = [''v'' \<mapsto> SlotLive p]"
    "absView demoD demoBase pvcGVK = (\<lambda>_. None)" "body p = body demoDangling"
    using demoD by metis
  have own: "own_ok demoD 0" using v(1) by (simp add: demoBase_def)
  obtain xs mv where xs: "readStore demoBase pvGVK (ResStore.ListMetaObjects background MatchAllCriteria) demoD = Ok (xs, mv)"
    "set xs = {a. held demoD 0 pvGVK a \<and> Matches MatchAllCriteria (obj demoD a)}"
    by (rule store_listing [OF own supported_volumes(1), of demoBase MatchAllCriteria]) (simp_all add: demoBase_def)
  have sel: "staticallySelected p = Some \<lparr>refKind = [], refNamespace = ''d'', refName = ''c'', refUID = [], refAPIVersion = []\<rparr>"
    and kind: "goKind (body p) = ''PersistentVolume''"
    using v(4) by (simp_all add: staticallySelected_def demoDangling_def demoVolumeSpec_def goKind_def)
  have at: "absOwn demoD 0 pvGVK = [''v'' \<mapsto> SlotLive p]" using v(2) by (simp add: demoBase_def)
  have "(\<exists>a. held demoD 0 pvGVK a \<and> obj demoD a = o') \<longleftrightarrow> o' = p" for o'
    unfolding held_live [OF own supported_volumes(1), symmetric] at by (auto split: if_splits)
  then have "{o'. \<exists>a. held demoD 0 pvGVK a \<and> obj demoD a = o'} = {p}" by simp
  then have "obj demoD ` {a. held demoD 0 pvGVK a} = {p}" by (simp add: image_def eq_commute)
  then have "obj demoD ` set xs = {p}" by (simp add: xs(2))
  then have all: "\<forall>q\<in>set xs. obj demoD q = p" "set xs \<noteq> {}" by auto
  have "castAll ''PersistentVolume'' demoD ys = Ok ys" if "\<forall>q\<in>set ys. obj demoD q = p" for ys
    using that kind by (induction ys) auto
  with all(1) have list: "ListPersistentVolumes noCancel demoBase demoD = Ok xs"
    using xs(1) by (simp add: ListPersistentVolumes_def listMetaObjects_def noCancel_def demoBase_def)
  have "\<exists>e. GetObject demoBase pvcGVK \<lparr>onNamespace = ''d'', onName = ''c''\<rparr> demoD = Err e"
    using GetObject_abs [OF v(1) supported_volumes(2), of "\<lparr>onNamespace = ''d'', onName = ''c''\<rparr>"] v(3) by auto
  then show ?thesis
    by (intro finalize_dangling_fails [OF list]) (use all sel in \<open>auto simp: ex_in_conv\<close>)
qed

end
