(* ===== verification/ClientProps.thy ===== *)
theory ClientProps
  imports Client VolumeProps
begin

text \<open>
  Properties of the in-memory client: what it hands out fits the registry of types, and what is
  created through it is read back, in the namespace of the access, and isolated from the delegate.
\<close>

lemmas access_defs = NewConfigMapAccess_def NewEventAccess_def NewNamespaceAccess_def NewNodeAccess_def
  NewPersistentVolumeAccess_def NewPersistentVolumeClaimAccess_def NewPodAccess_def NewReplicationControllerAccess_def
  NewServiceAccess_def NewReplicaSetAccess_def NewStatefulSetAccess_def NewPodDisruptionBudgetAccess_def
  NewDeviceClassAccess_def NewResourceClaimAccess_def NewResourceSliceAccess_def NewCSIDriverAccess_def NewCSINodeAccess_def
  NewCSIStorageCapacityAccess_def NewStorageClassAccess_def NewVolumeAttachmentAccess_def NewVolumeAttributesClassAccess_def

lemmas method_defs = configMapAccess_def eventAccess_def namespaceAccess_def nodeAccess_def pvAccess_def pvcAccess_def
  podAccess_def replicationControllerAccess_def serviceAccess_def replicaSetAccess_def statefulSetAccess_def
  podDisruptionBudgetAccess_def deviceClassAccess_def resourceClaimAccess_def resourceSliceAccess_def csiDriverAccess_def
  csiNodeAccess_def csiStorageCapacityAccess_def storageClassAccess_def volumeAttachmentAccess_def volumeAttributesClassAccess_def

lemmas group_defs = accessOf_def inMemClient_def coreV1Impl_def appsV1Impl_def policyV1Impl_def resourceV1Impl_def storageV1Impl_def

definition allAccesses :: "view \<Rightarrow> string \<Rightarrow> resource_access list" where
  "allAccesses v ns = [NewConfigMapAccess v ns, NewEventAccess v ns, NewNamespaceAccess v, NewNodeAccess v,
     NewPersistentVolumeAccess v, NewPersistentVolumeClaimAccess v ns, NewPodAccess v ns, NewReplicationControllerAccess v ns,
     NewServiceAccess v ns, NewReplicaSetAccess v ns, NewStatefulSetAccess v ns, NewPodDisruptionBudgetAccess v ns,
     NewDeviceClassAccess v, NewResourceClaimAccess v ns, NewResourceSliceAccess v, NewCSIDriverAccess v, NewCSINodeAccess v,
     NewCSIStorageCapacityAccess v ns, NewStorageClassAccess v, NewVolumeAttachmentAccess v, NewVolumeAttributesClassAccess v]"

definition allResources :: "string list" where
  "allResources = [''ConfigMaps'', ''Events'', ''Namespaces'', ''Nodes'', ''PersistentVolumes'', ''PersistentVolumeClaims'',
     ''Pods'', ''ReplicationControllers'', ''Services'', ''ReplicaSets'', ''StatefulSets'', ''PodDisruptionBudgets'',
     ''DeviceClasses'', ''ResourceClaims'', ''ResourceSlices'', ''CSIDrivers'', ''CSINodes'', ''CSIStorageCapacities'',
     ''StorageClasses'', ''VolumeAttachments'', ''VolumeAttributesClasses'']"

lemma accessOf_named: "accessOf v g r ns = Ok acc \<Longrightarrow> (r, acc) \<in> set (zip allResources (allAccesses v ns))"
  by (auto simp: group_defs allAccesses_def allResources_def bindO_def split: if_splits client_group.splits outcome.splits)

lemma accessOf_all: "accessOf v g r ns = Ok acc \<Longrightarrow> acc \<in> set (allAccesses v ns)"
  by (drule accessOf_named) (rule set_zip_rightD)

text \<open>
  The descriptor of an access, and the Go types of its objects and lists. They are the types of the
  kind, except for events: their access is on the events of \<open>events.k8s.io/v1\<close> with the types of
  \<open>core/v1\<close>.
\<close>

definition fits :: "descriptor \<Rightarrow> view \<Rightarrow> string \<Rightarrow> resource_access \<Rightarrow> bool" where
  "fits d v ns acc \<longleftrightarrow> raView acc = v \<and> raGVK acc = GVK d \<and>
     raNamespace acc = (if arNamespaced (APIResource d) then ns else []) \<and>
     (if d = EventsDescriptor then raType acc = (''v1'', ''Event'') \<and> raListType acc = (''v1'', ''EventList'')
      else raType acc = (groupVersionString (GVK d), GetKind d) \<and>
        raListType acc = (groupVersionString (GVK d), GetKind d @ ''List''))"

definition clientDescriptors :: "descriptor list" where
  "clientDescriptors = [
     ConfigMapsDescriptor, EventsDescriptor, NamespacesDescriptor, NodesDescriptor, PersistentVolumesDescriptor,
     PersistentVolumeClaimsDescriptor, PodsDescriptor, ReplicationControllersDescriptor, ServicesDescriptor,
     ReplicaSetDescriptor, StatefulSetDescriptor, PodDisruptionBudgetDescriptor, DeviceClassDescriptor,
     ResourceClaimDescriptor, ResourceSliceDescriptor, CSIDriverDescriptor, CSINodeDescriptor,
     CSIStorageCapacityDescriptor, StorageClassDescriptor, VolumeAttachmentDescriptor,
     VolumeAttributesClassDescriptor]"

lemma clientDescriptors_supported: "set clientDescriptors \<subseteq> set SupportedDescriptors"
  by (simp add: clientDescriptors_def SupportedDescriptors_def)

lemma NewDescriptor_simps:
  "arNamespaced (APIResource (NewDescriptor g l n p sh)) = n" "GetKind (NewDescriptor g l n p sh) = gvkKind g"
  "groupVersionString (GVK (NewDescriptor g l n p sh)) = groupVersionString g"
  "arName (APIResource (NewDescriptor g l n p sh)) = p"
  "gvkKind g \<noteq> gvkKind g' \<Longrightarrow> NewDescriptor g l n p sh \<noteq> NewDescriptor g' l' n' p' sh'"
  by (auto simp: NewDescriptor_def GetKind_def)

lemma allAccesses_fit: "list_all2 (\<lambda>d. fits d v ns) clientDescriptors (allAccesses v ns)"
  unfolding clientDescriptors_def allAccesses_def
  by (intro list.rel_intros; unfold fits_def access_defs;
    simp add: descriptor_defs(2-) NewDescriptor_simps groupVersionString_def)

text \<open>\<open>strings.ToLower\<close> on ASCII; the resources of the API are named by it.\<close>

definition lowerChar :: "char \<Rightarrow> char" where
  "lowerChar c = (if of_char c \<in> {65..90 :: nat} then char_of (of_char c + 32 :: nat) else c)"

lemma resources_named: "map (\<lambda>d. arName (APIResource d)) clientDescriptors = map (map lowerChar) allResources"
  by code_simp

lemma allAccesses_methods:
  "\<forall>acc\<in>set (allAccesses v ns). map_of (raMethods acc) ''Create'' = Some CreateInAccessNamespace \<and>
     map_of (raMethods acc) ''Update'' = Some Updates \<and> map_of (raMethods acc) ''Delete'' = Some Deletes \<and>
     map_of (raMethods acc) ''Get'' = Some Gets \<and> map_of (raMethods acc) ''List'' = Some Lists \<and>
     map_of (raMethods acc) ''Watch'' = Some Watches \<and> map_of (raMethods acc) ''Patch'' = Some Patches"
  unfolding allAccesses_def list.set ball_simps
  by (intro conjI TrueI; unfold access_defs; simp add: method_defs)

lemma accessOf_fits:
  assumes "accessOf v g r ns = Ok acc"
  obtains d where "d \<in> set SupportedDescriptors" "arName (APIResource d) = map lowerChar r" "fits d v ns acc"
proof -
  obtain i where i: "i < length allResources" "i < length (allAccesses v ns)" "r = allResources ! i" "acc = allAccesses v ns ! i"
    using accessOf_named [OF assms] by (auto simp: in_set_zip)
  then have f: "fits (clientDescriptors ! i) v ns acc" "i < length clientDescriptors"
    using allAccesses_fit [of v ns] by (auto simp: list_all2_conv_all_nth)
  have "arName (APIResource (clientDescriptors ! i)) = map lowerChar r"
    using arg_cong [OF resources_named, of "\<lambda>xs. xs ! i"] f(2) i(1,3) by simp
  then show ?thesis using f clientDescriptors_supported that nth_mem by blast
qed

lemma accessOf_supported: "accessOf v g r ns = Ok acc \<Longrightarrow> raView acc = v \<and> supported (raGVK acc)"
  by (erule accessOf_fits) (auto simp: fits_def supported_def)

subsection \<open>Creating and reading\<close>

definition inNamespace :: "string \<Rightarrow> kobj \<Rightarrow> kobj" where
  "inNamespace ns o' = o'\<lparr>ometa := ometa o'\<lparr>mNamespace := ns\<rparr>\<rparr>"

lemma inNamespace_simps [simp]:
  "body (inNamespace ns o') = body o'" "mName (ometa (inNamespace ns o')) = mName (ometa o')"
  "mNamespace (ometa (inNamespace ns o')) = ns"
  by (simp_all add: inNamespace_def)

text \<open>The input object of a create call, moved to the namespace of the access.\<close>

definition moved :: "resource_access \<Rightarrow> addr \<Rightarrow> world \<Rightarrow> world" where
  "moved acc a w = (if mNamespace (ometa (obj w a)) \<noteq> raNamespace acc
     then onWMem (updMeta a (\<lambda>mt. mt\<lparr>mNamespace := raNamespace acc\<rparr>)) w else w)"

lemma moved_facts:
  "memStep {a} w (moved acc a w)" "obj (moved acc a w) a = inNamespace (raNamespace acc) (obj w a)"
  "nextAddr (wMem (moved acc a w)) = nextAddr (wMem w)"
  by (auto simp: moved_def memStep_def inNamespace_def obj_def onWMem_def)

lemma CreateObjectWithAccessNamespace_ok:
  assumes "view_ok w (raView acc)" "supported (raGVK acc)" "a < nextAddr (wMem w)" "unheld (raView acc) a w"
    and "storable (raGVK acc) (inNamespace (raNamespace acc) (obj w a))" "ofGoType (raType acc) (body (obj w a))" "room w (Suc n)"
  obtains w' where "CreateObjectWithAccessNamespace acc a w = (Ok a, w')" "view_ok w' (raView acc)" "room w' n"
    "defaulted (raGVK acc) (inNamespace (raNamespace acc) (obj w a)) (obj w' a)"
    "absDelegate w' (raView acc) = absDelegate w (raView acc)"
    "absView w' (raView acc) (raGVK acc) = (absView w (raView acc) (raGVK acc))(cacheKey (inNamespace (raNamespace acc) (obj w a)) \<mapsto> SlotLive (obj w' a))"
proof -
  let ?w = "moved acc a w" and ?v = "raView acc" and ?g = "raGVK acc"
  note m = moved_facts [where acc = acc and a = a and w = w]
  have un: "\<And>b. b \<in> {a} \<Longrightarrow> unheld ?v b w" using assms(4) by simp
  note st = memStep_result(1) [OF m(1) assms(1) un, of ?g]
  note un' = memStep_result(3) [OF m(1) assms(1) un]
  have pre: "view_ok ?w ?v" "a < nextAddr (wMem ?w)" "unheld ?v a ?w" "storable ?g (obj ?w a)" "room ?w (Suc n)"
    using result_okD(2) [OF st] assms m room_memStep [OF m(1)] un' by simp_all
  obtain w' where w': "CreateObject ?v ?g a noOpts ?w = (Ok a, w')" "result_ok ?v ?g {a} ?w w'"
      "absOwn w' (viewId ?v) ?g = (absOwn ?w (viewId ?v) ?g)(cacheKey (obj ?w a) \<mapsto> SlotLive (obj w' a))"
      "defaulted ?g (obj ?w a) (obj w' a)" "room w' n"
    using CreateObject_ok [OF pre(1) assms(2) pre(2-5), of noOpts] by metis
  have "absView ?w ?v ?g = absView w ?v ?g" using memStep_view [OF m(1) assms(1) un] by simp
  then have "absView w' ?v ?g = (absView w ?v ?g)(cacheKey (obj ?w a) \<mapsto> SlotLive (obj w' a))"
    using absView_result [OF w'(2,3)] by simp
  moreover have "body (obj w' a) = body (obj w a)" using w'(4) m(2) by (simp add: defaulted_def)
  ultimately show ?thesis
    using that [of w'] w' m(2) assms(6) result_okD(2,3) [OF w'(2)] result_okD(3) [OF st]
    by (simp add: CreateObjectWithAccessNamespace_def moved_def [symmetric] Cast_def)
qed

text \<open>
  C28. Whatever the client hands out for a group, a resource and a namespace works on its view and on the
  supported kind whose API resource has that name, and is confined to the given namespace exactly if
  the kind is namespaced. Its objects and its lists have the Go types of that kind, API version
  included, with one exception: the access for events is on the events of \<open>events.k8s.io/v1\<close> but
  typed with those of \<open>core/v1\<close>, which is why no list gets through it (\<open>event_list_fails\<close>). And every
  access creates, updates, deletes, gets, lists, watches and patches.
\<close>

theorem accessOf_typed:
  assumes "accessOf v g r ns = Ok acc"
  shows "(\<exists>d\<in>set SupportedDescriptors. arName (APIResource d) = map lowerChar r \<and> raView acc = v \<and> raGVK acc = GVK d \<and>
      raNamespace acc = (if arNamespaced (APIResource d) then ns else []) \<and>
      (if d = EventsDescriptor then raType acc = (''v1'', ''Event'') \<and> raListType acc = (''v1'', ''EventList'')
       else raType acc = (groupVersionString (GVK d), GetKind d) \<and>
         raListType acc = (groupVersionString (GVK d), GetKind d @ ''List''))) \<and>
    map (map_of (raMethods acc)) [''Create'', ''Update'', ''Delete'', ''Get'', ''List'', ''Watch'', ''Patch''] =
      map Some [CreateInAccessNamespace, Updates, Deletes, Gets, Lists, Watches, Patches]"
proof -
  obtain d where "d \<in> set SupportedDescriptors" "arName (APIResource d) = map lowerChar r" "fits d v ns acc"
    using accessOf_fits [OF assms] .
  then show ?thesis using allAccesses_methods [of v ns] accessOf_all [OF assms]
    unfolding fits_def by (intro conjI bexI [of _ d]) simp_all
qed

theorem accessOf_typed_witness:
  "\<exists>acc. accessOf demoSandbox ''CoreV1'' ''Pods'' ''d'' = Ok acc \<and> (\<exists>d\<in>set SupportedDescriptors. raGVK acc = GVK d)"
proof -
  have "accessOf demoSandbox ''CoreV1'' ''Pods'' ''d'' = Ok (NewPodAccess demoSandbox ''d'')" by (simp add: group_defs)
  from this accessOf_typed [OF this] show ?thesis by blast
qed

text \<open>
  C20. What the client creates it reads back. For every access the client hands out: creating an object
  of its type moves it to the namespace of the access, whatever namespace it named, and stores it
  there; a get by its name then returns the stored object, which is the input with defaults filled
  in; and the delegate of a sandbox does not change.
\<close>

theorem client_create_get:
  assumes "accessOf v g r ns = Ok acc" "view_ok w v" "caObj c < nextAddr (wMem w)" "unheld v (caObj c) w"
    and "storable (raGVK acc) (inNamespace (raNamespace acc) (obj w (caObj c)))"
    and "ofGoType (raType acc) (body (obj w (caObj c)))" "room w (Suc n)"
    and "caName c' = mName (ometa (obj w (caObj c)))" "caResourceVersion c' = []"
  shows "\<exists>w' b. call lib acc ''Create'' c w = Some (Ok (RObj (caObj c)), w') \<and>
    call lib acc ''Get'' c' w' = Some (Ok (RObj b), w') \<and> view_ok w' v \<and> room w' n \<and> absDelegate w' v = absDelegate w v \<and>
    defaulted (raGVK acc) (inNamespace (raNamespace acc) (obj w (caObj c))) (obj w' b)"
proof -
  let ?o = "inNamespace (raNamespace acc) (obj w (caObj c))" and ?g = "raGVK acc"
  have v: "raView acc = v" and g: "supported ?g" using accessOf_supported [OF assms(1)] by simp_all
  obtain w' where w': "CreateObjectWithAccessNamespace acc (caObj c) w = (Ok (caObj c), w')" "view_ok w' v" "room w' n"
      "defaulted ?g ?o (obj w' (caObj c))" "absDelegate w' v = absDelegate w v"
      "absView w' v ?g = (absView w v ?g)(cacheKey ?o \<mapsto> SlotLive (obj w' (caObj c)))"
    using CreateObjectWithAccessNamespace_ok [of w acc "caObj c" n] assms g unfolding v by blast
  have key: "objectNameString \<lparr>onNamespace = raNamespace acc, onName = caName c'\<rparr> = cacheKey ?o"
    using assms(8) by (simp add: cacheKey_def CacheName_def)
  obtain b where b: "GetObject v ?g \<lparr>onNamespace = raNamespace acc, onName = caName c'\<rparr> w' = Ok b" "obj w' b = obj w' (caObj c)"
    using GetObject_abs [OF w'(2) g, of "\<lparr>onNamespace = raNamespace acc, onName = caName c'\<rparr>"] w'(6) key by auto
  have "body (obj w' b) = body (obj w (caObj c))" using b(2) w'(4) by (simp add: defaulted_def)
  then have "Access_GetObject acc (raNamespace acc) (caName c') [] w' = Ok b"
    using b(1) assms(6) by (simp add: Access_GetObject_def v Cast_def validateMinimumResourceVersion_def)
  then show ?thesis
    using w' b(2) assms(9) allAccesses_methods [of v ns] accessOf_all [OF assms(1)]
    by (auto simp: call_def objResult_def)
qed

definition demoCall :: client_args where
  "demoCall = \<lparr>caObj = demoAddr, caName = ''q'', caPropagationPolicy = None,
     caList = \<lparr>lopFieldSelector = [], lopLabelSelector = [], lopResourceVersion = []\<rparr>, caResourceVersion = [],
     caPatchType = MergePatchType, caData = [], caSubResources = [], caBinding = \<lparr>bTargetName = ''n''\<rparr>\<rparr>"

definition demoLib :: client_lib where
  "demoLib = \<lparr>clParse = (\<lambda>_. Err (Plain ''unsupported selector'')), clPatcher = demoPatcher, clScheme = (\<lambda>_ _. Some ''Event''), clCtx = noCancel\<rparr>"

lemma demoPodQ_moved: "storable podsGVK (inNamespace ''x'' demoPodQ)" "ofGoType (''v1'', ''Pod'') (body demoPodQ)" "mName (ometa demoPodQ) = ''q''"
  by (simp_all add: storable_def nameOk_def name_defs podsGVK_def isRuntimeObject_def demo_defs demoPodQ_def inNamespace_def
      ofGoType_def goKind_def)

theorem client_create_get_witness:
  "\<exists>w' b. call demoLib (NewPodAccess demoSandbox ''x'') ''Create'' demoCall (demoWith demoPodQ) = Some (Ok (RObj demoAddr), w') \<and>
     call demoLib (NewPodAccess demoSandbox ''x'') ''Get'' demoCall w' = Some (Ok (RObj b), w') \<and>
     mNamespace (ometa (obj w' b)) = ''x''"
proof -
  let ?acc = "NewPodAccess demoSandbox ''x''"
  have acc: "accessOf demoSandbox ''CoreV1'' ''Pods'' ''x'' = Ok ?acc" by (simp add: group_defs)
  have "caObj demoCall = demoAddr" "caName demoCall = ''q''" "caResourceVersion demoCall = []" by (simp_all add: demoCall_def)
  moreover have "raGVK ?acc = podsGVK" "raNamespace ?acc = ''x''" "raType ?acc = (''v1'', ''Pod'')"
    by (simp_all add: NewPodAccess_def podsGVK_def)
  ultimately obtain w' b where "call demoLib ?acc ''Create'' demoCall (demoWith demoPodQ) = Some (Ok (RObj demoAddr), w')"
      "call demoLib ?acc ''Get'' demoCall w' = Some (Ok (RObj b), w')" "defaulted podsGVK (inNamespace ''x'' demoPodQ) (obj w' b)"
    using client_create_get [OF acc demoWith(1), of demoCall demoPodQ 7 demoCall demoLib] demoWith demoPodQ_moved by auto
  then show ?thesis by (auto simp: defaulted_def Let_def)
qed

text \<open>A list has the API version of the kind it lists.\<close>

lemma ListObjects_version:
  assumes "view_ok w v" "supported g" "ListObjects sch cx v g c w = Ok l"
  shows "loAPIVersion l = groupVersionString g"
proof -
  obtain st where st: "vStores (wViews w (viewId v)) g = Some st" "store_ok (wMem w) g st"
    using own_store [OF view_ok_own [OF assms(1)] assms(2)] .
  then have "GetResourceStore v g w = Ok st" "sObjectGVK st = g"
    by (simp_all add: GetResourceStore_def vs_def store_ok_def)
  then show ?thesis using assms(3)
    by (cases v) (auto simp: readStore_def bindO_eq_Ok List_def WrapMetaObjectsIntoRuntimeListObject_def Let_def split: option.splits)
qed

text \<open>
  Listing events through the client never succeeds: the access lists the events of
  \<open>events.k8s.io/v1\<close> and casts the list to that of \<open>core/v1\<close>.
\<close>

theorem event_list_fails:
  assumes "view_ok w v" "map_of (raMethods (NewEventAccess v ns)) ''List'' = Some i"
  shows "\<forall>l w'. invoke lib (NewEventAccess v ns) i c w \<noteq> (Ok (RList l), w')"
proof -
  have "i = Lists" using assms(2) by (simp add: NewEventAccess_def eventAccess_def)
  have g: "raGVK (NewEventAccess v ns) = GVK EventsDescriptor" "raListType (NewEventAccess v ns) = (''v1'', ''EventList'')"
      "raView (NewEventAccess v ns) = v" by (simp_all add: NewEventAccess_def)
  have "supported (GVK EventsDescriptor)" by (simp add: supported_def SupportedDescriptors_def)
  moreover have "groupVersionString (GVK EventsDescriptor) = ''events.k8s.io/v1''"
    by (simp add: EventsDescriptor_def NewDescriptor_def groupVersionString_def)
  ultimately have "ListObjects sch cx v (GVK EventsDescriptor) c w = Ok l \<Longrightarrow> loAPIVersion l = ''events.k8s.io/v1''" for sch cx c l
    using ListObjects_version [OF assms(1)] by simp
  then have "GetObjectList lib (NewEventAccess v ns) ns' opts w \<noteq> Ok l" for ns' opts l
    by (auto simp: GetObjectList_def g bindO_eq_Ok CastList_def split: if_splits)
  then show ?thesis by (auto simp: \<open>i = Lists\<close> bindE_eq_Ok)
qed

theorem event_list_fails_witness:
  "\<forall>l w'. invoke demoLib (NewEventAccess demoSandbox ''d'') Lists demoCall demoWorld \<noteq> (Ok (RList l), w')"
  by (rule event_list_fails [OF demo(1)]) (simp add: NewEventAccess_def eventAccess_def)

end
