(* ===== verification/RunState.thy ===== *)
theory RunState
  imports VolumeProps ScoreProps
begin

text \<open>
  The state of one simulation run, \<open>src/planner/simulation/scaleout/runstate.go\<close>. A Go set of names is a
  list without repetitions. \<open>storage\<close> is the method \<open>GetFallbackCSINodeSpec\<close> of \<open>StorageMetaAccess\<close>,
  an interface the repository only implements in tests; each call is taken to return a fresh
  specification. Diagnostics dumps are off.
\<close>

subsection \<open>State\<close>

datatype activity_status = StatusPending | StatusRunning | StatusSuccess | StatusFailure

type_synonym storage_meta = "string \<Rightarrow> csi_driver list outcome"

record run_state =
  rsErr :: "goerr option"
  rsView :: "view option"
  rsScaleOutNodes :: "(string, addr) gomap"
  rsScaleOutPlacements :: "(node_placement, 32 word) gomap"
  rsUnscheduledPods :: "(namespaced_name, pod_resource_info) gomap"
  rsScheduledPodNamesByNodeName :: "(string, namespaced_name list) gomap"
  rsLeftover :: "namespaced_name list"
  rsStatus :: activity_status
  rsName :: string
  rsNumUnchangedTrackAttempts :: nat
  rsNumTrackAttempts :: nat
  rsNumReceivedEvents :: nat
  rsNumScheduledPods :: nat
  rsRunNum :: "32 word"
  rsNodeCount :: "32 word"

type_synonym rworld = "run_state \<times> world"

definition MakeRunState :: run_state where
  "MakeRunState = \<lparr>rsErr = None, rsView = None, rsScaleOutNodes = [], rsScaleOutPlacements = [],
     rsUnscheduledPods = [], rsScheduledPodNamesByNodeName = [], rsLeftover = [], rsStatus = StatusPending,
     rsName = [], rsNumUnchangedTrackAttempts = 0, rsNumTrackAttempts = 0, rsNumReceivedEvents = 0,
     rsNumScheduledPods = 0, rsRunNum = 0, rsNodeCount = 0\<rparr>"

text \<open>A method that uses the view before \<open>Init\<close> set it dereferences nil.\<close>

definition withView :: "(view \<Rightarrow> rworld \<Rightarrow> ('a, rworld) eff) \<Rightarrow> rworld \<Rightarrow> ('a, rworld) eff" where
  "withView f s = (case rsView (fst s) of None \<Rightarrow> (Panic ''nil pointer dereference'', s) | Some v \<Rightarrow> f v s)"

text \<open>A view operation on the world part.\<close>

definition onWorld :: "(world \<Rightarrow> ('a, world) eff) \<Rightarrow> rworld \<Rightarrow> ('a, rworld) eff" where
  "onWorld f s = mapState (\<lambda>w. (fst s, w)) (f (snd s))"

subsection \<open>Initialization\<close>

definition podNodeName :: "kobj \<Rightarrow> string" where
  "podNodeName p = (case body p of PodBody sp _ \<Rightarrow> psNodeName sp | _ \<Rightarrow> [])"

definition podResourceInfoOf :: "kobj \<Rightarrow> pod_resource_info" where
  "podResourceInfoOf p = (case body p of PodBody sp _ \<Rightarrow> PodResourceInfoFromCoreV1Pod (ometa p) sp
     | _ \<Rightarrow> PodResourceInfoFromCoreV1Pod (ometa p) emptyPodSpec)"

definition getUnscheduledPodsMap :: "ctxs \<Rightarrow> view \<Rightarrow> world \<Rightarrow> (namespaced_name, pod_resource_info) gomap outcome" where
  "getUnscheduledPodsMap cx v w =
     bindO (ListPods cx v MatchAllCriteria w) (\<lambda>pods.
       Ok (fold (\<lambda>p m. if podNodeName p = [] then AList.update (NamespacedName (ometa p)) (podResourceInfoOf p) m else m)
             pods []))"

definition RunState_Init :: "ctxs \<Rightarrow> string \<Rightarrow> 32 word \<Rightarrow> view \<Rightarrow> rworld \<Rightarrow> (unit, rworld) eff" where
  "RunState_Init cx nm runNum v s =
     (let r = fst s\<lparr>rsName := nm, rsRunNum := runNum, rsStatus := StatusRunning, rsView := Some v\<rparr> in
      case getUnscheduledPodsMap cx v (snd s) of
        Err e \<Rightarrow> (Err (Wrapped ''unable to get unscheduled pods'' [e]), (r, snd s))
      | Panic p \<Rightarrow> (Panic p, (r, snd s))
      | Ok unscheduled \<Rightarrow>
          if unscheduled = [] then (Err (Plain ''no unscheduled pods in the view''), (r, snd s))
          else (Ok (), (r\<lparr>rsUnscheduledPods := unscheduled, rsLeftover := map fst unscheduled\<rparr>, snd s)))"

subsection \<open>Simulated nodes\<close>

definition LabelSimulationRunNum :: string where
  "LabelSimulationRunNum = ''sa.gardener.cloud/simulation-run-num''"

definition formatU32 :: "32 word \<Rightarrow> string" where
  "formatU32 n = digits (unat n)"

definition scaleOutNodeName :: "32 word \<Rightarrow> 32 word \<Rightarrow> node_placement \<Rightarrow> string" where
  "scaleOutNodeName n runNum p = ''ScaleOutSimNode-'' @ formatU32 n @ ''_'' @ formatU32 runNum @ ''_'' @
     npPoolName p @ ''_'' @ npTemplateName p @ ''_'' @ npAvailabilityZone p"

definition buildScaleOutSimNode :: "time \<Rightarrow> run_state \<Rightarrow> scale_out_node_template \<Rightarrow> kobj \<times> run_state" where
  "buildScaleOutSimNode t r tmpl =
     (let n = rsNodeCount r + 1;
          nm = scaleOutNodeName n (rsRunNum r) (sotPlacement tmpl);
          nodeLabels = AList.update ''topology.ebs.csi.aws.com/zone'' (npAvailabilityZone (sotPlacement tmpl))
            (AddNodeLabels [(LabelSimulationRunNum, formatU32 (rsRunNum r))] (sotArchitecture tmpl) nm (sotPlacement tmpl))
      in (\<lparr>objGVK = emptyGVK, ometa = emptyMeta\<lparr>mName := nm, mLabels := nodeLabels\<rparr>,
           body = NodeBody \<lparr>nsProviderID = nm, nsTaints = sotTaints tmpl, nsUnschedulable = False\<rparr>
             \<lparr>nstCapacity = sotCapacity tmpl,
              nstAllocatable = BuildAllocatable (sotCapacity tmpl) (sotSystemReserved tmpl) (sotKubeReserved tmpl),
              nstConditions = BuildReadyConditions t\<rparr>\<rparr>,
          r\<lparr>rsNodeCount := n\<rparr>))"

definition incPlacement :: "node_placement \<Rightarrow> (node_placement, 32 word) gomap \<Rightarrow> (node_placement, 32 word) gomap" where
  "incPlacement p m = AList.update p ((case map_of m p of Some c \<Rightarrow> c | None \<Rightarrow> 0) + 1) m"

definition createNode :: "view \<Rightarrow> scale_out_node_template \<Rightarrow> rworld \<Rightarrow> (addr, rworld) eff" where
  "createNode v tmpl s =
     (let (t, m) = now (wMem (snd s));
          (node, r) = buildScaleOutSimNode t (fst s) tmpl
      in bindE (onWorld (createNew v (GVK NodesDescriptor) node) (r, (snd s)\<lparr>wMem := m\<rparr>)) (\<lambda>a s.
         (Ok a, ((fst s)\<lparr>rsScaleOutNodes := AList.update (mName (ometa (obj (snd s) a))) a (rsScaleOutNodes (fst s)),
                  rsScaleOutPlacements := incPlacement (sotPlacement tmpl) (rsScaleOutPlacements (fst s))\<rparr>, snd s))))"

definition createCSINode :: "storage_meta \<Rightarrow> view \<Rightarrow> addr \<Rightarrow> rworld \<Rightarrow> (unit, rworld) eff" where
  "createCSINode storage v node s =
     (let mt = ometa (obj (snd s) node) in
      bindE (storage (lookupStr (mLabels mt) LabelInstanceTypeStable), s) (\<lambda>spec s.
        let csiNode = NewCSINode (mName mt) (mUID mt) (map (\<lambda>d. d\<lparr>cdNodeID := mName mt\<rparr>) spec) in
        bindE (onWorld (createNew v (GVK CSINodeDescriptor) csiNode) s) (\<lambda>_ s. (Ok (), s))))"

fun createNodesLoop :: "storage_meta \<Rightarrow> view \<Rightarrow> scale_out_node_template list \<Rightarrow> rworld \<Rightarrow> (unit, rworld) eff" where
  "createNodesLoop storage v [] s = (Ok (), s)"
| "createNodesLoop storage v (t # ts) s =
     bindE (createNode v t s) (\<lambda>a s.
     bindE (createCSINode storage v a s) (\<lambda>_ s. createNodesLoop storage v ts s))"

definition CreateSimulationNodes ::
  "storage_meta \<Rightarrow> scale_out_node_template list \<Rightarrow> rworld \<Rightarrow> (unit, rworld) eff" where
  "CreateSimulationNodes storage templates s = withView (\<lambda>v. createNodesLoop storage v templates) s"

subsection \<open>Tracking\<close>

definition addName :: "namespaced_name \<Rightarrow> namespaced_name list \<Rightarrow> namespaced_name list" where
  "addName n ns = (if n \<in> set ns then ns else ns @ [n])"

definition addScheduledPod :: "kobj \<Rightarrow> run_state \<Rightarrow> (unit, run_state) eff" where
  "addScheduledPod pod r =
     (let nm = NamespacedName (ometa pod); node = podNodeName pod in
      if node = [] then (Err (Plain ''nodeName must be assigned to pod''), r)
      else (Ok (), r\<lparr>rsScheduledPodNamesByNodeName := AList.update node
              (addName nm (case map_of (rsScheduledPodNamesByNodeName r) node of Some ns \<Rightarrow> ns | None \<Rightarrow> []))
              (rsScheduledPodNamesByNodeName r),
            rsNumScheduledPods := rsNumScheduledPods r + 1,
            rsLeftover := filter (\<lambda>n. n \<noteq> nm) (rsLeftover r),
            rsNumUnchangedTrackAttempts := 0\<rparr>))"

definition handleScheduledPodEvent :: "view \<Rightarrow> event \<Rightarrow> rworld \<Rightarrow> (unit, rworld) eff" where
  "handleScheduledPodEvent v ev s =
     (let nm = NamespacedNameFromEventRegarding (eBody ev) in
      bindE (GetObject v podsGVK \<lparr>onNamespace = nnNamespace nm, onName = nnName nm\<rparr> (snd s), s) (\<lambda>a s.
        let pod = obj (snd s) a in
        if goKind (body pod) \<noteq> ''Pod'' then (Err (Plain ''object is not a Pod''), s)
        else if podNodeName pod = [] then (Err (Plain ''scheduledPod has no assigned node name''), s)
        else mapState (\<lambda>r. (r, snd s)) (addScheduledPod pod (fst s))))"

fun trackLoop :: "view \<Rightarrow> event list \<Rightarrow> rworld \<Rightarrow> (unit, rworld) eff" where
  "trackLoop v [] s = (Ok (), s)"
| "trackLoop v (ev # evs) s =
     (let s = ((fst s)\<lparr>rsNumReceivedEvents := rsNumReceivedEvents (fst s) + 1\<rparr>, snd s) in
      if evAction (eBody ev) \<noteq> ''Binding'' \<and> evReason (eBody ev) \<noteq> ''Scheduled'' then trackLoop v evs s
      else bindE (handleScheduledPodEvent v ev s) (\<lambda>_ s. trackLoop v evs s))"

definition resetSink :: "view \<Rightarrow> world \<Rightarrow> world" where
  "resetSink v w = setView (viewId v) (vs w v\<lparr>vSink := EventSink_Reset (vSink (vs w v))\<rparr>) w"

text \<open>\<open>Reset\<close> of the sink never fails; the branch for its error is dead.\<close>

definition Track :: "nat \<Rightarrow> rworld \<Rightarrow> (bool, rworld) eff" where
  "Track maxUnchanged s = withView (\<lambda>v s.
     let r = (fst s)\<lparr>rsNumTrackAttempts := rsNumTrackAttempts (fst s) + 1\<rparr>;
         evList = EventSink_List (vSink (vs (snd s) v))
     in if evList = [] then
          let n = rsNumUnchangedTrackAttempts r + 1
          in (Ok (n > maxUnchanged), (r\<lparr>rsNumUnchangedTrackAttempts := n\<rparr>, snd s))
        else bindE (trackLoop v evList (r, resetSink v (snd s))) (\<lambda>_ s. (Ok False, s))) s"

subsection \<open>Results\<close>

definition GetScaleOutItems :: "run_state \<Rightarrow> scale_out_item list" where
  "GetScaleOutItems r = map (\<lambda>(p, d). \<lparr>soiPlacement = p, soiCurrentReplicas = 0, soiDelta = d\<rparr>) (rsScaleOutPlacements r)"

definition zeroPodResourceInfo :: pod_resource_info where
  "zeroPodResourceInfo = \<lparr>priName = \<lparr>nnNamespace = [], nnName = []\<rparr>, priAggregatedRequests = []\<rparr>"

definition getScheduledPodInfosForNode :: "run_state \<Rightarrow> string \<Rightarrow> pod_resource_info list" where
  "getScheduledPodInfosForNode r node =
     map (\<lambda>n. case map_of (rsUnscheduledPods r) n of Some i \<Rightarrow> i | None \<Rightarrow> zeroPodResourceInfo)
       (case map_of (rsScheduledPodNamesByNodeName r) node of Some ns \<Rightarrow> ns | None \<Rightarrow> [])"

definition getNodeResourceInfo :: "kobj \<Rightarrow> node_resource_info" where
  "getNodeResourceInfo node = (case body node of
     NodeBody _ st \<Rightarrow> \<lparr>nriCapacity = nstCapacity st, nriAllocatable = nstAllocatable st,
        nriName = mName (ometa node), nriInstanceType = GetInstanceType (ometa node)\<rparr>
   | _ \<Rightarrow> \<lparr>nriCapacity = [], nriAllocatable = [], nriName = mName (ometa node), nriInstanceType = []\<rparr>)"

definition assignmentFor :: "run_state \<Rightarrow> string \<Rightarrow> kobj \<Rightarrow> node_pod_assignment list" where
  "assignmentFor r nm node =
     (let pods = getScheduledPodInfosForNode r nm in
      if 0 < length pods then [\<lparr>npaNodeResources = getNodeResourceInfo node, npaScheduledPods = pods\<rparr>] else [])"

definition getScaleOutNodeAssignments :: "run_state \<Rightarrow> world \<Rightarrow> node_pod_assignment list" where
  "getScaleOutNodeAssignments r w = concat (map (\<lambda>(nm, a). assignmentFor r nm (obj w a)) (rsScaleOutNodes r))"

definition zeroAssignment :: node_pod_assignment where
  "zeroAssignment = \<lparr>npaNodeResources = \<lparr>nriCapacity = [], nriAllocatable = [], nriName = [], nriInstanceType = []\<rparr>,
     npaScheduledPods = []\<rparr>"

text \<open>The slice is made with one zero assignment per node and then appended to.\<close>

definition getOtherPodNodeAssignments :: "ctxs \<Rightarrow> rworld \<Rightarrow> node_pod_assignment list outcome" where
  "getOtherPodNodeAssignments cx s = (case rsView (fst s) of
       None \<Rightarrow> Panic ''nil pointer dereference''
     | Some v \<Rightarrow>
         bindO (ListNodes cx v (map fst (rsScheduledPodNamesByNodeName (fst s))) (snd s)) (\<lambda>nodes.
           Ok (replicate (length nodes) zeroAssignment @
               concat (map (\<lambda>node. if map_of (rsScaleOutNodes (fst s)) (mName (ometa node)) \<noteq> None then []
                                    else assignmentFor (fst s) (mName (ometa node)) node) nodes))))"

end
