(* ===== verification/RunStateProps.thy ===== *)
theory RunStateProps
  imports RunState ViewProps
begin

text \<open>
  The bookkeeping of a simulation run: which pods are still to be scheduled, which nodes were
  created, when the run counts as stable. The operations of a run are the steps of a transition
  relation, and what the planner reads off the state is an invariant of the reachable states.
\<close>

subsection \<open>The invariant\<close>

definition boundOn :: "run_state \<Rightarrow> string \<Rightarrow> namespaced_name set" where
  "boundOn r node = (case map_of (rsScheduledPodNamesByNodeName r) node of Some ns \<Rightarrow> set ns | None \<Rightarrow> {})"

definition scheduledNames :: "run_state \<Rightarrow> namespaced_name set" where
  "scheduledNames r = (\<Union>node. boundOn r node)"

definition run_inv :: "run_state \<Rightarrow> bool" where
  "run_inv r \<longleftrightarrow> distinct (rsLeftover r) \<and>
     set (rsLeftover r) = fst ` set (rsUnscheduledPods r) - scheduledNames r \<and>
     (\<forall>node ns. map_of (rsScheduledPodNamesByNodeName r) node = Some ns \<longrightarrow> node \<noteq> [] \<and> ns \<noteq> [] \<and> distinct ns) \<and>
     wf_map (rsUnscheduledPods r) \<and> wf_map (rsScheduledPodNamesByNodeName r)"

lemma set_addName [simp]: "set (addName n ns) = insert n (set ns)" "distinct (addName n ns) = distinct ns"
  "addName n ns \<noteq> []"
  by (auto simp: addName_def)

lemma addScheduledPod_boundOn:
  assumes "podNodeName pod \<noteq> []"
  shows "fst (addScheduledPod pod r) = Ok ()"
    "boundOn (snd (addScheduledPod pod r)) node =
       (if node = podNodeName pod then insert (NamespacedName (ometa pod)) (boundOn r node) else boundOn r node)"
    "set (rsLeftover (snd (addScheduledPod pod r))) = set (rsLeftover r) - {NamespacedName (ometa pod)}"
    "rsNumUnchangedTrackAttempts (snd (addScheduledPod pod r)) = 0"
    "rsNumScheduledPods (snd (addScheduledPod pod r)) = Suc (rsNumScheduledPods r)"
  using assms by (auto simp: addScheduledPod_def boundOn_def Let_def split: option.split)

lemma scheduledNames_add:
  assumes "podNodeName pod \<noteq> []"
  shows "scheduledNames (snd (addScheduledPod pod r)) = insert (NamespacedName (ometa pod)) (scheduledNames r)"
  unfolding scheduledNames_def addScheduledPod_boundOn(2) [OF assms]
  by (rule set_eqI) (simp, metis (full_types))

lemma addScheduledPod_inv: "run_inv r \<Longrightarrow> run_inv (snd (addScheduledPod pod r))"
proof (cases "podNodeName pod = []")
  case False
  assume inv: "run_inv r"
  show ?thesis
    unfolding run_inv_def scheduledNames_add [OF False] addScheduledPod_boundOn(3) [OF False]
    using inv False
    by (auto simp: run_inv_def addScheduledPod_def Let_def split: option.splits if_splits)
qed (simp add: addScheduledPod_def Let_def)

text \<open>The fields that record pods are the only ones the invariant reads.\<close>

lemma run_inv_cong:
  assumes "rsLeftover r' = rsLeftover r" "rsUnscheduledPods r' = rsUnscheduledPods r"
    "rsScheduledPodNamesByNodeName r' = rsScheduledPodNamesByNodeName r"
  shows "run_inv r' = run_inv r" "scheduledNames r' = scheduledNames r" "boundOn r' = boundOn r"
  using assms by (simp_all add: run_inv_def scheduledNames_def boundOn_def fun_eq_iff)

text \<open>What every step of a run does to the record of pods: it only moves them from left over to scheduled.\<close>

definition run_mono :: "run_state \<Rightarrow> run_state \<Rightarrow> bool" where
  "run_mono r r' \<longleftrightarrow> (run_inv r \<longrightarrow> run_inv r') \<and> rsUnscheduledPods r' = rsUnscheduledPods r \<and>
     set (rsLeftover r') \<subseteq> set (rsLeftover r) \<and> rsView r' = rsView r"

lemma run_mono_refl [simp]: "run_mono r r"
  by (simp add: run_mono_def)

lemma run_mono_trans: "run_mono r1 r2 \<Longrightarrow> run_mono r2 r3 \<Longrightarrow> run_mono r1 r3"
  by (auto simp: run_mono_def)

lemma run_mono_same:
  assumes "rsLeftover r' = rsLeftover r" "rsUnscheduledPods r' = rsUnscheduledPods r"
    "rsScheduledPodNamesByNodeName r' = rsScheduledPodNamesByNodeName r" "rsView r' = rsView r"
  shows "run_mono r r'"
  using assms run_inv_cong(1) [of r' r] by (simp add: run_mono_def)

lemma run_mono_addScheduledPod: "run_mono r (snd (addScheduledPod pod r))"
  unfolding run_mono_def using addScheduledPod_inv [of r pod]
  by (auto simp: addScheduledPod_def Let_def)

lemma bindE_trans:
  assumes "R s (snd r)" "\<And>x s'. r = (Ok x, s') \<Longrightarrow> R s' (snd (f x s'))" "\<And>a b c. R a b \<Longrightarrow> R b c \<Longrightarrow> R a c"
  shows "R s (snd (bindE r f))"
  using assms by (cases r; cases "fst r") auto

lemma handleScheduledPodEvent_mono: "run_mono (fst s) (fst (snd (handleScheduledPodEvent v ev s)))"
  unfolding handleScheduledPodEvent_def Let_def
  by (rule bindE_trans [where R = "\<lambda>a b. run_mono (fst a) (fst b)"])
    (auto simp: mapState_def run_mono_addScheduledPod intro: run_mono_trans)

lemma trackLoop_mono: "run_mono (fst s) (fst (snd (trackLoop v evs s)))"
proof (induction evs arbitrary: s)
  case (Cons ev evs)
  let ?s = "((fst s)\<lparr>rsNumReceivedEvents := rsNumReceivedEvents (fst s) + 1\<rparr>, snd s)"
  have 1: "run_mono (fst s) (fst ?s)" by (rule run_mono_same) simp_all
  have "run_mono (fst ?s) (fst (snd (bindE (handleScheduledPodEvent v ev ?s) (\<lambda>_ s. trackLoop v evs s))))"
    by (rule bindE_trans [where R = "\<lambda>a b. run_mono (fst a) (fst b)"])
      (rule handleScheduledPodEvent_mono Cons.IH, rule Cons.IH, rule run_mono_trans)
  with 1 Cons.IH [of ?s] show ?case by (auto simp: Let_def intro: run_mono_trans)
qed simp

lemma Track_mono: "run_mono (fst s) (fst (snd (Track k s)))"
proof (cases "rsView (fst s)")
  case (Some v)
  let ?r = "(fst s)\<lparr>rsNumTrackAttempts := rsNumTrackAttempts (fst s) + 1\<rparr>"
  have 1: "run_mono (fst s) ?r" by (rule run_mono_same) simp_all
  have "run_mono ?r (fst (snd (bindE (trackLoop v evs (?r, w)) (\<lambda>_ s. (Ok False, s)))))" for evs w
    using bindE_trans [where R = "\<lambda>a b. run_mono (fst a) (fst b)" and s = "(?r, w)" and r = "trackLoop v evs (?r, w)"
        and f = "\<lambda>_ s. (Ok False, s)", OF trackLoop_mono _ run_mono_trans] by simp
  then show ?thesis
    using 1 Some by (auto simp: Track_def withView_def Let_def intro: run_mono_trans run_mono_same)
qed (simp add: Track_def withView_def)

lemma onWorld_fst [simp]: "fst (snd (onWorld f s)) = fst s" "fst (onWorld f s) = fst (f (snd s))"
  "snd (snd (onWorld f s)) = snd (f (snd s))"
  by (simp_all add: onWorld_def mapState_def)

lemma buildScaleOutSimNode_snd [simp]: "snd (buildScaleOutSimNode t r tmpl) = r\<lparr>rsNodeCount := rsNodeCount r + 1\<rparr>"
  by (simp add: buildScaleOutSimNode_def Let_def)

lemma createNode_mono: "run_mono (fst s) (fst (snd (createNode v tmpl s)))"
  unfolding createNode_def Let_def split_beta
  by (rule bindE_trans [where R = "\<lambda>a b. run_mono (fst a) (fst b)"]) (auto intro: run_mono_same run_mono_trans)

lemma createCSINode_mono: "run_mono (fst s) (fst (snd (createCSINode storage v a s)))"
  unfolding createCSINode_def Let_def
  by (intro bindE_trans [where R = "\<lambda>a b. run_mono (fst a) (fst b)"]) (auto intro: run_mono_trans)

lemma createNodesLoop_mono: "run_mono (fst s) (fst (snd (createNodesLoop storage v ts s)))"
proof (induction ts arbitrary: s)
  case (Cons t ts)
  show ?case
    unfolding createNodesLoop.simps
    by (intro bindE_trans [where R = "\<lambda>a b. run_mono (fst a) (fst b)"])
      (auto simp: Cons.IH createNode_mono createCSINode_mono intro: run_mono_trans)
qed simp

lemma CreateSimulationNodes_mono: "run_mono (fst s) (fst (snd (CreateSimulationNodes storage ts s)))"
  by (simp add: CreateSimulationNodes_def withView_def createNodesLoop_mono split: option.split)

lemma getUnscheduledPodsMap_wf: "getUnscheduledPodsMap cx v w = Ok m \<Longrightarrow> wf_map m"
proof -
  have "wf_map (fold (\<lambda>p m. if podNodeName p = [] then AList.update (NamespacedName (ometa p)) (podResourceInfoOf p) m else m)
      pods m)" if "wf_map m" for pods m
    using that by (induction pods arbitrary: m) simp_all
  then show "getUnscheduledPodsMap cx v w = Ok m \<Longrightarrow> wf_map m"
    by (auto simp: getUnscheduledPodsMap_def bindO_eq_Ok)
qed

lemma RunState_Init_inv:
  assumes "RunState_Init cx nm n v (r, w) = (Ok (), s)" "rsScheduledPodNamesByNodeName r = []"
  shows "run_inv (fst s)" "rsView (fst s) = Some v" "rsLeftover (fst s) \<noteq> []"
proof -
  obtain m where m: "getUnscheduledPodsMap cx v w = Ok m" "m \<noteq> []"
    "fst s = r\<lparr>rsName := nm, rsRunNum := n, rsStatus := StatusRunning, rsView := Some v,
       rsUnscheduledPods := m, rsLeftover := map fst m\<rparr>"
    using assms(1) by (auto simp: RunState_Init_def Let_def split: outcome.splits if_splits)
  note wf = getUnscheduledPodsMap_wf [OF m(1)]
  show "run_inv (fst s)" "rsView (fst s) = Some v" "rsLeftover (fst s) \<noteq> []"
    using m assms(2) wf by (auto simp: run_inv_def scheduledNames_def boundOn_def)
qed

subsection \<open>Runs\<close>

text \<open>
  The states of a run: a fresh run state is initialized; then the simulation creates nodes, tracks
  events and resets its count of unchanged attempts in any order, while the scheduler and the
  volume steps change the world in between in any way.
\<close>

inductive run_reach :: "rworld \<Rightarrow> bool" where
  run_init: "RunState_Init cx nm n v (MakeRunState, w) = (Ok (), s) \<Longrightarrow> run_reach s"
| run_nodes: "run_reach s \<Longrightarrow> run_reach (snd (CreateSimulationNodes storage ts s))"
| run_track: "run_reach s \<Longrightarrow> run_reach (snd (Track k s))"
| run_reset: "run_reach (r, w) \<Longrightarrow> run_reach (r\<lparr>rsNumUnchangedTrackAttempts := 0\<rparr>, w)"
| run_env: "run_reach (r, w) \<Longrightarrow> run_reach (r, w')"

lemma run_reach_inv: "run_reach s \<Longrightarrow> run_inv (fst s)"
proof (induction rule: run_reach.induct)
  case (run_init cx nm n v w s)
  then show ?case by (rule RunState_Init_inv(1)) (simp add: MakeRunState_def)
next
  case (run_nodes s storage ts)
  then show ?case using CreateSimulationNodes_mono [of s storage ts] by (simp add: run_mono_def)
next
  case (run_track s k)
  then show ?case using Track_mono [of s k] by (simp add: run_mono_def)
next
  case (run_reset r w)
  then show ?case using run_inv_cong(1) [of "r\<lparr>rsNumUnchangedTrackAttempts := 0\<rparr>" r] by simp
qed simp


subsection \<open>Tracking events\<close>

text \<open>Reading objects does not depend on what an event sink holds.\<close>

definition withSink :: "view \<Rightarrow> sink \<Rightarrow> world \<Rightarrow> world" where
  "withSink v evs w = setView (viewId v) (vs w v\<lparr>vSink := evs\<rparr>) w"

lemma withSink_simps [simp]:
  "obj (withSink u evs w) a = obj w a" "vSink (vs (withSink v evs w) v) = evs"
  "vStores (vs (withSink u evs w) v) = vStores (vs w v)" "wMem (withSink u evs w) = wMem w"
  by (auto simp: withSink_def setView_def vs_def obj_def)

lemma GetObject_withSink [simp]: "GetObject v g n (withSink u evs w) = GetObject v g n w"
proof (induction v)
  case (BaseView i)
  show ?case by (simp add: getStoreObject_def readStore_def GetResourceStore_def)
next
  case (SandboxView i d)
  have "getStoreObject (SandboxView i d) g n (withSink u evs w) = getStoreObject (SandboxView i d) g n w"
    by (simp add: getStoreObject_def readStore_def GetResourceStore_def)
  with SandboxView show ?case by (simp split: outcome.split)
qed

lemma resetSink_eq: "resetSink v w = withSink v [] w"
  by (simp add: resetSink_def withSink_def EventSink_Reset_def)

definition isBinding :: "event \<Rightarrow> bool" where
  "isBinding ev \<longleftrightarrow> evAction (eBody ev) = ''Binding'' \<or> evReason (eBody ev) = ''Scheduled''"

definition regarding :: "event \<Rightarrow> object_name" where
  "regarding ev = (let nm = NamespacedNameFromEventRegarding (eBody ev) in
     \<lparr>onNamespace = nnNamespace nm, onName = nnName nm\<rparr>)"

text \<open>The pod a scheduling event is about, as the view shows it, when it has a node.\<close>

definition scheduledPod :: "view \<Rightarrow> world \<Rightarrow> event \<Rightarrow> kobj option" where
  "scheduledPod v w ev = (if \<not> isBinding ev then None else
     (case GetObject v podsGVK (regarding ev) w of
        Ok a \<Rightarrow> if goKind (body (obj w a)) = ''Pod'' \<and> podNodeName (obj w a) \<noteq> [] then Some (obj w a) else None
      | _ \<Rightarrow> None))"

lemma scheduledPod_node: "scheduledPod v w ev = Some p \<Longrightarrow> podNodeName p \<noteq> [] \<and> isBinding ev"
  by (auto simp: scheduledPod_def split: outcome.splits if_splits)

lemma handleScheduledPodEvent_ok:
  assumes "scheduledPod v w ev = Some p"
  shows "handleScheduledPodEvent v ev (r, w) = (Ok (), (snd (addScheduledPod p r), w))"
  using assms addScheduledPod_boundOn(1) [of p r] scheduledPod_node [OF assms]
  by (auto simp: handleScheduledPodEvent_def scheduledPod_def regarding_def Let_def mapState_def
      split: outcome.splits if_splits)

definition podsOf :: "view \<Rightarrow> world \<Rightarrow> event list \<Rightarrow> kobj list" where
  "podsOf v w evs = List.map_filter (scheduledPod v w) evs"

lemma set_podsOf: "set (podsOf v w evs) = {p. \<exists>ev\<in>set evs. scheduledPod v w ev = Some p}"
  by (auto simp: podsOf_def List.map_filter_def intro!: image_eqI)

definition recordPods :: "kobj list \<Rightarrow> run_state \<Rightarrow> run_state" where
  "recordPods pods r = fold (\<lambda>p r. snd (addScheduledPod p r)) pods r"

lemma recordPods_props:
  assumes "\<forall>p\<in>set pods. podNodeName p \<noteq> []"
  shows "boundOn (recordPods pods r) node =
       boundOn r node \<union> (\<lambda>p. NamespacedName (ometa p)) ` {p\<in>set pods. podNodeName p = node}"
    "set (rsLeftover (recordPods pods r)) = set (rsLeftover r) - (\<lambda>p. NamespacedName (ometa p)) ` set pods"
    "rsNumUnchangedTrackAttempts (recordPods pods r) = (if pods = [] then rsNumUnchangedTrackAttempts r else 0)"
    "rsNumScheduledPods (recordPods pods r) = rsNumScheduledPods r + length pods"
    "rsNumReceivedEvents (recordPods pods r) = rsNumReceivedEvents r"
proof -
  let ?nm = "\<lambda>p. NamespacedName (ometa p)"
  have "boundOn (recordPods pods r) node = boundOn r node \<union> ?nm ` {p\<in>set pods. podNodeName p = node} \<and>
    set (rsLeftover (recordPods pods r)) = set (rsLeftover r) - ?nm ` set pods \<and>
    rsNumUnchangedTrackAttempts (recordPods pods r) = (if pods = [] then rsNumUnchangedTrackAttempts r else 0) \<and>
    rsNumScheduledPods (recordPods pods r) = rsNumScheduledPods r + length pods \<and>
    rsNumReceivedEvents (recordPods pods r) = rsNumReceivedEvents r"
    using assms
  proof (induction pods arbitrary: r)
    case (Cons p pods)
    have p: "podNodeName p \<noteq> []" and ps: "\<forall>p\<in>set pods. podNodeName p \<noteq> []" using Cons.prems by auto
    have step: "recordPods (p # pods) r = recordPods pods (snd (addScheduledPod p r))" by (simp add: recordPods_def)
    have rec: "rsNumReceivedEvents (snd (addScheduledPod p r)) = rsNumReceivedEvents r"
      using p by (simp add: addScheduledPod_def Let_def)
    have sets: "insert x A \<union> ?nm ` {q\<in>set pods. podNodeName q = node} =
        A \<union> insert x (?nm ` {q\<in>set pods. podNodeName q = node})" for x A by auto
    note ih = Cons.IH [OF ps, of "snd (addScheduledPod p r)"]
    note add = addScheduledPod_boundOn [OF p, of r]
    show ?case
      unfolding step using ih add rec
      by (cases "node = podNodeName p") (auto simp: sets conj_disj_distribR Collect_disj_eq)
  qed (simp add: recordPods_def)
  then show "boundOn (recordPods pods r) node = boundOn r node \<union> ?nm ` {p\<in>set pods. podNodeName p = node}"
    "set (rsLeftover (recordPods pods r)) = set (rsLeftover r) - ?nm ` set pods"
    "rsNumUnchangedTrackAttempts (recordPods pods r) = (if pods = [] then rsNumUnchangedTrackAttempts r else 0)"
    "rsNumScheduledPods (recordPods pods r) = rsNumScheduledPods r + length pods"
    "rsNumReceivedEvents (recordPods pods r) = rsNumReceivedEvents r"
    by simp_all
qed

lemma addScheduledPod_received:
  "snd (addScheduledPod p (r\<lparr>rsNumReceivedEvents := n\<rparr>)) = (snd (addScheduledPod p r))\<lparr>rsNumReceivedEvents := n\<rparr>"
  by (simp add: addScheduledPod_def Let_def)

lemma recordPods_received:
  "recordPods ps (r\<lparr>rsNumReceivedEvents := n\<rparr>) = (recordPods ps r)\<lparr>rsNumReceivedEvents := n\<rparr>"
  by (induction ps arbitrary: r) (simp_all add: recordPods_def addScheduledPod_received)

lemma trackLoop_ok:
  assumes "\<forall>ev\<in>set evs. isBinding ev \<longrightarrow> scheduledPod v w ev \<noteq> None"
  shows "trackLoop v evs (r, w) = (Ok (), ((recordPods (podsOf v w evs) r)
     \<lparr>rsNumReceivedEvents := rsNumReceivedEvents r + length evs\<rparr>, w))"
  using assms
proof (induction evs arbitrary: r)
  case (Cons ev evs)
  let ?r = "r\<lparr>rsNumReceivedEvents := rsNumReceivedEvents r + 1\<rparr>"
  have ih: "trackLoop v evs (r', w) = (Ok (), ((recordPods (podsOf v w evs) r')
     \<lparr>rsNumReceivedEvents := rsNumReceivedEvents r' + length evs\<rparr>, w))" for r'
    using Cons by simp
  show ?case
  proof (cases "scheduledPod v w ev")
    case None
    then have "\<not> isBinding ev" using Cons.prems by auto
    then have "trackLoop v (ev # evs) (r, w) = trackLoop v evs (?r, w)" by (simp add: isBinding_def Let_def)
    moreover have "podsOf v w (ev # evs) = podsOf v w evs"
      using None by (simp add: podsOf_def List.map_filter_def)
    ultimately show ?thesis unfolding ih by (simp add: recordPods_received)
  next
    case (Some p)
    then have "isBinding ev" using scheduledPod_node by blast
    then have "trackLoop v (ev # evs) (r, w) = trackLoop v evs (snd (addScheduledPod p ?r), w)"
      by (auto simp: isBinding_def Let_def handleScheduledPodEvent_ok [OF Some])
    moreover have "podsOf v w (ev # evs) = p # podsOf v w evs"
      using Some by (simp add: podsOf_def List.map_filter_def)
    moreover have "rsNumReceivedEvents (snd (addScheduledPod p r)) = rsNumReceivedEvents r"
      by (simp add: addScheduledPod_def Let_def)
    ultimately show ?thesis
      unfolding ih by (simp add: recordPods_received addScheduledPod_received, simp add: recordPods_def)
  qed
qed (simp add: podsOf_def List.map_filter_def recordPods_def)

lemma scheduledPod_withSink [simp]: "scheduledPod v (withSink u evs w) = scheduledPod v w"
  by (simp add: scheduledPod_def fun_eq_iff split: outcome.split)

lemma podsOf_withSink [simp]: "podsOf v (withSink u evs w) = podsOf v w"
  by (simp add: podsOf_def fun_eq_iff)

lemma Track_eq:
  assumes "rsView r = Some v"
  shows "vSink (vs w v) = [] \<Longrightarrow> Track k (r, w) =
      (Ok (rsNumUnchangedTrackAttempts r + 1 > k), (r\<lparr>rsNumTrackAttempts := rsNumTrackAttempts r + 1,
         rsNumUnchangedTrackAttempts := rsNumUnchangedTrackAttempts r + 1\<rparr>, w))"
    "vSink (vs w v) \<noteq> [] \<Longrightarrow> \<forall>ev\<in>set (vSink (vs w v)). isBinding ev \<longrightarrow> scheduledPod v w ev \<noteq> None \<Longrightarrow>
      Track k (r, w) = (Ok False, ((recordPods (podsOf v w (vSink (vs w v)))
        (r\<lparr>rsNumTrackAttempts := rsNumTrackAttempts r + 1\<rparr>))
          \<lparr>rsNumReceivedEvents := rsNumReceivedEvents r + length (vSink (vs w v))\<rparr>, resetSink v w))"
  using assms trackLoop_ok [of "vSink (vs w v)" v "resetSink v w"]
  by (simp_all add: resetSink_eq Track_def withView_def Let_def EventSink_List_def)

subsection \<open>Initialization\<close>

lemma asTyped_ok:
  assumes "\<forall>a\<in>set as. goKind (body (obj w a)) = k \<and> (\<exists>v. ParseObjectResourceVersion (obj w a) = Ok v)"
  shows "asTyped k w as res = Ok (res @ map (obj w) as)"
  using assms by (induction as arbitrary: res) auto

lemma held_version:
  assumes "own_ok w i" "held w i g a"
  shows "\<exists>v. ParseObjectResourceVersion (obj w a) = Ok v"
proof -
  obtain st k where st: "vStores (wViews w i) g = Some st" "map_of (cache st) k = Some (Live a)"
    using assms(2) by (auto simp: held_def)
  then have inv: "store_inv (wMem w, st)" using assms(1) by (auto simp: own_ok_def store_ok_def)
  have "a \<in> set (liveAddrs st)" using liveAddrs_iff [OF inv] st(2) by auto
  then show ?thesis using live_version(1) [OF inv] by (simp add: obj_def)
qed

lemma sandbox_typed_listing:
  assumes ok: "view_ok w (SandboxView i (BaseView j))" and g: "supported g" and kind: "\<forall>p\<in>listed w i j g. goKind (body p) = k"
  obtains items mv where "View_ListMetaObjects noCancel (SandboxView i (BaseView j)) g MatchAllCriteria w = Ok (items, mv)"
    "asTyped k w items [] = Ok (map (obj w) items)" "obj w ` set items = listed w i j g"
proof -
  let ?v = "SandboxView i (BaseView j)"
  obtain items mv where l: "View_ListMetaObjects noCancel ?v g MatchAllCriteria w = Ok (items, mv)"
    "distinct items" "set items = {a. held w i g a} \<union> {a. held w j g a \<and>
       absOwn w i g (mName (ometa (obj w a))) \<noteq> Some SlotDeleted \<and>
       (\<forall>b. held w i g b \<longrightarrow> CacheName (obj w a) \<noteq> CacheName (obj w b))}"
    using sandbox_listing [OF ok g] .
  have oi: "own_ok w i" and oj: "own_ok w j" using ok by simp_all
  have objs: "obj w ` set items = listed w i j g"
  proof -
    obtain items' mv' where "View_ListMetaObjects noCancel ?v g MatchAllCriteria w = Ok (items', mv')"
      "obj w ` set items' = listed w i j g"
      using sandbox_listing_objs [OF ok g] by blast
    then show ?thesis using l(1) by simp
  qed
  have "\<forall>a\<in>set items. goKind (body (obj w a)) = k \<and> (\<exists>v. ParseObjectResourceVersion (obj w a) = Ok v)"
    using kind objs l(3) held_version [OF oi] held_version [OF oj] by blast
  then have "asTyped k w items [] = Ok (map (obj w) items)" using asTyped_ok [of items w k "[]"] by simp
  then show thesis using that l(1) objs by blast
qed

lemma sandbox_ListPods:
  assumes "view_ok w (SandboxView i (BaseView j))" "\<forall>p\<in>listed w i j podsGVK. goKind (body p) = ''Pod''"
  shows "\<exists>pods. ListPods noCancel (SandboxView i (BaseView j)) MatchAllCriteria w = Ok pods \<and> set pods = listed w i j podsGVK"
  by (rule sandbox_typed_listing [OF assms(1) supported_pods assms(2)]) simp

lemma sandbox_ListNodes:
  assumes "view_ok w (SandboxView i (BaseView j))" "\<forall>n\<in>listed w i j (GVK NodesDescriptor). goKind (body n) = ''Node''"
  shows "\<exists>nodes. ListNodes noCancel (SandboxView i (BaseView j)) [] w = Ok nodes \<and> set nodes = listed w i j (GVK NodesDescriptor)"
proof -
  have "supported (GVK NodesDescriptor)" "MatchAllCriteria\<lparr>mcNames := []\<rparr> = MatchAllCriteria"
    by (simp_all add: supported_def SupportedDescriptors_def MatchAllCriteria_def)
  note n = this
  show ?thesis by (rule sandbox_typed_listing [OF assms(1) n(1) assms(2)]) (simp add: n(2))
qed

lemma getUnscheduledPodsMap_keys:
  "fst ` set (fold (\<lambda>p m. if podNodeName p = [] then AList.update (NamespacedName (ometa p)) (podResourceInfoOf p) m else m) pods m) =
     fst ` set m \<union> (\<lambda>p. NamespacedName (ometa p)) ` {p\<in>set pods. podNodeName p = []}"
proof (induction pods arbitrary: m)
  case (Cons p pods)
  have "{q\<in>set (p # pods). podNodeName q = []} =
      (if podNodeName p = [] then insert p {q\<in>set pods. podNodeName q = []} else {q\<in>set pods. podNodeName q = []})"
    by auto
  then show ?case using Cons by (auto simp: dom_update image_iff dom_map_of_conv_image_fst [symmetric])
qed simp

end
