(* ===== verification/RunNodes.thy ===== *)
theory RunNodes
  imports RunStateProps
begin

text \<open>
  The nodes a simulation adds: what \<open>CreateSimulationNodes\<close> leaves in the view and in the counts per
  placement, for any list of templates.
\<close>

subsection \<open>Names\<close>

abbreviation nodesGVK :: gvk where "nodesGVK \<equiv> GVK NodesDescriptor"
abbreviation csiGVK :: gvk where "csiGVK \<equiv> GVK CSINodeDescriptor"

lemma node_kinds: "supported nodesGVK" "supported csiGVK" "nodesGVK \<noteq> csiGVK"
  by (simp_all add: supported_def SupportedDescriptors_def NodesDescriptor_def CSINodeDescriptor_def)

lemma digits_not_in: "\<not> isDigit c \<Longrightarrow> c \<notin> set (digits n)"
  using digits_isDigit by blast

lemma formatU32_inj: "formatU32 a = formatU32 b \<Longrightarrow> a = b"
  using digits_inj [of "unat a" "unat b"] word_unat_eq_iff [of a b] by (simp add: formatU32_def)

lemma scaleOutNodeName_inj:
  assumes "scaleOutNodeName n run p = scaleOutNodeName n' run p'"
  shows "n = n'"
proof -
  have "CHR ''_'' \<notin> set (formatU32 x)" for x by (simp add: formatU32_def digits_not_in isDigit_def)
  then have "formatU32 n = formatU32 n'"
    using assms split_at_slash [of "CHR ''_''" "formatU32 n" "formatU32 n'"] by (simp add: scaleOutNodeName_def)
  then show ?thesis by (rule formatU32_inj)
qed

definition placementOk :: "node_placement \<Rightarrow> bool" where
  "placementOk p \<longleftrightarrow> CHR ''/'' \<notin> set (npPoolName p) \<union> set (npTemplateName p) \<union> set (npAvailabilityZone p)"

lemma scaleOutNodeName_ok: "placementOk p \<Longrightarrow> CHR ''/'' \<notin> set (scaleOutNodeName n run p)" "scaleOutNodeName n run p \<noteq> []"
  by (auto simp: scaleOutNodeName_def placementOk_def formatU32_def isDigit_def dest: digits_isDigit)

fun nodeNames :: "32 word \<Rightarrow> 32 word \<Rightarrow> scale_out_node_template list \<Rightarrow> string list" where
  "nodeNames c run [] = []"
| "nodeNames c run (t # ts) = scaleOutNodeName (c + 1) run (sotPlacement t) # nodeNames (c + 1) run ts"

lemma nodeNames_in:
  assumes "nm \<in> set (nodeNames c run ts)"
  shows "\<exists>i p. 0 < i \<and> i \<le> length ts \<and> nm = scaleOutNodeName (c + of_nat i) run p"
  using assms
proof (induction ts arbitrary: c)
  case (Cons t ts)
  show ?case
  proof (cases "nm = scaleOutNodeName (c + 1) run (sotPlacement t)")
    case True
    then have "nm = scaleOutNodeName (c + of_nat 1) run (sotPlacement t)" by simp
    then show ?thesis by (intro exI [of _ 1] exI [of _ "sotPlacement t"]) simp
  next
    case False
    then obtain i p where ip: "0 < i" "i \<le> length ts" "nm = scaleOutNodeName (c + 1 + of_nat i) run p"
      using Cons.IH [of "c + 1"] Cons.prems by auto
    then have "nm = scaleOutNodeName (c + of_nat (Suc i)) run p" by (simp add: algebra_simps)
    with ip show ?thesis by (intro exI [of _ "Suc i"] exI [of _ p]) simp
  qed
qed simp

lemma nodeNames_fresh:
  assumes "length ts < 2 ^ 32"
  shows "scaleOutNodeName c run p \<notin> set (nodeNames c run ts)"
proof
  assume "scaleOutNodeName c run p \<in> set (nodeNames c run ts)"
  then obtain i q where i: "0 < i" "i \<le> length ts" "scaleOutNodeName c run p = scaleOutNodeName (c + of_nat i) run q"
    using nodeNames_in by blast
  from scaleOutNodeName_inj [OF i(3)] have "of_nat i = (0 :: 32 word)" by simp
  then have "2 ^ 32 dvd i" by (simp add: word_of_nat_eq_0_iff)
  then show False using i(1,2) assms by (auto dest: dvd_imp_le)
qed

lemma nodeNames_distinct: "length ts < 2 ^ 32 \<Longrightarrow> distinct (nodeNames c run ts)"
  by (induction ts arbitrary: c) (auto simp: nodeNames_fresh)

subsection \<open>One node\<close>

definition simNodeOf :: "time \<Rightarrow> 32 word \<Rightarrow> string \<Rightarrow> scale_out_node_template \<Rightarrow> kobj" where
  "simNodeOf t run nm tmpl =
     \<lparr>objGVK = emptyGVK, ometa = emptyMeta\<lparr>mName := nm, mLabels :=
         AList.update ''topology.ebs.csi.aws.com/zone'' (npAvailabilityZone (sotPlacement tmpl))
           (AddNodeLabels [(LabelSimulationRunNum, formatU32 run)] (sotArchitecture tmpl) nm (sotPlacement tmpl))\<rparr>,
      body = NodeBody \<lparr>nsProviderID = nm, nsTaints = sotTaints tmpl, nsUnschedulable = False\<rparr>
        \<lparr>nstCapacity = sotCapacity tmpl,
         nstAllocatable = BuildAllocatable (sotCapacity tmpl) (sotSystemReserved tmpl) (sotKubeReserved tmpl),
         nstConditions = BuildReadyConditions t\<rparr>\<rparr>"

lemma buildScaleOutSimNode_eq:
  "buildScaleOutSimNode t r tmpl =
     (simNodeOf t (rsRunNum r) (scaleOutNodeName (rsNodeCount r + 1) (rsRunNum r) (sotPlacement tmpl)) tmpl,
      r\<lparr>rsNodeCount := rsNodeCount r + 1\<rparr>)"
  by (simp add: buildScaleOutSimNode_def simNodeOf_def Let_def)

lemma simNodeOf_storable:
  assumes "nm \<noteq> []" "CHR ''/'' \<notin> set nm"
  shows "storable nodesGVK (simNodeOf t run nm tmpl)" "cacheKey (simNodeOf t run nm tmpl) = nm"
    "storable csiGVK (NewCSINode nm uid spec)" "cacheKey (NewCSINode nm uid spec) = nm"
  using assms by (simp_all add: storable_def simNodeOf_def NewCSINode_def nameOk_def name_defs isRuntimeObject_def
      emptyMeta_def emptyGVK_def)

lemma createNode_ok:
  fixes r :: run_state
  assumes ok: "view_ok w v" and room: "room w (Suc n)" and p: "placementOk (sotPlacement tmpl)"
  defines "nm \<equiv> scaleOutNodeName (rsNodeCount r + 1) (rsRunNum r) (sotPlacement tmpl)"
  obtains a w' t where "createNode v tmpl (r, w) = (Ok a, (r\<lparr>rsNodeCount := rsNodeCount r + 1,
       rsScaleOutNodes := AList.update nm a (rsScaleOutNodes r),
       rsScaleOutPlacements := incPlacement (sotPlacement tmpl) (rsScaleOutPlacements r)\<rparr>, w'))"
    "view_ok w' v" "room w' n" "absView w' v nodesGVK = (absView w v nodesGVK)(nm \<mapsto> SlotLive (obj w' a))"
    "defaulted nodesGVK (simNodeOf t (rsRunNum r) nm tmpl) (obj w' a)" "absDelegate w' v = absDelegate w v"
    "\<And>g. g \<noteq> nodesGVK \<Longrightarrow> absView w' v g = absView w v g"
proof -
  let ?t = "fst (now (wMem w))"
  define w1 where "w1 = w\<lparr>wMem := snd (now (wMem w))\<rparr>"
  have m: "memStep {} w w1" unfolding w1_def by (rule memStep_now)
  have ok1: "view_ok w1 v" and av1: "absView w1 v = absView w v" and ad1: "absDelegate w1 v = absDelegate w v"
    using memStep_view [OF m ok] memStep_result(1) [OF m ok, THEN result_okD(3)] by auto
  have room1: "room w1 (Suc n)" using room room_memStep [OF m] by simp
  have nm: "nm \<noteq> []" "CHR ''/'' \<notin> set nm" using scaleOutNodeName_ok p by (auto simp: nm_def)
  note st = simNodeOf_storable [OF nm]
  let ?node = "simNodeOf ?t (rsRunNum r) nm tmpl"
  obtain w' where w': "createNew v nodesGVK ?node w1 = (Ok (nextAddr (wMem w1)), w')" "view_ok w' v" "room w' n"
    "absView w' v nodesGVK = (absView w1 v nodesGVK)(nm \<mapsto> SlotLive (obj w' (nextAddr (wMem w1))))"
    "defaulted nodesGVK ?node (obj w' (nextAddr (wMem w1)))" "absDelegate w' v = absDelegate w1 v"
    "\<And>g'. g' \<noteq> nodesGVK \<Longrightarrow> absView w' v g' = absView w1 v g'"
    by (rule createNew_ok [OF ok1 node_kinds(1) st(1) room1]) (auto simp: st(2))
  have name: "mName (ometa (obj w' (nextAddr (wMem w1)))) = nm"
    using defaulted_simps(7) [OF w'(5)] by (simp add: simNodeOf_def)
  show thesis
  proof (rule that [of "nextAddr (wMem w1)" w' ?t])
    show "createNode v tmpl (r, w) = (Ok (nextAddr (wMem w1)), (r\<lparr>rsNodeCount := rsNodeCount r + 1,
       rsScaleOutNodes := AList.update nm (nextAddr (wMem w1)) (rsScaleOutNodes r),
       rsScaleOutPlacements := incPlacement (sotPlacement tmpl) (rsScaleOutPlacements r)\<rparr>, w'))"
      unfolding createNode_def fst_conv snd_conv buildScaleOutSimNode_eq Let_def split_beta onWorld_def
      using w'(1) name by (simp add: w1_def [symmetric] nm_def [symmetric])
  qed (use w' av1 ad1 in auto)
qed

lemma createCSINode_ok:
  assumes ok: "view_ok w v" and room: "room w (Suc n)"
    and nm: "mName (ometa (obj w a)) = nm" "nm \<noteq> []" "CHR ''/'' \<notin> set nm"
    and st: "storage (lookupStr (mLabels (ometa (obj w a))) LabelInstanceTypeStable) = Ok spec"
  obtains w' c where "createCSINode storage v a (r, w) = (Ok (), (r, w'))" "view_ok w' v" "room w' n"
    "absView w' v csiGVK = (absView w v csiGVK)(nm \<mapsto> SlotLive c)" "absDelegate w' v = absDelegate w v"
    "body c = CSINodeBody (map (\<lambda>d. d\<lparr>cdNodeID := nm\<rparr>) spec)" "\<And>g. g \<noteq> csiGVK \<Longrightarrow> absView w' v g = absView w v g"
proof -
  let ?csi = "NewCSINode nm (mUID (ometa (obj w a))) (map (\<lambda>d. d\<lparr>cdNodeID := nm\<rparr>) spec)"
  note cs = simNodeOf_storable(3,4) [OF nm(2,3)]
  obtain w' where w': "createNew v csiGVK ?csi w = (Ok (nextAddr (wMem w)), w')" "view_ok w' v" "room w' n"
    "absView w' v csiGVK = (absView w v csiGVK)(nm \<mapsto> SlotLive (obj w' (nextAddr (wMem w))))"
    "defaulted csiGVK ?csi (obj w' (nextAddr (wMem w)))" "absDelegate w' v = absDelegate w v"
    "\<And>g'. g' \<noteq> csiGVK \<Longrightarrow> absView w' v g' = absView w v g'"
    by (rule createNew_ok [OF ok node_kinds(2) cs(1) room]) (auto simp: cs(2))
  show thesis
  proof (rule that [of w' "obj w' (nextAddr (wMem w))"])
    show "createCSINode storage v a (r, w) = (Ok (), (r, w'))"
      using w'(1) nm(1) st by (simp add: createCSINode_def Let_def onWorld_def)
    show "body (obj w' (nextAddr (wMem w))) = CSINodeBody (map (\<lambda>d. d\<lparr>cdNodeID := nm\<rparr>) spec)"
      using defaulted_simps(3) [OF w'(5)] by (simp add: NewCSINode_def)
  qed (use w' in auto)
qed

subsection \<open>Any number of nodes\<close>

definition placementCount :: "run_state \<Rightarrow> node_placement \<Rightarrow> 32 word" where
  "placementCount r p = (case map_of (rsScaleOutPlacements r) p of Some c \<Rightarrow> c | None \<Rightarrow> 0)"

lemma placementCount_inc:
  "placementCount (r\<lparr>rsNodeCount := c, rsScaleOutNodes := ns,
     rsScaleOutPlacements := incPlacement q (rsScaleOutPlacements r)\<rparr>) p = placementCount r p + (if p = q then 1 else 0)"
  by (simp add: placementCount_def incPlacement_def)

text \<open>The node of a template and its CSI node as the view shows them.\<close>

definition nodeShown :: "world \<Rightarrow> view \<Rightarrow> 32 word \<Rightarrow> storage_meta \<Rightarrow> string \<Rightarrow> scale_out_node_template \<Rightarrow> bool" where
  "nodeShown w v run storage nm tmpl \<longleftrightarrow> (\<exists>t node csi spec.
     absView w v nodesGVK nm = Some (SlotLive node) \<and> defaulted nodesGVK (simNodeOf t run nm tmpl) node \<and>
     absView w v csiGVK nm = Some (SlotLive csi) \<and>
     storage (npInstanceType (sotPlacement tmpl)) = Ok spec \<and> body csi = CSINodeBody (map (\<lambda>d. d\<lparr>cdNodeID := nm\<rparr>) spec))"

lemma nodeShown_cong:
  assumes "absView w' v nodesGVK nm = absView w v nodesGVK nm" "absView w' v csiGVK nm = absView w v csiGVK nm"
  shows "nodeShown w' v run storage nm tmpl = nodeShown w v run storage nm tmpl"
  using assms by (simp add: nodeShown_def)

lemma simNodeOf_instanceType:
  "lookupStr (mLabels (ometa (simNodeOf t run nm tmpl))) LabelInstanceTypeStable = npInstanceType (sotPlacement tmpl)"
  by (simp add: simNodeOf_def lookupStr_def AddNodeLabels_def label_defs)

lemma createOne_ok:
  fixes r :: run_state
  assumes ok: "view_ok w v" and room: "room w (Suc (Suc n))" and p: "placementOk (sotPlacement tmpl)"
    and st: "storage (npInstanceType (sotPlacement tmpl)) = Ok spec"
  defines "nm \<equiv> scaleOutNodeName (rsNodeCount r + 1) (rsRunNum r) (sotPlacement tmpl)"
  obtains a w1 w2 r' where "createNode v tmpl (r, w) = (Ok a, (r', w1))" "createCSINode storage v a (r', w1) = (Ok (), (r', w2))"
    "view_ok w2 v" "room w2 n" "absDelegate w2 v = absDelegate w v" "nodeShown w2 v (rsRunNum r) storage nm tmpl"
    "\<And>k. k \<noteq> nm \<Longrightarrow> absView w2 v nodesGVK k = absView w v nodesGVK k"
    "\<And>k. k \<noteq> nm \<Longrightarrow> absView w2 v csiGVK k = absView w v csiGVK k"
    "\<And>g. g \<notin> {nodesGVK, csiGVK} \<Longrightarrow> absView w2 v g = absView w v g"
    "rsNodeCount r' = rsNodeCount r + 1" "rsRunNum r' = rsRunNum r"
    "\<And>q. placementCount r' q = placementCount r q + (if q = sotPlacement tmpl then 1 else 0)"
proof -
  let ?r = "\<lambda>a. r\<lparr>rsNodeCount := rsNodeCount r + 1, rsScaleOutNodes := AList.update nm a (rsScaleOutNodes r),
       rsScaleOutPlacements := incPlacement (sotPlacement tmpl) (rsScaleOutPlacements r)\<rparr>"
  obtain a w1 t where 1: "createNode v tmpl (r, w) = (Ok a, (?r a, w1))" "view_ok w1 v" "room w1 (Suc n)"
    "absView w1 v nodesGVK = (absView w v nodesGVK)(nm \<mapsto> SlotLive (obj w1 a))"
    "defaulted nodesGVK (simNodeOf t (rsRunNum r) nm tmpl) (obj w1 a)" "absDelegate w1 v = absDelegate w v"
    "\<And>g. g \<noteq> nodesGVK \<Longrightarrow> absView w1 v g = absView w v g"
    using createNode_ok [OF ok room p, of r] unfolding nm_def by metis
  have name: "mName (ometa (obj w1 a)) = nm" "nm \<noteq> []" "CHR ''/'' \<notin> set nm"
    "storage (lookupStr (mLabels (ometa (obj w1 a))) LabelInstanceTypeStable) = Ok spec"
    using defaulted_simps(7,9) [OF 1(5)] scaleOutNodeName_ok p st
    by (auto simp: nm_def simNodeOf_instanceType) (simp add: simNodeOf_def)
  obtain w2 c where 2: "createCSINode storage v a (?r a, w1) = (Ok (), (?r a, w2))" "view_ok w2 v" "room w2 n"
    "absView w2 v csiGVK = (absView w1 v csiGVK)(nm \<mapsto> SlotLive c)" "absDelegate w2 v = absDelegate w1 v"
    "body c = CSINodeBody (map (\<lambda>d. d\<lparr>cdNodeID := nm\<rparr>) spec)" "\<And>g. g \<noteq> csiGVK \<Longrightarrow> absView w2 v g = absView w1 v g"
    by (rule createCSINode_ok [where r = "?r a" and storage = storage, OF 1(2,3) name]) (rule that)
  have n2: "absView w2 v nodesGVK = absView w1 v nodesGVK" using 2(7) node_kinds(3) by blast
  have c1: "absView w1 v csiGVK = absView w v csiGVK" using 1(7) node_kinds(3) by metis
  have "absView w2 v nodesGVK nm = Some (SlotLive (obj w1 a))" "absView w2 v csiGVK nm = Some (SlotLive c)"
    using n2 1(4) 2(4) by simp_all
  then have shown: "nodeShown w2 v (rsRunNum r) storage nm tmpl"
    unfolding nodeShown_def using 1(5) 2(6) st by metis
  show thesis
    by (rule that [of a "?r a" w1 w2])
      (use 1 2 n2 c1 shown placementCount_inc [of _ r] in auto)
qed

lemma createNodesLoop_ok:
  fixes r :: run_state
  assumes "view_ok w v" "room w (n + 2 * length ts)" "\<forall>t\<in>set ts. placementOk (sotPlacement t)" "length ts < 2 ^ 32"
    and "\<forall>t\<in>set ts. \<exists>spec. storage (npInstanceType (sotPlacement t)) = Ok spec"
  shows "\<exists>r' w'. createNodesLoop storage v ts (r, w) = (Ok (), (r', w')) \<and> view_ok w' v \<and> room w' n \<and>
    absDelegate w' v = absDelegate w v \<and>
    (\<forall>(nm, t)\<in>set (zip (nodeNames (rsNodeCount r) (rsRunNum r) ts) ts). nodeShown w' v (rsRunNum r) storage nm t) \<and>
    (\<forall>k. k \<notin> set (nodeNames (rsNodeCount r) (rsRunNum r) ts) \<longrightarrow>
       absView w' v nodesGVK k = absView w v nodesGVK k \<and> absView w' v csiGVK k = absView w v csiGVK k) \<and>
    (\<forall>g. g \<notin> {nodesGVK, csiGVK} \<longrightarrow> absView w' v g = absView w v g) \<and>
    (\<forall>q. placementCount r' q = placementCount r q + of_nat (count_list (map sotPlacement ts) q))"
  using assms
proof (induction ts arbitrary: r w)
  case (Cons t ts)
  let ?nm = "scaleOutNodeName (rsNodeCount r + 1) (rsRunNum r) (sotPlacement t)"
  let ?names = "nodeNames (rsNodeCount r + 1) (rsRunNum r) ts"
  obtain spec where spec: "storage (npInstanceType (sotPlacement t)) = Ok spec" using Cons.prems(5) by auto
  have room: "room w (Suc (Suc (n + 2 * length ts)))" using Cons.prems(2) by simp
  have pl: "placementOk (sotPlacement t)" using Cons.prems(3) by simp
  obtain a w1 w2 r1 where 1: "createNode v t (r, w) = (Ok a, (r1, w1))" "createCSINode storage v a (r1, w1) = (Ok (), (r1, w2))"
    "view_ok w2 v" "room w2 (n + 2 * length ts)" "absDelegate w2 v = absDelegate w v" "nodeShown w2 v (rsRunNum r) storage ?nm t"
    "\<And>k. k \<noteq> ?nm \<Longrightarrow> absView w2 v nodesGVK k = absView w v nodesGVK k"
    "\<And>k. k \<noteq> ?nm \<Longrightarrow> absView w2 v csiGVK k = absView w v csiGVK k"
    "\<And>g. g \<notin> {nodesGVK, csiGVK} \<Longrightarrow> absView w2 v g = absView w v g"
    "rsNodeCount r1 = rsNodeCount r + 1" "rsRunNum r1 = rsRunNum r"
    "\<And>q. placementCount r1 q = placementCount r q + (if q = sotPlacement t then 1 else 0)"
    by (rule createOne_ok [where r = r and storage = storage, OF Cons.prems(1) room pl spec]) blast
  obtain r' w' where 2: "createNodesLoop storage v ts (r1, w2) = (Ok (), (r', w'))" "view_ok w' v" "room w' n"
    "absDelegate w' v = absDelegate w2 v"
    "\<forall>(nm, t)\<in>set (zip ?names ts). nodeShown w' v (rsRunNum r) storage nm t"
    "\<forall>k. k \<notin> set ?names \<longrightarrow> absView w' v nodesGVK k = absView w2 v nodesGVK k \<and> absView w' v csiGVK k = absView w2 v csiGVK k"
    "\<forall>g. g \<notin> {nodesGVK, csiGVK} \<longrightarrow> absView w' v g = absView w2 v g"
    "\<forall>q. placementCount r' q = placementCount r1 q + of_nat (count_list (map sotPlacement ts) q)"
    using Cons.IH [of w2 r1, OF 1(3,4)] Cons.prems(3-5) unfolding 1(10,11) by auto
  have fresh: "?nm \<notin> set ?names" using nodeNames_fresh Cons.prems(4) by simp
  have shown: "nodeShown w' v (rsRunNum r) storage ?nm t"
    using nodeShown_cong [of w' v ?nm w2] 2(6) fresh 1(6) by blast
  have loop: "createNodesLoop storage v (t # ts) (r, w) = (Ok (), (r', w'))" using 1(1,2) 2(1) by simp
  show ?case
  proof (intro exI conjI)
    show "createNodesLoop storage v (t # ts) (r, w) = (Ok (), (r', w'))" by (rule loop)
    show "absDelegate w' v = absDelegate w v" using 1(5) 2(4) by simp
    show "\<forall>(nm, t)\<in>set (zip (nodeNames (rsNodeCount r) (rsRunNum r) (t # ts)) (t # ts)). nodeShown w' v (rsRunNum r) storage nm t"
      using shown 2(5) by auto
    show "\<forall>k. k \<notin> set (nodeNames (rsNodeCount r) (rsRunNum r) (t # ts)) \<longrightarrow>
       absView w' v nodesGVK k = absView w v nodesGVK k \<and> absView w' v csiGVK k = absView w v csiGVK k"
      using 1(7,8) 2(6) by simp
    show "\<forall>g. g \<notin> {nodesGVK, csiGVK} \<longrightarrow> absView w' v g = absView w v g" using 1(9) 2(7) by simp
    show "\<forall>q. placementCount r' q = placementCount r q + of_nat (count_list (map sotPlacement (t # ts)) q)"
      using 1(12) 2(8) by auto
  qed (fact 2(2,3))+
qed auto

subsection \<open>A concrete run\<close>

definition demoRun :: run_state where
  "demoRun = fst (snd (RunState_Init noCancel ''sim'' 1 demoSandbox (MakeRunState, demoWorld)))"

definition demoStorage :: storage_meta where
  "demoStorage instanceType = Ok []"

definition demoTemplate :: scale_out_node_template where
  "demoTemplate = \<lparr>sotLabels = [], sotAnnotations = [], sotQuota = [], sotCapacity = [(''cpu'', 4)], sotKubeReserved = [],
     sotSystemReserved = [], sotPlacement = \<lparr>npPoolName = ''a'', npTemplateName = ''t'', npInstanceType = ''m5'',
       npRegion = ''r'', npAvailabilityZone = ''z''\<rparr>, sotArchitecture = ''amd64'', sotTaints = [],
     sotPriorityKey = PriorityKey 1 1\<rparr>"

lemma demo_listed: "listed demoWorld 1 0 podsGVK = {p. absView demoWorld demoSandbox podsGVK ''d/p'' = Some (SlotLive p)}"
proof -
  obtain p where p: "absView demoWorld demoSandbox podsGVK = [''d/p'' \<mapsto> SlotLive p]"
    "absDelegate demoWorld demoSandbox podsGVK = [''d/p'' \<mapsto> SlotLive p]" "cacheKey p = ''d/p''"
    by (rule demo_pod)
  have "absOwn demoWorld 0 podsGVK = [''d/p'' \<mapsto> SlotLive p]"
    using p(2) by (simp add: demoSandbox_def demoBase_def)
  moreover have "absOwn demoWorld 1 podsGVK = (\<lambda>_. None)" by (rule demo(6))
  ultimately show ?thesis using p(1,3) by (auto simp: listed_def split: if_splits)
qed

lemma demoRun_init:
  "\<exists>r. RunState_Init noCancel ''sim'' 1 demoSandbox (MakeRunState, demoWorld) = (Ok (), (r, demoWorld)) \<and>
     rsView r = Some demoSandbox"
proof -
  obtain p where p: "absView demoWorld demoSandbox podsGVK = [''d/p'' \<mapsto> SlotLive p]"
    "body p = PodBody emptyPodSpec emptyPodStatus" using demo_pod by metis
  have shape: "demoSandbox = SandboxView 1 (BaseView 0)" by (simp add: demoSandbox_def demoBase_def)
  have listed: "listed demoWorld 1 0 podsGVK = {p}" unfolding demo_listed p(1) by auto
  have node: "podNodeName p = []" "goKind (body p) = ''Pod''"
    using p(2) by (simp_all add: podNodeName_def emptyPodSpec_def goKind_def)
  obtain pods where "ListPods noCancel demoSandbox MatchAllCriteria demoWorld = Ok pods" "set pods = {p}"
    using sandbox_ListPods [of demoWorld 1 0] demo(1) node(2) unfolding listed shape by auto
  moreover from this(2) have "getUnscheduledPodsMap noCancel demoSandbox demoWorld \<noteq> Ok []"
    using getUnscheduledPodsMap_keys [of pods "[]"] node(1) calculation(1)
    by (auto simp: getUnscheduledPodsMap_def)
  ultimately show ?thesis by (auto simp: RunState_Init_def Let_def getUnscheduledPodsMap_def)
qed

subsection \<open>Claims\<close>

text \<open>
  A run starts with exactly the pods that have no node: over a sandbox of the base view,
  \<open>Init\<close> records the names of the listed pods without node as left over, each once, sets the status
  to running and keeps the view; it fails when there is no such pod.
\<close>

theorem RunState_Init_unscheduled:
  assumes "view_ok w (SandboxView i (BaseView j))" "\<forall>p\<in>listed w i j podsGVK. goKind (body p) = ''Pod''"
  shows "\<exists>r'. (if \<exists>p\<in>listed w i j podsGVK. podNodeName p = []
    then RunState_Init noCancel nm n (SandboxView i (BaseView j)) (r, w) = (Ok (), (r', w)) \<and> distinct (rsLeftover r') \<and>
      set (rsLeftover r') = (\<lambda>p. NamespacedName (ometa p)) ` {p\<in>listed w i j podsGVK. podNodeName p = []} \<and>
      set (rsLeftover r') = fst ` set (rsUnscheduledPods r') \<and>
      rsStatus r' = StatusRunning \<and> rsView r' = Some (SandboxView i (BaseView j))
    else \<exists>e. RunState_Init noCancel nm n (SandboxView i (BaseView j)) (r, w) = (Err e, (r', w)))"
proof -
  let ?v = "SandboxView i (BaseView j)"
  let ?f = "\<lambda>p m. if podNodeName p = [] then AList.update (NamespacedName (ometa p)) (podResourceInfoOf p) m else m"
  obtain pods where pods: "ListPods noCancel ?v MatchAllCriteria w = Ok pods" "set pods = listed w i j podsGVK"
    using sandbox_ListPods [OF assms] by blast
  let ?m = "fold ?f pods []"
  have m: "getUnscheduledPodsMap noCancel ?v w = Ok ?m" using pods(1) by (simp add: getUnscheduledPodsMap_def)
  have keys: "fst ` set ?m = (\<lambda>p. NamespacedName (ometa p)) ` {p\<in>listed w i j podsGVK. podNodeName p = []}"
    unfolding getUnscheduledPodsMap_keys pods(2) by simp
  have "?m = [] \<longleftrightarrow> fst ` set ?m = {}" by simp
  then have "?m = [] \<longleftrightarrow> \<not> (\<exists>p\<in>listed w i j podsGVK. podNodeName p = [])" unfolding keys by auto
  with m keys getUnscheduledPodsMap_wf [OF m] show ?thesis
    unfolding RunState_Init_def by (cases "?m = []") (simp_all add: Let_def)
qed

theorem RunState_Init_unscheduled_witness:
  "RunState_Init noCancel ''sim'' 1 demoSandbox (MakeRunState, demoWorld) = (Ok (), (demoRun, demoWorld)) \<and>
   set (rsLeftover demoRun) = {\<lparr>nnNamespace = ''d'', nnName = ''p''\<rparr>}"
proof -
  obtain p where p: "absView demoWorld demoSandbox podsGVK = [''d/p'' \<mapsto> SlotLive p]" "CacheName p = podName"
    "body p = PodBody emptyPodSpec emptyPodStatus" using demo_pod by metis
  have shape: "demoSandbox = SandboxView 1 (BaseView 0)" by (simp add: demoSandbox_def demoBase_def)
  have listed: "listed demoWorld 1 0 podsGVK = {p}" unfolding demo_listed p(1) by auto
  have node: "podNodeName p = []" "goKind (body p) = ''Pod''" "NamespacedName (ometa p) = \<lparr>nnNamespace = ''d'', nnName = ''p''\<rparr>"
    using p(2,3) by (simp_all add: podNodeName_def emptyPodSpec_def podName_def name_defs NamespacedName_def goKind_def)
  have ok: "view_ok demoWorld (SandboxView 1 (BaseView 0))" using demo(1) by (simp only: shape)
  from RunState_Init_unscheduled [OF ok, of "''sim''" 1 MakeRunState] node(2) obtain r' where
    "RunState_Init noCancel ''sim'' 1 demoSandbox (MakeRunState, demoWorld) = (Ok (), (r', demoWorld))"
    "set (rsLeftover r') = (\<lambda>p. NamespacedName (ometa p)) ` {q\<in>{p}. podNodeName q = []}"
    unfolding listed shape using node(1) by auto
  moreover from this(1) have "demoRun = r'" by (simp add: demoRun_def)
  ultimately show ?thesis using node by auto
qed

text \<open>
  C25. In every state of a run the pods left over are exactly those that had no node at the start and
  have not been recorded on any node since, each listed once. Nothing else the run does, creating
  nodes, tracking, failing half-way, or the scheduler changing the cluster, can make a pod
  disappear from the account or come back.
\<close>

theorem run_leftover_exact:
  assumes "run_reach (r, w)"
  shows "distinct (rsLeftover r) \<and> set (rsLeftover r) = fst ` set (rsUnscheduledPods r) - scheduledNames r"
  using run_reach_inv [OF assms] by (simp add: run_inv_def)

theorem run_leftover_exact_witness:
  "\<exists>r w. RunState_Init noCancel ''sim'' 1 demoSandbox (MakeRunState, demoWorld) = (Ok (), (r, w)) \<and>
     set (rsLeftover (fst (snd (Track 3 (r, w))))) \<subseteq> fst ` set (rsUnscheduledPods (fst (snd (Track 3 (r, w)))))"
proof -
  obtain r where r: "RunState_Init noCancel ''sim'' 1 demoSandbox (MakeRunState, demoWorld) = (Ok (), (r, demoWorld))"
    using demoRun_init by blast
  have "run_reach (snd (Track 3 (r, demoWorld)))" by (rule run_track [OF run_init [OF r]])
  then have "run_reach (fst (snd (Track 3 (r, demoWorld))), snd (snd (Track 3 (r, demoWorld))))" by simp
  from run_leftover_exact [OF this] r show ?thesis by blast
qed

text \<open>
  \<open>Track\<close> with events in the sink: when every scheduling event is about a pod the view shows
  with a node, it returns \<open>false\<close>, empties the sink, records each such pod on its node and removes it
  from the pods left over, and counts every event. The count of unchanged attempts is reset only if
  at least one pod was recorded; events of other kinds leave it alone.
\<close>

theorem Track_records:
  assumes "rsView r = Some v" "vSink (vs w v) \<noteq> []"
    and "\<forall>ev\<in>set (vSink (vs w v)). isBinding ev \<longrightarrow> scheduledPod v w ev \<noteq> None"
  shows "\<exists>r'. Track k (r, w) = (Ok False, (r', withSink v [] w)) \<and>
    (\<forall>node. boundOn r' node = boundOn r node \<union> {NamespacedName (ometa p) |p ev. ev \<in> set (vSink (vs w v)) \<and>
        scheduledPod v w ev = Some p \<and> podNodeName p = node}) \<and>
    set (rsLeftover r') = set (rsLeftover r) - {NamespacedName (ometa p) |p ev. ev \<in> set (vSink (vs w v)) \<and>
        scheduledPod v w ev = Some p} \<and>
    rsNumReceivedEvents r' = rsNumReceivedEvents r + length (vSink (vs w v)) \<and>
    rsNumUnchangedTrackAttempts r' =
      (if \<exists>ev\<in>set (vSink (vs w v)). isBinding ev then 0 else rsNumUnchangedTrackAttempts r)"
proof -
  let ?evs = "vSink (vs w v)"
  let ?pods = "podsOf v w ?evs"
  let ?r = "r\<lparr>rsNumTrackAttempts := rsNumTrackAttempts r + 1\<rparr>"
  let ?r' = "(recordPods ?pods ?r)\<lparr>rsNumReceivedEvents := rsNumReceivedEvents r + length ?evs\<rparr>"
  have nodes: "\<forall>p\<in>set ?pods. podNodeName p \<noteq> []" unfolding set_podsOf using scheduledPod_node by blast
  note rec = recordPods_props [OF nodes, of ?r]
  have same: "boundOn ?r' = boundOn (recordPods ?pods ?r)" "boundOn ?r = boundOn r"
    by (rule run_inv_cong(3); simp)+
  have "?pods = [] \<longleftrightarrow> set ?pods = {}" by simp
  then have empty: "?pods = [] \<longleftrightarrow> \<not> (\<exists>ev\<in>set ?evs. isBinding ev)"
    unfolding set_podsOf using assms(3) scheduledPod_node by blast
  show ?thesis
  proof (intro exI conjI allI)
    show "Track k (r, w) = (Ok False, (?r', withSink v [] w))"
      using Track_eq(2) [OF assms, of k] by (simp add: resetSink_eq)
    fix node
    show "boundOn ?r' node = boundOn r node \<union> {NamespacedName (ometa p) |p ev. ev \<in> set ?evs \<and>
        scheduledPod v w ev = Some p \<and> podNodeName p = node}"
      unfolding same(1) rec(1) unfolding same(2) set_podsOf by auto
    show "set (rsLeftover ?r') = set (rsLeftover r) - {NamespacedName (ometa p) |p ev. ev \<in> set ?evs \<and>
        scheduledPod v w ev = Some p}"
      using rec(2) unfolding set_podsOf by auto
    show "rsNumUnchangedTrackAttempts ?r' =
      (if \<exists>ev\<in>set ?evs. isBinding ev then 0 else rsNumUnchangedTrackAttempts r)"
      using rec(3) empty by simp
  qed simp
qed

definition demoBoundPod :: kobj where
  "demoBoundPod = demoPod\<lparr>ometa := ometa demoPod\<lparr>mName := ''q''\<rparr>,
     body := PodBody (emptyPodSpec\<lparr>psNodeName := ''n''\<rparr>) emptyPodStatus\<rparr>"

definition demoEvent :: event where
  "demoEvent = \<lparr>eName = ''e'', eNamespace = ''d'', eBody = \<lparr>evRegarding = \<lparr>refKind = ''Pod'', refNamespace = ''d'',
     refName = ''q'', refUID = [], refAPIVersion = ''v1''\<rparr>, evReason = ''Scheduled'', evAction = ''Binding'',
     evNote = [], evType = [], evEventTime = 0\<rparr>\<rparr>"

definition demoTracked :: world where
  "demoTracked = withSink demoSandbox [demoEvent] (snd (createNew demoSandbox podsGVK demoBoundPod demoWorld))"

lemma demoTracked_pod:
  "\<exists>p. scheduledPod demoSandbox demoTracked demoEvent = Some p \<and> podNodeName p = ''n'' \<and>
     NamespacedName (ometa p) = \<lparr>nnNamespace = ''d'', nnName = ''q''\<rparr>"
proof -
  have st: "storable podsGVK demoBoundPod" "cacheKey demoBoundPod = ''d/q''"
    by (simp_all add: storable_def nameOk_def name_defs podsGVK_def isRuntimeObject_def demo_defs demoBoundPod_def)
  have room: "room demoWorld (Suc 7)" using demo(3) by simp
  obtain w' where w': "createNew demoSandbox podsGVK demoBoundPod demoWorld = (Ok (nextAddr (wMem demoWorld)), w')"
    "view_ok w' demoSandbox"
    "absView w' demoSandbox podsGVK = (absView demoWorld demoSandbox podsGVK)
       (''d/q'' \<mapsto> SlotLive (obj w' (nextAddr (wMem demoWorld))))"
    "defaulted podsGVK demoBoundPod (obj w' (nextAddr (wMem demoWorld)))"
    by (rule createNew_ok [OF demo(1) supported_pods st(1) room]) (auto simp: st(2))
  let ?p = "obj w' (nextAddr (wMem demoWorld))"
  have reg: "objectNameString (regarding demoEvent) = ''d/q''" "isBinding demoEvent"
    by (simp_all add: regarding_def demoEvent_def NamespacedNameFromEventRegarding_def objectNameString_def isBinding_def)
  obtain a where a: "GetObject demoSandbox podsGVK (regarding demoEvent) w' = Ok a" "obj w' a = ?p"
    using GetObject_abs [OF w'(2) supported_pods, of "regarding demoEvent"] w'(3) reg(1) by auto
  have p: "podNodeName ?p = ''n''" "goKind (body ?p) = ''Pod''"
    "NamespacedName (ometa ?p) = \<lparr>nnNamespace = ''d'', nnName = ''q''\<rparr>"
    using defaulted_simps(3,7,8) [OF w'(4)]
    by (simp_all add: podNodeName_def goKind_def NamespacedName_def demoBoundPod_def demo_defs)
  have "scheduledPod demoSandbox demoTracked demoEvent = Some ?p"
    using w'(1) a p reg(2) by (simp add: demoTracked_def scheduledPod_def)
  with p show ?thesis by blast
qed

theorem Track_records_witness:
  "\<exists>r'. Track 3 (demoRun, demoTracked) = (Ok False, (r', withSink demoSandbox [] demoTracked)) \<and>
     \<lparr>nnNamespace = ''d'', nnName = ''q''\<rparr> \<in> boundOn r' ''n''"
proof -
  have v: "rsView demoRun = Some demoSandbox" using demoRun_init by (auto simp: demoRun_def)
  have s: "vSink (vs demoTracked demoSandbox) = [demoEvent]" by (simp add: demoTracked_def)
  obtain p where p: "scheduledPod demoSandbox demoTracked demoEvent = Some p" "podNodeName p = ''n''"
    "NamespacedName (ometa p) = \<lparr>nnNamespace = ''d'', nnName = ''q''\<rparr>" using demoTracked_pod by blast
  obtain r' where r': "Track 3 (demoRun, demoTracked) = (Ok False, (r', withSink demoSandbox [] demoTracked))"
    "\<forall>node. boundOn r' node = boundOn demoRun node \<union> {NamespacedName (ometa p) |p ev. ev \<in> set [demoEvent] \<and>
        scheduledPod demoSandbox demoTracked ev = Some p \<and> podNodeName p = node}"
    using Track_records [OF v, of demoTracked 3] p(1) unfolding s by auto
  have "\<lparr>nnNamespace = ''d'', nnName = ''q''\<rparr> \<in> boundOn r' ''n''"
    unfolding r'(2) [rule_format] using p by (auto intro!: exI [of _ p])
  with r'(1) show ?thesis by blast
qed

text \<open>
  \<open>CreateSimulationNodes\<close> with any templates: it succeeds when the storage information of every
  instance type is known; then the view shows, under pairwise distinct generated names, one ready
  node per template with the template's capacity and allocatable resources and the labels of its
  placement, and a CSI node of the same name; everything else in the view and all of its delegate is
  as before, and each placement's count has grown by the number of its templates.
\<close>

theorem CreateSimulationNodes_creates:
  assumes "view_ok w v" "room w (n + 2 * length ts)" "rsView r = Some v" "length ts < 2 ^ 32"
    and "\<forall>t\<in>set ts. placementOk (sotPlacement t) \<and> (\<exists>spec. storage (npInstanceType (sotPlacement t)) = Ok spec)"
  shows "\<exists>r' w'. CreateSimulationNodes storage ts (r, w) = (Ok (), (r', w')) \<and> view_ok w' v \<and>
    absDelegate w' v = absDelegate w v \<and> distinct (nodeNames (rsNodeCount r) (rsRunNum r) ts) \<and>
    (\<forall>(nm, t)\<in>set (zip (nodeNames (rsNodeCount r) (rsRunNum r) ts) ts). nodeShown w' v (rsRunNum r) storage nm t) \<and>
    (\<forall>g k. (g \<noteq> nodesGVK \<and> g \<noteq> csiGVK \<or> k \<notin> set (nodeNames (rsNodeCount r) (rsRunNum r) ts)) \<longrightarrow>
       absView w' v g k = absView w v g k) \<and>
    (\<forall>q. placementCount r' q = placementCount r q + of_nat (count_list (map sotPlacement ts) q))"
proof -
  let ?names = "nodeNames (rsNodeCount r) (rsRunNum r) ts"
  obtain r' w' where 1: "createNodesLoop storage v ts (r, w) = (Ok (), (r', w'))" "view_ok w' v"
    "absDelegate w' v = absDelegate w v" "\<forall>(nm, t)\<in>set (zip ?names ts). nodeShown w' v (rsRunNum r) storage nm t"
    "\<forall>k. k \<notin> set ?names \<longrightarrow> absView w' v nodesGVK k = absView w v nodesGVK k \<and> absView w' v csiGVK k = absView w v csiGVK k"
    "\<forall>g. g \<notin> {nodesGVK, csiGVK} \<longrightarrow> absView w' v g = absView w v g"
    "\<forall>q. placementCount r' q = placementCount r q + of_nat (count_list (map sotPlacement ts) q)"
    using createNodesLoop_ok [OF assms(1,2) _ assms(4), of storage r] assms(5) by auto
  have "absView w' v g k = absView w v g k" if "g \<noteq> nodesGVK \<and> g \<noteq> csiGVK \<or> k \<notin> set ?names" for g k
    using 1(5,6) that by (cases "g \<in> {nodesGVK, csiGVK}") auto
  moreover have "CreateSimulationNodes storage ts (r, w) = (Ok (), (r', w'))"
    using 1(1) assms(3) by (simp add: CreateSimulationNodes_def withView_def)
  ultimately show ?thesis using 1 nodeNames_distinct [OF assms(4)] by blast
qed

theorem CreateSimulationNodes_creates_witness:
  "\<exists>r' w' node. CreateSimulationNodes demoStorage [demoTemplate] (demoRun, demoWorld) = (Ok (), (r', w')) \<and>
     absView w' demoSandbox nodesGVK (scaleOutNodeName 1 1 (sotPlacement demoTemplate)) = Some (SlotLive node)"
proof -
  have r: "rsView demoRun = Some demoSandbox" "rsNodeCount demoRun = 0" "rsRunNum demoRun = 1"
    using demoRun_init by (auto simp: demoRun_def RunState_Init_def MakeRunState_def Let_def split: outcome.splits if_splits)
  have room: "room demoWorld (6 + 2 * length [demoTemplate])" using demo(3) by simp
  from CreateSimulationNodes_creates [OF demo(1) room r(1), of demoStorage] obtain r' w' where
    "CreateSimulationNodes demoStorage [demoTemplate] (demoRun, demoWorld) = (Ok (), (r', w'))"
    "nodeShown w' demoSandbox 1 demoStorage (scaleOutNodeName 1 1 (sotPlacement demoTemplate)) demoTemplate"
    unfolding r by (auto simp: demoStorage_def demoTemplate_def placementOk_def)
  then show ?thesis unfolding nodeShown_def by blast
qed

end
