(* ===== verification/Simulation.thy ===== *)
theory Simulation
  imports RunNodes
begin

text \<open>
  One scale-out simulation, \<open>src/planner/simulation/scaleout/scaleout.go\<close>: creation with validated
  arguments, the run with its loop of work and tracking, and the result.

  The loop may run forever, so it is a partial function into \<open>option\<close>. What is outside the code
  enters as the record \<open>scheduler\<close>, which the launcher gives for a view: whether the launch succeeds, and what the running kube-scheduler
  does to the world before the work and before the tracking of the \<open>i\<close>-th round; and as \<open>sim_ctx\<close>:
  what the context answers when the \<open>i\<close>-th round polls it and what the calls of that round see of it.
  The run counter shared by all simulations is threaded explicitly. The in-memory client facades
  cannot fail.
\<close>

subsection \<open>Arguments\<close>

record scheduler =
  schLaunch :: "unit outcome"
  schBeforeWork :: "nat \<Rightarrow> world \<Rightarrow> world"
  schBeforeTrack :: "nat \<Rightarrow> world \<Rightarrow> world"

type_synonym launcher = "view \<Rightarrow> scheduler"

record sim_ctx =
  scDone :: "nat \<Rightarrow> goerr option"
  scCtx :: "nat \<Rightarrow> ctxs"

datatype strategy = SingleNodeMultiSim | MultiNodeSingleSim | OtherStrategy string

definition IsMultiNode :: "strategy \<Rightarrow> bool" where
  "IsMultiNode s \<longleftrightarrow> s = MultiNodeSingleSim"

record sim_config =
  cfgMaxParallelSimulations :: int
  cfgTrackPollInterval :: int
  cfgMaxUnchangedTrackAttempts :: int
  cfgBindVolumeClaimsForImmediateMode :: bool

record sim_args =
  saSchedulerLauncher :: "launcher option"
  saStorageMetaAccess :: storage_meta
  saName :: string
  saStrategy :: strategy
  saNodeTemplates :: "scale_out_node_template list"
  saConfig :: sim_config

definition ErrCreateSimulation :: goerr where "ErrCreateSimulation = Sentinel ''ErrCreateSimulation''"
definition ErrRunSimulation :: goerr where "ErrRunSimulation = Sentinel ''ErrRunSimulation''"

definition blank :: "string \<Rightarrow> bool" where
  "blank s \<longleftrightarrow> TrimSpace s = []"

fun validateTemplates :: "priority_key \<Rightarrow> scale_out_node_template list \<Rightarrow> unit outcome" where
  "validateTemplates pk [] = Ok ()"
| "validateTemplates pk (t # ts) =
     (if blank (npRegion (sotPlacement t)) then Err (Plain ''region unset'')
      else if blank (npAvailabilityZone (sotPlacement t)) then Err (Plain ''az unset'')
      else if blank (npInstanceType (sotPlacement t)) then Err (Plain ''instanceType unset'')
      else if blank (npTemplateName (sotPlacement t)) then Err (Plain ''templateName unset'')
      else if blank (npPoolName (sotPlacement t)) then Err (Plain ''poolName unset'')
      else if blank (sotArchitecture t) then Err (Plain ''architecture unset'')
      else if sotPriorityKey t \<noteq> pk then Err (Plain ''priorityKey of all scale-out node templates must be same'')
      else validateTemplates pk ts)"

definition validateSimArgs :: "sim_args \<Rightarrow> unit outcome" where
  "validateSimArgs args = (case saNodeTemplates args of
       [] \<Rightarrow> Err (Plain ''no ScaleOutNodeTemplate specified'')
     | t # _ \<Rightarrow>
         if cfgTrackPollInterval (saConfig args) \<le> 0 then Err (Plain ''track poll interval must be positive'')
         else if cfgMaxUnchangedTrackAttempts (saConfig args) \<le> 0 then Err (Plain ''max unchanged track attempts must be positive'')
         else if saSchedulerLauncher args = None then Err (Plain ''scheduler launcher must not be nil'')
         else validateTemplates (sotPriorityKey t) (saNodeTemplates args))"

subsection \<open>The simulation object\<close>

record sim_result =
  srName :: string
  srView :: "view option"
  srItems :: "scale_out_item list"
  srNodePodAssignments :: "node_pod_assignment list"
  srOtherNodePodAssignments :: "node_pod_assignment list"
  srLeftoverUnscheduledPods :: "namespaced_name list"

definition zeroResult :: sim_result where
  "zeroResult = \<lparr>srName = [], srView = None, srItems = [], srNodePodAssignments = [], srOtherNodePodAssignments = [],
     srLeftoverUnscheduledPods = []\<rparr>"

record simulation =
  simArgs :: sim_args
  simResult :: sim_result
  simState :: run_state

definition NewDefault :: "sim_args \<Rightarrow> simulation outcome" where
  "NewDefault args = (case validateSimArgs args of
       Err e \<Rightarrow> Err (Wrapped ''NewDefault'' [ErrCreateSimulation, e])
     | Panic p \<Rightarrow> Panic p
     | Ok _ \<Rightarrow> Ok \<lparr>simArgs = args, simResult = zeroResult, simState = MakeRunState\<rparr>)"

definition Simulation_Reset :: "simulation \<Rightarrow> simulation" where
  "Simulation_Reset s = s\<lparr>simState := MakeRunState\<rparr>"

definition Simulation_PriorityKey :: "simulation \<Rightarrow> priority_key outcome" where
  "Simulation_PriorityKey s = (case saNodeTemplates (simArgs s) of
     [] \<Rightarrow> Panic ''index out of range'' | t # _ \<Rightarrow> Ok (sotPriorityKey t))"

definition Simulation_Name :: "simulation \<Rightarrow> string" where
  "Simulation_Name s = saName (simArgs s)"

definition Simulation_Status :: "simulation \<Rightarrow> activity_status" where
  "Simulation_Status s = rsStatus (simState s)"

text \<open>A failed simulation returns its error; it is never nil when \<open>Run\<close> set the status.\<close>

definition Simulation_Result :: "simulation \<Rightarrow> sim_result outcome" where
  "Simulation_Result s = (case rsStatus (simState s) of
       StatusPending \<Rightarrow> Err (Plain ''simulation is still pending'')
     | StatusRunning \<Rightarrow> Err (Plain ''simulation is still running'')
     | StatusFailure \<Rightarrow> (case rsErr (simState s) of Some e \<Rightarrow> Err e | None \<Rightarrow> Ok zeroResult)
     | StatusSuccess \<Rightarrow> Ok (simResult s))"

subsection \<open>Work and tracking\<close>

definition resetUnchanged :: "bool \<Rightarrow> rworld \<Rightarrow> rworld" where
  "resetUnchanged b s = (if b then ((fst s)\<lparr>rsNumUnchangedTrackAttempts := 0\<rparr>, snd s) else s)"

definition doWork :: "sim_args \<Rightarrow> ctxs \<Rightarrow> view \<Rightarrow> rworld \<Rightarrow> (unit, rworld) eff" where
  "doWork args cx v s =
     bindE (onWorld (ProvisionAndBindVolumesFoSelectedClaimsInWFFC cx v) s) (\<lambda>provisionedPvs s.
     bindE (onWorld (FinalizeStaticBindingsForSelectedClaimsInWFFC cx v) (resetUnchanged (provisionedPvs \<noteq> []) s))
       (\<lambda>numBound s. let s = resetUnchanged (0 < numBound) s in
         if IsMultiNode (saStrategy args)
         then CreateSimulationNodes (saStorageMetaAccess args) (saNodeTemplates args) s
         else (Ok (), s)))"

definition maxUnchanged :: "sim_args \<Rightarrow> nat" where
  "maxUnchanged args = nat (cfgMaxUnchangedTrackAttempts (saConfig args))"

definition schedules :: "(world \<Rightarrow> world) \<Rightarrow> rworld \<Rightarrow> rworld" where
  "schedules f s = (fst s, f (snd s))"

partial_function (option) workAndTrackUntilStabilized ::
  "sim_args \<Rightarrow> scheduler \<Rightarrow> sim_ctx \<Rightarrow> view \<Rightarrow> nat \<Rightarrow> rworld \<Rightarrow> (unit, rworld) eff option" where
  "workAndTrackUntilStabilized args sch cx v i s =
     (case scDone cx i of
        Some e \<Rightarrow> Some (Err e, s)
      | None \<Rightarrow>
         (case doWork args (scCtx cx i) v (schedules (schBeforeWork sch i) s) of
            (Err e, s) \<Rightarrow> Some (Err e, s)
          | (Panic p, s) \<Rightarrow> Some (Panic p, s)
          | (Ok _, s) \<Rightarrow>
             (case Track (maxUnchanged args) (schedules (schBeforeTrack sch i) s) of
                (Err e, s) \<Rightarrow> Some (Err e, s)
              | (Panic p, s) \<Rightarrow> Some (Panic p, s)
              | (Ok stabilized, s) \<Rightarrow>
                  if stabilized then Some (Ok (), s)
                  else if rsLeftover (fst s) = [] then Some (Ok (), s)
                  else workAndTrackUntilStabilized args sch cx v (Suc i) s)))"

subsection \<open>Running\<close>

definition launchSchedulerForSimulation :: "sim_args \<Rightarrow> view \<Rightarrow> scheduler outcome" where
  "launchSchedulerForSimulation args v = (case saSchedulerLauncher args of
       None \<Rightarrow> Panic ''nil pointer dereference''
     | Some launch \<Rightarrow> bindO (schLaunch (launch v)) (\<lambda>_. Ok (launch v)))"

definition simResultOf :: "sim_args \<Rightarrow> view \<Rightarrow> node_pod_assignment list \<Rightarrow> rworld \<Rightarrow> sim_result" where
  "simResultOf args v others s = \<lparr>srName = saName args, srView = Some v, srItems = GetScaleOutItems (fst s),
     srNodePodAssignments = getScaleOutNodeAssignments (fst s) (snd s), srOtherNodePodAssignments = others,
     srLeftoverUnscheduledPods = rsLeftover (fst s)\<rparr>"

text \<open>The body of \<open>Run\<close> before its deferred function, from the initialization on.\<close>

definition runBody :: "sim_args \<Rightarrow> sim_ctx \<Rightarrow> view \<Rightarrow> 32 word \<Rightarrow> rworld \<Rightarrow> (sim_result, rworld) eff option" where
  "runBody args cx v runNum s =
     (case bindE (RunState_Init (scCtx cx 0) (saName args) runNum v s) (\<lambda>_ s.
           bindE (CreateSimulationNodes (saStorageMetaAccess args) (saNodeTemplates args) s) (\<lambda>_ s.
             (launchSchedulerForSimulation args v, s))) of
        (Err e, s) \<Rightarrow> Some (Err e, s)
      | (Panic p, s) \<Rightarrow> Some (Panic p, s)
      | (Ok sch, s) \<Rightarrow> map_option (\<lambda>res. bindE res (\<lambda>_ s.
            bindE (getOtherPodNodeAssignments (scCtx cx 0) s, s) (\<lambda>others s.
              (Ok (simResultOf args v others s), s))))
          (workAndTrackUntilStabilized args sch cx v 0 s))"

definition Simulation_Run :: "sim_ctx \<Rightarrow> view \<Rightarrow> simulation \<Rightarrow> 32 word \<times> world
    \<Rightarrow> (unit, simulation \<times> 32 word \<times> world) eff option" where
  "Simulation_Run cx v sim cw =
     (let runNum = fst cw + 1 in
      map_option (\<lambda>(res, r, w). case res of
          Ok result \<Rightarrow> (Ok (), (sim\<lparr>simResult := result, simState := r\<lparr>rsStatus := StatusSuccess\<rparr>\<rparr>, runNum, w))
        | Err e \<Rightarrow> let e' = Wrapped ''cannot run'' [ErrRunSimulation, e] in
            (Err e', (sim\<lparr>simState := r\<lparr>rsErr := Some e', rsStatus := StatusFailure\<rparr>\<rparr>, runNum, w))
        | Panic p \<Rightarrow> (Panic p, (sim\<lparr>simState := r\<rparr>, runNum, w)))
      (runBody (simArgs sim) cx v runNum (simState sim, snd cw)))"

end
