(* ===== verification/SimulationProps.thy ===== *)
theory SimulationProps
  imports Simulation
begin

text \<open>
  When a simulation run ends, with what result, and why it does not run forever.
\<close>

subsection \<open>The loop\<close>

lemma resetUnchanged_mono: "run_mono (fst s) (fst (resetUnchanged b s))"
  by (auto simp: resetUnchanged_def intro: run_mono_same)

lemma doWork_mono: "run_mono (fst s) (fst (snd (doWork args cx v s)))"
  unfolding doWork_def Let_def
proof (intro bindE_trans [where R = "\<lambda>a b. run_mono (fst a) (fst b)"])
  show "run_mono (fst s) (fst (snd (onWorld (ProvisionAndBindVolumesFoSelectedClaimsInWFFC cx v) s)))" by simp
next
  fix pvs s'
  let ?s = "resetUnchanged (pvs \<noteq> []) s'"
  show "run_mono (fst s') (fst (snd (onWorld (FinalizeStaticBindingsForSelectedClaimsInWFFC cx v) ?s)))"
    by (simp add: resetUnchanged_mono)
next
  fix n and s' :: rworld
  let ?s = "resetUnchanged (0 < n) s'"
  show "run_mono (fst s') (fst (snd (if IsMultiNode (saStrategy args)
      then CreateSimulationNodes (saStorageMetaAccess args) (saNodeTemplates args) ?s else (Ok (), ?s))))"
    using CreateSimulationNodes_mono [of ?s] resetUnchanged_mono [of s'] by (auto intro: run_mono_trans)
qed (auto intro: run_mono_trans)

lemma schedules_simps [simp]: "fst (schedules f s) = fst s" "snd (schedules f s) = f (snd s)"
  by (simp_all add: schedules_def)

text \<open>Tracking says stable only after more quiet attempts than allowed.\<close>

lemma Track_stable: "Track k s = (Ok True, s') \<Longrightarrow> k < rsNumUnchangedTrackAttempts (fst s')"
  by (auto simp: Track_def withView_def Let_def bindE_eq_Ok split: option.splits if_splits)

definition ended :: "sim_args \<Rightarrow> run_state \<Rightarrow> bool" where
  "ended args r \<longleftrightarrow> rsLeftover r = [] \<or> maxUnchanged args < rsNumUnchangedTrackAttempts r"

lemma loop_result:
  assumes ret: "workAndTrackUntilStabilized args sch cx v i s = Some rs"
  shows "run_mono (fst s) (fst (snd rs)) \<and> (fst rs = Ok () \<longrightarrow> ended args (fst (snd rs)))"
proof (rule workAndTrackUntilStabilized.raw_induct [OF _ ret])
  fix loop and args :: sim_args and sch :: scheduler and cx :: sim_ctx and v i s rs
  let ?P = "\<lambda>(args :: sim_args) (s :: rworld) (rs :: (unit, rworld) eff).
     run_mono (fst s) (fst (snd rs)) \<and> (fst rs = Ok () \<longrightarrow> ended args (fst (snd rs)))"
  let ?s1 = "schedules (schBeforeWork sch i) s"
  assume IH: "\<And>args sch cx v i s rs. loop args sch cx v i s = Some rs \<Longrightarrow> ?P args s rs"
    and eq: "(case scDone cx i of Some e \<Rightarrow> Some (Err e, s) | None \<Rightarrow>
       (case doWork args (scCtx cx i) v ?s1 of
            (Err e, s) \<Rightarrow> Some (Err e, s) | (Panic p, s) \<Rightarrow> Some (Panic p, s)
          | (Ok _, s) \<Rightarrow>
             (case Track (maxUnchanged args) (schedules (schBeforeTrack sch i) s) of
                (Err e, s) \<Rightarrow> Some (Err e, s) | (Panic p, s) \<Rightarrow> Some (Panic p, s)
              | (Ok stabilized, s) \<Rightarrow>
                  if stabilized then Some (Ok (), s)
                  else if rsLeftover (fst s) = [] then Some (Ok (), s)
                  else loop args sch cx v (Suc i) s))) = Some rs"
  show "?P args s rs"
  proof (cases "scDone cx i")
    case (Some e)
    then show ?thesis using eq by auto
  next
    case None
    obtain res s2 where w: "doWork args (scCtx cx i) v ?s1 = (res, s2)" by (meson surj_pair)
    have m2: "run_mono (fst s) (fst s2)" using doWork_mono [of ?s1 args "scCtx cx i" v] w by simp
    show ?thesis
    proof (cases res)
      case (Ok u)
      let ?s3 = "schedules (schBeforeTrack sch i) s2"
      obtain tr s4 where t: "Track (maxUnchanged args) ?s3 = (tr, s4)" by (meson surj_pair)
      have m4: "run_mono (fst s) (fst s4)"
        using run_mono_trans [OF m2] Track_mono [of ?s3 "maxUnchanged args"] t by simp
      show ?thesis
      proof (cases tr)
        case tr: (Ok b)
        show ?thesis
        proof (cases "b \<or> rsLeftover (fst s4) = []")
          case True
          then have "rs = (Ok (), s4)" using eq None w t tr Ok by (auto split: if_splits)
          moreover have "ended args (fst s4)" using True Track_stable [of "maxUnchanged args" ?s3 s4] t tr by (auto simp: ended_def)
          ultimately show ?thesis using m4 by simp
        next
          case False
          then have "loop args sch cx v (Suc i) s4 = Some rs" using eq None w t tr Ok by simp
          from IH [OF this] m4 run_mono_trans show ?thesis by blast
        qed
      qed (use eq None w t Ok m4 in auto)
    qed (use eq None w m2 in auto)
  qed
qed

text \<open>A context that is cancelled at some round ends the loop.\<close>

lemma loop_deadline:
  assumes "scDone cx n \<noteq> None"
  shows "i \<le> n \<Longrightarrow> \<exists>rs. workAndTrackUntilStabilized args sch cx v i s = Some rs"
proof (induction "n - i" arbitrary: i s)
  case 0
  then have "i = n" by simp
  then show ?case using assms by (subst workAndTrackUntilStabilized.simps) auto
next
  case (Suc m)
  then have "m = n - Suc i" "Suc i \<le> n" by simp_all
  from Suc.hyps(1) [OF this] show ?case
    by (subst workAndTrackUntilStabilized.simps) (auto split: option.split outcome.split prod.split)
qed

lemma Simulation_Run_total:
  assumes "scDone cx n \<noteq> None"
  shows "\<exists>rs. Simulation_Run cx v sim cw = Some rs"
proof -
  have "workAndTrackUntilStabilized args sch cx v 0 s \<noteq> None" for args sch s
    using loop_deadline [OF assms, of 0] by auto
  then have "runBody (simArgs sim) cx v k s \<noteq> None" for k s
    unfolding runBody_def by (simp del: not_None_eq split: prod.split outcome.split)
  then have "Simulation_Run cx v sim cw \<noteq> None" by (simp add: Simulation_Run_def Let_def)
  then show ?thesis by blast
qed

text \<open>Rounds in which nothing happens: no claim to bind, no event, no action of the scheduler.\<close>

lemma provisionLoop_idle: "\<forall>pvc\<in>set pvcs. \<not> selectedForProvisioning (obj w pvc) \<Longrightarrow> provisionLoop v pvcs ps w = (Ok ps, w)"
  by (induction pvcs) simp_all

lemma finalizeLoop_idle: "\<forall>pv\<in>set pvs. staticallySelected (obj w pv) = None \<Longrightarrow> finalizeLoop v pvs None n w = (Ok n, w)"
  by (induction pvs) simp_all

definition volumesIdle :: "ctxs \<Rightarrow> view \<Rightarrow> world \<Rightarrow> bool" where
  "volumesIdle cx v w \<longleftrightarrow> (\<exists>pvcs pvs. ListPersistentVolumeClaims cx v w = Ok pvcs \<and> ListPersistentVolumes cx v w = Ok pvs \<and>
     (\<forall>pvc\<in>set pvcs. \<not> selectedForProvisioning (obj w pvc)) \<and> (\<forall>pv\<in>set pvs. staticallySelected (obj w pv) = None))"

lemma doWork_idle:
  assumes "volumesIdle cx v w" "\<not> IsMultiNode (saStrategy args)"
  shows "doWork args cx v (r, w) = (Ok (), (r, w))"
  using assms
  by (auto simp: volumesIdle_def doWork_def onWorld_def ProvisionAndBindVolumesFoSelectedClaimsInWFFC_def
      FinalizeStaticBindingsForSelectedClaimsInWFFC_def provisionLoop_idle finalizeLoop_idle resetUnchanged_def Let_def)

definition quietFrom :: "nat \<Rightarrow> scheduler \<Rightarrow> sim_ctx \<Rightarrow> view \<Rightarrow> world \<Rightarrow> bool" where
  "quietFrom i sch cx v w \<longleftrightarrow> vSink (vs w v) = [] \<and> (\<forall>j\<ge>i. scDone cx j = None \<and> volumesIdle (scCtx cx j) v w \<and>
     schBeforeWork sch j w = w \<and> schBeforeTrack sch j w = w)"

lemma quietFrom_Suc: "quietFrom i sch cx v w \<Longrightarrow> quietFrom (Suc i) sch cx v w"
  by (simp add: quietFrom_def)

lemma quiet_round:
  assumes q: "quietFrom i sch cx v w" and s: "\<not> IsMultiNode (saStrategy args)" and v: "rsView r = Some v"
  defines "r' \<equiv> r\<lparr>rsNumTrackAttempts := rsNumTrackAttempts r + 1,
      rsNumUnchangedTrackAttempts := rsNumUnchangedTrackAttempts r + 1\<rparr>"
  shows "workAndTrackUntilStabilized args sch cx v i (r, w) =
    (if maxUnchanged args < rsNumUnchangedTrackAttempts r + 1 \<or> rsLeftover r = [] then Some (Ok (), (r', w))
     else workAndTrackUntilStabilized args sch cx v (Suc i) (r', w))"
proof -
  have "volumesIdle (scCtx cx i) v w" "scDone cx i = None" "schBeforeWork sch i w = w" "schBeforeTrack sch i w = w"
    "vSink (vs w v) = []" using q by (simp_all add: quietFrom_def)
  note q' = this
  show ?thesis
    unfolding r'_def workAndTrackUntilStabilized.simps [of args sch cx v i "(r, w)"]
    using q' doWork_idle [OF q'(1) s, of r] Track_eq(1) [OF v q'(5), of "maxUnchanged args"]
    by (simp add: schedules_def)
qed

lemma quiet_rounds:
  assumes "quietFrom i sch cx v w" "\<not> IsMultiNode (saStrategy args)" "rsView r = Some v" "rsLeftover r \<noteq> []"
    and "rsNumUnchangedTrackAttempts r \<le> maxUnchanged args"
  shows "workAndTrackUntilStabilized args sch cx v i (r, w) = Some (Ok (), (r\<lparr>
     rsNumTrackAttempts := rsNumTrackAttempts r + (maxUnchanged args + 1 - rsNumUnchangedTrackAttempts r),
     rsNumUnchangedTrackAttempts := maxUnchanged args + 1\<rparr>, w))"
  using assms
proof (induction "maxUnchanged args - rsNumUnchangedTrackAttempts r" arbitrary: i r)
  case 0
  then have "rsNumUnchangedTrackAttempts r = maxUnchanged args" by simp
  then show ?case using quiet_round [OF 0(2-4)] by simp
next
  case (Suc m)
  let ?r = "r\<lparr>rsNumTrackAttempts := rsNumTrackAttempts r + 1,
      rsNumUnchangedTrackAttempts := rsNumUnchangedTrackAttempts r + 1\<rparr>"
  have less: "rsNumUnchangedTrackAttempts r < maxUnchanged args" using Suc.hyps(2) by simp
  have "workAndTrackUntilStabilized args sch cx v i (r, w) = workAndTrackUntilStabilized args sch cx v (Suc i) (?r, w)"
    using quiet_round [OF Suc.prems(1-3)] less Suc.prems(4) by simp
  also have "\<dots> = Some (Ok (), (?r\<lparr>
     rsNumTrackAttempts := rsNumTrackAttempts ?r + (maxUnchanged args + 1 - rsNumUnchangedTrackAttempts ?r),
     rsNumUnchangedTrackAttempts := maxUnchanged args + 1\<rparr>, w))"
    by (rule Suc.hyps(1)) (use Suc.hyps(2) Suc.prems less quietFrom_Suc in auto)
  finally show ?case using less by simp
qed

subsection \<open>A run\<close>

lemma runBody_cases:
  assumes "runBody args cx v n s = Some (res, s')" "rsScheduledPodNamesByNodeName (fst s) = []"
  shows "res = Ok result \<Longrightarrow> run_inv (fst s') \<and> ended args (fst s') \<and>
    (\<exists>others. result = simResultOf args v others s' \<and> getOtherPodNodeAssignments (scCtx cx 0) s' = Ok others)"
proof -
  assume res: "res = Ok result"
  define start where "start = bindE (RunState_Init (scCtx cx 0) (saName args) n v s) (\<lambda>_ s.
           bindE (CreateSimulationNodes (saStorageMetaAccess args) (saNodeTemplates args) s) (\<lambda>_ s.
             (launchSchedulerForSimulation args v, s)))"
  have "\<exists>sch s1. start = (Ok sch, s1)"
    using assms(1) res unfolding runBody_def start_def [symmetric] by (auto split: prod.splits outcome.splits)
  then obtain sch s1 where st: "start = (Ok sch, s1)" by blast
  then obtain rs where rs: "workAndTrackUntilStabilized args sch cx v 0 s1 = Some rs"
    "bindE rs (\<lambda>_ s. bindE (getOtherPodNodeAssignments (scCtx cx 0) s, s) (\<lambda>others s.
              (Ok (simResultOf args v others s), s))) = (Ok result, s')"
    using assms(1) res unfolding runBody_def start_def [symmetric] by auto
  from rs(2) obtain s2 others where s2: "rs = (Ok (), s2)" "getOtherPodNodeAssignments (scCtx cx 0) s2 = Ok others"
    "result = simResultOf args v others s2" "s' = s2"
    by (auto simp: bindE_eq_Ok)
  from st obtain si where si: "RunState_Init (scCtx cx 0) (saName args) n v s = (Ok (), si)"
    "CreateSimulationNodes (saStorageMetaAccess args) (saNodeTemplates args) si = (Ok (), s1)"
    unfolding start_def by (auto simp: bindE_eq_Ok)
  have "run_inv (fst si)" using RunState_Init_inv(1) [of "scCtx cx 0" "saName args" n v "fst s" "snd s" si] si(1) assms(2) by simp
  then have "run_inv (fst s1)" using CreateSimulationNodes_mono [of si] si(2) by (metis run_mono_def snd_conv)
  then show ?thesis using loop_result [OF rs(1)] s2 by (auto simp: run_mono_def)
qed

subsection \<open>A concrete simulation\<close>

definition demoCtx :: "nat \<Rightarrow> sim_ctx" where
  "demoCtx n = \<lparr>scDone = (\<lambda>i. if n \<le> i then Some (Plain ''context deadline exceeded'') else None), scCtx = (\<lambda>_. noCancel)\<rparr>"

definition demoLiveCtx :: sim_ctx where
  "demoLiveCtx = \<lparr>scDone = (\<lambda>_. None), scCtx = (\<lambda>_. noCancel)\<rparr>"

definition demoScheduler :: scheduler where
  "demoScheduler = \<lparr>schLaunch = Ok (), schBeforeWork = (\<lambda>_ w. w), schBeforeTrack = (\<lambda>_ w. w)\<rparr>"

definition demoSimArgs :: sim_args where
  "demoSimArgs = \<lparr>saSchedulerLauncher = Some (\<lambda>_. demoScheduler), saStorageMetaAccess = demoStorage, saName = ''sim'',
     saStrategy = SingleNodeMultiSim, saNodeTemplates = [demoTemplate], saConfig =
       \<lparr>cfgMaxParallelSimulations = 1, cfgTrackPollInterval = 1, cfgMaxUnchangedTrackAttempts = 2,
        cfgBindVolumeClaimsForImmediateMode = False\<rparr>\<rparr>"

definition demoSimulation :: simulation where
  "demoSimulation = \<lparr>simArgs = demoSimArgs, simResult = zeroResult, simState = MakeRunState\<rparr>"

lemma empty_listing:
  assumes "view_ok w (SandboxView i (BaseView j))" "supported g" "absView w (SandboxView i (BaseView j)) g = (\<lambda>_. None)"
  shows "\<exists>mv. View_ListMetaObjects noCancel (SandboxView i (BaseView j)) g MatchAllCriteria w = Ok ([], mv)"
proof -
  have "absOwn w i g = (\<lambda>_. None)" "absOwn w j g = (\<lambda>_. None)" using assms(3) by (simp_all add: fun_eq_iff map_add_None)
  then have "listed w i j g = {}" by (simp add: listed_def)
  then show ?thesis using sandbox_listing_objs [OF assms(1,2)] by auto
qed

lemma no_volumes_idle:
  assumes "view_ok w (SandboxView i (BaseView j))" "absView w (SandboxView i (BaseView j)) pvGVK = (\<lambda>_. None)"
    "absView w (SandboxView i (BaseView j)) pvcGVK = (\<lambda>_. None)"
  shows "volumesIdle noCancel (SandboxView i (BaseView j)) w"
  using empty_listing [OF assms(1) supported_volumes(1) assms(2)] empty_listing [OF assms(1) supported_volumes(2) assms(3)]
  by (auto simp: volumesIdle_def ListPersistentVolumeClaims_def ListPersistentVolumes_def)

lemma createNew_sink: "vSink (vs (snd (createNew u g o' w)) v) = vSink (vs w v)"
  by (simp add: createNew_def split_beta CreateObject_sink)

lemma createNodesLoop_sink: "vSink (vs (snd (snd (createNodesLoop storage u ts s))) v) = vSink (vs (snd s) v)"
proof (induction ts arbitrary: s)
  case (Cons t ts)
  have 1: "vSink (vs (snd (snd (createNode u t s))) v) = vSink (vs (snd s) v)"
    unfolding createNode_def Let_def split_beta
    by (rule bindE_keeps [where P = "\<lambda>s'. vSink (vs (snd s') v) = vSink (vs (snd s) v)"]) (simp_all add: createNew_sink)
  have 2: "vSink (vs (snd (snd (createCSINode storage u a s'))) v) = vSink (vs (snd s') v)" for a s'
    unfolding createCSINode_def Let_def
    by (intro bindE_keeps [where P = "\<lambda>s''. vSink (vs (snd s'') v) = vSink (vs (snd s') v)"]) (simp_all add: createNew_sink)
  show ?case
    unfolding createNodesLoop.simps
    by (intro bindE_keeps [where P = "\<lambda>s'. vSink (vs (snd s') v) = vSink (vs (snd s) v)"]) (simp_all add: 1 2 Cons.IH)
qed simp

lemma demo_sink: "vSink (vs demoWorld demoSandbox) = []"
proof -
  have ids: "\<forall>j\<in>set (chain demoBase). j < wNext demoWorld2" by (simp add: demoBase_def demo2)
  have "fst (NewSandbox demoBase ''sandbox'' demoWorld2) = Ok (SandboxView 1 demoBase)"
    by (rule NewSandbox_ok [OF demo2(1) ids, of "''sandbox''"]) (simp add: demo2(2))
  then show ?thesis
    by (cases "newSandboxStores demoBase SupportedDescriptors (\<lambda>_. None) demoWorld2")
      (auto simp: demoWorld_def NewSandbox_def vs_def setView_def demoSandbox_def newViewState_def EventSink_New_def demo2(2))
qed

lemma demo_quiet:
  assumes "view_ok w demoSandbox" "absView w demoSandbox pvGVK = (\<lambda>_. None)" "absView w demoSandbox pvcGVK = (\<lambda>_. None)"
    "vSink (vs w demoSandbox) = []"
  shows "quietFrom i demoScheduler demoLiveCtx demoSandbox w"
proof -
  have shape: "demoSandbox = SandboxView 1 (BaseView 0)" by (simp add: demoSandbox_def demoBase_def)
  have "volumesIdle noCancel demoSandbox w" using no_volumes_idle [of w 1 0] assms(1-3) by (simp only: shape)
  then show ?thesis using assms(4) by (simp add: quietFrom_def demoLiveCtx_def demoScheduler_def)
qed

lemma demo_no_volumes: "absView demoWorld demoSandbox pvGVK = (\<lambda>_. None)" "absView demoWorld demoSandbox pvcGVK = (\<lambda>_. None)"
proof -
  have "pvGVK \<noteq> podsGVK" "pvcGVK \<noteq> podsGVK"
    by (simp_all add: podsGVK_def PodsDescriptor_def PersistentVolumesDescriptor_def PersistentVolumeClaimsDescriptor_def)
  then show "absView demoWorld demoSandbox pvGVK = (\<lambda>_. None)" "absView demoWorld demoSandbox pvcGVK = (\<lambda>_. None)"
    using demo(6,7) by (simp_all add: demoSandbox_def demoBase_def)
qed

text \<open>The demonstration simulation runs to the end: nothing is scheduled, so it stops when stable.\<close>

lemma createNodesLoop_keeps:
  "let k = (\<lambda>r. (rsScheduledPodNamesByNodeName r, rsLeftover r, rsNumUnchangedTrackAttempts r, rsView r)) in
   k (fst (snd (createNodesLoop storage u ts s))) = k (fst s)"
proof (induction ts arbitrary: s)
  case (Cons t ts)
  let ?k = "\<lambda>s :: rworld. (rsScheduledPodNamesByNodeName (fst s), rsLeftover (fst s), rsNumUnchangedTrackAttempts (fst s), rsView (fst s))"
  have 1: "?k (snd (createNode u t s)) = ?k s"
    unfolding createNode_def Let_def split_beta
    by (rule bindE_keeps [where P = "\<lambda>s'. ?k s' = ?k s"]) simp_all
  have 2: "?k (snd (createCSINode storage u a s')) = ?k s'" for a s'
    unfolding createCSINode_def Let_def by (intro bindE_keeps [where P = "\<lambda>s''. ?k s'' = ?k s'"]) simp_all
  have "?k (snd (createNodesLoop storage u (t # ts) s)) = ?k s"
    unfolding createNodesLoop.simps
  proof (intro bindE_keeps [where P = "\<lambda>s'. ?k s' = ?k s"])
    fix x s' assume "?k s' = ?k s" then show "?k (snd (createCSINode storage u x s')) = ?k s" using 2 by metis
  next
    fix x s' assume "?k s' = ?k s" then show "?k (snd (createNodesLoop storage u ts s')) = ?k s"
      using Cons.IH [of s'] by (simp add: Let_def)
  qed (rule 1)
  then show ?case by (simp add: Let_def)
qed simp

lemma demoRun_facts: "rsView demoRun = Some demoSandbox" "rsLeftover demoRun \<noteq> []" "rsNumUnchangedTrackAttempts demoRun = 0"
    "rsNumTrackAttempts demoRun = 0" "rsScheduledPodNamesByNodeName demoRun = []" "rsNodeCount demoRun = 0"
    "RunState_Init noCancel ''sim'' 1 demoSandbox (MakeRunState, demoWorld) = (Ok (), (demoRun, demoWorld))"
  using demoRun_init by (auto simp: demoRun_def RunState_Init_def MakeRunState_def Let_def split: outcome.splits if_splits)

lemma demo_created:
  obtains r w where "createNodesLoop demoStorage demoSandbox [demoTemplate] (demoRun, demoWorld) = (Ok (), (r, w))"
    "view_ok w demoSandbox" "quietFrom 0 demoScheduler demoLiveCtx demoSandbox w" "rsView r = Some demoSandbox"
    "rsLeftover r \<noteq> []" "rsNumUnchangedTrackAttempts r = 0" "rsScheduledPodNamesByNodeName r = []"
    "\<forall>k n. absView w demoSandbox nodesGVK k = Some (SlotLive n) \<longrightarrow> goKind (body n) = ''Node''" "absOwn w 0 nodesGVK = (\<lambda>_. None)"
proof -
  have room: "room demoWorld (6 + 2 * length [demoTemplate])" using demo(3) by simp
  have st: "\<forall>t\<in>set [demoTemplate]. placementOk (sotPlacement t)"
    "\<forall>t\<in>set [demoTemplate]. \<exists>spec. demoStorage (npInstanceType (sotPlacement t)) = Ok spec"
    by (simp_all add: demoStorage_def demoTemplate_def placementOk_def)
  have small: "length [demoTemplate] < 2 ^ 32" by simp
  let ?nm = "scaleOutNodeName 1 (rsRunNum demoRun) (sotPlacement demoTemplate)"
  obtain r w where 1: "createNodesLoop demoStorage demoSandbox [demoTemplate] (demoRun, demoWorld) = (Ok (), (r, w))"
    "view_ok w demoSandbox" "nodeShown w demoSandbox (rsRunNum demoRun) demoStorage ?nm demoTemplate"
    "\<forall>k. k \<noteq> ?nm \<longrightarrow> absView w demoSandbox nodesGVK k = absView demoWorld demoSandbox nodesGVK k"
    "\<forall>g. g \<notin> {nodesGVK, csiGVK} \<longrightarrow> absView w demoSandbox g = absView demoWorld demoSandbox g"
    "absDelegate w demoSandbox = absDelegate demoWorld demoSandbox"
    using createNodesLoop_ok [OF demo(1) room st(1) small st(2), of demoRun] demoRun_facts(6) by auto
  have kinds: "pvGVK \<notin> {nodesGVK, csiGVK}" "pvcGVK \<notin> {nodesGVK, csiGVK}" "nodesGVK \<noteq> podsGVK"
    by (simp_all add: podsGVK_def PodsDescriptor_def PersistentVolumesDescriptor_def PersistentVolumeClaimsDescriptor_def
        NodesDescriptor_def CSINodeDescriptor_def)
  have vols: "absView w demoSandbox pvGVK = (\<lambda>_. None)" "absView w demoSandbox pvcGVK = (\<lambda>_. None)"
    using 1(5) kinds(1,2) demo_no_volumes by metis+
  have sink: "vSink (vs w demoSandbox) = []"
    using createNodesLoop_sink [of demoStorage demoSandbox "[demoTemplate]" "(demoRun, demoWorld)" demoSandbox] 1(1) demo_sink by simp
  have no_nodes: "absView demoWorld demoSandbox nodesGVK = (\<lambda>_. None)"
    using demo(6,7) kinds(3) by (simp add: demoSandbox_def demoBase_def)
  have base: "absOwn w 0 nodesGVK = (\<lambda>_. None)"
    using 1(6) demo(7) kinds(3) by (simp add: demoSandbox_def demoBase_def fun_eq_iff)
  obtain n where n: "absView w demoSandbox nodesGVK ?nm = Some (SlotLive n)" "goKind (body n) = ''Node''"
  proof -
    from 1(3) obtain t n where "absView w demoSandbox nodesGVK ?nm = Some (SlotLive n)"
      "defaulted nodesGVK (simNodeOf t (rsRunNum demoRun) ?nm demoTemplate) n" unfolding nodeShown_def by blast
    then show thesis using that defaulted_simps(3) by (simp add: simNodeOf_def goKind_def)
  qed
  have "\<forall>k n. absView w demoSandbox nodesGVK k = Some (SlotLive n) \<longrightarrow> goKind (body n) = ''Node''"
    using n 1(4) no_nodes by (metis option.distinct(1) option.inject slot.inject)
  then show thesis
    using that [OF 1(1,2) demo_quiet [OF 1(2) vols sink]] createNodesLoop_keeps [of demoStorage demoSandbox "[demoTemplate]" "(demoRun, demoWorld)"]
      1(1) demoRun_facts base by (simp add: Let_def)
qed

lemma demo_run_ok:
  "\<exists>sim' w'. Simulation_Run demoLiveCtx demoSandbox demoSimulation (0, demoWorld) = Some (Ok (), sim', 1, w')"
proof -
  have shape: "demoSandbox = SandboxView 1 (BaseView 0)" by (simp add: demoSandbox_def demoBase_def)
  obtain r w where 1: "createNodesLoop demoStorage demoSandbox [demoTemplate] (demoRun, demoWorld) = (Ok (), (r, w))"
    "view_ok w demoSandbox" "quietFrom 0 demoScheduler demoLiveCtx demoSandbox w" "rsView r = Some demoSandbox"
    "rsLeftover r \<noteq> []" "rsNumUnchangedTrackAttempts r = 0" "rsScheduledPodNamesByNodeName r = []"
    "\<forall>k n. absView w demoSandbox nodesGVK k = Some (SlotLive n) \<longrightarrow> goKind (body n) = ''Node''" "absOwn w 0 nodesGVK = (\<lambda>_. None)"
    using demo_created .
  have single: "\<not> IsMultiNode (saStrategy demoSimArgs)" by (simp add: demoSimArgs_def IsMultiNode_def)
  have loop: "workAndTrackUntilStabilized demoSimArgs demoScheduler demoLiveCtx demoSandbox 0 (r, w) = Some (Ok (), (r\<lparr>
     rsNumTrackAttempts := rsNumTrackAttempts r + (maxUnchanged demoSimArgs + 1 - rsNumUnchangedTrackAttempts r),
     rsNumUnchangedTrackAttempts := maxUnchanged demoSimArgs + 1\<rparr>, w))"
    by (rule quiet_rounds [OF 1(3) single 1(4,5)]) (simp add: 1(6))
  have "\<forall>n\<in>listed w 1 0 nodesGVK. goKind (body n) = ''Node''"
  proof
    fix n assume "n \<in> listed w 1 0 nodesGVK"
    then have "absOwn w 1 nodesGVK (cacheKey n) = Some (SlotLive n)" using 1(9) by (simp add: listed_def)
    then have "absView w demoSandbox nodesGVK (cacheKey n) = Some (SlotLive n)" by (simp add: shape map_add_def)
    with 1(8) show "goKind (body n) = ''Node''" by blast
  qed
  then obtain ns where ns: "ListNodes noCancel demoSandbox [] w = Ok ns"
    using sandbox_ListNodes [of w 1 0] 1(2) unfolding shape by blast
  show ?thesis
    using 1(1,4,7) loop ns demoRun_facts(1,7)
    by (simp add: Simulation_Run_def runBody_def demoSimulation_def demoSimArgs_def demoLiveCtx_def CreateSimulationNodes_def
        withView_def launchSchedulerForSimulation_def demoScheduler_def getOtherPodNodeAssignments_def)
qed

subsection \<open>Claims\<close>

text \<open>
  A simulation run does not hang once its context is cancelled: if the context reports an error
  at some round, \<open>Run\<close> returns, whatever the scheduler does and whatever the work of each round
  returns.
\<close>

theorem Simulation_Run_terminates:
  assumes "scDone cx n \<noteq> None"
  shows "\<exists>rs. Simulation_Run cx v sim cw = Some rs"
  using Simulation_Run_total [OF assms] .

theorem Simulation_Run_terminates_witness:
  "\<exists>rs. Simulation_Run (demoCtx 5) demoSandbox demoSimulation (0, demoWorld) = Some rs"
  by (rule Simulation_Run_terminates [of "demoCtx 5" 5]) (simp add: demoCtx_def)

text \<open>
  C23. A run needs no deadline to end either: from any round from which on the scheduler emits nothing,
  no claim is selected for binding and the context stays alive, a single-node simulation with pods
  left over ends successfully after exactly as many more tracking attempts as bring the count of
  unchanged attempts above its maximum, and changes neither the world nor the record of pods.
\<close>

theorem Simulation_stabilizes:
  assumes "quietFrom i sch cx v w" "saStrategy args = SingleNodeMultiSim" "rsView r = Some v" "rsLeftover r \<noteq> []"
    and "rsNumUnchangedTrackAttempts r \<le> maxUnchanged args"
  shows "workAndTrackUntilStabilized args sch cx v i (r, w) = Some (Ok (), (r\<lparr>
     rsNumTrackAttempts := rsNumTrackAttempts r + (maxUnchanged args + 1 - rsNumUnchangedTrackAttempts r),
     rsNumUnchangedTrackAttempts := maxUnchanged args + 1\<rparr>, w))"
  by (rule quiet_rounds) (use assms in \<open>auto simp: IsMultiNode_def\<close>)

theorem Simulation_stabilizes_witness:
  "\<exists>r. workAndTrackUntilStabilized demoSimArgs demoScheduler demoLiveCtx demoSandbox 0 (demoRun, demoWorld) =
     Some (Ok (), (r, demoWorld)) \<and> rsNumTrackAttempts r = 3"
proof -
  have r: "rsView demoRun = Some demoSandbox" "rsLeftover demoRun \<noteq> []" "rsNumUnchangedTrackAttempts demoRun = 0"
    "rsNumTrackAttempts demoRun = 0"
    using demoRun_init by (auto simp: demoRun_def RunState_Init_def MakeRunState_def Let_def split: outcome.splits if_splits)
  have "maxUnchanged demoSimArgs = 2" "saStrategy demoSimArgs = SingleNodeMultiSim"
    by (simp_all add: maxUnchanged_def demoSimArgs_def)
  note a = this
  have q: "quietFrom 0 demoScheduler demoLiveCtx demoSandbox demoWorld"
    by (rule demo_quiet [OF demo(1) demo_no_volumes demo_sink])
  show ?thesis using Simulation_stabilizes [OF q a(2) r(1,2)] a(1) r(3,4) by simp
qed

text \<open>
  C22. What a run of a fresh or reset simulation reports: the shared run counter goes up by one; a
  successful run has status success and a result that names the simulation and its view, whose left
  over pods are exactly the pods without node at the start that were not recorded as scheduled, and
  it ended only because nothing was left over or because the run was stable; a failed run has status
  failure, and its result is the error \<open>Run\<close> returned, which is an \<open>ErrRunSimulation\<close>.
\<close>

theorem Simulation_Run_result:
  assumes "Simulation_Run cx v sim (c, w) = Some (res, sim', c', w')" "simState sim = MakeRunState"
  shows "c' = c + 1 \<and> simArgs sim' = simArgs sim \<and>
    (case res of
       Ok _ \<Rightarrow> Simulation_Status sim' = StatusSuccess \<and> ended (simArgs sim) (simState sim') \<and>
         (\<exists>result. Simulation_Result sim' = Ok result \<and> srName result = Simulation_Name sim \<and> srView result = Some v \<and>
            distinct (srLeftoverUnscheduledPods result) \<and> set (srLeftoverUnscheduledPods result) =
              fst ` set (rsUnscheduledPods (simState sim')) - scheduledNames (simState sim'))
     | Err e \<Rightarrow> Simulation_Status sim' = StatusFailure \<and> Simulation_Result sim' = Err e \<and> errorsIs e ErrRunSimulation
     | Panic _ \<Rightarrow> True)"
proof -
  let ?args = "simArgs sim"
  obtain res0 r w0 where b0: "runBody ?args cx v (c + 1) (MakeRunState, w) = Some (res0, (r, w0))"
    using assms by (cases "runBody ?args cx v (c + 1) (MakeRunState, w)") (auto simp: Simulation_Run_def Let_def)
  have f: "(res, sim', c', w') = (case res0 of
          Ok result \<Rightarrow> (Ok (), (sim\<lparr>simResult := result, simState := r\<lparr>rsStatus := StatusSuccess\<rparr>\<rparr>, c + 1, w0))
        | Err e \<Rightarrow> let e' = Wrapped ''cannot run'' [ErrRunSimulation, e] in
            (Err e', (sim\<lparr>simState := r\<lparr>rsErr := Some e', rsStatus := StatusFailure\<rparr>\<rparr>, c + 1, w0))
        | Panic p \<Rightarrow> (Panic p, (sim\<lparr>simState := r\<rparr>, c + 1, w0)))"
    using assms b0 by (simp add: Simulation_Run_def Let_def)
  then have w0: "w0 = w'" by (cases res0) (auto simp: Let_def)
  have b: "runBody ?args cx v (c + 1) (MakeRunState, w) = Some (res0, (r, w'))" using b0 w0 by simp
  show ?thesis
  proof (cases res0)
    case (Ok result)
    let ?r' = "r\<lparr>rsStatus := StatusSuccess\<rparr>"
    obtain others where r: "run_inv r" "ended ?args r" "result = simResultOf ?args v others (r, w')"
      using runBody_cases [OF b, of result] Ok by (auto simp: MakeRunState_def)
    have "scheduledNames ?r' = scheduledNames r" by (rule run_inv_cong) simp_all
    then show ?thesis
      using f Ok r by (simp add: Simulation_Status_def Simulation_Result_def Simulation_Name_def ended_def run_inv_def simResultOf_def)
  next
    case (Err e)
    then show ?thesis
      using f by (simp add: Let_def Simulation_Status_def Simulation_Result_def ErrRunSimulation_def)
  qed (use f in simp)
qed

theorem Simulation_Run_result_witness:
  "\<exists>sim' w'. Simulation_Run demoLiveCtx demoSandbox demoSimulation (0, demoWorld) = Some (Ok (), sim', 1, w') \<and>
     Simulation_Status sim' = StatusSuccess"
proof -
  obtain sim' w' where s: "Simulation_Run demoLiveCtx demoSandbox demoSimulation (0, demoWorld) = Some (Ok (), sim', 1, w')"
    using demo_run_ok by blast
  from Simulation_Run_result [OF s] have "Simulation_Status sim' = StatusSuccess" by (simp add: demoSimulation_def)
  with s show ?thesis by blast
qed

end
