(* ===== verification/Populate.thy ===== *)
theory Populate
  imports SimulationProps
begin

text \<open>
  Filling the request view from a cluster snapshot, \<open>src/planner/simulator/simulator.go\<close>, and what the
  view holds afterwards.
\<close>

subsection \<open>The code\<close>

fun createAll :: "view \<Rightarrow> gvk \<Rightarrow> kobj list \<Rightarrow> world \<Rightarrow> (unit, world) eff" where
  "createAll v g [] w = (Ok (), w)"
| "createAll v g (o' # os) w = bindE (createNew v g o' w) (\<lambda>_ w. createAll v g os w)"

fun createNodes :: "view \<Rightarrow> node_info list \<Rightarrow> world \<Rightarrow> (unit, world) eff" where
  "createNodes v [] w = (Ok (), w)"
| "createNodes v (n # ns) w =
     bindE (createNew v nodesGVK (AsNode n) w) (\<lambda>a w.
       case niCSINodeSpec n of
         None \<Rightarrow> createNodes v ns w
       | Some spec \<Rightarrow>
           bindE (createNew v csiGVK (NewCSINode (mName (niMeta n)) (mUID (ometa (obj w a))) spec) w)
             (\<lambda>_ w. createNodes v ns w))"

abbreviation priorityClassGVK :: gvk where "priorityClassGVK \<equiv> GVK PriorityClassesDescriptor"
abbreviation runtimeClassGVK :: gvk where "runtimeClassGVK \<equiv> GVK RuntimeClassDescriptor"
abbreviation storageClassGVK :: gvk where "storageClassGVK \<equiv> GVK StorageClassDescriptor"

definition PopulateView :: "view \<Rightarrow> cluster_snapshot \<Rightarrow> world \<Rightarrow> (unit, world) eff" where
  "PopulateView v cs w =
     bindE (createAll v priorityClassGVK (csPriorityClasses cs) (View_Reset v w)) (\<lambda>_ w.
     bindE (createAll v runtimeClassGVK (csRuntimeClasses cs) w) (\<lambda>_ w.
     bindE (createAll v storageClassGVK (csStorageClasses cs) w) (\<lambda>_ w.
     bindE (createNodes v (csNodes cs) w) (\<lambda>_ w.
     bindE (createAll v pvcGVK (map AsPVC (csPVCs cs)) w) (\<lambda>_ w.
     bindE (createAll v pvGVK (map AsPV (csPVs cs)) w) (\<lambda>_ w.
       createAll v podsGVK (map AsPod (csPods cs)) w))))))"

subsection \<open>Resetting a view\<close>

lemma View_Reset_simps:
  "wMem (View_Reset v w) = wMem w" "j \<noteq> viewId v \<Longrightarrow> wViews (View_Reset v w) j = wViews w j"
  "vStores (wViews (View_Reset v w) (viewId v)) g = map_option Reset (vStores (wViews w (viewId v)) g)"
  by (simp_all add: View_Reset_def setView_def vs_def)

lemma View_Reset_held: "held (View_Reset v w) j g a \<longleftrightarrow> j \<noteq> viewId v \<and> held w j g a"
  by (cases "j = viewId v") (auto simp: held_def View_Reset_simps Reset_def)

lemma View_Reset_own:
  assumes "own_ok w j"
  shows "own_ok (View_Reset v w) j"
proof (cases "j = viewId v")
  case True
  have "store_ok (wMem w) g (Reset st)" if "store_ok (wMem w) g st" for g st
    using that store_inv_empty [of "(wMem w, Reset st)"]
    by (simp add: store_ok_def Reset_def store_inv_def CurrentResourceVersion_def)
  then show ?thesis
    using assms by (auto simp: own_ok_def True View_Reset_simps)
next
  case False
  then show ?thesis using assms by (simp add: own_ok_def View_Reset_simps)
qed

lemma View_Reset_absOwn: "j \<noteq> viewId v \<Longrightarrow> absOwn (View_Reset v w) j = absOwn w j"
  by (simp add: absOwn_def View_Reset_simps(2) fun_eq_iff View_Reset_simps(1) cong: option.case_cong)

lemma View_Reset_chain: "viewId v \<notin> set (chain d) \<Longrightarrow> view_ok w d \<Longrightarrow>
    view_ok (View_Reset v w) d \<and> absView (View_Reset v w) d = absView w d"
proof (induction d)
  case (BaseView i)
  then show ?case by (auto simp: View_Reset_own View_Reset_absOwn fun_eq_iff)
next
  case (SandboxView i d)
  then have d: "view_ok (View_Reset v w) d" "absView (View_Reset v w) d = absView w d" by auto
  have "viewId d \<noteq> viewId v" "i \<noteq> viewId v" using SandboxView.prems(1) viewId_in_chain [of d]
    by (metis chain.simps(2) list.set_intros)+
  note same = View_Reset_simps(2) [OF this(1), of w] View_Reset_simps(2) [OF this(2), of w] View_Reset_absOwn [OF this(2), of w]
  have "own_ok (View_Reset v w) i" using SandboxView.prems(2) View_Reset_own by simp
  then show ?case
    using d same SandboxView.prems by (simp add: View_Reset_held)
qed

lemma View_Reset_ok:
  assumes "view_ok w v"
  shows "view_ok (View_Reset v w) v" "absDelegate (View_Reset v w) v = absDelegate w v"
    "absOwn (View_Reset v w) (viewId v) = (\<lambda>_ _. None)" "room (View_Reset v w) n = room w n"
proof -
  show "absOwn (View_Reset v w) (viewId v) = (\<lambda>_ _. None)"
    by (auto simp: absOwn_def View_Reset_simps fun_eq_iff Reset_def absStore_def split: option.split)
  show "room (View_Reset v w) n = room w n" by (simp add: room_def View_Reset_simps)
  have "view_ok (View_Reset v w) v \<and> absDelegate (View_Reset v w) v = absDelegate w v"
  proof (cases v)
    case (BaseView i)
    then show ?thesis using View_Reset_own [of w i v] assms by (simp add: fun_eq_iff)
  next
    case (SandboxView i d)
    then have "viewId v \<notin> set (chain d)" "view_ok w d" using assms by auto
    note d = View_Reset_chain [OF this]
    have counters: "versionCounter st = versionCounter st'"
      if st: "vStores (wViews (View_Reset v w) i) g = Some st" "vStores (wViews (View_Reset v w) (viewId d)) g = Some st'" for g st st'
    proof -
      have ne: "viewId d \<noteq> viewId v" using assms SandboxView viewId_in_chain [of d] by auto
      obtain st0 where "vStores (wViews w i) g = Some st0" "st = Reset st0"
        using st(1) View_Reset_simps(3) [of v w g] unfolding SandboxView viewId.simps by auto
      moreover have "vStores (wViews w (viewId d)) g = Some st'"
        using st(2) View_Reset_simps(2) [OF ne, of w] by simp
      ultimately show ?thesis using assms SandboxView by (auto simp: Reset_def)
    qed
    then show ?thesis
      using d SandboxView assms View_Reset_own [of w i v]
      by (auto simp: View_Reset_held)
  qed
  then show "view_ok (View_Reset v w) v" "absDelegate (View_Reset v w) v = absDelegate w v" by auto
qed

subsection \<open>Adding the objects\<close>

text \<open>\<open>added v g os w w'\<close>: the view shows the objects \<open>os\<close> under their names and otherwise what it showed before.\<close>

definition added :: "view \<Rightarrow> gvk \<Rightarrow> kobj list \<Rightarrow> (string \<Rightarrow> slot option) \<Rightarrow> world \<Rightarrow> bool" where
  "added v g os old w \<longleftrightarrow> (\<forall>k. if k \<in> cacheKey ` set os
     then \<exists>x\<in>set os. \<exists>o'. cacheKey x = k \<and> absView w v g k = Some (SlotLive o') \<and> defaulted g x o'
     else absView w v g k = old k)"

definition adds :: "view \<Rightarrow> gvk set \<Rightarrow> world \<Rightarrow> world \<Rightarrow> bool" where
  "adds v gs w w' \<longleftrightarrow> view_ok w' v \<and> absDelegate w' v = absDelegate w v \<and> (\<forall>g. g \<notin> gs \<longrightarrow> absView w' v g = absView w v g)"

lemma addsD:
  assumes "adds v gs w w'"
  shows "view_ok w' v" "absDelegate w' v = absDelegate w v" "g \<notin> gs \<Longrightarrow> absView w' v g = absView w v g"
  using assms by (simp_all add: adds_def)

lemma added_cong: "absView w' v g = absView w v g \<Longrightarrow> added v g os old w' = added v g os old w"
  by (simp add: added_def)

lemma added_Cons:
  assumes "added v g os old1 w" "old1 = old(cacheKey x \<mapsto> SlotLive o')" "defaulted g x o'" "cacheKey x \<notin> cacheKey ` set os"
  shows "added v g (x # os) old w"
proof -
  have "absView w v g (cacheKey x) = Some (SlotLive o')" using assms by (simp add: added_def)
  note at = this
  show ?thesis unfolding added_def
  proof (intro allI)
    fix k
    note old = assms(1) [unfolded added_def, rule_format, of k]
    show "if k \<in> cacheKey ` set (x # os)
     then \<exists>y\<in>set (x # os). \<exists>o'. cacheKey y = k \<and> absView w v g k = Some (SlotLive o') \<and> defaulted g y o'
     else absView w v g k = old k"
      using at old assms(2-4) by (cases "k = cacheKey x"; cases "k \<in> cacheKey ` set os") auto
  qed
qed

definition storables :: "gvk \<Rightarrow> kobj list \<Rightarrow> bool" where
  "storables g os \<longleftrightarrow> supported g \<and> (\<forall>x\<in>set os. storable g x) \<and> distinct (map cacheKey os)"

lemma createAll_ok:
  assumes "view_ok w v" "storables g os" "room w (n + length os)"
  shows "\<exists>w'. createAll v g os w = (Ok (), w') \<and> adds v {g} w w' \<and> room w' n \<and> added v g os (absView w v g) w'"
  using assms
proof (induction os arbitrary: w)
  case Nil
  then show ?case by (simp add: adds_def added_def)
next
  case (Cons o' os)
  have st: "storable g o'" "supported g" "storables g os" "cacheKey o' \<notin> cacheKey ` set os"
    using Cons.prems(2) by (auto simp: storables_def)
  have room: "room w (Suc (n + length os))" using Cons.prems(3) by simp
  obtain w1 where 1: "createNew v g o' w = (Ok (nextAddr (wMem w)), w1)" "view_ok w1 v" "room w1 (n + length os)"
    "absView w1 v g = (absView w v g)(cacheKey o' \<mapsto> SlotLive (obj w1 (nextAddr (wMem w))))"
    "defaulted g o' (obj w1 (nextAddr (wMem w)))" "absDelegate w1 v = absDelegate w v"
    "\<And>g'. g' \<noteq> g \<Longrightarrow> absView w1 v g' = absView w v g'"
    by (rule createNew_ok [OF Cons.prems(1) st(2,1) room]) blast
  obtain w2 where 2: "createAll v g os w1 = (Ok (), w2)" "adds v {g} w1 w2" "room w2 n" "added v g os (absView w1 v g) w2"
    using Cons.IH [OF 1(2) st(3) 1(3)] by blast
  have "added v g (o' # os) (absView w v g) w2" by (rule added_Cons [OF 2(4) 1(4,5) st(4)])
  moreover have "adds v {g} w w2" using 2(2) 1(6,7) by (simp add: adds_def)
  ultimately show ?case using 1(1) 2(1,3) by auto
qed

text \<open>The CSI nodes: named after their node, with an owner reference to the UID the node got.\<close>

definition csiAdded :: "view \<Rightarrow> node_info list \<Rightarrow> (string \<Rightarrow> slot option) \<Rightarrow> world \<Rightarrow> bool" where
  "csiAdded v ns old w \<longleftrightarrow> (\<forall>k. if \<exists>n\<in>set ns. mName (niMeta n) = k \<and> niCSINodeSpec n \<noteq> None
     then \<exists>n\<in>set ns. \<exists>spec uid o'. mName (niMeta n) = k \<and> niCSINodeSpec n = Some spec \<and>
       absView w v csiGVK k = Some (SlotLive o') \<and> defaulted csiGVK (NewCSINode k uid spec) o'
     else absView w v csiGVK k = old k)"

lemma csiAdded_cong: "absView w' v csiGVK = absView w v csiGVK \<Longrightarrow> csiAdded v ns old w' = csiAdded v ns old w"
  by (simp add: csiAdded_def)

definition nodesOk :: "node_info list \<Rightarrow> bool" where
  "nodesOk ns \<longleftrightarrow> (\<forall>n\<in>set ns. storable nodesGVK (AsNode n) \<and> mNamespace (niMeta n) = []) \<and>
     distinct (map (\<lambda>n. mName (niMeta n)) ns)"

lemma nodesOk_storables: "nodesOk ns \<Longrightarrow> storables nodesGVK (map AsNode ns)"
proof -
  assume a: "nodesOk ns"
  have "map cacheKey (map AsNode ns) = map (\<lambda>n. mName (niMeta n)) ns"
    using a by (simp add: nodesOk_def AsNode_def name_defs)
  then show ?thesis using a node_kinds by (simp add: storables_def nodesOk_def del: map_map map_eq_conv)
qed

lemma csiAdded_Cons:
  assumes "csiAdded v ns old1 w" "mName (niMeta n) \<notin> (\<lambda>n. mName (niMeta n)) ` set ns"
    and "niCSINodeSpec n = None \<Longrightarrow> old1 = old"
    and "\<And>spec. niCSINodeSpec n = Some spec \<Longrightarrow> \<exists>o' uid. old1 = old(mName (niMeta n) \<mapsto> SlotLive o') \<and>
      defaulted csiGVK (NewCSINode (mName (niMeta n)) uid spec) o'"
  shows "csiAdded v (n # ns) old w"
proof (cases "niCSINodeSpec n")
  case None
  then have "(\<exists>m\<in>set (n # ns). mName (niMeta m) = k \<and> niCSINodeSpec m \<noteq> None) \<longleftrightarrow>
      (\<exists>m\<in>set ns. mName (niMeta m) = k \<and> niCSINodeSpec m \<noteq> None)" for k by auto
  then show ?thesis
    using assms(1) unfolding assms(3) [OF None] csiAdded_def by (metis list.set_intros(2))
next
  case (Some spec)
  obtain o' uid where o': "old1 = old(mName (niMeta n) \<mapsto> SlotLive o')"
    "defaulted csiGVK (NewCSINode (mName (niMeta n)) uid spec) o'" using assms(4) [OF Some] by blast
  have at: "absView w v csiGVK (mName (niMeta n)) = Some (SlotLive o')"
  proof -
    have "\<not> (\<exists>m\<in>set ns. mName (niMeta m) = mName (niMeta n) \<and> niCSINodeSpec m \<noteq> None)" using assms(2) by (auto simp: image_iff)
    then show ?thesis using assms(1) o'(1) unfolding csiAdded_def by (simp del: not_None_eq)
  qed
  show ?thesis unfolding csiAdded_def
  proof (intro allI)
    fix k
    show "if \<exists>m\<in>set (n # ns). mName (niMeta m) = k \<and> niCSINodeSpec m \<noteq> None
     then \<exists>m\<in>set (n # ns). \<exists>spec uid o'. mName (niMeta m) = k \<and> niCSINodeSpec m = Some spec \<and>
       absView w v csiGVK k = Some (SlotLive o') \<and> defaulted csiGVK (NewCSINode k uid spec) o'
     else absView w v csiGVK k = old k"
    proof (cases "k = mName (niMeta n)")
      case True
      then show ?thesis using Some at o'(2) by auto
    next
      case False
      then have same: "(\<exists>m\<in>set (n # ns). mName (niMeta m) = k \<and> niCSINodeSpec m \<noteq> None) \<longleftrightarrow>
          (\<exists>m\<in>set ns. mName (niMeta m) = k \<and> niCSINodeSpec m \<noteq> None)" by auto
      have "old1 k = old k" using False o'(1) by simp
      then show ?thesis
        unfolding same using assms(1) [unfolded csiAdded_def, rule_format, of k] by (metis list.set_intros(2))
    qed
  qed
qed

lemma createNodes_ok:
  assumes "view_ok w v" "nodesOk ns" "room w (m + 2 * length ns)"
  shows "\<exists>w'. createNodes v ns w = (Ok (), w') \<and> adds v {nodesGVK, csiGVK} w w' \<and> room w' m \<and>
    added v nodesGVK (map AsNode ns) (absView w v nodesGVK) w' \<and> csiAdded v ns (absView w v csiGVK) w'"
  using assms
proof (induction ns arbitrary: w)
  case Nil
  then show ?case by (simp add: adds_def added_def csiAdded_def)
next
  case (Cons n ns)
  let ?nm = "mName (niMeta n)"
  have ok: "storable nodesGVK (AsNode n)" "nodesOk ns" "?nm \<notin> (\<lambda>n. mName (niMeta n)) ` set ns" "cacheKey (AsNode n) = ?nm"
    "cacheKey (AsNode n) \<notin> cacheKey ` set (map AsNode ns)"
    using Cons.prems(2) nodesOk_storables [OF Cons.prems(2)] by (auto simp: nodesOk_def storables_def AsNode_def name_defs)
  have nm: "?nm \<noteq> []" "CHR ''/'' \<notin> set ?nm" using ok(1) by (auto simp: storable_def nameOk_def AsNode_def)
  have room: "room w (Suc (Suc (m + 2 * length ns)))" using Cons.prems(3) by simp
  let ?a = "nextAddr (wMem w)"
  obtain w1 where 1: "createNew v nodesGVK (AsNode n) w = (Ok ?a, w1)" "view_ok w1 v" "room w1 (Suc (m + 2 * length ns))"
    "absView w1 v nodesGVK = (absView w v nodesGVK)(cacheKey (AsNode n) \<mapsto> SlotLive (obj w1 ?a))"
    "defaulted nodesGVK (AsNode n) (obj w1 ?a)" "absDelegate w1 v = absDelegate w v"
    "\<And>g'. g' \<noteq> nodesGVK \<Longrightarrow> absView w1 v g' = absView w v g'"
    by (rule createNew_ok [OF Cons.prems(1) node_kinds(1) ok(1) room]) blast
  obtain w2 where 2: "createNodes v (n # ns) w = createNodes v ns w2" "view_ok w2 v" "room w2 (m + 2 * length ns)"
    "absDelegate w2 v = absDelegate w1 v" "\<And>g'. g' \<noteq> csiGVK \<Longrightarrow> absView w2 v g' = absView w1 v g'"
    "niCSINodeSpec n = None \<Longrightarrow> absView w2 v csiGVK = absView w1 v csiGVK"
    "\<And>spec. niCSINodeSpec n = Some spec \<Longrightarrow> \<exists>o' uid. absView w2 v csiGVK = (absView w1 v csiGVK)(?nm \<mapsto> SlotLive o') \<and>
      defaulted csiGVK (NewCSINode ?nm uid spec) o'"
  proof (cases "niCSINodeSpec n")
    case None
    show ?thesis by (rule that [of w1]) (use None 1 room_mono in auto)
  next
    case (Some spec)
    let ?csi = "NewCSINode ?nm (mUID (ometa (obj w1 ?a))) spec"
    note cs = simNodeOf_storable(3,4) [OF nm]
    obtain w2 where w2: "createNew v csiGVK ?csi w1 = (Ok (nextAddr (wMem w1)), w2)" "view_ok w2 v" "room w2 (m + 2 * length ns)"
      "absView w2 v csiGVK = (absView w1 v csiGVK)(cacheKey ?csi \<mapsto> SlotLive (obj w2 (nextAddr (wMem w1))))"
      "defaulted csiGVK ?csi (obj w2 (nextAddr (wMem w1)))" "absDelegate w2 v = absDelegate w1 v"
      "\<And>g'. g' \<noteq> csiGVK \<Longrightarrow> absView w2 v g' = absView w1 v g'"
      by (rule createNew_ok [OF 1(2) node_kinds(2) cs(1) 1(3)]) blast
    show ?thesis
    proof (rule that [of w2])
      fix spec' assume "niCSINodeSpec n = Some spec'"
      then show "\<exists>o' uid. absView w2 v csiGVK = (absView w1 v csiGVK)(?nm \<mapsto> SlotLive o') \<and>
        defaulted csiGVK (NewCSINode ?nm uid spec') o'" using w2(4,5) cs(2) Some by auto
    qed (use w2 1(1) Some in auto)
  qed
  obtain w3 where 3: "createNodes v ns w2 = (Ok (), w3)" "adds v {nodesGVK, csiGVK} w2 w3" "room w3 m"
    "added v nodesGVK (map AsNode ns) (absView w2 v nodesGVK) w3" "csiAdded v ns (absView w2 v csiGVK) w3"
    using Cons.IH [OF 2(2) ok(2) 2(3)] by blast
  have n2: "absView w2 v nodesGVK = (absView w v nodesGVK)(cacheKey (AsNode n) \<mapsto> SlotLive (obj w1 ?a))"
    using 2(5) [of nodesGVK] 1(4) node_kinds(3) by simp
  have c1: "absView w1 v csiGVK = absView w v csiGVK" using 1(7) node_kinds(3) by metis
  have "added v nodesGVK (map AsNode (n # ns)) (absView w v nodesGVK) w3"
    using added_Cons [OF 3(4) n2 1(5) ok(5)] by simp
  moreover have "csiAdded v (n # ns) (absView w v csiGVK) w3"
    by (rule csiAdded_Cons [OF 3(5) ok(3)]) (use 2(6,7) c1 in auto)
  moreover have "adds v {nodesGVK, csiGVK} w w3" using 3(2) 2(4,5) 1(6,7) by (simp add: adds_def)
  ultimately show ?case using 2(1) 3(1,3) by auto
qed

subsection \<open>Claims\<close>

definition snapshotOk :: "cluster_snapshot \<Rightarrow> bool" where
  "snapshotOk cs \<longleftrightarrow> storables priorityClassGVK (csPriorityClasses cs) \<and> storables runtimeClassGVK (csRuntimeClasses cs) \<and>
     storables storageClassGVK (csStorageClasses cs) \<and> nodesOk (csNodes cs) \<and> storables pvcGVK (map AsPVC (csPVCs cs)) \<and>
     storables pvGVK (map AsPV (csPVs cs)) \<and> storables podsGVK (map AsPod (csPods cs))"

definition snapshotSize :: "cluster_snapshot \<Rightarrow> nat" where
  "snapshotSize cs = length (csPriorityClasses cs) + length (csRuntimeClasses cs) + length (csStorageClasses cs) +
     2 * length (csNodes cs) + length (csPVCs cs) + length (csPVs cs) + length (csPods cs)"

lemma snapshot_kinds:
  "distinct [priorityClassGVK, runtimeClassGVK, storageClassGVK, nodesGVK, csiGVK, pvcGVK, pvGVK, podsGVK]"
  "distinct [podsGVK, pvGVK, pvcGVK, csiGVK, nodesGVK, storageClassGVK, runtimeClassGVK, priorityClassGVK]"
  by (simp_all add: podsGVK_def PodsDescriptor_def PersistentVolumesDescriptor_def PersistentVolumeClaimsDescriptor_def
      NodesDescriptor_def CSINodeDescriptor_def PriorityClassesDescriptor_def RuntimeClassDescriptor_def StorageClassDescriptor_def)

text \<open>Batches of objects of distinct kinds, created one after the other.\<close>

fun createBatches :: "view \<Rightarrow> (gvk \<times> kobj list) list \<Rightarrow> world \<Rightarrow> (unit, world) eff" where
  "createBatches v [] w = (Ok (), w)"
| "createBatches v ((g, os) # bs) w = bindE (createAll v g os w) (\<lambda>_ w. createBatches v bs w)"

lemma adds_trans: "adds v A w w1 \<Longrightarrow> adds v B w1 w2 \<Longrightarrow> adds v (A \<union> B) w w2"
  by (simp add: adds_def)

lemma createBatches_ok:
  assumes "view_ok w v" "list_all (\<lambda>(g, os). storables g os) bs" "distinct (map fst bs)"
    and "room w (n + (\<Sum>b\<leftarrow>bs. length (snd b)))"
  shows "\<exists>w'. createBatches v bs w = (Ok (), w') \<and> adds v (fst ` set bs) w w' \<and> room w' n \<and>
    list_all (\<lambda>(g, os). added v g os (absView w v g) w') bs"
  using assms
proof (induction bs arbitrary: w)
  case Nil
  then show ?case by (simp add: adds_def)
next
  case (Cons b bs)
  obtain g os where b: "b = (g, os)" by (rule prod.exhaust)
  have "room w (n + (\<Sum>b\<leftarrow>bs. length (snd b)) + length os)" using Cons.prems(4) b by (simp add: ac_simps comp_def)
  then obtain w1 where w1: "createAll v g os w = (Ok (), w1)" "adds v {g} w w1"
      "room w1 (n + (\<Sum>b\<leftarrow>bs. length (snd b)))" "added v g os (absView w v g) w1"
    using createAll_ok [OF Cons.prems(1), of g os] Cons.prems(2) b by auto
  obtain w2 where w2: "createBatches v bs w1 = (Ok (), w2)" "adds v (fst ` set bs) w1 w2" "room w2 n"
      "list_all (\<lambda>(g, os). added v g os (absView w1 v g) w2) bs"
    using Cons.IH [OF addsD(1) [OF w1(2)]] Cons.prems(2,3) w1(3) by auto
  have "g \<notin> fst ` set bs" using Cons.prems(3) b by simp
  then have "added v g os (absView w v g) w2" using added_cong [OF addsD(3) [OF w2(2)]] w1(4) by blast
  moreover have "list_all (\<lambda>(g, os). added v g os (absView w v g) w2) bs"
    using w2(4) addsD(3) [OF w1(2)] \<open>g \<notin> fst ` set bs\<close> by (force simp: list_all_iff)
  ultimately show ?case using w1(1) w2(1,3) adds_trans [OF w1(2) w2(2)] b by simp
qed

definition classBatches :: "cluster_snapshot \<Rightarrow> (gvk \<times> kobj list) list" where
  "classBatches cs = [(priorityClassGVK, csPriorityClasses cs), (runtimeClassGVK, csRuntimeClasses cs),
     (storageClassGVK, csStorageClasses cs)]"

definition podBatches :: "cluster_snapshot \<Rightarrow> (gvk \<times> kobj list) list" where
  "podBatches cs = [(pvcGVK, map AsPVC (csPVCs cs)), (pvGVK, map AsPV (csPVs cs)), (podsGVK, map AsPod (csPods cs))]"

lemma bindE_assoc: "bindE (bindE r f) g = bindE r (\<lambda>a s. bindE (f a s) g)"
  by (auto simp: bindE_def split: prod.splits outcome.splits)

lemma bindE_unit: "bindE r (\<lambda>_ s. (Ok (), s)) = r"
  by (auto simp: bindE_def split: prod.splits outcome.splits)

lemma createBatches_fun:
  "createBatches v [] = (\<lambda>w. (Ok (), w))" "createBatches v ((g, os) # bs) = (\<lambda>w. bindE (createAll v g os w) (\<lambda>_. createBatches v bs))"
  by (simp_all add: fun_eq_iff)

lemma PopulateView_batches:
  "PopulateView v cs w = bindE (createBatches v (classBatches cs) (View_Reset v w)) (\<lambda>_ w.
     bindE (createNodes v (csNodes cs) w) (\<lambda>_ w. createBatches v (podBatches cs) w))"
  by (simp add: PopulateView_def classBatches_def podBatches_def createBatches_fun bindE_assoc bindE_unit del: createBatches.simps)

lemma PopulateView_phases:
  assumes "view_ok w v" "snapshotOk cs" "room w (n + snapshotSize cs)"
  obtains w1 w2 w3 where "PopulateView v cs w = (Ok (), w3)" "view_ok w3 v" "absDelegate w3 v = absDelegate w v"
    "list_all (\<lambda>(g, os). added v g os (absDelegate w v g) w1) (classBatches cs)"
    "added v nodesGVK (map AsNode (csNodes cs)) (absView w1 v nodesGVK) w2" "csiAdded v (csNodes cs) (absView w1 v csiGVK) w2"
    "list_all (\<lambda>(g, os). added v g os (absView w2 v g) w3) (podBatches cs)"
    "\<forall>g. g \<notin> fst ` set (classBatches cs) \<longrightarrow> absView w1 v g = absDelegate w v g"
    "\<forall>g. g \<notin> {nodesGVK, csiGVK} \<longrightarrow> absView w2 v g = absView w1 v g"
    "\<forall>g. g \<notin> fst ` set (podBatches cs) \<longrightarrow> absView w3 v g = absView w2 v g"
proof -
  let ?w0 = "View_Reset v w"
  note reset = View_Reset_ok [OF assms(1)]
  note ok = assms(2) [unfolded snapshotOk_def]
  note kinds = snapshot_kinds [unfolded distinct.simps list.set insert_iff empty_iff]
  have a0: "absView ?w0 v g = absDelegate w v g" for g unfolding absView_alt reset(2) reset(3) by simp
  let ?n2 = "n + (\<Sum>b\<leftarrow>podBatches cs. length (snd b))"
  have "room ?w0 (?n2 + 2 * length (csNodes cs) + (\<Sum>b\<leftarrow>classBatches cs. length (snd b)))"
    using assms(3) reset(4) by (simp add: snapshotSize_def classBatches_def podBatches_def algebra_simps)
  from createBatches_ok [OF reset(1) _ _ this] ok kinds obtain w1 where
    1: "createBatches v (classBatches cs) ?w0 = (Ok (), w1)" "adds v (fst ` set (classBatches cs)) ?w0 w1"
    "room w1 (?n2 + 2 * length (csNodes cs))" "list_all (\<lambda>(g, os). added v g os (absView ?w0 v g) w1) (classBatches cs)"
    by (auto simp: classBatches_def)
  from createNodes_ok [OF addsD(1) [OF 1(2)] _ 1(3)] ok obtain w2 where
    2: "createNodes v (csNodes cs) w1 = (Ok (), w2)" "adds v {nodesGVK, csiGVK} w1 w2" "room w2 ?n2"
    "added v nodesGVK (map AsNode (csNodes cs)) (absView w1 v nodesGVK) w2" "csiAdded v (csNodes cs) (absView w1 v csiGVK) w2"
    by blast
  from createBatches_ok [OF addsD(1) [OF 2(2)] _ _ 2(3)] ok kinds obtain w3 where
    3: "createBatches v (podBatches cs) w2 = (Ok (), w3)" "adds v (fst ` set (podBatches cs)) w2 w3"
    "list_all (\<lambda>(g, os). added v g os (absView w2 v g) w3) (podBatches cs)"
    by (auto simp: podBatches_def)
  show ?thesis
  proof (rule that)
    show "PopulateView v cs w = (Ok (), w3)" using 1(1) 2(1) 3(1) by (simp add: PopulateView_batches classBatches_def podBatches_def)
    show "absDelegate w3 v = absDelegate w v" using addsD(2) [OF 1(2)] addsD(2) [OF 2(2)] addsD(2) [OF 3(2)] reset(2) by simp
    show "list_all (\<lambda>(g, os). added v g os (absDelegate w v g) w1) (classBatches cs)" using 1(4) by (simp only: a0)
    show "\<forall>g. g \<notin> fst ` set (classBatches cs) \<longrightarrow> absView w1 v g = absDelegate w v g" using addsD(3) [OF 1(2)] a0 by simp
    show "\<forall>g. g \<notin> {nodesGVK, csiGVK} \<longrightarrow> absView w2 v g = absView w1 v g" using addsD(3) [OF 2(2)] by blast
    show "\<forall>g. g \<notin> fst ` set (podBatches cs) \<longrightarrow> absView w3 v g = absView w2 v g" using addsD(3) [OF 3(2)] by blast
  qed (fact addsD(1) [OF 3(2)] 2(4) 2(5) 3(3))+
qed

text \<open>
  C17. Populating the request view makes it show the snapshot and nothing stale: for every snapshot with
  valid, distinct names \<open>PopulateView\<close> succeeds, and whatever the view held before, it then shows, kind
  by kind, exactly the snapshot's classes, nodes, CSI nodes, claims, volumes and pods, with only
  defaults filled in, over what its delegate shows; the delegate is untouched.
\<close>

theorem PopulateView_exact:
  assumes "view_ok w v" "snapshotOk cs" "room w (n + snapshotSize cs)"
  shows "\<exists>w'. PopulateView v cs w = (Ok (), w') \<and> view_ok w' v \<and> absDelegate w' v = absDelegate w v \<and>
    added v podsGVK (map AsPod (csPods cs)) (absDelegate w v podsGVK) w' \<and>
    added v nodesGVK (map AsNode (csNodes cs)) (absDelegate w v nodesGVK) w' \<and>
    csiAdded v (csNodes cs) (absDelegate w v csiGVK) w' \<and>
    added v pvcGVK (map AsPVC (csPVCs cs)) (absDelegate w v pvcGVK) w' \<and>
    added v pvGVK (map AsPV (csPVs cs)) (absDelegate w v pvGVK) w' \<and>
    added v storageClassGVK (csStorageClasses cs) (absDelegate w v storageClassGVK) w' \<and>
    added v runtimeClassGVK (csRuntimeClasses cs) (absDelegate w v runtimeClassGVK) w' \<and>
    added v priorityClassGVK (csPriorityClasses cs) (absDelegate w v priorityClassGVK) w'"
proof -
  note kinds = snapshot_kinds [unfolded distinct.simps list.set insert_iff empty_iff]
  obtain w1 w2 w3 where run: "PopulateView v cs w = (Ok (), w3)" "view_ok w3 v" "absDelegate w3 v = absDelegate w v"
    and 1: "list_all (\<lambda>(g, os). added v g os (absDelegate w v g) w1) (classBatches cs)"
    and 2: "added v nodesGVK (map AsNode (csNodes cs)) (absView w1 v nodesGVK) w2" "csiAdded v (csNodes cs) (absView w1 v csiGVK) w2"
    and 3: "list_all (\<lambda>(g, os). added v g os (absView w2 v g) w3) (podBatches cs)"
    and same: "\<forall>g. g \<notin> fst ` set (classBatches cs) \<longrightarrow> absView w1 v g = absDelegate w v g"
      "\<forall>g. g \<notin> {nodesGVK, csiGVK} \<longrightarrow> absView w2 v g = absView w1 v g"
      "\<forall>g. g \<notin> fst ` set (podBatches cs) \<longrightarrow> absView w3 v g = absView w2 v g"
    by (rule PopulateView_phases [OF assms])
  note same = same [rule_format]
  have "added v g os (absDelegate w v g) w3" if "(g, os) \<in> set (classBatches cs)" for g os
  proof -
    have eq: "absView w3 v g = absView w1 v g" using that kinds same(2,3) [of g] by (auto simp: classBatches_def podBatches_def)
    have "added v g os (absDelegate w v g) w1" using bspec [OF 1 [unfolded list_all_iff] that] by simp
    then show ?thesis by (simp add: added_cong [OF eq])
  qed
  moreover have "added v g os (absDelegate w v g) w3" if "(g, os) \<in> set (podBatches cs)" for g os
  proof -
    have "absView w2 v g = absDelegate w v g"
      using that kinds same(1,2) [of g] by (auto simp: classBatches_def podBatches_def)
    then show ?thesis using bspec [OF 3 [unfolded list_all_iff] that] by simp
  qed
  moreover have "added v nodesGVK (map AsNode (csNodes cs)) (absDelegate w v nodesGVK) w3" "csiAdded v (csNodes cs) (absDelegate w v csiGVK) w3"
  proof -
    have "nodesGVK \<notin> fst ` set (classBatches cs)" "csiGVK \<notin> fst ` set (classBatches cs)"
        "nodesGVK \<notin> fst ` set (podBatches cs)" "csiGVK \<notin> fst ` set (podBatches cs)"
      using kinds by (simp_all add: classBatches_def podBatches_def)
    then show "added v nodesGVK (map AsNode (csNodes cs)) (absDelegate w v nodesGVK) w3" "csiAdded v (csNodes cs) (absDelegate w v csiGVK) w3"
      using 2 added_cong [OF same(3)] csiAdded_cong [OF same(3)] same(1) by simp_all
  qed
  ultimately show ?thesis using run by (simp add: classBatches_def podBatches_def)
qed

definition demoPodInfo :: pod_info where
  "demoPodInfo = \<lparr>piMeta = emptyMeta\<lparr>mName := ''x'', mNamespace := ''d''\<rparr>, piAggregatedRequests = [], piNodeSelector = [],
     piAffinity = None, piOverhead = [], piNodeName = [], piSchedulerName = [], piPriorityClassName = [],
     piPreemptionPolicy = [], piRuntimeClassName = [], piVolumes = [], piTolerations = [],
     piTopologySpreadConstraints = [], piResourceClaims = [], piPriority = 0\<rparr>"

definition demoNodeInfo :: node_info where
  "demoNodeInfo = \<lparr>niMeta = emptyMeta\<lparr>mName := ''n''\<rparr>, niCapacity = [], niAllocatable = [], niCSINodeSpec = Some [],
     niInstanceType = [], niTaints = [], niConditions = [], niUnschedulable = False\<rparr>"

definition demoSnapshot :: cluster_snapshot where
  "demoSnapshot = \<lparr>csPods = [demoPodInfo], csNodes = [demoNodeInfo], csPVs = [], csPVCs = [], csStorageClasses = [],
     csPriorityClasses = [], csRuntimeClasses = []\<rparr>"

lemma demoSnapshot_ok: "snapshotOk demoSnapshot" "snapshotSize demoSnapshot = 3"
  using supported_volumes node_kinds supported_pods
  by (simp_all add: snapshotOk_def snapshotSize_def demoSnapshot_def storables_def nodesOk_def storable_def nameOk_def
      demoPodInfo_def demoNodeInfo_def AsPod_def AsNode_def isRuntimeObject_def emptyMeta_def emptyGVK_def supported_def
      SupportedDescriptors_def)

theorem PopulateView_exact_witness:
  "\<exists>w' o'. PopulateView demoSandbox demoSnapshot demoWorld = (Ok (), w') \<and>
     absView w' demoSandbox podsGVK ''d/x'' = Some (SlotLive o')"
proof -
  have room: "room demoWorld (5 + snapshotSize demoSnapshot)" using demo(3) by (simp add: demoSnapshot_ok)
  obtain w' where w': "PopulateView demoSandbox demoSnapshot demoWorld = (Ok (), w')"
    "added demoSandbox podsGVK (map AsPod (csPods demoSnapshot)) (absDelegate demoWorld demoSandbox podsGVK) w'"
    using PopulateView_exact [OF demo(1) demoSnapshot_ok(1) room] by blast
  have "cacheKey (AsPod demoPodInfo) = ''d/x''" by (simp add: AsPod_def demoPodInfo_def name_defs)
  then have "\<exists>o'. absView w' demoSandbox podsGVK ''d/x'' = Some (SlotLive o')"
    using w'(2) [unfolded added_def, rule_format, of "''d/x''"] by (auto simp: demoSnapshot_def)
  with w'(1) show ?thesis by blast
qed

end
