(* ===== verification/Simulator.thy ===== *)
theory Simulator
  imports Populate
begin

text \<open>
  The scale-out simulator, \<open>src/planner/simulator/scaleout\<close>: templates and groups of simulations, the
  passes over a group, the choice of the winner, the plan.

  Each run of a simulation, each poll of the context and each random choice may turn out differently;
  the record \<open>sim_env\<close> holds what they turn out to be: the context a simulation run sees by its run number, the
  polls and choices by the number of passes so far (the field \<open>ssPasses\<close>, which the code does not
  have). The simulations of a group run concurrently in the code, each on its own sandbox; here they
  run one after the other. The result channel is the list of what was sent.
\<close>

subsection \<open>Requests and results\<close>

record request =
  rqID :: string
  rqCorrelationID :: string
  rqCreationTime :: time
  rqNodePools :: "node_pool list option"   \<comment> \<open>of the constraint, which may be nil\<close>
  rqSimulatorStrategy :: strategy
  rqScoringStrategy :: string
  rqAdviceGenerationMode :: string
  rqSnapshot :: cluster_snapshot
  rqDiagnosticVerbosity :: nat

definition IsIncremental :: "string \<Rightarrow> bool" where
  "IsIncremental m \<longleftrightarrow> m = ''incremental''"

definition IsAllAtOnce :: "string \<Rightarrow> bool" where
  "IsAllAtOnce m \<longleftrightarrow> m = ''all-at-once''"

record plan_result =
  prError :: "goerr option"
  prLabels :: labels
  prScaleOutPlan :: "scale_out_plan option"

record sim_group =
  sgRequestID :: string
  sgName :: string
  sgSimulations :: "simulation list"
  sgKey :: priority_key

record cycle_result =
  crNextGroupPassView :: "view option"
  crWinnerNodeScores :: "node_score list"
  crLeftoverUnscheduledPods :: "namespaced_name list"
  crPassNum :: nat

record simulator_state =
  ssViewAccess :: view_access
  ssRequest :: "request option"
  ssResultCh :: "plan_result list"
  ssSimRunCounter :: "32 word"
  ssViews :: "view option list"
  ssSimulationGroups :: "sim_group option list"
  ssSimConfig :: sim_config
  ssPasses :: nat

type_synonym sworld = "simulator_state \<times> world"

record sim_env =
  seRunCtx :: "32 word \<Rightarrow> sim_ctx"
  seDone :: "nat \<Rightarrow> goerr option"
  seRandom :: "nat \<Rightarrow> nat"
  seApprox :: "quantity \<Rightarrow> float64"
  seIsDefaultClass :: "object_meta \<Rightarrow> bool"
  seFindVolume :: volume_finder
  seInitCtx :: cxs

definition NewSimulatorState :: "request \<Rightarrow> sim_config \<Rightarrow> view_access \<Rightarrow> simulator_state" where
  "NewSimulatorState rq cfg va = \<lparr>ssViewAccess = va, ssRequest = Some rq, ssResultCh = [], ssSimRunCounter = 0,
     ssViews = [], ssSimulationGroups = [], ssSimConfig = cfg, ssPasses = 0\<rparr>"

definition ErrPopulateRequestView :: goerr where "ErrPopulateRequestView = Sentinel ''ErrPopulateRequestView''"
definition ErrRunSimulationGroup :: goerr where "ErrRunSimulationGroup = Sentinel ''ErrRunSimulationGroup''"
definition ErrSelectNodeScore :: goerr where "ErrSelectNodeScore = Sentinel ''ErrSelectNodeScore''"
definition ErrNoScaleOutPlan :: goerr where "ErrNoScaleOutPlan = Sentinel ''ErrNoScaleOutPlan''"
definition ErrCreateSimulator :: goerr where "ErrCreateSimulator = Sentinel ''ErrCreateSimulator''"

subsection \<open>Views\<close>

definition CreateSandboxView :: "string \<Rightarrow> view option \<Rightarrow> sworld \<Rightarrow> (view, sworld) eff" where
  "CreateSandboxView nm delegate s = (case delegate of
       None \<Rightarrow> (case map_of (vaSandboxViews (ssViewAccess (fst s))) nm of
           Some sv \<Rightarrow> (Ok sv, ((fst s)\<lparr>ssViews := ssViews (fst s) @ [Some sv]\<rparr>, snd s))
         | None \<Rightarrow> (Panic ''nil pointer dereference'', s))
     | Some d \<Rightarrow>
         (case GetSandboxViewOverDelegate nm d (ssViewAccess (fst s)) (snd s) of
            (Ok (sv, va), w) \<Rightarrow> (Ok sv, ((fst s)\<lparr>ssViewAccess := va, ssViews := ssViews (fst s) @ [Some sv]\<rparr>, w))
          | (Err e, w) \<Rightarrow> (Err e, (fst s, w))
          | (Panic p, w) \<Rightarrow> (Panic p, (fst s, w))))"

definition createRequestView :: "sworld \<Rightarrow> (view, sworld) eff" where
  "createRequestView s = (case ssRequest (fst s) of
       None \<Rightarrow> (Panic ''nil pointer dereference'', s)
     | Some rq \<Rightarrow> CreateSandboxView (''Request-'' @ rqID rq) (Some (vaBaseView (ssViewAccess (fst s)))) s)"

definition onSWorld :: "(world \<Rightarrow> ('a, world) eff) \<Rightarrow> sworld \<Rightarrow> ('a, sworld) eff" where
  "onSWorld f s = mapState (\<lambda>w. (fst s, w)) (f (snd s))"

definition InitializeRequestView :: "sim_env \<Rightarrow> sworld \<Rightarrow> (unit, sworld) eff" where
  "InitializeRequestView env s =
     bindE (createRequestView s) (\<lambda>v s. case ssRequest (fst s) of
         None \<Rightarrow> (Panic ''nil pointer dereference'', s)
       | Some rq \<Rightarrow>
           (case onSWorld (PopulateView v (rqSnapshot rq)) s of
              (Err e, s) \<Rightarrow> (Err (Wrapped ''populate'' [ErrPopulateRequestView, e]), s)
            | (Panic p, s) \<Rightarrow> (Panic p, s)
            | (Ok _, s) \<Rightarrow>
                if cfgBindVolumeClaimsForImmediateMode (ssSimConfig (fst s))
                then bindE (onSWorld (BindClaimsForImmediateMode (seIsDefaultClass env) (seFindVolume env) (seInitCtx env) v) s)
                       (\<lambda>_ s. (Ok (), s))
                else (Ok (), s)))"

definition RequestView :: "simulator_state \<Rightarrow> view option" where
  "RequestView s = (case ssViews s of [] \<Rightarrow> None | v # _ \<Rightarrow> v)"

definition closeView :: "view option \<Rightarrow> world \<Rightarrow> world outcome" where
  "closeView v w = (case v of None \<Rightarrow> Panic ''nil pointer dereference'' | Some v \<Rightarrow> Ok (View_Close v w))"

fun closeViews :: "view option list \<Rightarrow> world \<Rightarrow> world outcome" where
  "closeViews [] w = Ok w"
| "closeViews (v # views) w = bindO (closeView v w) (closeViews views)"

text \<open>\<open>clear\<close> on a slice writes the zero value into every element and keeps the length.\<close>

definition SimulatorState_Reset :: "sworld \<Rightarrow> (unit, sworld) eff" where
  "SimulatorState_Reset s = (case closeViews (ssViews (fst s)) (snd s) of
       Ok w \<Rightarrow> (Ok (), ((fst s)\<lparr>ssViews := map (\<lambda>_. None) (ssViews (fst s)), ssSimRunCounter := 0,
          ssSimulationGroups := map (\<lambda>_. None) (ssSimulationGroups (fst s)), ssRequest := None\<rparr>, w))
     | Err e \<Rightarrow> (Err e, s) | Panic p \<Rightarrow> (Panic p, s))"

subsection \<open>Templates\<close>

definition createNodeTemplate :: "node_pool \<Rightarrow> node_template \<Rightarrow> string \<Rightarrow> scale_out_node_template" where
  "createNodeTemplate pool tmpl zone =
     \<lparr>sotLabels = plLabels pool, sotAnnotations = plAnnotations pool, sotQuota = plQuota pool,
      sotCapacity = ntCapacity tmpl, sotKubeReserved = ntKubeReserved tmpl, sotSystemReserved = ntSystemReserved tmpl,
      sotPlacement = \<lparr>npPoolName = plName pool, npTemplateName = ntName tmpl, npInstanceType = ntInstanceType tmpl,
        npRegion = plRegion pool, npAvailabilityZone = zone\<rparr>,
      sotArchitecture = ntArchitecture tmpl, sotTaints = plTaints pool,
      sotPriorityKey = PriorityKey (plPriority pool) (ntPriority tmpl)\<rparr>"

definition CreateAllNodeTemplates :: "node_pool list \<Rightarrow> scale_out_node_template list" where
  "CreateAllNodeTemplates pools = concat (map (\<lambda>np. concat (map (\<lambda>nt. map (createNodeTemplate np nt)
     (plAvailabilityZones np)) (plNodeTemplates np))) pools)"

definition GroupScaleOutNodeTemplatesByPriority ::
  "scale_out_node_template list \<Rightarrow> (priority_key, scale_out_node_template list) gomap" where
  "GroupScaleOutNodeTemplatesByPriority templates = fold (\<lambda>t m.
     let pk = sotPriorityKey t;
         group = (case map_of m pk of Some g \<Rightarrow> g | None \<Rightarrow> [t])
     in AList.update pk (group @ [t]) m) templates []"

subsection \<open>Groups\<close>

definition NewGroup :: "string \<Rightarrow> priority_key \<Rightarrow> string \<Rightarrow> sim_group" where
  "NewGroup nm key ref = \<lparr>sgRequestID = ref, sgName = nm, sgSimulations = [], sgKey = key\<rparr>"

definition AddSimulation :: "simulation \<Rightarrow> sim_group \<Rightarrow> sim_group" where
  "AddSimulation sim g = g\<lparr>sgSimulations := sgSimulations g @ [sim]\<rparr>"

definition CmpScaleOutSimGroup :: "sim_group \<Rightarrow> sim_group \<Rightarrow> int" where
  "CmpScaleOutSimGroup a b = CmpPriorityKeyDecreasing (sgKey a) (sgKey b)"

fun groupSims :: "string \<Rightarrow> simulation list \<Rightarrow> nat \<Rightarrow> (priority_key, sim_group) gomap \<Rightarrow> (priority_key, sim_group) gomap outcome" where
  "groupSims ref [] cnt m = Ok m"
| "groupSims ref (sim # sims) cnt m = bindO (Simulation_PriorityKey sim) (\<lambda>pk.
     case map_of m pk of
       Some g \<Rightarrow> groupSims ref sims cnt (AList.update pk (AddSimulation sim g) m)
     | None \<Rightarrow> groupSims ref sims (cnt + 1) (AList.update pk (AddSimulation sim
         (NewGroup (''sg-'' @ digits (cnt + 1) @ ''_'' @ priorityKeyString pk) pk ref)) m))"

text \<open>The sort need not be stable: the keys of the groups are distinct.\<close>

definition CreateScaleOutSimGroups :: "string \<Rightarrow> simulation list \<Rightarrow> sim_group list outcome" where
  "CreateScaleOutSimGroups ref sims = bindO (groupSims ref sims 0 []) (\<lambda>m.
     Ok (SortStableFunc CmpScaleOutSimGroup (map snd m)))"

definition Group_Reset :: "sim_group \<Rightarrow> sim_group" where
  "Group_Reset g = g\<lparr>sgSimulations := map Simulation_Reset (sgSimulations g)\<rparr>"

definition cancelled :: sim_ctx where
  "cancelled = \<lparr>scDone = (\<lambda>_. Some (Plain ''context canceled'')), scCtx = (\<lambda>_ _ _. Some (Plain ''context canceled''))\<rparr>"

text \<open>
  The goroutines of the error group: the first error is kept and cancels the context of the
  simulations that follow; a panic ends the process.
\<close>

fun runSims :: "sim_env \<Rightarrow> (string \<Rightarrow> sworld \<Rightarrow> (view, sworld) eff) \<Rightarrow> string \<Rightarrow> simulation list \<Rightarrow> goerr option \<Rightarrow> sworld
    \<Rightarrow> (goerr option, simulation list \<times> sworld) eff option" where
  "runSims env getView ref [] err s = Some (Ok err, ([], s))"
| "runSims env getView ref (sim # sims) err s =
     (let cx = (if err = None then seRunCtx env (ssSimRunCounter (fst s) + 1) else cancelled);
          next = (\<lambda>sim' err' s'. map_option (\<lambda>(r, sims', s''). (r, (sim' # sims', s'')))
            (runSims env getView ref sims (if err = None then err' else err) s'))
      in case getView (ref @ ''_'' @ Simulation_Name sim) s of
           (Err e, s') \<Rightarrow> next sim (Some e) s'
         | (Panic p, s') \<Rightarrow> Some (Panic p, (sim # sims, s'))
         | (Ok v, s') \<Rightarrow>
             (case Simulation_Run cx v sim (ssSimRunCounter (fst s'), snd s') of
                None \<Rightarrow> None
              | Some (res, sim', c, w) \<Rightarrow>
                  let s'' = ((fst s')\<lparr>ssSimRunCounter := c\<rparr>, w) in
                  (case res of Ok _ \<Rightarrow> next sim' None s'' | Err e \<Rightarrow> next sim' (Some e) s''
                   | Panic p \<Rightarrow> Some (Panic p, (sim' # sims, s'')))))"

fun collectResults :: "simulation list \<Rightarrow> sim_result list outcome" where
  "collectResults [] = Ok []"
| "collectResults (sim # sims) = bindO (Simulation_Result sim) (\<lambda>r. bindO (collectResults sims) (\<lambda>rs. Ok (r # rs)))"

definition groupErr :: "goerr \<Rightarrow> goerr" where
  "groupErr e = Wrapped ''cannot run group'' [ErrRunSimulationGroup, e]"

definition Group_Run :: "sim_env \<Rightarrow> (string \<Rightarrow> sworld \<Rightarrow> (view, sworld) eff) \<Rightarrow> sim_group \<Rightarrow> sworld
    \<Rightarrow> (sim_result list, sim_group \<times> sworld) eff option" where
  "Group_Run env getView g s = map_option (\<lambda>(r, sims, s').
       (case r of
          Panic p \<Rightarrow> Panic p | Err e \<Rightarrow> Err (groupErr e)
        | Ok (Some e) \<Rightarrow> Err (groupErr e)
        | Ok None \<Rightarrow> wrapErr groupErr (collectResults sims),
        (g\<lparr>sgSimulations := sims\<rparr>, s')))
     (runSims env getView (sgRequestID g) (sgSimulations g) None s)"

subsection \<open>Scoring a pass\<close>

definition mapSimulationResultToNodeScoreArgs :: "sim_result \<Rightarrow> node_scorer_args outcome" where
  "mapSimulationResultToNodeScoreArgs r = (case (srItems r, srNodePodAssignments r) of
       (item # _, a # _) \<Rightarrow> Ok \<lparr>nsaID = srName r, nsaScaledNodePlacement = soiPlacement item,
          nsaScaledNodePodAssignment = Some a, nsaOtherNodePodAssignments = srOtherNodePodAssignments r,
          nsaLeftOverUnscheduledPods = srLeftoverUnscheduledPods r\<rparr>
     | _ \<Rightarrow> Panic ''index out of range'')"

fun computeScores :: "(node_scorer_args \<Rightarrow> node_score outcome) \<Rightarrow> sim_result list \<Rightarrow> node_score list outcome" where
  "computeScores compute [] = Ok []"
| "computeScores compute (sr # srs) =
     (if srNodePodAssignments sr = [] then computeScores compute srs
      else bindO (mapSimulationResultToNodeScoreArgs sr) (\<lambda>args.
        bindO (wrapErr (\<lambda>e. Wrapped ''node scoring failed'' [ErrComputeNodeScore, e]) (compute args)) (\<lambda>score.
          bindO (computeScores compute srs) (\<lambda>scores. Ok (score # scores)))))"

text \<open>The winner and its view; no winner, no view.\<close>

definition processScaleOutSimResults :: "(quantity \<Rightarrow> float64) \<Rightarrow> nat \<Rightarrow> node_scorer \<Rightarrow> sim_result list
    \<Rightarrow> (node_score \<times> view) option outcome" where
  "processScaleOutSimResults approx rnd scorer results =
     bindO (computeScores (Compute approx scorer) results) (\<lambda>scores.
       if scores = [] then Ok None
       else bindO (wrapErr (\<lambda>e. Wrapped ''node score selection failed'' [ErrSelectNodeScore, e])
              (fst (Select approx rnd scorer scores))) (\<lambda>winner.
         case find (\<lambda>sr. srName sr = nscName winner) results of
           Some sr \<Rightarrow> (case srView sr of Some v \<Rightarrow> Ok (Some (winner, v))
              | None \<Rightarrow> Err (Wrapped ''winning view not found'' [ErrSelectNodeScore]))
         | None \<Rightarrow> Err (Wrapped ''winning view not found'' [ErrSelectNodeScore])))"

subsection \<open>Passes\<close>

definition runPassForGroup :: "sim_env \<Rightarrow> node_scorer \<Rightarrow> view option \<Rightarrow> sim_group \<Rightarrow> sworld
    \<Rightarrow> (view option \<times> node_score option, sim_group \<times> sworld) eff option" where
  "runPassForGroup env scorer passView g s =
     map_option (\<lambda>res. bindE res (\<lambda>results (g, s).
       bindE (processScaleOutSimResults (seApprox env) (seRandom env (ssPasses (fst s))) scorer results, (g, s)) (\<lambda>r (g, s).
         case r of
           None \<Rightarrow> (Ok (passView, None), (g, s))
         | Some (winner, v) \<Rightarrow> (Ok (Some v, Some winner), (Group_Reset g, (fst s, resetSink v (snd s)))))))
     (Group_Run env (\<lambda>nm s. CreateSandboxView nm passView s) g s)"

definition countPass :: "sworld \<Rightarrow> sworld" where
  "countPass s = ((fst s)\<lparr>ssPasses := ssPasses (fst s) + 1\<rparr>, snd s)"

partial_function (option) runCycleLoop :: "sim_env \<Rightarrow> node_scorer \<Rightarrow> cycle_result \<Rightarrow> sim_group \<Rightarrow> sworld
    \<Rightarrow> (cycle_result, sim_group \<times> sworld) eff option" where
  "runCycleLoop env scorer cr g s =
     (case seDone env (ssPasses (fst s)) of
        Some e \<Rightarrow> Some (Err e, (g, s))
      | None \<Rightarrow>
          (case runPassForGroup env scorer (crNextGroupPassView cr) g s of
             None \<Rightarrow> None
           | Some (Err e, gs) \<Rightarrow> Some (Err e, gs)
           | Some (Panic p, gs) \<Rightarrow> Some (Panic p, gs)
           | Some (Ok (nextView, winner), (g, s)) \<Rightarrow>
               (case winner of
                  None \<Rightarrow> Some (Ok (cr\<lparr>crPassNum := crPassNum cr + 1, crNextGroupPassView := nextView\<rparr>), (g, countPass s))
                | Some score \<Rightarrow>
                    let cr = cr\<lparr>crPassNum := crPassNum cr + 1, crNextGroupPassView := nextView,
                          crWinnerNodeScores := crWinnerNodeScores cr @ [score],
                          crLeftoverUnscheduledPods := nscUnscheduledPods score\<rparr> in
                    if crLeftoverUnscheduledPods cr = [] then Some (Ok cr, (g, countPass s))
                    else runCycleLoop env scorer cr g (countPass s))))"

definition runStabilizationCycleForGroup :: "sim_env \<Rightarrow> node_scorer \<Rightarrow> view option \<Rightarrow> sim_group \<Rightarrow> sworld
    \<Rightarrow> (cycle_result, sim_group \<times> sworld) eff option" where
  "runStabilizationCycleForGroup env scorer passView g s = runCycleLoop env scorer
     \<lparr>crNextGroupPassView = passView, crWinnerNodeScores = [], crLeftoverUnscheduledPods = [], crPassNum = 0\<rparr> g s"

subsection \<open>The plan\<close>

definition groupNodeScoresByNodePlacement :: "node_score list \<Rightarrow> (node_placement, node_score list) gomap" where
  "groupNodeScoresByNodePlacement scores = fold (\<lambda>ns m.
     AList.update (nscPlacement ns) ((case map_of m (nscPlacement ns) of Some l \<Rightarrow> l | None \<Rightarrow> []) @ [ns]) m) scores []"

definition createScaleOutPlan :: "node_score list \<Rightarrow> (node_placement, 32 word) gomap \<Rightarrow> namespaced_name list \<Rightarrow> scale_out_plan" where
  "createScaleOutPlan winners existing leftover =
     \<lparr>sopUnsatisfiedPodNames = GetFullNames leftover,
      sopItems = map (\<lambda>(p, scores). \<lparr>soiPlacement = p,
          soiCurrentReplicas = (case map_of existing p of Some c \<Rightarrow> c | None \<Rightarrow> 0), soiDelta = of_nat (length scores)\<rparr>)
        (groupNodeScoresByNodePlacement winners)\<rparr>"

text \<open>\<open>time.Duration.String\<close>, on nanoseconds.\<close>

definition fracDigits :: "nat \<Rightarrow> nat \<Rightarrow> string" where
  "fracDigits prec v =
     (let ds = rev (dropWhile (\<lambda>c. c = CHR ''0'') (rev (map (\<lambda>i. char_of (48 + v div 10 ^ (prec - Suc i) mod 10)) [0..<prec])))
      in if ds = [] then [] else CHR ''.'' # ds)"

definition durationString :: "int \<Rightarrow> string" where
  "durationString d =
     (let u = nat (abs d);
          str = (if u = 0 then ''0s''
            else if u < 1000 then digits u @ ''ns''
            else if u < 1000000 then digits (u div 1000) @ fracDigits 3 (u mod 1000) @ [CHR 0xC2, CHR 0xB5] @ ''s''
            else if u < 1000000000 then digits (u div 1000000) @ fracDigits 6 (u mod 1000000) @ ''ms''
            else let secs = u div 1000000000; mins = secs div 60; hours = mins div 60 in
              (if 0 < hours then digits hours @ ''h'' else []) @ (if 0 < mins then digits (mins mod 60) @ ''m'' else []) @
              digits (secs mod 60) @ fracDigits 9 (u mod 1000000000) @ ''s'')
      in if d < 0 then CHR ''-'' # str else str)"

definition planLabels :: "request \<Rightarrow> 32 word \<Rightarrow> int \<Rightarrow> nat \<Rightarrow> labels" where
  "planLabels rq runs duration numPools =
     [(''sa.gardener.cloud/request-id'', rqID rq), (''sa.gardener.cloud/correlation-id'', rqCorrelationID rq),
      (''sa.gardener.cloud/total-simulation-runs'', formatU32 runs),
      (''sa.gardener.cloud/plan-generate-duration'', durationString duration),
      (''sa.gardener.cloud/snapshot-num-unscheduled-pods'', digits (length (GetUnscheduledPods (rqSnapshot rq)))),
      (''sa.gardener.cloud/constraint-num-pools'', digits numPools)]"

definition SendPlanError :: "goerr \<Rightarrow> plan_result list \<Rightarrow> plan_result list" where
  "SendPlanError e ch = ch @ [\<lparr>prError = AsGenError (Some e), prLabels = [], prScaleOutPlan = None\<rparr>]"

definition lastLeftover :: "cycle_result list \<Rightarrow> namespaced_name list" where
  "lastLeftover crs = (if crs = [] then [] else crLeftoverUnscheduledPods (last crs))"

definition SendPlanResult :: "cycle_result list \<Rightarrow> sworld \<Rightarrow> (unit, sworld) eff" where
  "SendPlanResult crs s = (case ssRequest (fst s) of
       None \<Rightarrow> (Panic ''nil pointer dereference'', s)
     | Some rq \<Rightarrow>
         bindE (GetNodeCountByPlacement (rqSnapshot rq), s) (\<lambda>existing s.
           let (t, m) = now (wMem (snd s)); s = (fst s, (snd s)\<lparr>wMem := m\<rparr>) in
           case rqNodePools rq of
             None \<Rightarrow> (Panic ''nil pointer dereference'', s)
           | Some pools \<Rightarrow>
               (Ok (), ((fst s)\<lparr>ssResultCh := ssResultCh (fst s) @ [\<lparr>prError = None,
                   prLabels = planLabels rq (ssSimRunCounter (fst s)) (t - rqCreationTime rq) (length pools),
                   prScaleOutPlan = Some (createScaleOutPlan (concat (map crWinnerNodeScores crs)) existing (lastLeftover crs))\<rparr>]\<rparr>,
                 snd s))))"

end
