(* ===== verification/Planner.thy ===== *)
theory Planner
  imports Simulator
begin

text \<open>
  The single-node simulator, \<open>src/planner/simulator/scaleout/singlenode\<close>, its factory, and the planner,
  \<open>src/planner/planner.go\<close>: from a request to the responses sent for it. A nil interface argument is
  \<open>None\<close>. Diagnostics (trace files, log objects) are off.
\<close>

subsection \<open>The simulator\<close>

record simulator_args =
  siConfig :: sim_config
  siStrategy :: strategy
  siViewAccess :: "view_access option"
  siSchedulerLauncher :: "launcher option"
  siStorageMetaAccess :: "storage_meta option"
  siNodeScorer :: "node_scorer option"

record simulator =
  smConfig :: sim_config
  smViewAccess :: view_access
  smSchedulerLauncher :: launcher
  smStorageMetaAccess :: storage_meta
  smNodeScorer :: node_scorer

definition argErr :: "goerr \<Rightarrow> string \<Rightarrow> goerr" where
  "argErr sentinel what = Wrapped what [sentinel]"

definition validateSimulatorArgs :: "simulator_args \<Rightarrow> unit outcome" where
  "validateSimulatorArgs args =
     (if siViewAccess args = None then Err (argErr ErrCreateSimulator ''view access is required'')
      else if siNodeScorer args = None then Err (argErr ErrCreateSimulator ''node scorer is required'')
      else if siSchedulerLauncher args = None then Err (argErr ErrCreateSimulator ''scheduler launcher is required'')
      else if siStorageMetaAccess args = None then Err (argErr ErrCreateSimulator ''storage meta access is required'')
      else Ok ())"

definition Simulator_New :: "simulator_args \<Rightarrow> simulator outcome" where
  "Simulator_New args = bindO (validateSimulatorArgs args) (\<lambda>_.
     Ok \<lparr>smConfig = siConfig args, smViewAccess = the (siViewAccess args), smSchedulerLauncher = the (siSchedulerLauncher args),
         smStorageMetaAccess = the (siStorageMetaAccess args), smNodeScorer = the (siNodeScorer args)\<rparr>)"

definition GetScaleOutSimulator :: "simulator_args \<Rightarrow> simulator outcome" where
  "GetScaleOutSimulator args = (case siStrategy args of
       SingleNodeMultiSim \<Rightarrow> Simulator_New args
     | MultiNodeSingleSim \<Rightarrow> Err (argErr (Sentinel ''ErrUnimplemented'') ''not yet implemented'')
     | OtherStrategy st \<Rightarrow> if st = [] then Err (argErr ErrCreateSimulator ''simulation strategy must be specified'')
         else Err (argErr (Sentinel ''ErrUnsupportedSimulatorStrategy'') ''unsupported simulation strategy''))"

definition simulationName :: "nat \<Rightarrow> node_placement \<Rightarrow> string" where
  "simulationName i p = ''sim-'' @ digits i @ ''_'' @ npPoolName p @ ''_'' @ npTemplateName p @ ''_'' @ npAvailabilityZone p"

definition simArgsFor :: "simulator \<Rightarrow> nat \<Rightarrow> scale_out_node_template \<Rightarrow> sim_args" where
  "simArgsFor sm i snt = \<lparr>saSchedulerLauncher = Some (smSchedulerLauncher sm), saStorageMetaAccess = smStorageMetaAccess sm,
     saName = simulationName i (sotPlacement snt), saStrategy = SingleNodeMultiSim, saNodeTemplates = [snt], saConfig = smConfig sm\<rparr>"

fun createSims :: "simulator \<Rightarrow> nat \<Rightarrow> scale_out_node_template list \<Rightarrow> simulation list outcome" where
  "createSims sm i [] = Ok []"
| "createSims sm i (t # ts) = bindO (NewDefault (simArgsFor sm i t)) (\<lambda>sim.
     bindO (createSims sm (Suc i) ts) (\<lambda>sims. Ok (sim # sims)))"

definition createAndGroupSimulations :: "simulator \<Rightarrow> request \<Rightarrow> sim_group list outcome" where
  "createAndGroupSimulations sm rq = (case rqNodePools rq of
       None \<Rightarrow> Panic ''nil pointer dereference''
     | Some pools \<Rightarrow> bindO (createSims sm 0 (CreateAllNodeTemplates pools)) (CreateScaleOutSimGroups (rqID rq)))"

definition setGroup :: "nat \<Rightarrow> sim_group \<Rightarrow> sworld \<Rightarrow> sworld" where
  "setGroup i g s = ((fst s)\<lparr>ssSimulationGroups := (ssSimulationGroups (fst s))[i := Some g]\<rparr>, snd s)"

definition modeIs :: "(string \<Rightarrow> bool) \<Rightarrow> sworld \<Rightarrow> bool" where
  "modeIs p s = (case ssRequest (fst s) of Some rq \<Rightarrow> p (rqAdviceGenerationMode rq) | None \<Rightarrow> False)"

definition finishGroups :: "node_score list \<Rightarrow> cycle_result list \<Rightarrow> sworld \<Rightarrow> (unit, sworld) eff" where
  "finishGroups winners crs s =
     (if winners = [] then (Err ErrNoScaleOutPlan, s)
      else if modeIs IsAllAtOnce s then SendPlanResult crs s else (Ok (), s))"

text \<open>The group index only moves on when a cycle of the group had no winner.\<close>

partial_function (option) groupsLoop :: "sim_env \<Rightarrow> node_scorer \<Rightarrow> nat \<Rightarrow> view option \<Rightarrow> node_score list \<Rightarrow> cycle_result list
    \<Rightarrow> sworld \<Rightarrow> (unit, sworld) eff option" where
  "groupsLoop env scorer i passView winners crs s =
     (if \<not> i < length (ssSimulationGroups (fst s)) then Some (finishGroups winners crs s)
      else case ssSimulationGroups (fst s) ! i of
        None \<Rightarrow> Some (Panic ''nil pointer dereference'', s)
      | Some g \<Rightarrow>
          (case runStabilizationCycleForGroup env scorer passView g s of
             None \<Rightarrow> None
           | Some (Err e, (g, s)) \<Rightarrow> Some (Err (Wrapped ''failed to run all passes for group'' [e]), setGroup i g s)
           | Some (Panic p, (g, s)) \<Rightarrow> Some (Panic p, setGroup i g s)
           | Some (Ok cr, (g, s)) \<Rightarrow>
               let s = setGroup i g s in
               if crWinnerNodeScores cr = []
               then groupsLoop env scorer (Suc i) (crNextGroupPassView cr) winners crs s
               else (case (if modeIs IsIncremental s then SendPlanResult [cr] s else (Ok (), s)) of
                    (Err e, s) \<Rightarrow> Some (Err e, s)
                  | (Panic p, s) \<Rightarrow> Some (Panic p, s)
                  | (Ok _, s) \<Rightarrow>
                      if crLeftoverUnscheduledPods cr = []
                      then Some (finishGroups (winners @ crWinnerNodeScores cr) (crs @ [cr]) s)
                      else groupsLoop env scorer i (crNextGroupPassView cr) (winners @ crWinnerNodeScores cr) (crs @ [cr]) s)))"

definition runStabilizationCyclesForAllGroups :: "sim_env \<Rightarrow> node_scorer \<Rightarrow> sworld \<Rightarrow> (unit, sworld) eff option" where
  "runStabilizationCyclesForAllGroups env scorer s = groupsLoop env scorer 0 (RequestView (fst s)) [] [] s"

definition doSimulate :: "sim_env \<Rightarrow> simulator \<Rightarrow> sworld \<Rightarrow> (unit, sworld) eff option" where
  "doSimulate env sm s = (case ssRequest (fst s) of
       None \<Rightarrow> Some (Panic ''nil pointer dereference'', s)
     | Some rq \<Rightarrow>
         (case bindE (InitializeRequestView env s) (\<lambda>_ s. bindE (createAndGroupSimulations sm rq, s) (\<lambda>groups s.
              (Ok (), ((fst s)\<lparr>ssSimulationGroups := map Some groups\<rparr>, snd s)))) of
            (Err e, s) \<Rightarrow> Some (Err e, s)
          | (Panic p, s) \<Rightarrow> Some (Panic p, s)
          | (Ok _, s) \<Rightarrow> runStabilizationCyclesForAllGroups env (smNodeScorer sm) s))"

definition Simulate :: "sim_env \<Rightarrow> simulator \<Rightarrow> request \<Rightarrow> world \<Rightarrow> (unit, sworld) eff option" where
  "Simulate env sm rq w = map_option (\<lambda>(res, s). case res of
       Err e \<Rightarrow> (Ok (), ((fst s)\<lparr>ssResultCh := SendPlanError e (ssResultCh (fst s))\<rparr>, snd s))
     | _ \<Rightarrow> (res, s))
     (doSimulate env sm (NewSimulatorState rq (smConfig sm) (smViewAccess sm), w))"

subsection \<open>The planner\<close>

record planner_args =
  paViewAccess :: "view_access option"
  paResourceWeigher :: "weigher option"
  paPricingAccess :: "pricing_access option"
  paSchedulerLauncher :: "launcher option"
  paStorageMetaAccess :: "storage_meta option"
  paSimulatorFactory :: "(simulator_args \<Rightarrow> simulator outcome) option"
  paSimulationFactory :: bool     \<comment> \<open>set or nil; the simulator calls the default one\<close>
  paSimulatorConfig :: sim_config

record response =
  rsRequestID :: string
  rsCorrelationID :: string
  rsError :: "goerr option"
  rsLabels :: labels
  rsScaleOutPlan :: "scale_out_plan option"
  rsID :: string

definition ErrCreatePlanner :: goerr where "ErrCreatePlanner = Sentinel ''ErrCreatePlanner''"
definition ErrInvalidRequest :: goerr where "ErrInvalidRequest = Sentinel ''ErrInvalidRequest''"

definition validateArgs :: "planner_args \<Rightarrow> unit outcome" where
  "validateArgs args =
     (if paResourceWeigher args = None then Err (argErr ErrCreatePlanner ''resourceWeigher must be set'')
      else if paViewAccess args = None then Err (argErr ErrCreatePlanner ''viewAccess must be set'')
      else if paPricingAccess args = None then Err (argErr ErrCreatePlanner ''pricingAccess must be set'')
      else if paSchedulerLauncher args = None then Err (argErr ErrCreatePlanner ''schedulerLauncher must be set'')
      else if paStorageMetaAccess args = None then Err (argErr ErrCreatePlanner ''storageMetaAccess must be set'')
      else if paSimulatorFactory args = None then Err (argErr ErrCreatePlanner ''simulatorFactory must be set'')
      else if \<not> paSimulationFactory args then Err (argErr ErrCreatePlanner ''simulationFactory must be set'')
      else Ok ())"

definition NewPlanner :: "planner_args \<Rightarrow> planner_args outcome" where
  "NewPlanner args = bindO (validateArgs args) (\<lambda>_. Ok args)"

definition validateRequest :: "request \<Rightarrow> unit outcome" where
  "validateRequest rq =
     (if rqCreationTime rq = 0 then Err (argErr ErrInvalidRequest ''createdTime not set'')
      else if rqAdviceGenerationMode rq \<notin> {''incremental'', ''all-at-once''}
      then Err (argErr ErrInvalidRequest ''unsupported advice generation mode'') else Ok ())"

definition responseOf :: "request \<Rightarrow> string \<Rightarrow> plan_result \<Rightarrow> response" where
  "responseOf rq rid pr = \<lparr>rsRequestID = rqID rq, rsCorrelationID = rqCorrelationID rq, rsError = prError pr,
     rsLabels = prLabels pr, rsScaleOutPlan = prScaleOutPlan pr, rsID = rid\<rparr>"

text \<open>The error response carries no reference to its request.\<close>

definition SendErrorResponse :: "string \<Rightarrow> goerr \<Rightarrow> response" where
  "SendErrorResponse rid e = \<lparr>rsRequestID = [], rsCorrelationID = [], rsError = AsGenError (Some e), rsLabels = [],
     rsScaleOutPlan = None, rsID = rid\<rparr>"

definition simulatorFor :: "planner_args \<Rightarrow> request \<Rightarrow> simulator outcome" where
  "simulatorFor args rq = bindO (validateRequest rq) (\<lambda>_.
     case (paSimulatorFactory args, paPricingAccess args, paResourceWeigher args) of
       (Some factory, Some pricing, Some weigher) \<Rightarrow>
         bindO (wrapErr (\<lambda>e. Wrapped ''GetNodeScorer'' [ErrCreateSimulator, e])
                 (GetNodeScorer (rqScoringStrategy rq) pricing weigher)) (\<lambda>scorer.
           factory \<lparr>siConfig = paSimulatorConfig args, siStrategy = rqSimulatorStrategy rq, siViewAccess = paViewAccess args,
             siSchedulerLauncher = paSchedulerLauncher args, siStorageMetaAccess = paStorageMetaAccess args,
             siNodeScorer = Some scorer\<rparr>)
     | _ \<Rightarrow> Panic ''nil pointer dereference'')"

text \<open>
  \<open>Plan\<close>: the responses sent for a request. \<open>stop\<close> is how many results are read before the context is
  done, if it is; \<open>rid i\<close> is the generated identifier of the \<open>i\<close>-th response.
\<close>

definition Plan :: "planner_args \<Rightarrow> sim_env \<Rightarrow> (nat \<times> goerr) option \<Rightarrow> (nat \<Rightarrow> string) \<Rightarrow> request \<Rightarrow> world
    \<Rightarrow> (response list, world) eff option" where
  "Plan args env stop rid rq w = (case simulatorFor args rq of
       Err e \<Rightarrow> Some (Ok [SendErrorResponse (rid 0) e], w)
     | Panic p \<Rightarrow> Some (Panic p, w)
     | Ok sm \<Rightarrow>
         map_option (\<lambda>(res, s). mapState snd (bindE (res, s) (\<lambda>_ s. bindE (SimulatorState_Reset s) (\<lambda>_ s'.
           let rs = map (\<lambda>(i, pr). responseOf rq (rid i) pr) (enumerate 0 (ssResultCh (fst s))) in
           (Ok (case stop of None \<Rightarrow> rs | Some (n, e) \<Rightarrow> take n rs @ [SendErrorResponse (rid (length rs)) e]), s')))))
         (Simulate env sm rq w))"

end
