(* ===== verification/SimulatorProps.thy ===== *)
theory SimulatorProps
  imports ScoreProps Planner
begin

text \<open>
  Properties of the scale-out simulator: the plan made of the winners, the choice of the winner of a
  pass and of its view, the groups of simulations, and the end of the passes.
\<close>

subsection \<open>The plan\<close>

definition groupedScores :: "node_score list \<Rightarrow> node_placement \<Rightarrow> node_score list" where
  "groupedScores scores p = filter (\<lambda>s. nscPlacement s = p) scores"

lemma groupNodeScores_map_of:
  "map_of (groupNodeScoresByNodePlacement scores) p =
     (if groupedScores scores p = [] then None else Some (groupedScores scores p))"
  by (induction scores rule: rev_induct)
    (auto simp: groupNodeScoresByNodePlacement_def groupedScores_def update_conv')

lemma groupNodeScores_wf: "wf_map (groupNodeScoresByNodePlacement scores)"
  by (induction scores rule: rev_induct) (simp_all add: groupNodeScoresByNodePlacement_def)

lemma groupNodeScores_set:
  "(p, l) \<in> set (groupNodeScoresByNodePlacement scores) \<longleftrightarrow> l = groupedScores scores p \<and> l \<noteq> []"
  unfolding in_set_map_of [OF groupNodeScores_wf] groupNodeScores_map_of by auto

lemma groupNodeScores_keys: "fst ` set (groupNodeScoresByNodePlacement scores) = nscPlacement ` set scores"
proof (intro set_eqI)
  fix p
  have "p \<in> fst ` set (groupNodeScoresByNodePlacement scores) \<longleftrightarrow> groupedScores scores p \<noteq> []"
    by (simp add: image_iff groupNodeScores_set Bex_def)
  then show "p \<in> fst ` set (groupNodeScoresByNodePlacement scores) \<longleftrightarrow> p \<in> nscPlacement ` set scores"
    by (auto simp: groupedScores_def filter_empty_conv)
qed

text \<open>The sizes of the groups add up.\<close>

lemma sum_length_filter:
  assumes "finite A"
  shows "f ` set xs \<subseteq> A \<Longrightarrow> (\<Sum>p\<in>A. length (filter (\<lambda>x. f x = p) xs)) = length xs"
proof (induction xs)
  case (Cons x xs)
  have "(\<Sum>p\<in>A. length (filter (\<lambda>x. f x = p) (x # xs))) =
      (\<Sum>p\<in>A. (if p = f x then 1 else 0) + length (filter (\<lambda>x. f x = p) xs))"
    by (rule sum.cong) auto
  then show ?case using Cons assms by (simp add: sum.distrib)
qed simp

lemma groupNodeScores_length:
  "(\<Sum>(p, l)\<leftarrow>groupNodeScoresByNodePlacement scores. length l) = length scores"
proof -
  let ?m = "groupNodeScoresByNodePlacement scores"
  have "(\<Sum>(p, l)\<leftarrow>?m. length l) = (\<Sum>p\<leftarrow>map fst ?m. length (groupedScores scores p))"
    unfolding map_map by (rule arg_cong [where f = sum_list], rule map_cong) (auto simp: groupNodeScores_set)
  also have "\<dots> = (\<Sum>p\<in>nscPlacement ` set scores. length (groupedScores scores p))"
    using groupNodeScores_wf [of scores]
    by (simp only: sum_list_distinct_conv_sum_set set_map groupNodeScores_keys)
  also have "\<dots> = length scores"
    unfolding groupedScores_def by (rule sum_length_filter) simp_all
  finally show ?thesis .
qed

subsection \<open>Choosing the winner\<close>

lemma computeScores_Ok:
  "computeScores compute results = Ok scores \<Longrightarrow>
     \<exists>argss. list_all2 (\<lambda>args s. compute args = Ok s) argss scores \<and>
       list_all2 (\<lambda>sr args. mapSimulationResultToNodeScoreArgs sr = Ok args)
         (filter (\<lambda>sr. srNodePodAssignments sr \<noteq> []) results) argss"
proof (induction results arbitrary: scores)
  case (Cons sr srs)
  show ?case
  proof (cases "srNodePodAssignments sr = []")
    case False
    then obtain args s ss where *: "mapSimulationResultToNodeScoreArgs sr = Ok args" "compute args = Ok s"
        "computeScores compute srs = Ok ss" "scores = s # ss"
      using Cons.prems by (auto simp: bindO_eq_Ok wrapErr_eq_Ok)
    from Cons.IH [OF *(3)] obtain argss where "list_all2 (\<lambda>args s. compute args = Ok s) argss ss"
        "list_all2 (\<lambda>sr args. mapSimulationResultToNodeScoreArgs sr = Ok args) (filter (\<lambda>sr. srNodePodAssignments sr \<noteq> []) srs) argss"
      by blast
    with * False show ?thesis by (intro exI [of _ "args # argss"]) simp
  qed (use Cons in simp)
qed simp

lemma computeScores_Err:
  "computeScores compute results = Err e \<Longrightarrow> \<exists>sr\<in>set results. srNodePodAssignments sr \<noteq> [] \<and>
     (\<exists>args e'. mapSimulationResultToNodeScoreArgs sr = Ok args \<and> compute args = Err e' \<and>
       e = Wrapped ''node scoring failed'' [ErrComputeNodeScore, e'])"
  by (induction results)
    (auto simp: bindO_def wrapErr_def mapSimulationResultToNodeScoreArgs_def split: if_splits outcome.splits list.splits)

lemma mapSimulationResultToNodeScoreArgs_Ok:
  "mapSimulationResultToNodeScoreArgs sr = Ok args \<Longrightarrow> nsaID args = srName sr \<and>
     nsaScaledNodePlacement args = soiPlacement (hd (srItems sr)) \<and>
     nsaLeftOverUnscheduledPods args = srLeftoverUnscheduledPods sr"
  by (auto simp: mapSimulationResultToNodeScoreArgs_def split: list.splits)

lemma list_all2_member: "list_all2 P xs ys \<Longrightarrow> y \<in> set ys \<Longrightarrow> \<exists>x\<in>set xs. P x y"
  by (induction rule: list_all2_induct) auto

lemma find_by_name:
  assumes "distinct (map f xs)" "x \<in> set xs"
  shows "find (\<lambda>y. f y = f x) xs = Some x"
  using assms by (induction xs) (auto simp: image_iff)


text \<open>The error a pass can end with, and what a winner tells about the results.\<close>

definition selectionFailed :: "(quantity \<Rightarrow> float64) \<Rightarrow> nat \<Rightarrow> node_scorer \<Rightarrow> goerr \<Rightarrow> bool" where
  "selectionFailed approx rnd scorer e \<longleftrightarrow> (\<exists>scores e'. fst (Select approx rnd scorer scores) = Err e' \<and>
     e = Wrapped ''node score selection failed'' [ErrSelectNodeScore, e'])"

lemma winner_result:
  assumes "computeScores (Compute approx scorer) results = Ok scores" "fst (Select approx rnd scorer scores) = Ok winner"
  shows "\<exists>sr\<in>set results. srName sr = nscName winner \<and> srNodePodAssignments sr \<noteq> [] \<and>
    nscPlacement winner = soiPlacement (hd (srItems sr)) \<and> nscUnscheduledPods winner = srLeftoverUnscheduledPods sr"
proof -
  obtain argss where a: "list_all2 (\<lambda>args s. Compute approx scorer args = Ok s) argss scores"
      and r: "list_all2 (\<lambda>sr args. mapSimulationResultToNodeScoreArgs sr = Ok args)
        (filter (\<lambda>sr. srNodePodAssignments sr \<noteq> []) results) argss"
    using computeScores_Ok [OF assms(1)] by blast
  obtain args where args: "args \<in> set argss" "Compute approx scorer args = Ok winner"
    using ns.winner_origin [OF a assms(2)] by blast
  then obtain sr where "sr \<in> set results" "srNodePodAssignments sr \<noteq> []" "mapSimulationResultToNodeScoreArgs sr = Ok args"
    using list_all2_member [OF r] by auto
  with ns.compute_id [OF args(2)] mapSimulationResultToNodeScoreArgs_Ok [of sr args] show ?thesis by auto
qed

subsection \<open>Groups\<close>

definition simKey :: "simulation \<Rightarrow> priority_key" where
  "simKey sim = sotPriorityKey (hd (saNodeTemplates (simArgs sim)))"

lemma Simulation_PriorityKey_simKey: "saNodeTemplates (simArgs sim) \<noteq> [] \<Longrightarrow> Simulation_PriorityKey sim = Ok (simKey sim)"
  by (cases "saNodeTemplates (simArgs sim)") (simp_all add: Simulation_PriorityKey_def simKey_def)

text \<open>A map of groups that holds exactly the simulations seen, each under its key.\<close>

definition groups_of :: "string \<Rightarrow> simulation list \<Rightarrow> (priority_key, sim_group) gomap \<Rightarrow> bool" where
  "groups_of ref sims m \<longleftrightarrow> wf_map m \<and> (\<forall>pk. case map_of m pk of
       None \<Rightarrow> \<forall>sim\<in>set sims. simKey sim \<noteq> pk
     | Some g \<Rightarrow> sgKey g = pk \<and> sgRequestID g = ref \<and> sgSimulations g = filter (\<lambda>sim. simKey sim = pk) sims \<and>
         sgSimulations g \<noteq> [])"

lemma groups_of_entry:
  assumes "groups_of ref sims m" "(pk, g) \<in> set m"
  shows "sgKey g = pk" "sgRequestID g = ref" "sgSimulations g = filter (\<lambda>sim. simKey sim = pk) sims" "sgSimulations g \<noteq> []"
proof -
  have "map_of m pk = Some g" using assms by (simp add: groups_of_def)
  with assms(1) [unfolded groups_of_def, THEN conjunct2, THEN spec, of pk]
  show "sgKey g = pk" "sgRequestID g = ref" "sgSimulations g = filter (\<lambda>sim. simKey sim = pk) sims" "sgSimulations g \<noteq> []"
    by (simp_all, auto)
qed

lemma groups_of_keys:
  assumes "groups_of ref sims m"
  shows "fst ` set m = simKey ` set sims"
proof (intro equalityI subsetI)
  fix pk assume "pk \<in> fst ` set m"
  then obtain g where "(pk, g) \<in> set m" by force
  from groups_of_entry(3,4) [OF assms this] show "pk \<in> simKey ` set sims" by (auto simp: filter_empty_conv)
next
  fix pk assume "pk \<in> simKey ` set sims"
  then have "map_of m pk \<noteq> None" using assms by (fastforce simp: groups_of_def split: option.splits)
  then show "pk \<in> fst ` set m" by (simp add: map_of_eq_None_iff)
qed

lemma groups_of_snoc:
  assumes "groups_of ref sims m" "sgKey g = simKey sim" "sgRequestID g = ref"
    and "sgSimulations g = filter (\<lambda>s. simKey s = simKey sim) sims"
  shows "groups_of ref (sims @ [sim]) (AList.update (simKey sim) (AddSimulation sim g) m)"
  using assms by (auto simp: groups_of_def AddSimulation_def update_conv' simp del: map_of_eq_Some_iff split: option.splits)
    (metis option.distinct(1))

lemma groupSims_ok:
  "\<forall>sim\<in>set sims. saNodeTemplates (simArgs sim) \<noteq> [] \<Longrightarrow> groups_of ref done' m \<Longrightarrow>
     \<exists>m'. groupSims ref sims n m = Ok m' \<and> groups_of ref (done' @ sims) m'"
proof (induction sims arbitrary: done' n m)
  case (Cons sim sims)
  have k: "Simulation_PriorityKey sim = Ok (simKey sim)" using Cons.prems(1) by (simp add: Simulation_PriorityKey_simKey)
  have rest: "\<exists>m'. groupSims ref sims n' (AList.update (simKey sim) (AddSimulation sim g) m) = Ok m' \<and>
      groups_of ref (done' @ sim # sims) m'"
    if "sgKey g = simKey sim" "sgRequestID g = ref" "sgSimulations g = filter (\<lambda>s. simKey s = simKey sim) done'" for g n'
    using Cons.IH [OF _ groups_of_snoc [OF Cons.prems(2) that]] Cons.prems(1) by simp
  show ?case
  proof (cases "map_of m (simKey sim)")
    case None
    then have "filter (\<lambda>s. simKey s = simKey sim) done' = []"
      using Cons.prems(2) by (auto simp: groups_of_def filter_empty_conv dest!: spec [of _ "simKey sim"])
    then show ?thesis using None k rest by (simp add: NewGroup_def)
  next
    case (Some g)
    then show ?thesis using Cons.prems(2) k rest by (fastforce simp: groups_of_def dest!: spec [of _ "simKey sim"])
  qed
qed simp

interpretation gd: three_way CmpScaleOutSimGroup
  by unfold_locales (auto simp: CmpScaleOutSimGroup_def)

lemma computeScores_Panic:
  "computeScores compute results = Panic p \<Longrightarrow> \<exists>sr\<in>set results. srNodePodAssignments sr \<noteq> [] \<and>
     (srItems sr = [] \<or> (\<exists>args. mapSimulationResultToNodeScoreArgs sr = Ok args \<and> compute args = Panic p))"
  by (induction results)
    (auto simp: bindO_def wrapErr_def mapSimulationResultToNodeScoreArgs_def split: if_splits outcome.splits list.splits)

text \<open>
  C18. The plan made of the winners of all passes: it has one item for each placement that won, no
  placement twice; the delta of an item is how often its placement won, its replicas are the nodes the
  snapshot already has there; the deltas add up to the number of winners; and the pods left over are
  named as unsatisfied. (Below \<open>2\<^sup>3\<^sup>1\<close> winners: the delta is a 32-bit integer.)
\<close>

theorem createScaleOutPlan_exact:
  fixes winners :: "node_score list" and existing :: "(node_placement, 32 word) gomap" and leftover :: "namespaced_name list"
  assumes "length winners < 2 ^ 31"
  defines "plan \<equiv> createScaleOutPlan winners existing leftover"
  shows "distinct (map soiPlacement (sopItems plan)) \<and>
    set (sopItems plan) = (\<lambda>p. \<lparr>soiPlacement = p, soiCurrentReplicas = (case map_of existing p of Some c \<Rightarrow> c | None \<Rightarrow> 0),
      soiDelta = of_nat (length (filter (\<lambda>s. nscPlacement s = p) winners))\<rparr>) ` nscPlacement ` set winners \<and>
    (\<forall>i\<in>set (sopItems plan). 0 < sint (soiDelta i)) \<and>
    (\<Sum>i\<leftarrow>sopItems plan. sint (soiDelta i)) = int (length winners) \<and>
    sopUnsatisfiedPodNames plan = map namespacedNameString leftover"
proof -
  let ?m = "groupNodeScoresByNodePlacement winners"
  let ?item = "\<lambda>p l. \<lparr>soiPlacement = p, soiCurrentReplicas = (case map_of existing p of Some c \<Rightarrow> c | None \<Rightarrow> 0),
      soiDelta = of_nat (length l)\<rparr> :: scale_out_item"
  have items: "sopItems plan = map (\<lambda>(p, l). ?item p l) ?m" by (simp add: plan_def createScaleOutPlan_def)
  have delta: "sint (of_nat (length l) :: 32 word) = int (length l)" "l \<noteq> []" if "(p, l) \<in> set ?m" for p l
  proof -
    have l: "l = groupedScores winners p" "l \<noteq> []" using that by (auto simp: groupNodeScores_set)
    then show "l \<noteq> []" by simp
    have "length l < 2 ^ 31" using l(1) assms(1) length_filter_le [of _ winners] le_less_trans
      unfolding groupedScores_def by blast
    then show "sint (of_nat (length l) :: 32 word) = int (length l)"
      by (simp add: signed_of_nat signed_take_bit_int_eq_self)
  qed
  have sum_int: "(\<Sum>(p, l)\<leftarrow>xs. int (length l)) = int (\<Sum>(p, l)\<leftarrow>xs. length l)" for xs :: "(node_placement \<times> node_score list) list"
    by (induction xs) auto
  have "map soiPlacement (sopItems plan) = map fst ?m" by (auto simp: items)
  moreover have "set (sopItems plan) = (\<lambda>p. ?item p (groupedScores winners p)) ` fst ` set ?m"
    unfolding items set_map image_image
    by (rule image_cong) (auto simp: groupNodeScores_set)
  moreover have "(\<Sum>i\<leftarrow>sopItems plan. sint (soiDelta i)) = (\<Sum>(p, l)\<leftarrow>?m. int (length l))"
    unfolding items map_map by (rule arg_cong [where f = sum_list], rule map_cong) (auto simp: delta)
  moreover have "(\<Sum>(p, l)\<leftarrow>?m. int (length l)) = int (length winners)"
    using sum_int [of ?m] groupNodeScores_length [of winners] by simp
  moreover have "\<forall>i\<in>set (sopItems plan). 0 < sint (soiDelta i)" using delta by (auto simp: items)
  moreover have "sopUnsatisfiedPodNames plan = map namespacedNameString leftover"
    by (simp add: plan_def createScaleOutPlan_def GetFullNames_def)
  ultimately show ?thesis using groupNodeScores_wf [of winners] by (simp add: groupNodeScores_keys groupedScores_def)
qed

theorem createScaleOutPlan_exact_witness:
  "(\<Sum>i\<leftarrow>sopItems (createScaleOutPlan [mkScore (demoArgs ''small'') demoAssignment 1, mkScore (demoArgs ''large'') demoAssignment 2,
      mkScore (demoArgs ''small'') demoAssignment 1] [(demoPlacement ''large'', 5)] []). sint (soiDelta i)) = 3"
  using createScaleOutPlan_exact [of "[mkScore (demoArgs ''small'') demoAssignment 1, mkScore (demoArgs ''large'') demoAssignment 2,
      mkScore (demoArgs ''small'') demoAssignment 1]" "[(demoPlacement ''large'', 5)]" "[]"] by simp

text \<open>
  C19. Choosing the winner of a pass. With simulations of distinct names, all with a view, a pass has no
  winner only if no simulation scheduled a pod on its new node. A winner is the score of one of these
  simulations: it has that simulation's placement and left-over pods, and the view handed to the next
  pass is that simulation's sandbox. A winner without view is no possible error: a pass fails only
  with an error of the scorer or of the selection.
\<close>

theorem processScaleOutSimResults_winner:
  assumes "distinct (map srName results)" "\<forall>sr\<in>set results. srView sr \<noteq> None"
  shows "case processScaleOutSimResults approx rnd scorer results of
      Ok None \<Rightarrow> \<forall>sr\<in>set results. srNodePodAssignments sr = []
    | Ok (Some (winner, v)) \<Rightarrow> \<exists>sr\<in>set results. srName sr = nscName winner \<and> srView sr = Some v \<and>
        srNodePodAssignments sr \<noteq> [] \<and> nscPlacement winner = soiPlacement (hd (srItems sr)) \<and>
        nscUnscheduledPods winner = srLeftoverUnscheduledPods sr
    | Err e \<Rightarrow> selectionFailed approx rnd scorer e \<or> (\<exists>sr\<in>set results. srNodePodAssignments sr \<noteq> [] \<and>
        (\<exists>args e'. mapSimulationResultToNodeScoreArgs sr = Ok args \<and> Compute approx scorer args = Err e' \<and>
          e = Wrapped ''node scoring failed'' [ErrComputeNodeScore, e']))
    | Panic p \<Rightarrow> (\<exists>scores. fst (Select approx rnd scorer scores) = Panic p) \<or>
        (\<exists>sr\<in>set results. srNodePodAssignments sr \<noteq> [] \<and> (srItems sr = [] \<or>
          (\<exists>args. mapSimulationResultToNodeScoreArgs sr = Ok args \<and> Compute approx scorer args = Panic p)))"
proof (cases "computeScores (Compute approx scorer) results")
  case (Err e)
  then show ?thesis using computeScores_Err [OF Err] by (simp add: processScaleOutSimResults_def)
next
  case (Panic p)
  then show ?thesis using computeScores_Panic [OF Panic] by (simp add: processScaleOutSimResults_def)
next
  case (Ok scores)
  show ?thesis
  proof (cases "fst (Select approx rnd scorer scores)")
    case sel: (Ok winner)
    obtain sr where sr: "sr \<in> set results" "srName sr = nscName winner" "srNodePodAssignments sr \<noteq> []"
        "nscPlacement winner = soiPlacement (hd (srItems sr))" "nscUnscheduledPods winner = srLeftoverUnscheduledPods sr"
      using winner_result [OF Ok sel] by blast
    moreover obtain v where "srView sr = Some v" using assms(2) sr(1) by blast
    moreover have "find (\<lambda>sr. srName sr = nscName winner) results = Some sr"
      using find_by_name [OF assms(1) sr(1)] sr(2) by simp
    moreover have "scores \<noteq> []" using Select_member [OF sel] by auto
    ultimately show ?thesis using Ok sel by (auto simp: processScaleOutSimResults_def)
  next
    case (Err e)
    then show ?thesis using Ok computeScores_Ok [OF Ok]
      by (auto simp: processScaleOutSimResults_def selectionFailed_def filter_empty_conv)
  next
    case (Panic p)
    then show ?thesis using Ok computeScores_Ok [OF Ok]
      by (auto simp: processScaleOutSimResults_def filter_empty_conv)
  qed
qed

definition demoSimResult :: "string \<Rightarrow> sim_result" where
  "demoSimResult it = \<lparr>srName = it, srView = Some demoSandbox,
     srItems = [\<lparr>soiPlacement = demoPlacement it, soiCurrentReplicas = 0, soiDelta = 1\<rparr>],
     srNodePodAssignments = [demoAssignment], srOtherNodePodAssignments = [], srLeftoverUnscheduledPods = []\<rparr>"

theorem processScaleOutSimResults_winner_witness:
  "\<exists>winner. processScaleOutSimResults of_int 0 (demoScorer LeastCost)
      [demoSimResult ''small'', (demoSimResult ''large'')\<lparr>srNodePodAssignments := []\<rparr>] = Ok (Some (winner, demoSandbox)) \<and>
    nscPlacement winner = demoPlacement ''small''"
proof -
  let ?rs = "[demoSimResult ''small'', (demoSimResult ''large'')\<lparr>srNodePodAssignments := []\<rparr>]"
  let ?sc = "demoScorer LeastCost"
  have rs: "distinct (map srName ?rs)" "\<forall>sr\<in>set ?rs. srView sr \<noteq> None" "srNodePodAssignments (hd ?rs) \<noteq> []"
    by (simp_all add: demoSimResult_def)
  have args: "mapSimulationResultToNodeScoreArgs (demoSimResult it) = Ok (demoArgs it)" for it
    by (simp add: mapSimulationResultToNodeScoreArgs_def demoSimResult_def demoArgs_def)
  obtain a where a: "Compute of_int ?sc (demoArgs ''small'') = Ok a"
    by (simp add: Compute_def LeastCost_Compute_def demo_score_defs GetWeights_def computeErr_def Let_def)
  have "computeScores (Compute of_int ?sc) ?rs = Ok [a]" using a rs(3) by (simp add: args)
  moreover have "fst (Select of_int 0 ?sc [a]) = Ok a" by (simp add: Select_def demoScorer_def LeastCost_Select_def)
  moreover have "nscName a = ''small''" "nscPlacement a = demoPlacement ''small''"
    using ns.compute_id [OF a] by (simp_all add: demoArgs_def)
  ultimately have "processScaleOutSimResults of_int 0 ?sc ?rs = Ok (Some (a, demoSandbox))"
    by (simp add: processScaleOutSimResults_def) (simp add: demoSimResult_def)
  moreover from this processScaleOutSimResults_winner [OF rs(1,2), of of_int 0 ?sc]
  have "nscPlacement a = demoPlacement ''small''" by (auto simp: demoSimResult_def)
  ultimately show ?thesis by blast
qed

text \<open>
  C27. Grouping the simulations by priority never fails and loses none: there is one group for each
  priority, in strictly decreasing order of priority, and a group holds exactly the simulations of its
  priority, in the order they were created.
\<close>

theorem CreateScaleOutSimGroups_partition:
  assumes "\<forall>sim\<in>set sims. saNodeTemplates (simArgs sim) \<noteq> []"
  shows "\<exists>groups. CreateScaleOutSimGroups ref sims = Ok groups \<and> sorted_wrt (\<lambda>a b. sgKey b < sgKey a) groups \<and>
    sgKey ` set groups = simKey ` set sims \<and>
    (\<forall>g\<in>set groups. sgRequestID g = ref \<and> sgSimulations g = filter (\<lambda>sim. simKey sim = sgKey g) sims)"
proof -
  have "groups_of ref [] []" by (simp add: groups_of_def)
  from groupSims_ok [OF assms this, of 0] obtain m where m: "groupSims ref sims 0 [] = Ok m" "groups_of ref sims m" by auto
  let ?gs = "SortStableFunc CmpScaleOutSimGroup (map snd m)"
  have entry: "sgKey g = pk \<and> sgRequestID g = ref \<and> sgSimulations g = filter (\<lambda>sim. simKey sim = pk) sims"
    if "(pk, g) \<in> set m" for pk g
    using groups_of_entry [OF m(2) that] by simp
  have keys: "map sgKey (map snd m) = map fst m" using entry by auto
  have "fst ` set m = simKey ` set sims" by (rule groups_of_keys [OF m(2)])
  then have "sgKey ` set ?gs = simKey ` set sims"
    using arg_cong [OF keys, of set] by (simp add: gd.set_SortStableFunc image_image)
  moreover have "sorted_wrt (\<lambda>a b. sgKey b < sgKey a) ?gs"
  proof -
    have "mset (map sgKey ?gs) = mset (map fst m)" using gd.mset_SortStableFunc [of "map snd m"] keys by (metis mset_map)
    then have "distinct (map sgKey ?gs)" using m(2) mset_eq_imp_distinct_iff unfolding groups_of_def by blast
    then have "sorted_wrt (\<lambda>a b. sgKey a \<noteq> sgKey b) ?gs" by (simp add: sorted_wrt_iff_nth_less distinct_conv_nth)
    then show ?thesis using gd.sorted_SortStableFunc [of "map snd m"]
      unfolding sorted_wrt_iff_nth_less CmpScaleOutSimGroup_def CmpPriorityKeyDecreasing_le by (metis order_le_neq_trans)
  qed
  moreover have "\<forall>g\<in>set ?gs. sgRequestID g = ref \<and> sgSimulations g = filter (\<lambda>sim. simKey sim = sgKey g) sims"
    using entry by (auto simp: gd.set_SortStableFunc)
  ultimately show ?thesis using m(1) by (simp add: CreateScaleOutSimGroups_def)
qed

definition demoSim :: "string \<Rightarrow> int \<Rightarrow> simulation" where
  "demoSim nm prio = demoSimulation\<lparr>simArgs := demoSimArgs\<lparr>saName := nm,
     saNodeTemplates := [demoTemplate\<lparr>sotPriorityKey := PriorityKey prio 0\<rparr>]\<rparr>\<rparr>"

theorem CreateScaleOutSimGroups_partition_witness:
  "\<exists>a b. CreateScaleOutSimGroups ''r'' [demoSim ''x'' 1, demoSim ''y'' 2, demoSim ''z'' 1] = Ok [a, b] \<and>
     sgSimulations a = [demoSim ''y'' 2] \<and> sgSimulations b = [demoSim ''x'' 1, demoSim ''z'' 1]"
proof -
  let ?sims = "[demoSim ''x'' 1, demoSim ''y'' 2, demoSim ''z'' 1]"
  have tmpl: "saNodeTemplates (simArgs (demoSim nm i)) \<noteq> []" for nm i by (simp add: demoSim_def)
  have k: "simKey (demoSim nm i) = PriorityKey i 0" for nm i by (simp add: simKey_def demoSim_def)
  obtain gs where gs: "CreateScaleOutSimGroups ''r'' ?sims = Ok gs" "sorted_wrt (\<lambda>a b. sgKey b < sgKey a) gs"
      "sgKey ` set gs = {PriorityKey 1 0, PriorityKey 2 0}"
      "\<forall>g\<in>set gs. sgSimulations g = filter (\<lambda>sim. simKey sim = sgKey g) ?sims"
    using CreateScaleOutSimGroups_partition [of ?sims "''r''"] by (auto simp: k insert_commute tmpl)
  have "rev (map sgKey gs) = [PriorityKey 1 0, PriorityKey 2 0]"
    by (rule strict_sorted_equal) (use gs in \<open>auto simp: sorted_wrt_rev sorted_wrt_map less_priority_key_def\<close>)
  then have "map sgKey gs = [PriorityKey 2 0, PriorityKey 1 0]" by (simp add: rev_eq_Cons_iff)
  then obtain a b where "gs = [a, b]" "sgKey a = PriorityKey 2 0" "sgKey b = PriorityKey 1 0" by auto
  then show ?thesis using gs(1,4) by (simp add: k)
qed

text \<open>
  Grouping node templates by priority covers exactly the priorities of the templates and keeps the
  order within a group, but the first template of every group is in it twice.
\<close>

theorem GroupScaleOutNodeTemplatesByPriority_duplicates:
  "map_of (GroupScaleOutNodeTemplatesByPriority templates) pk =
     (case filter (\<lambda>t. sotPriorityKey t = pk) templates of [] \<Rightarrow> None | t # ts \<Rightarrow> Some (t # t # ts))"
  by (induction templates rule: rev_induct)
    (auto simp: GroupScaleOutNodeTemplatesByPriority_def Let_def update_conv' split: list.splits option.splits)

end
