(* ===== verification/PlannerProps.thy ===== *)
theory PlannerProps
  imports SimulatorProps
begin

text \<open>
  Properties of the planner from a request to its responses: the passes and groups end with the
  context, and every request is answered.
\<close>

subsection \<open>What a cycle keeps\<close>

definition kept :: "simulator_state \<Rightarrow> simulator_state \<Rightarrow> bool" where
  "kept s s' \<longleftrightarrow> ssRequest s' = ssRequest s \<and> ssResultCh s' = ssResultCh s \<and> ssSimulationGroups s' = ssSimulationGroups s \<and>
     ssPasses s \<le> ssPasses s' \<and> (None \<notin> set (ssViews s) \<longrightarrow> None \<notin> set (ssViews s'))"

lemma kept_refl [simp]: "kept s s"
  by (simp add: kept_def)

lemma kept_trans [trans]: "kept s t \<Longrightarrow> kept t u \<Longrightarrow> kept s u"
  by (simp add: kept_def)

lemma kept_counter [simp]: "kept s (t\<lparr>ssSimRunCounter := c\<rparr>) = kept s t"
  by (simp add: kept_def)

definition view_getter :: "(string \<Rightarrow> sworld \<Rightarrow> (view, sworld) eff) \<Rightarrow> bool" where
  "view_getter getView \<longleftrightarrow> (\<forall>nm s r s'. getView nm s = (r, s') \<longrightarrow> kept (fst s) (fst s'))"

lemma CreateSandboxView_kept: "view_getter (\<lambda>nm. CreateSandboxView nm delegate)"
  unfolding view_getter_def CreateSandboxView_def
  by (auto simp: kept_def split: option.splits prod.splits outcome.splits)

lemma runSims_kept:
  assumes "view_getter getView"
  shows "runSims env getView ref sims err s = Some (r, sims', s') \<Longrightarrow> kept (fst s) (fst s')"
proof (induction sims arbitrary: err s r sims' s')
  case (Cons sim sims)
  obtain rv s1 where v: "getView (ref @ CHR ''_'' # Simulation_Name sim) s = (rv, s1)" by (rule prod.exhaust)
  then have k: "kept (fst s) (fst s1)" using assms unfolding view_getter_def by blast
  have rest: "kept (fst s) (fst s'')"
    if "runSims env getView ref sims err' s2 = Some (r', q, s'')" "kept (fst s1) (fst s2)" for err' s2 r' q s''
    using Cons.IH [OF that(1)] that(2) k by (blast intro: kept_trans)
  show ?case
    using Cons.prems k rest [of _ s1] rest [of _ "((fst s1)\<lparr>ssSimRunCounter := c\<rparr>, w)" for c w]
    by (cases rv) (auto simp: v Let_def case_prod_beta split: outcome.splits option.splits)
qed simp

lemma runSims_total:
  assumes "\<And>c. \<exists>n. scDone (seRunCtx env c) n \<noteq> None"
  shows "runSims env getView ref sims err s \<noteq> None"
proof (induction sims arbitrary: err s)
  case (Cons sim sims)
  have c: "Simulation_Run cancelled v sim cw \<noteq> None" for v cw
    using Simulation_Run_total [of cancelled 0 v sim cw] by (auto simp: cancelled_def)
  have d: "Simulation_Run (seRunCtx env i) v sim cw \<noteq> None" for i v cw
    using assms Simulation_Run_total by blast
  show ?case
    by (simp add: Let_def c d Cons del: not_None_eq split: outcome.split option.split prod.split)
qed simp

lemma runPassForGroup_kept:
  assumes "runPassForGroup env scorer passView g s = Some (r, g', s')"
  shows "kept (fst s) (fst s')"
proof -
  obtain q g1 s1 where run: "Group_Run env (\<lambda>nm. CreateSandboxView nm passView) g s = Some (q, g1, s1)"
    using assms by (auto simp: runPassForGroup_def)
  then have "kept (fst s) (fst s1)" by (auto simp: Group_Run_def dest: runSims_kept [OF CreateSandboxView_kept])
  moreover have "fst s' = fst s1"
    using assms by (cases q) (auto simp: runPassForGroup_def run bindE_def split: outcome.splits option.splits)
  ultimately show ?thesis by simp
qed

lemma runPassForGroup_total:
  assumes "\<And>c. \<exists>n. scDone (seRunCtx env c) n \<noteq> None"
  shows "runPassForGroup env scorer passView g s \<noteq> None"
  using runSims_total [OF assms] by (simp add: runPassForGroup_def Group_Run_def del: not_None_eq)

text \<open>A cycle keeps the request, the results and the groups; one that succeeds made at least one pass.\<close>

lemma runCycleLoop_kept:
  assumes "runCycleLoop env scorer cr g s = Some rs"
  shows "kept (fst s) (fst (snd (snd rs))) \<and> ((\<exists>cr'. fst rs = Ok cr') \<longrightarrow> ssPasses (fst s) < ssPasses (fst (snd (snd rs))))"
proof (rule runCycleLoop.raw_induct [OF _ assms], goal_cases)
  case (1 loop env scorer cr g s rs)
  show ?case
  proof (cases "seDone env (ssPasses (fst s))")
    case None
    then obtain r1 g1 s1 where pass: "runPassForGroup env scorer (crNextGroupPassView cr) g s = Some (r1, g1, s1)"
      using 1(2) by (auto split: option.splits)
    from runPassForGroup_kept [OF this] have k: "kept (fst s) (fst (countPass s1))" "kept (fst s) (fst s1)"
        "ssPasses (fst s) < ssPasses (fst (countPass s1))"
      by (auto simp: countPass_def kept_def)
    have next_pass: "kept (fst s) (fst (snd (snd rs))) \<and> ((\<exists>cr'. fst rs = Ok cr') \<longrightarrow> ssPasses (fst s) < ssPasses (fst (snd (snd rs))))"
      if "loop env scorer cr' g1 (countPass s1) = Some rs" for cr'
      using 1(1) [OF that] k by (auto simp: kept_def)
    show ?thesis
      using 1(2) k by (auto simp: None pass Let_def split: outcome.splits option.splits if_splits dest!: next_pass)
  qed (use 1(2) in auto)
qed

definition deadline :: "sim_env \<Rightarrow> nat \<Rightarrow> bool" where
  "deadline env n \<longleftrightarrow> (\<forall>k\<ge>n. seDone env k \<noteq> None) \<and> (\<forall>c. \<exists>k. scDone (seRunCtx env c) k \<noteq> None)"

lemma deadlineD: "deadline env n \<Longrightarrow> \<exists>k. scDone (seRunCtx env c) k \<noteq> None"
  unfolding deadline_def by blast

lemma runCycleLoop_total:
  assumes "deadline env n"
  shows "runCycleLoop env scorer cr g s \<noteq> None"
proof (induction "n - ssPasses (fst s)" arbitrary: cr g s rule: less_induct)
  case less
  show ?case
  proof (cases "seDone env (ssPasses (fst s))")
    case None
    then have lt: "ssPasses (fst s) < n" using assms unfolding deadline_def by (meson not_le)
    obtain r1 g1 s1 where pass: "runPassForGroup env scorer (crNextGroupPassView cr) g s = Some (r1, g1, s1)"
      using runPassForGroup_total [OF deadlineD [OF assms]] by (metis not_None_eq prod_cases3)
    have "ssPasses (fst s) \<le> ssPasses (fst s1)" using runPassForGroup_kept [OF pass] by (simp add: kept_def)
    then have next_pass: "runCycleLoop env scorer cr' g1 (countPass s1) \<noteq> None" for cr'
      using lt by (intro less) (simp add: countPass_def)
    then show ?thesis
      by (subst runCycleLoop.simps) (simp add: None pass Let_def del: not_None_eq split: outcome.split option.split prod.split)
  qed (subst runCycleLoop.simps, simp)
qed

lemma SendPlanResult_keeps:
  assumes "SendPlanResult crs s = (r, s')"
  shows "ssPasses (fst s') = ssPasses (fst s)" "ssRequest (fst s') = ssRequest (fst s)"
    "ssSimulationGroups (fst s') = ssSimulationGroups (fst s)"
  using assms by (auto simp: SendPlanResult_def bindE_def Let_def split: option.splits outcome.splits prod.splits)

lemma groupsLoop_total:
  assumes "deadline env n"
  shows "groupsLoop env scorer i passView winners crs s \<noteq> None"
proof (induction "n - ssPasses (fst s)" arbitrary: i passView winners crs s rule: less_induct)
  case less
  show ?case
  proof (cases "i < length (ssSimulationGroups (fst s)) \<and> ssSimulationGroups (fst s) ! i \<noteq> None")
    case True
    then obtain g where g: "i < length (ssSimulationGroups (fst s))" "ssSimulationGroups (fst s) ! i = Some g" by blast
    obtain r g1 s1 where cyc: "runStabilizationCycleForGroup env scorer passView g s = Some (r, g1, s1)"
      using runCycleLoop_total [OF assms] unfolding runStabilizationCycleForGroup_def by (metis not_None_eq prod_cases3)
    have passes: "ssPasses (fst s) < ssPasses (fst s1)" if "r = Ok cr" for cr
      using runCycleLoop_kept [OF cyc [unfolded runStabilizationCycleForGroup_def]] that by auto
    have next_group: "groupsLoop env scorer j pv ws cs s2 \<noteq> None"
      if "ssPasses (fst s2) = ssPasses (fst s1)" "r = Ok cr" for j pv ws cs s2 cr
    proof (rule less)
      have "ssPasses (fst s) < n"
        using assms cyc that(2) unfolding deadline_def runStabilizationCycleForGroup_def
        by (subst (asm) runCycleLoop.simps) (auto split: option.splits simp: not_le [symmetric])
      then show "n - ssPasses (fst s2) < n - ssPasses (fst s)" using passes [OF that(2)] that(1) by simp
    qed
    show ?thesis
    proof (cases r)
      case (Ok cr)
      let ?s = "setGroup i g1 s1"
      obtain r2 s2 where send: "(if modeIs IsIncremental ?s then SendPlanResult [cr] ?s else (Ok (), ?s)) = (r2, s2)"
        by (rule prod.exhaust)
      have "ssPasses (fst ?s) = ssPasses (fst s1)" by (simp add: setGroup_def)
      moreover from this have "ssPasses (fst s2) = ssPasses (fst s1)"
        using send SendPlanResult_keeps(1) by (auto split: if_splits)
      ultimately have "groupsLoop env scorer j pv ws cs ?s \<noteq> None" "groupsLoop env scorer j pv ws cs s2 \<noteq> None" for j pv ws cs
        using next_group Ok by blast+
      then show ?thesis
        by (subst groupsLoop.simps) (simp add: g cyc Ok Let_def send del: not_None_eq split: outcome.split)
    qed (subst groupsLoop.simps, simp add: g cyc)+
  qed (subst groupsLoop.simps, auto simp del: not_None_eq)
qed

subsection \<open>What is sent\<close>

definition isPlan :: "plan_result \<Rightarrow> bool" where
  "isPlan pr \<longleftrightarrow> prError pr = None \<and> (\<exists>plan. prScaleOutPlan pr = Some plan \<and> sopItems plan \<noteq> [])"

definition isFailure :: "plan_result \<Rightarrow> bool" where
  "isFailure pr \<longleftrightarrow> prError pr \<noteq> None \<and> prScaleOutPlan pr = None"

definition sends :: "sworld \<Rightarrow> plan_result list \<Rightarrow> sworld \<Rightarrow> bool" where
  "sends s prs s' \<longleftrightarrow> ssResultCh (fst s') = ssResultCh (fst s) @ prs \<and> ssRequest (fst s') = ssRequest (fst s) \<and> (\<forall>pr\<in>set prs. isPlan pr)"

lemma sends_trans: "sends s prs t \<Longrightarrow> sends t prs' u \<Longrightarrow> sends s (prs @ prs') u"
  by (auto simp: sends_def)

lemma sends_Nil: "ssResultCh (fst s') = ssResultCh (fst s) \<Longrightarrow> ssRequest (fst s') = ssRequest (fst s) \<Longrightarrow> sends s [] s'"
  by (simp add: sends_def)

lemma sopItems_Nil [simp]: "sopItems (createScaleOutPlan winners existing leftover) = [] \<longleftrightarrow> winners = []"
  using groupNodeScores_keys [of winners] by (auto simp: createScaleOutPlan_def)

lemma SendPlanResult_sends:
  assumes "SendPlanResult crs s = (r, s')" "concat (map crWinnerNodeScores crs) \<noteq> []"
  shows "if r = Ok () then \<exists>pr. sends s [pr] s' else sends s [] s'"
  using assms
  by (auto simp: SendPlanResult_def bindE_def Let_def sends_def isPlan_def split: option.splits outcome.splits prod.splits)

text \<open>
  The results of a list of groups, by mode: incrementally one for each cycle with winners, all at once
  a single one at the end, and only on success.
\<close>

definition inMode :: "bool \<Rightarrow> sworld \<Rightarrow> bool" where
  "inMode allAtOnce s \<longleftrightarrow> modeIs (if allAtOnce then IsAllAtOnce else IsIncremental) s"

lemma inModeD: "inMode allAtOnce s \<Longrightarrow> modeIs IsAllAtOnce s = allAtOnce \<and> modeIs IsIncremental s = (\<not> allAtOnce)"
  by (auto simp: inMode_def modeIs_def IsAllAtOnce_def IsIncremental_def split: option.splits if_splits)

lemma inMode_sends: "sends s prs s' \<Longrightarrow> inMode allAtOnce s' = inMode allAtOnce s"
  by (simp add: inMode_def modeIs_def sends_def)

definition sentBy :: "bool \<Rightarrow> node_score list \<Rightarrow> sworld \<Rightarrow> (unit, sworld) eff \<Rightarrow> bool" where
  "sentBy allAtOnce winners s rs \<longleftrightarrow> (\<exists>prs. sends s prs (snd rs) \<and>
     (if allAtOnce then length prs = (if fst rs = Ok () then 1 else 0) else fst rs = Ok () \<longrightarrow> winners = [] \<longrightarrow> prs \<noteq> []))"

lemma sentBy_fail: "sends s prs (snd rs) \<Longrightarrow> allAtOnce \<longrightarrow> prs = [] \<Longrightarrow> fst rs \<noteq> Ok () \<Longrightarrow> sentBy allAtOnce winners s rs"
  by (auto simp: sentBy_def)

lemma sentBy_step:
  assumes "sends s prs t" "if allAtOnce then prs = [] else prs = [] \<longrightarrow> winners' = winners" "sentBy allAtOnce winners' t rs"
  shows "sentBy allAtOnce winners s rs"
proof -
  obtain prs' where p: "sends t prs' (snd rs)" "if allAtOnce then length prs' = (if fst rs = Ok () then 1 else 0)
      else fst rs = Ok () \<longrightarrow> winners' = [] \<longrightarrow> prs' \<noteq> []"
    using assms(3) unfolding sentBy_def by blast
  show ?thesis
    unfolding sentBy_def using sends_trans [OF assms(1) p(1)] p(2) assms(2)
    by (intro exI [of _ "prs @ prs'"]) (auto split: if_splits)
qed

lemma finishGroups_sent:
  assumes "inMode allAtOnce s" "winners = concat (map crWinnerNodeScores crs)"
  shows "sentBy allAtOnce winners s (finishGroups winners crs s)"
proof (cases "winners \<noteq> [] \<and> allAtOnce")
  case True
  then obtain r s' where send: "SendPlanResult crs s = (r, s')" "concat (map crWinnerNodeScores crs) \<noteq> []"
    using assms(2) by (metis prod.exhaust)
  from SendPlanResult_sends [OF this] show ?thesis
    using True send inModeD [OF assms(1)] by (auto simp: sentBy_def finishGroups_def split: if_splits)
next
  case False
  have "sends s [] s" by (simp add: sends_Nil)
  with False show ?thesis using inModeD [OF assms(1)] by (auto simp: sentBy_def finishGroups_def)
qed

lemma sendCycle:
  assumes "(if modeIs IsIncremental s then SendPlanResult [cr] s else (Ok (), s)) = (r, s')"
    and "inMode allAtOnce s" "crWinnerNodeScores cr \<noteq> []"
  shows "\<exists>prs. sends s prs s' \<and> (r \<noteq> Ok () \<or> allAtOnce \<longrightarrow> prs = []) \<and> (r = Ok () \<and> \<not> allAtOnce \<longrightarrow> prs \<noteq> [])"
proof (cases allAtOnce)
  case True
  then show ?thesis using assms inModeD [OF assms(2)] by (auto intro!: exI [of _ "[]"] sends_Nil)
next
  case False
  then have "SendPlanResult [cr] s = (r, s')" using assms(1) inModeD [OF assms(2)] by simp
  from SendPlanResult_sends [OF this] assms(3) False show ?thesis by (auto split: if_splits)
qed

lemma groupsLoop_sent:
  assumes "groupsLoop env scorer i passView winners crs s = Some rs"
  shows "inMode allAtOnce s \<longrightarrow> winners = concat (map crWinnerNodeScores crs) \<longrightarrow> sentBy allAtOnce winners s rs"
proof (rule groupsLoop.raw_induct [OF _ assms], goal_cases)
  case (1 loop env scorer i passView winners crs s rs)
  show ?case
  proof (intro impI)
    assume m: "inMode allAtOnce s" and w: "winners = concat (map crWinnerNodeScores crs)"
    show "sentBy allAtOnce winners s rs"
    proof (cases "i < length (ssSimulationGroups (fst s)) \<and> ssSimulationGroups (fst s) ! i \<noteq> None")
      case False
      then show ?thesis using 1(2) finishGroups_sent [OF m w]
        by (auto simp: sends_Nil split: if_splits intro: sentBy_fail [where prs = "[]"])
    next
      case True
      then obtain g where g: "i < length (ssSimulationGroups (fst s))" "ssSimulationGroups (fst s) ! i = Some g" by blast
      then obtain r g1 s1 where cyc: "runStabilizationCycleForGroup env scorer passView g s = Some (r, g1, s1)"
        using 1(2) by (auto split: option.splits)
      let ?s = "setGroup i g1 s1"
      have k: "sends s [] ?s"
        using runCycleLoop_kept [OF cyc [unfolded runStabilizationCycleForGroup_def]] by (simp add: sends_def kept_def setGroup_def)
      show ?thesis
      proof (cases r)
        case (Ok cr)
        have loop: "sentBy allAtOnce ws s2 rs"
          if "loop env scorer j pv ws cs s2 = Some rs" "sends s prs s2" "ws = concat (map crWinnerNodeScores cs)" for j pv ws cs s2 prs
          using 1(1) [OF that(1)] that(3) m inMode_sends [OF that(2)] by blast
        show ?thesis
        proof (cases "crWinnerNodeScores cr = []")
          case True
          then have "loop env scorer (Suc i) (crNextGroupPassView cr) winners crs ?s = Some rs"
            using 1(2) by (simp add: g cyc Ok)
          from sentBy_step [OF k _ loop [OF this k w]] show ?thesis by simp
        next
          case False
          obtain r2 s2 where send: "(if modeIs IsIncremental ?s then SendPlanResult [cr] ?s else (Ok (), ?s)) = (r2, s2)"
            by (rule prod.exhaust)
          then obtain prs where prs: "sends s prs s2" "r2 \<noteq> Ok () \<or> allAtOnce \<longrightarrow> prs = []" "r2 = Ok () \<and> \<not> allAtOnce \<longrightarrow> prs \<noteq> []"
            using sendCycle [OF send _ False, of allAtOnce] inMode_sends [OF k] m sends_trans [OF k] by fastforce
          let ?ws = "winners @ crWinnerNodeScores cr" and ?cs = "crs @ [cr]"
          have ws: "?ws = concat (map crWinnerNodeScores ?cs)" using w by simp
          show ?thesis
          proof (cases "r2 = Ok ()")
            case True
            then have "rs = finishGroups ?ws ?cs s2 \<or> loop env scorer i (crNextGroupPassView cr) ?ws ?cs s2 = Some rs"
              using 1(2) False by (auto simp: g cyc Ok Let_def send split: if_splits)
            then have "sentBy allAtOnce ?ws s2 rs"
              using loop [OF _ prs(1) ws] finishGroups_sent [OF _ ws] m inMode_sends [OF prs(1)] by blast
            from sentBy_step [OF prs(1) _ this] prs(2,3) True show ?thesis by auto
          next
            case f: False
            then have "rs = (r2, s2)" using 1(2) False by (cases r2) (auto simp: g cyc Ok Let_def send)
            then show ?thesis using sentBy_fail [of s prs rs] prs f by simp
          qed
        qed
      qed (use 1(2) k in \<open>auto simp: g cyc intro: sentBy_fail\<close>)
    qed
  qed
qed

lemma onSWorld_fst: "onSWorld f s = (r, s') \<Longrightarrow> fst s' = fst s"
  by (auto simp: onSWorld_def mapState_def split: prod.splits)

lemma InitializeRequestView_sends:
  assumes "InitializeRequestView env s = (r, s')"
  shows "sends s [] s'"
proof -
  obtain r1 s1 where v: "createRequestView s = (r1, s1)" by (rule prod.exhaust)
  have "sends s [] s1"
  proof (cases "ssRequest (fst s)")
    case (Some rq)
    with v have "CreateSandboxView (''Request-'' @ rqID rq) (Some (vaBaseView (ssViewAccess (fst s)))) s = (r1, s1)"
      by (simp add: createRequestView_def)
    then have "kept (fst s) (fst s1)" using CreateSandboxView_kept unfolding view_getter_def by blast
    then show ?thesis by (simp add: kept_def sends_def)
  qed (use v in \<open>simp add: createRequestView_def sends_Nil\<close>)
  moreover have "fst s' = fst s1"
    using assms by (auto simp: InitializeRequestView_def v bindE_def dest!: onSWorld_fst
        split: outcome.splits option.splits prod.splits if_splits)
  ultimately show ?thesis by (simp add: sends_def)
qed

lemma doSimulate_sent:
  assumes "doSimulate env sm s = Some rs" "inMode allAtOnce s" "ssResultCh (fst s) = []"
  shows "sentBy allAtOnce [] s rs"
proof -
  obtain rq where rq: "ssRequest (fst s) = Some rq" using assms(2) by (auto simp: inMode_def modeIs_def split: option.splits)
  obtain r1 s1 where init: "InitializeRequestView env s = (r1, s1)" by (rule prod.exhaust)
  have k: "sends s [] s1" by (rule InitializeRequestView_sends [OF init])
  show ?thesis
  proof (cases "\<exists>gs. r1 = Ok () \<and> createAndGroupSimulations sm rq = Ok gs")
    case True
    then obtain gs where gs: "r1 = Ok ()" "createAndGroupSimulations sm rq = Ok gs" by blast
    let ?s = "((fst s1)\<lparr>ssSimulationGroups := map Some gs\<rparr>, snd s1)"
    have "groupsLoop env (smNodeScorer sm) 0 (RequestView (fst ?s)) [] [] ?s = Some rs"
      using assms(1) gs by (simp add: doSimulate_def rq init runStabilizationCyclesForAllGroups_def)
    moreover have k': "sends s [] ?s" using k by (simp add: sends_def)
    ultimately have "sentBy allAtOnce [] ?s rs"
      using groupsLoop_sent [of env "smNodeScorer sm" 0 _ "[]" "[]" ?s rs allAtOnce] assms(2) inMode_sends [OF k'] by simp
    from sentBy_step [OF k' _ this] show ?thesis by simp
  next
    case False
    then have "snd rs = s1" "fst rs \<noteq> Ok ()"
      using assms(1) by (auto simp: doSimulate_def rq init bindE_def split: outcome.splits)
    then show ?thesis using k by (auto intro: sentBy_fail)
  qed
qed

text \<open>The results of a request: plans, and in the last place a plan or the error that ended it.\<close>

definition answers :: "bool \<Rightarrow> plan_result list \<Rightarrow> bool" where
  "answers allAtOnce prs \<longleftrightarrow> prs \<noteq> [] \<and> (\<forall>pr\<in>set (butlast prs). isPlan pr) \<and> (isPlan (last prs) \<or> isFailure (last prs)) \<and>
     (allAtOnce \<longrightarrow> length prs = 1)"

lemma answers_nth:
  assumes "answers allAtOnce prs" "i < length prs"
  shows "isPlan (prs ! i) \<or> isFailure (prs ! i) \<and> Suc i = length prs"
proof (cases "Suc i = length prs")
  case True
  then have "last prs = prs ! i" using assms(2) by (cases prs rule: rev_cases) (auto simp: nth_append)
  then show ?thesis using assms(1) True by (simp add: answers_def)
next
  case False
  then have "i < length (butlast prs)" using assms(2) by simp
  then have "prs ! i \<in> set (butlast prs)" using nth_mem [of i "butlast prs"] by (simp add: nth_butlast)
  then show ?thesis using assms(1) by (simp add: answers_def)
qed

lemma AsGenError_Some: "AsGenError (Some e) \<noteq> None"
  by (simp add: AsGenError_def)

lemma Simulate_answers:
  assumes "Simulate env sm rq w = Some (Ok (), s)"
    and "rqAdviceGenerationMode rq = (if allAtOnce then ''all-at-once'' else ''incremental'')"
  shows "answers allAtOnce (ssResultCh (fst s))"
proof -
  let ?s = "(NewSimulatorState rq (smConfig sm) (smViewAccess sm), w)"
  obtain res s1 where d: "doSimulate env sm ?s = Some (res, s1)"
    using assms(1) by (auto simp: Simulate_def)
  have "inMode allAtOnce ?s" "ssResultCh (fst ?s) = []"
    using assms(2) by (auto simp: inMode_def modeIs_def NewSimulatorState_def IsAllAtOnce_def IsIncremental_def)
  from doSimulate_sent [OF d this] obtain prs where prs: "sends ?s prs s1"
      "if allAtOnce then length prs = (if res = Ok () then 1 else 0) else res = Ok () \<longrightarrow> prs \<noteq> []"
    by (auto simp: sentBy_def)
  then have ch: "ssResultCh (fst s1) = prs" "\<forall>pr\<in>set prs. isPlan pr"
    by (simp_all add: sends_def NewSimulatorState_def)
  show ?thesis
  proof (cases res)
    case (Ok u)
    then have "s = s1" using assms(1) by (simp add: Simulate_def d)
    moreover have "prs \<noteq> []" using prs(2) Ok by (auto split: if_splits)
    ultimately show ?thesis using ch prs(2) Ok by (auto simp: answers_def dest: in_set_butlastD)
  next
    case (Err e)
    then have "ssResultCh (fst s) = SendPlanError e prs" using assms(1) ch by (auto simp: Simulate_def d)
    then show ?thesis
      using ch prs(2) Err AsGenError_Some by (auto simp: answers_def SendPlanError_def isFailure_def butlast_append)
  qed (use assms(1) in \<open>simp add: Simulate_def d\<close>)
qed

subsection \<open>Where a panic comes from\<close>

definition passPanics :: "sim_env \<Rightarrow> node_scorer \<Rightarrow> string \<Rightarrow> bool" where
  "passPanics env scorer p \<longleftrightarrow> (\<exists>pv g s x. runPassForGroup env scorer pv g s = Some (Panic p, x))"

lemma passPanicsI: "runPassForGroup env scorer pv g s = Some (Panic p, x) \<Longrightarrow> passPanics env scorer p"
  unfolding passPanics_def by blast

lemma runCycleLoop_panic:
  assumes "runCycleLoop env scorer cr g s = Some rs"
  shows "fst rs = Panic p \<longrightarrow> passPanics env scorer p"
proof (rule runCycleLoop.raw_induct [OF _ assms], goal_cases)
  case (1 loop env scorer cr g s rs)
  show ?case
  proof (cases "seDone env (ssPasses (fst s))")
    case None
    then obtain r1 g1 s1 where pass: "runPassForGroup env scorer (crNextGroupPassView cr) g s = Some (r1, g1, s1)"
      using 1(2) by (auto split: option.splits)
    show ?thesis
      using 1(2) pass by (auto simp: None Let_def split: outcome.splits option.splits if_splits dest!: 1(1) intro: passPanicsI)
  qed (use 1(2) in auto)
qed

text \<open>A state in which nothing of the simulator is nil.\<close>

definition calm :: "request \<Rightarrow> sworld \<Rightarrow> bool" where
  "calm rq s \<longleftrightarrow> ssRequest (fst s) = Some rq \<and> None \<notin> set (ssSimulationGroups (fst s)) \<and> None \<notin> set (ssViews (fst s))"

text \<open>
  What a panic of planning can come from: building the simulations of the request, loading its
  snapshot, counting its nodes, or a pass over a group of simulations.
\<close>

definition panicsIn :: "sim_env \<Rightarrow> simulator \<Rightarrow> request \<Rightarrow> world \<Rightarrow> string \<Rightarrow> bool" where
  "panicsIn env sm rq w p \<longleftrightarrow> createAndGroupSimulations sm rq = Panic p \<or>
     fst (InitializeRequestView env (NewSimulatorState rq (smConfig sm) (smViewAccess sm), w)) = Panic p \<or>
     GetNodeCountByPlacement (rqSnapshot rq) = Panic p \<or>
     passPanics env (smNodeScorer sm) p"

lemma SendPlanResult_calm:
  assumes "SendPlanResult crs s = (r, s')" "calm rq s" "rqNodePools rq \<noteq> None"
  shows "calm rq s'" "r = Panic p \<Longrightarrow> GetNodeCountByPlacement (rqSnapshot rq) = Panic p"
  using assms by (auto simp: SendPlanResult_def calm_def bindE_def Let_def split: option.splits outcome.splits prod.splits)

lemma setGroup_calm:
  assumes "calm rq s" "kept (fst s) (fst s1)"
  shows "calm rq (setGroup i g s1)"
  using assms by (auto simp: calm_def kept_def setGroup_def dest!: set_update_subset_insert [THEN subsetD])

lemma groupsLoop_calm:
  assumes "groupsLoop env scorer i passView winners crs s = Some rs" "rqNodePools rq \<noteq> None"
  shows "calm rq s \<longrightarrow> None \<notin> set (ssViews (fst (snd rs))) \<and> (\<forall>p. fst rs = Panic p \<longrightarrow>
    GetNodeCountByPlacement (rqSnapshot rq) = Panic p \<or> passPanics env scorer p)"
proof (rule groupsLoop.raw_induct [OF _ assms(1)], goal_cases)
  case (1 loop env scorer i passView winners crs s rs)
  let ?P = "\<lambda>rs. None \<notin> set (ssViews (fst (snd rs))) \<and> (\<forall>p. fst rs = Panic p \<longrightarrow>
    GetNodeCountByPlacement (rqSnapshot rq) = Panic p \<or> passPanics env scorer p)"
  have views: "calm rq t \<Longrightarrow> None \<notin> set (ssViews (fst t))" for t by (simp add: calm_def)
  have finish: "?P (finishGroups ws cs t)" if "calm rq t" for ws cs t
    using that SendPlanResult_calm [OF _ that assms(2), of cs] views
    by (cases "SendPlanResult cs t") (auto simp: finishGroups_def)
  show ?case
  proof
    assume c: "calm rq s"
    show "?P rs"
    proof (cases "i < length (ssSimulationGroups (fst s))")
      case False
      then show ?thesis using 1(2) finish [OF c] by auto
    next
      case True
      then have "ssSimulationGroups (fst s) ! i \<noteq> None" using c nth_mem by (metis calm_def)
      then obtain g where g: "ssSimulationGroups (fst s) ! i = Some g" by blast
      then obtain r g1 s1 where cyc: "runStabilizationCycleForGroup env scorer passView g s = Some (r, g1, s1)"
        using 1(2) True by (auto split: option.splits)
      note k = runCycleLoop_kept [OF cyc [unfolded runStabilizationCycleForGroup_def], simplified, THEN conjunct1]
      note pan = runCycleLoop_panic [OF cyc [unfolded runStabilizationCycleForGroup_def], simplified]
      let ?s = "setGroup i g1 s1"
      have cs: "calm rq ?s" by (rule setGroup_calm [OF c k])
      have loop: "?P rs" if "loop env scorer j pv ws cs t = Some rs" "calm rq t" for j pv ws cs t
        using 1(1) [OF that(1)] that(2) by blast
      show ?thesis
      proof (cases r)
        case (Ok cr)
        obtain r2 s2 where send: "(if modeIs IsIncremental ?s then SendPlanResult [cr] ?s else (Ok (), ?s)) = (r2, s2)"
          by (rule prod.exhaust)
        have c2: "calm rq s2" "r2 = Panic p \<Longrightarrow> GetNodeCountByPlacement (rqSnapshot rq) = Panic p" for p
          using send SendPlanResult_calm [OF _ cs assms(2), of "[cr]"] cs by (auto split: if_splits)
        show ?thesis
        proof (cases "crWinnerNodeScores cr = []")
          case w: True
          then have "loop env scorer (Suc i) (crNextGroupPassView cr) winners crs ?s = Some rs"
            using 1(2) True by (simp add: g cyc Ok)
          then show ?thesis by (rule loop [OF _ cs])
        next
          case w: False
          let ?ws = "winners @ crWinnerNodeScores cr" and ?cs = "crs @ [cr]"
          show ?thesis
          proof (cases "r2 = Ok ()")
            case ok: True
            then have "rs = finishGroups ?ws ?cs s2 \<or> loop env scorer i (crNextGroupPassView cr) ?ws ?cs s2 = Some rs"
              using 1(2) True w by (auto simp: g cyc Ok Let_def send split: if_splits)
            then show ?thesis using loop [OF _ c2(1)] finish [OF c2(1)] by blast
          next
            case f: False
            then have "rs = (r2, s2)" using 1(2) True w by (cases r2) (auto simp: g cyc Ok Let_def send)
            then show ?thesis using c2 views by auto
          qed
        qed
      next
        case (Err e)
        then show ?thesis using 1(2) True views [OF cs] by (auto simp: g cyc)
      next
        case (Panic x)
        then show ?thesis using 1(2) True views [OF cs] pan by (auto simp: g cyc)
      qed
    qed
  qed
qed

lemma InitializeRequestView_calm:
  assumes "InitializeRequestView env s = (r, s')" "None \<notin> set (ssViews (fst s))"
  shows "None \<notin> set (ssViews (fst s'))"
proof -
  obtain r1 s1 where v: "createRequestView s = (r1, s1)" by (rule prod.exhaust)
  have "None \<notin> set (ssViews (fst s1))"
  proof (cases "ssRequest (fst s)")
    case (Some rq)
    with v have "CreateSandboxView (''Request-'' @ rqID rq) (Some (vaBaseView (ssViewAccess (fst s)))) s = (r1, s1)"
      by (simp add: createRequestView_def)
    then have "kept (fst s) (fst s1)" using CreateSandboxView_kept unfolding view_getter_def by blast
    then show ?thesis using assms(2) by (simp add: kept_def)
  qed (use v assms(2) in \<open>simp add: createRequestView_def\<close>)
  moreover have "fst s' = fst s1"
    using assms(1) by (auto simp: InitializeRequestView_def v bindE_def dest!: onSWorld_fst
        split: outcome.splits option.splits prod.splits if_splits)
  ultimately show ?thesis by simp
qed

lemma doSimulate_panic:
  assumes "doSimulate env sm s = Some (res, s1)" "ssRequest (fst s) = Some rq" "None \<notin> set (ssViews (fst s))"
  shows "None \<notin> set (ssViews (fst s1)) \<and> (\<forall>p. res = Panic p \<longrightarrow>
    createAndGroupSimulations sm rq = Panic p \<or> fst (InitializeRequestView env s) = Panic p \<or>
    GetNodeCountByPlacement (rqSnapshot rq) = Panic p \<or> passPanics env (smNodeScorer sm) p)"
proof -
  obtain r1 t where init: "InitializeRequestView env s = (r1, t)" by (rule prod.exhaust)
  have t: "None \<notin> set (ssViews (fst t))" by (rule InitializeRequestView_calm [OF init assms(3)])
  show ?thesis
  proof (cases "\<exists>gs. r1 = Ok () \<and> createAndGroupSimulations sm rq = Ok gs")
    case True
    then obtain gs where gs: "r1 = Ok ()" "createAndGroupSimulations sm rq = Ok gs" by blast
    let ?t = "((fst t)\<lparr>ssSimulationGroups := map Some gs\<rparr>, snd t)"
    have loop: "groupsLoop env (smNodeScorer sm) 0 (RequestView (fst ?t)) [] [] ?t = Some (res, s1)"
      using assms(1,2) gs by (simp add: doSimulate_def init runStabilizationCyclesForAllGroups_def)
    have "rqNodePools rq \<noteq> None" using gs(2) by (auto simp: createAndGroupSimulations_def split: option.splits)
    moreover have "calm rq ?t"
      using t InitializeRequestView_sends [OF init] assms(2) by (auto simp: calm_def sends_def)
    ultimately show ?thesis using groupsLoop_calm [OF loop] by auto
  next
    case False
    then have "s1 = t" "\<And>p. res = Panic p \<Longrightarrow> r1 = Panic p \<or> createAndGroupSimulations sm rq = Panic p"
      using assms(1,2) by (auto simp: doSimulate_def init bindE_def split: outcome.splits)
    then show ?thesis using t init by auto
  qed
qed

lemma Simulate_panic:
  assumes "Simulate env sm rq w = Some (r, s)"
  shows "None \<notin> set (ssViews (fst s))" "r = Panic p \<Longrightarrow> panicsIn env sm rq w p"
proof -
  obtain res s1 where d: "doSimulate env sm (NewSimulatorState rq (smConfig sm) (smViewAccess sm), w) = Some (res, s1)"
    using assms by (auto simp: Simulate_def)
  have "None \<notin> set (ssViews (fst s1)) \<and> (\<forall>p. res = Panic p \<longrightarrow> panicsIn env sm rq w p)"
    unfolding panicsIn_def by (rule doSimulate_panic [OF d]) (simp_all add: NewSimulatorState_def)
  then show "None \<notin> set (ssViews (fst s))" "r = Panic p \<Longrightarrow> panicsIn env sm rq w p"
    using assms d by (cases res; auto simp: Simulate_def)+
qed

lemma closeViews_Ok: "None \<notin> set xs \<Longrightarrow> \<exists>w'. closeViews xs w = Ok w'"
proof (induction xs arbitrary: w)
  case (Cons v xs)
  then show ?case by (cases v) (simp_all add: closeView_def)
qed simp

end
