(* ===== verification/Launcher.thy ===== *)
theory Launcher
  imports Prelude
begin

text \<open>
  The launcher of embedded schedulers, \<open>src/planner/scheduler/scheduler.go\<close>, as a state machine. The
  weighted semaphore is a library: its documented behaviour is that \<open>Acquire\<close> takes one of the permits if one is
  free, blocks otherwise, and fails with the error of the context, without effect, when the context
  is done. Creating a scheduler and the run of a scheduler are parameters: a creation may fail, and
  a run ends some time after its context is cancelled, by \<open>Close\<close> or by the caller's context.

  \<open>lnFailed\<close> counts the launches that failed after they took a permit; the code has no such counter.
\<close>

datatype handle_status = Running | Cancelled | Ended

record launcher_state =
  lnMaxParallel :: int
  lnAcquired :: nat
  lnHandles :: "handle_status list"
  lnFailed :: nat

definition NewLauncherFromConfig :: "unit outcome \<Rightarrow> int \<Rightarrow> launcher_state outcome" where
  "NewLauncherFromConfig parsed maxParallel = bindO parsed (\<lambda>_.
     Ok \<lparr>lnMaxParallel = maxParallel, lnAcquired = 0, lnHandles = [], lnFailed = 0\<rparr>)"

definition parseSchedulerConfig :: "unit outcome \<Rightarrow> unit outcome" where
  "parseSchedulerConfig decoded = wrapErr (\<lambda>e. Wrapped ''cannot parse'' [Sentinel ''ErrParseSchedulerConfig'', e]) decoded"

definition NewLauncher :: "string outcome \<Rightarrow> (string \<Rightarrow> unit outcome) \<Rightarrow> int \<Rightarrow> launcher_state outcome" where
  "NewLauncher file decode maxParallel =
     bindO (wrapErr (\<lambda>e. Wrapped ''cannot load'' [Sentinel ''ErrLoadSchedulerConfig'', e]) file) (\<lambda>bytes.
       NewLauncherFromConfig (parseSchedulerConfig (decode bytes)) maxParallel)"

definition mayAcquire :: "launcher_state \<Rightarrow> bool" where
  "mayAcquire l \<longleftrightarrow> int (lnAcquired l) + 1 \<le> lnMaxParallel l"

text \<open>
  \<open>createSchedulerHandle\<close>: \<open>created\<close> is what creating the scheduler and waiting for its handlers
  comes to.
\<close>

definition createSchedulerHandle :: "unit outcome \<Rightarrow> unit outcome" where
  "createSchedulerHandle created = wrapErr (\<lambda>e. Wrapped ''cannot launch'' [Sentinel ''ErrLaunchScheduler'', e]) created"

text \<open>\<open>Launch\<close>, after \<open>Acquire\<close> returned \<open>acquired\<close>: the permit is only released when a run ends.\<close>

definition Launch :: "goerr option \<Rightarrow> unit outcome \<Rightarrow> launcher_state \<Rightarrow> (nat, launcher_state) eff" where
  "Launch acquired created l = (case acquired of
       Some e \<Rightarrow> (Err e, l)
     | None \<Rightarrow>
         let l = l\<lparr>lnAcquired := lnAcquired l + 1\<rparr> in
         (case createSchedulerHandle created of
            Ok _ \<Rightarrow> (Ok (length (lnHandles l)), l\<lparr>lnHandles := lnHandles l @ [Running]\<rparr>)
          | Err e \<Rightarrow> (Err e, l\<lparr>lnFailed := lnFailed l + 1\<rparr>)
          | Panic p \<Rightarrow> (Panic p, l\<lparr>lnFailed := lnFailed l + 1\<rparr>)))"

definition Handle_Close :: "nat \<Rightarrow> launcher_state \<Rightarrow> launcher_state" where
  "Handle_Close i l = l\<lparr>lnHandles := (lnHandles l)[i := (if lnHandles l ! i = Ended then Ended else Cancelled)]\<rparr>"

text \<open>The end of the goroutine of a launch.\<close>

definition runEnded :: "nat \<Rightarrow> launcher_state \<Rightarrow> launcher_state" where
  "runEnded i l = l\<lparr>lnAcquired := lnAcquired l - 1, lnHandles := (lnHandles l)[i := Ended]\<rparr>"

inductive launcher_step :: "launcher_state \<Rightarrow> launcher_state \<Rightarrow> bool" where
  acquires: "mayAcquire l \<Longrightarrow> launcher_step l (snd (Launch None created l))"
| refused: "launcher_step l (snd (Launch (Some e) created l))"
| closes: "i < length (lnHandles l) \<Longrightarrow> launcher_step l (Handle_Close i l)"
| ends: "i < length (lnHandles l) \<Longrightarrow> lnHandles l ! i \<noteq> Ended \<Longrightarrow> launcher_step l (runEnded i l)"

inductive launcher_reach :: "launcher_state \<Rightarrow> launcher_state \<Rightarrow> bool" where
  start: "launcher_reach l l"
| step: "launcher_reach l l' \<Longrightarrow> launcher_step l' l'' \<Longrightarrow> launcher_reach l l''"

definition alive :: "launcher_state \<Rightarrow> nat" where
  "alive l = length (filter (\<lambda>h. h \<noteq> Ended) (lnHandles l))"

definition permits_ok :: "launcher_state \<Rightarrow> bool" where
  "permits_ok l \<longleftrightarrow> lnAcquired l = alive l + lnFailed l \<and> (0 < lnAcquired l \<longrightarrow> int (lnAcquired l) \<le> lnMaxParallel l)"

lemma alive_update:
  "i < length hs \<Longrightarrow> length (filter (\<lambda>h. h \<noteq> Ended) (hs[i := h])) =
     length (filter (\<lambda>h. h \<noteq> Ended) hs) - (if hs ! i \<noteq> Ended then 1 else 0) + (if h \<noteq> Ended then 1 else 0)"
proof (induction hs arbitrary: i)
  case (Cons x xs)
  show ?case
  proof (cases i)
    case (Suc j)
    then have "j < length xs" using Cons.prems by simp
    moreover from this have "xs ! j \<noteq> Ended \<Longrightarrow> 0 < length (filter (\<lambda>h. h \<noteq> Ended) xs)"
      by (auto simp: filter_empty_conv dest: nth_mem)
    ultimately show ?thesis using Cons.IH [of j] Suc by auto
  qed simp
qed simp

lemma Launch_simps:
  "snd (Launch (Some e) created l) = l"
  "snd (Launch None created l) = (if \<exists>u. created = Ok u
     then l\<lparr>lnAcquired := lnAcquired l + 1, lnHandles := lnHandles l @ [Running]\<rparr>
     else l\<lparr>lnAcquired := lnAcquired l + 1, lnFailed := lnFailed l + 1\<rparr>)"
  by (auto simp: Launch_def createSchedulerHandle_def wrapErr_def split: outcome.splits)

lemma alive_pos: "i < length (lnHandles l) \<Longrightarrow> lnHandles l ! i \<noteq> Ended \<Longrightarrow> 0 < alive l"
  by (auto simp: alive_def filter_empty_conv dest: nth_mem)

lemma launcher_step_ok:
  assumes "permits_ok l" "launcher_step l l'"
  shows "permits_ok l' \<and> lnMaxParallel l' = lnMaxParallel l \<and> lnFailed l \<le> lnFailed l'"
  using assms(2)
proof cases
  case (acquires created)
  then show ?thesis using assms(1) by (auto simp: Launch_simps permits_ok_def mayAcquire_def alive_def)
next
  case (refused e created)
  then show ?thesis using assms(1) by (simp add: Launch_simps)
next
  case (closes i)
  then have "alive (Handle_Close i l) = alive l"
    using alive_pos [of i l] by (auto simp: alive_def Handle_Close_def alive_update)
  then show ?thesis using assms(1) closes by (auto simp: permits_ok_def Handle_Close_def)
next
  case (ends i)
  then have "alive (runEnded i l) = alive l - 1" "0 < alive l"
    using alive_pos [of i l] by (auto simp: alive_def runEnded_def alive_update)
  then show ?thesis using assms(1) ends by (auto simp: permits_ok_def runEnded_def)
qed

lemma launcher_reach_ok:
  assumes "launcher_reach l l'" "permits_ok l"
  shows "permits_ok l' \<and> lnMaxParallel l' = lnMaxParallel l \<and> lnFailed l \<le> lnFailed l'"
  using assms by (induction) (auto dest: launcher_step_ok)

text \<open>
  C29. However launches, closes and ends of runs interleave: the schedulers that have not ended are never
  more than the maximum given to the launcher (and none, if that is not positive). But each launch that fails after
  it took its permit keeps it for ever: in every later state the schedulers alive and the launches
  failed so far together are within the maximum, so that after as many failures as the maximum no
  launch can take a permit again.
\<close>

theorem launcher_bounded:
  assumes "NewLauncherFromConfig parsed maxParallel = Ok l0" "launcher_reach l0 l" "launcher_reach l l'"
  shows "int (alive l') \<le> max 0 maxParallel \<and> int (alive l' + lnFailed l) \<le> max 0 maxParallel \<and>
    (maxParallel \<le> int (lnFailed l) \<longrightarrow> \<not> mayAcquire l')"
proof -
  have "permits_ok l0" "lnMaxParallel l0 = maxParallel"
    using assms(1) by (auto simp: NewLauncherFromConfig_def bindO_eq_Ok permits_ok_def alive_def)
  then have "permits_ok l'" "lnMaxParallel l' = maxParallel" "lnFailed l \<le> lnFailed l'"
    using launcher_reach_ok [OF assms(2)] launcher_reach_ok [OF assms(3)] by simp_all
  then show ?thesis by (cases "lnAcquired l'") (auto simp: permits_ok_def mayAcquire_def)
qed

theorem launcher_bounded_witness:
  "\<exists>l0. NewLauncherFromConfig (Ok ()) 1 = Ok l0 \<and> \<not> mayAcquire (snd (Launch None (Err (Plain ''no config'')) l0))"
proof -
  obtain l0 where l0: "NewLauncherFromConfig (Ok ()) 1 = Ok l0" "lnFailed l0 = 0" "mayAcquire l0"
    by (simp add: NewLauncherFromConfig_def mayAcquire_def)
  let ?l = "snd (Launch None (Err (Plain ''no config'')) l0)"
  have "launcher_reach l0 ?l" using launcher_reach.step [OF start acquires [OF l0(3)]] .
  then have "1 \<le> int (lnFailed ?l) \<longrightarrow> \<not> mayAcquire ?l" using launcher_bounded [OF l0(1) _ start] by blast
  moreover have "lnFailed ?l = 1" using l0(2) by (simp add: Launch_simps)
  ultimately show ?thesis using l0(1) by auto
qed

end
