(* ===== verification/Obfuscate.thy ===== *)
theory Obfuscate
  imports PlannerTypes "HOL-Library.Sublist"
begin

text \<open>
  Sanitizing a cluster snapshot before it leaves a landscape,
  \<open>src/tools/cmd/scadctl/cmd/genscenario/obfuscate.go\<close>: names are replaced by numbered ones, label
  keys with a landscape specific prefix are removed, and those among them that scheduling
  constraints refer to are renamed, in every place, instead.

  A set of keys is the list of them in the order of insertion. The order in which a \<open>range\<close> loop
  meets the keys is up to Go; it is an argument of the one function that depends on it.
\<close>

declare map_of_eq_Some_iff [simp del] Some_eq_map_of_iff [simp del]

definition removePrefixes :: "string list" where
  "removePrefixes = [''beta.'', ''failure-domain.beta.'', ''node.alpha.kubernetes.io'', ''checksum/'',
     ''node-agent.gardener.cloud'', ''worker.gardener.cloud/gardener-node-agent-secret-name'',
     ''resources.gardener.cloud'', ''shoot.gardener.cloud'', ''node.gardener.cloud/machine-name'',
     ''node.machine.sapcloud.io/last-applied-anno-labels-taints'', ''cni.'',
     ''controller-revision-hash'', ''gardener.cloud/role'', ''networking.gardener.cloud/'',
     ''node.gardener.cloud/critical-component'',
     ''pod-template-generation'', ''reference.resources.gardener.cloud/'', ''csi.volume.kubernetes.io'',
     ''volumes.kubernetes.io/controller-managed-attach-detach'',
     ''topology.ebs'', ''worker.gardener'', ''worker.garden'', ''topology.k8s.aws'']"

definition sanitizeDeleteFunc :: "string \<Rightarrow> bool" where
  "sanitizeDeleteFunc k \<longleftrightarrow> list_ex (\<lambda>p. prefix p k) removePrefixes"

text \<open>\<open>maps.DeleteFunc\<close> and \<open>strconv.Itoa\<close>.\<close>

definition DeleteFunc :: "(string \<Rightarrow> bool) \<Rightarrow> labels \<Rightarrow> labels" where
  "DeleteFunc f m = filter (\<lambda>(k, _). \<not> f k) m"

definition Itoa :: "nat \<Rightarrow> string" where
  "Itoa n = digits n"

subsection \<open>Collecting the keys scheduling constraints refer to\<close>

type_synonym key_set = "string list"

definition insertKey :: "string \<Rightarrow> key_set \<Rightarrow> key_set" where
  "insertKey k ks = (if k \<in> set ks then ks else ks @ [k])"

definition insertKeys :: "string list \<Rightarrow> key_set \<Rightarrow> key_set" where
  "insertKeys new ks = fold insertKey new ks"

definition insertNonEmpty :: "string \<Rightarrow> key_set \<Rightarrow> key_set" where
  "insertNonEmpty k ks = (if k \<noteq> [] then insertKey k ks else ks)"

definition collectLabelSelectorKeys :: "label_selector option \<Rightarrow> key_set \<Rightarrow> key_set" where
  "collectLabelSelectorKeys selector ks = (case selector of None \<Rightarrow> ks
     | Some s \<Rightarrow> insertKeys (map srKey (selMatchExpressions s)) (insertKeys (map fst (selMatchLabels s)) ks))"

definition collectNodeSelectorRequirementKeys :: "selector_requirement list \<Rightarrow> key_set \<Rightarrow> key_set" where
  "collectNodeSelectorRequirementKeys reqs ks = insertKeys (map srKey reqs) ks"

definition collectPodAffinityTermKeys :: "pod_affinity_term list \<Rightarrow> key_set \<Rightarrow> key_set" where
  "collectPodAffinityTermKeys terms ks = fold (\<lambda>term ks.
     collectLabelSelectorKeys (patNamespaceSelector term)
       (collectLabelSelectorKeys (patLabelSelector term)
         (insertNonEmpty (patTopologyKey term) ks))) terms ks"

definition collectWeightedPodAffinityTermKeys :: "weighted_pod_affinity_term list \<Rightarrow> key_set \<Rightarrow> key_set" where
  "collectWeightedPodAffinityTermKeys terms ks = fold (\<lambda>term ks.
     collectLabelSelectorKeys (patNamespaceSelector (wptTerm term))
       (collectLabelSelectorKeys (patLabelSelector (wptTerm term))
         (insertNonEmpty (patTopologyKey (wptTerm term)) ks))) terms ks"

definition collectNodeAffinityKeys :: "node_affinity option \<Rightarrow> key_set \<Rightarrow> key_set" where
  "collectNodeAffinityKeys na ks = (case na of None \<Rightarrow> ks | Some na \<Rightarrow>
     let ks = (case naRequired na of None \<Rightarrow> ks | Some terms \<Rightarrow>
           fold (\<lambda>term ks. collectNodeSelectorRequirementKeys (ntmMatchFields term)
             (collectNodeSelectorRequirementKeys (ntmMatchExpressions term) ks)) terms ks)
     in fold (\<lambda>pref ks. collectNodeSelectorRequirementKeys (ntmMatchFields (psgPreference pref))
          (collectNodeSelectorRequirementKeys (ntmMatchExpressions (psgPreference pref)) ks)) (naPreferred na) ks)"

definition collectPodAffinityKeys :: "pod_affinity option \<Rightarrow> key_set \<Rightarrow> key_set" where
  "collectPodAffinityKeys pa ks = (case pa of None \<Rightarrow> ks | Some pa \<Rightarrow>
     collectWeightedPodAffinityTermKeys (paPreferred pa) (collectPodAffinityTermKeys (paRequired pa) ks))"

definition collectAffinityKeys :: "affinity option \<Rightarrow> key_set \<Rightarrow> key_set" where
  "collectAffinityKeys af ks = (case af of None \<Rightarrow> ks | Some af \<Rightarrow>
     collectPodAffinityKeys (afPodAntiAffinity af)
       (collectPodAffinityKeys (afPodAffinity af) (collectNodeAffinityKeys (afNodeAffinity af) ks)))"

definition collectTSCKeys :: "topology_spread_constraint \<Rightarrow> key_set \<Rightarrow> key_set" where
  "collectTSCKeys tsc ks = insertKeys (tscMatchLabelKeys tsc)
     (collectLabelSelectorKeys (tscLabelSelector tsc) (insertNonEmpty (tscTopologyKey tsc) ks))"

definition collectPodKeys :: "pod_info \<Rightarrow> key_set \<Rightarrow> key_set" where
  "collectPodKeys pod ks =
     fold collectTSCKeys (piTopologySpreadConstraints pod)
       (collectAffinityKeys (piAffinity pod)
         (fold (\<lambda>t. insertNonEmpty (tolKey t)) (piTolerations pod)
           (insertKeys (map fst (piNodeSelector pod)) ks)))"

definition collectSchedulingRelevantKeys :: "cluster_snapshot \<Rightarrow> key_set" where
  "collectSchedulingRelevantKeys snap = fold collectPodKeys (csPods snap) []"

subsection \<open>The renaming\<close>

type_synonym key_map = "(string, string) gomap"

text \<open>The keys come in the order in which the loop over the set meets them.\<close>

fun buildKeyMapLoop :: "string list \<Rightarrow> nat \<Rightarrow> key_map \<Rightarrow> key_map" where
  "buildKeyMapLoop [] keyID keyMap = keyMap"
| "buildKeyMapLoop (key # keys) keyID keyMap =
     (if sanitizeDeleteFunc key
      then buildKeyMapLoop keys (Suc keyID) (AList.update key (''sched-key-'' @ Itoa keyID) keyMap)
      else buildKeyMapLoop keys keyID keyMap)"

definition buildSchedulingKeyMap :: "string list \<Rightarrow> key_map" where
  "buildSchedulingKeyMap schedulingKeys = buildKeyMapLoop schedulingKeys 0 []"

text \<open>\<open>if newKey, ok := keyMap[k]; ok { k = newKey }\<close>.\<close>

definition renameKey :: "key_map \<Rightarrow> string \<Rightarrow> string" where
  "renameKey keyMap k = (case map_of keyMap k of Some newKey \<Rightarrow> newKey | None \<Rightarrow> k)"

definition obfuscateStringMap :: "key_map \<Rightarrow> labels \<Rightarrow> labels" where
  "obfuscateStringMap keyMap m =
     (if m = [] then m else
      let renames = filter (\<lambda>(k, _). map_of keyMap k \<noteq> None) m;
          deletes = filter (\<lambda>(k, _). map_of keyMap k = None \<and> sanitizeDeleteFunc k) m;
          m = fold (\<lambda>(d, _) m. AList.delete d m) deletes m
      in fold (\<lambda>(oldKey, v) m. AList.update (renameKey keyMap oldKey) v (AList.delete oldKey m)) renames m)"

definition obfuscateLabelSelector :: "key_map \<Rightarrow> label_selector option \<Rightarrow> label_selector option" where
  "obfuscateLabelSelector keyMap sel = map_option (\<lambda>s.
     s\<lparr>selMatchLabels := obfuscateStringMap keyMap (selMatchLabels s),
       selMatchExpressions := map (\<lambda>e. e\<lparr>srKey := renameKey keyMap (srKey e)\<rparr>) (selMatchExpressions s)\<rparr>) sel"

definition obfuscateNodeSelectorRequirements ::
  "key_map \<Rightarrow> selector_requirement list \<Rightarrow> selector_requirement list" where
  "obfuscateNodeSelectorRequirements keyMap reqs = map (\<lambda>r. r\<lparr>srKey := renameKey keyMap (srKey r)\<rparr>) reqs"

definition obfuscateNodeSelectorTerm :: "key_map \<Rightarrow> node_selector_term \<Rightarrow> node_selector_term" where
  "obfuscateNodeSelectorTerm keyMap t =
     t\<lparr>ntmMatchExpressions := obfuscateNodeSelectorRequirements keyMap (ntmMatchExpressions t),
       ntmMatchFields := obfuscateNodeSelectorRequirements keyMap (ntmMatchFields t)\<rparr>"

definition obfuscatePodAffinityTerm :: "key_map \<Rightarrow> pod_affinity_term \<Rightarrow> pod_affinity_term" where
  "obfuscatePodAffinityTerm keyMap t =
     t\<lparr>patTopologyKey := renameKey keyMap (patTopologyKey t),
       patLabelSelector := obfuscateLabelSelector keyMap (patLabelSelector t),
       patNamespaceSelector := obfuscateLabelSelector keyMap (patNamespaceSelector t)\<rparr>"

definition obfuscatePodAffinityTerms :: "key_map \<Rightarrow> pod_affinity_term list \<Rightarrow> pod_affinity_term list" where
  "obfuscatePodAffinityTerms keyMap terms = map (obfuscatePodAffinityTerm keyMap) terms"

definition obfuscateWeightedPodAffinityTerms ::
  "key_map \<Rightarrow> weighted_pod_affinity_term list \<Rightarrow> weighted_pod_affinity_term list" where
  "obfuscateWeightedPodAffinityTerms keyMap terms =
     map (\<lambda>t. t\<lparr>wptTerm := obfuscatePodAffinityTerm keyMap (wptTerm t)\<rparr>) terms"

definition obfuscatePodAffinity :: "key_map \<Rightarrow> pod_affinity \<Rightarrow> pod_affinity" where
  "obfuscatePodAffinity keyMap pa =
     pa\<lparr>paRequired := obfuscatePodAffinityTerms keyMap (paRequired pa),
        paPreferred := obfuscateWeightedPodAffinityTerms keyMap (paPreferred pa)\<rparr>"

definition obfuscateNodeAffinity :: "key_map \<Rightarrow> node_affinity \<Rightarrow> node_affinity" where
  "obfuscateNodeAffinity keyMap na =
     na\<lparr>naRequired := map_option (map (obfuscateNodeSelectorTerm keyMap)) (naRequired na),
        naPreferred := map (\<lambda>p. p\<lparr>psgPreference := obfuscateNodeSelectorTerm keyMap (psgPreference p)\<rparr>)
          (naPreferred na)\<rparr>"

definition obfuscateAffinityRules :: "key_map \<Rightarrow> affinity option \<Rightarrow> affinity option" where
  "obfuscateAffinityRules keyMap af = map_option (\<lambda>af.
     af\<lparr>afNodeAffinity := map_option (obfuscateNodeAffinity keyMap) (afNodeAffinity af),
        afPodAffinity := map_option (obfuscatePodAffinity keyMap) (afPodAffinity af),
        afPodAntiAffinity := map_option (obfuscatePodAffinity keyMap) (afPodAntiAffinity af)\<rparr>) af"

definition obfuscateTSCRules ::
  "key_map \<Rightarrow> topology_spread_constraint list \<Rightarrow> topology_spread_constraint list" where
  "obfuscateTSCRules keyMap tscs = map (\<lambda>t.
     t\<lparr>tscTopologyKey := renameKey keyMap (tscTopologyKey t),
       tscLabelSelector := obfuscateLabelSelector keyMap (tscLabelSelector t),
       tscMatchLabelKeys := map (renameKey keyMap) (tscMatchLabelKeys t)\<rparr>) tscs"

definition obfuscateTolerations :: "key_map \<Rightarrow> toleration list \<Rightarrow> toleration list" where
  "obfuscateTolerations keyMap ts = map (\<lambda>t. t\<lparr>tolKey := renameKey keyMap (tolKey t)\<rparr>) ts"

definition obfuscateTaints :: "key_map \<Rightarrow> taint list \<Rightarrow> taint list" where
  "obfuscateTaints keyMap ts = map (\<lambda>t. t\<lparr>tntKey := renameKey keyMap (tntKey t)\<rparr>) ts"

subsection \<open>The snapshot\<close>

fun nodeNameMapLoop :: "node_info list \<Rightarrow> nat \<Rightarrow> key_map \<Rightarrow> key_map" where
  "nodeNameMapLoop [] i m = m"
| "nodeNameMapLoop (n # ns) i m =
     nodeNameMapLoop ns (Suc i) (AList.update (mName (niMeta n)) (''node-'' @ Itoa i) m)"

text \<open>Each owner name gets the next number the first time it is met.\<close>

definition addOwner :: "owner_reference \<Rightarrow> key_map \<times> nat \<Rightarrow> key_map \<times> nat" where
  "addOwner owner st = (case st of (m, ownerID) \<Rightarrow>
     if map_of m (orName owner) = None
     then (AList.update (orName owner) (''owner-'' @ Itoa ownerID) m, Suc ownerID) else (m, ownerID))"

definition buildOwnerNameMap :: "pod_info list \<Rightarrow> key_map" where
  "buildOwnerNameMap pods =
     fst (fold (\<lambda>pod. fold addOwner (mOwnerReferences (piMeta pod))) pods ([], 0))"

text \<open>A node of the snapshot is in the map; the lookup of a missing name would read as empty.\<close>

definition obfuscateNode :: "key_map \<Rightarrow> key_map \<Rightarrow> node_info \<Rightarrow> node_info" where
  "obfuscateNode nodeNameMap keyMap n =
     n\<lparr>niMeta := (niMeta n)\<lparr>mName := lookupStr nodeNameMap (mName (niMeta n)),
          mLabels := obfuscateStringMap keyMap (mLabels (niMeta n)),
          mAnnotations := DeleteFunc sanitizeDeleteFunc (mAnnotations (niMeta n))\<rparr>,
       niTaints := obfuscateTaints keyMap (niTaints n)\<rparr>"

definition obfuscatePod :: "key_map \<Rightarrow> key_map \<Rightarrow> key_map \<Rightarrow> nat \<Rightarrow> pod_info \<Rightarrow> pod_info" where
  "obfuscatePod nodeNameMap ownerNameMap keyMap i pod =
     (let owners = mOwnerReferences (piMeta pod);
          suffix = (if owners \<noteq> [] \<and> orKind (hd owners) = ''DaemonSet'' then ''-ds'' else [])
      in pod\<lparr>piMeta := (piMeta pod)\<lparr>mName := ''pod-'' @ Itoa i @ suffix, mGenerateName := [],
               mOwnerReferences := map (\<lambda>r. r\<lparr>orName := renameKey ownerNameMap (orName r)\<rparr>) owners,
               mAnnotations := DeleteFunc sanitizeDeleteFunc (mAnnotations (piMeta pod)),
               mLabels := obfuscateStringMap keyMap (mLabels (piMeta pod))\<rparr>,
             piNodeName := renameKey nodeNameMap (piNodeName pod),
             piNodeSelector := obfuscateStringMap keyMap (piNodeSelector pod),
             piAffinity := obfuscateAffinityRules keyMap (piAffinity pod),
             piTopologySpreadConstraints := obfuscateTSCRules keyMap (piTopologySpreadConstraints pod),
             piTolerations := obfuscateTolerations keyMap (piTolerations pod)\<rparr>)"

definition obfuscatePriorityClass :: "key_map \<Rightarrow> kobj \<Rightarrow> kobj" where
  "obfuscatePriorityClass keyMap pc =
     pc\<lparr>ometa := (ometa pc)\<lparr>mLabels := obfuscateStringMap keyMap (mLabels (ometa pc)),
          mAnnotations := DeleteFunc sanitizeDeleteFunc (mAnnotations (ometa pc))\<rparr>\<rparr>"

text \<open>\<open>order\<close> is the order in which Go ranges over the set of scheduling keys.\<close>

definition obfuscateMetadata :: "(key_set \<Rightarrow> string list) \<Rightarrow> cluster_snapshot \<Rightarrow> cluster_snapshot" where
  "obfuscateMetadata order snap =
     (let keyMap = buildSchedulingKeyMap (order (collectSchedulingRelevantKeys snap));
          nodeNameMap = nodeNameMapLoop (csNodes snap) 0 [];
          ownerNameMap = buildOwnerNameMap (csPods snap)
      in snap\<lparr>csNodes := map (obfuscateNode nodeNameMap keyMap) (csNodes snap),
              csPods := map (\<lambda>(i, p). obfuscatePod nodeNameMap ownerNameMap keyMap i p)
                (enumerate 0 (csPods snap)),
              csPriorityClasses := map (obfuscatePriorityClass keyMap) (csPriorityClasses snap)\<rparr>)"

end
