(* ===== verification/ObfuscateProps.thy ===== *)
theory ObfuscateProps
  imports Obfuscate
begin

text \<open>
  Obfuscation keeps scheduling: the renaming is injective on keys that do not already look like a
  renamed one, a map looked up under a renamed key answers as before, and so every constraint of a
  pod selects the same nodes and pods as before. The scheduler's side, what a constraint means, is
  stated here for any meaning of the operators.
\<close>

subsection \<open>The renaming is injective\<close>

definition schedKey :: "nat \<Rightarrow> string" where
  "schedKey i = ''sched-key-'' @ Itoa i"

definition freshKey :: "string \<Rightarrow> bool" where
  "freshKey k \<longleftrightarrow> \<not> prefix ''sched-key-'' k"

lemma schedKey_inj: "schedKey i = schedKey j \<Longrightarrow> i = j"
  by (simp add: schedKey_def Itoa_def digits_inj)

lemma schedKey_not_fresh [simp]: "\<not> freshKey (schedKey i)"
  by (simp add: freshKey_def schedKey_def)

text \<open>A key map under construction: numbered values below the next number, none twice.\<close>

definition keyMap_ok :: "nat \<Rightarrow> key_map \<Rightarrow> bool" where
  "keyMap_ok n km \<longleftrightarrow> (\<forall>k v. map_of km k = Some v \<longrightarrow> (\<exists>i<n. v = schedKey i)) \<and> inj_on (map_of km) (dom (map_of km))"

lemma keyMap_ok_update: "keyMap_ok n km \<Longrightarrow> keyMap_ok (Suc n) (AList.update k (schedKey n) km)"
  unfolding keyMap_ok_def inj_on_def
  by (auto simp: dom_def less_Suc_eq dest!: schedKey_inj split: if_splits) (metis schedKey_inj less_irrefl)+

lemma buildKeyMapLoop_Cons:
  "buildKeyMapLoop (key # keys) n km =
     (if sanitizeDeleteFunc key then buildKeyMapLoop keys (Suc n) (AList.update key (schedKey n) km)
      else buildKeyMapLoop keys n km)"
  by (simp only: schedKey_def buildKeyMapLoop.simps)

declare buildKeyMapLoop.simps(2) [simp del] buildKeyMapLoop_Cons [simp]

lemma buildKeyMapLoop_ok: "keyMap_ok n km \<Longrightarrow> \<exists>n'. keyMap_ok n' (buildKeyMapLoop keys n km)"
  by (induction keys arbitrary: n km) (auto intro: keyMap_ok_update)

lemma buildKeyMapLoop_dom:
  "dom (map_of (buildKeyMapLoop keys n km)) = dom (map_of km) \<union> {k \<in> set keys. sanitizeDeleteFunc k}"
  by (induction keys arbitrary: n km) auto

text \<open>What the lemmas below need of a key map.\<close>

definition renaming :: "key_map \<Rightarrow> bool" where
  "renaming km \<longleftrightarrow> (\<exists>n. keyMap_ok n km) \<and> (\<forall>k. map_of km k \<noteq> None \<longrightarrow> sanitizeDeleteFunc k)"

lemma buildSchedulingKeyMap_renaming: "renaming (buildSchedulingKeyMap keys)"
proof -
  have "keyMap_ok 0 []" by (simp add: keyMap_ok_def)
  then have "\<exists>n. keyMap_ok n (buildSchedulingKeyMap keys)"
    unfolding buildSchedulingKeyMap_def by (rule buildKeyMapLoop_ok)
  moreover have "sanitizeDeleteFunc k" if "map_of (buildSchedulingKeyMap keys) k \<noteq> None" for k
    using that buildKeyMapLoop_dom [of keys 0 "[]"] unfolding buildSchedulingKeyMap_def dom_def
    by (simp del: not_None_eq) blast
  ultimately show ?thesis by (simp add: renaming_def del: not_None_eq)
qed



subsection \<open>Maps under the renaming\<close>









subsection \<open>The keys that are collected\<close>

named_theorems key_sets \<open>the keys each collecting function adds\<close>

lemma set_insertKey [key_sets]: "set (insertKey k ks) = insert k (set ks)"
  by (auto simp: insertKey_def)

lemma set_insertKeys [key_sets]: "set (insertKeys new ks) = set new \<union> set ks"
  unfolding insertKeys_def by (induction new arbitrary: ks) (auto simp: set_insertKey)

lemma set_insertNonEmpty [key_sets]: "set (insertNonEmpty k ks) = ({k} - {[]}) \<union> set ks"
  by (auto simp: insertNonEmpty_def set_insertKey)

lemma set_fold_collect:
  assumes "\<And>x ks. set (f x ks) = g x \<union> set ks"
  shows "set (fold f xs ks) = (\<Union>x\<in>set xs. g x) \<union> set ks"
  by (induction xs arbitrary: ks) (auto simp: assms)

definition selKeys :: "label_selector option \<Rightarrow> string set" where
  "selKeys sel = (case sel of None \<Rightarrow> {} | Some s \<Rightarrow> fst ` set (selMatchLabels s) \<union> srKey ` set (selMatchExpressions s))"

definition patKeys :: "pod_affinity_term \<Rightarrow> string set" where
  "patKeys t = ({patTopologyKey t} - {[]}) \<union> selKeys (patLabelSelector t) \<union> selKeys (patNamespaceSelector t)"

definition termKeys :: "node_selector_term \<Rightarrow> string set" where
  "termKeys t = srKey ` set (ntmMatchExpressions t) \<union> srKey ` set (ntmMatchFields t)"

definition naKeys :: "node_affinity option \<Rightarrow> string set" where
  "naKeys na = (case na of None \<Rightarrow> {} | Some na \<Rightarrow>
     (case naRequired na of None \<Rightarrow> {} | Some ts \<Rightarrow> \<Union>(termKeys ` set ts)) \<union>
     (\<Union>p\<in>set (naPreferred na). termKeys (psgPreference p)))"

definition paKeys :: "pod_affinity option \<Rightarrow> string set" where
  "paKeys pa = (case pa of None \<Rightarrow> {} | Some pa \<Rightarrow>
     \<Union>(patKeys ` set (paRequired pa)) \<union> (\<Union>t\<in>set (paPreferred pa). patKeys (wptTerm t)))"

definition afKeys :: "affinity option \<Rightarrow> string set" where
  "afKeys af = (case af of None \<Rightarrow> {} | Some af \<Rightarrow>
     naKeys (afNodeAffinity af) \<union> paKeys (afPodAffinity af) \<union> paKeys (afPodAntiAffinity af))"



lemma set_collectLabelSelectorKeys [key_sets]:
  "set (collectLabelSelectorKeys sel ks) = selKeys sel \<union> set ks"
  by (auto simp: collectLabelSelectorKeys_def selKeys_def key_sets split: option.splits)

lemma set_collectPodAffinityTermKeys [key_sets]:
  "set (collectPodAffinityTermKeys ts ks) = \<Union>(patKeys ` set ts) \<union> set ks"
  unfolding collectPodAffinityTermKeys_def
  by (subst set_fold_collect [where g = patKeys]) (auto simp: patKeys_def key_sets)

lemma set_collectWeightedPodAffinityTermKeys [key_sets]:
  "set (collectWeightedPodAffinityTermKeys ts ks) = (\<Union>t\<in>set ts. patKeys (wptTerm t)) \<union> set ks"
  unfolding collectWeightedPodAffinityTermKeys_def
  by (subst set_fold_collect [where g = "\<lambda>t. patKeys (wptTerm t)"]) (auto simp: patKeys_def key_sets)

lemma set_collectNodeAffinityKeys [key_sets]:
  "set (collectNodeAffinityKeys na ks) = naKeys na \<union> set ks"
proof -
  have 1: "set (fold (\<lambda>term ks. collectNodeSelectorRequirementKeys (ntmMatchFields term)
             (collectNodeSelectorRequirementKeys (ntmMatchExpressions term) ks)) ts ks) = \<Union>(termKeys ` set ts) \<union> set ks" for ts ks
    by (subst set_fold_collect [where g = termKeys])
      (auto simp: termKeys_def collectNodeSelectorRequirementKeys_def key_sets)
  have 2: "set (fold (\<lambda>pref ks. collectNodeSelectorRequirementKeys (ntmMatchFields (psgPreference pref))
          (collectNodeSelectorRequirementKeys (ntmMatchExpressions (psgPreference pref)) ks)) ps ks) =
      (\<Union>p\<in>set ps. termKeys (psgPreference p)) \<union> set ks" for ps ks
    by (subst set_fold_collect [where g = "\<lambda>p. termKeys (psgPreference p)"])
      (auto simp: termKeys_def collectNodeSelectorRequirementKeys_def key_sets)
  show ?thesis
    by (auto simp: collectNodeAffinityKeys_def naKeys_def Let_def 1 2 split: option.splits)
qed

lemma set_collectAffinityKeys [key_sets]: "set (collectAffinityKeys af ks) = afKeys af \<union> set ks"
  by (auto simp: collectAffinityKeys_def afKeys_def collectPodAffinityKeys_def paKeys_def key_sets split: option.splits)



subsection \<open>What scheduling sees\<close>

text \<open>
  The meaning of the constraints, as the scheduler reads them. \<open>sat op values v\<close> says whether the
  looked up value \<open>v\<close> satisfies an operator with its values; nothing is assumed of it.
\<close>

type_synonym operator_sem = "string \<Rightarrow> string list \<Rightarrow> string option \<Rightarrow> bool"

definition requirementMet :: "operator_sem \<Rightarrow> labels \<Rightarrow> selector_requirement \<Rightarrow> bool" where
  "requirementMet sat lbl r = sat (srOperator r) (srValues r) (map_of lbl (srKey r))"

definition termMet :: "operator_sem \<Rightarrow> node_info \<Rightarrow> node_selector_term \<Rightarrow> bool" where
  "termMet sat n t \<longleftrightarrow> list_all (requirementMet sat (mLabels (niMeta n))) (ntmMatchExpressions t) \<and>
     list_all (requirementMet sat [(''metadata.name'', mName (niMeta n))]) (ntmMatchFields t)"

definition requiredTerms :: "pod_info \<Rightarrow> node_selector_term list option" where
  "requiredTerms p = Option.bind (piAffinity p) (\<lambda>af. Option.bind (afNodeAffinity af) naRequired)"




definition tolerates :: "toleration \<Rightarrow> taint \<Rightarrow> bool" where
  "tolerates tol t \<longleftrightarrow> (tolEffect tol = [] \<or> tolEffect tol = tntEffect t) \<and> (tolKey tol = [] \<or> tolKey tol = tntKey t) \<and>
     (if tolOperator tol = [] \<or> tolOperator tol = ''Equal'' then tolValue tol = tntValue t
      else tolOperator tol = ''Exists'')"

definition nodeEligible :: "operator_sem \<Rightarrow> pod_info \<Rightarrow> node_info \<Rightarrow> bool" where
  "nodeEligible sat p n \<longleftrightarrow> map_of (piNodeSelector p) \<subseteq>\<^sub>m map_of (mLabels (niMeta n)) \<and>
     (case requiredTerms p of None \<Rightarrow> True | Some ts \<Rightarrow> list_ex (termMet sat n) ts) \<and>
     list_all (\<lambda>t. tntEffect t = ''PreferNoSchedule'' \<or> list_ex (\<lambda>tol. tolerates tol t) (piTolerations p)) (niTaints n)"
















lemma requiredTerms_obfuscate:
  "requiredTerms (obfuscatePod nm om km i p) = map_option (map (obfuscateNodeSelectorTerm km)) (requiredTerms p)"
  by (auto simp: requiredTerms_def obfuscatePod_def Let_def obfuscateAffinityRules_def obfuscateNodeAffinity_def
      split: Option.bind_split option.splits)





lemma not_sanitized_Nil [simp]: "\<not> sanitizeDeleteFunc []"
  by (simp add: sanitizeDeleteFunc_def removePrefixes_def)





definition nodeNamed :: "string \<Rightarrow> node_info \<Rightarrow> node_info" where
  "nodeNamed x n = n\<lparr>niMeta := (niMeta n)\<lparr>mName := x\<rparr>\<rparr>"

lemma nodeNamed_simps [simp]:
  "mName (niMeta (nodeNamed x n)) = x" "mLabels (niMeta (nodeNamed x n)) = mLabels (niMeta n)"
  "niTaints (nodeNamed x n) = niTaints n"
  by (simp_all add: nodeNamed_def)












subsection \<open>The snapshot\<close>

lemma obfuscateMetadata_nth:
  fixes order :: "key_set \<Rightarrow> string list"
  assumes "i < length (csPods snap)" "j < length (csNodes snap)"
  defines "km \<equiv> buildSchedulingKeyMap (order (collectSchedulingRelevantKeys snap))"
    and "nm \<equiv> nodeNameMapLoop (csNodes snap) 0 []"
  shows "csPods (obfuscateMetadata order snap) ! i = obfuscatePod nm (buildOwnerNameMap (csPods snap)) km i (csPods snap ! i)"
    "csNodes (obfuscateMetadata order snap) ! j = obfuscateNode nm km (csNodes snap ! j)"
  using assms(1,2) by (simp_all add: obfuscateMetadata_def Let_def km_def nm_def nth_enumerate_eq)


lemma nodeNameMapLoop_other:
  "k \<notin> (mName \<circ> niMeta) ` set ns \<Longrightarrow> map_of (nodeNameMapLoop ns i m) k = map_of m k"
  by (induction ns i m rule: nodeNameMapLoop.induct) auto

lemma nodeNameMapLoop_nth:
  assumes "distinct (map (mName \<circ> niMeta) ns)" "j < length ns"
  shows "map_of (nodeNameMapLoop ns i m) (mName (niMeta (ns ! j))) = Some (''node-'' @ Itoa (i + j))"
  using assms
proof (induction ns arbitrary: i m j)
  case (Cons n ns)
  show ?case
  proof (cases j)
    case 0
    then show ?thesis using nodeNameMapLoop_other [of "mName (niMeta n)" ns] Cons.prems by simp
  next
    case (Suc j')
    then show ?thesis using Cons.IH [of j' "Suc i"] Cons.prems by simp
  qed
qed simp



definition zoneKey :: string where
  "zoneKey = ''topology.ebs.csi.aws.com/zone''"

definition demoAffinity :: affinity where
  "demoAffinity = \<lparr>afNodeAffinity = Some \<lparr>naRequired = None, naPreferred = [\<lparr>psgWeight = 5,
       psgPreference = \<lparr>ntmMatchExpressions = [\<lparr>srKey = zoneKey, srOperator = ''Exists'', srValues = []\<rparr>], ntmMatchFields = []\<rparr>\<rparr>]\<rparr>,
     afPodAffinity = None,
     afPodAntiAffinity = Some \<lparr>paRequired = [\<lparr>patLabelSelector = Some \<lparr>selMatchLabels = [(''app'', ''web'')], selMatchExpressions = []\<rparr>,
       patNamespaces = [], patTopologyKey = zoneKey, patNamespaceSelector = None, patMatchLabelKeys = [],
       patMismatchLabelKeys = []\<rparr>], paPreferred = []\<rparr>\<rparr>"

definition demoPod :: pod_info where
  "demoPod = \<lparr>piMeta = emptyMeta\<lparr>mName := ''web'', mLabels := [(''app'', ''web'')]\<rparr>, piAggregatedRequests = [],
     piNodeSelector = [(zoneKey, ''z1'')], piAffinity = Some demoAffinity, piOverhead = [], piNodeName = ''ip-10'',
     piSchedulerName = [], piPriorityClassName = [], piPreemptionPolicy = [], piRuntimeClassName = [],
     piVolumes = [], piTolerations = [\<lparr>tolKey = ''cni.x'', tolOperator = ''Exists'', tolValue = [], tolEffect = [], tolSeconds = None\<rparr>],
     piTopologySpreadConstraints = [\<lparr>tscMaxSkew = 1, tscTopologyKey = zoneKey, tscWhenUnsatisfiable = ''DoNotSchedule'',
       tscLabelSelector = Some \<lparr>selMatchLabels = [(''app'', ''web'')], selMatchExpressions = []\<rparr>, tscMinDomains = None,
       tscNodeAffinityPolicy = None, tscNodeTaintsPolicy = None, tscMatchLabelKeys = []\<rparr>],
     piResourceClaims = [], piPriority = 0\<rparr>"

definition demoNode :: node_info where
  "demoNode = \<lparr>niMeta = emptyMeta\<lparr>mName := ''ip-10'', mLabels := [(zoneKey, ''z1''), (''cni.version'', ''3'')]\<rparr>,
     niCapacity = [], niAllocatable = [], niCSINodeSpec = None, niInstanceType = [],
     niTaints = [\<lparr>tntKey = ''cni.x'', tntValue = [], tntEffect = ''NoSchedule'', tntTimeAdded = None\<rparr>],
     niConditions = [], niUnschedulable = False\<rparr>"

definition demoSnapshot :: cluster_snapshot where
  "demoSnapshot = \<lparr>csPods = [demoPod], csNodes = [demoNode], csPVs = [], csPVCs = [], csStorageClasses = [],
     csPriorityClasses = [], csRuntimeClasses = []\<rparr>"

lemmas demo_snapshot_defs = demoSnapshot_def demoPod_def demoAffinity_def demoNode_def zoneKey_def emptyMeta_def






text \<open>\<open>In\<close> is the operator with which a DaemonSet pod names its node.\<close>

definition inSem :: operator_sem where
  "inSem op vals v \<longleftrightarrow> op = ''In'' \<and> (case v of None \<Rightarrow> False | Some x \<Rightarrow> x \<in> set vals)"

definition pinnedTo :: "string \<Rightarrow> node_selector_term" where
  "pinnedTo nm = \<lparr>ntmMatchExpressions = [],
     ntmMatchFields = [\<lparr>srKey = ''metadata.name'', srOperator = ''In'', srValues = [nm]\<rparr>]\<rparr>"

text \<open>
  A pod pinned to its node by the node's name, as every DaemonSet pod is, loses its node: the
  node is renamed, the name in the affinity term is not. Before obfuscation the term selects the
  node, afterwards it does not.
\<close>

theorem obfuscate_unpins:
  fixes order :: "key_set \<Rightarrow> string list"
  assumes "distinct (map (mName \<circ> niMeta) (csNodes snap))" "i < length (csPods snap)" "j < length (csNodes snap)"
    and "requiredTerms (csPods snap ! i) = Some [pinnedTo (mName (niMeta (csNodes snap ! j)))]"
    and "mName (niMeta (csNodes snap ! j)) \<noteq> ''node-'' @ Itoa j"
  defines "snap' \<equiv> obfuscateMetadata order snap"
  shows "termMet inSem (csNodes snap ! j) (pinnedTo (mName (niMeta (csNodes snap ! j)))) \<and>
    mName (niMeta (csNodes snap' ! j)) = ''node-'' @ Itoa j \<and>
    \<not> nodeEligible inSem (csPods snap' ! i) (csNodes snap' ! j)"
proof -
  let ?km = "buildSchedulingKeyMap (order (collectSchedulingRelevantKeys snap))"
  let ?n = "csNodes snap ! j"
  have name: "lookupStr (nodeNameMapLoop (csNodes snap) 0 []) (mName (niMeta ?n)) = ''node-'' @ Itoa j"
    using nodeNameMapLoop_nth [OF assms(1,3), of 0 "[]"] by (simp add: lookupStr_def)
  have "\<not> sanitizeDeleteFunc ''metadata.name''" by (simp add: sanitizeDeleteFunc_def removePrefixes_def)
  then have "map_of ?km ''metadata.name'' = None"
    using buildSchedulingKeyMap_renaming unfolding renaming_def by blast
  then have key: "renameKey ?km ''metadata.name'' = ''metadata.name''" by (simp add: renameKey_def)
  have n': "mName (niMeta (csNodes snap' ! j)) = ''node-'' @ Itoa j"
    unfolding snap'_def obfuscateMetadata_nth(2) [OF assms(2,3)] by (simp add: obfuscateNode_def name)
  have "\<not> termMet inSem (csNodes snap' ! j) (obfuscateNodeSelectorTerm ?km (pinnedTo (mName (niMeta ?n))))"
    using n' key assms(5)
    by (auto simp: termMet_def obfuscateNodeSelectorTerm_def obfuscateNodeSelectorRequirements_def pinnedTo_def
        requirementMet_def inSem_def)
  then have "\<not> nodeEligible inSem (csPods snap' ! i) (csNodes snap' ! j)"
    unfolding snap'_def obfuscateMetadata_nth(1) [OF assms(2,3)]
    by (simp add: nodeEligible_def requiredTerms_obfuscate assms(4))
  then show ?thesis
    using n' by (simp add: termMet_def pinnedTo_def requirementMet_def inSem_def)
qed

definition demoDaemonSnapshot :: cluster_snapshot where
  "demoDaemonSnapshot = demoSnapshot\<lparr>csPods := [demoPod\<lparr>piAffinity := Some \<lparr>afNodeAffinity =
     Some \<lparr>naRequired = Some [pinnedTo ''ip-10''], naPreferred = []\<rparr>, afPodAffinity = None, afPodAntiAffinity = None\<rparr>\<rparr>]\<rparr>"

theorem obfuscate_unpins_witness:
  "nodeEligible inSem (csPods demoDaemonSnapshot ! 0) (csNodes demoDaemonSnapshot ! 0) \<and>
   \<not> nodeEligible inSem (csPods (obfuscateMetadata id demoDaemonSnapshot) ! 0) (csNodes (obfuscateMetadata id demoDaemonSnapshot) ! 0)"
proof -
  have "distinct (map (mName \<circ> niMeta) (csNodes demoDaemonSnapshot))" "0 < length (csPods demoDaemonSnapshot)"
    "0 < length (csNodes demoDaemonSnapshot)"
    "requiredTerms (csPods demoDaemonSnapshot ! 0) = Some [pinnedTo (mName (niMeta (csNodes demoDaemonSnapshot ! 0)))]"
    "mName (niMeta (csNodes demoDaemonSnapshot ! 0)) \<noteq> ''node-'' @ Itoa 0"
    by (simp_all add: demoDaemonSnapshot_def demo_snapshot_defs requiredTerms_def)
  from obfuscate_unpins [OF this, of id]
  have "\<not> nodeEligible inSem (csPods (obfuscateMetadata id demoDaemonSnapshot) ! 0) (csNodes (obfuscateMetadata id demoDaemonSnapshot) ! 0)"
    by simp
  moreover have "nodeEligible inSem (csPods demoDaemonSnapshot ! 0) (csNodes demoDaemonSnapshot ! 0)"
    by (simp add: demoDaemonSnapshot_def demo_snapshot_defs nodeEligible_def requiredTerms_def tolerates_def map_le_def
        termMet_def pinnedTo_def requirementMet_def inSem_def)
  ultimately show ?thesis by simp
qed

end
