(* ===== verification/Paths.thy ===== *)
theory Paths
  imports GoLib "HOL-Library.Sublist"
begin

text \<open>
  Slash-separated paths as the Go packages \<open>path\<close> and \<open>path/filepath\<close> treat them: splitting, \<open>Clean\<close>,
  \<open>Dir\<close>, \<open>Base\<close> and \<open>Join\<close>; and \<open>strings.TrimPrefix\<close>.
\<close>

declare map_of_eq_Some_iff [simp del] Some_eq_map_of_iff [simp del]

fun splitSlash :: "string \<Rightarrow> string list" where
  "splitSlash [] = [[]]"
| "splitSlash (c # cs) =
     (if c = CHR ''/'' then [] # splitSlash cs
      else case splitSlash cs of s # ss \<Rightarrow> (c # s) # ss | [] \<Rightarrow> [[c]])"

fun cleanFileLoop :: "bool \<Rightarrow> string list \<Rightarrow> string list \<Rightarrow> string list" where
  "cleanFileLoop rooted acc [] = acc"
| "cleanFileLoop rooted acc (s # segs) =
     cleanFileLoop rooted
       (if s = [] \<or> s = ''.'' then acc
        else if s = ''..'' then
          (if acc \<noteq> [] \<and> last acc \<noteq> ''..'' then butlast acc else if rooted then acc else acc @ [s])
        else acc @ [s]) segs"

fun joinSlash :: "string list \<Rightarrow> string" where
  "joinSlash [] = []"
| "joinSlash [s] = s"
| "joinSlash (s # ss) = s @ ''/'' @ joinSlash ss"

definition fileClean :: "string \<Rightarrow> string" where
  "fileClean p =
     (let rooted = (p \<noteq> [] \<and> hd p = CHR ''/'');
          segs = joinSlash (cleanFileLoop rooted [] (splitSlash p)) in
      if rooted then ''/'' @ segs else if segs = [] then ''.'' else segs)"

definition fileDir :: "string \<Rightarrow> string" where
  "fileDir p = fileClean (rev (dropWhile (\<lambda>c. c \<noteq> CHR ''/'') (rev p)))"

definition pathJoin :: "string list \<Rightarrow> string" where
  "pathJoin elems = (case filter (\<lambda>e. e \<noteq> []) elems of [] \<Rightarrow> [] | es \<Rightarrow> fileClean (joinSlash es))"

definition fileJoin :: "string \<Rightarrow> string \<Rightarrow> string" where
  "fileJoin a b = pathJoin [a, b]"

text \<open>\<open>filepath.Base\<close>: the last element once trailing slashes are gone.\<close>

definition fileBase :: "string \<Rightarrow> string" where
  "fileBase p =
     (if p = [] then ''.''
      else let q = rev (dropWhile (\<lambda>c. c = CHR ''/'') (rev p)) in
           if q = [] then ''/'' else last (splitSlash q))"

text \<open>\<open>strings.TrimPrefix\<close>.\<close>

definition TrimPrefix :: "string \<Rightarrow> string \<Rightarrow> string" where
  "TrimPrefix s p = (if prefix p s then drop (length p) s else s)"

subsection \<open>Cleaning twice\<close>

definition plainSegments :: "string list \<Rightarrow> bool" where
  "plainSegments segs \<longleftrightarrow> list_all (\<lambda>s. s \<noteq> [] \<and> s \<noteq> ''.'' \<and> s \<noteq> ''..'' \<and> CHR ''/'' \<notin> set s) segs"

lemma splitSlash_not_Nil [simp]: "splitSlash p \<noteq> []"
  by (induction p) (auto split: list.splits)

lemma splitSlash_no_slash: "s \<in> set (splitSlash p) \<Longrightarrow> CHR ''/'' \<notin> set s"
  by (induction p arbitrary: s) (auto split: list.splits if_splits)

lemma splitSlash_append:
  "CHR ''/'' \<notin> set s \<Longrightarrow> splitSlash (s @ CHR ''/'' # p) = s # splitSlash p"
  by (induction s) auto

lemma splitSlash_single [simp]: "CHR ''/'' \<notin> set s \<Longrightarrow> splitSlash s = [s]"
  by (induction s) auto

lemma splitSlash_joinSlash:
  "segs \<noteq> [] \<Longrightarrow> \<forall>s\<in>set segs. CHR ''/'' \<notin> set s \<Longrightarrow> splitSlash (joinSlash segs) = segs"
  by (induction segs rule: joinSlash.induct) (simp_all add: splitSlash_append)

lemma cleanFileLoop_plain:
  assumes "plainSegments acc" "\<forall>s\<in>set segs. CHR ''/'' \<notin> set s"
  shows "plainSegments (cleanFileLoop True acc segs)"
  using assms
proof (induction segs arbitrary: acc)
  case (Cons s segs)
  have "plainSegments (butlast acc)" using Cons.prems(1) by (auto simp: plainSegments_def list_all_iff dest: in_set_butlastD)
  then show ?case using Cons by (simp add: plainSegments_def)
qed simp

lemma cleanFileLoop_id: "plainSegments segs \<Longrightarrow> cleanFileLoop rooted acc segs = acc @ segs"
  by (induction segs arbitrary: acc) (auto simp: plainSegments_def)

lemma fileClean_rooted:
  "fileClean (CHR ''/'' # p) = CHR ''/'' # joinSlash (cleanFileLoop True [] (splitSlash p))"
  by (simp add: fileClean_def)

lemma fileClean_idem: "fileClean (fileClean (CHR ''/'' # p)) = fileClean (CHR ''/'' # p)"
proof -
  define segs where "segs = cleanFileLoop True [] (splitSlash p)"
  have plain: "plainSegments segs"
    unfolding segs_def by (rule cleanFileLoop_plain) (auto simp: plainSegments_def splitSlash_no_slash)
  have "cleanFileLoop True [] (splitSlash (joinSlash segs)) = segs"
  proof (cases "segs = []")
    case False
    have "\<forall>s\<in>set segs. CHR ''/'' \<notin> set s" using plain by (simp add: plainSegments_def list_all_iff)
    then show ?thesis using splitSlash_joinSlash [OF False] cleanFileLoop_id [OF plain] by simp
  qed simp
  then show ?thesis by (simp add: fileClean_rooted segs_def)
qed

lemma fileClean_pathJoin:
  assumes "prefix ''/'' dir"
  shows "prefix ''/'' (pathJoin [dir, f])" "fileClean (pathJoin [dir, f]) = pathJoin [dir, f]"
proof -
  obtain d where d: "dir = CHR ''/'' # d" using assms by (cases dir) auto
  have eq: "pathJoin [dir, f] = fileClean (CHR ''/'' # (if f = [] then d else d @ CHR ''/'' # f))"
    by (simp add: pathJoin_def d)
  show "prefix ''/'' (pathJoin [dir, f])" unfolding eq fileClean_rooted by simp
  show "fileClean (pathJoin [dir, f]) = pathJoin [dir, f]" unfolding eq by (rule fileClean_idem)
qed

end
