(* ===== verification/GenScenario.thy ===== *)
theory GenScenario
  imports Obfuscate PodNodeUtil MatchCriteria Paths
begin

text \<open>
  Recording a cluster as a scaling scenario, \<open>src/tools/cmd/scadctl/cmd/genscenario/gardener.go\<close>:
  the node pools of a Gardener shoot, the snapshot of its nodes and pods, and the variants of the
  snapshot without the nodes created last. What the clients of the landscape and of the shoot
  answer is an argument. The pods of a snapshot are one slice that its copies share, and the
  capacity of a machine type is one map that all node templates of that type share; the model
  keeps both sharings.
\<close>

declare map_of_eq_Some_iff [simp del] Some_eq_map_of_iff [simp del]

subsection \<open>Coordinates\<close>

record shoot_coordinate =
  scdLandscape :: string
  scdProject :: string
  scdShoot :: string

definition getFullyQualifiedName :: "shoot_coordinate \<Rightarrow> string" where
  "getFullyQualifiedName sc =
     TrimPrefix (scdLandscape sc) ''sap-landscape-'' @ '':'' @ scdProject sc @ '':'' @ scdShoot sc"

text \<open>The kubeconfig that \<open>PreRunE\<close> looks for, and the one \<open>createLandscapeClient\<close> opens.\<close>

definition landscapeKubeconfigPath :: "string \<Rightarrow> string \<Rightarrow> string" where
  "landscapeKubeconfigPath homeDir landscape =
     pathJoin [homeDir, ''.garden'', ''landscapes'', landscape, ''oidc-kubeconfig.yaml'']"

definition preRunPath :: "string \<Rightarrow> shoot_coordinate \<Rightarrow> string" where
  "preRunPath homeDir sc = landscapeKubeconfigPath homeDir (TrimPrefix (scdLandscape sc) ''sap-landscape-'')"

definition clientPath :: "string \<Rightarrow> shoot_coordinate \<Rightarrow> string" where
  "clientPath homeDir sc = landscapeKubeconfigPath homeDir (scdLandscape sc)"

subsection \<open>What the shoot client lists\<close>

record shoot_node =
  snMeta :: object_meta
  snSpec :: node_spec
  snStatus :: node_status

record shoot_pod =
  spMeta :: object_meta
  spSpec :: pod_spec
  spSchedulingGates :: "string list"

text \<open>\<open>shootClient.List\<close> for each kind, with its criteria applied by the server.\<close>

record shoot_client =
  clNodes :: "selector option \<Rightarrow> shoot_node list outcome"
  clPods :: "string \<Rightarrow> selector option \<Rightarrow> shoot_pod list outcome"
  clPriorityClasses :: "kobj list outcome"
  clRuntimeClasses :: "kobj list outcome"
  clCSINodes :: "(string \<times> csi_driver list) list outcome"

definition Shoot_ListNodes :: "shoot_client \<Rightarrow> match_criteria \<Rightarrow> shoot_node list outcome" where
  "Shoot_ListNodes cl criteria = bindO (clNodes cl (mcLabelSelector criteria)) (\<lambda>items.
     if mcNames criteria = [] then Ok items
     else Ok (filter (\<lambda>n. mName (snMeta n) \<in> set (mcNames criteria)) items))"

definition Shoot_ListPods :: "shoot_client \<Rightarrow> match_criteria \<Rightarrow> bool \<Rightarrow> shoot_pod list outcome" where
  "Shoot_ListPods cl criteria excludeKubeSystemPods =
     bindO (clPods cl (mcNamespace criteria) (mcLabelSelector criteria)) (\<lambda>items.
       Ok (filter (\<lambda>p. spSchedulingGates p = [] \<and>
             (mcNames criteria = [] \<or> mName (spMeta p) \<in> set (mcNames criteria)) \<and>
             \<not> (excludeKubeSystemPods \<and> mNamespace (spMeta p) = ''kube-system'')) items))"

definition Shoot_ListPriorityClasses :: "shoot_client \<Rightarrow> bool \<Rightarrow> kobj list outcome" where
  "Shoot_ListPriorityClasses cl excludeKubeSystemPods = bindO (clPriorityClasses cl) (\<lambda>items.
     if excludeKubeSystemPods
     then Ok (filter (\<lambda>pc. \<not> prefix ''gardener-shoot-system'' (mName (ometa pc))) items) else Ok items)"

definition Shoot_ListRuntimeClasses :: "shoot_client \<Rightarrow> kobj list outcome" where
  "Shoot_ListRuntimeClasses cl = clRuntimeClasses cl"

definition GetCSINodeSpecs :: "shoot_client \<Rightarrow> (string, csi_driver list) gomap outcome" where
  "GetCSINodeSpecs cl = (case clCSINodes cl of
       Err e \<Rightarrow> Err (Plain ''error listing CSI nodes'')
     | Panic m \<Rightarrow> Panic m
     | Ok items \<Rightarrow> if items = [] then Err (Plain ''no CSI nodes found'')
                   else Ok (fold (\<lambda>(nm, spec) m. AList.update nm spec m) items []))"

subsection \<open>Sanitizing\<close>

definition sanitizePod :: "shoot_pod \<Rightarrow> shoot_pod" where
  "sanitizePod p = p\<lparr>spMeta := (spMeta p)\<lparr>mResourceVersion := []\<rparr>,
     spSpec := (spSpec p)\<lparr>psVolumes := map (\<lambda>v. v\<lparr>volProjected := None\<rparr>) (psVolumes (spSpec p))\<rparr>\<rparr>"

definition sanitizeNode :: "shoot_node \<Rightarrow> shoot_node" where
  "sanitizeNode n = n\<lparr>snMeta := (snMeta n)\<lparr>mNamespace := [], mResourceVersion := []\<rparr>,
     snStatus := (snStatus n)\<lparr>nstConditions :=
       filter (\<lambda>c. ncType c \<in> set [''Ready'']) (nstConditions (snStatus n))\<rparr>\<rparr>"

definition sanitizePriorityClass :: "kobj \<Rightarrow> kobj" where
  "sanitizePriorityClass pc = pc\<lparr>ometa := (ometa pc)\<lparr>mResourceVersion := []\<rparr>\<rparr>"

subsection \<open>The snapshot\<close>

definition LabelWorkerPool :: string where
  "LabelWorkerPool = ''worker.gardener.cloud/pool''"

text \<open>The last template of the last pool of that name wins; empty stands for none.\<close>

definition matchingNodeTemplateName :: "node_pool list \<Rightarrow> string \<Rightarrow> string \<Rightarrow> string" where
  "matchingNodeTemplateName pools poolName instanceType =
     fold (\<lambda>p nm. if plName p = poolName
       then fold (\<lambda>nt nm. if ntInstanceType nt = instanceType then ntName nt else nm) (plNodeTemplates p) nm
       else nm) pools []"

text \<open>Labels decoded from the server are a nil map when there are none; assigning to it panics.\<close>

definition snapshotNode :: "node_pool list \<Rightarrow> (string, csi_driver list) gomap \<Rightarrow> shoot_node \<Rightarrow> node_info outcome" where
  "snapshotNode pools csiNodeSpecs n =
     (let poolName = lookupStr (mLabels (snMeta n)) LabelWorkerPool;
          instanceType = lookupStr (mLabels (snMeta n)) LabelInstanceTypeStable;
          tmpl = matchingNodeTemplateName pools poolName instanceType
      in if tmpl = [] then Err (Plain ''failed to find matching node template'')
         else let n = sanitizeNode n;
                  ni = AsNodeInfo (snMeta n) (snSpec n) (snStatus n);
                  ni = (case map_of csiNodeSpecs (mName (niMeta ni)) of
                          Some cns \<Rightarrow> ni\<lparr>niCSINodeSpec := Some cns\<rparr> | None \<Rightarrow> ni)
              in if mLabels (niMeta ni) = [] then Panic ''assignment to entry in nil map''
                 else let lbls = AList.update LabelNodeTemplateName tmpl
                            (AList.update LabelInstanceTypeStable instanceType
                              (AList.update LabelNodePoolName poolName (mLabels (niMeta ni))));
                          ni = ni\<lparr>niMeta := (niMeta ni)\<lparr>mLabels := lbls\<rparr>\<rparr>
                      in bindO (ValidateLabels ni) (\<lambda>_. Ok ni))"

fun snapshotNodes :: "node_pool list \<Rightarrow> (string, csi_driver list) gomap \<Rightarrow> shoot_node list \<Rightarrow> node_info list outcome" where
  "snapshotNodes pools csi [] = Ok []"
| "snapshotNodes pools csi (n # ns) =
     bindO (snapshotNode pools csi n) (\<lambda>ni. bindO (snapshotNodes pools csi ns) (\<lambda>nis. Ok (ni # nis)))"

definition cmpNewestFirst :: "shoot_node \<Rightarrow> shoot_node \<Rightarrow> int" where
  "cmpNewestFirst nodeA nodeB = compare (mCreationTimestamp (snMeta nodeB)) (mCreationTimestamp (snMeta nodeA))"

record scenario_flags =
  sfExcludeSystemComponents :: bool
  sfObfuscateData :: bool

text \<open>
  \<open>slices.SortFunc\<close> leaves the order of equal elements open and so is an argument, as is the order
  in which the keys to rename are met.
\<close>

definition createClusterSnapshot ::
  "((shoot_node \<Rightarrow> shoot_node \<Rightarrow> int) \<Rightarrow> shoot_node list \<Rightarrow> shoot_node list) \<Rightarrow> (key_set \<Rightarrow> string list)
    \<Rightarrow> scenario_flags \<Rightarrow> node_pool list \<Rightarrow> shoot_client \<Rightarrow> cluster_snapshot outcome" where
  "createClusterSnapshot sortFunc order flags pools cl =
     bindO (wrapErr (\<lambda>e. Wrapped ''failed to list nodes'' [e]) (Shoot_ListNodes cl MatchAllCriteria)) (\<lambda>nodes.
       let nodes = sortFunc cmpNewestFirst nodes in
     bindO (wrapErr (\<lambda>e. Wrapped ''failed to obtain csiNodeSpecs'' [e]) (GetCSINodeSpecs cl)) (\<lambda>csiNodeSpecs.
     bindO (wrapErr (\<lambda>e. Wrapped ''failed to list pods'' [e])
              (Shoot_ListPods cl MatchAllCriteria (sfExcludeSystemComponents flags))) (\<lambda>pods.
       let podInfos = map (\<lambda>p. let p = sanitizePod p in AsPodInfo (spMeta p) (spSpec p)) pods in
     bindO (snapshotNodes pools csiNodeSpecs nodes) (\<lambda>nodeInfos.
     bindO (wrapErr (\<lambda>e. Wrapped ''failed to list priority classes'' [e])
              (Shoot_ListPriorityClasses cl (sfExcludeSystemComponents flags))) (\<lambda>pcs.
     bindO (wrapErr (\<lambda>e. Wrapped ''failed to list runtime classes'' [e]) (Shoot_ListRuntimeClasses cl)) (\<lambda>rcs.
       let snap = \<lparr>csPods = podInfos, csNodes = nodeInfos, csPVs = [], csPVCs = [], csStorageClasses = [],
             csPriorityClasses = map sanitizePriorityClass pcs, csRuntimeClasses = rcs\<rparr>
       in Ok (if sfObfuscateData flags then obfuscateMetadata order snap else snap)))))))"

subsection \<open>Variants of a snapshot\<close>

definition unbindPods :: "string list \<Rightarrow> pod_info list \<Rightarrow> pod_info list" where
  "unbindPods removed pods = map (\<lambda>p. if piNodeName p \<in> set removed then p\<lparr>piNodeName := []\<rparr> else p) pods"

text \<open>
  \<open>newSnap := snap\<close> copies the slice header only: the pods that are unbound are those of the
  argument too. The result is the new snapshot and what has become of the argument.
\<close>

definition removeNodesFromSnapshot :: "cluster_snapshot \<Rightarrow> nat \<Rightarrow> (cluster_snapshot \<times> cluster_snapshot) outcome" where
  "removeNodesFromSnapshot snap n =
     (if n > length (csNodes snap) then Panic ''slice bounds out of range''
      else let removed = map (mName \<circ> niMeta) (take n (csNodes snap));
               pods = unbindPods removed (csPods snap)
           in Ok (snap\<lparr>csNodes := drop n (csNodes snap), csPods := pods\<rparr>, snap\<lparr>csPods := pods\<rparr>))"

text \<open>The files of the scenario directory, by base name, in the order in which they were written.\<close>

type_synonym saved = "(string \<times> cluster_snapshot) list"

definition variantName :: "string \<Rightarrow> nat \<Rightarrow> string" where
  "variantName t n = ''cluster-snapshot-'' @ t @ ''-latest-'' @ Itoa n @ ''.json''"

definition baselineName :: "string \<Rightarrow> string" where
  "baselineName t = ''cluster-snapshot-'' @ t @ ''-baseline.json''"

text \<open>\<open>write name\<close> is the error of creating or encoding the file \<open>name\<close>, if any.\<close>

definition saveDataToFile :: "(string \<Rightarrow> goerr option) \<Rightarrow> cluster_snapshot \<Rightarrow> string \<Rightarrow> saved \<Rightarrow> (unit, saved) eff" where
  "saveDataToFile write data path files = (case write path of
       Some e \<Rightarrow> (Err e, files) | None \<Rightarrow> (Ok (), files @ [(path, data)]))"

fun variantsLoop :: "(string \<Rightarrow> goerr option) \<Rightarrow> (string \<Rightarrow> bool) \<Rightarrow> string \<Rightarrow> nat list \<Rightarrow> cluster_snapshot
    \<Rightarrow> saved \<Rightarrow> (unit, saved) eff" where
  "variantsLoop write exists t [] snap files = (Ok (), files)"
| "variantsLoop write exists t (k # ks) snap files =
     (let num = min k (length (csNodes snap)); name = variantName t num in
      if exists name \<or> name \<in> fst ` set files then variantsLoop write exists t ks snap files
      else (case removeNodesFromSnapshot snap num of
              Ok (newSnap, snap') \<Rightarrow>
                bindE (saveDataToFile write newSnap name files) (\<lambda>_ files.
                  variantsLoop write exists t ks snap' files)
            | Err e \<Rightarrow> (Err e, files) | Panic p \<Rightarrow> (Panic p, files)))"

definition genSnapshotVariants :: "(string \<Rightarrow> goerr option) \<Rightarrow> (string \<Rightarrow> bool) \<Rightarrow> string \<Rightarrow> cluster_snapshot
    \<Rightarrow> saved \<Rightarrow> (unit, saved) eff" where
  "genSnapshotVariants write exists t snap files =
     bindE (saveDataToFile write snap (baselineName t) files) (\<lambda>_ files.
       variantsLoop write exists t [1, 5, 10, 20] snap files)"

subsection \<open>The scaling constraint\<close>

record machine_type =
  mtName :: string
  mtCPU :: quantity
  mtGPU :: quantity
  mtMemory :: quantity

datatype json_value = JMap "(string \<times> json_value) list" | JOther string

record worker =
  wkName :: string
  wkPriority :: "int option"
  wkLabels :: labels
  wkAnnotations :: labels
  wkTaints :: "taint list"
  wkZones :: "string list"
  wkMachineType :: string
  wkArchitecture :: "string option"
  wkProviderConfig :: "string option"

record kube_reserved =
  krCPU :: "quantity option"
  krMemory :: "quantity option"

record kubelet_config =
  klKubeReserved :: "kube_reserved option"
  klMaxPods :: "int option"

record shoot =
  shRegion :: string
  shWorkers :: "worker list"
  shKubelet :: "kubelet_config option"

definition constructInstanceRequirementsMap :: "machine_type list \<Rightarrow> (string, resource_list) gomap" where
  "constructInstanceRequirementsMap instances = fold (\<lambda>i m.
     AList.update (mtName i) [(''cpu'', mtCPU i), (''gpu'', mtGPU i), (''memory'', mtMemory i)] m) instances []"

definition kubernetesConfigToResourceList :: "kubelet_config option \<Rightarrow> resource_list" where
  "kubernetesConfigToResourceList kubelet = (case kubelet of None \<Rightarrow> [] | Some k \<Rightarrow>
     (case klKubeReserved k of None \<Rightarrow> [] | Some r \<Rightarrow>
        (case krCPU r of Some q \<Rightarrow> [(''cpu'', q)] | None \<Rightarrow> []) @
        (case krMemory r of Some q \<Rightarrow> [(''memory'', q)] | None \<Rightarrow> []) @
        (case klMaxPods k of Some n \<Rightarrow> [(ResourcePods, n * 10 ^ 9)] | None \<Rightarrow> [])))"

text \<open>\<open>unstructured.NestedMap(obj, field)\<close>: nil if the field is missing, an error if it is no map.\<close>

definition NestedMap :: "(string \<times> json_value) list \<Rightarrow> string \<Rightarrow> (string \<times> json_value) list outcome" where
  "NestedMap m field = (case map_of m field of
       None \<Rightarrow> Ok [] | Some (JMap m') \<Rightarrow> Ok m' | Some (JOther _) \<Rightarrow> Err (Plain ''accessor error''))"

record provider_codec =
  pcDecode :: "string \<Rightarrow> (string \<times> json_value) list outcome"         \<comment> \<open>\<open>json.Unmarshal\<close> to a map\<close>
  pcResources :: "(string \<times> json_value) list \<Rightarrow> resource_list outcome"  \<comment> \<open>\<open>Marshal\<close>, then \<open>Unmarshal\<close>\<close>

text \<open>
  The virtual capacity of a worker's provider config is copied into the capacity map of its
  machine type. A missing provider config is a nil pointer; a machine type without capacity is a
  nil map, into which nothing can be copied. Every decoding error falls back to the map as it is.
\<close>

definition virtualCapacityOf :: "provider_codec \<Rightarrow> string \<Rightarrow> resource_list outcome" where
  "virtualCapacityOf pc raw =
     bindO (pcDecode pc raw) (\<lambda>d. bindO (NestedMap d ''nodeTemplate'') (\<lambda>nt.
     bindO (NestedMap nt ''virtualCapacity'') (\<lambda>vc. pcResources pc vc)))"

definition constructNodeTemplateCapacity ::
  "provider_codec \<Rightarrow> string option \<Rightarrow> string \<Rightarrow> (string, resource_list) gomap \<Rightarrow> (unit, (string, resource_list) gomap) eff" where
  "constructNodeTemplateCapacity pc providerConfig machineType caps =
     (case providerConfig of None \<Rightarrow> (Panic ''nil pointer dereference'', caps)
      | Some raw \<Rightarrow> (case virtualCapacityOf pc raw of
           Ok vc \<Rightarrow> (case map_of caps machineType of
               Some cap \<Rightarrow> (Ok (), AList.update machineType (fold (\<lambda>(k, q) c. AList.update k q c) vc cap) caps)
             | None \<Rightarrow> if vc = [] then (Ok (), caps) else (Panic ''assignment to entry in nil map'', caps))
         | Err _ \<Rightarrow> (Ok (), caps) | Panic p \<Rightarrow> (Panic p, caps)))"

text \<open>A node template whose capacity is still a reference to the map of its machine type.\<close>

definition constructNodeTemplate ::
  "provider_codec \<Rightarrow> shoot \<Rightarrow> worker \<Rightarrow> (string, resource_list) gomap \<Rightarrow> (node_template, (string, resource_list) gomap) eff" where
  "constructNodeTemplate pc sh wk caps =
     bindE (constructNodeTemplateCapacity pc (wkProviderConfig wk) (wkMachineType wk) caps) (\<lambda>_ caps.
       (Ok \<lparr>ntCapacity = [], ntKubeReserved = kubernetesConfigToResourceList (shKubelet sh),
            ntSystemReserved = [], ntName = wkName wk, ntArchitecture = deref (wkArchitecture wk) [],
            ntInstanceType = wkMachineType wk, ntPriority = deref (wkPriority wk) 0, ntMaxVolumes = 0\<rparr>, caps))"

definition newNodePool :: "shoot \<Rightarrow> worker \<Rightarrow> node_template \<Rightarrow> node_pool" where
  "newNodePool sh wk tmpl =
     \<lparr>plLabels = DeleteFunc sanitizeDeleteFunc (wkLabels wk), plAnnotations = wkAnnotations wk, plQuota = [],
      plName = wkName wk, plRegion = shRegion sh, plTaints = wkTaints wk, plAvailabilityZones = wkZones wk,
      plNodeTemplates = [tmpl], plPriority = deref (wkPriority wk) 0\<rparr>"

fun nodePoolsLoop :: "provider_codec \<Rightarrow> shoot \<Rightarrow> worker list \<Rightarrow> node_pool list \<Rightarrow> (string, resource_list) gomap
    \<Rightarrow> (node_pool list, (string, resource_list) gomap) eff" where
  "nodePoolsLoop pc sh [] pools caps = (Ok pools, caps)"
| "nodePoolsLoop pc sh (wk # wks) pools caps =
     bindE (constructNodeTemplate pc sh wk caps) (\<lambda>tmpl caps.
       nodePoolsLoop pc sh wks (pools @ [newNodePool sh wk tmpl]) caps)"

text \<open>What the references to the capacity maps read once all pools are made.\<close>

definition resolveCapacity :: "(string, resource_list) gomap \<Rightarrow> node_pool \<Rightarrow> node_pool" where
  "resolveCapacity caps pool = pool\<lparr>plNodeTemplates := map (\<lambda>t.
     t\<lparr>ntCapacity := deref (map_of caps (ntInstanceType t)) []\<rparr>) (plNodeTemplates pool)\<rparr>"

definition createNodePools :: "provider_codec \<Rightarrow> shoot \<Rightarrow> (string, resource_list) gomap \<Rightarrow> node_pool list outcome" where
  "createNodePools pc sh caps = (case nodePoolsLoop pc sh (shWorkers sh) [] caps of
       (Ok pools, caps') \<Rightarrow> Ok (map (resolveCapacity caps') pools)
     | (Err e, _) \<Rightarrow> Err e | (Panic p, _) \<Rightarrow> Panic p)"

definition createScalingConstraint :: "provider_codec \<Rightarrow> shoot \<Rightarrow> (string, resource_list) gomap \<Rightarrow> node_pool list outcome" where
  "createScalingConstraint pc sh caps = createNodePools pc sh caps"

end
