(* ===== verification/GenScenarioProps.thy ===== *)
theory GenScenarioProps
  imports GenScenario ObfuscateProps
begin

text \<open>
  The variants written for a snapshot are those of the recorded snapshot although the code unbinds
  pods in a slice that all of them share; and the capacity of a node pool is overlaid with the
  virtual capacity of every worker of its machine type.
\<close>

subsection \<open>Variants\<close>

text \<open>The variant one would compute from a copy of the snapshot.\<close>

definition variantOf :: "cluster_snapshot \<Rightarrow> nat \<Rightarrow> cluster_snapshot" where
  "variantOf snap n = snap\<lparr>csNodes := drop n (csNodes snap),
     csPods := unbindPods (map (mName \<circ> niMeta) (take n (csNodes snap))) (csPods snap)\<rparr>"

lemma unbindPods_absorb: "set xs \<subseteq> set ys \<Longrightarrow> unbindPods ys (unbindPods xs ps) = unbindPods ys ps"
  by (auto simp: unbindPods_def)

text \<open>The shared slice after a number of variants: some prefix of the nodes has been unbound.\<close>

definition unboundUpTo :: "cluster_snapshot \<Rightarrow> nat \<Rightarrow> cluster_snapshot" where
  "unboundUpTo snap m = snap\<lparr>csPods := unbindPods (map (mName \<circ> niMeta) (take m (csNodes snap))) (csPods snap)\<rparr>"

lemma removeNodes_unbound:
  assumes "m \<le> n" "n \<le> length (csNodes snap)"
  shows "removeNodesFromSnapshot (unboundUpTo snap m) n = Ok (variantOf snap n, unboundUpTo snap n)"
proof -
  have "set (map (mName \<circ> niMeta) (take m (csNodes snap))) \<subseteq> set (map (mName \<circ> niMeta) (take n (csNodes snap)))"
    using set_take_subset_set_take [OF assms(1), of "csNodes snap"] by auto
  then show ?thesis
    using assms(2) unbindPods_absorb
    by (simp add: removeNodesFromSnapshot_def unboundUpTo_def variantOf_def Let_def)
qed

lemma variantName_inj: "variantName t m = variantName t n \<longleftrightarrow> m = n"
proof
  assume "variantName t m = variantName t n"
  then have "Itoa m @ ''.json'' = Itoa n @ ''.json''" by (simp add: variantName_def)
  then show "m = n" by (simp only: append_same_eq Itoa_def digits_inj)
qed simp

lemma baselineName_neq [simp]: "baselineName t \<noteq> variantName t n"
proof -
  have "''-baseline.json'' \<noteq> ''-latest-'' @ Itoa n @ ''.json''" by simp
  then show ?thesis unfolding baselineName_def variantName_def append_assoc by simp
qed

text \<open>The numbers of nodes for which the loop writes a file: each once, unless its file exists.\<close>

fun writtenNumbers :: "(nat \<Rightarrow> bool) \<Rightarrow> nat set \<Rightarrow> nat list \<Rightarrow> nat list" where
  "writtenNumbers ex seen [] = []"
| "writtenNumbers ex seen (n # ns) =
     (if ex n \<or> n \<in> seen then writtenNumbers ex seen ns else n # writtenNumbers ex (insert n seen) ns)"

lemma writtenNumbers_sorted:
  "sorted ns \<Longrightarrow> writtenNumbers ex seen ns = filter (\<lambda>n. \<not> ex n \<and> n \<notin> seen) (remdups ns)"
proof (induction ns arbitrary: seen)
  case (Cons n ns)
  show ?case
  proof (cases "n \<in> set ns")
    case True
    then obtain ns' where ns: "ns = n # ns'" using Cons.prems by (cases ns) auto
    then show ?thesis using Cons.IH [of seen] Cons.prems by (cases "ex n \<or> n \<in> seen") auto
  next
    case False
    then have "filter (\<lambda>x. \<not> ex x \<and> x \<notin> insert n seen) (remdups ns) = filter (\<lambda>x. \<not> ex x \<and> x \<notin> seen) (remdups ns)"
      by (intro filter_cong) auto
    then show ?thesis using Cons False by auto
  qed
qed simp

lemma variantsLoop_exact:
  assumes "\<And>n. write (variantName t n) = None" and "sorted ks"
    and "m = 0 \<or> (\<forall>k \<in> set ks. m \<le> min k (length (csNodes snap)))"
    and "\<And>n. variantName t n \<in> fst ` set files \<longleftrightarrow> n \<in> seen"
  shows "variantsLoop write exists t ks (unboundUpTo snap m) files =
    (Ok (), files @ map (\<lambda>n. (variantName t n, variantOf snap n))
       (writtenNumbers (exists \<circ> variantName t) seen (map (\<lambda>k. min k (length (csNodes snap))) ks)))"
  using assms(2-)
proof (induction ks arbitrary: m files seen)
  case (Cons k ks)
  let ?L = "length (csNodes snap)" and ?num = "min k (length (csNodes snap))"
  have len: "length (csNodes (unboundUpTo snap m)) = ?L" by (simp add: unboundUpTo_def)
  have m: "m \<le> ?num" using Cons.prems(2) by auto
  have le: "\<forall>k' \<in> set ks. ?num \<le> min k' ?L" using Cons.prems(1) by auto
  show ?case
  proof (cases "exists (variantName t ?num) \<or> ?num \<in> seen")
    case True
    have "variantsLoop write exists t ks (unboundUpTo snap m) files =
      (Ok (), files @ map (\<lambda>n. (variantName t n, variantOf snap n))
         (writtenNumbers (exists \<circ> variantName t) seen (map (\<lambda>k. min k ?L) ks)))"
      by (rule Cons.IH) (use Cons.prems in auto)
    then show ?thesis using True Cons.prems(3) len by (simp add: Let_def comp_def)
  next
    case False
    let ?files = "files @ [(variantName t ?num, variantOf snap ?num)]"
    have "variantsLoop write exists t ks (unboundUpTo snap ?num) ?files =
      (Ok (), ?files @ map (\<lambda>n. (variantName t n, variantOf snap n))
         (writtenNumbers (exists \<circ> variantName t) (insert ?num seen) (map (\<lambda>k. min k ?L) ks)))"
      by (rule Cons.IH) (use Cons.prems le in \<open>auto simp: variantName_inj\<close>)
    then show ?thesis
      using False Cons.prems(3) len assms(1) removeNodes_unbound [OF m]
      by (simp add: Let_def saveDataToFile_def comp_def)
  qed
qed simp

text \<open>
  C14. The files written for a snapshot are the snapshot itself and, for 1, 5, 10 and 20 nodes (or
  all, if there are fewer), once each and unless the file exists, the snapshot without that many of
  the most recent nodes and with exactly the pods of those nodes unbound: what computing every
  variant from a copy of the recorded snapshot would write, although the code unbinds the pods of
  one shared slice.
\<close>

theorem genSnapshotVariants_exact:
  assumes "\<And>name. write name = None"
  shows "genSnapshotVariants write exists t snap [] =
    (Ok (), (baselineName t, snap) # map (\<lambda>n. (variantName t n, variantOf snap n))
       (filter (\<lambda>n. \<not> exists (variantName t n)) (remdups (map (\<lambda>k. min k (length (csNodes snap))) [1, 5, 10, 20]))))"
proof -
  define ks :: "nat list" where "ks = [1, 5, 10, 20]"
  let ?ns = "map (\<lambda>k. min k (length (csNodes snap))) ks"
  have zero: "unboundUpTo snap 0 = snap" by (simp add: unboundUpTo_def unbindPods_def)
  have ks: "sorted ks" by (simp add: ks_def)
  then have "sorted ?ns" by (auto simp: sorted_wrt_map intro: sorted_wrt_mono_rel [of ks "(\<le>)"])
  then have num: "writtenNumbers (exists \<circ> variantName t) {} ?ns = filter (\<lambda>n. \<not> exists (variantName t n)) (remdups ?ns)"
    by (simp only: writtenNumbers_sorted) simp
  have "variantsLoop write exists t ks (unboundUpTo snap 0) [(baselineName t, snap)] =
    (Ok (), [(baselineName t, snap)] @ map (\<lambda>n. (variantName t n, variantOf snap n))
       (writtenNumbers (exists \<circ> variantName t) {} ?ns))"
    by (rule variantsLoop_exact) (simp_all add: assms ks baselineName_neq [symmetric])
  then show ?thesis
    unfolding genSnapshotVariants_def saveDataToFile_def assms zero num ks_def [symmetric] by simp
qed

theorem genSnapshotVariants_exact_witness:
  "genSnapshotVariants (\<lambda>_. None) (\<lambda>_. False) ''T'' demoSnapshot [] =
    (Ok (), [(baselineName ''T'', demoSnapshot),
       (variantName ''T'' 1, demoSnapshot\<lparr>csNodes := [], csPods := [demoPod\<lparr>piNodeName := []\<rparr>]\<rparr>)])"
proof -
  have "remdups (map (\<lambda>k. min k (length (csNodes demoSnapshot))) [1, 5, 10, 20]) = [1]" by (simp add: demoSnapshot_def)
  moreover have "variantOf demoSnapshot 1 = demoSnapshot\<lparr>csNodes := [], csPods := [demoPod\<lparr>piNodeName := []\<rparr>]\<rparr>"
    by (simp add: variantOf_def unbindPods_def demoSnapshot_def demoPod_def demoNode_def emptyMeta_def)
  ultimately show ?thesis by (simp only: genSnapshotVariants_exact) simp
qed

subsection \<open>Node pools\<close>

text \<open>The virtual capacity a worker declares; nothing if its provider config cannot be decoded.\<close>

definition declaredCapacity :: "provider_codec \<Rightarrow> worker \<Rightarrow> resource_list" where
  "declaredCapacity pc wk = (case wkProviderConfig wk of None \<Rightarrow> [] | Some raw \<Rightarrow>
     (case virtualCapacityOf pc raw of Ok vc \<Rightarrow> vc | _ \<Rightarrow> []))"

definition overlay :: "resource_list \<Rightarrow> resource_list \<Rightarrow> resource_list" where
  "overlay vc cap = fold (\<lambda>(k, q) c. AList.update k q c) vc cap"

definition overlayAll :: "provider_codec \<Rightarrow> string \<Rightarrow> worker list \<Rightarrow> resource_list \<Rightarrow> resource_list" where
  "overlayAll pc mt wks cap = fold (\<lambda>wk. overlay (declaredCapacity pc wk)) (filter (\<lambda>wk. wkMachineType wk = mt) wks) cap"

definition poolOf :: "shoot \<Rightarrow> worker \<Rightarrow> node_pool" where
  "poolOf sh wk = newNodePool sh wk
     \<lparr>ntCapacity = [], ntKubeReserved = kubernetesConfigToResourceList (shKubelet sh),
      ntSystemReserved = [], ntName = wkName wk, ntArchitecture = deref (wkArchitecture wk) [],
      ntInstanceType = wkMachineType wk, ntPriority = deref (wkPriority wk) 0, ntMaxVolumes = 0\<rparr>"

text \<open>A worker the code can handle: a provider config it may read, a machine type with a capacity.\<close>

definition readable :: "provider_codec \<Rightarrow> (string, resource_list) gomap \<Rightarrow> worker \<Rightarrow> bool" where
  "readable pc caps wk \<longleftrightarrow> (case wkProviderConfig wk of None \<Rightarrow> False | Some raw \<Rightarrow>
     (case virtualCapacityOf pc raw of Panic _ \<Rightarrow> False | _ \<Rightarrow> True)) \<and> map_of caps (wkMachineType wk) \<noteq> None"

lemma constructNodeTemplateCapacity_readable:
  assumes "readable pc caps wk"
  obtains caps' where "constructNodeTemplateCapacity pc (wkProviderConfig wk) (wkMachineType wk) caps = (Ok (), caps')"
    "map_of caps' = (\<lambda>mt. if mt = wkMachineType wk then map_option (overlay (declaredCapacity pc wk)) (map_of caps mt)
       else map_of caps mt)"
proof -
  obtain raw cap where raw: "wkProviderConfig wk = Some raw" and cap: "map_of caps (wkMachineType wk) = Some cap"
    using assms by (auto simp: readable_def split: option.splits)
  show thesis
  proof (cases "virtualCapacityOf pc raw")
    case (Ok vc)
    then show thesis
      using raw cap by (intro that) (auto simp: constructNodeTemplateCapacity_def overlay_def declaredCapacity_def fun_eq_iff)
  next
    case (Err e)
    then show thesis
      using raw cap by (intro that) (auto simp: constructNodeTemplateCapacity_def overlay_def declaredCapacity_def fun_eq_iff)
  next
    case (Panic m)
    then show thesis using assms raw by (simp add: readable_def)
  qed
qed

lemma overlayAll_Cons:
  "overlayAll pc mt (wk # wks) = (if wkMachineType wk = mt
     then overlayAll pc mt wks \<circ> overlay (declaredCapacity pc wk) else overlayAll pc mt wks)"
  by (auto simp: overlayAll_def fun_eq_iff)

lemma nodePoolsLoop_exact:
  assumes "\<And>wk. wk \<in> set wks \<Longrightarrow> readable pc caps wk"
  obtains caps' where "nodePoolsLoop pc sh wks pools caps = (Ok (pools @ map (poolOf sh) wks), caps')"
    "\<And>mt. map_of caps' mt = map_option (overlayAll pc mt wks) (map_of caps mt)"
  using assms
proof (induction wks arbitrary: pools caps thesis)
  case Nil
  then show ?case by (simp add: overlayAll_def option.map_ident)
next
  case (Cons wk wks)
  obtain caps1 where c1: "constructNodeTemplateCapacity pc (wkProviderConfig wk) (wkMachineType wk) caps = (Ok (), caps1)"
    "map_of caps1 = (\<lambda>mt. if mt = wkMachineType wk then map_option (overlay (declaredCapacity pc wk)) (map_of caps mt)
       else map_of caps mt)"
    by (rule constructNodeTemplateCapacity_readable [of pc caps wk]) (use Cons.prems(2) in auto)
  have "readable pc caps1 wk'" if "wk' \<in> set wks" for wk'
    using Cons.prems(2) [of wk'] that c1(2) by (auto simp: readable_def)
  note ok1 = this
  obtain caps2 where c2: "nodePoolsLoop pc sh wks (pools @ [poolOf sh wk]) caps1 =
      (Ok ((pools @ [poolOf sh wk]) @ map (poolOf sh) wks), caps2)"
    "\<And>mt. map_of caps2 mt = map_option (overlayAll pc mt wks) (map_of caps1 mt)"
    by (rule Cons.IH [where pools = "pools @ [poolOf sh wk]" and caps = caps1]) (use ok1 in auto)
  show ?case
    by (rule Cons.prems(1) [of caps2])
      (use c1 c2 in \<open>auto simp: constructNodeTemplate_def poolOf_def overlayAll_Cons option.map_comp comp_def\<close>)
qed

text \<open>
  C32. Each worker becomes one node pool, in order; the capacity of its template is that of the
  machine type, overlaid with the virtual capacity of every worker of the same machine type, in the
  order of the workers, not of this worker alone: all their templates share one map. A worker
  without a provider config makes the command panic.
\<close>

theorem createNodePools_exact:
  assumes "\<And>wk. wk \<in> set (shWorkers sh) \<Longrightarrow> readable pc caps wk"
  shows "createNodePools pc sh caps = Ok (map (\<lambda>wk. (poolOf sh wk)\<lparr>plNodeTemplates :=
       [hd (plNodeTemplates (poolOf sh wk))\<lparr>ntCapacity :=
          overlayAll pc (wkMachineType wk) (shWorkers sh) (the (map_of caps (wkMachineType wk)))\<rparr>]\<rparr>) (shWorkers sh)) \<and>
     (wkProviderConfig wk0 = None \<longrightarrow> createNodePools pc (sh\<lparr>shWorkers := wk0 # shWorkers sh\<rparr>) caps = Panic ''nil pointer dereference'')"
proof
  obtain caps' where c: "nodePoolsLoop pc sh (shWorkers sh) [] caps = (Ok (map (poolOf sh) (shWorkers sh)), caps')"
    "\<And>mt. map_of caps' mt = map_option (overlayAll pc mt (shWorkers sh)) (map_of caps mt)"
    by (rule nodePoolsLoop_exact [of "shWorkers sh" pc caps sh "[]"]) (use assms in auto)
  have "resolveCapacity caps' (poolOf sh wk) = (poolOf sh wk)\<lparr>plNodeTemplates :=
       [hd (plNodeTemplates (poolOf sh wk))\<lparr>ntCapacity :=
          overlayAll pc (wkMachineType wk) (shWorkers sh) (the (map_of caps (wkMachineType wk)))\<rparr>]\<rparr>"
    if "wk \<in> set (shWorkers sh)" for wk
    using assms [OF that] c(2) by (auto simp: readable_def resolveCapacity_def poolOf_def newNodePool_def deref_def)
  then show "createNodePools pc sh caps = Ok (map (\<lambda>wk. (poolOf sh wk)\<lparr>plNodeTemplates :=
       [hd (plNodeTemplates (poolOf sh wk))\<lparr>ntCapacity :=
          overlayAll pc (wkMachineType wk) (shWorkers sh) (the (map_of caps (wkMachineType wk)))\<rparr>]\<rparr>) (shWorkers sh))"
    using c(1) by (simp add: createNodePools_def)
  show "wkProviderConfig wk0 = None \<longrightarrow>
      createNodePools pc (sh\<lparr>shWorkers := wk0 # shWorkers sh\<rparr>) caps = Panic ''nil pointer dereference''"
    by (simp add: createNodePools_def constructNodeTemplate_def constructNodeTemplateCapacity_def)
qed

definition demoWorker :: "string \<Rightarrow> string \<Rightarrow> worker" where
  "demoWorker nm raw = \<lparr>wkName = nm, wkPriority = None, wkLabels = [], wkAnnotations = [], wkTaints = [],
     wkZones = [''z1''], wkMachineType = ''m5.large'', wkArchitecture = None, wkProviderConfig = Some raw\<rparr>"

definition demoShoot :: shoot where
  "demoShoot = \<lparr>shRegion = ''eu'', shWorkers = [demoWorker ''plain'' ''{}'', demoWorker ''gpu'' ''gpu''], shKubelet = None\<rparr>"

text \<open>Only the second worker declares a virtual capacity.\<close>

definition demoCodec :: provider_codec where
  "demoCodec = \<lparr>pcDecode = (\<lambda>raw. Ok (if raw = ''gpu'' then [(''nodeTemplate'', JMap [(''virtualCapacity'', JMap [(''gpus'', JOther ''1'')])])] else [])),
     pcResources = (\<lambda>m. Ok (map (\<lambda>(k, _). (k, 1)) m))\<rparr>"

theorem createNodePools_exact_witness:
  "\<exists>pools. createNodePools demoCodec demoShoot [(''m5.large'', [(''cpu'', 2)])] = Ok pools \<and>
     map plName pools = [''plain'', ''gpu''] \<and>
     map (\<lambda>p. map ntCapacity (plNodeTemplates p)) pools = [[[(''cpu'', 2), (''gpus'', 1)]], [[(''cpu'', 2), (''gpus'', 1)]]]"
proof -
  have "readable demoCodec [(''m5.large'', [(''cpu'', 2)])] wk" if "wk \<in> set (shWorkers demoShoot)" for wk
    using that by (auto simp: demoShoot_def demoWorker_def demoCodec_def readable_def virtualCapacityOf_def NestedMap_def)
  note exact = createNodePools_exact [OF this, THEN conjunct1]
  show ?thesis
    by (rule exI, rule conjI, rule exact, assumption)
      (simp add: demoShoot_def demoWorker_def poolOf_def newNodePool_def overlayAll_def overlay_def declaredCapacity_def
        demoCodec_def virtualCapacityOf_def NestedMap_def)
qed

end
