(* ===== verification/AwsPrice.thy ===== *)
theory AwsPrice
  imports Scoring
begin

text \<open>
  Instance prices from the AWS price list, \<open>src/tools/pricing/awsprice/parse.go\<close> with the types of
  \<open>src/tools/types/awsprice/types.go\<close>, and their generation for several regions,
  \<open>src/tools/cmd/scadctl/cmd/genprice.go\<close>. Decoding the JSON document, \<open>strconv.ParseFloat\<close> and the
  file system are arguments. A Go map is an association list in the order in which its loop meets
  the entries; a skipped product is \<open>None\<close>.
\<close>

declare map_of_eq_Some_iff [simp del] Some_eq_map_of_iff [simp del]

subsection \<open>The price list\<close>

record attributes =
  atInstanceType :: string
  atVCPU :: string
  atMemory :: string
  atGPU :: string
  atGPUMemory :: string
  atOperatingSys :: string
  atTenancy :: string

record price_dimension =
  pdPricePerUnit :: "(string, string) gomap"
  pdUnit :: string

type_synonym offer_term = "(string, price_dimension) gomap"
type_synonym terms = "(string, (string, offer_term) gomap) gomap"

record price_list =
  plProducts :: "(string, attributes) gomap"
  plOnDemand :: terms

type_synonym parse_float = "string \<Rightarrow> float64 outcome"

definition takeDimension :: "parse_float \<Rightarrow> price_dimension \<Rightarrow> float64 \<Rightarrow> float64" where
  "takeDimension parseFloat d best =
     (if pdUnit d \<noteq> ''Hrs'' then best
      else case map_of (pdPricePerUnit d) ''USD'' of
        None \<Rightarrow> best
      | Some usd \<Rightarrow> (case parseFloat usd of
            Ok val \<Rightarrow> if best = 0 \<or> val < best then val else best
          | _ \<Rightarrow> best))"

definition extractOnDemandHourlyPriceForSKU :: "parse_float \<Rightarrow> terms \<Rightarrow> string \<Rightarrow> float64" where
  "extractOnDemandHourlyPriceForSKU parseFloat onDemand sku =
     (case map_of onDemand sku of
        None \<Rightarrow> 0
      | Some offers \<Rightarrow> fold (\<lambda>(_, offer) best. fold (\<lambda>(_, d). takeDimension parseFloat d) offer best) offers 0)"

subsection \<open>Attributes\<close>

definition parseInt32 :: "string \<Rightarrow> 32 word outcome" where
  "parseInt32 s = bindO (ParseInt (TrimSpace s)) (\<lambda>val.
     if sint val < 0 \<or> sint val > 2 ^ 31 - 1 then Err (Plain ''value out of int32 range'')
     else Ok (word_of_int (sint val)))"

text \<open>\<open>strings.Fields\<close> on ASCII input.\<close>

fun fieldsLoop :: "string \<Rightarrow> string \<Rightarrow> string list" where
  "fieldsLoop cur [] = (if cur = [] then [] else [cur])"
| "fieldsLoop cur (c # cs) =
     (if isSpace c then (if cur = [] then [] else [cur]) @ fieldsLoop [] cs else fieldsLoop (cur @ [c]) cs)"

definition Fields :: "string \<Rightarrow> string list" where
  "Fields s = fieldsLoop [] s"

text \<open>The unit is read without a check that there is a second field.\<close>

definition parseMemory :: "parse_float \<Rightarrow> string \<Rightarrow> 64 word outcome" where
  "parseMemory parseFloat s =
     (case Fields s of
        [] \<Rightarrow> Err (Plain ''invalid memory string'')
      | num # rest \<Rightarrow> (case parseFloat num of
            Err _ \<Rightarrow> Err (Plain ''invalid memory string'')
          | Panic m \<Rightarrow> Panic m
          | Ok val \<Rightarrow> (case rest of
                [] \<Rightarrow> Panic ''index out of range''
              | unit # _ \<Rightarrow>
                  if unit = ''GB'' then Ok (word_of_int (floatToInt (fmul val 1000000000)))
                  else if unit = ''GiB'' then Ok (word_of_int (floatToInt (fmul val 1073741824)))
                  else Err (Plain ''unknown memory unit''))))"

subsection \<open>Products\<close>

text \<open>\<open>x, err := f(); if err != nil { continue }\<close>.\<close>

definition orSkip :: "'a outcome \<Rightarrow> ('a \<Rightarrow> 'b option outcome) \<Rightarrow> 'b option outcome" where
  "orSkip r f = (case r of Ok x \<Rightarrow> f x | Err _ \<Rightarrow> Ok None | Panic m \<Rightarrow> Panic m)"

definition gpuOf :: "parse_float \<Rightarrow> attributes \<Rightarrow> (32 word \<times> 64 word) outcome" where
  "gpuOf parseFloat attrs =
     (if atGPU attrs = [] then Ok (0, 0)
      else bindO (parseInt32 (atGPU attrs)) (\<lambda>gpu.
        if atGPUMemory attrs \<noteq> [] \<and> atGPUMemory attrs \<noteq> ''NA''
        then bindO (parseMemory parseFloat (atGPUMemory attrs)) (\<lambda>gm. Ok (gpu, gm))
        else Ok (gpu, 0)))"

text \<open>The price info of a product, if it is one the loop does not skip.\<close>

definition productInfo :: "parse_float \<Rightarrow> string \<Rightarrow> string \<Rightarrow> terms \<Rightarrow> string \<times> attributes \<Rightarrow> instance_price_info option outcome" where
  "productInfo parseFloat region osName onDemand p = (case p of (sku, attrs) \<Rightarrow>
     if atInstanceType attrs = [] \<or> atVCPU attrs = [] \<or> atMemory attrs = [] then Ok None
     else if atOperatingSys attrs \<noteq> osName then Ok None
     else if atTenancy attrs \<noteq> [] \<and> atTenancy attrs \<noteq> ''Shared'' then Ok None
     else orSkip (parseInt32 (atVCPU attrs)) (\<lambda>vcpu.
       orSkip (parseMemory parseFloat (atMemory attrs)) (\<lambda>mem.
       orSkip (gpuOf parseFloat attrs) (\<lambda>(gpu, gpuMemory).
         let price = extractOnDemandHourlyPriceForSKU parseFloat onDemand sku in
         if price \<le> 0 then Ok None
         else Ok (Some \<lparr>ipInstanceType = atInstanceType attrs, ipRegion = region, ipOS = atOperatingSys attrs,
                ipMemory = mem, ipGPUMemory = gpuMemory, ipHourlyPrice = price, ipGPU = gpu, ipVCPU = vcpu\<rparr>)))))"

type_synonym best_prices = "(string \<times> string, instance_price_info) gomap"

definition keepCheaper :: "instance_price_info \<Rightarrow> best_prices \<Rightarrow> best_prices" where
  "keepCheaper info best =
     (let key = (ipInstanceType info, ipOS info) in
      case map_of best key of
        None \<Rightarrow> AList.update key info best
      | Some existing \<Rightarrow> if ipHourlyPrice info < ipHourlyPrice existing then AList.update key info best else best)"

fun productsLoop :: "parse_float \<Rightarrow> string \<Rightarrow> string \<Rightarrow> terms \<Rightarrow> (string, attributes) gomap \<Rightarrow> best_prices \<Rightarrow> best_prices outcome" where
  "productsLoop parseFloat region osName onDemand [] best = Ok best"
| "productsLoop parseFloat region osName onDemand (p # ps) best =
     bindO (productInfo parseFloat region osName onDemand p) (\<lambda>info.
       productsLoop parseFloat region osName onDemand ps
         (case info of None \<Rightarrow> best | Some i \<Rightarrow> keepCheaper i best))"

definition ParseRegionPrices :: "(string \<Rightarrow> price_list outcome) \<Rightarrow> parse_float \<Rightarrow> string \<Rightarrow> string \<Rightarrow> string
    \<Rightarrow> instance_price_info list outcome" where
  "ParseRegionPrices decode parseFloat region osName data =
     bindO (decode data) (\<lambda>raw.
     bindO (productsLoop parseFloat region osName (plOnDemand raw) (plProducts raw) []) (\<lambda>best.
       Ok (map snd best)))"

subsection \<open>Generating prices for regions\<close>

text \<open>
  The temporary files of price lists, fetching one over the network, and writing: \<open>None\<close> is success.
\<close>

record price_env =
  peDecode :: "string \<Rightarrow> price_list outcome"
  peParseFloat :: parse_float
  peMkdir :: "goerr option"
  peRead :: "string \<Rightarrow> string outcome"
  peFetch :: "string \<Rightarrow> string outcome"
  peWrite :: "string \<Rightarrow> goerr option"
  peSort :: "(instance_price_info \<Rightarrow> instance_price_info \<Rightarrow> int) \<Rightarrow> instance_price_info list \<Rightarrow> instance_price_info list"
  peSave :: "instance_price_info list \<Rightarrow> goerr option"

definition regionData :: "price_env \<Rightarrow> string \<Rightarrow> string outcome" where
  "regionData env region = (case peRead env (''aws_'' @ region @ ''.json'') of
       Ok data \<Rightarrow> Ok data
     | Panic m \<Rightarrow> Panic m
     | Err _ \<Rightarrow> bindO (wrapErr (\<lambda>e. Wrapped ''failed to fetch region'' [e]) (peFetch env region)) (\<lambda>data.
         case peWrite env (''aws_'' @ region @ ''.json'') of
           Some e \<Rightarrow> Err (Wrapped ''failed to write temp region file'' [e]) | None \<Rightarrow> Ok data))"

fun regionsLoop :: "price_env \<Rightarrow> string list \<Rightarrow> instance_price_info list \<Rightarrow> instance_price_info list outcome" where
  "regionsLoop env [] allInfos = Ok allInfos"
| "regionsLoop env (region # regions) allInfos =
     bindO (regionData env region) (\<lambda>data.
     bindO (wrapErr (\<lambda>e. Wrapped ''failed to parse region'' [e])
              (ParseRegionPrices (peDecode env) (peParseFloat env) region ''Linux'' data)) (\<lambda>infos.
       regionsLoop env regions (allInfos @ infos)))"

text \<open>The infos the output file holds.\<close>

definition generateAWSPrices :: "price_env \<Rightarrow> string list \<Rightarrow> instance_price_info list outcome" where
  "generateAWSPrices env regions = (case peMkdir env of
       Some e \<Rightarrow> Err (Wrapped ''failed to create pricing dir'' [e])
     | None \<Rightarrow> bindO (regionsLoop env regions []) (\<lambda>allInfos.
         let infos = peSort env (\<lambda>a b. cmpString (ipInstanceType a) (ipInstanceType b)) allInfos in
         case peSave env infos of Some e \<Rightarrow> Err (Wrapped ''failed to write'' [e]) | None \<Rightarrow> Ok infos))"

end
