(* ===== verification/AwsPriceProps.thy ===== *)
theory AwsPriceProps
  imports AwsPrice
begin

text \<open>
  The generated prices: each instance type is priced once per region, with the lowest price among
  the products that are not skipped, whatever the order of the maps, and the planner's lookup finds
  exactly that entry.
\<close>

subsection \<open>One region\<close>

text \<open>The infos of the products that are not skipped.\<close>

definition candidates :: "parse_float \<Rightarrow> string \<Rightarrow> string \<Rightarrow> price_list \<Rightarrow> instance_price_info set" where
  "candidates pf region os raw = {i. \<exists>p \<in> set (plProducts raw). productInfo pf region os (plOnDemand raw) p = Ok (Some i)}"

definition noPanic :: "parse_float \<Rightarrow> string \<Rightarrow> string \<Rightarrow> price_list \<Rightarrow> bool" where
  "noPanic pf region os raw \<longleftrightarrow> (\<forall>p \<in> set (plProducts raw). \<exists>r. productInfo pf region os (plOnDemand raw) p = Ok r)"

abbreviation priceKeyOf :: "instance_price_info \<Rightarrow> string \<times> string" where
  "priceKeyOf i \<equiv> (ipInstanceType i, ipOS i)"

text \<open>The map of best prices after the infos of a set: one cheapest info per key.\<close>

definition bestOf :: "instance_price_info set \<Rightarrow> best_prices \<Rightarrow> bool" where
  "bestOf I best \<longleftrightarrow> wf_map best \<and>
     (\<forall>k i. map_of best k = Some i \<longrightarrow> i \<in> I \<and> k = priceKeyOf i \<and> (\<forall>j \<in> I. priceKeyOf j = k \<longrightarrow> ipHourlyPrice i \<le> ipHourlyPrice j)) \<and>
     (\<forall>j \<in> I. map_of best (priceKeyOf j) \<noteq> None)"

lemma bestOf_keepCheaper:
  assumes "bestOf I best"
  shows "bestOf (insert i I) (keepCheaper i best)"
proof -
  let ?k = "priceKeyOf i"
  have wf: "wf_map best" using assms by (simp add: bestOf_def)
  have old: "j \<in> I \<and> k = priceKeyOf j \<and> (\<forall>j' \<in> I. priceKeyOf j' = k \<longrightarrow> ipHourlyPrice j \<le> ipHourlyPrice j')"
    if "map_of best k = Some j" for k j using assms that unfolding bestOf_def by blast
  have all: "map_of best (priceKeyOf j) \<noteq> None" if "j \<in> I" for j using assms that by (simp add: bestOf_def)
  show ?thesis
  proof (cases "map_of best ?k")
    case None
    then have none: "priceKeyOf j \<noteq> ?k" if "j \<in> I" for j using all [OF that] by auto
    show ?thesis
      unfolding bestOf_def keepCheaper_def Let_def None
      using wf old all none by (auto split: if_splits)
  next
    case (Some e)
    note e = old [OF Some]
    show ?thesis
    proof (cases "ipHourlyPrice i < ipHourlyPrice e")
      case True
      have le: "ipHourlyPrice i \<le> ipHourlyPrice j" if "j \<in> I" "priceKeyOf j = ?k" for j
        using e that True by fastforce
      show ?thesis
        unfolding bestOf_def keepCheaper_def Let_def Some
        using True wf old all le by (auto split: if_splits)
    next
      case False
      then show ?thesis
        unfolding bestOf_def keepCheaper_def Let_def Some
        using wf old all e Some by (auto split: if_splits)
    qed
  qed
qed

lemma productsLoop_best:
  assumes "bestOf I best" "\<And>p. p \<in> set ps \<Longrightarrow> \<exists>r. productInfo pf region os td p = Ok r"
  shows "\<exists>best'. productsLoop pf region os td ps best = Ok best' \<and>
    bestOf (I \<union> {i. \<exists>p \<in> set ps. productInfo pf region os td p = Ok (Some i)}) best'"
  using assms
proof (induction ps arbitrary: I best)
  case (Cons p ps)
  obtain r where r: "productInfo pf region os td p = Ok r" using Cons.prems(2) [of p] by auto
  show ?case
  proof (cases r)
    case None
    then show ?thesis using Cons.IH [OF Cons.prems(1)] Cons.prems(2) r by auto
  next
    case (Some i)
    have "{j. \<exists>p' \<in> set (p # ps). productInfo pf region os td p' = Ok (Some j)} =
        insert i {j. \<exists>p' \<in> set ps. productInfo pf region os td p' = Ok (Some j)}"
      using r Some by auto
    then show ?thesis
      using Cons.IH [OF bestOf_keepCheaper [OF Cons.prems(1), of i]] Cons.prems(2) r Some by auto
  qed
qed auto

lemma productInfo_region:
  "productInfo pf region os td p = Ok (Some i) \<Longrightarrow> ipRegion i = region \<and> ipOS i = os \<and> 0 < ipHourlyPrice i"
  by (cases p) (auto simp: productInfo_def orSkip_def Let_def split: if_splits outcome.splits prod.splits)

text \<open>What the infos of one region are.\<close>

definition cheapest :: "instance_price_info set \<Rightarrow> instance_price_info list \<Rightarrow> bool" where
  "cheapest I infos \<longleftrightarrow> distinct (map ipInstanceType infos) \<and> set infos \<subseteq> I \<and>
     ipInstanceType ` set infos = ipInstanceType ` I \<and>
     (\<forall>i \<in> set infos. \<forall>j \<in> I. ipInstanceType j = ipInstanceType i \<longrightarrow> ipHourlyPrice i \<le> ipHourlyPrice j)"

lemma ParseRegionPrices_cheapest:
  assumes "decode data = Ok raw" "noPanic pf region os raw"
  shows "\<exists>infos. ParseRegionPrices decode pf region os data = Ok infos \<and> cheapest (candidates pf region os raw) infos"
proof -
  let ?I = "candidates pf region os raw"
  have "bestOf {} []" by (simp add: bestOf_def)
  then obtain best where loop: "productsLoop pf region os (plOnDemand raw) (plProducts raw) [] = Ok best"
    and best: "bestOf ?I best"
    using productsLoop_best [of "{}" "[]" "plProducts raw" pf region os "plOnDemand raw"] assms(2)
    by (auto simp: noPanic_def candidates_def)
  have os: "ipOS i = os" if "i \<in> ?I" for i using that by (auto simp: candidates_def dest: productInfo_region)
  have wf: "wf_map best" using best by (simp add: bestOf_def)
  have entry: "map_of best k = Some i \<longleftrightarrow> (k, i) \<in> set best" for k i using in_set_map_of [OF wf] by simp
  have mem: "i \<in> ?I \<and> k = priceKeyOf i" if "(k, i) \<in> set best" for k i
    using best that entry unfolding bestOf_def by blast
  have "distinct (map ipInstanceType (map snd best))"
  proof -
    have "map ipInstanceType (map snd best) = map fst (map fst best)"
      using mem by (auto intro!: map_cong)
    moreover have "snd k = os" if "k \<in> fst ` set best" for k using that mem os by force
    then have "inj_on fst (set (map fst best))" by (auto simp: inj_on_def) (metis snd_conv image_eqI fst_conv)
    ultimately show ?thesis using wf by (simp only: distinct_map)
  qed
  moreover have "snd ` set best \<subseteq> ?I" using mem by force
  moreover have "ipInstanceType ` ?I \<subseteq> ipInstanceType ` snd ` set best"
  proof
    fix t assume "t \<in> ipInstanceType ` ?I"
    then obtain j where j: "j \<in> ?I" "t = ipInstanceType j" by auto
    then obtain i where "map_of best (priceKeyOf j) = Some i" using best by (auto simp: bestOf_def)
    then have "(priceKeyOf j, i) \<in> set best" using entry by simp
    then show "t \<in> ipInstanceType ` snd ` set best" using mem j(2) by force
  qed
  moreover have "ipHourlyPrice i \<le> ipHourlyPrice j"
    if ij: "i \<in> snd ` set best" "j \<in> ?I" "ipInstanceType j = ipInstanceType i" for i j
  proof -
    obtain k where k: "(k, i) \<in> set best" using ij(1) by force
    have "priceKeyOf j = k" using mem [OF k] ij(2,3) os by auto
    then show ?thesis using best ij(2) k entry unfolding bestOf_def by blast
  qed
  ultimately have "cheapest ?I (map snd best)" unfolding cheapest_def by auto
  then show ?thesis using loop assms(1) by (simp add: ParseRegionPrices_def)
qed

subsection \<open>All regions, and the planner's lookup\<close>

lemma regionsLoop_app:
  assumes "\<And>r. r \<in> set regions \<Longrightarrow> \<exists>data. regionData env r = Ok data \<and>
      ParseRegionPrices (peDecode env) (peParseFloat env) r ''Linux'' data = Ok (infos r)"
  shows "regionsLoop env regions acc = Ok (acc @ concat (map infos regions))"
  using assms
proof (induction regions arbitrary: acc)
  case (Cons r rs)
  then obtain data where "regionData env r = Ok data"
    "ParseRegionPrices (peDecode env) (peParseFloat env) r ''Linux'' data = Ok (infos r)" by (metis list.set_intros(1))
  then show ?case using Cons by simp
qed simp

text \<open>A map built from infos with distinct keys holds exactly them.\<close>

abbreviation lookupKey :: "instance_price_info \<Rightarrow> price_key" where
  "lookupKey i \<equiv> (ipInstanceType i, ipRegion i)"

lemma map_of_infos:
  "distinct (map lookupKey infos) \<Longrightarrow>
    map_of (fold (\<lambda>info m. AList.update (lookupKey info) info m) infos m) k =
      (case find (\<lambda>i. lookupKey i = k) infos of Some i \<Rightarrow> Some i | None \<Rightarrow> map_of m k)"
proof (induction infos arbitrary: m)
  case (Cons i infos)
  have "find (\<lambda>j. lookupKey j = lookupKey i) infos = None"
  proof -
    have "lookupKey i \<notin> lookupKey ` set infos" using Cons.prems by simp
    moreover have "lookupKey j \<in> lookupKey ` set infos" if "j \<in> set infos" for j using that by (rule imageI)
    ultimately have "lookupKey j \<noteq> lookupKey i" if "j \<in> set infos" for j using that by metis
    then show ?thesis unfolding find_None_iff by blast
  qed
  then show ?case using Cons by (auto split: option.splits)
qed simp

lemma GetInfo_infos:
  assumes "distinct (map lookupKey infos)"
  shows "GetInfo (fold (\<lambda>info m. AList.update (lookupKey info) info m) infos []) r t = Ok i \<longleftrightarrow>
    i \<in> set infos \<and> ipInstanceType i = t \<and> ipRegion i = r"
proof -
  have find: "find (\<lambda>i. lookupKey i = (t, r)) infos = Some i \<longleftrightarrow> i \<in> set infos \<and> lookupKey i = (t, r)"
    using assms
    by (induction infos) (auto split: if_splits)
  then show ?thesis
    by (auto simp: GetInfo_def map_of_infos [OF assms] split: option.splits)
qed

lemma concat_lookupKeys_distinct:
  assumes "distinct regions"
    and "\<And>r. r \<in> set regions \<Longrightarrow> distinct (map ipInstanceType (infos r))"
    and "\<And>r i. r \<in> set regions \<Longrightarrow> i \<in> set (infos r) \<Longrightarrow> ipRegion i = r"
  shows "distinct (map lookupKey (concat (map infos regions)))"
  using assms
proof (induction regions)
  case (Cons r rs)
  have "map fst (map lookupKey (infos r)) = map ipInstanceType (infos r)" by simp
  then have "distinct (map lookupKey (infos r))"
    using Cons.prems(2) [of r] by (metis distinct_map list.set_intros(1))
  moreover have "lookupKey i \<noteq> lookupKey j" if "i \<in> set (infos r)" "r' \<in> set rs" "j \<in> set (infos r')" for i j r'
  proof -
    have "ipRegion i = r" "ipRegion j = r'" using that Cons.prems(3) by (meson list.set_intros)+
    then show ?thesis using that(2) Cons.prems(1) by auto
  qed
  ultimately show ?case using Cons by (force simp: image_iff)
qed simp

lemma GetInfo_cheapest:
  fixes t :: string
  assumes "distinct (map lookupKey out)" and sub: "{i \<in> set out. ipRegion i = r} = set infos" and ch: "cheapest C infos"
  defines "res \<equiv> GetInfo (fold (\<lambda>info m. AList.update (lookupKey info) info m) out []) r t"
  shows "if {i \<in> C. ipInstanceType i = t} = {} then \<exists>e. res = Err e
    else \<exists>i \<in> {i \<in> C. ipInstanceType i = t}. res = Ok i \<and> (\<forall>j \<in> {i \<in> C. ipInstanceType i = t}. ipHourlyPrice i \<le> ipHourlyPrice j)"
proof -
  note get = GetInfo_infos [OF assms(1), of r t, folded res_def]
  have mem: "i \<in> set out \<and> ipInstanceType i = t \<and> ipRegion i = r \<longleftrightarrow> i \<in> set infos \<and> ipInstanceType i = t" for i
    using sub by auto
  show ?thesis
  proof (cases "{i \<in> C. ipInstanceType i = t} = {}")
    case True
    then have "\<not> (i \<in> set infos \<and> ipInstanceType i = t)" for i using ch by (auto simp: cheapest_def)
    then have "res \<noteq> Ok i" for i using get mem by auto
    then show ?thesis using True by (cases res) (auto simp: res_def GetInfo_def split: option.splits)
  next
    case False
    then have "t \<in> ipInstanceType ` C" by auto
    then obtain i where i: "i \<in> set infos" "ipInstanceType i = t" using ch unfolding cheapest_def by (metis imageE)
    then have "res = Ok i" using get mem by blast
    moreover have "i \<in> {i \<in> C. ipInstanceType i = t}" "\<forall>j \<in> {i \<in> C. ipInstanceType i = t}. ipHourlyPrice i \<le> ipHourlyPrice j"
      using i ch by (auto simp: cheapest_def)
    ultimately show ?thesis using False by auto
  qed
qed

text \<open>
  C15. The price the planner looks up is the lowest price on offer: after generating the prices of
  some regions and loading what was written, the lookup of a region and an instance type returns
  the info of a Linux, shared-tenancy product of that type in that region with the lowest hourly
  price, and an error exactly if there is no such product; whatever the order of the maps of the
  price list.
\<close>

theorem generated_price_lookup:
  assumes "peMkdir env = None" "\<And>infos. peSave env infos = None" "\<And>cmp xs. mset (peSort env cmp xs) = mset xs"
    and "distinct regions"
    and data: "\<And>r. r \<in> set regions \<Longrightarrow> \<exists>data. regionData env r = Ok data \<and> peDecode env data = Ok (raw r)"
    and np: "\<And>r. r \<in> set regions \<Longrightarrow> noPanic (peParseFloat env) r ''Linux'' (raw r)"
    and "r \<in> set regions"
  defines "offers \<equiv> \<lambda>t. {i \<in> candidates (peParseFloat env) r ''Linux'' (raw r). ipInstanceType i = t}"
  shows "\<exists>infos access. generateAWSPrices env regions = Ok infos \<and>
     GetInstancePricingFromData (\<lambda>_. Ok infos) file = Ok access \<and>
     (if offers t = {} then \<exists>e. access r t = Err e
      else \<exists>i \<in> offers t. access r t = Ok i \<and> (\<forall>j \<in> offers t. ipHourlyPrice i \<le> ipHourlyPrice j))"
proof -
  let ?C = "\<lambda>r. candidates (peParseFloat env) r ''Linux'' (raw r)"
  have "\<forall>r \<in> set regions. \<exists>infos. (\<exists>data. regionData env r = Ok data \<and>
      ParseRegionPrices (peDecode env) (peParseFloat env) r ''Linux'' data = Ok infos) \<and> cheapest (?C r) infos"
    using data np ParseRegionPrices_cheapest by metis
  then obtain infos where infos: "\<And>r. r \<in> set regions \<Longrightarrow> (\<exists>data. regionData env r = Ok data \<and>
      ParseRegionPrices (peDecode env) (peParseFloat env) r ''Linux'' data = Ok (infos r)) \<and> cheapest (?C r) (infos r)"
    by metis
  let ?all = "concat (map infos regions)"
  obtain out where out: "generateAWSPrices env regions = Ok out" "mset out = mset ?all"
    using assms(1-3) regionsLoop_app [of regions env infos "[]"] infos by (simp add: generateAWSPrices_def Let_def)
  have set: "set out = set ?all" using out(2) mset_eq_setD by blast
  have reg: "ipRegion i = r" if "i \<in> ?C r" for i r using that by (auto simp: candidates_def dest: productInfo_region)
  have inC: "i \<in> ?C r" if "r \<in> set regions" "i \<in> set (infos r)" for r i
    using infos [OF that(1)] that(2) by (auto simp: cheapest_def)
  have "distinct (map lookupKey ?all)"
    by (rule concat_lookupKeys_distinct [OF \<open>distinct regions\<close>]) (use infos inC reg in \<open>auto simp: cheapest_def\<close>)
  then have dist: "distinct (map lookupKey out)"
    using out(2) by (metis mset_map mset_eq_imp_distinct_iff)
  have sub: "{i \<in> set out. ipRegion i = r} = set (infos r)"
    unfolding set using inC reg \<open>r \<in> set regions\<close> by auto
  have off: "{i \<in> ?C r. ipInstanceType i = t} = offers t" by (simp add: offers_def)
  note lookup = GetInfo_cheapest [OF dist sub infos [OF \<open>r \<in> set regions\<close>, THEN conjunct2], of t, unfolded off]
  show ?thesis
    using out(1) lookup by (auto simp: GetInstancePricingFromData_def parseInstanceTypeInfos_def)
qed

definition samplePriceList :: price_list where
  "samplePriceList = \<lparr>
     plProducts =
       [(''A'', \<lparr>atInstanceType = ''m5'', atVCPU = ''2'', atMemory = ''8 GiB'', atGPU = [], atGPUMemory = [],
           atOperatingSys = ''Linux'', atTenancy = ''Shared''\<rparr>),
        (''B'', \<lparr>atInstanceType = ''m5'', atVCPU = ''2'', atMemory = ''8 GiB'', atGPU = [], atGPUMemory = [],
           atOperatingSys = ''Linux'', atTenancy = []\<rparr>),
        (''C'', \<lparr>atInstanceType = ''m5'', atVCPU = ''2'', atMemory = ''8 GiB'', atGPU = [], atGPUMemory = [],
           atOperatingSys = ''Windows'', atTenancy = []\<rparr>)],
     plOnDemand =
       [(''A'', [(''o'', [(''d'', \<lparr>pdPricePerUnit = [(''USD'', ''3'')], pdUnit = ''Hrs''\<rparr>)])]),
        (''B'', [(''o'', [(''d'', \<lparr>pdPricePerUnit = [(''USD'', ''2'')], pdUnit = ''Hrs''\<rparr>)])])]\<rparr>"

definition sampleFloat :: parse_float where
  "sampleFloat s = (if s = ''2'' then Ok 2 else if s = ''3'' then Ok 3 else if s = ''8'' then Ok 8 else Err (Plain ''bad''))"

definition sampleEnv :: price_env where
  "sampleEnv = \<lparr>peDecode = (\<lambda>_. Ok samplePriceList), peParseFloat = sampleFloat, peMkdir = None,
     peRead = (\<lambda>_. Ok ''doc''), peFetch = (\<lambda>_. Err (Plain ''offline'')), peWrite = (\<lambda>_. None),
     peSort = (\<lambda>_ xs. xs), peSave = (\<lambda>_. None)\<rparr>"

lemma sample_vcpu: "parseInt32 ''2'' = Ok 2"
  by (simp add: parseInt32_def TrimSpace_def ParseInt_def ParseUint_def isSpace_def isDigit_def)

lemma sample_memory: "\<exists>m. parseMemory sampleFloat ''8 GiB'' = Ok m"
  by (simp add: parseMemory_def Fields_def isSpace_def sampleFloat_def)

definition sampleInfo :: "float64 \<Rightarrow> instance_price_info" where
  "sampleInfo c = \<lparr>ipInstanceType = ''m5'', ipRegion = ''eu'', ipOS = ''Linux'',
     ipMemory = (case parseMemory sampleFloat ''8 GiB'' of Ok m \<Rightarrow> m | _ \<Rightarrow> 0), ipGPUMemory = 0, ipHourlyPrice = c, ipGPU = 0, ipVCPU = 2\<rparr>"

lemma sample_products:
  "p \<in> set (plProducts samplePriceList) \<Longrightarrow>
     productInfo sampleFloat ''eu'' ''Linux'' (plOnDemand samplePriceList) p =
       Ok (if fst p = ''A'' then Some (sampleInfo 3) else if fst p = ''B'' then Some (sampleInfo 2) else None)"
  using sample_memory
  by (auto simp: samplePriceList_def productInfo_def sample_vcpu orSkip_def gpuOf_def sampleInfo_def
      extractOnDemandHourlyPriceForSKU_def takeDimension_def sampleFloat_def)

lemma sample_candidates: "candidates sampleFloat ''eu'' ''Linux'' samplePriceList = {sampleInfo 3, sampleInfo 2}"
  unfolding candidates_def using sample_products by (auto simp: samplePriceList_def)

theorem generated_price_lookup_witness:
  "\<exists>infos access i. generateAWSPrices sampleEnv [''eu''] = Ok infos \<and>
     GetInstancePricingFromData (\<lambda>_. Ok infos) ''f'' = Ok access \<and> access ''eu'' ''m5'' = Ok i \<and> ipHourlyPrice i = 2"
proof -
  have np: "noPanic sampleFloat ''eu'' ''Linux'' samplePriceList" using sample_products by (auto simp: noPanic_def)
  have offers: "{i \<in> candidates sampleFloat ''eu'' ''Linux'' samplePriceList. ipInstanceType i = ''m5''} = {sampleInfo 3, sampleInfo 2}"
    by (auto simp: sample_candidates sampleInfo_def)
  have "ipHourlyPrice i = 2" if "i \<in> {sampleInfo 3, sampleInfo 2}" "\<forall>j \<in> {sampleInfo 3, sampleInfo 2}. ipHourlyPrice i \<le> ipHourlyPrice j" for i
    using that by (auto simp: sampleInfo_def)
  then show ?thesis
    using generated_price_lookup [of sampleEnv "[''eu'']" "\<lambda>_. samplePriceList" "''eu''" "''f''" "''m5''"] np
    by (simp add: sampleEnv_def regionData_def offers) blast
qed

end
