(* ===== verification/ScenarioCmd.thy ===== *)
theory ScenarioCmd
  imports GenScenario AwsPrice
begin

text \<open>
  The commands of the tool \<open>scadctl\<close>: \<open>genscenario gardener\<close>
  (\<open>src/tools/cmd/scadctl/cmd/genscenario/gardener.go\<close>) from the coordinates of a shoot to the files of
  its scenario, and \<open>genprice\<close> (\<open>src/tools/cmd/scadctl/cmd/genprice.go\<close>). The clusters, their clients and the
  file system are the environment.
\<close>

declare map_of_eq_Some_iff [simp del] Some_eq_map_of_iff [simp del]

subsection \<open>Access to a shoot\<close>

record landscape =
  lsHomeDir :: "string outcome"
  lsStat :: "string \<Rightarrow> goerr option"
  lsMkdirAll :: "string \<Rightarrow> goerr option"
  lsRegister :: "string \<Rightarrow> goerr option"                        \<comment> \<open>adding the types of a group to the scheme\<close>
  lsClient :: "string \<Rightarrow> goerr option"                          \<comment> \<open>a client from a kubeconfig\<close>
  lsGetShoot :: "string \<times> string \<Rightarrow> (shoot \<times> string option) outcome"  \<comment> \<open>with the name of its cloud profile\<close>
  lsGetMachineTypes :: "string \<times> string \<Rightarrow> machine_type list outcome"
  lsViewerKubeconfig :: "string \<times> string \<Rightarrow> string outcome"
  lsWriteFile :: "string \<Rightarrow> string \<Rightarrow> goerr option"
  lsShootClient :: "string \<Rightarrow> shoot_client outcome"

record access =
  acShootCoord :: shoot_coordinate
  acShoot :: shoot
  acShootClient :: shoot_client
  acInstanceTypeToCapacity :: "(string, resource_list) gomap"

definition check :: "string \<Rightarrow> goerr option \<Rightarrow> unit outcome" where
  "check msg err = (case err of Some e \<Rightarrow> Err (Wrapped msg [e]) | None \<Rightarrow> Ok ())"

definition registerSchemes :: "landscape \<Rightarrow> unit outcome" where
  "registerSchemes ls =
     bindO (check ''failed to add kubernetes scheme'' (lsRegister ls ''kubernetes'')) (\<lambda>_.
     bindO (check ''failed to add gardener core scheme'' (lsRegister ls ''gardener core'')) (\<lambda>_.
       check ''failed to add gardener auth scheme'' (lsRegister ls ''gardener auth'')))"

definition createLandscapeClient :: "landscape \<Rightarrow> shoot_coordinate \<Rightarrow> unit outcome" where
  "createLandscapeClient ls sc = bindO (lsHomeDir ls) (\<lambda>homeDir.
     check ''failed to create rest.Config'' (lsClient ls (clientPath homeDir sc)))"

definition getShootObject :: "landscape \<Rightarrow> shoot_coordinate \<Rightarrow> (shoot \<times> string option) outcome" where
  "getShootObject ls sc =
     wrapErr (\<lambda>e. Wrapped ''error fetching the shoot object'' [e]) (lsGetShoot ls (''garden-'' @ scdProject sc, scdShoot sc))"

definition getCloudProfileMachineTypes :: "landscape \<Rightarrow> string \<Rightarrow> machine_type list outcome" where
  "getCloudProfileMachineTypes ls name =
     wrapErr (\<lambda>e. Wrapped ''failed to get required cloudProfile'' [e]) (lsGetMachineTypes ls (''garden'', name))"

definition getViewerKubeconfig :: "landscape \<Rightarrow> shoot_coordinate \<Rightarrow> string outcome" where
  "getViewerKubeconfig ls sc =
     bindO (wrapErr (\<lambda>e. Wrapped ''could not create viewerkubeconfig request'' [e])
              (lsViewerKubeconfig ls (scdProject sc, scdShoot sc))) (\<lambda>kubeconfig.
       if kubeconfig = [] then Err (Plain ''kubeconfig not found in ViewerKubeconfigRequest status'')
       else let kubeConfigPath = pathJoin [''/tmp/'' @ scdLandscape sc @ ''_'' @ scdProject sc @ ''_'' @ scdShoot sc @ ''_viewer-kubeconfig.yaml'']
            in case lsWriteFile ls kubeConfigPath kubeconfig of Some e \<Rightarrow> Err e | None \<Rightarrow> Ok kubeConfigPath)"

definition createShootAccess :: "landscape \<Rightarrow> shoot_coordinate \<Rightarrow> access outcome" where
  "createShootAccess ls sc =
     bindO (registerSchemes ls) (\<lambda>_.
     bindO (createLandscapeClient ls sc) (\<lambda>_.
     bindO (getShootObject ls sc) (\<lambda>(shoot, cloudProfile).
     case cloudProfile of
       None \<Rightarrow> Err (Plain ''no cloudprofile associated with the shoot'')
     | Some profileName \<Rightarrow>
         bindO (getCloudProfileMachineTypes ls profileName) (\<lambda>instanceTypes.
         bindO (getViewerKubeconfig ls \<lparr>scdLandscape = TrimPrefix (scdLandscape sc) ''sap-landscape-'',
                  scdProject = ''garden-'' @ scdProject sc, scdShoot = scdShoot sc\<rparr>) (\<lambda>kubeconfigPath.
         bindO (lsShootClient ls kubeconfigPath) (\<lambda>shootClient.
           Ok \<lparr>acShootCoord = sc, acShoot = shoot, acShootClient = shootClient,
               acInstanceTypeToCapacity = constructInstanceRequirementsMap instanceTypes\<rparr>))))))"

subsection \<open>genscenario gardener\<close>

record scenario_env =
  sceLandscape :: landscape
  sceFlags :: scenario_flags
  sceSort :: "(shoot_node \<Rightarrow> shoot_node \<Rightarrow> int) \<Rightarrow> shoot_node list \<Rightarrow> shoot_node list"
  sceOrder :: "key_set \<Rightarrow> string list"
  sceCodec :: provider_codec
  sceWrite :: "string \<Rightarrow> goerr option"
  sceExists :: "string \<Rightarrow> bool"
  sceSaveConstraint :: "string \<Rightarrow> goerr option"
  sceTime :: "string \<times> string"       \<comment> \<open>formatted when the snapshots and when the constraint are saved\<close>

definition gardener_PreRunE :: "landscape \<Rightarrow> shoot_coordinate \<Rightarrow> unit outcome" where
  "gardener_PreRunE ls sc = bindO (lsHomeDir ls) (\<lambda>homeDir.
     check ''cannot find kubeconfig for landscape'' (lsStat ls (preRunPath homeDir sc)))"

definition scenarioDir :: "shoot_coordinate \<Rightarrow> string list \<Rightarrow> string" where
  "scenarioDir sc args = (case args of
       [] \<Rightarrow> ''/tmp/'' @ getFullyQualifiedName sc | a # _ \<Rightarrow> pathJoin [a, getFullyQualifiedName sc])"

text \<open>The files of the scenario: the snapshots, and the scaling constraint if it was saved.\<close>

definition gardener_RunE :: "scenario_env \<Rightarrow> shoot_coordinate \<Rightarrow> string list \<Rightarrow> (unit, saved \<times> (string \<times> node_pool list) list) eff" where
  "gardener_RunE env sc args =
     (let ls = sceLandscape env in
      case bindO (check ''error creating scenario directory'' (lsMkdirAll ls (scenarioDir sc args))) (\<lambda>_.
           bindO (wrapErr (\<lambda>e. Plain ''error creating shoot access'') (createShootAccess ls sc)) (\<lambda>a.
           bindO (createScalingConstraint (sceCodec env) (acShoot a) (acInstanceTypeToCapacity a)) (\<lambda>pools.
           bindO (wrapErr (\<lambda>e. Plain ''error creating cluster snapshot'')
                    (createClusterSnapshot (sceSort env) (sceOrder env) (sceFlags env) pools (acShootClient a))) (\<lambda>snap.
             Ok (pools, snap))))) of
        Err e \<Rightarrow> (Err e, ([], []))
      | Panic p \<Rightarrow> (Panic p, ([], []))
      | Ok (pools, snap) \<Rightarrow>
          (case genSnapshotVariants (sceWrite env) (sceExists env) (fst (sceTime env)) snap [] of
             (Err e, files) \<Rightarrow> (Err (Plain ''error creating snapshot variants''), (files, []))
           | (Panic p, files) \<Rightarrow> (Panic p, (files, []))
           | (Ok _, files) \<Rightarrow>
               (let name = ''scaling-constraints-'' @ snd (sceTime env) @ ''.json'' in
                case sceSaveConstraint env name of
                  Some e \<Rightarrow> (Err (Plain ''cannot save scaling constraint''), (files, []))
                | None \<Rightarrow> (Ok (), (files, [(name, pools)])))))"

subsection \<open>genprice\<close>

definition defaultAWSRegions :: "string list" where
  "defaultAWSRegions =
     [''us-east-1'', ''us-east-2'', ''us-west-1'', ''us-west-2'', ''eu-north-1'', ''eu-west-1'', ''eu-west-2'', ''eu-west-3'',
      ''eu-central-1'', ''eu-south-1'', ''ap-northeast-1'', ''ap-northeast-2'', ''ap-northeast-3'', ''ap-south-1'',
      ''ap-southeast-1'', ''ap-southeast-2'', ''ca-central-1'', ''me-central-1'', ''sa-east-1'']"

definition genpriceCmd :: "price_env \<Rightarrow> string \<Rightarrow> string list \<Rightarrow> instance_price_info list outcome" where
  "genpriceCmd env providerStr regions =
     bindO (AsCloudProvider providerStr) (\<lambda>provider.
       if provider = ''aws'' then generateAWSPrices env (if regions = [] then defaultAWSRegions else regions)
       else Err (Plain ''pricing not yet implemented for provider''))"

end
