(* ===== verification/Watching.thy ===== *)
theory Watching
  imports Views
begin

text \<open>
  Watching through a view: \<open>WatchObjects\<close> and \<open>GetWatcher\<close> of \<open>src/minkapi/view/base.go\<close> and
  \<open>sandbox.go\<close>, and \<open>CombineTwoWatchers\<close> of \<open>src/common/watchutil/watchutil.go\<close>. A sandbox watches its
  own store and its delegate in two goroutines that share the callback; a chain of sandboxes
  therefore has one watched store per view of the chain. The sources are numbered from the view
  itself (\<open>0\<close>) down to the base. A run is a sequence of moves: a source takes a case of its
  \<open>select\<close>, with the world as it is at that moment, or an event is broadcast to a source.
\<close>

subsection \<open>Watching objects\<close>

type_synonym 'u world_callback = "world \<Rightarrow> 'u callback"

text \<open>The callback the sandbox gives its delegate hides the names it holds or has deleted.\<close>

definition delegateCallback :: "view \<Rightarrow> gvk \<Rightarrow> 'u world_callback \<Rightarrow> 'u world_callback" where
  "delegateCallback v g cb w ev u =
     (case getStoreObject v g (CacheName (snd ev)) w of
        Ok _ \<Rightarrow> (None, u)
      | Err gerr \<Rightarrow> if errorsIs gerr ErrObjectDeleted then (None, u) else cb w ev u
      | Panic _ \<Rightarrow> cb w ev u)"

record 'u watch_src =
  wsCallback :: "'u world_callback"
  wsChan :: "watch_event list"
  wsEnded :: "(nat \<times> unit outcome) option"   \<comment> \<open>when, and what the goroutine returned\<close>

text \<open>\<open>s.Watch\<close> up to its loop: the pending events, or the end of the goroutine.\<close>

definition startWatch :: "64 word \<Rightarrow> string \<Rightarrow> selector \<Rightarrow> view \<Rightarrow> gvk \<Rightarrow> 'u world_callback \<Rightarrow> world \<Rightarrow> 'u watch_src" where
  "startWatch sv ns sel v g cb w =
     (case readStore v g (\<lambda>s. bindO (buildPendingWatchEvents sv ns sel s) (\<lambda>events.
         if shutDown (snd s) then Err (Wrapped ''cannot start watch'' [Plain ''broadcaster stopped'']) else Ok events)) w of
        Ok events \<Rightarrow> \<lparr>wsCallback = cb, wsChan = events, wsEnded = None\<rparr>
      | Err e \<Rightarrow> \<lparr>wsCallback = cb, wsChan = [], wsEnded = Some (0, Err e)\<rparr>
      | Panic p \<Rightarrow> \<lparr>wsCallback = cb, wsChan = [], wsEnded = Some (0, Panic p)\<rparr>)"

text \<open>The sources of a watch. A view without a store for the kind fails before it asks its delegate.\<close>

fun WatchObjects :: "64 word \<Rightarrow> string \<Rightarrow> selector \<Rightarrow> view \<Rightarrow> gvk \<Rightarrow> 'u world_callback \<Rightarrow> world \<Rightarrow> 'u watch_src list" where
  "WatchObjects sv ns sel (BaseView i) g cb w = [startWatch sv ns sel (BaseView i) g cb w]"
| "WatchObjects sv ns sel (SandboxView i d) g cb w =
     startWatch sv ns sel (SandboxView i d) g cb w #
     (case GetResourceStore (SandboxView i d) g w of
        Ok _ \<Rightarrow> WatchObjects sv ns sel d g (delegateCallback (SandboxView i d) g cb) w
      | _ \<Rightarrow> [])"

datatype watch_move = Move nat choice world | Arrive nat watch_event

text \<open>One turn of the loop of a source, as in \<open>watchLoop\<close>.\<close>

definition srcMove :: "64 word \<Rightarrow> string \<Rightarrow> selector \<Rightarrow> nat \<Rightarrow> choice \<Rightarrow> world \<Rightarrow> 'u watch_src \<Rightarrow> 'u \<Rightarrow> 'u watch_src \<times> 'u" where
  "srcMove sv ns sel t ch w src u =
     (case (wsEnded src, ch, wsChan src) of
        (Some _, _, _) \<Rightarrow> (src, u)
      | (None, Receive, ev # chan) \<Rightarrow>
          (case shouldSkipObject (snd ev) sv ns sel of
             Err e \<Rightarrow> (src\<lparr>wsEnded := Some (t, Err e)\<rparr>, u)
           | Panic p \<Rightarrow> (src\<lparr>wsEnded := Some (t, Panic p)\<rparr>, u)
           | Ok True \<Rightarrow> (src\<lparr>wsChan := chan\<rparr>, u)
           | Ok False \<Rightarrow> (case wsCallback src w ev u of
                 (None, u') \<Rightarrow> (src\<lparr>wsChan := chan\<rparr>, u')
               | (Some e, u') \<Rightarrow> (src\<lparr>wsChan := chan, wsEnded := Some (t, Err e)\<rparr>, u')))
      | (None, Receive, []) \<Rightarrow> (src\<lparr>wsEnded := Some (t, Ok ())\<rparr>, u)
      | (None, Timeout, _) \<Rightarrow> (src\<lparr>wsEnded := Some (t, Ok ())\<rparr>, u)
      | (None, CtxDone, _) \<Rightarrow> (src\<lparr>wsEnded := Some (t, Ok ())\<rparr>, u))"

definition arrive :: "watch_event \<Rightarrow> 'u watch_src \<Rightarrow> 'u watch_src" where
  "arrive ev src = src\<lparr>wsChan := wsChan src @ [ev]\<rparr>"

fun watchMoves :: "64 word \<Rightarrow> string \<Rightarrow> selector \<Rightarrow> nat \<Rightarrow> watch_move list \<Rightarrow> 'u watch_src list \<Rightarrow> 'u \<Rightarrow> 'u watch_src list \<times> 'u" where
  "watchMoves sv ns sel t [] srcs u = (srcs, u)"
| "watchMoves sv ns sel t (Move k ch w # ms) srcs u =
     (if k < length srcs
      then let (src, u') = srcMove sv ns sel t ch w (srcs ! k) u in watchMoves sv ns sel (Suc t) ms (srcs[k := src]) u'
      else watchMoves sv ns sel (Suc t) ms srcs u)"
| "watchMoves sv ns sel t (Arrive k ev # ms) srcs u =
     watchMoves sv ns sel (Suc t) ms (if k < length srcs then srcs[k := arrive ev (srcs ! k)] else srcs) u"

text \<open>
  \<open>eg.Wait()\<close>: both goroutines have ended, and the error is that of the one that failed first. A
  view whose sources have not all ended is still watching: \<open>None\<close>.
\<close>

fun waitResult :: "(nat \<times> unit outcome) option list \<Rightarrow> (nat \<times> unit outcome) option" where
  "waitResult [] = None"
| "waitResult [r] = r"
| "waitResult (r # rs) = (case (r, waitResult rs) of
       (Some (t1, Ok _), Some (t2, r2)) \<Rightarrow> Some (max t1 t2, r2)
     | (Some (t1, r1), Some (t2, Ok _)) \<Rightarrow> Some (max t1 t2, r1)
     | (Some (t1, r1), Some (t2, r2)) \<Rightarrow> Some (max t1 t2, if t1 \<le> t2 then r1 else r2)
     | _ \<Rightarrow> None)"

definition watchResult :: "'u watch_src list \<Rightarrow> unit outcome option" where
  "watchResult srcs = map_option snd (waitResult (map wsEnded srcs))"

definition View_WatchObjects :: "64 word \<Rightarrow> string \<Rightarrow> selector \<Rightarrow> view \<Rightarrow> gvk \<Rightarrow> 'u world_callback \<Rightarrow> world
    \<Rightarrow> watch_move list \<Rightarrow> 'u \<Rightarrow> unit outcome option \<times> 'u" where
  "View_WatchObjects sv ns sel v g cb w moves u =
     (let (srcs, u') = watchMoves sv ns sel 1 moves (WatchObjects sv ns sel v g cb w) u in (watchResult srcs, u'))"

subsection \<open>Watchers\<close>

text \<open>
  \<open>CombineTwoWatchers\<close>: every event of either channel is passed on, in the order in which the
  loop's \<open>select\<close> picks the channels; a closed channel is disabled, and the loop ends with both
  closed, or when the context or the proxy is done.
\<close>

datatype merge_case = From1 | From2 | MergeStop

fun CombineTwoWatchers :: "merge_case list \<Rightarrow> watch_event list \<Rightarrow> watch_event list \<Rightarrow> watch_event list" where
  "CombineTwoWatchers [] c1 c2 = []"
| "CombineTwoWatchers (MergeStop # cs) c1 c2 = []"
| "CombineTwoWatchers (From1 # cs) [] c2 = CombineTwoWatchers cs [] c2"
| "CombineTwoWatchers (From1 # cs) (e # c1) c2 = e # CombineTwoWatchers cs c1 c2"
| "CombineTwoWatchers (From2 # cs) c1 [] = CombineTwoWatchers cs c1 []"
| "CombineTwoWatchers (From2 # cs) c1 (e # c2) = e # CombineTwoWatchers cs c1 c2"

text \<open>
  The events that the goroutine of a store's watcher has put on its channel after the choices of a
  schedule: what it has sent when the loop is made to end there.
\<close>

definition storeWatcher :: "(string \<Rightarrow> selector outcome) \<Rightarrow> string \<Rightarrow> string \<Rightarrow> string \<Rightarrow> choice list \<Rightarrow> watch_event list
    \<Rightarrow> (nat \<Rightarrow> send_case) \<Rightarrow> sstate \<Rightarrow> watch_event list outcome" where
  "storeWatcher parseSelector ns rv labelSelector sched live sends s =
     bindO (ResStore.GetWatcher parseSelector rv labelSelector) (\<lambda>(startVersion, sel).
       Ok (case Watch startVersion ns sel (watcherCallback sends) (sched @ [Timeout]) live s (0, []) of
             Some (_, (_, out)) \<Rightarrow> out | None \<Rightarrow> []))"

text \<open>\<open>GetWatcher\<close> of a view: per view of the chain, how its goroutine is scheduled.\<close>

record watcher_run =
  wrSched :: "choice list"
  wrLive :: "watch_event list"
  wrSends :: "nat \<Rightarrow> send_case"
  wrMerge :: "merge_case list"

fun View_GetWatcher :: "(string \<Rightarrow> selector outcome) \<Rightarrow> string \<Rightarrow> string \<Rightarrow> string \<Rightarrow> (nat \<Rightarrow> watcher_run) \<Rightarrow> view \<Rightarrow> gvk \<Rightarrow> world
    \<Rightarrow> watch_event list outcome" where
  "View_GetWatcher ps ns rv ls runs (BaseView i) g w =
     readStore (BaseView i) g (storeWatcher ps ns rv ls (wrSched (runs i)) (wrLive (runs i)) (wrSends (runs i))) w"
| "View_GetWatcher ps ns rv ls runs (SandboxView i d) g w =
     bindO (readStore (SandboxView i d) g (storeWatcher ps ns rv ls (wrSched (runs i)) (wrLive (runs i)) (wrSends (runs i))) w) (\<lambda>c1.
     bindO (View_GetWatcher ps ns rv ls runs d g w) (\<lambda>c2.
       Ok (CombineTwoWatchers (wrMerge (runs i)) c1 c2)))"

end
