(* ===== verification/ServeMux.thy ===== *)
theory ServeMux
  imports Paths
begin

text \<open>
  Go's request multiplexer \<open>http.ServeMux\<close> as the API server uses it: patterns with a method, literal
  segments, \<open>{name}\<close> wildcards and a trailing slash; the registration that panics on a malformed or
  conflicting pattern; the lookup that prefers literals to wildcards; the redirect to a path with a
  trailing slash. No pattern here names a host.

  A path is the list of what stands between its slashes after the first one, so that a path with a
  trailing slash ends in the empty string.
\<close>

subsection \<open>Patterns\<close>

datatype pseg = Lit string | Wild string | Multi string

record pattern =
  pMethod :: string
  pSegs :: "pseg list"

definition isBlank :: "char \<Rightarrow> bool" where
  "isBlank c \<longleftrightarrow> c = CHR '' '' \<or> c = CHR 0x09"

definition isAlnum :: "char \<Rightarrow> bool" where
  "isAlnum c \<longleftrightarrow> (let n = of_char c :: nat in 48 \<le> n \<and> n \<le> 57 \<or> 65 \<le> n \<and> n \<le> 90 \<or> 97 \<le> n \<and> n \<le> 122)"

definition validMethod :: "string \<Rightarrow> bool" where
  "validMethod m \<longleftrightarrow> m \<noteq> [] \<and> (\<forall>c \<in> set m. isAlnum c \<or> c \<in> set ''!#$%&*+-.^_|~'' \<or> c = CHR 0x27 \<or> c = CHR 0x60)"

definition isValidWildcardName :: "string \<Rightarrow> bool" where
  "isValidWildcardName s \<longleftrightarrow> s \<noteq> [] \<and> \<not> isDigit (hd s) \<and> (\<forall>c \<in> set s. isAlnum c \<or> c = CHR ''_'')"

text \<open>Percent decoding; a malformed string is taken as it is.\<close>

definition hexVal :: "char \<Rightarrow> nat option" where
  "hexVal c = (let n = of_char c :: nat in
     if 48 \<le> n \<and> n \<le> 57 then Some (n - 48)
     else if 65 \<le> n \<and> n \<le> 70 then Some (n - 55)
     else if 97 \<le> n \<and> n \<le> 102 then Some (n - 87) else None)"

fun unescape :: "string \<Rightarrow> string option" where
  "unescape [] = Some []"
| "unescape (c # cs) =
     (if c \<noteq> CHR ''%'' then map_option ((#) c) (unescape cs)
      else case cs of
        a # b # rest \<Rightarrow> (case (hexVal a, hexVal b) of
            (Some x, Some y) \<Rightarrow> map_option ((#) (char_of (16 * x + y))) (unescape rest)
          | _ \<Rightarrow> None)
      | _ \<Rightarrow> None)"

definition pathUnescape :: "string \<Rightarrow> string" where
  "pathUnescape s = (case unescape s of Some t \<Rightarrow> t | None \<Rightarrow> s)"

definition parseSegment :: "string list \<Rightarrow> bool \<Rightarrow> string \<Rightarrow> (pseg \<times> string list) outcome" where
  "parseSegment seen isLast seg =
     (if seg = [] \<and> isLast then Ok (Multi [], seen)
      else if CHR ''{'' \<notin> set seg then Ok (Lit (pathUnescape seg), seen)
      else if hd seg \<noteq> CHR ''{'' then Err (Plain ''bad wildcard segment (must start with {)'')
      else if last seg \<noteq> CHR ''}'' then Err (Plain ''bad wildcard segment (must end with })'')
      else let name = butlast (tl seg);
               multi = length name \<ge> 3 \<and> drop (length name - 3) name = ''...'';
               name' = (if multi then take (length name - 3) name else name) in
        if name = ''$'' then (if isLast then Ok (Lit ''/'', seen) else Err (Plain ''{$} not at end''))
        else if multi \<and> \<not> isLast then Err (Plain ''{...} wildcard not at end'')
        else if name' = [] then Err (Plain ''empty wildcard'')
        else if \<not> isValidWildcardName name' then Err (Plain ''bad wildcard name'')
        else if name' \<in> set seen then Err (Plain ''duplicate wildcard name'')
        else Ok (if multi then Multi name' else Wild name', name' # seen))"

fun parseSegments :: "string list \<Rightarrow> string list \<Rightarrow> pseg list outcome" where
  "parseSegments seen [] = Ok []"
| "parseSegments seen (seg # segs) =
     bindO (parseSegment seen (segs = []) seg) (\<lambda>(p, seen'). bindO (parseSegments seen' segs) (\<lambda>ps. Ok (p # ps)))"

text \<open>A path that cleaning leaves as it is.\<close>

definition cleanSegs :: "string list \<Rightarrow> bool" where
  "cleanSegs segs \<longleftrightarrow> list_all (\<lambda>s. s \<noteq> [] \<and> s \<noteq> ''.'' \<and> s \<noteq> ''..'') (butlast segs) \<and> last segs \<notin> {''.'', ''..''}"

definition parsePattern :: "string \<Rightarrow> pattern outcome" where
  "parsePattern s =
     (let word = takeWhile (\<lambda>c. \<not> isBlank c) s;
          found = (\<exists>c \<in> set s. isBlank c);
          method = (if found then word else []);
          rest = (if found then dropWhile isBlank (dropWhile (\<lambda>c. \<not> isBlank c) s) else s) in
      if s = [] then Err (Plain ''empty pattern'')
      else if method \<noteq> [] \<and> \<not> validMethod method then Err (Plain ''invalid method'')
      else case rest of
        [] \<Rightarrow> Err (Plain ''host/path missing /'')
      | c # path \<Rightarrow>
          if c \<noteq> CHR ''/'' then Err (Plain ''pattern with a host'')
          else if method \<noteq> [] \<and> method \<noteq> ''CONNECT'' \<and> \<not> cleanSegs (splitSlash path)
            then Err (Plain ''non-CONNECT pattern with unclean path can never match'')
          else bindO (parseSegments [] (splitSlash path)) (\<lambda>segs. Ok \<lparr>pMethod = method, pSegs = segs\<rparr>))"

subsection \<open>Conflicts\<close>

datatype relationship = Equivalent | MoreGeneral | MoreSpecific | Overlaps | Disjoint

definition compareSegments :: "pseg \<Rightarrow> pseg \<Rightarrow> relationship" where
  "compareSegments s1 s2 = (case (s1, s2) of
       (Multi _, Multi _) \<Rightarrow> Equivalent
     | (Multi _, _) \<Rightarrow> MoreGeneral
     | (_, Multi _) \<Rightarrow> MoreSpecific
     | (Wild _, Wild _) \<Rightarrow> Equivalent
     | (Wild _, Lit s) \<Rightarrow> if s = ''/'' then Disjoint else MoreGeneral
     | (Lit s, Wild _) \<Rightarrow> if s = ''/'' then Disjoint else MoreSpecific
     | (Lit s, Lit t) \<Rightarrow> if s = t then Equivalent else Disjoint)"

fun combineRelationships :: "relationship \<Rightarrow> relationship \<Rightarrow> relationship" where
  "combineRelationships Equivalent r = r"
| "combineRelationships Disjoint r = Disjoint"
| "combineRelationships Overlaps r = (if r = Disjoint then Disjoint else Overlaps)"
| "combineRelationships MoreGeneral r = (case r of Equivalent \<Rightarrow> MoreGeneral | MoreSpecific \<Rightarrow> Overlaps | _ \<Rightarrow> r)"
| "combineRelationships MoreSpecific r = (case r of Equivalent \<Rightarrow> MoreSpecific | MoreGeneral \<Rightarrow> Overlaps | _ \<Rightarrow> r)"

definition isMulti :: "pseg list \<Rightarrow> bool" where
  "isMulti ps = (ps \<noteq> [] \<and> (case last ps of Multi _ \<Rightarrow> True | _ \<Rightarrow> False))"

fun compareSegLists :: "relationship \<Rightarrow> pseg list \<Rightarrow> pseg list \<Rightarrow> bool \<Rightarrow> bool \<Rightarrow> relationship" where
  "compareSegLists rel (s1 # ss1) (s2 # ss2) m1 m2 =
     (let rel' = combineRelationships rel (compareSegments s1 s2) in
      if rel' = Disjoint then Disjoint else compareSegLists rel' ss1 ss2 m1 m2)"
| "compareSegLists rel [] [] m1 m2 = rel"
| "compareSegLists rel [] (s2 # ss2) m1 m2 = (if m1 then combineRelationships rel MoreGeneral else Disjoint)"
| "compareSegLists rel (s1 # ss1) [] m1 m2 = (if m2 then combineRelationships rel MoreSpecific else Disjoint)"

definition comparePaths :: "pseg list \<Rightarrow> pseg list \<Rightarrow> relationship" where
  "comparePaths p1 p2 =
     (if length p1 \<noteq> length p2 \<and> \<not> isMulti p1 \<and> \<not> isMulti p2 then Disjoint
      else compareSegLists Equivalent p1 p2 (isMulti p1) (isMulti p2))"

definition compareMethods :: "string \<Rightarrow> string \<Rightarrow> relationship" where
  "compareMethods m1 m2 =
     (if m1 = m2 then Equivalent
      else if m1 = [] then MoreGeneral
      else if m2 = [] then MoreSpecific
      else if m1 = ''GET'' \<and> m2 = ''HEAD'' then MoreGeneral
      else if m2 = ''GET'' \<and> m1 = ''HEAD'' then MoreSpecific
      else Disjoint)"

definition conflictsWith :: "pattern \<Rightarrow> pattern \<Rightarrow> bool" where
  "conflictsWith p1 p2 =
     (let mrel = compareMethods (pMethod p1) (pMethod p2);
          rel = (if mrel = Disjoint then Disjoint else combineRelationships mrel (comparePaths (pSegs p1) (pSegs p2)))
      in rel = Equivalent \<or> rel = Overlaps)"

type_synonym 'h mux = "(pattern \<times> 'h) list"

text \<open>\<open>mux.Handle\<close> and \<open>mux.HandleFunc\<close>: they panic if the pattern is malformed or conflicts.\<close>

definition Handle :: "string \<Rightarrow> 'h \<Rightarrow> 'h mux \<Rightarrow> 'h mux outcome" where
  "Handle pat h mux = (case parsePattern pat of
       Ok p \<Rightarrow> if list_ex (\<lambda>(q, _). conflictsWith p q) mux
               then Panic ''pattern conflicts'' else Ok (mux @ [(p, h)])
     | _ \<Rightarrow> Panic ''parsing pattern'')"

subsection \<open>Lookup\<close>

text \<open>
  The children of a node of the routing tree, by what the segment of a pattern is: the patterns of
  a list that go on with it.
\<close>

definition litChild :: "string \<Rightarrow> (pseg list \<times> 'h) list \<Rightarrow> (pseg list \<times> 'h) list" where
  "litChild seg ps = concat (map (\<lambda>(p, h). case p of Lit s # p' \<Rightarrow> if s = seg then [(p', h)] else [] | _ \<Rightarrow> []) ps)"

definition wildChild :: "(pseg list \<times> 'h) list \<Rightarrow> (pseg list \<times> 'h) list" where
  "wildChild ps = concat (map (\<lambda>(p, h). case p of Wild _ # p' \<Rightarrow> [(p', h)] | _ \<Rightarrow> []) ps)"

definition multiChild :: "(pseg list \<times> 'h) list \<Rightarrow> 'h option" where
  "multiChild ps = (case concat (map (\<lambda>(p, h). case p of [Multi _] \<Rightarrow> [h] | _ \<Rightarrow> []) ps) of h # _ \<Rightarrow> Some h | [] \<Rightarrow> None)"

text \<open>The segments of a path as the tree sees them: decoded, a trailing slash as the segment \<open>/\<close>.\<close>

fun treePath :: "string list \<Rightarrow> string list" where
  "treePath [] = []"
| "treePath [s] = (if s = [] then [''/''] else [pathUnescape s])"
| "treePath (s # segs) = pathUnescape s # treePath segs"

fun matchPath :: "(pseg list \<times> 'h) list \<Rightarrow> string list \<Rightarrow> string list \<Rightarrow> ('h \<times> string list) option" where
  "matchPath ps [] matches = (case find (\<lambda>(p, _). p = []) ps of Some (_, h) \<Rightarrow> Some (h, matches) | None \<Rightarrow> None)"
| "matchPath ps (seg # rest) matches =
     (case matchPath (litChild seg ps) rest matches of
        Some r \<Rightarrow> Some r
      | None \<Rightarrow>
          (case (if seg = ''/'' then None else matchPath (wildChild ps) rest (matches @ [seg])) of
             Some r \<Rightarrow> Some r
           | None \<Rightarrow> map_option (\<lambda>h. (h, matches)) (multiChild ps)))"

text \<open>The handler is found with its pattern, which names the values of the wildcards.\<close>

definition ofMethod :: "string \<Rightarrow> 'h mux \<Rightarrow> (pseg list \<times> (pattern \<times> 'h)) list" where
  "ofMethod m mux = map (\<lambda>(p, h). (pSegs p, (p, h))) (filter (\<lambda>(p, _). pMethod p = m) mux)"

definition matchMethodAndPath :: "'h mux \<Rightarrow> string \<Rightarrow> string list \<Rightarrow> ((pattern \<times> 'h) \<times> string list) option" where
  "matchMethodAndPath mux method path =
     (case (if method = [] then None else matchPath (ofMethod method mux) (treePath path) []) of
        Some r \<Rightarrow> Some r
      | None \<Rightarrow>
          (case (if method = ''HEAD'' then matchPath (ofMethod ''GET'' mux) (treePath path) [] else None) of
             Some r \<Rightarrow> Some r
           | None \<Rightarrow> matchPath (ofMethod [] mux) (treePath path) []))"

fun wildNames :: "pseg list \<Rightarrow> string list" where
  "wildNames [] = []"
| "wildNames (Wild n # ps) = n # wildNames ps"
| "wildNames (Multi n # ps) = (if n = [] then wildNames ps else n # wildNames ps)"
| "wildNames (Lit _ # ps) = wildNames ps"

datatype 'h route = Found 'h "(string, string) gomap" | Redirect "string list" | MethodNotAllowed | NoRoute

text \<open>\<open>cleanPath\<close> on the segments.\<close>

fun cleanLoop :: "string list \<Rightarrow> string list \<Rightarrow> string list" where
  "cleanLoop acc [] = acc"
| "cleanLoop acc (s # segs) =
     (if s = [] \<or> s = ''.'' then cleanLoop acc segs
      else if s = ''..'' then cleanLoop (butlast acc) segs
      else cleanLoop (acc @ [s]) segs)"

definition cleanPath :: "string list \<Rightarrow> string list" where
  "cleanPath segs = (let np = cleanLoop [] segs in if np = [] \<or> last segs = [] then np @ [[]] else np)"

definition exactMatch :: "((pattern \<times> 'h) \<times> string list) option \<Rightarrow> string list \<Rightarrow> bool" where
  "exactMatch n path = (case n of None \<Rightarrow> False | Some ((p, _), _) \<Rightarrow>
     \<not> isMulti (pSegs p) \<or> (last path = [] \<and> length (pSegs p) = length path))"

definition findHandler :: "'h mux \<Rightarrow> string \<Rightarrow> string list \<Rightarrow> 'h route" where
  "findHandler mux method escapedPath =
     (let path = cleanPath escapedPath;
          n = matchMethodAndPath mux method path;
          path' = path @ [[]] in
      if \<not> exactMatch n path \<and> last path \<noteq> [] \<and> exactMatch (matchMethodAndPath mux method path') path'
      then Redirect path'
      else if path \<noteq> escapedPath then Redirect path
      else case n of
        Some ((p, h), matches) \<Rightarrow> Found h (zip (wildNames (pSegs p)) matches)
      | None \<Rightarrow>
          if list_ex (\<lambda>(p, _). matchPath (ofMethod (pMethod p) mux) (treePath path) [] \<noteq> None \<or>
                  (last path \<noteq> [] \<and> matchPath (ofMethod (pMethod p) mux) (treePath path') [] \<noteq> None)) mux
          then MethodNotAllowed else NoRoute)"

end
