(* ===== verification/Discovery.thy ===== *)
theory Discovery
  imports TypeInfo "HOL-Library.Multiset"
begin

text \<open>
  The discovery documents of \<open>src/api/minkapi/typeinfo/typeinfo.go\<close> that the API server serves beside
  the group list: the versions of the core group and the resources of every group. The tables are
  written by hand in the source; the theorem at the end says that they agree with the list of
  supported descriptors the stores and routes are built from.
\<close>

record api_resource_list =
  rlKind :: string
  rlAPIVersion :: string
  rlGroupVersion :: string
  rlResources :: "api_resource list"

record api_versions =
  avKind :: string
  avVersions :: "string list"
  avServerAddressByClientCIDRs :: "(string \<times> string) list"

definition SupportedAPIVersions :: api_versions where
  "SupportedAPIVersions = \<lparr>avKind = ''APIVersions'', avVersions = [''v1''],
     avServerAddressByClientCIDRs = [(''0.0.0.0/0'', ''127.0.0.1:8091/base'')]\<rparr>"

definition SupportedCoreAPIResourceList :: api_resource_list where
  "SupportedCoreAPIResourceList = \<lparr>rlKind = ''APIResourceList'', rlAPIVersion = [], rlGroupVersion = ''v1'',
     rlResources = [APIResource ServiceAccountsDescriptor, APIResource ConfigMapsDescriptor,
       APIResource NamespacesDescriptor, APIResource NodesDescriptor, APIResource PodsDescriptor,
       APIResource ServicesDescriptor, APIResource PersistentVolumesDescriptor,
       APIResource PersistentVolumeClaimsDescriptor, APIResource ReplicationControllersDescriptor]\<rparr>"

definition SupportedGroupAPIResourceLists :: "api_resource_list list" where
  "SupportedGroupAPIResourceLists =
     [\<lparr>rlKind = ''APIResourceList'', rlAPIVersion = ''v1'', rlGroupVersion = ''apps/v1'',
       rlResources = [APIResource DeploymentDescriptor, APIResource ReplicaSetDescriptor,
         APIResource StatefulSetDescriptor]\<rparr>,
      \<lparr>rlKind = ''APIResourceList'', rlAPIVersion = ''v1'', rlGroupVersion = ''coordination.k8s.io/v1'',
       rlResources = [APIResource LeaseDescriptor]\<rparr>,
      \<lparr>rlKind = ''APIResourceList'', rlAPIVersion = ''v1'', rlGroupVersion = ''events.k8s.io/v1'',
       rlResources = [APIResource EventsDescriptor]\<rparr>,
      \<lparr>rlKind = ''APIResourceList'', rlAPIVersion = ''v1'', rlGroupVersion = ''rbac.authorization.k8s.io/v1'',
       rlResources = [APIResource RolesDescriptor]\<rparr>,
      \<lparr>rlKind = ''APIResourceList'', rlAPIVersion = ''v1'', rlGroupVersion = ''scheduling.k8s.io/v1'',
       rlResources = [APIResource PriorityClassesDescriptor]\<rparr>,
      \<lparr>rlKind = ''APIResourceList'', rlAPIVersion = ''v1'', rlGroupVersion = ''policy/v1'',
       rlResources = [APIResource PodDisruptionBudgetDescriptor]\<rparr>,
      \<lparr>rlKind = ''APIResourceList'', rlAPIVersion = ''v1'', rlGroupVersion = ''storage.k8s.io/v1'',
       rlResources = [APIResource StorageClassDescriptor, APIResource CSIDriverDescriptor,
         APIResource CSIStorageCapacityDescriptor, APIResource CSINodeDescriptor,
         APIResource VolumeAttachmentDescriptor, APIResource VolumeAttributesClassDescriptor]\<rparr>,
      \<lparr>rlKind = ''APIResourceList'', rlAPIVersion = ''v1'', rlGroupVersion = ''node.k8s.io/v1'',
       rlResources = [APIResource RuntimeClassDescriptor]\<rparr>,
      \<lparr>rlKind = ''APIResourceList'', rlAPIVersion = ''v1'', rlGroupVersion = ''resource.k8s.io/v1'',
       rlResources = [APIResource ResourceSliceDescriptor, APIResource ResourceClaimDescriptor,
         APIResource DeviceClassDescriptor]\<rparr>]"

definition SupportedAPIGroups :: "api_group list" where
  "SupportedAPIGroups = buildAPIGroupList SupportedDescriptors"

text \<open>
  C31. The discovery documents written by hand agree with the descriptors: the core list has exactly
  the resources without a group, the list of a group has the resources of the descriptors of its
  group version in their order, and the groups announced are those that have a list.
\<close>

theorem discovery_agrees:
  "mset (rlResources SupportedCoreAPIResourceList) =
     mset (map APIResource (filter (\<lambda>d. gvkGroup (GVK d) = []) SupportedDescriptors)) \<and>
   map rlResources SupportedGroupAPIResourceLists =
     map (\<lambda>l. map APIResource (filter (\<lambda>d. groupVersionString (GVK d) = rlGroupVersion l) SupportedDescriptors))
       SupportedGroupAPIResourceLists \<and>
   distinct (map rlGroupVersion SupportedGroupAPIResourceLists) \<and>
   set (map (\<lambda>g. fst (agPreferredVersion g)) SupportedAPIGroups) = set (map rlGroupVersion SupportedGroupAPIResourceLists) \<and>
   distinct (map agName SupportedAPIGroups)"
proof (intro conjI)
  show "mset (rlResources SupportedCoreAPIResourceList) =
     mset (map APIResource (filter (\<lambda>d. gvkGroup (GVK d) = []) SupportedDescriptors))"
    by (simp add: SupportedCoreAPIResourceList_def SupportedDescriptors_def descriptor_defs)
qed code_simp+

end
