(* ===== verification/Handlers.thy ===== *)
theory Handlers
  imports Watching ServeMux Discovery
begin

text \<open>
  The request handlers of the API server, \<open>src/minkapi/server/server.go\<close>: one definition per handler
  over the response being written and the world of the views. JSON, the label selector syntax and
  the runtime scheme are libraries and fields of \<open>server_env\<close>. Logging is left out.
\<close>

declare map_of_eq_Some_iff [simp del] Some_eq_map_of_iff [simp del]

subsection \<open>Requests and responses\<close>

record request =
  rqMethod :: string
  rqPathValues :: "(string, string) gomap"
  rqQuery :: "(string, string) gomap"
  rqContentType :: string
  rqBody :: "json outcome"                 \<comment> \<open>what \<open>io.ReadAll(r.Body)\<close> gives\<close>
  rqCtxs :: ctxs
  rqMoves :: "watch_move list"             \<comment> \<open>how the goroutines of a watch are scheduled\<close>

definition PathValue :: "request \<Rightarrow> string \<Rightarrow> string" where
  "PathValue r name = (case map_of (rqPathValues r) name of Some v \<Rightarrow> v | None \<Rightarrow> [])"

definition QueryGet :: "request \<Rightarrow> string \<Rightarrow> string" where
  "QueryGet r name = (case map_of (rqQuery r) name of Some v \<Rightarrow> v | None \<Rightarrow> [])"

text \<open>
  An \<open>http.ResponseWriter\<close>: the header map of the handler, the status and the copy of the header
  that \<open>WriteHeader\<close> sends, and the body. Headers that are set after that are not sent.
\<close>

record response =
  rsHeader :: "(string, string) gomap"
  rsSent :: "(nat \<times> (string, string) gomap) option"
  rsBody :: string
  rsFlusher :: bool

definition newResponse :: response where
  "newResponse = \<lparr>rsHeader = [], rsSent = None, rsBody = [], rsFlusher = True\<rparr>"

definition setHeader :: "string \<Rightarrow> string \<Rightarrow> response \<Rightarrow> response" where
  "setHeader k v rw = rw\<lparr>rsHeader := AList.update k v (rsHeader rw)\<rparr>"

definition WriteHeader :: "nat \<Rightarrow> response \<Rightarrow> response" where
  "WriteHeader code rw = (case rsSent rw of Some _ \<Rightarrow> rw | None \<Rightarrow> rw\<lparr>rsSent := Some (code, rsHeader rw)\<rparr>)"

definition Write :: "string \<Rightarrow> response \<Rightarrow> response" where
  "Write s rw = (let rw = WriteHeader 200 rw in rw\<lparr>rsBody := rsBody rw @ s\<rparr>)"

definition newline :: string where
  "newline = [CHR 0x0A]"

text \<open>\<open>http.Error\<close>\<close>

definition httpError :: "string \<Rightarrow> nat \<Rightarrow> response \<Rightarrow> response" where
  "httpError msg code rw =
     Write (msg @ newline) (WriteHeader code
       (setHeader ''X-Content-Type-Options'' ''nosniff'' (setHeader ''Content-Type'' ''text/plain; charset=utf-8'' rw)))"

record status_details =
  sdName :: string
  sdKind :: string
  sdUID :: string

record status =
  stKind :: string
  stAPIVersion :: string
  stStatus :: string
  stCode :: nat
  stMessage :: string
  stDetails :: "status_details option"

definition emptyStatus :: status where
  "emptyStatus = \<lparr>stKind = [], stAPIVersion = [], stStatus = [], stCode = 0, stMessage = [], stDetails = None\<rparr>"

text \<open>The code of an API error, and its \<open>ErrStatus\<close>; the message is reduced to nothing.\<close>

fun reasonCode :: "reason \<Rightarrow> nat" where
  "reasonCode NotFoundReason = 404"
| "reasonCode BadRequestReason = 400"
| "reasonCode InternalReason = 500"
| "reasonCode InvalidReason = 422"

definition ErrStatus :: "reason \<Rightarrow> status" where
  "ErrStatus rs = emptyStatus\<lparr>stStatus := ''Failure'', stCode := reasonCode rs\<rparr>"

datatype reply =
    ObjReply kobj
  | ListReply list_obj
  | StatusReply status
  | VersionsReply api_versions
  | GroupsReply "api_group list"
  | ResourcesReply api_resource_list

record server_env =
  seNewObject :: "gvk \<Rightarrow> kobj outcome"                 \<comment> \<open>\<open>SupportedScheme.New\<close>\<close>
  seScheme :: scheme
  sePatcher :: patcher
  seEncode :: "reply \<Rightarrow> string outcome"
  seEncodeEvent :: "watch_event \<Rightarrow> string outcome"
  seDecodeBinding :: "json \<Rightarrow> binding outcome"
  seParseSelector :: "string \<Rightarrow> selector outcome"

type_synonym hstate = "response \<times> world"

subsection \<open>Writing replies\<close>

definition writeJsonResponse :: "server_env \<Rightarrow> reply \<Rightarrow> hstate \<Rightarrow> (unit, hstate) eff" where
  "writeJsonResponse env doc s =
     (let rw = setHeader ''Content-Type'' ''application/json'' (fst s) in
      case seEncode env doc of
        Ok data \<Rightarrow> (Ok (), (Write data rw, snd s))
      | Err _ \<Rightarrow> (Ok (), (httpError ''Failed to encode response'' 500 rw, snd s))
      | Panic p \<Rightarrow> (Panic p, (rw, snd s)))"

text \<open>The three writers of errors: the header is sent before its content type is set.\<close>

definition sendStatus :: "server_env \<Rightarrow> nat \<Rightarrow> reason \<Rightarrow> hstate \<Rightarrow> (unit, hstate) eff" where
  "sendStatus env code rs s =
     writeJsonResponse env (StatusReply (ErrStatus rs))
       (setHeader ''Content-Type'' ''application/json'' (WriteHeader code (fst s)), snd s)"

definition handleStatusError :: "server_env \<Rightarrow> reason \<Rightarrow> hstate \<Rightarrow> (unit, hstate) eff" where
  "handleStatusError env rs s = sendStatus env (stCode (ErrStatus rs)) rs s"

definition handleInternalServerError :: "server_env \<Rightarrow> goerr \<Rightarrow> hstate \<Rightarrow> (unit, hstate) eff" where
  "handleInternalServerError env e s = sendStatus env 500 InternalReason s"

definition handleBadRequest :: "server_env \<Rightarrow> goerr \<Rightarrow> hstate \<Rightarrow> (unit, hstate) eff" where
  "handleBadRequest env e s = sendStatus env 400 BadRequestReason s"

definition handleError :: "server_env \<Rightarrow> goerr \<Rightarrow> hstate \<Rightarrow> (unit, hstate) eff" where
  "handleError env e s = (case asStatus e of
       Some rs \<Rightarrow> handleStatusError env rs s
     | None \<Rightarrow> handleInternalServerError env e s)"

definition writeStatusError :: "server_env \<Rightarrow> reason \<Rightarrow> hstate \<Rightarrow> (unit, hstate) eff" where
  "writeStatusError env rs s =
     writeJsonResponse env (StatusReply (ErrStatus rs)) (WriteHeader (stCode (ErrStatus rs)) (fst s), snd s)"

text \<open>
  A call whose error is answered by \<open>onErr\<close> ends the handler there; a panic ends the handler with
  the response as it is.
\<close>

definition orReply :: "('a, world) eff \<Rightarrow> response \<Rightarrow> (goerr \<Rightarrow> hstate \<Rightarrow> (unit, hstate) eff)
    \<Rightarrow> ('a \<Rightarrow> hstate \<Rightarrow> (unit, hstate) eff) \<Rightarrow> (unit, hstate) eff" where
  "orReply r rw onErr k = (case r of
       (Ok x, w) \<Rightarrow> k x (rw, w)
     | (Err e, w) \<Rightarrow> onErr e (rw, w)
     | (Panic p, w) \<Rightarrow> (Panic p, (rw, w)))"

subsection \<open>Reading requests\<close>

definition GetObjectName :: "request \<Rightarrow> descriptor \<Rightarrow> object_name" where
  "GetObjectName r d =
     (let namespace = PathValue r ''namespace'';
          namespace = (if namespace = [] \<and> arNamespaced (APIResource d) then ''default'' else namespace)
      in \<lparr>onNamespace = namespace, onName = PathValue r ''name''\<rparr>)"

text \<open>
  \<open>readBodyIntoObj\<close> for an object in memory: the body is decoded into it, and what a failed decoding
  has written stays.
\<close>

definition readBodyIntoObj :: "server_env \<Rightarrow> request \<Rightarrow> addr \<Rightarrow> (hstate \<Rightarrow> (unit, hstate) eff) \<Rightarrow> hstate \<Rightarrow> (unit, hstate) eff" where
  "readBodyIntoObj env r a k s = (case rqBody r of
       Err e \<Rightarrow> handleBadRequest env e s
     | Panic p \<Rightarrow> (Panic p, s)
     | Ok data \<Rightarrow>
         (let (err, o') = unmarshalInto (sePatcher env) data (obj (snd s) a);
              s = (fst s, onWMem (wr a o') (snd s)) in
          case err of
            Some e \<Rightarrow> handleBadRequest env (Wrapped ''cannot unmarshal JSON'' [e]) s
          | None \<Rightarrow> k s))"

definition readBodyIntoBinding :: "server_env \<Rightarrow> request \<Rightarrow> (binding \<Rightarrow> hstate \<Rightarrow> (unit, hstate) eff) \<Rightarrow> hstate \<Rightarrow> (unit, hstate) eff" where
  "readBodyIntoBinding env r k s = (case rqBody r of
       Err e \<Rightarrow> handleBadRequest env e s
     | Panic p \<Rightarrow> (Panic p, s)
     | Ok data \<Rightarrow> (case seDecodeBinding env data of
           Err e \<Rightarrow> handleBadRequest env (Wrapped ''cannot unmarshal JSON'' [e]) s
         | Panic p \<Rightarrow> (Panic p, s)
         | Ok b \<Rightarrow> k b s))"

definition parseLabelSelector :: "server_env \<Rightarrow> request \<Rightarrow> selector outcome" where
  "parseLabelSelector env r =
     (let raw = QueryGet r ''labelSelector'' in
      if raw = [] then Ok (\<lambda>_. True) else seParseSelector env raw)"

definition getParseResourceVersion :: "request \<Rightarrow> 64 word outcome" where
  "getParseResourceVersion r =
     (let paramValue = QueryGet r ''resourceVersion'' in
      if paramValue = [] then Ok 0 else ParseResourceVersion paramValue)"

subsection \<open>Discovery handlers\<close>

definition discovery :: "server_env \<Rightarrow> request \<Rightarrow> reply \<Rightarrow> hstate \<Rightarrow> (unit, hstate) eff" where
  "discovery env r doc s =
     (if rqMethod r \<noteq> ''GET'' then (Ok (), (httpError ''Method not allowed'' 405 (fst s), snd s))
      else writeJsonResponse env doc s)"

definition handleAPIGroups :: "server_env \<Rightarrow> request \<Rightarrow> hstate \<Rightarrow> (unit, hstate) eff" where
  "handleAPIGroups env r s = discovery env r (GroupsReply SupportedAPIGroups) s"

definition handleAPIVersions :: "server_env \<Rightarrow> request \<Rightarrow> hstate \<Rightarrow> (unit, hstate) eff" where
  "handleAPIVersions env r s = discovery env r (VersionsReply SupportedAPIVersions) s"

definition handleAPIResources :: "server_env \<Rightarrow> api_resource_list \<Rightarrow> request \<Rightarrow> hstate \<Rightarrow> (unit, hstate) eff" where
  "handleAPIResources env l r s = discovery env r (ResourcesReply l) s"

subsection \<open>Object handlers\<close>

definition handleGet :: "server_env \<Rightarrow> descriptor \<Rightarrow> view \<Rightarrow> request \<Rightarrow> hstate \<Rightarrow> (unit, hstate) eff" where
  "handleGet env d v r s =
     (let name = GetObjectName r d in
      orReply (GetObject v (GVK d) name (snd s), snd s) (fst s) (handleError env) (\<lambda>a s.
        writeJsonResponse env (ObjReply (obj (snd s) a)) s))"

definition handleCreate :: "server_env \<Rightarrow> descriptor \<Rightarrow> view \<Rightarrow> request \<Rightarrow> hstate \<Rightarrow> (unit, hstate) eff" where
  "handleCreate env d v r s =
     orReply (seNewObject env (GVK d), snd s) (fst s)
       (\<lambda>e. handleInternalServerError env (Plain ''cannot create object'')) (\<lambda>o' s.
       let (mo, m) = alloc o' (wMem (snd s)); s = (fst s, (snd s)\<lparr>wMem := m\<rparr>) in
       readBodyIntoObj env r mo (\<lambda>s.
         let w = (if mNamespace (ometa (obj (snd s) mo)) = []
                  then onWMem (updMeta mo (\<lambda>mt. mt\<lparr>mNamespace := onNamespace (GetObjectName r d)\<rparr>)) (snd s)
                  else snd s) in
         orReply (CreateObject v (GVK d) mo noOpts w) (fst s) (handleError env) (\<lambda>a s.
           writeJsonResponse env (ObjReply (obj (snd s) a)) s)) s)"

text \<open>\<open>handlePut\<close> decodes the body into the object that \<open>GetObject\<close> handed out.\<close>

definition handlePut :: "server_env \<Rightarrow> descriptor \<Rightarrow> view \<Rightarrow> request \<Rightarrow> hstate \<Rightarrow> (unit, hstate) eff" where
  "handlePut env d v r s =
     (let name = GetObjectName r d in
      orReply (GetObject v (GVK d) name (snd s), snd s) (fst s) (handleError env) (\<lambda>a s.
        readBodyIntoObj env r a (\<lambda>s.
          orReply (UpdateObject v (GVK d) a noOpts (snd s)) (fst s) (handleError env) (\<lambda>_ s.
            writeJsonResponse env (ObjReply (obj (snd s) a)) s)) s))"

definition handleDelete :: "server_env \<Rightarrow> descriptor \<Rightarrow> view \<Rightarrow> request \<Rightarrow> hstate \<Rightarrow> (unit, hstate) eff" where
  "handleDelete env d v r s =
     (let objName = GetObjectName r d in
      orReply (GetObject v (GVK d) objName (snd s), snd s) (fst s) (handleError env) (\<lambda>a s.
        let uid = mUID (ometa (obj (snd s) a)) in
        orReply (DeleteObject v (GVK d) objName (snd s)) (fst s) (handleError env) (\<lambda>_ s.
          writeJsonResponse env (StatusReply (emptyStatus\<lparr>stKind := ''Status'', stAPIVersion := ''v1'',
            stStatus := ''Success'',
            stDetails := Some \<lparr>sdName = objectNameString objName, sdKind = snd (snd (GVR d)), sdUID = uid\<rparr>\<rparr>)) s)))"

text \<open>\<open>handleList\<close> returns without an answer when listing fails.\<close>

definition handleList :: "server_env \<Rightarrow> descriptor \<Rightarrow> view \<Rightarrow> selector \<Rightarrow> request \<Rightarrow> hstate \<Rightarrow> (unit, hstate) eff" where
  "handleList env d v sel r s =
     (let c = MatchAllCriteria\<lparr>mcNamespace := PathValue r ''namespace'', mcLabelSelector := Some sel\<rparr> in
      orReply (ListObjects (seScheme env) (rqCtxs r) v (GVK d) c (snd s), snd s) (fst s) (\<lambda>_ s. (Ok (), s)) (\<lambda>l s.
        writeJsonResponse env (ListReply l) s))"

definition handlePatch :: "server_env \<Rightarrow> descriptor \<Rightarrow> view \<Rightarrow> request \<Rightarrow> hstate \<Rightarrow> (unit, hstate) eff" where
  "handlePatch env d v r s =
     (let name = GetObjectName r d; contentType = rqContentType r in
      if contentType \<noteq> ''application/strategic-merge-patch+json'' \<and> contentType \<noteq> ''application/merge-patch+json''
      then handleBadRequest env (Plain ''unsupported content type'') s
      else case rqBody r of
        Err e \<Rightarrow> writeStatusError env InternalReason s
      | Panic p \<Rightarrow> (Panic p, s)
      | Ok patchData \<Rightarrow>
          orReply (patchObject (sePatcher env) v (GVK d) name
              (if contentType = ''application/merge-patch+json'' then MergePatchType else StrategicMergePatchType)
              patchData (snd s)) (fst s) (handleError env) (\<lambda>a s.
            writeJsonResponse env (ObjReply (obj (snd s) a)) s))"

definition handlePatchStatus :: "server_env \<Rightarrow> descriptor \<Rightarrow> view \<Rightarrow> request \<Rightarrow> hstate \<Rightarrow> (unit, hstate) eff" where
  "handlePatchStatus env d v r s =
     (let objName = GetObjectName r d in
      if rqContentType r \<noteq> ''application/strategic-merge-patch+json''
      then handleBadRequest env (Plain ''unsupported content type'') s
      else case rqBody r of
        Err e \<Rightarrow> handleInternalServerError env (Plain ''failed to read patch body'') s
      | Panic p \<Rightarrow> (Panic p, s)
      | Ok patchData \<Rightarrow>
          orReply (patchObjectStatus (sePatcher env) v (GVK d) objName patchData (snd s)) (fst s) (handleError env) (\<lambda>a s.
            writeJsonResponse env (ObjReply (obj (snd s) a)) s))"

definition handleCreatePodBinding :: "server_env \<Rightarrow> view \<Rightarrow> request \<Rightarrow> hstate \<Rightarrow> (unit, hstate) eff" where
  "handleCreatePodBinding env v r s =
     readBodyIntoBinding env r (\<lambda>b s.
       let podName = GetObjectName r PodsDescriptor in
       orReply (UpdatePodNodeBinding v podName b (snd s)) (fst s) (handleError env) (\<lambda>_ s.
         writeJsonResponse env (StatusReply (emptyStatus\<lparr>stKind := ''Status'', stStatus := ''Success'', stCode := 201\<rparr>)) s)) s"

subsection \<open>Watching\<close>

definition Flush :: "response \<Rightarrow> response" where
  "Flush rw = WriteHeader 200 rw"

definition getFlusher :: "response \<Rightarrow> bool \<times> response" where
  "getFlusher rw =
     (let rw = (if (case map_of (rsHeader rw) ''Content-Type'' of Some ct \<Rightarrow> ct | None \<Rightarrow> []) = []
                then setHeader ''Transfer-Encoding'' ''chunked'' (setHeader ''Content-Type'' ''application/json'' rw) else rw) in
      if rsFlusher rw then (True, rw) else (False, httpError ''Streaming not supported'' 500 rw))"

text \<open>The callback of a watch writes the encoded event as a line and flushes.\<close>

definition watchCallback :: "server_env \<Rightarrow> response world_callback" where
  "watchCallback env w ev rw = (case seEncodeEvent env ev of
       Ok eventJson \<Rightarrow> (None, Flush (Write (eventJson @ newline) rw))
     | Err e \<Rightarrow> (Some (Wrapped ''cannot encode watch event'' [e]), rw)
     | Panic p \<Rightarrow> (Some (Plain p), rw))"

text \<open>The response is what has been written after the moves of the schedule.\<close>

definition handleWatch :: "server_env \<Rightarrow> descriptor \<Rightarrow> view \<Rightarrow> selector \<Rightarrow> request \<Rightarrow> hstate \<Rightarrow> (unit, hstate) eff" where
  "handleWatch env d v sel r s = (case getParseResourceVersion r of
       Err e \<Rightarrow> handleBadRequest env e s
     | Panic p \<Rightarrow> (Panic p, s)
     | Ok startVersion \<Rightarrow>
         (case getFlusher (fst s) of
            (False, rw) \<Rightarrow> (Ok (), (rw, snd s))
          | (True, rw) \<Rightarrow>
              (case View_WatchObjects startVersion (PathValue r ''namespace'') sel v (GVK d) (watchCallback env) (snd s)
                      (rqMoves r) (Flush rw) of
                 (Some (Panic p), rw) \<Rightarrow> (Panic p, (rw, snd s))
               | (_, rw) \<Rightarrow> (Ok (), (rw, snd s)))))"

definition handleListOrWatch :: "server_env \<Rightarrow> descriptor \<Rightarrow> view \<Rightarrow> request \<Rightarrow> hstate \<Rightarrow> (unit, hstate) eff" where
  "handleListOrWatch env d v r s =
     (let isWatch = QueryGet r ''watch'' in
      orReply (parseLabelSelector env r, snd s) (fst s) (handleBadRequest env) (\<lambda>sel s.
        if isWatch = ''true'' \<or> isWatch = ''1'' then handleWatch env d v sel r s
        else handleList env d v sel r s))"

end
