(* ===== verification/Server.thy ===== *)
theory Server
  imports Handlers
begin

text \<open>
  The API server, \<open>src/minkapi/server/server.go\<close>, with the file templates of
  \<open>src/minkapi/server/configtmpl/configtmpl.go\<close>: construction, registration of the routes of a view,
  starting and stopping, sandbox views on request, and serving a request through the multiplexers.
  Rendering a template, writing a file, listening and the HTTP server are the environment.
\<close>

subsection \<open>Configuration\<close>

record config =
  cfgBasePrefix :: string
  cfgKubeConfigPath :: string
  cfgBindAddress :: string
  cfgGracefulShutdownTimeout :: int
  cfgProfilingEnabled :: bool
  cfgQueueSize :: int
  cfgTimeout :: int

definition ProgramName :: string where "ProgramName = ''minkapi''"
definition DefaultBasePrefix :: string where "DefaultBasePrefix = ''base''"

definition setMinKAPIConfigDefaults :: "config \<Rightarrow> config" where
  "setMinKAPIConfigDefaults cfg =
     (let cfg = (if cfgQueueSize cfg \<le> 0 then cfg\<lparr>cfgQueueSize := 100\<rparr> else cfg);
          cfg = (if cfgTimeout cfg \<le> 0 then cfg\<lparr>cfgTimeout := 5 * 60 * 10 ^ 9\<rparr> else cfg);
          cfg = (if TrimSpace (cfgBasePrefix cfg) = [] then cfg\<lparr>cfgBasePrefix := DefaultBasePrefix\<rparr> else cfg);
          cfg = (if TrimSpace (cfgKubeConfigPath cfg) = [] then cfg\<lparr>cfgKubeConfigPath := ''/tmp/minkapi.yaml''\<rparr> else cfg);
          cfg = (if TrimSpace (cfgBindAddress cfg) = [] then cfg\<lparr>cfgBindAddress := '':8091''\<rparr> else cfg)
      in cfg)"

subsection \<open>Generated files\<close>

record kube_config_params =
  kcpName :: string
  kcpKubeConfigPath :: string
  kcpURL :: string

record kube_scheduler_params =
  kspKubeConfigPath :: string
  kspKubeSchedulerConfigPath :: string
  kspQPS :: nat
  kspBurst :: nat

type_synonym files = "(string \<times> string) list"

record server_host =
  shEnv :: server_env
  shLoadTemplate :: "string \<Rightarrow> goerr option"
  shRenderKubeConfig :: "kube_config_params \<Rightarrow> string outcome"
  shRenderSchedulerConfig :: "kube_scheduler_params \<Rightarrow> string outcome"
  shWriteFile :: "string \<Rightarrow> string \<Rightarrow> goerr option"
  shParseURL :: "string \<Rightarrow> goerr option"
  shListen :: "string \<Rightarrow> string outcome"            \<comment> \<open>the address of the listener\<close>
  shServe :: "goerr option"                         \<comment> \<open>how \<open>Serve\<close> returns, \<open>None\<close> once the server is closed\<close>
  shShutdown :: "goerr option"

definition renderToFile :: "server_host \<Rightarrow> string \<Rightarrow> string outcome \<Rightarrow> string \<Rightarrow> files \<Rightarrow> (unit, files) eff" where
  "renderToFile h tmpl rendered path fs = (case shLoadTemplate h tmpl of
       Some e \<Rightarrow> (Err e, fs)
     | None \<Rightarrow> (case rendered of
           Err e \<Rightarrow> (Err (Wrapped ''cannot render'' [Sentinel ''ErrExecuteTemplate'', e]), fs)
         | Panic p \<Rightarrow> (Panic p, fs)
         | Ok data \<Rightarrow> (case shWriteFile h path data of
               Some e \<Rightarrow> (Err (Wrapped ''cannot write'' [Sentinel ''ErrExecuteTemplate'', e]), fs)
             | None \<Rightarrow> (Ok (), fs @ [(path, data)]))))"

definition GenKubeConfig :: "server_host \<Rightarrow> kube_config_params \<Rightarrow> files \<Rightarrow> (unit, files) eff" where
  "GenKubeConfig h p fs =
     renderToFile h ''templates/kubeconfig.yaml'' (shRenderKubeConfig h p) (kcpKubeConfigPath p) fs"

definition GenKubeSchedulerConfig :: "server_host \<Rightarrow> kube_scheduler_params \<Rightarrow> files \<Rightarrow> (unit, files) eff" where
  "GenKubeSchedulerConfig h p fs =
     renderToFile h ''templates/kube-scheduler-config.yaml'' (shRenderSchedulerConfig h p)
       (kspKubeSchedulerConfigPath p) fs"

subsection \<open>Routes of a view\<close>

datatype view_handler =
    HPprof string | HTriggerGC
  | HAPIVersions | HAPIGroups | HAPIResources api_resource_list
  | HGet descriptor view | HCreate descriptor view | HPut descriptor view | HDelete descriptor view
  | HListOrWatch descriptor view | HPatch descriptor view | HPatchStatus descriptor view
  | HCreatePodBinding view

type_synonym routes = "(string \<times> view_handler) list"

definition profilingRoutes :: routes where
  "profilingRoutes =
     [(''/debug/pprof/'', HPprof ''Index''), (''/debug/pprof/cmdline'', HPprof ''Cmdline''),
      (''/debug/pprof/profile'', HPprof ''Profile''), (''/debug/pprof/symbol'', HPprof ''Symbol''),
      (''/debug/pprof/trace'', HPprof ''Trace''), (''/trigger-gc'', HTriggerGC)]"

definition registerAPIGroups :: routes where
  "registerAPIGroups =
     (''GET /api/v1/'', HAPIResources SupportedCoreAPIResourceList) #
     map (\<lambda>apiList. (''GET /apis/'' @ arGroup (hd (rlResources apiList)) @ ''/'', HAPIResources apiList))
       SupportedGroupAPIResourceLists"

definition registerResourceRoutes :: "descriptor \<Rightarrow> view \<Rightarrow> routes" where
  "registerResourceRoutes d v =
     (let g = gvkGroup (GVK d); r = snd (snd (GVR d)) in
      if g = [] then
        [(''POST /api/v1/namespaces/{namespace}/'' @ r, HCreate d v),
         (''GET /api/v1/namespaces/{namespace}/'' @ r, HListOrWatch d v),
         (''GET /api/v1/namespaces/{namespace}/'' @ r @ ''/{name}'', HGet d v),
         (''PATCH /api/v1/namespaces/{namespace}/'' @ r @ ''/{name}'', HPatch d v),
         (''PATCH /api/v1/namespaces/{namespace}/'' @ r @ ''/{name}/status'', HPatchStatus d v),
         (''DELETE /api/v1/namespaces/{namespace}/'' @ r @ ''/{name}'', HDelete d v),
         (''PUT /api/v1/namespaces/{namespace}/'' @ r @ ''/{name}'', HPut d v),
         (''PUT /api/v1/namespaces/{namespace}/'' @ r @ ''/{name}/status'', HPut d v)] @
        (if GetKind d = GetKind PodsDescriptor
         then [(''POST /api/v1/namespaces/{namespace}/pods/{name}/binding'', HCreatePodBinding v)] else []) @
        [(''POST /api/v1/'' @ r, HCreate d v),
         (''GET /api/v1/'' @ r, HListOrWatch d v),
         (''GET /api/v1/'' @ r @ ''/{name}'', HGet d v),
         (''PATCH /api/v1/'' @ r @ ''/{name}'', HPatch d v),
         (''DELETE /api/v1/'' @ r @ ''/{name}'', HDelete d v),
         (''PUT /api/v1/'' @ r @ ''/{name}'', HPut d v),
         (''PUT /api/v1/'' @ r @ ''/{name}/status'', HPut d v)]
      else
        [(''POST /apis/'' @ g @ ''/v1/namespaces/{namespace}/'' @ r, HCreate d v),
         (''GET /apis/'' @ g @ ''/v1/namespaces/{namespace}/'' @ r, HListOrWatch d v),
         (''GET /apis/'' @ g @ ''/v1/namespaces/{namespace}/'' @ r @ ''/{name}'', HGet d v),
         (''PATCH /apis/'' @ g @ ''/v1/namespaces/{namespace}/'' @ r @ ''/{name}'', HPatch d v),
         (''DELETE /apis/'' @ g @ ''/v1/namespaces/{namespace}/'' @ r @ ''/{name}'', HDelete d v),
         (''PUT /apis/'' @ g @ ''/v1/namespaces/{namespace}/'' @ r @ ''/{name}'', HPut d v),
         (''POST /apis/'' @ g @ ''/v1/'' @ r, HCreate d v),
         (''GET /apis/'' @ g @ ''/v1/'' @ r, HListOrWatch d v),
         (''GET /apis/'' @ g @ ''/v1/'' @ r @ ''/{name}'', HGet d v),
         (''DELETE /apis/'' @ g @ ''/v1/'' @ r @ ''/{name}'', HDelete d v)])"

definition viewRoutes :: "bool \<Rightarrow> view \<Rightarrow> routes" where
  "viewRoutes profiling v =
     (if profiling then profilingRoutes else []) @
     [(''GET /api'', HAPIVersions), (''GET /apis'', HAPIGroups)] @
     registerAPIGroups @ concat (map (\<lambda>d. registerResourceRoutes d v) SupportedDescriptors)"

fun handleAll :: "(string \<times> 'h) list \<Rightarrow> 'h mux \<Rightarrow> 'h mux outcome" where
  "handleAll [] mux = Ok mux"
| "handleAll ((pat, h) # rs) mux = bindO (Handle pat h mux) (handleAll rs)"

subsection \<open>The server\<close>

datatype root_handler =
    RAPIResources api_resource_list
  | RCreateSandboxView
  | RView string "view_handler mux"     \<comment> \<open>\<open>http.StripPrefix\<close> around the multiplexer of a view\<close>

record server =
  svCfg :: config
  svAccess :: view_access
  svRootMux :: "root_handler mux"
  svKapiURL :: string
  svAddr :: string
  svListenerAddr :: string
  svFiles :: files
  svRunning :: bool

type_synonym sys = "server \<times> world"

text \<open>
  \<open>registerRoutes\<close>: the routes of the view on a multiplexer of its own, that multiplexer under the
  name of the view. A conflict panics; what was registered before stays registered.
\<close>

definition registerRoutes :: "view \<Rightarrow> sys \<Rightarrow> (unit, sys) eff" where
  "registerRoutes v s =
     (let (k, w) = s in
      case bindO (handleAll (viewRoutes (cfgProfilingEnabled (svCfg k)) v) []) (\<lambda>viewMux.
             Handle (''/'' @ vName (vs w v) @ ''/'') (RView (vName (vs w v)) viewMux) (svRootMux k)) of
        Ok mux \<Rightarrow> (Ok (), (k\<lparr>svRootMux := mux\<rparr>, w))
      | Err e \<Rightarrow> (Err e, s)
      | Panic p \<Rightarrow> (Panic p, s))"

definition NewUsingViews :: "config \<Rightarrow> view_access \<Rightarrow> world \<Rightarrow> (server, world) eff" where
  "NewUsingViews cfg va w =
     (let cfg = setMinKAPIConfigDefaults cfg in
      (bindO (handleAll [(''GET /api/v1/'', RAPIResources SupportedCoreAPIResourceList),
                         (''POST /views/{name}'', RCreateSandboxView)] []) (\<lambda>mux.
        Ok \<lparr>svCfg = cfg, svAccess = va, svRootMux = mux,
          svKapiURL = ''http://'' @ cfgBindAddress cfg @ ''/'' @ cfgBasePrefix cfg,
          svAddr = cfgBindAddress cfg, svListenerAddr = [], svFiles = [], svRunning = False\<rparr>), w))"

definition New :: "config \<Rightarrow> world \<Rightarrow> (server, world) eff" where
  "New cfg w =
     bindE (NewAccess DefaultBasePrefix (cfgKubeConfigPath cfg) w) (\<lambda>va w. NewUsingViews cfg va w)"

definition GetBaseView :: "server \<Rightarrow> view" where
  "GetBaseView k = vaBaseView (svAccess k)"

definition onFiles :: "(files \<Rightarrow> (unit, files) eff) \<Rightarrow> sys \<Rightarrow> (unit, sys) eff" where
  "onFiles f s = (let (r, fs) = f (svFiles (fst s)) in (r, ((fst s)\<lparr>svFiles := fs\<rparr>, snd s)))"

definition wrapWith :: "string \<Rightarrow> (unit, sys) eff \<Rightarrow> (unit, sys) eff" where
  "wrapWith sentinel r = (wrapErr (\<lambda>e. Wrapped ''minkapi'' [Sentinel sentinel, e]) (fst r), snd r)"

text \<open>\<open>Start\<close> until \<open>Serve\<close> accepts connections.\<close>

definition StartListening :: "server_host \<Rightarrow> sys \<Rightarrow> (unit, sys) eff" where
  "StartListening h s =
     bindE (registerRoutes (GetBaseView (fst s)) s) (\<lambda>_ s.
     bindE (wrapErr (\<lambda>e. Wrapped ''cannot listen'' [Sentinel ''ErrStartFailed'', e]) (shListen h (svAddr (fst s))), s) (\<lambda>addr s.
     let s = ((fst s)\<lparr>svListenerAddr := addr\<rparr>, snd s); cfg = svCfg (fst s) in
     bindE (wrapWith ''ErrStartFailed'' (onFiles (GenKubeConfig h
        \<lparr>kcpName = cfgBasePrefix cfg, kcpKubeConfigPath = cfgKubeConfigPath cfg, kcpURL = svKapiURL (fst s)\<rparr>) s)) (\<lambda>_ s.
     let s = (fst s, SetKubeConfigPath (GetBaseView (fst s)) (cfgKubeConfigPath cfg) (snd s)) in
     bindE (wrapWith ''ErrStartFailed'' (onFiles (GenKubeSchedulerConfig h
        \<lparr>kspKubeConfigPath = cfgKubeConfigPath cfg,
         kspKubeSchedulerConfigPath = ''/tmp/'' @ ProgramName @ ''-bin-packing-scheduler-config.yaml'',
         kspQPS = 100, kspBurst = 50\<rparr>) s)) (\<lambda>_ s.
     (Ok (), ((fst s)\<lparr>svRunning := True\<rparr>, snd s))))))"

definition Start :: "server_host \<Rightarrow> sys \<Rightarrow> (unit, sys) eff" where
  "Start h s =
     bindE (StartListening h s) (\<lambda>_ s.
       case shServe h of
         Some e \<Rightarrow> (Err (Wrapped ''minkapi'' [Sentinel ''ErrServiceFailed'', e]), s)
       | None \<Rightarrow> (Ok (), s))"

text \<open>\<open>viewAccess.Close\<close> does not fail in these views; an error of the shutdown is returned after it.\<close>

definition Stop :: "server_host \<Rightarrow> sys \<Rightarrow> (unit, sys) eff" where
  "Stop h s =
     (let w = Access_Close (svAccess (fst s)) (snd s);
          s = ((fst s)\<lparr>svRunning := False\<rparr>, w) in
      case shShutdown h of
        Some e \<Rightarrow> (Err (Wrapped ''joined'' [e]), s)
      | None \<Rightarrow> (Ok (), s))"

definition Server_Close :: "server_host \<Rightarrow> sys \<Rightarrow> (unit, sys) eff" where
  "Server_Close h s = Stop h s"

definition Server_GetSandboxView :: "server_host \<Rightarrow> string \<Rightarrow> sys \<Rightarrow> (view, sys) eff" where
  "Server_GetSandboxView h name s =
     (case GetSandboxView name (svAccess (fst s)) (snd s) of
        (Err e, w) \<Rightarrow> (Err e, (fst s, w))
      | (Panic p, w) \<Rightarrow> (Panic p, (fst s, w))
      | (Ok (sv, va), w) \<Rightarrow>
          let s = ((fst s)\<lparr>svAccess := va\<rparr>, w); cfg = svCfg (fst s);
              kapiURL = ''http://'' @ cfgBindAddress cfg @ ''/'' @ name;
              dir = fileDir (cfgKubeConfigPath cfg);
              kubeConfigPath = fileJoin dir (ProgramName @ ''-'' @ name @ ''.yaml'') in
          case shParseURL h kapiURL of
            Some e \<Rightarrow> (Err (Wrapped ''invalid sandbox-kapi URI'' [Sentinel ''ErrCreateView'', e]), s)
          | None \<Rightarrow>
              bindE (wrapWith ''ErrCreateView'' (onFiles (GenKubeConfig h
                 \<lparr>kcpName = name, kcpKubeConfigPath = kubeConfigPath, kcpURL = kapiURL\<rparr>) s)) (\<lambda>_ s.
              let s = (fst s, SetKubeConfigPath sv kubeConfigPath (snd s)) in
              bindE (wrapWith ''ErrStartFailed'' (onFiles (GenKubeSchedulerConfig h
                 \<lparr>kspKubeConfigPath = kubeConfigPath,
                  kspKubeSchedulerConfigPath = fileJoin dir (ProgramName @ ''-'' @ name @ ''-bin-packing-scheduler-config.yaml''),
                  kspQPS = 100, kspBurst = 50\<rparr>) s)) (\<lambda>_ s.
              bindE (registerRoutes sv s) (\<lambda>_ s. (Ok sv, s)))))"

definition Server_GetSandboxViewOverDelegate :: "string \<Rightarrow> view \<Rightarrow> sys \<Rightarrow> (view, sys) eff" where
  "Server_GetSandboxViewOverDelegate name delegate s =
     (case GetSandboxViewOverDelegate name delegate (svAccess (fst s)) (snd s) of
        (Ok (sv, va), w) \<Rightarrow> (Ok sv, ((fst s)\<lparr>svAccess := va\<rparr>, w))
      | (Err e, w) \<Rightarrow> (Err e, (fst s, w))
      | (Panic p, w) \<Rightarrow> (Panic p, (fst s, w)))"

subsection \<open>Serving\<close>

definition handleCreateSandboxView :: "server_host \<Rightarrow> request \<Rightarrow> response \<Rightarrow> sys \<Rightarrow> (unit outcome \<times> response) \<times> sys" where
  "handleCreateSandboxView h r rw s =
     (let viewName = PathValue r ''name''; env = shEnv h;
          answer = (\<lambda>(res, (rw, w)) k. ((res, rw), (k, w))) in
      if viewName = [] then answer (handleStatusError env BadRequestReason (rw, snd s)) (fst s)
      else case Server_GetSandboxView h viewName s of
        (Ok _, (k, w)) \<Rightarrow> answer (writeJsonResponse env (StatusReply (emptyStatus\<lparr>stKind := ''Status'',
            stStatus := ''Success'', stCode := 201, stMessage := viewName\<rparr>)) (rw, w)) k
      | (Err e, (k, w)) \<Rightarrow> answer (handleInternalServerError env e (rw, w)) k
      | (Panic p, s) \<Rightarrow> ((Panic p, rw), s))"

definition serveHandler :: "server_env \<Rightarrow> view_handler \<Rightarrow> request \<Rightarrow> hstate \<Rightarrow> (unit, hstate) eff" where
  "serveHandler env vh r s = (case vh of
       HPprof _ \<Rightarrow> (Ok (), s)
     | HTriggerGC \<Rightarrow> (Ok (), (Write (''GC Triggered'' @ newline) (Write (''GC Triggering'' @ newline) (fst s)), snd s))
     | HAPIVersions \<Rightarrow> handleAPIVersions env r s
     | HAPIGroups \<Rightarrow> handleAPIGroups env r s
     | HAPIResources l \<Rightarrow> handleAPIResources env l r s
     | HGet d v \<Rightarrow> handleGet env d v r s
     | HCreate d v \<Rightarrow> handleCreate env d v r s
     | HPut d v \<Rightarrow> handlePut env d v r s
     | HDelete d v \<Rightarrow> handleDelete env d v r s
     | HListOrWatch d v \<Rightarrow> handleListOrWatch env d v r s
     | HPatch d v \<Rightarrow> handlePatch env d v r s
     | HPatchStatus d v \<Rightarrow> handlePatchStatus env d v r s
     | HCreatePodBinding v \<Rightarrow> handleCreatePodBinding env v r s)"

text \<open>The answers of the multiplexer itself: the location of a redirect is the path it has seen.\<close>

definition redirectTo :: "string list \<Rightarrow> response \<Rightarrow> response" where
  "redirectTo path rw = WriteHeader 301 (setHeader ''Location'' (''/'' @ joinSlash path) rw)"

definition muxAnswer :: "'h route \<Rightarrow> response \<Rightarrow> response" where
  "muxAnswer rt rw = (case rt of
       Redirect path \<Rightarrow> redirectTo path rw
     | MethodNotAllowed \<Rightarrow> httpError ''Method Not Allowed'' 405 rw
     | _ \<Rightarrow> httpError ''404 page not found'' 404 rw)"

definition serveView :: "server_env \<Rightarrow> view_handler mux \<Rightarrow> string list \<Rightarrow> request \<Rightarrow> hstate \<Rightarrow> (unit, hstate) eff" where
  "serveView env mux path r s = (case findHandler mux (rqMethod r) path of
       Found vh vals \<Rightarrow> serveHandler env vh (r\<lparr>rqPathValues := vals\<rparr>) s
     | rt \<Rightarrow> (Ok (), (muxAnswer rt (fst s), snd s)))"

definition serve :: "server_host \<Rightarrow> string list \<Rightarrow> request \<Rightarrow> sys \<Rightarrow> (unit outcome \<times> response) \<times> sys" where
  "serve h path r s =
     (let rw = newResponse; lift = (\<lambda>(res, (rw, w)). ((res, rw), (fst s, w))) in
      case findHandler (svRootMux (fst s)) (rqMethod r) path of
        Found (RAPIResources l) vals \<Rightarrow> lift (handleAPIResources (shEnv h) l (r\<lparr>rqPathValues := vals\<rparr>) (rw, snd s))
      | Found RCreateSandboxView vals \<Rightarrow> handleCreateSandboxView h (r\<lparr>rqPathValues := vals\<rparr>) rw s
      | Found (RView name mux) vals \<Rightarrow>
          if path \<noteq> [] \<and> pathUnescape (hd path) = name then lift (serveView (shEnv h) mux (tl path) r (rw, snd s))
          else ((Ok (), httpError ''404 page not found'' 404 rw), s)
      | rt \<Rightarrow> ((Ok (), muxAnswer rt rw), s))"

end
