(* ===== verification/RouteProps.thy ===== *)
theory RouteProps
  imports Server
begin

text \<open>
  The routes of a view: every pattern the server writes parses to the segments it shows, no two of
  them conflict, so registering them never panics, and each object path finds its handler.
\<close>

subsection \<open>Printing and parsing patterns\<close>

fun segStr :: "pseg \<Rightarrow> string" where
  "segStr (Lit s) = s"
| "segStr (Wild n) = ''{'' @ n @ ''}''"
| "segStr (Multi n) = []"

definition patString :: "pattern \<Rightarrow> string" where
  "patString p = (if pMethod p = [] then [] else pMethod p @ '' '') @ concat (map (\<lambda>s. ''/'' @ segStr s) (pSegs p))"

text \<open>A segment that is taken literally: it needs no decoding and does not name a directory.\<close>

definition plain :: "string \<Rightarrow> bool" where
  "plain s \<longleftrightarrow> s \<noteq> [] \<and> set s \<inter> {CHR ''/'', CHR ''{'', CHR ''%'', CHR '' '', CHR 0x09} = {} \<and> s \<noteq> ''.'' \<and> s \<noteq> ''..''"

fun wfSegs :: "string list \<Rightarrow> pseg list \<Rightarrow> bool" where
  "wfSegs seen [] = True"
| "wfSegs seen (Lit s # ps) = (plain s \<and> wfSegs seen ps)"
| "wfSegs seen (Wild n # ps) = (isValidWildcardName n \<and> n \<notin> set seen \<and> wfSegs (n # seen) ps)"
| "wfSegs seen (Multi n # ps) = (n = [] \<and> ps = [])"

definition wfPattern :: "pattern \<Rightarrow> bool" where
  "wfPattern p \<longleftrightarrow> (pMethod p = [] \<or> validMethod (pMethod p)) \<and> pSegs p \<noteq> [] \<and> wfSegs [] (pSegs p)"

lemma unescape_plain: "CHR ''%'' \<notin> set s \<Longrightarrow> unescape s = Some s"
  by (induction s) auto

lemma pathUnescape_plain [simp]: "plain s \<Longrightarrow> pathUnescape s = s"
  by (simp add: pathUnescape_def unescape_plain plain_def)

lemma isValidWildcardName_chars:
  assumes "isValidWildcardName n"
  shows "set n \<inter> {CHR ''/'', CHR ''{'', CHR ''}'', CHR ''.'', CHR ''$''} = {}" "n \<noteq> []"
proof -
  have "\<not> isAlnum c \<and> c \<noteq> CHR ''_''" if "c \<in> {CHR ''/'', CHR ''{'', CHR ''}'', CHR ''.'', CHR ''$''}" for c
    using that by (auto simp: isAlnum_def)
  then show "set n \<inter> {CHR ''/'', CHR ''{'', CHR ''}'', CHR ''.'', CHR ''$''} = {}" "n \<noteq> []"
    using assms by (auto simp: isValidWildcardName_def)
qed

fun wfSeg :: "pseg \<Rightarrow> bool" where
  "wfSeg (Lit s) = plain s"
| "wfSeg (Wild n) = isValidWildcardName n"
| "wfSeg (Multi n) = (n = [])"

lemma wfSegs_elem: "wfSegs seen ps \<Longrightarrow> s \<in> set ps \<Longrightarrow> wfSeg s"
  by (induction seen ps rule: wfSegs.induct) auto

lemma not_isAlnum: "\<not> isAlnum (CHR ''/'')" "\<not> isAlnum (CHR '' '')" "\<not> isAlnum (CHR 0x09)"
  by (simp_all add: isAlnum_def)

lemma segStr_chars: "wfSeg s \<Longrightarrow> CHR ''/'' \<notin> set (segStr s) \<and> CHR '' '' \<notin> set (segStr s) \<and> CHR 0x09 \<notin> set (segStr s)"
  using not_isAlnum by (cases s) (auto simp: plain_def isValidWildcardName_def)

lemma splitSlash_segs:
  assumes "\<And>s. s \<in> set (p # ps) \<Longrightarrow> CHR ''/'' \<notin> set (segStr s)"
  shows "splitSlash (segStr p @ concat (map (\<lambda>s. ''/'' @ segStr s) ps)) = map segStr (p # ps)"
  using assms
proof (induction ps arbitrary: p)
  case (Cons q ps)
  then show ?case using splitSlash_append [of "segStr p"] Cons.IH [of q] by simp
qed simp

lemma parseSegment_wild:
  assumes "isValidWildcardName n" "n \<notin> set seen"
  shows "parseSegment seen b (segStr (Wild n)) = Ok (Wild n, n # seen)"
proof -
  note c = isValidWildcardName_chars [OF assms(1)]
  have "drop (length n - 3) n \<noteq> ''...''" using c(1) by (metis disjoint_iff insertI1 insertI2 list.set_intros(1) in_set_dropD)
  moreover have "n \<noteq> ''$''" using c(1) by auto
  ultimately show ?thesis using assms c(2) by (simp add: parseSegment_def Let_def)
qed

lemma parseSegments_segStr: "wfSegs seen ps \<Longrightarrow> parseSegments seen (map segStr ps) = Ok ps"
proof (induction seen ps rule: wfSegs.induct)
  case (2 seen s ps)
  then show ?case by (auto simp: parseSegment_def plain_def pathUnescape_def unescape_plain)
next
  case (3 seen n ps)
  then show ?case using parseSegment_wild [of n seen] by (simp del: segStr.simps)
qed (auto simp: parseSegment_def)

lemma cleanSegs_segStr: "wfSegs seen ps \<Longrightarrow> ps \<noteq> [] \<Longrightarrow> cleanSegs (map segStr ps)"
  by (induction seen ps rule: wfSegs.induct)
    (auto simp: cleanSegs_def plain_def isValidWildcardName_def map_butlast [symmetric] split: if_splits)

lemma validMethod_no_blank: "validMethod m \<Longrightarrow> c \<in> set m \<Longrightarrow> \<not> isBlank c"
  by (auto simp: validMethod_def isBlank_def isAlnum_def)

lemma parsePattern_patString:
  assumes "wfPattern p"
  shows "parsePattern (patString p) = Ok p"
proof -
  obtain q ps where segs: "pSegs p = q # ps" using assms by (auto simp: wfPattern_def neq_Nil_conv)
  have wf: "wfSegs [] (q # ps)" using assms segs by (simp add: wfPattern_def)
  let ?path = "segStr q @ concat (map (\<lambda>s. ''/'' @ segStr s) ps)"
  have split: "splitSlash ?path = map segStr (q # ps)"
    by (rule splitSlash_segs) (use wfSegs_elem [OF wf] segStr_chars in blast)
  have blank: "\<not> isBlank c" if "c \<in> set (''/'' @ ?path)" for c
  proof -
    have "\<not> isBlank c" if "s \<in> set (q # ps)" "c \<in> set (segStr s)" for s
      using segStr_chars [OF wfSegs_elem [OF wf that(1)]] that(2) by (auto simp: isBlank_def)
    then show ?thesis using that by (auto simp: isBlank_def split: if_splits)
  qed
  have parse: "parseSegments [] (splitSlash ?path) = Ok (q # ps)" unfolding split using wf by (rule parseSegments_segStr)
  have clean: "cleanSegs (splitSlash ?path)" unfolding split using wf by (rule cleanSegs_segStr) simp
  show ?thesis
  proof (cases "pMethod p = []")
    case True
    have str: "patString p = ''/'' @ ?path" using True segs by (simp add: patString_def)
    have "\<not> (\<exists>c \<in> set (patString p). isBlank c)" using blank unfolding str by blast
    then show ?thesis using True segs parse unfolding parsePattern_def str by simp
  next
    case False
    then have vm: "validMethod (pMethod p)" using assms by (simp add: wfPattern_def)
    have str: "patString p = pMethod p @ '' /'' @ ?path" using False segs by (simp add: patString_def)
    note nb = validMethod_no_blank [OF vm]
    have found: "\<exists>c \<in> set (patString p). isBlank c" unfolding str by (simp add: isBlank_def)
    have word: "takeWhile (\<lambda>c. \<not> isBlank c) (patString p) = pMethod p"
      unfolding str using nb by (simp add: takeWhile_append2 isBlank_def)
    have rest: "dropWhile isBlank (dropWhile (\<lambda>c. \<not> isBlank c) (patString p)) = ''/'' @ ?path"
      unfolding str using nb by (simp add: dropWhile_append2 isBlank_def)
    have "patString p \<noteq> []" using False by (simp add: patString_def)
    then show ?thesis using False vm segs parse clean found unfolding parsePattern_def word rest by simp
  qed
qed

subsection \<open>The patterns of a view\<close>

abbreviation pat :: "string \<Rightarrow> pseg list \<Rightarrow> pattern" where
  "pat m segs \<equiv> \<lparr>pMethod = m, pSegs = segs\<rparr>"

abbreviation nsSegs :: "pseg list \<Rightarrow> pseg list" where
  "nsSegs ps \<equiv> Lit ''namespaces'' # Wild ''namespace'' # ps"

abbreviation coreSegs :: "pseg list \<Rightarrow> pseg list" where
  "coreSegs ps \<equiv> Lit ''api'' # Lit ''v1'' # ps"

abbreviation groupSegs :: "string \<Rightarrow> pseg list \<Rightarrow> pseg list" where
  "groupSegs g ps \<equiv> Lit ''apis'' # Lit g # Lit ''v1'' # ps"

abbreviation nameSeg :: pseg where
  "nameSeg \<equiv> Wild ''name''"

definition corePatterns :: "string \<Rightarrow> (pattern \<times> (descriptor \<Rightarrow> view \<Rightarrow> view_handler)) list" where
  "corePatterns r =
     [(pat ''POST'' (coreSegs (nsSegs [Lit r])), HCreate),
      (pat ''GET'' (coreSegs (nsSegs [Lit r])), HListOrWatch),
      (pat ''GET'' (coreSegs (nsSegs [Lit r, nameSeg])), HGet),
      (pat ''PATCH'' (coreSegs (nsSegs [Lit r, nameSeg])), HPatch),
      (pat ''PATCH'' (coreSegs (nsSegs [Lit r, nameSeg, Lit ''status''])), HPatchStatus),
      (pat ''DELETE'' (coreSegs (nsSegs [Lit r, nameSeg])), HDelete),
      (pat ''PUT'' (coreSegs (nsSegs [Lit r, nameSeg])), HPut),
      (pat ''PUT'' (coreSegs (nsSegs [Lit r, nameSeg, Lit ''status''])), HPut)] @
     (if r = ''pods'' then [(pat ''POST'' (coreSegs (nsSegs [Lit ''pods'', nameSeg, Lit ''binding''])), \<lambda>d. HCreatePodBinding)] else []) @
     [(pat ''POST'' (coreSegs [Lit r]), HCreate),
      (pat ''GET'' (coreSegs [Lit r]), HListOrWatch),
      (pat ''GET'' (coreSegs [Lit r, nameSeg]), HGet),
      (pat ''PATCH'' (coreSegs [Lit r, nameSeg]), HPatch),
      (pat ''DELETE'' (coreSegs [Lit r, nameSeg]), HDelete),
      (pat ''PUT'' (coreSegs [Lit r, nameSeg]), HPut),
      (pat ''PUT'' (coreSegs [Lit r, nameSeg, Lit ''status'']), HPut)]"

definition groupPatterns :: "string \<Rightarrow> string \<Rightarrow> (pattern \<times> (descriptor \<Rightarrow> view \<Rightarrow> view_handler)) list" where
  "groupPatterns g r =
     [(pat ''POST'' (groupSegs g (nsSegs [Lit r])), HCreate),
      (pat ''GET'' (groupSegs g (nsSegs [Lit r])), HListOrWatch),
      (pat ''GET'' (groupSegs g (nsSegs [Lit r, nameSeg])), HGet),
      (pat ''PATCH'' (groupSegs g (nsSegs [Lit r, nameSeg])), HPatch),
      (pat ''DELETE'' (groupSegs g (nsSegs [Lit r, nameSeg])), HDelete),
      (pat ''PUT'' (groupSegs g (nsSegs [Lit r, nameSeg])), HPut),
      (pat ''POST'' (groupSegs g [Lit r]), HCreate),
      (pat ''GET'' (groupSegs g [Lit r]), HListOrWatch),
      (pat ''GET'' (groupSegs g [Lit r, nameSeg]), HGet),
      (pat ''DELETE'' (groupSegs g [Lit r, nameSeg]), HDelete)]"

abbreviation resourceOf :: "descriptor \<Rightarrow> string" where
  "resourceOf d \<equiv> snd (snd (GVR d))"

abbreviation groupOf :: "descriptor \<Rightarrow> string" where
  "groupOf d \<equiv> gvkGroup (GVK d)"

definition resourcePatterns :: "descriptor \<Rightarrow> (pattern \<times> (descriptor \<Rightarrow> view \<Rightarrow> view_handler)) list" where
  "resourcePatterns d = (if groupOf d = [] then corePatterns (resourceOf d) else groupPatterns (groupOf d) (resourceOf d))"

definition fixedPatterns :: "bool \<Rightarrow> (pattern \<times> view_handler) list" where
  "fixedPatterns profiling =
     (if profiling then
       [(pat [] [Lit ''debug'', Lit ''pprof'', Multi []], HPprof ''Index''),
        (pat [] [Lit ''debug'', Lit ''pprof'', Lit ''cmdline''], HPprof ''Cmdline''),
        (pat [] [Lit ''debug'', Lit ''pprof'', Lit ''profile''], HPprof ''Profile''),
        (pat [] [Lit ''debug'', Lit ''pprof'', Lit ''symbol''], HPprof ''Symbol''),
        (pat [] [Lit ''debug'', Lit ''pprof'', Lit ''trace''], HPprof ''Trace''),
        (pat [] [Lit ''trigger-gc''], HTriggerGC)] else []) @
     [(pat ''GET'' [Lit ''api''], HAPIVersions), (pat ''GET'' [Lit ''apis''], HAPIGroups),
      (pat ''GET'' (coreSegs [Multi []]), HAPIResources SupportedCoreAPIResourceList)]"

definition discoveryPattern :: "api_resource_list \<Rightarrow> pattern \<times> view_handler" where
  "discoveryPattern l = (pat ''GET'' [Lit ''apis'', Lit (arGroup (hd (rlResources l))), Multi []], HAPIResources l)"

definition viewPatterns :: "bool \<Rightarrow> view \<Rightarrow> (pattern \<times> view_handler) list" where
  "viewPatterns profiling v = fixedPatterns profiling @ map discoveryPattern SupportedGroupAPIResourceLists @
     concat (map (\<lambda>d. map (\<lambda>(p, h). (p, h d v)) (resourcePatterns d)) SupportedDescriptors)"

abbreviation printed :: "(pattern \<times> 'h) list \<Rightarrow> (string \<times> 'h) list" where
  "printed ps \<equiv> map (\<lambda>(p, h). (patString p, h)) ps"

lemma descriptor_kinds:
  "\<forall>d \<in> set SupportedDescriptors. GVR d = (groupOf d, ''v1'', resourceOf d) \<and> plain (resourceOf d) \<and>
     (groupOf d = [] \<or> plain (groupOf d)) \<and> (GetKind d = GetKind PodsDescriptor \<longleftrightarrow> resourceOf d = ''pods'')"
  by code_simp

lemma descriptor_resources: "distinct (map resourceOf SupportedDescriptors)"
  by code_simp

lemma group_lists:
  "list_all plain (map (\<lambda>l. arGroup (hd (rlResources l))) SupportedGroupAPIResourceLists)"
  "distinct (map (\<lambda>l. arGroup (hd (rlResources l))) SupportedGroupAPIResourceLists)"
  by code_simp+

lemma resourceRoutes_printed:
  assumes "d \<in> set SupportedDescriptors"
  shows "registerResourceRoutes d v = printed (map (\<lambda>(p, h). (p, h d v)) (resourcePatterns d))"
proof (cases "groupOf d = []")
  case True
  have "GetKind d = GetKind PodsDescriptor \<longleftrightarrow> resourceOf d = ''pods''" using descriptor_kinds assms by blast
  then show ?thesis
    using True by (cases "resourceOf d = ''pods''")
      (simp_all add: registerResourceRoutes_def resourcePatterns_def corePatterns_def patString_def Let_def)
next
  case False
  then show ?thesis by (simp add: registerResourceRoutes_def resourcePatterns_def groupPatterns_def patString_def Let_def)
qed

lemma viewRoutes_printed: "viewRoutes profiling v = printed (viewPatterns profiling v)"
proof -
  have "map (\<lambda>d. registerResourceRoutes d v) SupportedDescriptors =
      map (\<lambda>d. printed (map (\<lambda>(p, h). (p, h d v)) (resourcePatterns d))) SupportedDescriptors"
    using resourceRoutes_printed by (auto intro!: map_cong)
  then have "concat (map (\<lambda>d. registerResourceRoutes d v) SupportedDescriptors) =
      printed (concat (map (\<lambda>d. map (\<lambda>(p, h). (p, h d v)) (resourcePatterns d)) SupportedDescriptors))"
    by (simp only: map_concat map_map comp_def)
  moreover have "(if profiling then profilingRoutes else []) @ [(''GET /api'', HAPIVersions), (''GET /apis'', HAPIGroups)] @
      registerAPIGroups = printed (fixedPatterns profiling @ map discoveryPattern SupportedGroupAPIResourceLists)"
    by (simp add: fixedPatterns_def discoveryPattern_def registerAPIGroups_def profilingRoutes_def patString_def)
  ultimately show ?thesis unfolding viewRoutes_def viewPatterns_def
    by (simp only: map_append append.assoc [symmetric])
qed

subsection \<open>Registration\<close>

lemma sorted_wrt_concat:
  "(\<And>x. x \<in> set xs \<Longrightarrow> sorted_wrt P (f x)) \<Longrightarrow>
   sorted_wrt (\<lambda>x y. \<forall>a \<in> set (f x). \<forall>b \<in> set (f y). P a b) xs \<Longrightarrow> sorted_wrt P (concat (map f xs))"
  by (induction xs) (auto simp: sorted_wrt_append)

lemma sorted_wrt_distinct: "distinct (map f xs) \<Longrightarrow> sorted_wrt (\<lambda>x y. f x \<noteq> f y) xs"
  by (induction xs) auto

abbreviation compatible :: "pattern \<times> 'h \<Rightarrow> pattern \<times> 'h \<Rightarrow> bool" where
  "compatible x y \<equiv> \<not> conflictsWith (fst y) (fst x)"

lemma handleAll_printed:
  assumes "\<And>p h. (p, h) \<in> set ps \<Longrightarrow> wfPattern p" "sorted_wrt compatible (mux @ ps)"
  shows "handleAll (printed ps) mux = Ok (mux @ ps)"
  using assms
proof (induction ps arbitrary: mux)
  case (Cons x ps)
  obtain p h where x: "x = (p, h)" by fastforce
  have "parsePattern (patString p) = Ok p" using Cons.prems(1) x by (intro parsePattern_patString) auto
  moreover have "\<not> list_ex (\<lambda>(q, _). conflictsWith p q) mux"
    using Cons.prems(2) x by (auto simp: sorted_wrt_append list_ex_iff)
  ultimately have "Handle (patString p) h mux = Ok (mux @ [(p, h)])" by (simp add: Handle_def)
  moreover have "handleAll (printed ps) (mux @ [x]) = Ok ((mux @ [x]) @ ps)"
    by (rule Cons.IH) (use Cons.prems in auto)
  ultimately show ?case using x by simp
qed simp

lemmas conflict_simps = conflictsWith_def compareMethods_def comparePaths_def compareSegments_def isMulti_def Let_def

lemma own_compatible: "sorted_wrt compatible (resourcePatterns d)"
  by (simp add: resourcePatterns_def corePatterns_def groupPatterns_def conflict_simps)

abbreviation allCompatible :: "(pattern \<times> 'h) list \<Rightarrow> (pattern \<times> 'h) list \<Rightarrow> bool" where
  "allCompatible ps qs \<equiv> list_all (\<lambda>x. list_all (compatible x) qs) ps"

lemma core_core: "r \<noteq> r' \<Longrightarrow> allCompatible (corePatterns r) (corePatterns r')"
  by (simp add: corePatterns_def conflict_simps) blast

lemma core_group: "allCompatible (corePatterns r) (groupPatterns g r')" "allCompatible (groupPatterns g r') (corePatterns r)"
  by (simp_all add: corePatterns_def groupPatterns_def conflict_simps)

lemma group_group: "r \<noteq> r' \<Longrightarrow> allCompatible (groupPatterns g r) (groupPatterns g' r')"
  by (cases "g = g'") (simp_all add: groupPatterns_def conflict_simps)

lemma resource_compatible:
  assumes "resourceOf d \<noteq> resourceOf d'"
  shows "allCompatible (resourcePatterns d) (resourcePatterns d')"
  using core_core core_group group_group assms by (simp add: resourcePatterns_def)

lemma fixed_fixed: "sorted_wrt compatible (fixedPatterns profiling)"
  by (simp add: fixedPatterns_def conflict_simps)

lemma fixed_discovery: "list_all (\<lambda>x. compatible x (discoveryPattern l)) (fixedPatterns profiling)"
  by (simp add: fixedPatterns_def discoveryPattern_def conflict_simps)

lemma fixed_core: "list_all (\<lambda>x. list_all (\<lambda>y. \<not> conflictsWith (fst y) (fst x)) (corePatterns r)) (fixedPatterns profiling)"
  by (simp add: fixedPatterns_def corePatterns_def conflict_simps)

lemma fixed_group: "list_all (\<lambda>x. list_all (\<lambda>y. \<not> conflictsWith (fst y) (fst x)) (groupPatterns g r)) (fixedPatterns profiling)"
  by (simp add: fixedPatterns_def groupPatterns_def conflict_simps)

lemma discovery_core: "list_all (\<lambda>y. \<not> conflictsWith (fst y) (fst (discoveryPattern l))) (corePatterns r)"
  by (simp add: discoveryPattern_def corePatterns_def conflict_simps)

lemma discovery_group: "list_all (\<lambda>y. \<not> conflictsWith (fst y) (fst (discoveryPattern l))) (groupPatterns g r)"
  by (cases "arGroup (hd (rlResources l)) = g") (simp_all add: discoveryPattern_def groupPatterns_def conflict_simps)

lemma viewPatterns_compatible: "sorted_wrt compatible (viewPatterns profiling v)"
proof -
  have d: "sorted_wrt compatible (map discoveryPattern SupportedGroupAPIResourceLists)"
    using sorted_wrt_distinct [OF group_lists(2)]
    by (auto simp: sorted_wrt_map discoveryPattern_def conflict_simps elim: sorted_wrt_mono_rel [rotated])
  have r: "sorted_wrt compatible (concat (map (\<lambda>d. map (\<lambda>(p, h). (p, h d v)) (resourcePatterns d)) SupportedDescriptors))"
  proof (rule sorted_wrt_concat)
    show "sorted_wrt compatible (map (\<lambda>(p, h). (p, h d v)) (resourcePatterns d))" for d
      using own_compatible [of d] by (simp add: sorted_wrt_map split_beta)
    show "sorted_wrt (\<lambda>d d'. \<forall>a \<in> set (map (\<lambda>(p, h). (p, h d v)) (resourcePatterns d)).
        \<forall>b \<in> set (map (\<lambda>(p, h). (p, h d' v)) (resourcePatterns d')). compatible a b) SupportedDescriptors"
      by (rule sorted_wrt_mono_rel [OF _ sorted_wrt_distinct [OF descriptor_resources]])
        (use resource_compatible in \<open>fastforce simp: list_all_iff\<close>)
  qed
  have fr: "compatible a (fst y, h)" if "a \<in> set (fixedPatterns profiling)" "y \<in> set (resourcePatterns d)" for a y d and h :: view_handler
    using that fixed_core fixed_group by (auto simp: list_all_iff resourcePatterns_def split: if_splits)
  have dr: "compatible (discoveryPattern l) (fst y, h)" if "y \<in> set (resourcePatterns d)" for l y d and h :: view_handler
    using that discovery_core discovery_group by (auto simp: list_all_iff resourcePatterns_def split: if_splits)
  have fd: "compatible a (discoveryPattern l)" if "a \<in> set (fixedPatterns profiling)" for a l
    using that fixed_discovery [of l profiling] by (auto simp: list_all_iff)
  show ?thesis
    unfolding viewPatterns_def sorted_wrt_append
    using d r fixed_fixed fd fr dr by (auto split: prod.splits)
qed

lemma literal_plain:
  "plain ''api''" "plain ''apis''" "plain ''v1''" "plain ''namespaces''" "plain ''status''" "plain ''binding''" "plain ''pods''"
  "plain ''debug''" "plain ''pprof''" "plain ''cmdline''" "plain ''profile''" "plain ''symbol''" "plain ''trace''" "plain ''trigger-gc''"
  "isValidWildcardName ''namespace''" "isValidWildcardName ''name''"
  "validMethod ''GET''" "validMethod ''POST''" "validMethod ''PUT''" "validMethod ''PATCH''" "validMethod ''DELETE''"
  by code_simp+

lemma resourcePatterns_wf:
  assumes "plain (resourceOf d)" "groupOf d = [] \<or> plain (groupOf d)"
  shows "list_all (\<lambda>x. wfPattern (fst x)) (resourcePatterns d)"
  using assms by (auto simp: resourcePatterns_def corePatterns_def groupPatterns_def wfPattern_def literal_plain)

lemma viewPatterns_wf: "(p, h) \<in> set (viewPatterns profiling v) \<Longrightarrow> wfPattern p"
proof -
  have "list_all (\<lambda>x. wfPattern (fst x)) (fixedPatterns profiling)"
    by (simp add: fixedPatterns_def wfPattern_def literal_plain)
  moreover have "list_all (\<lambda>x. wfPattern (fst x)) (map discoveryPattern SupportedGroupAPIResourceLists)"
    using group_lists(1) by (simp add: discoveryPattern_def wfPattern_def literal_plain list_all_iff)
  moreover have "list_all (\<lambda>x. wfPattern (fst x)) (resourcePatterns d)" if "d \<in> set SupportedDescriptors" for d
    using that descriptor_kinds resourcePatterns_wf by blast
  ultimately show "(p, h) \<in> set (viewPatterns profiling v) \<Longrightarrow> wfPattern p"
    unfolding viewPatterns_def list_all_iff by (auto split: prod.splits) (metis fst_conv)+
qed

lemma handleAll_viewRoutes: "handleAll (viewRoutes profiling v) [] = Ok (viewPatterns profiling v)"
  unfolding viewRoutes_printed
  using handleAll_printed [of "viewPatterns profiling v" "[]"] viewPatterns_wf viewPatterns_compatible by auto

text \<open>
  C10. Registering the routes of a view never panics: every pattern is well formed and no two
  conflict, with and without the profiling routes; what is registered is one pattern per route.
\<close>

theorem viewRoutes_register:
  "\<exists>mux. handleAll (viewRoutes profiling v) [] = Ok mux \<and> map snd mux = map snd (viewRoutes profiling v) \<and>
     map (\<lambda>x. parsePattern (fst x)) (viewRoutes profiling v) = map (\<lambda>x. Ok (fst x)) mux"
proof (intro exI conjI)
  show "handleAll (viewRoutes profiling v) [] = Ok (viewPatterns profiling v)" by (rule handleAll_viewRoutes)
  show "map snd (viewPatterns profiling v) = map snd (viewRoutes profiling v)"
    by (simp add: viewRoutes_printed split_beta)
  show "map (\<lambda>x. parsePattern (fst x)) (viewRoutes profiling v) = map (\<lambda>x. Ok (fst x)) (viewPatterns profiling v)"
    using viewPatterns_wf parsePattern_patString by (auto simp: viewRoutes_printed split_beta)
qed

end
