(* ===== verification/RouteLookup.thy ===== *)
theory RouteLookup
  imports RouteProps
begin

text \<open>
  Which handler a path finds. The lookup descends the routing tree and prefers literals to
  wildcards; here it is tied to the patterns as a list: a pattern that covers the path and is more
  specific than every other pattern that covers it is the one found.
\<close>

subsection \<open>Covering and specificity\<close>

fun covers :: "pseg list \<Rightarrow> string list \<Rightarrow> bool" where
  "covers [] [] = True"
| "covers [Multi n] (s # ss) = True"
| "covers (Lit l # ps) (s # ss) = (l = s \<and> covers ps ss)"
| "covers (Wild n # ps) (s # ss) = (s \<noteq> ''/'' \<and> covers ps ss)"
| "covers _ _ = False"

lemma covers_Nil: "covers [] path \<longleftrightarrow> path = []"
  by (cases path) simp_all

lemma covers_Lit: "covers (Lit l # ps) path \<longleftrightarrow> (\<exists>ss. path = l # ss \<and> covers ps ss)"
  by (cases path) auto

lemma covers_Wild: "covers (Wild n # ps) path \<longleftrightarrow> (\<exists>s ss. path = s # ss \<and> s \<noteq> ''/'' \<and> covers ps ss)"
  by (cases path) auto

lemma covers_Multi: "covers [Multi n] path \<longleftrightarrow> path \<noteq> []"
  by (cases path) simp_all

lemmas covers_iff = covers_Nil covers_Lit covers_Wild covers_Multi

fun beats :: "pseg list \<Rightarrow> pseg list \<Rightarrow> bool" where
  "beats (Lit _ # p) (Lit _ # q) = beats p q"
| "beats (Wild _ # p) (Wild _ # q) = beats p q"
| "beats (Lit _ # p) (_ # q) = True"
| "beats (Wild _ # p) (Multi _ # q) = True"
| "beats _ _ = False"

fun captures :: "pseg list \<Rightarrow> string list \<Rightarrow> string list" where
  "captures (Wild _ # ps) (s # ss) = s # captures ps ss"
| "captures (Lit _ # ps) (s # ss) = captures ps ss"
| "captures _ _ = []"

lemma litChild_iff: "(p, h) \<in> set (litChild s ps) \<longleftrightarrow> (Lit s # p, h) \<in> set ps"
  by (force simp: litChild_def split: list.splits pseg.splits if_splits)

lemma wildChild_iff: "(p, h) \<in> set (wildChild ps) \<longleftrightarrow> (\<exists>n. (Wild n # p, h) \<in> set ps)"
  by (force simp: wildChild_def split: list.splits pseg.splits)

abbreviation multis :: "(pseg list \<times> 'h) list \<Rightarrow> 'h list" where
  "multis ps \<equiv> concat (map (\<lambda>(p, h). case p of [Multi _] \<Rightarrow> [h] | _ \<Rightarrow> []) ps)"

lemma multi_handlers: "h \<in> set (multis ps) \<longleftrightarrow> (\<exists>n. ([Multi n], h) \<in> set ps)"
  by (induction ps) (auto split: list.splits pseg.splits)

lemma multiChild_Some: "multiChild ps = Some h \<Longrightarrow> \<exists>n. ([Multi n], h) \<in> set ps"
  using multi_handlers [of h ps] unfolding multiChild_def by (cases "multis ps") auto

lemma multiChild_None: "multiChild ps = None \<Longrightarrow> ([Multi n], h) \<notin> set ps"
  using multi_handlers [of h ps] unfolding multiChild_def by (cases "multis ps") auto

lemma matchPath_None:
  "(\<And>q h. (q, h) \<in> set ps \<Longrightarrow> \<not> covers q path) \<Longrightarrow> matchPath ps path acc = None"
proof (induction path arbitrary: ps acc)
  case Nil
  have "find (\<lambda>(p, _). p = []) ps = None" using Nil [of "[]"] by (auto simp: find_None_iff)
  then show ?case by simp
next
  case (Cons s path)
  have "matchPath (litChild s ps) path acc = None"
    by (rule Cons.IH) (use Cons.prems in \<open>fastforce simp: litChild_iff\<close>)
  moreover have "s = ''/'' \<or> matchPath (wildChild ps) path (acc @ [s]) = None"
    using Cons.IH [of "wildChild ps"] Cons.prems by (fastforce simp: wildChild_iff)
  moreover have "multiChild ps = None"
    using Cons.prems multiChild_Some [of ps] by (cases "multiChild ps") fastforce+
  ultimately show ?case by auto
qed

lemma matchPath_best_Nil:
  assumes "([], h) \<in> set ps" "\<And>h'. ([], h') \<in> set ps \<Longrightarrow> h' = h"
  shows "matchPath ps [] acc = Some (h, acc)"
proof (cases "find (\<lambda>(q, _). q = []) ps")
  case None
  then show ?thesis using assms(1) by (auto simp: find_None_iff)
next
  case (Some x)
  then have "x \<in> set ps" "fst x = []" by (auto simp: find_Some_iff) (metis nth_mem)
  then have "x = ([], h)" using assms(2) [of "snd x"] by (metis prod.collapse)
  then show ?thesis using Some by simp
qed

lemma matchPath_best_litChild:
  assumes "covers p (s # path)" "\<And>p'. p \<noteq> Lit s # p'"
    and best: "\<And>q h'. (q, h') \<in> set ps \<Longrightarrow> covers q (s # path) \<Longrightarrow> (q, h') = (p, h) \<or> beats p q"
  shows "matchPath (litChild s ps) path acc = None"
proof (rule matchPath_None)
  fix q h' assume q: "(q, h') \<in> set (litChild s ps)"
  show "\<not> covers q path"
  proof
    assume "covers q path"
    then have "beats p (Lit s # q)" using best [of "Lit s # q" h'] q assms(2) by (auto simp: litChild_iff)
    then show False using assms(1,2) by (cases "(p, s # path)" rule: covers.cases) auto
  qed
qed

lemma matchPath_best_multi:
  assumes "([Multi n], h) \<in> set ps"
    and best: "\<And>q h'. (q, h') \<in> set ps \<Longrightarrow> covers q (s # path) \<Longrightarrow> (q, h') = ([Multi n], h) \<or> beats [Multi n] q"
  shows "s \<noteq> ''/'' \<Longrightarrow> matchPath (wildChild ps) path acc = None" "multiChild ps = Some h"
proof -
  show "matchPath (wildChild ps) path acc = None" if "s \<noteq> ''/''"
  proof (rule matchPath_None)
    fix q h' assume "(q, h') \<in> set (wildChild ps)"
    then obtain m where m: "(Wild m # q, h') \<in> set ps" by (auto simp: wildChild_iff)
    then show "\<not> covers q path" using best [OF m] that by auto
  qed
  show "multiChild ps = Some h"
  proof (cases "multiChild ps")
    case None
    then show ?thesis using multiChild_None [of ps n h] assms(1) by simp
  next
    case (Some h')
    obtain m where m: "([Multi m], h') \<in> set ps" using multiChild_Some [OF Some] ..
    then show ?thesis using best [OF m] Some by auto
  qed
qed

lemma matchPath_best:
  assumes "(p, h) \<in> set ps" "covers p path"
    and "\<And>q h'. (q, h') \<in> set ps \<Longrightarrow> covers q path \<Longrightarrow> (q, h') = (p, h) \<or> beats p q"
  shows "matchPath ps path acc = Some (h, acc @ captures p path)"
  using assms
proof (induction path arbitrary: ps p acc)
  case Nil
  have p: "p = []" using Nil.prems(2) by (cases "(p, [] :: string list)" rule: covers.cases) auto
  have "(p, h') = (p, h)" if "([], h') \<in> set ps" for h'
    using Nil.prems(3) [OF that] p by auto
  then have only: "\<And>h'. ([], h') \<in> set ps \<Longrightarrow> h' = h" by (meson prod.inject)
  show ?case unfolding p captures.simps append_Nil2
    by (rule matchPath_best_Nil [OF Nil.prems(1) [unfolded p] only])
next
  case (Cons s path)
  note lit = matchPath_best_litChild [OF Cons.prems(2) _ Cons.prems(3)]
  consider (lit) p' where "p = Lit s # p'" "covers p' path"
    | (wild) n p' where "p = Wild n # p'" "s \<noteq> ''/''" "covers p' path" | (multi) n where "p = [Multi n]"
    using Cons.prems(2) by (cases "(p, s # path)" rule: covers.cases) auto
  then show ?case
  proof cases
    case lit
    have "matchPath (litChild s ps) path acc = Some (h, acc @ captures p' path)"
    proof (rule Cons.IH)
      show "(p', h) \<in> set (litChild s ps)" "covers p' path" using lit Cons.prems(1) by (simp_all add: litChild_iff)
      show "(q, h') = (p', h) \<or> beats p' q" if "(q, h') \<in> set (litChild s ps)" "covers q path" for q h'
        using Cons.prems(3) [of "Lit s # q" h'] that lit(1) by (simp add: litChild_iff)
    qed
    then show ?thesis using lit by simp
  next
    case wild
    have "matchPath (wildChild ps) path (acc @ [s]) = Some (h, (acc @ [s]) @ captures p' path)"
    proof (rule Cons.IH)
      show "(p', h) \<in> set (wildChild ps)" "covers p' path" using wild Cons.prems(1) by (auto simp: wildChild_iff)
      show "(q, h') = (p', h) \<or> beats p' q" if "(q, h') \<in> set (wildChild ps)" "covers q path" for q h'
        using Cons.prems(3) [of _ h'] that wild by (fastforce simp: wildChild_iff)
    qed
    then show ?thesis using wild lit by simp
  next
    case multi
    note best = matchPath_best_multi [OF Cons.prems(1) [unfolded multi] Cons.prems(3) [unfolded multi]]
    show ?thesis using lit multi best by simp
  qed
qed

subsection \<open>Paths of plain segments\<close>

lemma cleanLoop_plain: "list_all plain path \<Longrightarrow> cleanLoop acc path = acc @ path"
  by (induction path arbitrary: acc) (auto simp: plain_def)

lemma plain_last: "list_all plain path \<Longrightarrow> path \<noteq> [] \<Longrightarrow> last path \<noteq> []"
  by (auto simp: plain_def list_all_iff)

lemma cleanPath_plain: "list_all plain path \<Longrightarrow> path \<noteq> [] \<Longrightarrow> cleanPath path = path"
  by (simp add: cleanPath_def cleanLoop_plain plain_last Let_def)

lemma treePath_plain: "list_all plain path \<Longrightarrow> treePath path = path"
  by (induction path rule: treePath.induct) (auto simp: plain_def pathUnescape_def unescape_plain)

lemma ofMethod_iff: "(segs, x) \<in> set (ofMethod m mux) \<longleftrightarrow> x \<in> set mux \<and> pMethod (fst x) = m \<and> segs = pSegs (fst x)"
  by (cases x) (force simp: ofMethod_def)

lemma matchMethodAndPath_best:
  assumes "x \<in> set mux" "pMethod (fst x) = m" "m \<noteq> []" "covers (pSegs (fst x)) (treePath path)"
    and "\<And>y. y \<in> set mux \<Longrightarrow> pMethod (fst y) = m \<Longrightarrow> covers (pSegs (fst y)) (treePath path) \<Longrightarrow>
      y = x \<or> beats (pSegs (fst x)) (pSegs (fst y))"
  shows "matchMethodAndPath mux m path = Some (x, captures (pSegs (fst x)) (treePath path))"
proof -
  have "matchPath (ofMethod m mux) (treePath path) [] = Some (x, [] @ captures (pSegs (fst x)) (treePath path))"
    by (rule matchPath_best) (use assms in \<open>auto simp: ofMethod_iff\<close>)
  then show ?thesis using assms(3) by (simp add: matchMethodAndPath_def)
qed

lemma findHandler_best:
  assumes "x \<in> set mux" "pMethod (fst x) = m" "m \<noteq> []" "\<not> isMulti (pSegs (fst x))"
    and path: "list_all plain path" "path \<noteq> []" and "covers (pSegs (fst x)) path"
    and "\<And>y. y \<in> set mux \<Longrightarrow> pMethod (fst y) = m \<Longrightarrow> covers (pSegs (fst y)) path \<Longrightarrow>
      y = x \<or> beats (pSegs (fst x)) (pSegs (fst y))"
  shows "findHandler mux m path = Found (snd x) (zip (wildNames (pSegs (fst x))) (captures (pSegs (fst x)) path))"
proof -
  have "matchMethodAndPath mux m path = Some (x, captures (pSegs (fst x)) path)"
    using matchMethodAndPath_best [of x mux m path] assms by (simp add: treePath_plain)
  then show ?thesis
    using assms(4) cleanPath_plain [OF path]
    by (cases x) (simp add: findHandler_def exactMatch_def Let_def)
qed

subsection \<open>The object paths\<close>

definition collectionPath :: "descriptor \<Rightarrow> string \<Rightarrow> string list" where
  "collectionPath d ns =
     (if groupOf d = [] then [''api'', ''v1''] else [''apis'', groupOf d, ''v1'']) @ [''namespaces'', ns, resourceOf d]"

definition objectPath :: "descriptor \<Rightarrow> string \<Rightarrow> string \<Rightarrow> string list" where
  "objectPath d ns name = collectionPath d ns @ [name]"

text \<open>
  The paths with the empty namespace are those without one: of the objects of a cluster-scoped kind,
  and of those of a namespaced kind in the default namespace.
\<close>

definition collectionAt :: "descriptor \<Rightarrow> string \<Rightarrow> string list" where
  "collectionAt d ns =
     (if ns \<noteq> [] then collectionPath d ns
      else (if groupOf d = [] then [''api'', ''v1''] else [''apis'', groupOf d, ''v1'']) @ [resourceOf d])"

definition objectAt :: "descriptor \<Rightarrow> string \<Rightarrow> string \<Rightarrow> string list" where
  "objectAt d ns name = collectionAt d ns @ [name]"

definition pathNamespace :: "string \<Rightarrow> (string, string) gomap" where
  "pathNamespace ns = (if ns = [] then [] else [(''namespace'', ns)])"

lemma collectionAt_plain: "plain ns \<Longrightarrow> collectionAt d ns = collectionPath d ns"
  "plain ns \<Longrightarrow> objectAt d ns name = objectPath d ns name" "plain ns \<Longrightarrow> pathNamespace ns = [(''namespace'', ns)]"
  by (auto simp: collectionAt_def objectAt_def objectPath_def pathNamespace_def plain_def)

lemma descriptor_by_resource:
  "d \<in> set SupportedDescriptors \<Longrightarrow> d' \<in> set SupportedDescriptors \<Longrightarrow> resourceOf d' = resourceOf d \<Longrightarrow> d' = d"
  using descriptor_resources by (meson distinct_map inj_onD)

lemma viewPatterns_cases:
  assumes "y \<in> set (viewPatterns profiling v)"
  obtains (fixed) "y \<in> set (fixedPatterns profiling)" | (disc) l where "y = discoveryPattern l"
  | (res) d p h where "d \<in> set SupportedDescriptors" "(p, h) \<in> set (resourcePatterns d)" "y = (p, h d v)"
  using assms unfolding viewPatterns_def by auto

lemma core_covers:
  assumes "list_ex (\<lambda>(p, h). covers (pSegs p) path) (corePatterns r')" "r \<noteq> ''status''"
  shows "path = [''api'', ''v1'', ''namespaces'', ns, r] \<Longrightarrow> r' = r"
    "path = [''api'', ''v1'', ''namespaces'', ns, r, name] \<Longrightarrow> r' = r"
    "path = [''api'', ''v1'', r] \<Longrightarrow> r' = r" "path = [''api'', ''v1'', r, name] \<Longrightarrow> r' = r"
    "path \<noteq> ''apis'' # path'"
  using assms by (auto simp: corePatterns_def split: if_splits)

lemma group_covers:
  assumes "list_ex (\<lambda>(p, h). covers (pSegs p) path) (groupPatterns g' r')"
  shows "path = [''apis'', g, ''v1'', ''namespaces'', ns, r] \<Longrightarrow> r' = r"
    "path = [''apis'', g, ''v1'', ''namespaces'', ns, r, name] \<Longrightarrow> r' = r"
    "path = [''apis'', g, ''v1'', r] \<Longrightarrow> r' = r" "path = [''apis'', g, ''v1'', r, name] \<Longrightarrow> r' = r"
    "path \<noteq> ''api'' # path'"
  using assms by (auto simp: groupPatterns_def)

lemma path_shapes:
  assumes "path \<in> {collectionAt d ns, objectAt d ns name}"
  shows "groupOf d = [] \<Longrightarrow> path \<in> {[''api'', ''v1'', ''namespaces'', ns, resourceOf d], [''api'', ''v1'', ''namespaces'', ns, resourceOf d, name],
      [''api'', ''v1'', resourceOf d], [''api'', ''v1'', resourceOf d, name]}"
    "groupOf d \<noteq> [] \<Longrightarrow> path \<in> {[''apis'', groupOf d, ''v1'', ''namespaces'', ns, resourceOf d],
      [''apis'', groupOf d, ''v1'', ''namespaces'', ns, resourceOf d, name],
      [''apis'', groupOf d, ''v1'', resourceOf d], [''apis'', groupOf d, ''v1'', resourceOf d, name]}"
  using assms by (auto simp: collectionAt_def objectAt_def collectionPath_def split: if_splits)

lemma resource_covers:
  assumes "(p, h) \<in> set (resourcePatterns d')" "covers (pSegs p) path" "resourceOf d \<noteq> ''status''"
    and "path \<in> {collectionAt d ns, objectAt d ns name}"
  shows "resourceOf d' = resourceOf d"
proof -
  have ex: "list_ex (\<lambda>(p, h). covers (pSegs p) path) (resourcePatterns d')"
    using assms(1,2) by (auto simp: list_ex_iff)
  note shapes = path_shapes [OF assms(4)]
  show ?thesis
  proof (cases "groupOf d' = []")
    case True
    then have c: "list_ex (\<lambda>(p, h). covers (pSegs p) path) (corePatterns (resourceOf d'))"
      using ex by (simp add: resourcePatterns_def)
    have "groupOf d = []" using core_covers(5) [OF c assms(3)] shapes(2) by fastforce
    from shapes(1) [OF this] show ?thesis by (elim insertE emptyE) (erule core_covers(1-4) [OF c assms(3)])+
  next
    case False
    then have c: "list_ex (\<lambda>(p, h). covers (pSegs p) path) (groupPatterns (groupOf d') (resourceOf d'))"
      using ex by (simp add: resourcePatterns_def)
    have "groupOf d \<noteq> []" using group_covers(5) [OF c] shapes(1) by fastforce
    from shapes(2) [OF this] show ?thesis by (elim insertE emptyE) (erule group_covers(1-4) [OF c])+
  qed
qed

lemma fixed_beaten:
  "y \<in> set (fixedPatterns profiling) \<Longrightarrow> pMethod (fst y) \<noteq> [] \<Longrightarrow> covers (pSegs (fst y)) path \<Longrightarrow>
   segs \<in> {coreSegs (Lit l # ss), groupSegs g (Lit l # ss)} \<Longrightarrow> covers segs path \<Longrightarrow> beats segs (pSegs (fst y))"
  by (auto simp: fixedPatterns_def covers_iff split: if_splits)

lemma discovery_beaten:
  "segs \<in> {coreSegs (Lit k # ss), groupSegs g (Lit k # ss)} \<Longrightarrow> covers segs path \<Longrightarrow>
   covers (pSegs (fst (discoveryPattern l))) path \<Longrightarrow> beats segs (pSegs (fst (discoveryPattern l)))"
  by (auto simp: discoveryPattern_def covers_iff)

lemma resource_not_status: "d \<in> set SupportedDescriptors \<Longrightarrow> resourceOf d \<noteq> ''status''"
proof -
  have "list_all (\<lambda>d. resourceOf d \<noteq> ''status'') SupportedDescriptors" by code_simp
  then show "d \<in> set SupportedDescriptors \<Longrightarrow> resourceOf d \<noteq> ''status''" by (simp add: list_all_iff)
qed

text \<open>
  One method at a time: if exactly one pattern of the descriptor with that method covers the path,
  that is the route.
\<close>

lemma resource_route:
  assumes d: "d \<in> set SupportedDescriptors" and path: "list_all plain path" "path \<in> {collectionAt d ns, objectAt d ns name}"
    and m: "m \<noteq> []"
    and one: "filter (\<lambda>(p, h). pMethod p = m \<and> covers (pSegs p) path) (resourcePatterns d) = [(pat m segs, h)]"
    and segs: "segs \<in> {coreSegs (Lit l # ss), groupSegs g (Lit l # ss)}" "\<not> isMulti segs"
  shows "findHandler (viewPatterns profiling v) m path = Found (h d v) (zip (wildNames segs) (captures segs path))"
proof -
  have "(pat m segs, h) \<in> set (filter (\<lambda>(p, h). pMethod p = m \<and> covers (pSegs p) path) (resourcePatterns d))"
    unfolding one by simp
  then have p: "(pat m segs, h) \<in> set (resourcePatterns d)" "covers segs path" by auto
  have "findHandler (viewPatterns profiling v) m path =
      Found (snd (pat m segs, h d v)) (zip (wildNames (pSegs (fst (pat m segs, h d v)))) (captures (pSegs (fst (pat m segs, h d v))) path))"
  proof (rule findHandler_best)
    show "(pat m segs, h d v) \<in> set (viewPatterns profiling v)" using d p(1) by (force simp: viewPatterns_def)
    show "path \<noteq> []" using path(2) by (auto simp: collectionAt_def objectAt_def collectionPath_def split: if_splits)
    fix y assume y: "y \<in> set (viewPatterns profiling v)" "pMethod (fst y) = m" "covers (pSegs (fst y)) path"
    show "y = (pat m segs, h d v) \<or> beats (pSegs (fst (pat m segs, h d v))) (pSegs (fst y))"
    proof (cases rule: viewPatterns_cases [OF y(1)])
      case 1
      then show ?thesis
        using fixed_beaten [OF _ _ y(3) segs(1) p(2)] y(2) m by simp
    next
      case (2 k)
      then show ?thesis using discovery_beaten [OF segs(1) p(2), of k] y by simp
    next
      case (3 d' q k)
      have "resourceOf d' = resourceOf d"
        using resource_covers [OF 3(2), of path d ns name] y 3(3) path(2) resource_not_status [OF d] by simp
      then have "d' = d" using descriptor_by_resource d 3(1) by blast
      then have "(q, k) \<in> set (filter (\<lambda>(p, h). pMethod p = m \<and> covers (pSegs p) path) (resourcePatterns d))" using 3 y by simp
      then show ?thesis using 3(3) \<open>d' = d\<close> unfolding one by simp
    qed
  qed (use m path segs p in auto)
  then show ?thesis by simp
qed

definition collectionSegs :: "descriptor \<Rightarrow> string \<Rightarrow> pseg list" where
  "collectionSegs d ns = (let ss = (if ns = [] then [Lit (resourceOf d)] else nsSegs [Lit (resourceOf d)])
     in if groupOf d = [] then coreSegs ss else groupSegs (groupOf d) ss)"

definition objectSegs :: "descriptor \<Rightarrow> string \<Rightarrow> pseg list" where
  "objectSegs d ns = collectionSegs d ns @ [nameSeg]"

lemmas path_defs = resourcePatterns_def corePatterns_def groupPatterns_def collectionPath_def collectionAt_def objectAt_def
  collectionSegs_def objectSegs_def pathNamespace_def Let_def

lemma plain_not_slash: "plain s \<Longrightarrow> s \<noteq> ''/''" "plain s \<Longrightarrow> s \<noteq> []"
  by (auto simp: plain_def)

abbreviation coveredBy :: "descriptor \<Rightarrow> string \<Rightarrow> string list \<Rightarrow> (pattern \<times> (descriptor \<Rightarrow> view \<Rightarrow> view_handler)) list" where
  "coveredBy d m path \<equiv> filter (\<lambda>(p, h). pMethod p = m \<and> covers (pSegs p) path) (resourcePatterns d)"

text \<open>Objects of a kind with a group cannot be written without a namespace.\<close>

abbreviation unwritable :: "descriptor \<Rightarrow> string \<Rightarrow> bool" where
  "unwritable d ns \<equiv> ns = [] \<and> groupOf d \<noteq> []"

lemma covered_object:
  assumes "ns = [] \<or> plain ns" "plain name"
  shows "coveredBy d ''GET'' (objectAt d ns name) = [(pat ''GET'' (objectSegs d ns), HGet)]"
    "coveredBy d ''DELETE'' (objectAt d ns name) = [(pat ''DELETE'' (objectSegs d ns), HDelete)]"
    "\<not> unwritable d ns \<Longrightarrow> coveredBy d ''PUT'' (objectAt d ns name) = [(pat ''PUT'' (objectSegs d ns), HPut)]"
    "\<not> unwritable d ns \<Longrightarrow> coveredBy d ''PATCH'' (objectAt d ns name) = [(pat ''PATCH'' (objectSegs d ns), HPatch)]"
  using assms plain_not_slash [of ns] plain_not_slash [of name] by (auto simp: path_defs)

lemma covered_collection:
  assumes "ns = [] \<or> plain ns"
  shows "coveredBy d ''POST'' (collectionAt d ns) = [(pat ''POST'' (collectionSegs d ns), HCreate)]"
    "coveredBy d ''GET'' (collectionAt d ns) = [(pat ''GET'' (collectionSegs d ns), HListOrWatch)]"
  using assms plain_not_slash [of ns] by (auto simp: path_defs)

lemma path_plain:
  assumes "d \<in> set SupportedDescriptors" "ns = [] \<or> plain ns"
  shows "list_all plain (collectionAt d ns)" "plain name \<Longrightarrow> list_all plain (objectAt d ns name)"
proof -
  have "plain (resourceOf d)" "groupOf d = [] \<or> plain (groupOf d)" using descriptor_kinds assms(1) by blast+
  then show "list_all plain (collectionAt d ns)" "plain name \<Longrightarrow> list_all plain (objectAt d ns name)"
    using assms(2) by (auto simp: collectionPath_def collectionAt_def objectAt_def literal_plain)
qed

lemma segs_shape:
  "\<exists>l ss. collectionSegs d ns \<in> {coreSegs (Lit l # ss), groupSegs (groupOf d) (Lit l # ss)}" "\<not> isMulti (collectionSegs d ns)"
  "\<exists>l ss. objectSegs d ns \<in> {coreSegs (Lit l # ss), groupSegs (groupOf d) (Lit l # ss)}" "\<not> isMulti (objectSegs d ns)"
  by (simp_all add: path_defs isMulti_def)

lemma object_route:
  assumes "d \<in> set SupportedDescriptors" "ns = [] \<or> plain ns" "plain name" "m \<noteq> []"
    and "coveredBy d m (objectAt d ns name) = [(pat m (objectSegs d ns), h)]"
  shows "findHandler (viewPatterns profiling v) m (objectAt d ns name) = Found (h d v) (pathNamespace ns @ [(''name'', name)])"
proof -
  obtain l ss where "objectSegs d ns \<in> {coreSegs (Lit l # ss), groupSegs (groupOf d) (Lit l # ss)}" using segs_shape(3) by blast
  from resource_route [OF assms(1) path_plain(2) [OF assms(1-3)] _ assms(4,5) this segs_shape(4), of ns name profiling v]
  show ?thesis by (simp add: path_defs split: if_splits)
qed

lemma collection_route:
  assumes "d \<in> set SupportedDescriptors" "ns = [] \<or> plain ns" "m \<noteq> []"
    and "coveredBy d m (collectionAt d ns) = [(pat m (collectionSegs d ns), h)]"
  shows "findHandler (viewPatterns profiling v) m (collectionAt d ns) = Found (h d v) (pathNamespace ns)"
proof -
  obtain l ss where "collectionSegs d ns \<in> {coreSegs (Lit l # ss), groupSegs (groupOf d) (Lit l # ss)}" using segs_shape(1) by blast
  from resource_route [OF assms(1) path_plain(1) [OF assms(1,2)] _ assms(3,4) this segs_shape(2), of ns "[]" profiling v]
  show ?thesis by (simp add: path_defs split: if_splits)
qed

subsection \<open>Paths without a handler for the method\<close>

lemma matchPath_covers: "(p, h) \<in> set ps \<Longrightarrow> covers p path \<Longrightarrow> matchPath ps path acc \<noteq> None"
proof (induction path arbitrary: ps p acc)
  case Nil
  have "p = []" using Nil.prems(2) by (cases "(p, [] :: string list)" rule: covers.cases) auto
  then show ?case using Nil.prems(1) by (auto simp: find_None_iff split: option.splits)
next
  case (Cons s path)
  consider (lit) p' where "p = Lit s # p'" "covers p' path"
    | (wild) n p' where "p = Wild n # p'" "s \<noteq> ''/''" "covers p' path" | (multi) n where "p = [Multi n]"
    using Cons.prems(2) by (cases "(p, s # path)" rule: covers.cases) auto
  then show ?case
  proof cases
    case lit
    then have "(p', h) \<in> set (litChild s ps)" using Cons.prems(1) by (simp add: litChild_iff)
    then obtain r where "matchPath (litChild s ps) path acc = Some r" using Cons.IH lit(2) by blast
    then show ?thesis by simp
  next
    case wild
    then have "(p', h) \<in> set (wildChild ps)" using Cons.prems(1) by (auto simp: wildChild_iff)
    then obtain r where "matchPath (wildChild ps) path (acc @ [s]) = Some r" using Cons.IH wild(3) by blast
    then show ?thesis using wild(2) by (simp split: option.splits)
  next
    case multi
    then show ?thesis using Cons.prems(1) multiChild_None [of ps n h] by (auto split: option.splits)
  qed
qed

lemma matchMethod_None:
  assumes "m \<noteq> ''HEAD''" "\<And>y. y \<in> set mux \<Longrightarrow> pMethod (fst y) \<in> {m, []} \<Longrightarrow> \<not> covers (pSegs (fst y)) (treePath path)"
  shows "matchMethodAndPath mux m path = None"
proof -
  have "matchPath (ofMethod k mux) (treePath path) [] = None" if "k \<in> {m, []}" for k
    using assms(2) that by (intro matchPath_None) (auto simp: ofMethod_iff)
  then show ?thesis using assms(1) by (simp add: matchMethodAndPath_def)
qed

lemma findHandler_refused:
  assumes "m \<noteq> ''HEAD''" and path: "list_all plain path" "path \<noteq> []"
    and no: "\<And>y t. y \<in> set mux \<Longrightarrow> pMethod (fst y) \<in> {m, []} \<Longrightarrow> t \<in> {path, path @ [''/'']} \<Longrightarrow> \<not> covers (pSegs (fst y)) t"
    and other: "y \<in> set mux" "covers (pSegs (fst y)) path"
  shows "findHandler mux m path = MethodNotAllowed"
proof -
  have slash: "treePath (path @ [[]]) = path @ [''/'']"
    using path(1) by (induction path rule: treePath.induct) (auto simp: plain_def pathUnescape_def unescape_plain)
  have none: "matchMethodAndPath mux m path = None" "matchMethodAndPath mux m (path @ [[]]) = None"
    by (intro matchMethod_None; use assms(1) no in \<open>auto simp: treePath_plain [OF path(1)] slash\<close>)+
  have "(pSegs (fst y), y) \<in> set (ofMethod (pMethod (fst y)) mux)" using other(1) by (simp add: ofMethod_iff)
  then have "matchPath (ofMethod (pMethod (fst y)) mux) path [] \<noteq> None" using other(2) by (rule matchPath_covers)
  then have "list_ex (\<lambda>(p, _). matchPath (ofMethod (pMethod p) mux) path [] \<noteq> None \<or> Q p) mux" for Q
    using other(1) unfolding list_ex_iff by (intro bexI [of _ y]) (auto simp: split_beta)
  then show ?thesis
    using none cleanPath_plain [OF path] treePath_plain [OF path(1)]
    by (simp add: findHandler_def exactMatch_def Let_def del: not_None_eq)
qed

lemma bare_group_unwritable:
  assumes "y \<in> set (viewPatterns profiling v)" "pMethod (fst y) \<in> {m, []}" "m \<in> {''PUT'', ''PATCH''}"
    and "t \<in> {[''apis'', g, ''v1'', r, name], [''apis'', g, ''v1'', r, name, ''/'']}"
  shows "\<not> covers (pSegs (fst y)) t"
proof (cases rule: viewPatterns_cases [OF assms(1)])
  case 1
  then show ?thesis using assms(2-) by (auto simp: fixedPatterns_def split: if_splits)
next
  case (2 l)
  then show ?thesis using assms(2-) by (auto simp: discoveryPattern_def)
next
  case (3 d p h)
  have "list_all (\<lambda>(p, h). pMethod p \<in> {''PUT'', ''PATCH'', []} \<longrightarrow> \<not> covers (pSegs p) t) (resourcePatterns d)"
    using assms(4) by (auto simp: resourcePatterns_def corePatterns_def groupPatterns_def)
  then show ?thesis using 3 assms(2,3) by (auto simp: list_all_iff)
qed

lemma write_refused:
  assumes "d \<in> set SupportedDescriptors" "unwritable d ns" "plain name" "m \<in> {''PUT'', ''PATCH''}"
  shows "findHandler (viewPatterns profiling v) m (objectAt d ns name) = MethodNotAllowed"
proof (rule findHandler_refused)
  have path: "objectAt d ns name = [''apis'', groupOf d, ''v1'', resourceOf d, name]" using assms(2) by (simp add: path_defs)
  show "list_all plain (objectAt d ns name)" using path_plain(2) assms(1-3) by blast
  have "(pat ''GET'' (objectSegs d ns), HGet) \<in> set (coveredBy d ''GET'' (objectAt d ns name))"
    using covered_object(1) [of ns name d] assms(2,3) by simp
  then have "(pat ''GET'' (objectSegs d ns), HGet) \<in> set (resourcePatterns d)" "covers (objectSegs d ns) (objectAt d ns name)" by auto
  then show "(pat ''GET'' (objectSegs d ns), HGet d v) \<in> set (viewPatterns profiling v)"
    "covers (pSegs (fst (pat ''GET'' (objectSegs d ns), HGet d v))) (objectAt d ns name)"
    using assms(1) by (force simp: viewPatterns_def)+
  show "\<not> covers (pSegs (fst y)) t" if "y \<in> set (viewPatterns profiling v)" "pMethod (fst y) \<in> {m, []}"
    "t \<in> {objectAt d ns name, objectAt d ns name @ [''/'']}" for y t
    by (rule bare_group_unwritable [OF that(1,2) assms(4)]) (use that(3) path in simp)
qed (use assms in \<open>auto simp: objectAt_def\<close>)

text \<open>
  C9. Every supported kind is served on its paths, with a namespace and without one (the paths of the
  cluster-scoped kinds): on the path of an object, \<open>GET\<close> and \<open>DELETE\<close> find the handlers of exactly that
  kind, with the namespace and the name of the path, and so do \<open>PUT\<close> and \<open>PATCH\<close>, with one exception: on
  the paths without a namespace of the kinds that have an API group no handler is registered for them,
  and they are refused with \<open>405\<close>, so no cluster-scoped object of such a kind can be updated. On the path of a
  collection, \<open>POST\<close> and \<open>GET\<close> find the handlers of the kind. A namespace or a name is any string that
  needs no escaping in a path, as those of Kubernetes objects do not.
\<close>

theorem object_routes:
  assumes "d \<in> set SupportedDescriptors" "ns = [] \<or> plain ns" "plain name"
  shows "findHandler (viewPatterns profiling v) ''GET'' (objectAt d ns name) = Found (HGet d v) (pathNamespace ns @ [(''name'', name)]) \<and>
    findHandler (viewPatterns profiling v) ''DELETE'' (objectAt d ns name) = Found (HDelete d v) (pathNamespace ns @ [(''name'', name)]) \<and>
    findHandler (viewPatterns profiling v) ''PUT'' (objectAt d ns name) =
      (if ns = [] \<and> gvkGroup (GVK d) \<noteq> [] then MethodNotAllowed else Found (HPut d v) (pathNamespace ns @ [(''name'', name)])) \<and>
    findHandler (viewPatterns profiling v) ''PATCH'' (objectAt d ns name) =
      (if ns = [] \<and> gvkGroup (GVK d) \<noteq> [] then MethodNotAllowed else Found (HPatch d v) (pathNamespace ns @ [(''name'', name)])) \<and>
    findHandler (viewPatterns profiling v) ''POST'' (collectionAt d ns) = Found (HCreate d v) (pathNamespace ns) \<and>
    findHandler (viewPatterns profiling v) ''GET'' (collectionAt d ns) = Found (HListOrWatch d v) (pathNamespace ns)"
  using object_route [OF assms] covered_object [OF assms(2,3)] collection_route [OF assms(1,2)] covered_collection [OF assms(2)]
    write_refused [OF assms(1) _ assms(3)]
  by simp

lemma PodsDescriptor_supported: "PodsDescriptor \<in> set SupportedDescriptors"
  by (simp add: SupportedDescriptors_def)

lemma CSINodeDescriptor_supported: "CSINodeDescriptor \<in> set SupportedDescriptors"
  by (simp add: SupportedDescriptors_def)

theorem object_routes_witness:
  "findHandler (viewPatterns False (BaseView 0)) ''GET'' [''api'', ''v1'', ''namespaces'', ''d'', ''pods'', ''p''] =
     Found (HGet PodsDescriptor (BaseView 0)) [(''namespace'', ''d''), (''name'', ''p'')] \<and>
   findHandler (viewPatterns False (BaseView 0)) ''PUT'' [''apis'', ''storage.k8s.io'', ''v1'', ''csinodes'', ''p''] = MethodNotAllowed"
proof -
  have "plain ''d''" "plain ''p''" by (simp_all add: plain_def)
  moreover have "objectAt PodsDescriptor ''d'' ''p'' = [''api'', ''v1'', ''namespaces'', ''d'', ''pods'', ''p'']"
      "objectAt CSINodeDescriptor [] ''p'' = [''apis'', ''storage.k8s.io'', ''v1'', ''csinodes'', ''p'']"
      "gvkGroup (GVK CSINodeDescriptor) \<noteq> []"
    by (simp_all add: objectAt_def collectionAt_def collectionPath_def descriptor_defs NewDescriptor_def)
  ultimately show ?thesis
    using object_routes [OF PodsDescriptor_supported, of "''d''" "''p''" False "BaseView 0"]
      object_routes [OF CSINodeDescriptor_supported, of "[]" "''p''" False "BaseView 0"] by (simp add: pathNamespace_def)
qed

end
