(* ===== verification/ServerProps.thy ===== *)
theory ServerProps
  imports RouteLookup ViewProps
begin

text \<open>
  What a client of the API server sees: the replies of the handlers in terms of what the view
  shows, the round trip of an object through \<open>POST\<close> and \<open>GET\<close>, and what a refused \<open>PUT\<close> leaves behind.
\<close>

declare map_of_eq_Some_iff [simp del] Some_eq_map_of_iff [simp del]

subsection \<open>Replies\<close>

lemma orReply_simps [simp]:
  "orReply (Ok x, w) rw onErr k = k x (rw, w)"
  "orReply (Err e, w) rw onErr k = onErr e (rw, w)"
  "orReply (Panic p, w) rw onErr k = (Panic p, (rw, w))"
  by (simp_all add: orReply_def)

text \<open>A reply: the status and the header that were sent, and the body.\<close>

definition replied :: "response \<Rightarrow> nat \<Rightarrow> (string, string) gomap \<Rightarrow> string \<Rightarrow> bool" where
  "replied rw code hdr data \<longleftrightarrow> rsSent rw = Some (code, hdr) \<and> rsBody rw = data"

abbreviation jsonHeader :: "(string, string) gomap" where
  "jsonHeader \<equiv> [(''Content-Type'', ''application/json'')]"

lemma writeJson_new:
  assumes "seEncode env doc = Ok data"
  shows "\<exists>rw. writeJsonResponse env doc (newResponse, w) = (Ok (), (rw, w)) \<and> replied rw 200 jsonHeader data"
  using assms by (simp add: writeJsonResponse_def replied_def newResponse_def setHeader_def Write_def WriteHeader_def Let_def)

lemma sendStatus_new:
  assumes "seEncode env (StatusReply (ErrStatus rs)) = Ok data"
  shows "\<exists>rw. sendStatus env code rs (newResponse, w) = (Ok (), (rw, w)) \<and> replied rw code [] data"
  using assms by (simp add: sendStatus_def writeJsonResponse_def replied_def newResponse_def setHeader_def Write_def WriteHeader_def Let_def)

definition errorReason :: "goerr \<Rightarrow> reason" where
  "errorReason e = (case asStatus e of Some rs \<Rightarrow> rs | None \<Rightarrow> InternalReason)"

lemma handleError_new:
  assumes "seEncode env (StatusReply (ErrStatus (errorReason e))) = Ok data"
  shows "\<exists>rw. handleError env e (newResponse, w) = (Ok (), (rw, w)) \<and> replied rw (reasonCode (errorReason e)) [] data"
  using assms sendStatus_new [of env "errorReason e" data]
  by (cases "asStatus e") (simp_all add: handleError_def handleStatusError_def handleInternalServerError_def errorReason_def ErrStatus_def emptyStatus_def)

subsection \<open>Objects\<close>

lemma GetObjectName_path:
  "rqPathValues r = [(''namespace'', ns), (''name'', name)] \<Longrightarrow> ns \<noteq> [] \<Longrightarrow>
   GetObjectName r d = \<lparr>onNamespace = ns, onName = name\<rparr>"
  by (simp add: GetObjectName_def PathValue_def)

definition pathName :: "string \<Rightarrow> string \<Rightarrow> object_name" where
  "pathName ns name = \<lparr>onNamespace = ns, onName = name\<rparr>"

lemma serveView_route:
  assumes "findHandler mux (rqMethod r) path = Found vh vals"
  shows "serveView env mux path r s = serveHandler env vh (r\<lparr>rqPathValues := vals\<rparr>) s"
  using assms by (simp add: serveView_def)

lemma handleGet_shown:
  assumes ok: "view_ok w v" "supported (GVK d)" and r: "GetObjectName r d = n"
    and enc: "\<And>doc. \<exists>data. seEncode env doc = Ok data"
  shows "case absView w v (GVK d) (objectNameString n) of
      Some (SlotLive o') \<Rightarrow> \<exists>rw data. handleGet env d v r (newResponse, w) = (Ok (), (rw, w)) \<and>
        seEncode env (ObjReply o') = Ok data \<and> replied rw 200 jsonHeader data
    | _ \<Rightarrow> \<exists>rw data. handleGet env d v r (newResponse, w) = (Ok (), (rw, w)) \<and> replied rw 404 [] data"
proof -
  have miss: "\<exists>rw data. handleGet env d v r (newResponse, w) = (Ok (), (rw, w)) \<and> replied rw 404 [] data"
    if g: "GetObject v (GVK d) n w = Err e" and e: "asStatus e = Some NotFoundReason" for e
  proof -
    obtain data where "seEncode env (StatusReply (ErrStatus (errorReason e))) = Ok data" using enc by blast
    from handleError_new [OF this, of w] show ?thesis
      using g r e by (auto simp: handleGet_def errorReason_def)
  qed
  have live: "\<exists>rw data. handleGet env d v r (newResponse, w) = (Ok (), (rw, w)) \<and>
        seEncode env (ObjReply (obj w a)) = Ok data \<and> replied rw 200 jsonHeader data"
    if "GetObject v (GVK d) n w = Ok a" for a
  proof -
    obtain data where e: "seEncode env (ObjReply (obj w a)) = Ok data" using enc by blast
    from writeJson_new [OF e, of w] show ?thesis using that r e by (auto simp: handleGet_def)
  qed
  have del: "asStatus deletedErr = Some NotFoundReason" using deletedErr_simps(1) by (simp add: isNotFound_def)
  show ?thesis
    using GetObject_abs [OF ok, of n] live miss [of deletedErr] miss [of "ApiStatus NotFoundReason"] del
    by (auto split: option.splits slot.splits)
qed

text \<open>
  The name under which a path looks an object up: a path without a namespace stands for the default
  namespace if the kind is namespaced.
\<close>

definition servedKey :: "descriptor \<Rightarrow> string \<Rightarrow> string \<Rightarrow> string" where
  "servedKey d ns name =
     objectNameString \<lparr>onNamespace = (if ns = [] \<and> arNamespaced (APIResource d) then ''default'' else ns), onName = name\<rparr>"

lemma servedKey_plain: "plain ns \<Longrightarrow> servedKey d ns name = ns @ ''/'' @ name"
  by (auto simp: servedKey_def objectNameString_def plain_def)

lemma GetObjectName_served:
  "objectNameString (GetObjectName (r\<lparr>rqPathValues := pathNamespace ns @ [(''name'', name)]\<rparr>) d) = servedKey d ns name"
  by (simp add: servedKey_def GetObjectName_def PathValue_def pathNamespace_def Let_def)

lemma get_served:
  assumes "view_ok w v" "d \<in> set SupportedDescriptors" "ns = [] \<or> plain ns" "plain name" "rqMethod r = ''GET''"
    and "\<And>doc. \<exists>data. seEncode env doc = Ok data"
  shows "case absView w v (GVK d) (servedKey d ns name) of
      Some (SlotLive o') \<Rightarrow> \<exists>rw data.
        serveView env (viewPatterns profiling v) (objectAt d ns name) r (newResponse, w) = (Ok (), (rw, w)) \<and>
        seEncode env (ObjReply o') = Ok data \<and> replied rw 200 jsonHeader data
    | _ \<Rightarrow> \<exists>rw data.
        serveView env (viewPatterns profiling v) (objectAt d ns name) r (newResponse, w) = (Ok (), (rw, w)) \<and>
        replied rw 404 [] data"
proof -
  have eq: "serveView env (viewPatterns profiling v) (objectAt d ns name) r (newResponse, w) =
      handleGet env d v (r\<lparr>rqPathValues := pathNamespace ns @ [(''name'', name)]\<rparr>) (newResponse, w)"
    using serveView_route [of "viewPatterns profiling v" r "objectAt d ns name"] assms(5)
      object_route [OF assms(2-4) _ covered_object(1) [OF assms(3,4)]]
    by (simp add: serveHandler_def)
  show ?thesis
    unfolding eq GetObjectName_served [where r = r, symmetric]
    by (rule handleGet_shown [OF assms(1) supported_descriptor [OF assms(2)] refl assms(6)])
qed

text \<open>
  C8. A \<open>GET\<close> request for an object of any supported kind, on its path with a namespace or without one,
  answers what the view shows: \<open>200\<close> with the object as JSON, or \<open>404\<close> for a name that is unknown or
  deleted in the view. Without a namespace the object is that of the cluster-scoped kind, or, if the
  kind is namespaced, that of the default namespace. The request changes nothing. The error reply is
  sent without the JSON content type, which is set only after the header was written. Namespaces and
  names are such that need no escaping in a path, and documents can be encoded.
\<close>

theorem get_object_served:
  assumes "view_ok w v" "d \<in> set SupportedDescriptors" "ns = [] \<or> plain ns" "plain name" "rqMethod r = ''GET''"
    and "\<And>doc. \<exists>data. seEncode env doc = Ok data"
  shows "case absView w v (GVK d) (objectNameString
        \<lparr>onNamespace = (if ns = [] \<and> arNamespaced (APIResource d) then ''default'' else ns), onName = name\<rparr>) of
      Some (SlotLive o') \<Rightarrow> \<exists>rw data.
        serveView env (viewPatterns profiling v) (objectAt d ns name) r (newResponse, w) = (Ok (), (rw, w)) \<and>
        seEncode env (ObjReply o') = Ok data \<and> replied rw 200 jsonHeader data
    | _ \<Rightarrow> \<exists>rw data.
        serveView env (viewPatterns profiling v) (objectAt d ns name) r (newResponse, w) = (Ok (), (rw, w)) \<and>
        replied rw 404 [] data"
  using get_served [OF assms] unfolding servedKey_def .

text \<open>A library of codecs for the witnesses: a body is the name of the object it describes.\<close>

definition demoEnv :: server_env where
  "demoEnv = \<lparr>seNewObject = (\<lambda>_. Ok (demoPod\<lparr>ometa := ometa demoPod\<lparr>mName := [], mNamespace := []\<rparr>\<rparr>)), seScheme = (\<lambda>_ _. None),
     sePatcher = demoPatcher, seEncode = (\<lambda>_. Ok ''{}''), seEncodeEvent = (\<lambda>_. Ok ''{}''),
     seDecodeBinding = (\<lambda>nm. Ok \<lparr>bTargetName = nm\<rparr>), seParseSelector = (\<lambda>_. Ok (\<lambda>_. True))\<rparr>"

definition demoRequest :: "string \<Rightarrow> json \<Rightarrow> request" where
  "demoRequest m data = \<lparr>rqMethod = m, rqPathValues = [], rqQuery = [], rqContentType = [], rqBody = Ok data,
     rqCtxs = noCancel, rqMoves = []\<rparr>"

lemma demo_plain: "plain ''d''" "plain ''p''" "plain ''q''"
  by (simp_all add: plain_def)

theorem get_object_served_witness:
  "(\<exists>rw data. serveView demoEnv (viewPatterns False demoSandbox) (objectAt PodsDescriptor ''d'' ''q'')
     (demoRequest ''GET'' []) (newResponse, demoWorld) = (Ok (), (rw, demoWorld)) \<and> replied rw 404 [] data) \<and>
   (\<exists>rw. serveView demoEnv (viewPatterns False demoSandbox) (objectAt CSINodeDescriptor [] ''q'')
     (demoRequest ''GET'' []) (newResponse, demoWorld) = (Ok (), (rw, demoWorld)))"
proof -
  have "absView demoWorld demoSandbox (GVK PodsDescriptor) (''d'' @ ''/'' @ ''q'') = None"
    using demo(4) by (auto simp: podsGVK_def [symmetric])
  then show ?thesis
    using get_object_served [OF demo(1) PodsDescriptor_supported disjI2 [OF demo_plain(1)] demo_plain(3), of "demoRequest ''GET'' []" demoEnv False]
      get_object_served [OF demo(1) CSINodeDescriptor_supported disjI1 [OF refl] demo_plain(3), of "demoRequest ''GET'' []" demoEnv False]
    by (auto simp: demoRequest_def demoEnv_def objectNameString_def split: option.splits slot.splits)
qed

subsection \<open>Creating objects\<close>

text \<open>The object a \<open>POST\<close> request describes: what is decoded, in the namespace of the path if it has none.\<close>

definition inNamespace :: "string \<Rightarrow> kobj \<Rightarrow> kobj" where
  "inNamespace ns o' = (if mNamespace (ometa o') = [] then o'\<lparr>ometa := ometa o'\<lparr>mNamespace := ns\<rparr>\<rparr> else o')"

lemma handleCreate_stores:
  assumes ok: "view_ok w v" "supported (GVK d)" and room: "room w (Suc n)"
    and new: "seNewObject env (GVK d) = Ok o0" "rqBody r = Ok data" "unmarshalInto (sePatcher env) data o0 = (None, o1)"
    and o2: "o2 = inNamespace (onNamespace (GetObjectName r d)) o1" "storable (GVK d) o2"
    and enc: "\<And>doc. \<exists>data. seEncode env doc = Ok data"
  shows "\<exists>rw w' o' reply. handleCreate env d v r (newResponse, w) = (Ok (), (rw, w')) \<and> view_ok w' v \<and>
     defaulted (GVK d) o2 o' \<and> absDelegate w' v = absDelegate w v \<and>
     absView w' v (GVK d) = (absView w v (GVK d))(cacheKey o2 \<mapsto> SlotLive o') \<and>
     seEncode env (ObjReply o') = Ok reply \<and> replied rw 200 jsonHeader reply"
proof -
  let ?a = "nextAddr (wMem w)"
  define w1 where "w1 = w\<lparr>wMem := snd (alloc o0 (wMem w))\<rparr>"
  define w2 where "w2 = onWMem (wr ?a o1) w1"
  define w3 where "w3 = (if mNamespace (ometa (obj w2 ?a)) = []
    then onWMem (updMeta ?a (\<lambda>mt. mt\<lparr>mNamespace := onNamespace (GetObjectName r d)\<rparr>)) w2 else w2)"
  have m: "memStep {} w w3" "obj w3 ?a = o2" "nextAddr (wMem w3) = Suc ?a"
    by (auto simp: memStep_def w3_def w2_def w1_def onWMem_def obj_def o2(1) inNamespace_def)
  have un: "unheld v ?a w3" using fresh_unheld [OF ok(1)] memStep_result(3) [OF m(1) ok(1)] by simp
  note res = memStep_result(1,2) [OF m(1) ok(1), simplified]
  have room3: "room w3 (Suc n)" using room m(1) by (simp add: room_def memStep_def)
  obtain w' where w': "CreateObject v (GVK d) ?a noOpts w3 = (Ok ?a, w')" "result_ok v (GVK d) {?a} w3 w'"
    "absOwn w' (viewId v) (GVK d) = (absOwn w3 (viewId v) (GVK d))(cacheKey (obj w3 ?a) \<mapsto> SlotLive (obj w' ?a))"
    "defaulted (GVK d) (obj w3 ?a) (obj w' ?a)"
    using CreateObject_ok [OF result_okD(2) [OF res(1) [of "GVK d"]] ok(2) _ un _ room3, of noOpts] m(2,3) o2(2) by auto
  obtain reply where reply: "seEncode env (ObjReply (obj w' ?a)) = Ok reply" using enc by blast
  obtain rw where rw: "writeJsonResponse env (ObjReply (obj w' ?a)) (newResponse, w') = (Ok (), (rw, w'))" "replied rw 200 jsonHeader reply"
    using writeJson_new [OF reply] by blast
  have o0: "obj w1 ?a = o0" by (simp add: w1_def obj_def)
  have "handleCreate env d v r (newResponse, w) = readBodyIntoObj env r ?a (\<lambda>s.
      let w = (if mNamespace (ometa (obj (snd s) ?a)) = []
               then onWMem (updMeta ?a (\<lambda>mt. mt\<lparr>mNamespace := onNamespace (GetObjectName r d)\<rparr>)) (snd s) else snd s) in
      orReply (CreateObject v (GVK d) ?a noOpts w) (fst s) (handleError env) (\<lambda>a s.
        writeJsonResponse env (ObjReply (obj (snd s) a)) s)) (newResponse, w1)"
    using new(1) by (simp add: handleCreate_def split_beta w1_def Let_def cong: if_cong)
  also have "\<dots> = orReply (CreateObject v (GVK d) ?a noOpts w3) newResponse (handleError env) (\<lambda>a s.
        writeJsonResponse env (ObjReply (obj (snd s) a)) s)"
    using new(2,3) o0 by (simp add: readBodyIntoObj_def Let_def w3_def w2_def)
  also have "\<dots> = (Ok (), (rw, w'))" using rw(1) w'(1) by simp
  finally have "handleCreate env d v r (newResponse, w) = (Ok (), (rw, w'))" .
  moreover have "view_ok w' v" "absDelegate w' v = absDelegate w v"
    using result_okD(2,3) [OF w'(2)] result_okD(3) [OF res(1)] by auto
  moreover have "absView w' v (GVK d) = (absView w v (GVK d))(cacheKey o2 \<mapsto> SlotLive (obj w' ?a))"
    using absView_result [OF w'(2,3)] memStep_view [OF m(1) ok(1)] m(2) by simp
  ultimately show ?thesis using w'(4) m(2) reply rw(2) by auto
qed

text \<open>
  C7. What is posted can be read back: a \<open>POST\<close> to the collection of a kind answers with the stored
  object, which differs from the posted one in defaults only, and a \<open>GET\<close> of its path then answers
  with exactly that object; a sandbox leaves its delegate as it was.
\<close>

theorem post_then_get:
  assumes "view_ok w v" "d \<in> set SupportedDescriptors" "room w (Suc n)" "plain ns" "plain name"
    and "rqMethod r = ''POST''" "rqMethod r' = ''GET''"
    and "seNewObject env (GVK d) = Ok o0" "rqBody r = Ok data" "unmarshalInto (sePatcher env) data o0 = (None, o1)"
    and "mName (ometa o1) = name" "mNamespace (ometa o1) \<in> {[], ns}" "storable (GVK d) (inNamespace ns o1)"
    and enc: "\<And>doc. \<exists>data. seEncode env doc = Ok data"
  shows "\<exists>rw rw' w' o' reply.
     serveView env (viewPatterns profiling v) (collectionPath d ns) r (newResponse, w) = (Ok (), (rw, w')) \<and>
     replied rw 200 jsonHeader reply \<and> seEncode env (ObjReply o') = Ok reply \<and>
     defaulted (GVK d) (inNamespace ns o1) o' \<and> absDelegate w' v = absDelegate w v \<and>
     serveView env (viewPatterns profiling v) (objectPath d ns name) r' (newResponse, w') = (Ok (), (rw', w')) \<and>
     replied rw' 200 jsonHeader reply"
proof -
  let ?r = "r\<lparr>rqPathValues := [(''namespace'', ns)]\<rparr>"
  have ns: "ns \<noteq> []" using assms(4) by (simp add: plain_def)
  have name: "onNamespace (GetObjectName ?r d) = ns" using ns by (simp add: GetObjectName_def PathValue_def)
  have key: "cacheKey (inNamespace ns o1) = ns @ ''/'' @ name"
    using ns assms(11,12) by (auto simp: inNamespace_def name_defs)
  have post: "serveView env (viewPatterns profiling v) (collectionPath d ns) r (newResponse, w) = handleCreate env d v ?r (newResponse, w)"
    using serveView_route [of "viewPatterns profiling v" r "collectionPath d ns"] assms(6)
      collection_route [OF assms(2) disjI2 [OF assms(4)] _ covered_collection(1) [OF disjI2 [OF assms(4)]]]
      collectionAt_plain [OF assms(4)]
    by (simp add: serveHandler_def)
  have st: "storable (GVK d) (inNamespace (onNamespace (GetObjectName ?r d)) o1)" unfolding name by fact
  obtain rw w' o' reply where c: "handleCreate env d v ?r (newResponse, w) = (Ok (), (rw, w'))" "view_ok w' v"
    "defaulted (GVK d) (inNamespace ns o1) o'" "absDelegate w' v = absDelegate w v"
    "absView w' v (GVK d) = (absView w v (GVK d))(cacheKey (inNamespace ns o1) \<mapsto> SlotLive o')"
    "seEncode env (ObjReply o') = Ok reply" "replied rw 200 jsonHeader reply"
    using handleCreate_stores [OF assms(1) supported_descriptor [OF assms(2)] assms(3,8) _ assms(10) refl st enc] assms(9)
    unfolding name by auto
  have "absView w' v (GVK d) (ns @ ''/'' @ name) = Some (SlotLive o')" using c(5) key by simp
  then obtain rw' where "serveView env (viewPatterns profiling v) (objectPath d ns name) r' (newResponse, w') = (Ok (), (rw', w'))"
    "replied rw' 200 jsonHeader reply"
    using get_served [OF c(2) assms(2) disjI2 [OF assms(4)] assms(5,7) enc] c(6)
    by (auto simp: servedKey_plain collectionAt_plain assms(4) split: option.splits)
  then show ?thesis using post c by auto
qed

theorem post_then_get_witness:
  "\<exists>rw rw' w' reply.
     serveView demoEnv (viewPatterns False demoSandbox) (collectionPath PodsDescriptor ''d'') (demoRequest ''POST'' ''q'') (newResponse, demoWorld) =
       (Ok (), (rw, w')) \<and>
     serveView demoEnv (viewPatterns False demoSandbox) (objectPath PodsDescriptor ''d'' ''q'') (demoRequest ''GET'' []) (newResponse, w') =
       (Ok (), (rw', w')) \<and> replied rw' 200 jsonHeader reply"
proof -
  let ?o = "demoPod\<lparr>ometa := ometa demoPod\<lparr>mName := ''q'', mNamespace := []\<rparr>\<rparr>"
  have q: "inNamespace ''d'' ?o = demoPodQ"
    by (simp add: inNamespace_def demoPodQ_def demoPod_def)
  have st: "storable (GVK PodsDescriptor) (inNamespace ''d'' ?o)" unfolding q using demoPodQ_storable(1) by (simp add: podsGVK_def)
  have room: "room demoWorld (Suc 7)" using demo(3) by simp
  show ?thesis
    using post_then_get [OF demo(1) PodsDescriptor_supported room demo_plain(1,3) _ _ _ _ _ _ _ st,
        of "demoRequest ''POST'' ''q''" "demoRequest ''GET'' []" demoEnv _ "''q''" False]
    by (simp add: demoRequest_def demoEnv_def demoPatcher_def) blast
qed

subsection \<open>Replacing objects\<close>

text \<open>
  C37. \<open>PUT\<close> writes into the stored object: the body is decoded into the object the view handed out,
  so that a request which is refused because its body cannot be decoded still has changed it, and
  through a sandbox it is the object of the \<^emph>\<open>delegate\<close> that has changed.
\<close>

theorem put_leaks:
  assumes "view_ok w (SandboxView i v)" "d \<in> set SupportedDescriptors" "plain ns" "plain name" "rqMethod r = ''PUT''"
    and "absOwn w i (GVK d) (ns @ ''/'' @ name) = None" "absView w v (GVK d) (ns @ ''/'' @ name) = Some (SlotLive p)"
    and "rqBody r = Ok data" "unmarshalInto (sePatcher env) data p = (Some e, p')" "isRuntimeObject p'"
    and enc: "\<And>doc. \<exists>data. seEncode env doc = Ok data"
  shows "\<exists>rw reply w' a.
     serveView env (viewPatterns profiling (SandboxView i v)) (objectPath d ns name) r (newResponse, w) = (Ok (), (rw, w')) \<and>
     replied rw 400 [] reply \<and> GetObject v (GVK d) (pathName ns name) w' = Ok a \<and> obj w' a = p'"
proof -
  let ?r = "r\<lparr>rqPathValues := [(''namespace'', ns), (''name'', name)]\<rparr>"
  have g: "supported (GVK d)" using supported_descriptor [OF assms(2)] .
  have "ns \<noteq> []" using assms(3) by (simp add: plain_def)
  then have n: "GetObjectName ?r d = pathName ns name" "objectNameString (pathName ns name) = ns @ ''/'' @ name"
    by (simp_all add: GetObjectName_path pathName_def objectNameString_def)
  have vok: "view_ok w v" using assms(1) by simp
  obtain a where a: "GetObject v (GVK d) (pathName ns name) w = Ok a" "obj w a = p"
    using GetObject_abs [OF vok g, of "pathName ns name"] assms(7) n(2) by auto
  have own: "GetObject (SandboxView i v) (GVK d) (pathName ns name) w = Ok a"
    using getStoreObject_abs [OF assms(1) g, of "pathName ns name"] assms(6) a(1) n(2) by simp
  let ?w = "onWMem (wr a p') w"
  obtain reply where "seEncode env (StatusReply (ErrStatus BadRequestReason)) = Ok reply" using enc by blast
  from sendStatus_new [OF this, of 400 ?w] obtain rw where rw: "sendStatus env 400 BadRequestReason (newResponse, ?w) = (Ok (), (rw, ?w))"
    "replied rw 400 [] reply" by blast
  have "serveView env (viewPatterns profiling (SandboxView i v)) (objectPath d ns name) r (newResponse, w) =
      handlePut env d (SandboxView i v) ?r (newResponse, w)"
    using serveView_route [of "viewPatterns profiling (SandboxView i v)" r "objectPath d ns name"] assms(5)
      object_route [OF assms(2) disjI2 [OF assms(3)] assms(4) _ covered_object(3) [OF disjI2 [OF assms(3)] assms(4)]]
      collectionAt_plain [OF assms(3)] plain_not_slash(2) [OF assms(3)]
    by (simp add: serveHandler_def)
  also have "\<dots> = (Ok (), (rw, ?w))"
    using own n(1) a(2) assms(8,9) rw(1)
    by (simp add: handlePut_def readBodyIntoObj_def handleBadRequest_def Let_def del: GetObject.simps)
  finally have "serveView env (viewPatterns profiling (SandboxView i v)) (objectPath d ns name) r (newResponse, w) = (Ok (), (rw, ?w))" .
  moreover have "GetObject v (GVK d) (pathName ns name) ?w = Ok a" by (rule GetObject_onWMem [OF assms(10) a(1)])
  moreover have "obj ?w a = p'" by (simp add: obj_def onWMem_def)
  ultimately show ?thesis using rw(2) by blast
qed

text \<open>A decoder that writes the name and then fails.\<close>

definition demoBadEnv :: server_env where
  "demoBadEnv = demoEnv\<lparr>sePatcher := demoPatcher\<lparr>unmarshalInto :=
     (\<lambda>doc o'. (Some (Plain ''bad''), o'\<lparr>ometa := ometa o'\<lparr>mName := doc\<rparr>\<rparr>))\<rparr>\<rparr>"

theorem put_leaks_witness:
  "\<exists>rw reply w' a.
     serveView demoBadEnv (viewPatterns False demoSandbox) (objectPath PodsDescriptor ''d'' ''p'') (demoRequest ''PUT'' ''x'') (newResponse, demoWorld) =
       (Ok (), (rw, w')) \<and> replied rw 400 [] reply \<and>
     GetObject demoBase podsGVK podName w' = Ok a \<and> mName (ometa (obj w' a)) = ''x''"
proof -
  obtain p where p: "absDelegate demoWorld demoSandbox podsGVK = [''d/p'' \<mapsto> SlotLive p]" "defaulted podsGVK demoPod p"
    using demo_pod by metis
  let ?p' = "p\<lparr>ometa := ometa p\<lparr>mName := ''x''\<rparr>\<rparr>"
  have base: "absView demoWorld demoBase (GVK PodsDescriptor) (''d'' @ ''/'' @ ''p'') = Some (SlotLive p)"
    using p(1) by (simp add: demoSandbox_def podsGVK_def)
  have run: "isRuntimeObject ?p'"
    using defaulted_simps(3) [OF p(2)] demoPod_storable(4) by (simp add: isRuntimeObject_def)
  have own: "absOwn demoWorld 1 (GVK PodsDescriptor) (''d'' @ ''/'' @ ''p'') = None" using demo(6) by simp
  have un: "unmarshalInto (sePatcher demoBadEnv) ''x'' p = (Some (Plain ''bad''), ?p')"
    by (simp add: demoBadEnv_def demoEnv_def demoPatcher_def)
  have "\<exists>data. seEncode demoBadEnv doc = Ok data" for doc by (simp add: demoBadEnv_def demoEnv_def)
  then obtain rw reply w' a where
    "serveView demoBadEnv (viewPatterns False (SandboxView 1 demoBase)) (objectPath PodsDescriptor ''d'' ''p'') (demoRequest ''PUT'' ''x'') (newResponse, demoWorld) = (Ok (), (rw, w'))"
    "replied rw 400 [] reply" "GetObject demoBase (GVK PodsDescriptor) (pathName ''d'' ''p'') w' = Ok a" "obj w' a = ?p'"
    using put_leaks [OF demo(1) [unfolded demoSandbox_def] PodsDescriptor_supported demo_plain(1,2) _ own base _ un run,
        of "demoRequest ''PUT'' ''x''" False]
    by (auto simp: demoRequest_def)
  then show ?thesis unfolding demoSandbox_def podsGVK_def podName_def pathName_def by (metis (no_types, lifting) kobj.select_convs(2) kobj.update_convs(2) object_meta.select_convs(1) object_meta.update_convs(1) kobj.surjective object_meta.surjective)
qed

end
