(* ===== verification/RootProps.thy ===== *)
theory RootProps
  imports ServerProps
begin

text \<open>
  The server as a whole: the root multiplexer after construction and start, which view a path
  belongs to, and sandbox views on request, with three places where the server departs from its
  documentation.
\<close>

declare map_of_eq_Some_iff [simp del] Some_eq_map_of_iff [simp del]

subsection \<open>The root multiplexer\<close>

definition rootPatterns :: "(pattern \<times> root_handler) list" where
  "rootPatterns = [(pat ''GET'' (coreSegs [Multi []]), RAPIResources SupportedCoreAPIResourceList),
     (pat ''POST'' [Lit ''views'', Wild ''name''], RCreateSandboxView)]"

definition viewEntry :: "bool \<Rightarrow> string \<Rightarrow> view \<Rightarrow> pattern \<times> root_handler" where
  "viewEntry profiling nm v = (pat [] [Lit nm, Multi []], RView nm (viewPatterns profiling v))"

lemma rootRoutes: "handleAll [(''GET /api/v1/'', RAPIResources SupportedCoreAPIResourceList), (''POST /views/{name}'', RCreateSandboxView)] [] = Ok rootPatterns"
proof -
  have "plain ''views''" by (simp add: plain_def)
  then have "handleAll (printed rootPatterns) [] = Ok ([] @ rootPatterns)"
    by (intro handleAll_printed) (auto simp: rootPatterns_def wfPattern_def literal_plain conflict_simps)
  then show ?thesis by (simp add: rootPatterns_def patString_def)
qed

lemma viewEntry_pattern: "plain nm \<Longrightarrow> parsePattern (''/'' @ nm @ ''/'') = Ok (fst (viewEntry profiling nm v))"
  using parsePattern_patString [of "pat [] [Lit nm, Multi []]"] by (simp add: wfPattern_def patString_def viewEntry_def)

lemma viewEntry_compatible:
  "\<not> list_ex (\<lambda>(q, _). conflictsWith (fst (viewEntry profiling nm v)) q) rootPatterns"
  by (cases "nm = ''api''"; cases "nm = ''views''") (simp_all add: rootPatterns_def viewEntry_def conflict_simps)

lemma registerRoutes_root:
  assumes "svRootMux k = rootPatterns" "plain (vName (vs w v))"
  shows "registerRoutes v (k, w) = (Ok (), (k\<lparr>svRootMux := rootPatterns @ [viewEntry (cfgProfilingEnabled (svCfg k)) (vName (vs w v)) v]\<rparr>, w))"
  using assms viewEntry_compatible [of "cfgProfilingEnabled (svCfg k)" "vName (vs w v)" v]
  by (simp add: registerRoutes_def handleAll_viewRoutes Handle_def viewEntry_pattern [of _ "cfgProfilingEnabled (svCfg k)" v, simplified])
    (simp add: viewEntry_def)

text \<open>The names of views never change.\<close>

lemma addChange_vName [simp]: "vName (wViews (addChange v n w) j) = vName (wViews w j)"
  by (simp add: addChange_def setView_def vs_def)

lemma withStore_vName: "vName (wViews (snd (withStore v g f w)) j) = vName (wViews w j)"
  by (auto simp: withStore_def GetResourceStore_def putStore_def setView_def vs_def split: option.splits prod.splits)

lemma storeObject_vName: "vName (wViews (snd (storeObject v g a opts w)) j) = vName (wViews w j)"
proof -
  have "vName (wViews (snd (defaultName a w)) j) = vName (wViews w j)"
    by (auto simp: defaultName_def Let_def split: prod.splits)
  moreover have "wViews (defaultGVK a g (defaultUID a (defaultCreationTimestamp a w))) = wViews w" for w
    by (auto simp: defaultGVK_def defaultUID_def defaultCreationTimestamp_def onWMem_def split: prod.splits)
  ultimately show ?thesis
    unfolding storeObject_def Let_def
    by (intro bindE_state [where P = "\<lambda>w'. vName (wViews w' j) = vName (wViews w j)"]) (auto simp: withStore_vName)
qed

lemma createBaseView_vName:
  assumes "createBaseView nm path w = (Ok bv, w')"
  shows "vName (vs w' bv) = nm"
proof -
  obtain bv1 w1 where nb: "NewBase nm path w = (bv1, w1)" by fastforce
  have nm: "vName (vs w1 bv1) = nm"
    using nb by (auto simp: NewBase_def newViewState_def setView_def vs_def split: prod.splits)
  obtain a m where al: "alloc defaultNamespaceObj (wMem w1) = (a, m)" by fastforce
  have "bindE (CreateObject bv1 (GVK NamespacesDescriptor) a noOpts (w1\<lparr>wMem := m\<rparr>)) (\<lambda>_ w. (Ok bv1, w)) = (Ok bv, w')"
    using assms unfolding createBaseView_def nb Let_def prod.case al by simp
  then obtain x where "CreateObject bv1 (GVK NamespacesDescriptor) a noOpts (w1\<lparr>wMem := m\<rparr>) = (Ok x, w')" "bv = bv1"
    unfolding bindE_eq_Ok by blast
  then show ?thesis
    using nm storeObject_vName [of bv1 "GVK NamespacesDescriptor" a noOpts "w1\<lparr>wMem := m\<rparr>"]
    by (simp add: CreateObject_def vs_def)
qed

lemma NewUsingViews_eq:
  "NewUsingViews cfg va w = (Ok \<lparr>svCfg = setMinKAPIConfigDefaults cfg, svAccess = va, svRootMux = rootPatterns,
     svKapiURL = ''http://'' @ cfgBindAddress (setMinKAPIConfigDefaults cfg) @ ''/'' @ cfgBasePrefix (setMinKAPIConfigDefaults cfg),
     svAddr = cfgBindAddress (setMinKAPIConfigDefaults cfg), svListenerAddr = [], svFiles = [], svRunning = False\<rparr>, w)"
  by (simp only: NewUsingViews_def rootRoutes Let_def bindO_simps)

lemma New_facts:
  assumes "New cfg w = (Ok k, w')"
  shows "svRootMux k = rootPatterns" "vName (vs w' (GetBaseView k)) = ''base''" "svCfg k = setMinKAPIConfigDefaults cfg"
    "svKapiURL k = ''http://'' @ cfgBindAddress (svCfg k) @ ''/'' @ cfgBasePrefix (svCfg k)"
proof -
  obtain va where va: "NewAccess DefaultBasePrefix (cfgKubeConfigPath cfg) w = (Ok va, w')" "fst (NewUsingViews cfg va w') = Ok k"
    using assms by (auto simp: New_def NewUsingViews_eq bindE_eq_Ok)
  then show "svRootMux k = rootPatterns" "svCfg k = setMinKAPIConfigDefaults cfg"
    "svKapiURL k = ''http://'' @ cfgBindAddress (svCfg k) @ ''/'' @ cfgBasePrefix (svCfg k)"
    by (auto simp: NewUsingViews_eq)
  have "svAccess k = va" using va(2) by (auto simp: NewUsingViews_eq)
  moreover obtain bv where "createBaseView DefaultBasePrefix (cfgKubeConfigPath cfg) w = (Ok bv, w')" "va = \<lparr>vaBaseView = bv, vaSandboxViews = []\<rparr>"
    using va(1) by (auto simp: NewAccess_def bindE_eq_Ok split: prod.splits)
  ultimately show "vName (vs w' (GetBaseView k)) = ''base''"
    using createBaseView_vName by (auto simp: GetBaseView_def DefaultBasePrefix_def)
qed

lemma onFiles_simps [simp]:
  "svRootMux (fst (snd (onFiles f s))) = svRootMux (fst s)" "svKapiURL (fst (snd (onFiles f s))) = svKapiURL (fst s)"
  "svCfg (fst (snd (onFiles f s))) = svCfg (fst s)" "svAccess (fst (snd (onFiles f s))) = svAccess (fst s)"
  "snd (snd (onFiles f s)) = snd s"
  by (simp_all add: onFiles_def split_beta)

lemma snd_wrapWith [simp]: "snd (wrapWith t r) = snd r"
  by (simp add: wrapWith_def)

text \<open>What the steps after the registration keep: routes, address and configuration.\<close>

definition sameServer :: "server \<Rightarrow> server \<Rightarrow> bool" where
  "sameServer k k' \<longleftrightarrow> svRootMux k' = svRootMux k \<and> svKapiURL k' = svKapiURL k \<and> svCfg k' = svCfg k \<and> svAccess k' = svAccess k"

lemma sameServer_files: "wrapWith t (onFiles f s) = (r, s') \<Longrightarrow> sameServer (fst s) (fst s') \<and> snd s' = snd s"
  using onFiles_simps [of f s] snd_wrapWith [of t "onFiles f s"] by (simp add: sameServer_def)

lemma StartListening_facts:
  assumes "New cfg w = (Ok k, w1)" "StartListening h (k, w1) = (Ok (), (k', w2))"
  shows "svRootMux k' = rootPatterns @ [viewEntry (cfgProfilingEnabled (svCfg k)) ''base'' (GetBaseView k)]"
    "svKapiURL k' = svKapiURL k" "svCfg k' = svCfg k"
proof -
  have base: "plain ''base''" by (simp add: plain_def)
  show "svRootMux k' = rootPatterns @ [viewEntry (cfgProfilingEnabled (svCfg k)) ''base'' (GetBaseView k)]"
    "svKapiURL k' = svKapiURL k" "svCfg k' = svCfg k"
  proof -
    let ?k = "k\<lparr>svRootMux := rootPatterns @ [viewEntry (cfgProfilingEnabled (svCfg k)) ''base'' (GetBaseView k)]\<rparr>"
    have reg: "registerRoutes (GetBaseView k) (k, w1) = (Ok (), (?k, w1))"
      using registerRoutes_root [OF New_facts(1) [OF assms(1)], of w1 "GetBaseView k"] New_facts(2) [OF assms(1)] base by simp
    have "sameServer ?k k'"
      using assms(2) reg
      by (simp add: StartListening_def Let_def bindE_eq_Ok) (force dest!: sameServer_files simp: sameServer_def)
    then show "svRootMux k' = rootPatterns @ [viewEntry (cfgProfilingEnabled (svCfg k)) ''base'' (GetBaseView k)]"
      "svKapiURL k' = svKapiURL k" "svCfg k' = svCfg k" by (simp_all add: sameServer_def)
  qed
qed

subsection \<open>Requests at the root\<close>

lemma treePath_slash: "list_all plain path \<Longrightarrow> treePath (path @ [[]]) = path @ [''/'']"
  by (induction path rule: treePath.induct) (auto simp: plain_def pathUnescape_def unescape_plain)

text \<open>The view a path belongs to: the first segment names it.\<close>

lemma findHandler_view:
  assumes "plain nm" "nm \<notin> {''api'', ''views''}" "list_all plain rest" "rest \<noteq> []" "m \<noteq> []"
  shows "findHandler (rootPatterns @ [viewEntry profiling nm v]) m (nm # rest) = Found (RView nm (viewPatterns profiling v)) []"
proof -
  let ?mux = "rootPatterns @ [viewEntry profiling nm v]"
  have match: "matchMethodAndPath ?mux m' path = Some (viewEntry profiling nm v, [])"
    if "treePath path = nm # t # ts" "m' \<noteq> []" for path m' t ts
  proof -
    have none: "matchPath (ofMethod m'' ?mux) (treePath path) [] = None" if "m'' \<noteq> []" for m''
      by (rule matchPath_None) (use that \<open>treePath path = _\<close> assms(2) in \<open>auto simp: ofMethod_iff rootPatterns_def viewEntry_def\<close>)
    have "matchPath (ofMethod [] ?mux) (treePath path) [] = Some (viewEntry profiling nm v, [] @ captures (pSegs (fst (viewEntry profiling nm v))) (treePath path))"
      by (rule matchPath_best) (use \<open>treePath path = _\<close> in \<open>auto simp: ofMethod_iff rootPatterns_def viewEntry_def\<close>)
    then show ?thesis using none that by (simp add: matchMethodAndPath_def viewEntry_def)
  qed
  have plain: "list_all plain (nm # rest)" using assms(1,3) by simp
  obtain t ts where rest: "rest = t # ts" using assms(4) by (auto simp: neq_Nil_conv)
  have "matchMethodAndPath ?mux m (nm # rest) = Some (viewEntry profiling nm v, [])"
    by (rule match) (use treePath_plain [OF plain] rest assms(5) in auto)
  moreover have "matchMethodAndPath ?mux m ((nm # rest) @ [[]]) = Some (viewEntry profiling nm v, [])"
    by (rule match) (use treePath_slash [OF plain] rest assms(5) in auto)
  moreover have "last (nm # rest) \<noteq> []" by (rule plain_last [OF plain]) simp
  ultimately show ?thesis
    using cleanPath_plain [OF plain] rest
    by (simp add: findHandler_def exactMatch_def viewEntry_def isMulti_def Let_def)
qed

lemma serve_view:
  assumes "svRootMux k = rootPatterns @ [viewEntry profiling nm v]" "plain nm" "nm \<notin> {''api'', ''views''}"
    and "list_all plain rest" "rest \<noteq> []" "rqMethod r \<noteq> []"
    and "serveView (shEnv h) (viewPatterns profiling v) rest r (newResponse, w) = (res, (rw, w'))"
  shows "serve h (nm # rest) r (k, w) = ((res, rw), (k, w'))"
  using findHandler_view [OF assms(2-6)] assms(1,2,7) by (simp add: serve_def)

lemma core_discovery_route: "findHandler (viewPatterns profiling v) ''GET'' [''api'', ''v1''] = Redirect [''api'', ''v1'', []]"
proof -
  let ?mux = "viewPatterns profiling v" and ?p = "[''api'', ''v1'']"
    and ?x = "(pat ''GET'' (coreSegs [Multi []]), HAPIResources SupportedCoreAPIResourceList)"
  have plain: "list_all plain ?p" by (simp add: literal_plain)
  have only: "y = ?x"
    if y: "y \<in> set ?mux" "covers (pSegs (fst y)) (?p @ [''/''])" "pMethod (fst y) = ''GET''" for y
  proof (cases rule: viewPatterns_cases [OF y(1)])
    case (3 d p h)
    have "plain (resourceOf d)" using descriptor_kinds 3(1) by blast
    then have "resourceOf d \<noteq> ''/''" by (rule plain_not_slash)
    then show ?thesis using 3 y(2,3) by (auto simp: resourcePatterns_def corePatterns_def groupPatterns_def split: if_splits)
  qed (use y in \<open>auto simp: fixedPatterns_def discoveryPattern_def split: if_splits\<close>)
  have none: "\<not> covers (pSegs (fst y)) ?p" if y: "y \<in> set ?mux" for y
    by (cases rule: viewPatterns_cases [OF y])
      (auto simp: fixedPatterns_def discoveryPattern_def resourcePatterns_def corePatterns_def groupPatterns_def split: if_splits)
  have "matchPath (ofMethod m ?mux) ?p [] = None" for m
    by (rule matchPath_None) (use none in \<open>auto simp: ofMethod_iff\<close>)
  then have "matchMethodAndPath ?mux ''GET'' ?p = None"
    using treePath_plain [OF plain] by (simp add: matchMethodAndPath_def)
  moreover have "matchMethodAndPath ?mux ''GET'' (?p @ [[]]) = Some (?x, captures (pSegs (fst ?x)) (treePath (?p @ [[]])))"
  proof (rule matchMethodAndPath_best)
    show "?x \<in> set ?mux" by (simp add: viewPatterns_def fixedPatterns_def)
    show "covers (pSegs (fst ?x)) (treePath (?p @ [[]]))" unfolding treePath_slash [OF plain] by simp
    show "y = ?x \<or> beats (pSegs (fst ?x)) (pSegs (fst y))"
      if "y \<in> set ?mux" "pMethod (fst y) = ''GET''" "covers (pSegs (fst y)) (treePath (?p @ [[]]))" for y
      using only [of y] that unfolding treePath_slash [OF plain] by blast
  qed simp_all
  ultimately show ?thesis
    using cleanPath_plain [OF plain] by (simp add: findHandler_def exactMatch_def isMulti_def Let_def)
qed

text \<open>
  Discovery of the core group leaves the view: a \<open>GET\<close> of \<open>/base/api/v1\<close>, the path a client asks
  for, is answered by the multiplexer of the view with a redirect to \<open>/api/v1/\<close> at the root, without
  the prefix of the view, because the prefix was stripped before.
\<close>

theorem core_discovery_leaves_view:
  assumes "New cfg w = (Ok k, w1)" "StartListening h (k, w1) = (Ok (), (k', w2))" "rqMethod r = ''GET''"
  shows "\<exists>rw. serve h [''base'', ''api'', ''v1''] r (k', w2) = ((Ok (), rw), (k', w2)) \<and>
     rsSent rw = Some (301, [(''Location'', ''/api/v1/'')])"
proof -
  note k' = StartListening_facts(1) [OF assms(1,2)]
  let ?rw = "redirectTo [''api'', ''v1'', []] newResponse"
  have "serveView (shEnv h) (viewPatterns (cfgProfilingEnabled (svCfg k)) (GetBaseView k)) [''api'', ''v1''] r (newResponse, w2) = (Ok (), (?rw, w2))"
    using core_discovery_route assms(3) by (simp add: serveView_def muxAnswer_def)
  then have "serve h (''base'' # [''api'', ''v1'']) r (k', w2) = ((Ok (), ?rw), (k', w2))"
    by (intro serve_view [OF k']) (auto simp: literal_plain assms(3), simp add: plain_def)
  moreover have "rsSent ?rw = Some (301, [(''Location'', ''/api/v1/'')])"
    by (simp add: redirectTo_def newResponse_def setHeader_def WriteHeader_def)
  ultimately show ?thesis by blast
qed

lemma findHandler_none:
  assumes "list_all plain path" "path \<noteq> []"
    and "\<And>y. y \<in> set mux \<Longrightarrow> \<not> covers (pSegs (fst y)) path \<and> \<not> covers (pSegs (fst y)) (path @ [''/''])"
  shows "findHandler mux m path = NoRoute"
proof -
  have "matchPath (ofMethod m' mux) (treePath path) [] = None" "matchPath (ofMethod m' mux) (treePath (path @ [[]])) [] = None" for m'
    unfolding treePath_plain [OF assms(1)] treePath_slash [OF assms(1)]
    by (rule matchPath_None; use assms(3) in \<open>auto simp: ofMethod_iff\<close>)+
  then show ?thesis
    using cleanPath_plain [OF assms(1,2)]
    by (auto simp: findHandler_def exactMatch_def matchMethodAndPath_def list_ex_iff Let_def)
qed

text \<open>
  The base view is always served under \<open>/base\<close>: with any other configured prefix, the URL the
  server writes into its kubeconfig has that prefix, and every request below it is answered \<open>404\<close>.
\<close>

theorem base_prefix_not_served:
  assumes "New cfg w = (Ok k, w1)" "StartListening h (k, w1) = (Ok (), (k', w2))"
    and "cfgBasePrefix cfg = pfx" "plain pfx" "pfx \<notin> {''base'', ''api'', ''views''}" "TrimSpace pfx \<noteq> []" "list_all plain rest"
  shows "svKapiURL k' = ''http://'' @ cfgBindAddress (svCfg k') @ ''/'' @ pfx \<and>
     (\<exists>rw hdr. serve h (pfx # rest) r (k', w2) = ((Ok (), rw), (k', w2)) \<and> rsSent rw = Some (404, hdr))"
proof
  note st = StartListening_facts [OF assms(1,2)] and new = New_facts(3,4) [OF assms(1)]
  have "cfgBasePrefix (setMinKAPIConfigDefaults cfg) = pfx"
    using assms(3,6) by (simp add: setMinKAPIConfigDefaults_def Let_def)
  then show "svKapiURL k' = ''http://'' @ cfgBindAddress (svCfg k') @ ''/'' @ pfx" using st(2,3) new by simp
  have "findHandler (svRootMux k') (rqMethod r) (pfx # rest) = NoRoute"
    by (rule findHandler_none) (use assms(4,5,7) st(1) in \<open>auto simp: rootPatterns_def viewEntry_def\<close>)
  then show "\<exists>rw hdr. serve h (pfx # rest) r (k', w2) = ((Ok (), rw), (k', w2)) \<and> rsSent rw = Some (404, hdr)"
    by (simp add: serve_def muxAnswer_def httpError_def Write_def WriteHeader_def newResponse_def setHeader_def Let_def)
qed

subsection \<open>Sandbox views on request\<close>

definition sandboxConfigPath :: "config \<Rightarrow> string \<Rightarrow> string" where
  "sandboxConfigPath cfg name = fileJoin (fileDir (cfgKubeConfigPath cfg)) (ProgramName @ ''-'' @ name @ ''.yaml'')"

definition sandboxConfig :: "config \<Rightarrow> string \<Rightarrow> kube_config_params" where
  "sandboxConfig cfg name = \<lparr>kcpName = name, kcpKubeConfigPath = sandboxConfigPath cfg name,
     kcpURL = ''http://'' @ cfgBindAddress cfg @ ''/'' @ name\<rparr>"

definition sandboxSchedulerConfig :: "config \<Rightarrow> string \<Rightarrow> kube_scheduler_params" where
  "sandboxSchedulerConfig cfg name = \<lparr>kspKubeConfigPath = sandboxConfigPath cfg name,
     kspKubeSchedulerConfigPath = fileJoin (fileDir (cfgKubeConfigPath cfg)) (ProgramName @ ''-'' @ name @ ''-bin-packing-scheduler-config.yaml''),
     kspQPS = 100, kspBurst = 50\<rparr>"

text \<open>The files of a sandbox can be generated; this depends on its name and the configuration only.\<close>

definition filesOk :: "server_host \<Rightarrow> config \<Rightarrow> string \<Rightarrow> bool" where
  "filesOk h cfg name \<longleftrightarrow> shParseURL h (kcpURL (sandboxConfig cfg name)) = None \<and>
     fst (GenKubeConfig h (sandboxConfig cfg name) []) = Ok () \<and>
     fst (GenKubeSchedulerConfig h (sandboxSchedulerConfig cfg name) []) = Ok ()"

lemma fst_renderToFile: "fst (renderToFile h t r p fs) = fst (renderToFile h t r p [])"
  by (auto simp: renderToFile_def split: option.splits outcome.splits)

lemma wrapFiles:
  "fst (wrapWith t (onFiles (GenKubeConfig h p) s)) = Ok () \<longleftrightarrow> fst (GenKubeConfig h p []) = Ok ()"
  "fst (wrapWith t (onFiles (GenKubeSchedulerConfig h q) s)) = Ok () \<longleftrightarrow> fst (GenKubeSchedulerConfig h q []) = Ok ()"
  using fst_renderToFile
  by (simp_all add: wrapWith_def onFiles_def split_beta GenKubeConfig_def GenKubeSchedulerConfig_def) metis+

lemma wrapped_files:
  "fst (wrapWith t (onFiles f (k, w))) = Ok () \<Longrightarrow> \<exists>k'. wrapWith t (onFiles f (k, w)) = (Ok (), (k', w)) \<and> sameServer k k'"
  by (cases "f (svFiles k)") (auto simp: wrapWith_def onFiles_def sameServer_def)

lemma Server_GetSandboxView_eq:
  assumes "GetSandboxView name (svAccess k) w = (Ok (sv, va), w1)" "filesOk h (svCfg k) name"
  shows "\<exists>k3. sameServer (k\<lparr>svAccess := va\<rparr>) k3 \<and> Server_GetSandboxView h name (k, w) =
     bindE (registerRoutes sv (k3, SetKubeConfigPath sv (sandboxConfigPath (svCfg k) name) w1)) (\<lambda>_ s. (Ok sv, s))"
proof -
  let ?k1 = "k\<lparr>svAccess := va\<rparr>"
  let ?f1 = "wrapWith ''ErrCreateView'' (onFiles (GenKubeConfig h (sandboxConfig (svCfg k) name)) (?k1, w1))"
  obtain k2 where f1: "?f1 = (Ok (), (k2, w1))" and k2: "sameServer ?k1 k2"
    using wrapped_files [of "''ErrCreateView''" "GenKubeConfig h (sandboxConfig (svCfg k) name)" ?k1 w1]
      assms(2) wrapFiles(1) unfolding filesOk_def by blast
  let ?w2 = "SetKubeConfigPath sv (sandboxConfigPath (svCfg k) name) w1"
  let ?f2 = "wrapWith ''ErrStartFailed'' (onFiles (GenKubeSchedulerConfig h (sandboxSchedulerConfig (svCfg k) name)) (k2, ?w2))"
  obtain k3 where f2: "?f2 = (Ok (), (k3, ?w2))" and k3: "sameServer k2 k3"
    using wrapped_files [of "''ErrStartFailed''" "GenKubeSchedulerConfig h (sandboxSchedulerConfig (svCfg k) name)" k2 ?w2]
      assms(2) wrapFiles(2) unfolding filesOk_def by blast
  have url: "shParseURL h (''http://'' @ cfgBindAddress (svCfg k) @ ''/'' @ name) = None"
    using assms(2) by (simp add: filesOk_def sandboxConfig_def)
  have "Server_GetSandboxView h name (k, w) = bindE (registerRoutes sv (k3, ?w2)) (\<lambda>_ s. (Ok sv, s))"
    using assms(1) f1 f2 url
    by (simp add: Server_GetSandboxView_def Let_def sandboxConfig_def sandboxConfigPath_def sandboxSchedulerConfig_def)
  moreover have "sameServer ?k1 k3" using k2 k3 by (simp add: sameServer_def)
  ultimately show ?thesis by blast
qed

lemma Server_GetSandboxView_Ok:
  assumes "Server_GetSandboxView h name (k, w) = (Ok sv, s')"
  obtains va w1 where "GetSandboxView name (svAccess k) w = (Ok (sv, va), w1)" "filesOk h (svCfg k) name"
proof -
  obtain r w1 where g: "GetSandboxView name (svAccess k) w = (r, w1)" by fastforce
  with assms obtain sv' va where r: "r = Ok (sv', va)" by (cases r) (auto simp: Server_GetSandboxView_def)
  let ?s1 = "(k\<lparr>svAccess := va\<rparr>, w1)"
  have url: "shParseURL h (kcpURL (sandboxConfig (svCfg k) name)) = None"
    using assms g r by (cases "shParseURL h (kcpURL (sandboxConfig (svCfg k) name))")
      (simp_all add: Server_GetSandboxView_def Let_def sandboxConfig_def)
  have eq: "Server_GetSandboxView h name (k, w) =
     bindE (wrapWith ''ErrCreateView'' (onFiles (GenKubeConfig h (sandboxConfig (svCfg k) name)) ?s1)) (\<lambda>_ s.
       bindE (wrapWith ''ErrStartFailed'' (onFiles (GenKubeSchedulerConfig h (sandboxSchedulerConfig (svCfg k) name))
           (fst s, SetKubeConfigPath sv' (sandboxConfigPath (svCfg k) name) (snd s)))) (\<lambda>_ s.
         bindE (registerRoutes sv' s) (\<lambda>_ s. (Ok sv', s))))"
    using g r url
    by (simp add: Server_GetSandboxView_def Let_def sandboxConfig_def sandboxConfigPath_def sandboxSchedulerConfig_def)
  obtain s2 where s2: "wrapWith ''ErrCreateView'' (onFiles (GenKubeConfig h (sandboxConfig (svCfg k) name)) ?s1) = (Ok (), s2)"
    and rest: "bindE (wrapWith ''ErrStartFailed'' (onFiles (GenKubeSchedulerConfig h (sandboxSchedulerConfig (svCfg k) name))
           (fst s2, SetKubeConfigPath sv' (sandboxConfigPath (svCfg k) name) (snd s2)))) (\<lambda>_ s.
         bindE (registerRoutes sv' s) (\<lambda>_ s. (Ok sv', s))) = (Ok sv, s')"
    using assms unfolding eq bindE_eq_Ok [where r = "wrapWith _ _"] by auto
  from rest obtain s3 where s3: "wrapWith ''ErrStartFailed'' (onFiles (GenKubeSchedulerConfig h (sandboxSchedulerConfig (svCfg k) name))
           (fst s2, SetKubeConfigPath sv' (sandboxConfigPath (svCfg k) name) (snd s2))) = (Ok (), s3)" "sv' = sv"
    unfolding bindE_eq_Ok by auto
  have "fst (GenKubeConfig h (sandboxConfig (svCfg k) name) []) = Ok ()" using wrapFiles(1) [of "''ErrCreateView''"] s2 by (metis fst_conv)
  moreover have "fst (GenKubeSchedulerConfig h (sandboxSchedulerConfig (svCfg k) name) []) = Ok ()"
    using wrapFiles(2) [of "''ErrStartFailed''"] s3(1) by (metis fst_conv)
  ultimately show thesis using that [of va w1] g r s3(2) url by (simp add: filesOk_def)
qed

lemma compareSegLists_self: "compareSegLists Equivalent ps ps m m = Equivalent"
proof (induction ps)
  case (Cons s ps)
  then show ?case by (cases s) (simp_all add: compareSegments_def)
qed simp

lemma conflict_self: "conflictsWith p p"
  by (simp add: conflictsWith_def compareMethods_def comparePaths_def compareSegLists_self)

lemma registerRoutes_Ok:
  assumes "registerRoutes v (k, w) = (Ok (), s')"
  shows "\<exists>p vh. parsePattern (''/'' @ vName (vs w v) @ ''/'') = Ok p \<and> s' = (k\<lparr>svRootMux := svRootMux k @ [(p, vh)]\<rparr>, w)"
  using assms by (auto simp: registerRoutes_def handleAll_viewRoutes Handle_def split: outcome.splits if_splits)

lemma registerRoutes_again:
  assumes "parsePattern (''/'' @ vName (vs w v) @ ''/'') = Ok p" "(p, vh) \<in> set (svRootMux k)"
  shows "registerRoutes v (k, w) = (Panic ''pattern conflicts'', (k, w))"
proof -
  have "list_ex (\<lambda>(q, _). conflictsWith p q) (svRootMux k)" using assms(2) conflict_self by (auto simp: list_ex_iff)
  then show ?thesis using assms(1) by (simp add: registerRoutes_def handleAll_viewRoutes Handle_def)
qed

text \<open>
  C38. \<open>GetSandboxView\<close> of the server is documented to create or return the view of a name; it creates
  it at most once and never returns it again: after a request for a name has succeeded, every later
  request for the same name panics, because the routes of the view are registered a second time.
\<close>

theorem sandbox_view_twice_panics:
  assumes "Server_GetSandboxView h name s = (Ok sv, s')"
  shows "\<exists>s''. Server_GetSandboxView h name s' = (Panic ''pattern conflicts'', s'')"
proof -
  obtain k w where s: "s = (k, w)" by fastforce
  obtain va w1 where g: "GetSandboxView name (svAccess k) w = (Ok (sv, va), w1)" and files: "filesOk h (svCfg k) name"
    using Server_GetSandboxView_Ok assms [unfolded s] .
  obtain k3 where k3: "sameServer (k\<lparr>svAccess := va\<rparr>) k3"
    and reg: "Server_GetSandboxView h name (k, w) = bindE (registerRoutes sv (k3, SetKubeConfigPath sv (sandboxConfigPath (svCfg k) name) w1)) (\<lambda>_ s. (Ok sv, s))"
    using Server_GetSandboxView_eq [OF g files] by blast
  let ?w3 = "SetKubeConfigPath sv (sandboxConfigPath (svCfg k) name) w1"
  have first: "registerRoutes sv (k3, ?w3) = (Ok (), s')" using assms unfolding s reg bindE_eq_Ok by auto
  obtain p vh where p: "parsePattern (''/'' @ vName (vs ?w3 sv) @ ''/'') = Ok p" and s': "s' = (k3\<lparr>svRootMux := svRootMux k3 @ [(p, vh)]\<rparr>, ?w3)"
    using registerRoutes_Ok [OF first] by blast
  let ?k4 = "k3\<lparr>svRootMux := svRootMux k3 @ [(p, vh)]\<rparr>"
  have again: "GetSandboxView name (svAccess ?k4) ?w3 = (Ok (sv, va), ?w3)"
  proof -
    have "map_of (vaSandboxViews va) name = Some sv"
      using g by (auto simp: GetSandboxView_def GetSandboxViewOverDelegate_def split: option.splits prod.splits outcome.splits)
    then show ?thesis using k3 by (simp add: GetSandboxView_def GetSandboxViewOverDelegate_def sameServer_def)
  qed
  have "filesOk h (svCfg ?k4) name" using files k3 by (simp add: sameServer_def)
  from Server_GetSandboxView_eq [OF again this] obtain k5 where k5: "sameServer (?k4\<lparr>svAccess := va\<rparr>) k5"
    "Server_GetSandboxView h name (?k4, ?w3) =
      bindE (registerRoutes sv (k5, SetKubeConfigPath sv (sandboxConfigPath (svCfg ?k4) name) ?w3)) (\<lambda>_ s. (Ok sv, s))"
    by blast
  have "vName (vs (SetKubeConfigPath sv (sandboxConfigPath (svCfg ?k4) name) ?w3) sv) = vName (vs ?w3 sv)"
    by (simp add: SetKubeConfigPath_def setView_def vs_def)
  then show ?thesis
    using k5 registerRoutes_again [of _ sv p vh k5] p unfolding s' by (simp add: sameServer_def)
qed

subsection \<open>A concrete server\<close>

definition demoConfig :: "string \<Rightarrow> config" where
  "demoConfig pfx = \<lparr>cfgBasePrefix = pfx, cfgKubeConfigPath = ''/tmp/k.yaml'', cfgBindAddress = '':80'',
     cfgGracefulShutdownTimeout = 0, cfgProfilingEnabled = False, cfgQueueSize = 0, cfgTimeout = 0\<rparr>"

definition demoHost :: server_host where
  "demoHost = \<lparr>shEnv = demoEnv, shLoadTemplate = (\<lambda>_. None), shRenderKubeConfig = (\<lambda>p. Ok (kcpURL p)),
     shRenderSchedulerConfig = (\<lambda>p. Ok []), shWriteFile = (\<lambda>_ _. None), shParseURL = (\<lambda>_. None),
     shListen = (\<lambda>a. Ok a), shServe = None, shShutdown = None\<rparr>"

lemma createBaseView_ok:
  assumes "\<And>c. sint (counters (wMem w) c) + 9 < 2 ^ 63"
  obtains bv w' where "createBaseView nm path w = (Ok bv, w')" "view_ok w' bv" "bv = BaseView (wNext w)" "wNext w' = Suc (wNext w)"
proof -
  obtain bv w1 where nb: "NewBase nm path w = (bv, w1)" by fastforce
  note ok = NewBase_ok [OF nb]
  let ?g = "GVK NamespacesDescriptor" and ?a = "nextAddr (wMem w1)"
  define w2 where "w2 = w1\<lparr>wMem := snd (alloc defaultNamespaceObj (wMem w1))\<rparr>"
  have m: "memStep {} w1 w2" by (auto simp: memStep_def w2_def obj_def)
  have room: "room w2 (Suc 0)"
  proof -
    have "sint (counters (wMem w1) c) + 1 < 2 ^ 63" for c
      using ok(7) [rule_format, of c] assms [of c] by auto
    then show ?thesis by (simp add: room_def w2_def)
  qed
  have sup: "supported ?g" by (intro supported_descriptor) (simp add: SupportedDescriptors_def)
  have st: "storable ?g (obj w2 ?a)"
    by (simp add: w2_def obj_def storable_def defaultNamespaceObj_def isRuntimeObject_def nameOk_def emptyMeta_def emptyGVK_def)
  have un: "unheld bv ?a w2" using fresh_unheld [OF ok(1)] memStep_result(3) [OF m ok(1)] by simp
  have lt: "?a < nextAddr (wMem w2)" by (simp add: w2_def)
  obtain w' where w': "CreateObject bv ?g ?a noOpts w2 = (Ok ?a, w')" "result_ok bv ?g {?a} w2 w'"
    using CreateObject_ok [OF conjunct1 [OF memStep_view [OF m ok(1)]] sup lt un st room, of noOpts] by blast
  have "createBaseView nm path w = (Ok bv, w')"
    using w'(1) by (simp add: createBaseView_def nb split_beta w2_def Let_def)
  moreover have "wNext w' = Suc (wNext w)"
    using frameD(8) [OF result_okD(1) [OF w'(2)]] ok(6) by (simp add: w2_def)
  ultimately show thesis using that result_okD(2) [OF w'(2)] ok(5) by blast
qed

lemma demo_New:
  obtains k w1 where "New (demoConfig pfx) demoWorld0 = (Ok k, w1)" "view_ok w1 (GetBaseView k)"
    "\<forall>j \<in> set (chain (GetBaseView k)). j < wNext w1" "vaSandboxViews (svAccess k) = []"
proof -
  obtain bv w1 where bv: "createBaseView DefaultBasePrefix ''/tmp/k.yaml'' demoWorld0 = (Ok bv, w1)" "view_ok w1 bv"
    "bv = BaseView (wNext demoWorld0)" "wNext w1 = Suc (wNext demoWorld0)"
    by (rule createBaseView_ok [of demoWorld0 DefaultBasePrefix "''/tmp/k.yaml''"]) (simp add: demoWorld0_def demo_facts)
  have "\<exists>k. New (demoConfig pfx) demoWorld0 = (Ok k, w1) \<and> svAccess k = \<lparr>vaBaseView = bv, vaSandboxViews = []\<rparr>"
    using bv(1) by (simp add: New_def NewAccess_def demoConfig_def NewUsingViews_eq)
  then show thesis using that bv by (auto simp: GetBaseView_def)
qed

lemma demo_Start:
  assumes "New (demoConfig pfx) demoWorld0 = (Ok k, w1)"
  obtains k' w2 where "StartListening demoHost (k, w1) = (Ok (), (k', w2))"
proof -
  have "plain (vName (vs w1 (GetBaseView k)))" using New_facts(2) [OF assms] by (simp add: plain_def)
  from registerRoutes_root [OF New_facts(1) [OF assms] this] show thesis
    using that by (auto simp: StartListening_def demoHost_def onFiles_def wrapWith_def GenKubeConfig_def
        GenKubeSchedulerConfig_def renderToFile_def split_beta Let_def)
qed

theorem core_discovery_leaves_view_witness:
  "\<exists>s rw. serve demoHost [''base'', ''api'', ''v1''] (demoRequest ''GET'' []) s = ((Ok (), rw), s) \<and>
     rsSent rw = Some (301, [(''Location'', ''/api/v1/'')])"
proof -
  obtain k w1 where new: "New (demoConfig ''base'') demoWorld0 = (Ok k, w1)" using demo_New .
  obtain k' w2 where start: "StartListening demoHost (k, w1) = (Ok (), (k', w2))" using demo_Start [OF new] .
  show ?thesis using core_discovery_leaves_view [OF new start, of "demoRequest ''GET'' []"] by (auto simp: demoRequest_def)
qed

theorem base_prefix_not_served_witness:
  "\<exists>k' w2 rw hdr. svKapiURL k' = ''http://:80/mink'' \<and>
     serve demoHost [''mink'', ''api''] (demoRequest ''GET'' []) (k', w2) = ((Ok (), rw), (k', w2)) \<and> rsSent rw = Some (404, hdr)"
proof -
  obtain k w1 where new: "New (demoConfig ''mink'') demoWorld0 = (Ok k, w1)" using demo_New .
  obtain k' w2 where start: "StartListening demoHost (k, w1) = (Ok (), (k', w2))" using demo_Start [OF new] .
  have "cfgBindAddress (svCfg k') = '':80''"
    using StartListening_facts(3) [OF new start] New_facts(3) [OF new]
    by (simp add: setMinKAPIConfigDefaults_def demoConfig_def Let_def TrimSpace_def isSpace_def)
  moreover have "plain ''mink''" "list_all plain [''api'']" "TrimSpace ''mink'' \<noteq> []"
    by (simp_all add: plain_def TrimSpace_def isSpace_def)
  moreover have "cfgBasePrefix (demoConfig ''mink'') = ''mink''" by (simp add: demoConfig_def)
  ultimately show ?thesis
    using base_prefix_not_served [OF new start, of "''mink''" "[''api'']" "demoRequest ''GET'' []"] by auto
qed

theorem sandbox_view_twice_panics_witness:
  "\<exists>s sv s' s''. Server_GetSandboxView demoHost ''s'' s = (Ok sv, s') \<and>
     Server_GetSandboxView demoHost ''s'' s' = (Panic ''pattern conflicts'', s'')"
proof -
  obtain k w1 where new: "New (demoConfig ''base'') demoWorld0 = (Ok k, w1)" and ok: "view_ok w1 (GetBaseView k)"
    "\<forall>j \<in> set (chain (GetBaseView k)). j < wNext w1" "vaSandboxViews (svAccess k) = []" using demo_New .
  obtain w2 where ns: "NewSandbox (GetBaseView k) ''s'' w1 = (Ok (SandboxView (wNext w1) (GetBaseView k)), w2)"
    using NewSandbox_ok [OF ok(1,2), of "''s''"] .
  let ?sv = "SandboxView (wNext w1) (GetBaseView k)"
  have nm: "vName (vs w2 ?sv) = ''s''"
    using ns by (auto simp: NewSandbox_def newViewState_def setView_def vs_def bindE_eq_Ok)
  obtain va where g: "GetSandboxView ''s'' (svAccess k) w1 = (Ok (?sv, va), w2)"
    using ns ok(3) by (simp add: GetSandboxView_def GetSandboxViewOverDelegate_def GetBaseView_def)
  have "filesOk demoHost (svCfg k) ''s''"
    by (simp add: filesOk_def demoHost_def GenKubeConfig_def GenKubeSchedulerConfig_def renderToFile_def)
  from Server_GetSandboxView_eq [OF g this] obtain k3 where k3: "sameServer (k\<lparr>svAccess := va\<rparr>) k3"
    "Server_GetSandboxView demoHost ''s'' (k, w1) =
      bindE (registerRoutes ?sv (k3, SetKubeConfigPath ?sv (sandboxConfigPath (svCfg k) ''s'') w2)) (\<lambda>_ s. (Ok ?sv, s))" by blast
  have "svRootMux k3 = rootPatterns" using k3(1) New_facts(1) [OF new] by (simp add: sameServer_def)
  moreover have "plain (vName (vs (SetKubeConfigPath ?sv (sandboxConfigPath (svCfg k) ''s'') w2) ?sv))"
    using nm by (simp add: SetKubeConfigPath_def setView_def vs_def plain_def)
  ultimately have "\<exists>s'. Server_GetSandboxView demoHost ''s'' (k, w1) = (Ok ?sv, s')"
    using k3(2) registerRoutes_root by simp
  then show ?thesis using sandbox_view_twice_panics by blast
qed

end
