(* ===== verification/WatchProps.thy ===== *)
theory WatchProps
  imports Watching ViewProps
begin

text \<open>
  Watching through a chain of views: the replay at the start of a watch is what the view shows, and
  a combined watcher, which does not filter, also shows what the view hides.
\<close>

declare map_of_eq_Some_iff [simp del] Some_eq_map_of_iff [simp del]

subsection \<open>Receiving everything\<close>

text \<open>A callback that collects the events it lets pass.\<close>

definition collects :: "world \<Rightarrow> watch_event list world_callback \<Rightarrow> (watch_event \<Rightarrow> bool) \<Rightarrow> bool" where
  "collects w cb P \<longleftrightarrow> (\<forall>ev u. cb w ev u = (None, if P ev then u @ [ev] else u))"

text \<open>A source of a watch whose events are all to be delivered.\<close>

definition ready :: "64 word \<Rightarrow> string \<Rightarrow> selector \<Rightarrow> world \<Rightarrow> watch_event list watch_src \<Rightarrow> (watch_event \<Rightarrow> bool) \<Rightarrow> bool" where
  "ready sv ns sel w src P \<longleftrightarrow> collects w (wsCallback src) P \<and> (wsEnded src = None \<or> wsChan src = []) \<and>
     (\<forall>ev \<in> set (wsChan src). shouldSkipObject (snd ev) sv ns sel = Ok False)"

definition passing :: "watch_event list watch_src list \<Rightarrow> (watch_event \<Rightarrow> bool) list \<Rightarrow> watch_event set" where
  "passing srcs Ps = (\<Union>k<length srcs. {ev \<in> set (wsChan (srcs ! k)). (Ps ! k) ev})"

lemma srcMove_ready:
  assumes "ready sv ns sel w src P" "srcMove sv ns sel t Receive w src u = (src', u')"
  shows "ready sv ns sel w src' P" "wsChan src' = tl (wsChan src)"
    "set u' \<union> {ev \<in> set (wsChan src'). P ev} = set u \<union> {ev \<in> set (wsChan src). P ev}"
  using assms
  by (cases "wsEnded src"; cases "wsChan src"; auto simp: srcMove_def ready_def collects_def split: if_splits)+

lemma watchMoves_collect:
  assumes "length Ps = length srcs" "\<And>k. k < length srcs \<Longrightarrow> ready sv ns sel w (srcs ! k) (Ps ! k)"
    and "\<And>k. k < length srcs \<Longrightarrow> length (wsChan (srcs ! k)) \<le> count_list ks k"
  shows "set (snd (watchMoves sv ns sel t (map (\<lambda>k. Move k Receive w) ks) srcs u)) = set u \<union> passing srcs Ps"
  using assms
proof (induction ks arbitrary: srcs t u)
  case Nil
  then show ?case by (auto simp: passing_def)
next
  case (Cons k ks)
  show ?case
  proof (cases "k < length srcs")
    case False
    have "length (wsChan (srcs ! j)) \<le> count_list ks j" if "j < length srcs" for j
      using Cons.prems(3) [OF that] False that by (auto split: if_splits)
    then show ?thesis using False Cons.IH [OF Cons.prems(1,2)] by simp
  next
    case True
    obtain src' u' where m: "srcMove sv ns sel t Receive w (srcs ! k) u = (src', u')" by fastforce
    note r = srcMove_ready [OF Cons.prems(2) [OF True] m]
    let ?srcs = "srcs[k := src']"
    have "set (snd (watchMoves sv ns sel (Suc t) (map (\<lambda>k. Move k Receive w) ks) ?srcs u')) = set u' \<union> passing ?srcs Ps"
    proof (rule Cons.IH)
      show "length Ps = length ?srcs" using Cons.prems(1) by simp
      show "ready sv ns sel w (?srcs ! j) (Ps ! j)" if "j < length ?srcs" for j
        using that r(1) Cons.prems(2) [of j] by (cases "j = k") auto
      show "length (wsChan (?srcs ! j)) \<le> count_list ks j" if "j < length ?srcs" for j
        using that r(2) Cons.prems(3) [of j] True by (cases "j = k") (auto split: if_splits)
    qed
    also have "\<dots> = set u \<union> passing srcs Ps"
    proof -
      have split: "passing xs Ps = {ev \<in> set (wsChan (xs ! k)). (Ps ! k) ev} \<union>
          (\<Union>j \<in> {..<length xs} - {k}. {ev \<in> set (wsChan (xs ! j)). (Ps ! j) ev})" if "k < length xs" for xs
        using that unfolding passing_def by blast
      show ?thesis using split [of srcs] split [of ?srcs] True r(3) by auto
    qed
    finally show ?thesis using True m by simp
  qed
qed

subsection \<open>What a watch replays\<close>

definition watched :: "64 word \<Rightarrow> string \<Rightarrow> selector \<Rightarrow> kobj \<Rightarrow> bool" where
  "watched sv ns sel o' \<longleftrightarrow> (ns = [] \<or> mNamespace (ometa o') = ns) \<and> sel (mLabels (ometa o')) \<and> sint sv < sint (versionOf o')"

definition notShutDown :: "world \<Rightarrow> view \<Rightarrow> gvk \<Rightarrow> bool" where
  "notShutDown w v g \<longleftrightarrow> (\<forall>j \<in> set (chain v). \<forall>st. vStores (wViews w j) g = Some st \<longrightarrow> \<not> shutDown st)"

lemma startWatch_ready:
  assumes "view_ok w v" "supported g" "notShutDown w v g" "collects w cb P"
  shows "ready sv ns sel w (startWatch sv ns sel v g cb w) P"
    "{ev \<in> set (wsChan (startWatch sv ns sel v g cb w)). P ev} =
       {(Added, o') | o' k. absOwn w (viewId v) g k = Some (SlotLive o') \<and> watched sv ns sel o' \<and> P (Added, o')}"
proof -
  obtain st where st: "vStores (vs w v) g = Some st" "GetResourceStore v g w = Ok st" "store_inv (wMem w, st)"
    "absOwn w (viewId v) g = absStore (wMem w, st)"
    using GetResourceStore_own [OF assms(1,2)] .
  have up: "\<not> shutDown st" using assms(3) st(1) by (auto simp: notShutDown_def vs_def)
  note b = buildPending_eq [OF st(3), where sv = sv and ns = ns and sel = sel]
  have src: "startWatch sv ns sel v g cb w = \<lparr>wsCallback = cb, wsChan = map (Pair Added) (pendingObjs sv ns sel (wMem w, st)), wsEnded = None\<rparr>"
    using st(2) up b(1) by (simp add: startWatch_def readStore_def)
  show "ready sv ns sel w (startWatch sv ns sel v g cb w) P"
    using assms(4) b(2) by (auto simp: src ready_def)
  have "set (pendingObjs sv ns sel (wMem w, st)) = {o'. \<exists>k. absOwn w (viewId v) g k = Some (SlotLive o') \<and> watched sv ns sel o'}"
    using absStore_live_iff [OF st(3)] by (auto simp: pendingObjs_def watched_def st(4) liveAddrs_iff [OF st(3)])
  then show "{ev \<in> set (wsChan (startWatch sv ns sel v g cb w)). P ev} =
       {(Added, o') | o' k. absOwn w (viewId v) g k = Some (SlotLive o') \<and> watched sv ns sel o' \<and> P (Added, o')}"
    by (auto simp: src)
qed

text \<open>The sandbox lets pass only the names it knows nothing of.\<close>

lemma delegateCallback_collects:
  assumes "view_ok w v" "supported g" "collects w cb P"
  shows "collects w (delegateCallback v g cb) (\<lambda>ev. P ev \<and> absOwn w (viewId v) g (cacheKey (snd ev)) = None)"
proof -
  have "delegateCallback v g cb w ev u = (None, if P ev \<and> absOwn w (viewId v) g (cacheKey (snd ev)) = None then u @ [ev] else u)" for ev u
    using getStoreObject_abs [OF assms(1,2), of "CacheName (snd ev)"] assms(3)
    by (cases ev) (auto simp: delegateCallback_def collects_def split: option.splits slot.splits)
  then show ?thesis by (simp add: collects_def)
qed

lemma WatchObjects_ready:
  assumes "view_ok w v" "supported g" "notShutDown w v g" "collects w cb P"
  shows "\<exists>Ps. length Ps = length (WatchObjects sv ns sel v g cb w) \<and>
     (\<forall>k < length Ps. ready sv ns sel w (WatchObjects sv ns sel v g cb w ! k) (Ps ! k)) \<and>
     passing (WatchObjects sv ns sel v g cb w) Ps =
       {(Added, o') | o' k. absView w v g k = Some (SlotLive o') \<and> watched sv ns sel o' \<and> P (Added, o')}"
  using assms
proof (induction v arbitrary: cb P)
  case (BaseView i)
  note r = startWatch_ready [OF BaseView.prems, of sv ns sel]
  show ?case by (rule exI [of _ "[P]"]) (use r in \<open>simp add: passing_def lessThan_Suc\<close>)
next
  case (SandboxView i d)
  let ?v = "SandboxView i d"
  note r = startWatch_ready [OF SandboxView.prems, of sv ns sel]
  let ?Q = "\<lambda>ev. P ev \<and> absOwn w i g (cacheKey (snd ev)) = None"
  have c: "collects w (delegateCallback ?v g cb) ?Q"
    using delegateCallback_collects [OF SandboxView.prems(1,2,4)] by simp
  have d: "view_ok w d" "notShutDown w d g" using SandboxView.prems by (auto simp: notShutDown_def)
  obtain Ps where Ps: "length Ps = length (WatchObjects sv ns sel d g (delegateCallback ?v g cb) w)"
    "\<forall>k < length Ps. ready sv ns sel w (WatchObjects sv ns sel d g (delegateCallback ?v g cb) w ! k) (Ps ! k)"
    "passing (WatchObjects sv ns sel d g (delegateCallback ?v g cb) w) Ps =
       {(Added, o') | o' k. absView w d g k = Some (SlotLive o') \<and> watched sv ns sel o' \<and> ?Q (Added, o')}"
    using SandboxView.IH [OF d(1) SandboxView.prems(2) d(2) c] by blast
  obtain st where "GetResourceStore ?v g w = Ok st" using GetResourceStore_own [OF SandboxView.prems(1,2)] .
  then have srcs: "WatchObjects sv ns sel ?v g cb w = startWatch sv ns sel ?v g cb w # WatchObjects sv ns sel d g (delegateCallback ?v g cb) w"
    by simp
  have key: "cacheKey o' = k" if "absView w d g k = Some (SlotLive o')" for k o' using absView_key(1) [OF d(1) that] .
  have "passing (x # xs) (p # ps) = {ev \<in> set (wsChan x). p ev} \<union> passing xs ps" for x xs p ps
    by (simp add: passing_def lessThan_Suc_eq_insert_0)
  then have "passing (WatchObjects sv ns sel ?v g cb w) (P # Ps) =
      {(Added, o') | o' k. absView w ?v g k = Some (SlotLive o') \<and> watched sv ns sel o' \<and> P (Added, o')}"
    using Ps(3) r(2) key unfolding srcs by (auto simp: map_add_Some_iff)
  moreover have "\<forall>k < length (P # Ps). ready sv ns sel w (WatchObjects sv ns sel ?v g cb w ! k) ((P # Ps) ! k)"
    using Ps(2) r(1) unfolding srcs by (auto simp: less_Suc_eq_0_disj)
  ultimately show ?case using Ps(1) unfolding srcs by (intro exI [of _ "P # Ps"]) simp
qed

definition collect :: "watch_event list world_callback" where
  "collect w ev u = (None, u @ [ev])"

lemma collect_collects: "collects w collect (\<lambda>_. True)"
  by (simp add: collects_def collect_def)

text \<open>
  C11. A watch of a view first replays what the view shows: however the goroutines of a chain of
  sandboxes interleave, once every pending event is received the events delivered are an \<open>Added\<close> event
  for each object the view shows as live that is in the namespace, matches the selector and is newer
  than the start version, and nothing else; objects of a delegate that a sandbox has replaced or
  deleted are left out.
\<close>

theorem watch_replays_view:
  assumes "view_ok w v" "supported g" "notShutDown w v g"
    and "\<And>k. k < length (chain v) \<Longrightarrow> length (wsChan (WatchObjects sv ns sel v g collect w ! k)) \<le> count_list ks k"
  shows "set (snd (View_WatchObjects sv ns sel v g collect w (map (\<lambda>k. Move k Receive w) ks) [])) =
     {(Added, o') | o' k. absView w v g k = Some (SlotLive o') \<and> watched sv ns sel o'}"
proof -
  obtain Ps where Ps: "length Ps = length (WatchObjects sv ns sel v g collect w)"
    "\<forall>k < length Ps. ready sv ns sel w (WatchObjects sv ns sel v g collect w ! k) (Ps ! k)"
    "passing (WatchObjects sv ns sel v g collect w) Ps = {(Added, o') | o' k. absView w v g k = Some (SlotLive o') \<and> watched sv ns sel o'}"
    using WatchObjects_ready [OF assms(1-3) collect_collects, of sv ns sel] by auto
  have "length (WatchObjects sv ns sel v g cb w) = length (chain v)" for cb :: "watch_event list world_callback"
    using assms(1,2)
  proof (induction v arbitrary: cb)
    case (SandboxView i d)
    obtain st where "GetResourceStore (SandboxView i d) g w = Ok st" using GetResourceStore_own [OF SandboxView.prems] .
    then show ?case using SandboxView by simp
  qed simp
  then show ?thesis
    using watchMoves_collect [OF Ps(1), of sv ns sel w ks 1 "[]"] Ps assms(4)
    by (simp add: View_WatchObjects_def split_beta)
qed

subsection \<open>Watchers\<close>

lemma watchLoop_sends:
  assumes "\<And>ev. ev \<in> set chan \<Longrightarrow> shouldSkipObject (snd ev) sv ns sel = Ok False"
  shows "watchLoop sv ns sel (watcherCallback (\<lambda>_. OutSent)) (replicate (length chan) Receive @ [Timeout]) chan (n, out) =
     Some (Ok (), (n + length chan, out @ chan))"
  using assms by (induction chan arbitrary: n out) (simp_all add: watcherCallback_def)

lemma storeWatcher_all:
  assumes "store_inv s" "\<not> shutDown (snd s)"
  shows "storeWatcher ps [] [] [] (replicate (length (pendingObjs 0 [] (\<lambda>_. True) s)) Receive) [] (\<lambda>_. OutSent) s =
     Ok (map (Pair Added) (pendingObjs 0 [] (\<lambda>_. True) s))"
proof -
  note b = buildPending_eq [OF assms(1), where sv = 0 and ns = "[]" and sel = "\<lambda>_. True"]
  let ?evs = "map (Pair Added) (pendingObjs 0 [] (\<lambda>_. True) s)"
  have "watchLoop 0 [] (\<lambda>_. True) (watcherCallback (\<lambda>_. OutSent)) (replicate (length ?evs) Receive @ [Timeout]) ?evs (0, []) =
      Some (Ok (), (0 + length ?evs, [] @ ?evs))"
    by (rule watchLoop_sends) (use b(2) in auto)
  then show ?thesis
    using b(1) assms(2) by (simp add: storeWatcher_def GetWatcher_def ParseResourceVersion_def Watch_def)
qed

lemma storeWatcher_none:
  assumes "store_inv s" "\<not> shutDown (snd s)"
  shows "storeWatcher ps [] [] [] [] [] sends s = Ok []"
  using buildPending_eq(1) [OF assms(1), where sv = 0 and ns = "[]" and sel = "\<lambda>_. True"] assms(2)
  by (simp add: storeWatcher_def GetWatcher_def ParseResourceVersion_def Watch_def)

lemma CombineTwoWatchers_second: "CombineTwoWatchers (replicate (length c) From2) [] c = c"
  by (induction c) simp_all

text \<open>
  C39. A watcher of a sandbox is not what its watch is: \<open>GetWatcher\<close> merges the events of the sandbox
  and of its delegate without a filter, and can announce as added an object of the delegate that the
  sandbox has deleted or replaced and that it does not show.
\<close>

theorem watcher_shows_hidden:
  assumes "view_ok w (SandboxView i (BaseView j))" "supported g" "notShutDown w (SandboxView i (BaseView j)) g"
    and "absView w (BaseView j) g k = Some (SlotLive o')" "absView w (SandboxView i (BaseView j)) g k \<noteq> Some (SlotLive o')"
  shows "\<exists>runs evs. View_GetWatcher ps [] [] [] runs (SandboxView i (BaseView j)) g w = Ok evs \<and> (Added, o') \<in> set evs"
proof -
  have base: "view_ok w (BaseView j)" and ij: "i \<noteq> j" using assms(1) by auto
  obtain st where st: "vStores (vs w (SandboxView i (BaseView j))) g = Some st" "GetResourceStore (SandboxView i (BaseView j)) g w = Ok st"
    "store_inv (wMem w, st)" using GetResourceStore_own [OF assms(1,2)] .
  obtain sb where sb: "vStores (vs w (BaseView j)) g = Some sb" "GetResourceStore (BaseView j) g w = Ok sb"
    "store_inv (wMem w, sb)" "absOwn w (viewId (BaseView j)) g = absStore (wMem w, sb)" using GetResourceStore_own [OF base assms(2)] .
  have up: "\<not> shutDown st" "\<not> shutDown sb" using assms(3) st(1) sb(1) by (auto simp: notShutDown_def vs_def)
  let ?pend = "pendingObjs 0 [] (\<lambda>_. True) (wMem w, sb)"
  define runs where "runs v = (if v = i
     then \<lparr>wrSched = [], wrLive = [], wrSends = (\<lambda>_. OutSent), wrMerge = replicate (length ?pend) From2\<rparr>
     else \<lparr>wrSched = replicate (length ?pend) Receive, wrLive = [], wrSends = (\<lambda>_. OutSent), wrMerge = []\<rparr>)" for v
  have "View_GetWatcher ps [] [] [] runs (SandboxView i (BaseView j)) g w = Ok (map (Pair Added) ?pend)"
    using storeWatcher_none [OF st(3)] storeWatcher_all [OF sb(3)] up st(2) sb(2) ij CombineTwoWatchers_second [of "map (Pair Added) ?pend"]
    by (simp add: runs_def readStore_def)
  moreover have "o' \<in> set ?pend"
    using assms(4) sb(4) absStore_live_iff [OF sb(3)] live_version(2) [OF sb(3)] by (auto simp: pendingObjs_def)
  ultimately show ?thesis by force
qed

subsection \<open>A concrete watch\<close>

text \<open>No store is shut down until a view is closed.\<close>

definition allUp :: "world \<Rightarrow> bool" where
  "allUp w \<longleftrightarrow> (\<forall>j g st. vStores (wViews w j) g = Some st \<longrightarrow> \<not> shutDown st)"

lemma allUp_notShutDown: "allUp w \<Longrightarrow> notShutDown w v g"
  by (auto simp: allUp_def notShutDown_def)

lemma newBaseStores_up:
  "newBaseStores ds stores m = (stores', m') \<Longrightarrow> (\<And>g st. stores g = Some st \<Longrightarrow> \<not> shutDown st) \<Longrightarrow>
   stores' g = Some st \<Longrightarrow> \<not> shutDown st"
proof (induction ds arbitrary: stores m)
  case (Cons d ds)
  obtain c m1 where c: "newCounter m = (c, m1)" by fastforce
  obtain s m2 where s: "createInMemStore d c m1 = (s, m2)" by fastforce
  have "\<not> shutDown s" using s by (auto simp: createInMemStore_def NewInMemResourceStore_def)
  then have "\<not> shutDown st'" if "(stores(GVK d \<mapsto> s)) g' = Some st'" for g' st'
    using that Cons.prems(2) by (auto split: if_splits)
  moreover have "newBaseStores ds (stores(GVK d \<mapsto> s)) m2 = (stores', m')" using Cons.prems(1) c s by simp
  ultimately show ?case using Cons.IH Cons.prems(3) by blast
qed auto

lemma newSandboxStores_up:
  "newSandboxStores v ds stores w = Ok stores' \<Longrightarrow> (\<And>g st. stores g = Some st \<Longrightarrow> \<not> shutDown st) \<Longrightarrow>
   stores' g = Some st \<Longrightarrow> \<not> shutDown st"
proof (induction ds arbitrary: stores)
  case (Cons d ds)
  obtain b where b: "GetResourceStore v (GVK d) w = Ok b" using Cons.prems(1) by (auto simp: bindO_eq_Ok)
  let ?s = "fst (createInMemStore d (versionCounter b) (wMem w))"
  have "\<not> shutDown ?s" by (simp add: createInMemStore_def NewInMemResourceStore_def)
  then have "\<not> shutDown st'" if "(stores(GVK d \<mapsto> ?s)) g' = Some st'" for g' st'
    using that Cons.prems(2) by (auto split: if_splits)
  moreover have "newSandboxStores v ds (stores(GVK d \<mapsto> ?s)) w = Ok stores'" using Cons.prems(1) b by simp
  ultimately show ?case using Cons.IH Cons.prems(3) by blast
qed auto

lemma withStore_up:
  assumes "allUp w" "\<And>m s. shutDown (snd (snd (f (m, s)))) = shutDown s"
  shows "allUp (snd (withStore v g f w))"
proof (cases "vStores (vs w v) g")
  case (Some s)
  then show ?thesis
    using assms by (auto simp: withStore_def GetResourceStore_def putStore_def setView_def vs_def allUp_def split_beta Let_def)
qed (use assms in \<open>simp add: withStore_def GetResourceStore_def\<close>)

lemma allUp_mem: "allUp (w\<lparr>wMem := m\<rparr>) = allUp w" "allUp (onWMem f w) = allUp w" "allUp (addChange v n w) = allUp w"
  by (auto simp: allUp_def onWMem_def addChange_def setView_def vs_def)

lemma Add_up: "shutDown (snd (snd (Add a opts s))) = shutDown (snd s)"
  by (simp add: Add_eq broadcast_def putLive_def cachePut_def stampVersion_def nextResourceVersion_def onMem_def split_beta Let_def)

lemma Delete_up: "shutDown (snd (snd (Delete n opts s))) = shutDown (snd s)"
proof -
  have "shutDown (snd (snd (deleteKey opts k s))) = shutDown (snd s)" for k
    unfolding deleteKey_def markDeleted_def DeleteByKey_def Let_def
    by (cases "MarkAsDeleted opts"; simp; intro bindE_state [where P = "\<lambda>t. shutDown (snd t) = shutDown (snd s)"])
      (auto simp: cacheDelete_def stampDeletion_def broadcast_def cachePut_def split_beta Let_def
        intro!: bindE_state [where P = "\<lambda>t. shutDown (snd t) = shutDown (snd s)"])
  then show ?thesis by (simp add: Delete_eq)
qed

lemma CreateObject_up: "allUp w \<Longrightarrow> allUp (snd (CreateObject v g a opts w))"
proof -
  assume up: "allUp w"
  have "allUp (snd (defaultName a w))" using up by (auto simp: defaultName_def Let_def allUp_mem split: prod.splits)
  moreover have "allUp (defaultGVK a g (defaultUID a (defaultCreationTimestamp a w))) = allUp w" for w
    by (auto simp: defaultGVK_def defaultUID_def defaultCreationTimestamp_def allUp_mem split: prod.splits)
  moreover have "allUp (snd (withStore v g (Add a opts) w))" if "allUp w" for w
    by (rule withStore_up [OF that]) (use Add_up in auto)
  ultimately show ?thesis
    unfolding CreateObject_def storeObject_def Let_def
    by (intro bindE_state [where P = allUp]) (auto simp: up allUp_mem)
qed

lemma DeleteObject_up:
  assumes "allUp w"
  shows "allUp (snd (DeleteObject v g n w))"
proof -
  have del: "allUp (snd (deleteAndCount v g n opts w))" if "allUp w" for v opts w
    unfolding deleteAndCount_def
    by (intro bindE_state [where P = allUp] withStore_up that) (use Delete_up in \<open>auto simp: allUp_mem\<close>)
  have copy: "allUp (snd (copyFromDelegate v d g n w))" if "allUp w" for v d w
    unfolding copyFromDelegate_def
    by (intro bindE_state [where P = allUp])
      (use that CreateObject_up in \<open>auto simp: deepCopyW_def allUp_mem split_beta Let_def\<close>)
  show ?thesis
  proof (cases v)
    case (SandboxView i d)
    then show ?thesis
      using assms del copy by (auto intro!: bindE_state [where P = allUp] split: outcome.splits)
  qed (use assms del in simp)
qed

lemma demo_up: "allUp demoWorld"
proof -
  have "allUp demoWorld0" by (simp add: allUp_def demoWorld0_def newViewState_def)
  then have "allUp demoWorld1"
    unfolding demoWorld1_def NewBase_def
    by (auto simp: allUp_def setView_def newViewState_def split: prod.splits dest: newBaseStores_up)
  then have "allUp demoWorld2" unfolding demoWorld2_def by (rule CreateObject_up)
  then show ?thesis
    unfolding demoWorld_def NewSandbox_def
    by (intro bindE_state [where P = allUp]) (auto simp: allUp_def setView_def newViewState_def dest: newSandboxStores_up)
qed

theorem watch_replays_view_witness:
  "\<exists>ks p. set (snd (View_WatchObjects 0 [] (\<lambda>_. True) demoSandbox podsGVK collect demoWorld (map (\<lambda>k. Move k Receive demoWorld) ks) [])) =
     {(Added, p)} \<and> body p = PodBody emptyPodSpec emptyPodStatus"
proof -
  let ?n = "\<lambda>k. length (wsChan (WatchObjects 0 [] (\<lambda>_. True) demoSandbox podsGVK collect demoWorld ! k))"
  let ?ks = "replicate (?n 0) 0 @ replicate (?n 1) (1 :: nat)"
  obtain p where p: "absView demoWorld demoSandbox podsGVK = [''d/p'' \<mapsto> SlotLive p]" "body p = PodBody emptyPodSpec emptyPodStatus"
    using demo_pod by metis
  have "0 < sint (versionOf p)"
  proof -
    have "absView demoWorld demoSandbox podsGVK ''d/p'' = absOwn demoWorld 0 podsGVK ''d/p''"
      using demo(6) by (simp add: demoSandbox_def demoBase_def)
    then have own: "absOwn demoWorld (viewId demoBase) podsGVK ''d/p'' = Some (SlotLive p)" using p(1) by (simp add: demoBase_def)
    obtain st where st: "store_inv (wMem demoWorld, st)" "absOwn demoWorld (viewId demoBase) podsGVK = absStore (wMem demoWorld, st)"
      using GetResourceStore_own [OF demo(2) supported_pods] .
    then show ?thesis using own absStore_live_iff [OF st(1)] live_version(2) [OF st(1)] by auto
  qed
  then have shown: "{(Added, o') | o' k. absView demoWorld demoSandbox podsGVK k = Some (SlotLive o') \<and> watched 0 [] (\<lambda>_. True) o'} = {(Added, p)}"
    using p(1) by (auto simp: watched_def split: if_splits)
  have count: "count_list (replicate n x) y = (if x = y then n else 0)" for n x and y :: nat
    by (induction n) auto
  have len: "length (chain demoSandbox) = 2" by (simp add: demoSandbox_def demoBase_def)
  have "set (snd (View_WatchObjects 0 [] (\<lambda>_. True) demoSandbox podsGVK collect demoWorld (map (\<lambda>k. Move k Receive demoWorld) ?ks) [])) =
      {(Added, o') | o' k. absView demoWorld demoSandbox podsGVK k = Some (SlotLive o') \<and> watched 0 [] (\<lambda>_. True) o'}"
    by (rule watch_replays_view [OF demo(1) supported_pods allUp_notShutDown [OF demo_up]])
      (use len in \<open>auto simp: count less_2_cases_iff\<close>)
  then have "set (snd (View_WatchObjects 0 [] (\<lambda>_. True) demoSandbox podsGVK collect demoWorld (map (\<lambda>k. Move k Receive demoWorld) ?ks) [])) =
      {(Added, p)}" unfolding shown .
  then show ?thesis by (intro exI conjI) (assumption, rule p(2))
qed

theorem watcher_shows_hidden_witness:
  "\<exists>w' runs evs p. DeleteObject demoSandbox podsGVK podName demoWorld = (Ok (), w') \<and>
     absView w' demoSandbox podsGVK ''d/p'' = Some SlotDeleted \<and>
     View_GetWatcher (\<lambda>_. Ok (\<lambda>_. True)) [] [] [] runs demoSandbox podsGVK w' = Ok evs \<and> (Added, p) \<in> set evs \<and> cacheKey p = ''d/p''"
proof -
  obtain p where p: "absView demoWorld demoSandbox podsGVK = [''d/p'' \<mapsto> SlotLive p]"
    "absDelegate demoWorld demoSandbox podsGVK = [''d/p'' \<mapsto> SlotLive p]" "cacheKey p = ''d/p''"
    using demo_pod by metis
  have room: "room demoWorld (Suc 7)" using demo(3) by simp
  show ?thesis
  proof (cases rule: DeleteObject_ok [OF demo(1) supported_pods room, of podName])
    case (1 w' A)
    have up: "allUp w'" using DeleteObject_up [OF demo_up, of demoSandbox podsGVK podName] 1(1) by simp
    have ok: "view_ok w' demoSandbox" and del: "absDelegate w' demoSandbox = absDelegate demoWorld demoSandbox"
      using result_okD(2,3) [OF 1(2)] by auto
    have gone: "absView w' demoSandbox podsGVK ''d/p'' = Some SlotDeleted"
      using 1 by (simp add: podName_key) (simp add: demoSandbox_def)
    have base: "absView w' (BaseView 0) podsGVK ''d/p'' = Some (SlotLive p)"
      using del p(2) by (simp add: demoSandbox_def demoBase_def fun_eq_iff)
    have shape: "demoSandbox = SandboxView 1 (BaseView 0)" by (simp add: demoSandbox_def demoBase_def)
    show ?thesis
      using watcher_shows_hidden [OF ok [unfolded shape] supported_pods allUp_notShutDown [OF up] base, of "\<lambda>_. Ok (\<lambda>_. True)"]
        gone 1(1) p(3) unfolding shape by auto
  qed (use p in \<open>auto simp: podName_key\<close>)
qed

end
