(* ===== verification/Service.thy ===== *)
theory Service
  imports Server Planner Launcher
begin

text \<open>
  The two processes around the server and the planner: the planner service
  \<open>src/service/internal/core/service.go\<close> with its command line \<open>src/service/cli/cli.go\<close>, and the
  command line of the API server \<open>src/minkapi/cli/cli.go\<close>, over the shared helpers of
  \<open>src/common/cliutil/cliutil.go\<close> and \<open>src/common/ioutil/ioutil.go\<close>. Parsing of flags (\<open>pflag\<close>), the
  file system and the decoders are the environment. The client's QPS and burst are carried along by
  the code and read nowhere; they are left out.
\<close>

subsection \<open>Shared helpers\<close>

definition ExitSuccess :: nat where "ExitSuccess = 0"
definition ExitErrParseOpts :: nat where "ExitErrParseOpts = 1"
definition ExitErrStart :: nat where "ExitErrStart = 2"
definition ExitErrShutdown :: nat where "ExitErrShutdown = 254"

text \<open>\<open>errors.Join\<close> drops nil errors and is nil if there is no other.\<close>

definition errorsJoin :: "goerr option list \<Rightarrow> unit outcome" where
  "errorsJoin errs = (case concat (map (case_option [] (\<lambda>e. [e])) errs) of
       [] \<Rightarrow> Ok () | es \<Rightarrow> Err (Wrapped ''joined'' es))"

record server_config =
  sfKubeConfigPath :: string
  sfBindAddress :: string
  sfGracefulShutdownTimeout :: int
  sfProfilingEnabled :: bool

definition ValidateServerConfigFlags :: "string \<Rightarrow> goerr option" where
  "ValidateServerConfigFlags bindAddress =
     (if TrimSpace bindAddress = [] then Some (argErr (Sentinel ''ErrInvalidOpt'') ''--bind-address must be specified'')
      else None)"

text \<open>\<open>GetEnvAsUint32\<close>; \<open>env\<close> is the value of the variable, \<open>parse\<close> is \<open>strconv.ParseUint(_, 10, 32)\<close>.\<close>

definition GetEnvAsUint32 :: "(string \<Rightarrow> nat outcome) \<Rightarrow> string \<Rightarrow> 32 word \<Rightarrow> 32 word" where
  "GetEnvAsUint32 parse env defaultValue =
     (if TrimSpace env = [] then defaultValue
      else case parse env of
        Ok val64 \<Rightarrow> if val64 = 0 \<or> val64 > 2 ^ 32 - 1 then defaultValue else of_nat val64
      | _ \<Rightarrow> defaultValue)"

subsection \<open>Options\<close>

record service_opts =
  soInstancePricingPath :: string
  soCloudProvider :: string
  soTraceDir :: string
  soServerConfig :: server_config
  soQueueSize :: int
  soTimeout :: int
  soSimulationConfig :: sim_config

record service_host =
  shServer :: server_host
  shParseServiceFlags :: "service_opts \<Rightarrow> string list \<Rightarrow> service_opts outcome"
  shParseServerFlags :: "config \<Rightarrow> string list \<Rightarrow> config outcome"
  shStat :: "string \<Rightarrow> (bool \<times> nat) outcome"          \<comment> \<open>\<open>IsDir\<close> and \<open>Size\<close>\<close>
  shReadFile :: "files \<Rightarrow> string \<Rightarrow> string outcome"     \<comment> \<open>after the writes of the process\<close>
  shDecodePrices :: "string \<Rightarrow> instance_price_info list outcome"
  shDecodeSchedulerConfig :: "string \<Rightarrow> unit outcome"
  shSchedulers :: "launcher_state \<Rightarrow> launcher"
  shTempDir :: string                                    \<comment> \<open>\<open>os.TempDir\<close>\<close>
  shSlashTmpDirExists :: bool

definition GetTempDir :: "service_host \<Rightarrow> string" where
  "GetTempDir h = (if shSlashTmpDirExists h then ''/tmp'' else shTempDir h)"

text \<open>The options before the command line is parsed.\<close>

definition serviceFlags :: "service_host \<Rightarrow> service_opts" where
  "serviceFlags h = \<lparr>soInstancePricingPath = [], soCloudProvider = ''aws'', soTraceDir = shTempDir h,
     soServerConfig = \<lparr>sfKubeConfigPath = [], sfBindAddress = '':8091'', sfGracefulShutdownTimeout = 10 * 10 ^ 9,
       sfProfilingEnabled = False\<rparr>,
     soQueueSize = 100, soTimeout = 5 * 60 * 10 ^ 9,
     soSimulationConfig = \<lparr>cfgMaxParallelSimulations = 1, cfgTrackPollInterval = 40 * 10 ^ 6,
       cfgMaxUnchangedTrackAttempts = 0, cfgBindVolumeClaimsForImmediateMode = False\<rparr>\<rparr>"

text \<open>After a failed \<open>os.Stat\<close> the file info is nil, and asking it whether it is a directory panics.\<close>

definition Opts_validate :: "service_host \<Rightarrow> service_opts \<Rightarrow> unit outcome" where
  "Opts_validate h opts =
     (let errs = [ValidateServerConfigFlags (sfBindAddress (soServerConfig opts)),
            if soInstancePricingPath opts = [] then Some (argErr (Sentinel ''ErrMissingOpt'') ''--pricing'') else None,
            case AsCloudProvider (soCloudProvider opts) of Err e \<Rightarrow> Some e | _ \<Rightarrow> None] in
      if soInstancePricingPath opts = [] then errorsJoin errs
      else case shStat h (soInstancePricingPath opts) of
        Err e \<Rightarrow> Panic ''nil pointer dereference''
      | Panic p \<Rightarrow> Panic p
      | Ok (isDir, sz) \<Rightarrow> errorsJoin (errs @
          [if isDir then Some (argErr (Sentinel ''ErrInvalidOptVal'') ''--pricing/-p should be a file'') else None,
           if sz = 0 then Some (argErr (Sentinel ''ErrInvalidOptVal'') ''--pricing/-p should not be empty'') else None]))"

definition ParseProgramFlags :: "service_host \<Rightarrow> string list \<Rightarrow> service_opts outcome" where
  "ParseProgramFlags h args =
     bindO (shParseServiceFlags h (serviceFlags h) args) (\<lambda>opts. bindO (Opts_validate h opts) (\<lambda>_. Ok opts))"

subsection \<open>The service\<close>

record service_config =
  pscCloudProvider :: string
  pscTraceDir :: string
  pscServerConfig :: server_config
  pscMinKAPIConfig :: config
  pscSimulatorConfig :: sim_config

record factories =
  faPlanner :: "planner_args \<Rightarrow> planner_args outcome"
  faSimulator :: "simulator_args \<Rightarrow> simulator outcome"
  faSimulation :: bool
  faResourceWeigher :: weigher

definition NewFactories :: factories where
  "NewFactories = \<lparr>faPlanner = NewPlanner, faSimulator = GetScaleOutSimulator, faSimulation = True,
     faResourceWeigher = GetWeights\<rparr>"

record planner_service =
  psCfg :: service_config
  psServer :: server
  psLauncher :: launcher_state
  psPlanner :: planner_args

definition setServiceConfigDefaults :: "service_host \<Rightarrow> service_config \<Rightarrow> service_config" where
  "setServiceConfigDefaults h cfg =
     (let cfg = (if TrimSpace (sfBindAddress (pscServerConfig cfg)) = []
                 then cfg\<lparr>pscServerConfig := (pscServerConfig cfg)\<lparr>sfBindAddress := '':8090''\<rparr>\<rparr> else cfg)
      in if pscTraceDir cfg = [] then cfg\<lparr>pscTraceDir := GetTempDir h\<rparr> else cfg)"

definition ErrServiceInitFailed :: goerr where "ErrServiceInitFailed = Sentinel ''ErrServiceInitFailed''"

text \<open>The server is the view access of the planner. The other arguments of the planner stay nil.\<close>

definition NewService :: "service_host \<Rightarrow> service_config \<Rightarrow> pricing_access \<Rightarrow> factories \<Rightarrow> world \<Rightarrow> (planner_service, world) eff" where
  "NewService h cfg pricing fs w =
     (let cfg = setServiceConfigDefaults h cfg; path = fileJoin (shTempDir h) ''embedded-scheduler-cfg.yaml'';
          (r, w) = bindE (New (pscMinKAPIConfig cfg) w) (\<lambda>k w.
            let (gen, files) = GenKubeSchedulerConfig (shServer h)
                  \<lparr>kspKubeConfigPath = cfgKubeConfigPath (pscMinKAPIConfig cfg),
                   kspKubeSchedulerConfigPath = path, kspQPS = 0, kspBurst = 0\<rparr> (svFiles k) in
            (bindO gen (\<lambda>_.
             bindO (NewLauncher (shReadFile h files path) (shDecodeSchedulerConfig h)
                      (cfgMaxParallelSimulations (pscSimulatorConfig cfg))) (\<lambda>launcher.
             bindO (faPlanner fs \<lparr>paViewAccess = Some (svAccess k), paResourceWeigher = Some (faResourceWeigher fs),
                      paPricingAccess = Some pricing, paSchedulerLauncher = Some (shSchedulers h launcher),
                      paStorageMetaAccess = None, paSimulatorFactory = None, paSimulationFactory = False,
                      paSimulatorConfig = \<lparr>cfgMaxParallelSimulations = 0, cfgTrackPollInterval = 0,
                        cfgMaxUnchangedTrackAttempts = 0, cfgBindVolumeClaimsForImmediateMode = False\<rparr>\<rparr>) (\<lambda>p.
             Ok \<lparr>psCfg = cfg, psServer = k\<lparr>svFiles := files\<rparr>, psLauncher = launcher, psPlanner = p\<rparr>))), w))
      in (wrapErr (\<lambda>e. Wrapped ''cannot initialize'' [ErrServiceInitFailed, e]) r, w))"

definition Service_Start :: "service_host \<Rightarrow> planner_service \<Rightarrow> world \<Rightarrow> (unit, planner_service \<times> world) eff" where
  "Service_Start h svc w =
     (let (r, (k, w')) = Start (shServer h) (psServer svc, w) in
      (wrapErr (\<lambda>e. Wrapped ''cannot start'' [Sentinel ''plannerapi.ErrStartFailed'', e]) r, (svc\<lparr>psServer := k\<rparr>, w')))"

definition Service_Stop :: "service_host \<Rightarrow> planner_service \<Rightarrow> world \<Rightarrow> (unit, planner_service \<times> world) eff" where
  "Service_Stop h svc w =
     (let (r, (k, w')) = Stop (shServer h) (psServer svc, w) in
      (wrapErr (\<lambda>e. Wrapped ''joined'' [e]) r, (svc\<lparr>psServer := k\<rparr>, w')))"

definition Service_Plan :: "planner_service \<Rightarrow> sim_env \<Rightarrow> (nat \<times> goerr) option \<Rightarrow> (nat \<Rightarrow> string) \<Rightarrow> Simulator.request \<Rightarrow> world
    \<Rightarrow> (Planner.response list, world) eff option" where
  "Service_Plan svc env stop rid rq w = Plan (psPlanner svc) env stop rid rq w"

subsection \<open>Launching and shutting down\<close>

definition GetInstancePricingAccess :: "service_host \<Rightarrow> string \<Rightarrow> pricing_access outcome" where
  "GetInstancePricingAccess h path =
     bindO (shReadFile h [] (fileClean path)) (GetInstancePricingFromData (shDecodePrices h))"

definition serviceConfigOf :: "service_host \<Rightarrow> service_opts \<Rightarrow> string \<Rightarrow> service_config" where
  "serviceConfigOf h opts provider =
     \<lparr>pscCloudProvider = provider, pscTraceDir = soTraceDir opts, pscServerConfig = soServerConfig opts,
      pscMinKAPIConfig = \<lparr>cfgBasePrefix = DefaultBasePrefix,
        cfgKubeConfigPath = fileJoin (shTempDir h) ''embedded-minkapi.yaml'',
        cfgBindAddress = sfBindAddress (soServerConfig opts),
        cfgGracefulShutdownTimeout = sfGracefulShutdownTimeout (soServerConfig opts),
        cfgProfilingEnabled = sfProfilingEnabled (soServerConfig opts),
        cfgQueueSize = soQueueSize opts, cfgTimeout = soTimeout opts\<rparr>,
      pscSimulatorConfig = soSimulationConfig opts\<rparr>"

text \<open>
  \<open>LaunchApp\<close> of the service: the service if there is one, the exit code and the error. The server is
  started by a goroutine of its own.
\<close>

definition Service_LaunchApp :: "service_host \<Rightarrow> string list \<Rightarrow> world
    \<Rightarrow> (planner_service option \<times> nat \<times> goerr option, world) eff" where
  "Service_LaunchApp h args w =
     (let exit = (\<lambda>code e. Ok (None, code, Some e)) in
      case bindO (ParseProgramFlags h args) (\<lambda>opts.
             bindO (AsCloudProvider (soCloudProvider opts)) (\<lambda>provider. Ok (opts, provider))) of
        Err e \<Rightarrow> (exit ExitErrParseOpts e, w)
      | Panic p \<Rightarrow> (Panic p, w)
      | Ok (opts, provider) \<Rightarrow>
          (case GetInstancePricingAccess h (soInstancePricingPath opts) of
             Err e \<Rightarrow> (exit ExitErrStart e, w)
           | Panic p \<Rightarrow> (Panic p, w)
           | Ok pricing \<Rightarrow>
               (case NewService h (serviceConfigOf h opts provider) pricing NewFactories w of
                  (Err e, w) \<Rightarrow> (exit ExitErrStart e, w)
                | (Panic p, w) \<Rightarrow> (Panic p, w)
                | (Ok svc, w) \<Rightarrow> (Ok (Some svc, ExitSuccess, None), w))))"

definition Service_ShutdownApp :: "service_host \<Rightarrow> planner_service \<Rightarrow> world \<Rightarrow> (nat, planner_service \<times> world) eff" where
  "Service_ShutdownApp h svc w = (case Service_Stop h svc w of
       (Err e, s) \<Rightarrow> (Ok ExitErrShutdown, s)
     | (Panic p, s) \<Rightarrow> (Panic p, s)
     | (Ok _, s) \<Rightarrow> (Ok ExitSuccess, s))"

subsection \<open>The command line of the API server\<close>

definition serverFlags :: config where
  "serverFlags = \<lparr>cfgBasePrefix = DefaultBasePrefix, cfgKubeConfigPath = ''/tmp/minkapi.yaml'', cfgBindAddress = '':8091'',
     cfgGracefulShutdownTimeout = 10 * 10 ^ 9, cfgProfilingEnabled = False, cfgQueueSize = 100, cfgTimeout = 5 * 60 * 10 ^ 9\<rparr>"

definition validateMainOpts :: "config \<Rightarrow> unit outcome" where
  "validateMainOpts opts = errorsJoin
     [ValidateServerConfigFlags (cfgBindAddress opts),
      if TrimSpace (cfgKubeConfigPath opts) = [] then Some (argErr (Sentinel ''ErrMissingOpt'') ''--kubeconfig/-k'') else None]"

definition ErrHelp :: goerr where "ErrHelp = Sentinel ''pflag.ErrHelp''"

definition LaunchApp :: "service_host \<Rightarrow> string list \<Rightarrow> world \<Rightarrow> (server option \<times> nat \<times> goerr option, world) eff" where
  "LaunchApp h args w =
     (case bindO (shParseServerFlags h serverFlags args) (\<lambda>opts. bindO (validateMainOpts opts) (\<lambda>_. Ok opts)) of
        Err e \<Rightarrow> (Ok (None, if errorsIs e ErrHelp then ExitSuccess else ExitErrParseOpts, Some e), w)
      | Panic p \<Rightarrow> (Panic p, w)
      | Ok opts \<Rightarrow> (case New opts w of
            (Err e, w) \<Rightarrow> (Ok (None, ExitErrStart, Some e), w)
          | (Panic p, w) \<Rightarrow> (Panic p, w)
          | (Ok k, w) \<Rightarrow> (Ok (Some k, ExitSuccess, None), w)))"

definition ShutdownApp :: "service_host \<Rightarrow> sys \<Rightarrow> (nat, sys) eff" where
  "ShutdownApp h s = (case Stop (shServer h) s of
       (Err e, s) \<Rightarrow> (Ok ExitErrShutdown, s)
     | (Panic p, s) \<Rightarrow> (Panic p, s)
     | (Ok _, s) \<Rightarrow> (Ok ExitSuccess, s))"

end
