(* ===== verification/ServiceProps.thy ===== *)
theory ServiceProps
  imports Service RootProps
begin

text \<open>
  The planner service cannot be launched: it builds the planner
  without a storage metadata access, a simulator factory and a simulation factory, and the planner
  insists on all three.
\<close>

declare map_of_eq_Some_iff [simp del] Some_eq_map_of_iff [simp del]

lemma NewPlanner_needs_storage: "paStorageMetaAccess args = None \<Longrightarrow> NewPlanner args \<noteq> Ok p"
  by (auto simp: NewPlanner_def validateArgs_def bindO_eq_Ok)

lemma NewService_fails: "fst (NewService h cfg pricing NewFactories w) \<noteq> Ok svc"
proof
  assume "fst (NewService h cfg pricing NewFactories w) = Ok svc"
  then show False
    by (auto simp: NewService_def NewFactories_def Let_def bindE_def bindO_eq_Ok NewPlanner_needs_storage
        split: prod.splits outcome.splits)
qed

text \<open>
  C12. The planner service never starts: whatever its options and files, launching it ends with an
  error and an exit code other than success, or with a panic, and no service is returned.
\<close>

theorem service_never_starts:
  assumes "fst (Service_LaunchApp h args w) = Ok (app, code, err)"
  shows "app = None \<and> err \<noteq> None \<and> (code = ExitErrParseOpts \<or> code = ExitErrStart)"
  using assms NewService_fails
  by (auto simp: Service_LaunchApp_def Let_def split: outcome.splits prod.splits) (metis fst_conv)+

lemma NewService_error:
  assumes "New (pscMinKAPIConfig cfg) w = (Ok k, w')" "setServiceConfigDefaults h cfg = cfg"
    and "GenKubeSchedulerConfig (shServer h) \<lparr>kspKubeConfigPath = cfgKubeConfigPath (pscMinKAPIConfig cfg),
      kspKubeSchedulerConfigPath = fileJoin (shTempDir h) ''embedded-scheduler-cfg.yaml'', kspQPS = 0, kspBurst = 0\<rparr> (svFiles k) =
      (Ok (), files)"
    and "NewLauncher (shReadFile h files (fileJoin (shTempDir h) ''embedded-scheduler-cfg.yaml'')) (shDecodeSchedulerConfig h)
      (cfgMaxParallelSimulations (pscSimulatorConfig cfg)) = Ok l"
  shows "NewService h cfg pricing NewFactories w =
    (Err (Wrapped ''cannot initialize'' [ErrServiceInitFailed, argErr ErrCreatePlanner ''storageMetaAccess must be set'']), w')"
  using assms by (simp add: NewService_def NewFactories_def NewPlanner_def validateArgs_def Let_def wrapErr_def)

definition demoServiceHost :: service_host where
  "demoServiceHost = \<lparr>shServer = demoHost,
     shParseServiceFlags = (\<lambda>opts args. Ok (case args of path # _ \<Rightarrow> opts\<lparr>soInstancePricingPath := path\<rparr> | [] \<Rightarrow> opts)),
     shParseServerFlags = (\<lambda>opts _. Ok opts), shStat = (\<lambda>_. Ok (False, 1)), shReadFile = (\<lambda>_ _. Ok []),
     shDecodePrices = (\<lambda>_. Ok []), shDecodeSchedulerConfig = (\<lambda>_. Ok ()), shSchedulers = (\<lambda>_ _. undefined),
     shTempDir = ''/tmp'', shSlashTmpDirExists = True\<rparr>"

theorem service_never_starts_witness:
  "\<exists>e w'. Service_LaunchApp demoServiceHost [''/prices.json''] demoWorld0 = (Ok (None, ExitErrStart, Some e), w') \<and>
     errorsIs e ErrCreatePlanner"
proof -
  let ?h = demoServiceHost and ?opts = "(serviceFlags demoServiceHost)\<lparr>soInstancePricingPath := ''/prices.json''\<rparr>"
  let ?cfg = "serviceConfigOf ?h ?opts ''aws''"
  have opts: "ParseProgramFlags ?h [''/prices.json''] = Ok ?opts" "AsCloudProvider (soCloudProvider ?opts) = Ok ''aws''"
    by (simp_all add: ParseProgramFlags_def demoServiceHost_def Opts_validate_def serviceFlags_def AsCloudProvider_def
        errorsJoin_def ValidateServerConfigFlags_def TrimSpace_def isSpace_def Let_def)
  obtain bv w' where bv: "createBaseView DefaultBasePrefix (cfgKubeConfigPath (pscMinKAPIConfig ?cfg)) demoWorld0 = (Ok bv, w')"
    by (rule createBaseView_ok [of demoWorld0]) (simp add: demoWorld0_def demo_facts)
  obtain k where k: "New (pscMinKAPIConfig ?cfg) demoWorld0 = (Ok k, w')"
    using bv by (simp add: New_def NewAccess_def NewUsingViews_eq)
  have cfg: "setServiceConfigDefaults ?h ?cfg = ?cfg"
    by (simp add: setServiceConfigDefaults_def serviceConfigOf_def serviceFlags_def demoServiceHost_def TrimSpace_def isSpace_def)
  let ?path = "fileJoin (shTempDir ?h) ''embedded-scheduler-cfg.yaml''"
  have gen: "GenKubeSchedulerConfig (shServer ?h) \<lparr>kspKubeConfigPath = cfgKubeConfigPath (pscMinKAPIConfig ?cfg),
      kspKubeSchedulerConfigPath = ?path, kspQPS = 0, kspBurst = 0\<rparr> (svFiles k) = (Ok (), svFiles k @ [(?path, [])])"
    by (simp add: demoServiceHost_def demoHost_def GenKubeSchedulerConfig_def renderToFile_def)
  obtain l where l: "NewLauncher (shReadFile ?h (svFiles k @ [(?path, [])]) ?path) (shDecodeSchedulerConfig ?h)
      (cfgMaxParallelSimulations (pscSimulatorConfig ?cfg)) = Ok l"
    by (simp add: demoServiceHost_def NewLauncher_def NewLauncherFromConfig_def parseSchedulerConfig_def wrapErr_def)
  define e where "e = Wrapped ''cannot initialize'' [ErrServiceInitFailed, argErr ErrCreatePlanner ''storageMetaAccess must be set'']"
  have e: "NewService ?h ?cfg (GetInfo []) NewFactories demoWorld0 = (Err e, w')" "errorsIs e ErrCreatePlanner"
    unfolding e_def by (rule NewService_error [OF k cfg gen l]) (simp add: argErr_def ErrCreatePlanner_def)
  have "GetInstancePricingAccess ?h (soInstancePricingPath ?opts) = Ok (GetInfo [])"
    by (simp add: GetInstancePricingAccess_def demoServiceHost_def GetInstancePricingFromData_def parseInstanceTypeInfos_def)
  then have launch: "Service_LaunchApp ?h [''/prices.json''] demoWorld0 = (Ok (None, ExitErrStart, Some e), w')"
    using opts e(1) by (simp add: Service_LaunchApp_def)
  show ?thesis
    using service_never_starts [of ?h "[''/prices.json'']" demoWorld0] launch e(2) by auto
qed

end
