(* ===== verification/Operator.thy ===== *)
theory Operator
  imports PlannerTypes Complex_Main
begin

text \<open>
  The operator: its configuration \<open>src/api/config/v1alpha1\<close> (types, defaults, registration and
  validation), the command line \<open>src/operator/cmd/scalingadvisor\<close>, the options of the controller
  manager \<open>src/operator/internal/controller/manager.go\<close>, the reconciler of scaling constraints, and
  the validation of \<open>src/api/core/v1alpha1/validation.go\<close>. Durations are nanoseconds, the QPS of a client (a \<open>float32\<close>) is a rational. Reading and
  decoding the configuration file and the client of the cluster are the environment.
\<close>

subsection \<open>Configuration\<close>

record client_connection =
  ccKubeConfigPath :: string
  ccContentType :: string
  ccAcceptContentTypes :: string
  ccBurst :: int
  ccQPS :: rat

record leader_election =
  leResourceLock :: string
  leResourceName :: string
  leResourceNamespace :: string
  leLeaseDuration :: int
  leRenewDeadline :: int
  leRetryPeriod :: int
  leEnabled :: bool

record advisor_server =
  asHealthProbeBindAddress :: string
  asMetricsBindAddress :: string
  asProfilingBindAddress :: string
  asProfilingEnabled :: bool

record operator_config =
  ocServer :: advisor_server
  ocMode :: string
  ocSimulatorStrategy :: string
  ocScoringStrategy :: string
  ocCloudProvider :: string
  ocClientConnection :: client_connection
  ocLeaderElection :: leader_election
  ocConcurrentSyncs :: int

subsection \<open>Defaults\<close>

definition SetDefaults_ClientConnectionConfiguration :: "client_connection \<Rightarrow> client_connection" where
  "SetDefaults_ClientConnectionConfiguration c =
     (let c = (if ccQPS c = 0 then c\<lparr>ccQPS := 100\<rparr> else c)
      in if ccBurst c = 0 then c\<lparr>ccBurst := 120\<rparr> else c)"

definition SetDefaults_LeaderElectionConfiguration :: "leader_election \<Rightarrow> leader_election" where
  "SetDefaults_LeaderElectionConfiguration c =
     (let c = (if leLeaseDuration c = 0 then c\<lparr>leLeaseDuration := 15 * 10 ^ 9\<rparr> else c);
          c = (if leRenewDeadline c = 0 then c\<lparr>leRenewDeadline := 10 * 10 ^ 9\<rparr> else c);
          c = (if leRetryPeriod c = 0 then c\<lparr>leRetryPeriod := 2 * 10 ^ 9\<rparr> else c);
          c = (if leResourceLock c = [] then c\<lparr>leResourceLock := ''leases''\<rparr> else c)
      in if leResourceName c = [] then c\<lparr>leResourceName := ''scalingadvisor-operator-leader-election''\<rparr> else c)"

definition SetDefaults_ScalingAdvisorServerConfiguration :: "advisor_server \<Rightarrow> advisor_server" where
  "SetDefaults_ScalingAdvisorServerConfiguration c =
     (let c = (if TrimSpace (asHealthProbeBindAddress c) = [] then c\<lparr>asHealthProbeBindAddress := '':8081''\<rparr> else c);
          c = (if TrimSpace (asMetricsBindAddress c) = [] then c\<lparr>asMetricsBindAddress := '':8082''\<rparr> else c)
      in if asProfilingEnabled c \<and> TrimSpace (asProfilingBindAddress c) = []
         then c\<lparr>asProfilingBindAddress := '':8083''\<rparr> else c)"

definition SetDefaults_ScalingConstraintsControllerConfiguration :: "int \<Rightarrow> int" where
  "SetDefaults_ScalingConstraintsControllerConfiguration concurrentSyncs =
     (if concurrentSyncs \<le> 0 then 2 else concurrentSyncs)"

text \<open>
  A scheme: whether the configuration type is known to it, and the defaulting functions that a
  decoder applies. The generated \<open>RegisterDefaults\<close> registers none.
\<close>

record config_scheme =
  csKnown :: bool
  csDefaulting :: "(operator_config \<Rightarrow> operator_config) list"

definition addKnownTypes :: "config_scheme \<Rightarrow> config_scheme" where
  "addKnownTypes s = s\<lparr>csKnown := True\<rparr>"

definition RegisterDefaults :: "config_scheme \<Rightarrow> config_scheme" where
  "RegisterDefaults s = s"

definition addDefaultingFuncs :: "config_scheme \<Rightarrow> config_scheme" where
  "addDefaultingFuncs s = RegisterDefaults s"

definition AddToScheme :: "config_scheme \<Rightarrow> config_scheme" where
  "AddToScheme s = addDefaultingFuncs (addKnownTypes s)"

subsection \<open>Validation\<close>

text \<open>A field error: the path of the field and the message.\<close>

type_synonym field_error = "string list \<times> string"

definition validateClientConnectionConfiguration :: "client_connection \<Rightarrow> string list \<Rightarrow> field_error list" where
  "validateClientConnectionConfiguration c fld =
     (if ccBurst c < 0 then [(fld @ [''burst''], ''burst must be non-negative'')] else [])"

definition mustBeGreaterThanZeroDuration :: "int \<Rightarrow> string list \<Rightarrow> field_error list" where
  "mustBeGreaterThanZeroDuration duration fld =
     (if duration \<le> 0 then [(fld, ''must be greater than 0'')] else [])"

definition validateLeaderElectionConfiguration :: "leader_election \<Rightarrow> string list \<Rightarrow> field_error list" where
  "validateLeaderElectionConfiguration c fld =
     (if \<not> leEnabled c then []
      else mustBeGreaterThanZeroDuration (leLeaseDuration c) (fld @ [''leaseDuration'']) @
        mustBeGreaterThanZeroDuration (leRenewDeadline c) (fld @ [''renewDeadline'']) @
        mustBeGreaterThanZeroDuration (leRetryPeriod c) (fld @ [''retryPeriod'']) @
        (if leLeaseDuration c \<le> leRenewDeadline c
         then [(fld @ [''leaseDuration''], ''LeaseDuration must be greater than RenewDeadline'')] else []) @
        (if leResourceLock c = [] then [(fld @ [''resourceLock''], ''resourceLock is required'')] else []) @
        (if leResourceNamespace c = [] then [(fld @ [''resourceNamespace''], ''resourceNamespace is required'')] else []) @
        (if leResourceName c = [] then [(fld @ [''resourceName''], ''resourceName is required'')] else []))"

definition ValidateScalingAdvisorConfiguration :: "operator_config \<Rightarrow> field_error list" where
  "ValidateScalingAdvisorConfiguration c =
     validateClientConnectionConfiguration (ocClientConnection c) [''clientConnection''] @
     validateLeaderElectionConfiguration (ocLeaderElection c) [''leaderElection'']"

definition ValidateNodePool :: "node_pool \<Rightarrow> string list \<Rightarrow> field_error list" where
  "ValidateNodePool np fld =
     (if TrimSpace (plRegion np) = [] then [(fld @ [''region''], ''region must not be empty'')] else []) @
     (if plAvailabilityZones np = [] then [(fld @ [''availabilityZones''], ''availabilityZone must not be empty'')] else []) @
     (if plNodeTemplates np = [] then [(fld @ [''nodeTemplates''], ''at least one nodeTemplate must be specified'')] else []) @
     (if plPriority np < 0 then [(fld @ [''priority''], ''priority must be non-negative'')] else [])"

definition ValidateClusterScalingConstraint :: "string \<Rightarrow> string \<Rightarrow> string list \<Rightarrow> field_error list" where
  "ValidateClusterScalingConstraint namespace name fld =
     (if TrimSpace name = [] then [(fld @ [''name''], ''constraint name must not be empty'')] else []) @
     (if TrimSpace namespace = [] then [(fld @ [''namespace''], ''constraint namespace must not be empty'')] else [])"

subsection \<open>The command line\<close>

record launch_options =
  loConfigFile :: string
  loVersion :: bool

record operator_host =
  ohParseFlags :: "launch_options \<Rightarrow> string list \<Rightarrow> launch_options outcome"
  ohReadFile :: "string \<Rightarrow> string outcome"
  ohDecode :: "string \<Rightarrow> operator_config outcome"      \<comment> \<open>before defaulting\<close>

definition ParseLaunchOptions :: "operator_host \<Rightarrow> string list \<Rightarrow> launch_options outcome" where
  "ParseLaunchOptions h args =
     wrapErr (\<lambda>e. Wrapped ''cannot parse'' [Sentinel ''ErrParseArgs'', e])
       (ohParseFlags h \<lparr>loConfigFile = [], loVersion = False\<rparr> args)"

definition LaunchOptions_validate :: "launch_options \<Rightarrow> unit outcome" where
  "LaunchOptions_validate opts =
     (if loConfigFile opts = [] \<and> \<not> loVersion opts
      then Err (Wrapped ''one of version or config should be specified'' [Sentinel ''ErrMissingOpt''])
      else if loConfigFile opts \<noteq> [] \<and> loVersion opts
      then Err (Wrapped ''both config and version cannot be specified'' [Sentinel ''ErrInvalidOpt''])
      else Ok ())"

definition LoadUsingSchemeIntoRuntimeObject :: "operator_host \<Rightarrow> string \<Rightarrow> config_scheme \<Rightarrow> operator_config outcome" where
  "LoadUsingSchemeIntoRuntimeObject h path s =
     bindO (ohReadFile h path) (\<lambda>data.
       if \<not> csKnown s then Err (Plain ''no kind is registered'')
       else bindO (ohDecode h data) (\<lambda>c. Ok (fold (\<lambda>f. f) (csDefaulting s) c)))"

definition ErrLoadOperatorConfig :: goerr where "ErrLoadOperatorConfig = Sentinel ''ErrLoadOperatorConfig''"

definition loadOperatorConfig :: "operator_host \<Rightarrow> launch_options \<Rightarrow> operator_config outcome" where
  "loadOperatorConfig h opts =
     wrapErr (\<lambda>e. Wrapped ''cannot load'' [ErrLoadOperatorConfig, e])
       (LoadUsingSchemeIntoRuntimeObject h (loConfigFile opts)
          (AddToScheme \<lparr>csKnown = False, csDefaulting = []\<rparr>))"

definition LoadAndValidateOperatorConfig :: "operator_host \<Rightarrow> launch_options \<Rightarrow> operator_config outcome" where
  "LoadAndValidateOperatorConfig h opts =
     bindO (LaunchOptions_validate opts) (\<lambda>_.
     bindO (loadOperatorConfig h opts) (\<lambda>c.
       let c = c\<lparr>ocServer := SetDefaults_ScalingAdvisorServerConfiguration (ocServer c)\<rparr>;
           errs = ValidateScalingAdvisorConfiguration c in
       if errs \<noteq> [] then Err (Wrapped ''aggregate'' (map (\<lambda>(_, msg). Plain msg) errs)) else Ok c))"

subsection \<open>The controller manager\<close>

record manager_options =
  moGracefulShutdownTimeout :: int
  moMetricsBindAddress :: string
  moLeaderElection :: bool
  moLeaderElectionID :: string
  moLeaderElectionResourceLock :: string
  moLeaderElectionNamespace :: string
  moLeaderElectionReleaseOnCancel :: bool
  moLeaseDuration :: int
  moRenewDeadline :: int
  moRetryPeriod :: int
  moRecoverPanic :: bool
  moPprofBindAddress :: string
  moHealthProbeBindAddress :: string

definition createManagerOptions :: "operator_config \<Rightarrow> manager_options" where
  "createManagerOptions c = (let le = ocLeaderElection c in
     \<lparr>moGracefulShutdownTimeout = 10 * 10 ^ 9, moMetricsBindAddress = asMetricsBindAddress (ocServer c),
      moLeaderElection = leEnabled le, moLeaderElectionID = leResourceName le,
      moLeaderElectionResourceLock = leResourceLock le, moLeaderElectionNamespace = [],
      moLeaderElectionReleaseOnCancel = True, moLeaseDuration = leLeaseDuration le,
      moRenewDeadline = leRenewDeadline le, moRetryPeriod = leRetryPeriod le, moRecoverPanic = True,
      moPprofBindAddress = (if asProfilingEnabled (ocServer c) then asProfilingBindAddress (ocServer c) else []),
      moHealthProbeBindAddress = []\<rparr>)"

record rest_config =
  rcBurst :: int
  rcQPS :: rat
  rcAcceptContentTypes :: string
  rcContentType :: string

definition getRestConfig :: "operator_config option \<Rightarrow> rest_config \<Rightarrow> rest_config" where
  "getRestConfig oc restCfg = (case oc of
       None \<Rightarrow> restCfg
     | Some c \<Rightarrow> restCfg\<lparr>rcBurst := ccBurst (ocClientConnection c), rcQPS := ccQPS (ocClientConnection c),
         rcAcceptContentTypes := ccAcceptContentTypes (ocClientConnection c),
         rcContentType := ccContentType (ocClientConnection c)\<rparr>)"

subsection \<open>The controller of scaling constraints\<close>

datatype controller_event = CreateEvent | DeleteEvent | UpdateEvent | GenericEvent

definition clusterScalingFeedbackPredicate :: "controller_event \<Rightarrow> bool" where
  "clusterScalingFeedbackPredicate ev = (case ev of
       CreateEvent \<Rightarrow> True | DeleteEvent \<Rightarrow> False | UpdateEvent \<Rightarrow> True | GenericEvent \<Rightarrow> False)"

text \<open>A scaling feedback has a reference to its constraint, as namespace and name.\<close>

datatype watched_object = ScalingFeedback string string | OtherObject

fun mapScalingFeedbackToScalingConstraints :: "watched_object \<Rightarrow> (string \<times> string) list" where
  "mapScalingFeedbackToScalingConstraints (ScalingFeedback namespace name) = [(namespace, name)]"
| "mapScalingFeedbackToScalingConstraints OtherObject = []"

text \<open>\<open>Reconcile\<close>: \<open>getObject\<close> is the answer of the cluster's client; a missing object is no error.\<close>

definition Reconcile :: "(string \<times> string \<Rightarrow> unit outcome) \<Rightarrow> string \<times> string \<Rightarrow> unit outcome" where
  "Reconcile getObject req = (case getObject req of
       Ok _ \<Rightarrow> Ok ()
     | Panic p \<Rightarrow> Panic p
     | Err e \<Rightarrow> if isNotFound e then Ok () else Err e)"

text \<open>The reconcile requests that an event of a watched feedback enqueues.\<close>

definition feedbackRequests :: "controller_event \<Rightarrow> watched_object \<Rightarrow> (string \<times> string) list" where
  "feedbackRequests ev wo = (if clusterScalingFeedbackPredicate ev then mapScalingFeedbackToScalingConstraints wo else [])"

subsection \<open>Which configurations are accepted\<close>

text \<open>
  What validation demands of a configuration, as one condition.
\<close>

definition acceptable :: "operator_config \<Rightarrow> bool" where
  "acceptable c \<longleftrightarrow> 0 \<le> ccBurst (ocClientConnection c) \<and>
     (let le = ocLeaderElection c in leEnabled le \<longrightarrow>
        0 < leRetryPeriod le \<and> 0 < leRenewDeadline le \<and> leRenewDeadline le < leLeaseDuration le \<and>
        leResourceLock le \<noteq> [] \<and> leResourceNamespace le \<noteq> [] \<and> leResourceName le \<noteq> [])"

lemma Validate_iff: "ValidateScalingAdvisorConfiguration c = [] \<longleftrightarrow> acceptable c"
  by (auto simp: ValidateScalingAdvisorConfiguration_def validateClientConnectionConfiguration_def
      validateLeaderElectionConfiguration_def mustBeGreaterThanZeroDuration_def acceptable_def Let_def)

lemma load_eq:
  "loadOperatorConfig h opts =
     wrapErr (\<lambda>e. Wrapped ''cannot load'' [ErrLoadOperatorConfig, e])
       (bindO (ohReadFile h (loConfigFile opts)) (\<lambda>data. bindO (ohDecode h data) Ok))"
  by (simp add: loadOperatorConfig_def LoadUsingSchemeIntoRuntimeObject_def AddToScheme_def addDefaultingFuncs_def
      RegisterDefaults_def addKnownTypes_def)

text \<open>
  C33. Which configurations the operator accepts: the one that loading returns is the decoded file with
  only the bind addresses of the server filled in, it is returned if and only if exactly one of a file
  and the version is asked for, the file is read and decoded, and what was decoded is acceptable as it
  stands, without the defaults for leader election and client connection. Acceptable
  is what the validation checks, so with leader election enabled the lease duration has to exceed the
  renewal deadline strictly: a file that sets them equal is refused, although the comment of the field
  (types.go) and the API reference allow a deadline equal to the lease duration.
\<close>

theorem operator_config_exact:
  "LoadAndValidateOperatorConfig h opts = Ok c' \<longleftrightarrow>
     (loConfigFile opts \<noteq> []) \<noteq> loVersion opts \<and>
     (\<exists>data c. ohReadFile h (loConfigFile opts) = Ok data \<and> ohDecode h data = Ok c \<and> acceptable c \<and>
        c' = c\<lparr>ocServer := SetDefaults_ScalingAdvisorServerConfiguration (ocServer c)\<rparr>)"
proof -
  have a: "acceptable (c\<lparr>ocServer := s\<rparr>) = acceptable c" for c s by (simp add: acceptable_def)
  show ?thesis
    by (cases "loConfigFile opts = []"; cases "loVersion opts")
      (auto simp: LoadAndValidateOperatorConfig_def LaunchOptions_validate_def bindO_eq_Ok load_eq Let_def Validate_iff a)
qed

text \<open>
  The defaults are not applied to what is loaded: a file that enables leader election and leaves the
  lease duration out is refused, although its default would be accepted if all else is set.
\<close>

theorem operator_defaults_unused:
  assumes "ohReadFile h path = Ok data" "ohDecode h data = Ok c" "path \<noteq> []"
    and "leEnabled (ocLeaderElection c)" "leLeaseDuration (ocLeaderElection c) = 0"
    and "0 \<le> ccBurst (ocClientConnection c)" "0 < leRetryPeriod (ocLeaderElection c)"
    and "0 < leRenewDeadline (ocLeaderElection c)" "leRenewDeadline (ocLeaderElection c) < 15 * 10 ^ 9"
    and "leResourceLock (ocLeaderElection c) \<noteq> []" "leResourceNamespace (ocLeaderElection c) \<noteq> []" "leResourceName (ocLeaderElection c) \<noteq> []"
  shows "(\<exists>e. LoadAndValidateOperatorConfig h \<lparr>loConfigFile = path, loVersion = False\<rparr> = Err e) \<and>
    ValidateScalingAdvisorConfiguration
      (c\<lparr>ocLeaderElection := SetDefaults_LeaderElectionConfiguration (ocLeaderElection c)\<rparr>) = []"
proof
  have "\<not> acceptable (c\<lparr>ocServer := s\<rparr>)" for s using assms(4,5,8) by (simp add: acceptable_def Let_def)
  then show "\<exists>e. LoadAndValidateOperatorConfig h \<lparr>loConfigFile = path, loVersion = False\<rparr> = Err e"
    using assms(1-3) by (simp add: LoadAndValidateOperatorConfig_def LaunchOptions_validate_def load_eq wrapErr_def Let_def Validate_iff)
  show "ValidateScalingAdvisorConfiguration
      (c\<lparr>ocLeaderElection := SetDefaults_LeaderElectionConfiguration (ocLeaderElection c)\<rparr>) = []"
    unfolding Validate_iff using assms(4-) by (simp add: acceptable_def SetDefaults_LeaderElectionConfiguration_def Let_def)
qed

definition demoOperatorConfig :: operator_config where
  "demoOperatorConfig = \<lparr>ocServer = \<lparr>asHealthProbeBindAddress = [], asMetricsBindAddress = [], asProfilingBindAddress = [],
       asProfilingEnabled = False\<rparr>, ocMode = [], ocSimulatorStrategy = [], ocScoringStrategy = [], ocCloudProvider = ''aws'',
     ocClientConnection = \<lparr>ccKubeConfigPath = [], ccContentType = [], ccAcceptContentTypes = [], ccBurst = 0, ccQPS = 0\<rparr>,
     ocLeaderElection = \<lparr>leResourceLock = ''leases'', leResourceName = ''sa'', leResourceNamespace = ''garden'',
       leLeaseDuration = 0, leRenewDeadline = 10 * 10 ^ 9, leRetryPeriod = 2 * 10 ^ 9, leEnabled = True\<rparr>,
     ocConcurrentSyncs = 0\<rparr>"

theorem operator_defaults_unused_witness:
  "\<exists>h e. LoadAndValidateOperatorConfig h \<lparr>loConfigFile = ''config.yaml'', loVersion = False\<rparr> = Err e \<and>
     ohReadFile h ''config.yaml'' = Ok [] \<and> ohDecode h [] = Ok demoOperatorConfig"
proof -
  let ?h = "\<lparr>ohParseFlags = (\<lambda>o' _. Ok o'), ohReadFile = (\<lambda>_. Ok []), ohDecode = (\<lambda>_. Ok demoOperatorConfig)\<rparr>"
  have "\<exists>e. LoadAndValidateOperatorConfig ?h \<lparr>loConfigFile = ''config.yaml'', loVersion = False\<rparr> = Err e"
    using operator_defaults_unused [of ?h "''config.yaml''" "[]" demoOperatorConfig] by (simp add: demoOperatorConfig_def)
  then show ?thesis by (intro exI [of _ ?h]) auto
qed

end
