(* ===== verification/Samples.thy ===== *)
theory Samples
  imports PlannerTypes Paths
begin

text \<open>
  Sample clusters, \<open>src/samples\<close>: scaling constraints from a preset, pods, claims, volumes and storage
  classes rendered from templates, written to files and loaded back, and the growth of the
  unscheduled work of a snapshot.

  \<^item> The embedded files, template parsing and execution, the decoder, the encoder and the printing of
    quantities belong to libraries; they are fields of \<open>sample_host\<close>, as are the errors of the file
    system and the clock.
  \<^item> The file system is a map from absolute, cleaned paths to contents, in \<open>sample_state\<close>: a write
    resolves a relative path against the working directory, while \<open>os.OpenRoot("/")\<close> resolves it
    against the root, and opens only what \<open>fs.ValidPath\<close> accepts.
\<close>

declare map_of_eq_Some_iff [simp del] Some_eq_map_of_iff [simp del]

subsection \<open>Data\<close>

type_synonym pool_preset = string
type_synonym resource_preset = string

definition PoolPreset1P :: pool_preset where "PoolPreset1P = ''1p''"

definition PoolPreset2P :: pool_preset where "PoolPreset2P = ''2p''"

definition ResourcePresetPea :: resource_preset where "ResourcePresetPea = ''pea''"

definition ResourcePresetBerry :: resource_preset where "ResourcePresetBerry = ''berry''"

definition ResourcePresetHalfBerry :: resource_preset where "ResourcePresetHalfBerry = ''half-berry''"

definition ResourcePresetGrape :: resource_preset where "ResourcePresetGrape = ''grape''"

definition ResourcePresetHalfGrape :: resource_preset where "ResourcePresetHalfGrape = ''half-grape''"

record app_labels =
  alName :: string
  alInstance :: string
  alVersion :: string
  alComponent :: string
  alPartOf :: string
  alManagedBy :: string

record constraint_gen_input =
  cgiGenDir :: string
  cgiPoolPreset :: pool_preset
  cgiPoolZones :: "string list list"

record sample_constraint =
  scoNodePools :: "node_pool list"
  scoRest :: opaque

record constraint_gen_output =
  cgoGenYAMLPath :: string
  cgoConstraint :: sample_constraint

record pod_gen_input =
  pgiGenDir :: string
  pgiName :: string
  pgiNamespace :: string
  pgiAppLabels :: app_labels
  pgiSchedulerName :: string
  pgiPVCNames :: "string list"

record pod_template_data =
  ptdResources :: resource_list
  ptdInput :: pod_gen_input

record pod_gen_output =
  pgoYAMLPaths :: "(namespaced_name, string) gomap"
  pgoPods :: "kobj list"

record vol_gen_input =
  vgiProvider :: string
  vgiNamespace :: string
  vgiStorage :: quantity
  vgiAccessMode :: string
  vgiStorageClassName :: string
  vgiClaimPhase :: string
  vgiVolumeBindingMode :: string
  vgiPVCNames :: "string list"
  vgiPVZones :: "string list"
  vgiMaxAllocatableVolumes :: "32 word"
  vgiGeneratePV :: bool

record vol_gen_output =
  vgoYAMLPaths :: "(namespaced_name, string) gomap"
  vgoPVs :: "kobj list"
  vgoPVCs :: "kobj list"

record csi_defaults =
  cdfDriverName :: string
  cdfTopologyKeys :: "string list"

record csi_node_driver =
  cndName :: string
  cndTopologyKeys :: "string list"
  cndAllocatable :: "32 word option"

text \<open>The anonymous structs that the templates are executed with.\<close>

record pvc_tmpl_data =
  ctName :: string
  ctNamespace :: string
  ctAccessMode :: string
  ctStorage :: string
  ctPhase :: string
  ctStorageClassName :: string
  ctVolumeName :: string
  ctUID :: string

record pv_tmpl_data =
  vtCSIDriver :: string
  vtName :: string
  vtNamespace :: string
  vtStorage :: string
  vtAccessMode :: string
  vtVolumeHandle :: string
  vtPVCName :: string
  vtZone :: string
  vtPhase :: string
  vtStorageClassName :: string
  vtPVCUID :: string

record sc_tmpl_data =
  stCSIDriver :: string
  stName :: string
  stVolumeBindingMode :: string

datatype tmpl_params =
    PodParams pod_template_data | PVCParams pvc_tmpl_data | PVParams pv_tmpl_data | SCParams sc_tmpl_data

record sample_host =
  saReadEmbedded :: "string \<Rightarrow> string outcome"
  saParse :: "string \<Rightarrow> goerr option"
  saExecute :: "string \<Rightarrow> tmpl_params \<Rightarrow> string outcome"
  saWrite :: "string \<Rightarrow> string \<Rightarrow> goerr option"
  saOpenRoot :: "goerr option"
  saCwd :: string
  saDecode :: "string \<Rightarrow> kobj \<Rightarrow> kobj outcome"
  saDecodeConstraint :: "string \<Rightarrow> sample_constraint outcome"
  saEncodeConstraint :: "sample_constraint \<Rightarrow> string outcome"
  saQuantityString :: "quantity \<Rightarrow> string"
  saNowAt :: "nat \<Rightarrow> time"

record sample_state =
  ssFiles :: "(string, string) gomap"
  ssTick :: nat

subsection \<open>Defaults\<close>

definition nanos :: quantity where "nanos = 1000000000"

definition resourcePresetsToResourceListMap :: "(resource_preset, resource_list) gomap" where
  "resourcePresetsToResourceListMap =
     [(ResourcePresetPea, [(''cpu'', 1 * nanos), (''memory'', 2 ^ 30 * nanos)]),
      (ResourcePresetBerry, [(''cpu'', 1 * nanos), (''memory'', 5100 * 2 ^ 20 * nanos)]),
      (ResourcePresetHalfBerry, [(''cpu'', nanos div 2), (''memory'', 2500 * 2 ^ 20 * nanos)]),
      (ResourcePresetGrape, [(''cpu'', 3 * nanos), (''memory'', 13 * 2 ^ 30 * nanos)]),
      (ResourcePresetHalfGrape, [(''cpu'', 3 * nanos div 2), (''memory'', 6400 * 2 ^ 20 * nanos)])]"

definition AsResourceList :: "resource_preset \<Rightarrow> resource_list" where
  "AsResourceList c = (case map_of resourcePresetsToResourceListMap c of Some r \<Rightarrow> r | None \<Rightarrow> [])"

definition ValidateAndFillDefaults :: "vol_gen_input \<Rightarrow> vol_gen_input outcome" where
  "ValidateAndFillDefaults v =
     (if vgiPVCNames v = [] then Err (Plain ''empty PVCNames'')
      else if vgiProvider v = [] then Err (Plain ''provider must be set'')
      else
        let v = v\<lparr>vgiNamespace := (if vgiNamespace v = [] then ''default'' else vgiNamespace v)\<rparr> in
        if vgiClaimPhase v = [] then Err (Plain ''ClaimPhase must be set'')
        else
          let v = v\<lparr>vgiVolumeBindingMode := (if vgiVolumeBindingMode v = [] then ''Immediate'' else vgiVolumeBindingMode v)\<rparr>;
              v = v\<lparr>vgiStorageClassName := (if vgiStorageClassName v = [] then ''default'' else vgiStorageClassName v)\<rparr>;
              v = v\<lparr>vgiAccessMode := (if vgiAccessMode v = [] then ''ReadWriteOnce'' else vgiAccessMode v)\<rparr>;
              v = v\<lparr>vgiStorageClassName := (if vgiStorageClassName v = [] then ''default'' else vgiStorageClassName v)\<rparr>;
              v = v\<lparr>vgiStorage := (if vgiStorage v = 0 then 2 ^ 30 * nanos else vgiStorage v)\<rparr>
          in Ok v)"

definition fillAppLabelDefaults :: "app_labels \<Rightarrow> app_labels" where
  "fillAppLabelDefaults l =
     (let l = (if alName l = [] then l\<lparr>alName := ''test''\<rparr> else l);
          l = (if alInstance l = [] then l\<lparr>alInstance := alName l @ ''-instance''\<rparr> else l);
          l = (if alComponent l = [] then l\<lparr>alComponent := alName l @ ''-component''\<rparr> else l);
          l = (if alVersion l = [] then l\<lparr>alVersion := ''1.0.0''\<rparr> else l);
          l = (if alPartOf l = [] then l\<lparr>alPartOf := alName l @ ''-system''\<rparr> else l);
          l = (if alManagedBy l = [] then l\<lparr>alManagedBy := ''scaling-advisor''\<rparr> else l)
      in l)"

definition fillPodTemplateDataDefaults :: "pod_template_data \<Rightarrow> pod_template_data" where
  "fillPodTemplateDataDefaults d =
     (let i = ptdInput d;
          i = i\<lparr>pgiAppLabels := fillAppLabelDefaults (pgiAppLabels i)\<rparr>;
          i = (if pgiNamespace i = [] then i\<lparr>pgiNamespace := ''default''\<rparr> else i);
          i = (if pgiName i = [] then i\<lparr>pgiName := alName (pgiAppLabels i)\<rparr> else i);
          d = d\<lparr>ptdInput := i\<rparr>
      in if ptdResources d = [] then d\<lparr>ptdResources := AsResourceList ResourcePresetPea\<rparr> else d)"

definition providerToCSIDefaults :: "(string, csi_defaults) gomap" where
  "providerToCSIDefaults =
     [(''aws'', \<lparr>cdfDriverName = ''ebs.csi.aws.com'',
        cdfTopologyKeys = [''topology.ebs.csi.aws.com/zone'', LabelTopologyZone, LabelOSStable]\<rparr>)]"

definition GetCSIDefaults :: "string \<Rightarrow> csi_defaults outcome" where
  "GetCSIDefaults provider = (case map_of providerToCSIDefaults provider of
       Some d \<Rightarrow> Ok d | None \<Rightarrow> Err (Plain ''no CSIDefaults found''))"

definition GetCSINodeDrivers :: "string \<Rightarrow> 32 word \<Rightarrow> csi_node_driver list outcome" where
  "GetCSINodeDrivers provider maxAllocatableVolumes =
     bindO (GetCSIDefaults provider) (\<lambda>d.
       Ok [\<lparr>cndName = cdfDriverName d, cndTopologyKeys = cdfTopologyKeys d,
            cndAllocatable = Some maxAllocatableVolumes\<rparr>])"

definition maxAllocatableVolumesByInstanceType :: "(string, 32 word) gomap" where
  "maxAllocatableVolumesByInstanceType = [(''m5.large'', 26), (''c3.8xlarge'', 38)]"

definition GetMaxAllocatableVolumes :: "string \<Rightarrow> string \<Rightarrow> 32 word" where
  "GetMaxAllocatableVolumes provider instanceType =
     (case map_of maxAllocatableVolumesByInstanceType instanceType of
        Some n \<Rightarrow> n
      | None \<Rightarrow> if provider = ''aws''
          then (case map_of maxAllocatableVolumesByInstanceType ''m5.large'' of Some n \<Rightarrow> n | None \<Rightarrow> 0)
          else 16)"

subsection \<open>Rendering an object and loading it\<close>

definition ErrExecuteTemplate :: goerr where "ErrExecuteTemplate = Sentinel ''ErrExecuteTemplate''"

definition ErrLoadTemplate :: goerr where "ErrLoadTemplate = Sentinel ''ErrLoadTemplate''"

definition LoadEmbeddedTextTemplate :: "sample_host \<Rightarrow> string \<Rightarrow> string outcome" where
  "LoadEmbeddedTextTemplate h templatePath =
     bindO (wrapErr (\<lambda>e. Wrapped ''cannot read'' [ErrLoadTemplate, e]) (saReadEmbedded h templatePath)) (\<lambda>data.
       case saParse h data of
         Some e \<Rightarrow> Err (Wrapped ''cannot parse'' [ErrLoadTemplate, e])
       | None \<Rightarrow> Ok data)"

definition resolve :: "sample_host \<Rightarrow> string \<Rightarrow> string" where
  "resolve h p = (if prefix ''/'' p then fileClean p else fileJoin (saCwd h) p)"

definition validPath :: "string \<Rightarrow> bool" where
  "validPath name \<longleftrightarrow> name = ''.'' \<or> list_all (\<lambda>s. s \<noteq> [] \<and> s \<noteq> ''.'' \<and> s \<noteq> ''..'') (splitSlash name)"

definition readRoot :: "sample_state \<Rightarrow> string \<Rightarrow> string outcome" where
  "readRoot s name =
     (if \<not> validPath name then Err (Sentinel ''ErrInvalid'')
      else case map_of (ssFiles s) (''/'' @ name) of
        Some data \<Rightarrow> Ok data | None \<Rightarrow> Err (Sentinel ''ErrNotExist''))"

definition writeFile :: "sample_host \<Rightarrow> string \<Rightarrow> string \<Rightarrow> sample_state \<Rightarrow> (unit, sample_state) eff" where
  "writeFile h p data s = (case saWrite h p data of
       Some e \<Rightarrow> (Err e, s)
     | None \<Rightarrow> (Ok (), s\<lparr>ssFiles := AList.update (resolve h p) data (ssFiles s)\<rparr>))"

definition LoadIntoRuntimeObj :: "sample_host \<Rightarrow> string \<Rightarrow> kobj \<Rightarrow> sample_state \<Rightarrow> kobj outcome" where
  "LoadIntoRuntimeObj h objPath o' s = bindO (readRoot s objPath) (\<lambda>data. saDecode h data o')"

definition GenerateAndLoad ::
  "sample_host \<Rightarrow> string \<Rightarrow> tmpl_params \<Rightarrow> string \<Rightarrow> kobj \<Rightarrow> sample_state \<Rightarrow> (kobj, sample_state) eff" where
  "GenerateAndLoad h tmpl params outPath o' s =
     (case saExecute h tmpl params of
        Err e \<Rightarrow> (Err (Wrapped ''execution failed'' [ErrExecuteTemplate, e]), s)
      | Panic m \<Rightarrow> (Panic m, s)
      | Ok data \<Rightarrow> (case writeFile h outPath data s of
            (Err e, s) \<Rightarrow> (Err (Wrapped ''failed to write'' [ErrExecuteTemplate, e]), s)
          | (Panic m, s) \<Rightarrow> (Panic m, s)
          | (Ok _, s) \<Rightarrow> (case saOpenRoot h of
                Some e \<Rightarrow> (Err (Wrapped ''failed to open root FS'' [ErrExecuteTemplate, e]), s)
              | None \<Rightarrow> (LoadIntoRuntimeObj h (TrimPrefix outPath ''/'') o' s, s))))"

text \<open>\<open>x.CreationTimestamp = metav1.Now()\<close>.\<close>

definition stampNow :: "sample_host \<Rightarrow> kobj \<Rightarrow> sample_state \<Rightarrow> kobj \<times> sample_state" where
  "stampNow h o' s = (o'\<lparr>ometa := (ometa o')\<lparr>mCreationTimestamp := saNowAt h (ssTick s)\<rparr>\<rparr>,
     s\<lparr>ssTick := Suc (ssTick s)\<rparr>)"

subsection \<open>Pods\<close>

definition zeroPod :: kobj where
  "zeroPod = zeroObj\<lparr>body := PodBody emptyPodSpec emptyPodStatus\<rparr>"

fun simplePodsLoop :: "sample_host \<Rightarrow> string \<Rightarrow> pod_template_data \<Rightarrow> nat list \<Rightarrow> pod_gen_output \<Rightarrow> sample_state \<Rightarrow>
  (pod_gen_output, sample_state) eff" where
  "simplePodsLoop h tmpl d [] out s = (Ok out, s)"
| "simplePodsLoop h tmpl d (i # is') out s =
     (let td = fillPodTemplateDataDefaults d;
          td = td\<lparr>ptdInput := (ptdInput td)\<lparr>pgiName := pgiName (ptdInput td) @ ''-'' @ digits i\<rparr>\<rparr>;
          outYAMLPath = pathJoin [pgiGenDir (ptdInput d), ''pod-'' @ pgiName (ptdInput td) @ ''.yaml''] in
      bindE (GenerateAndLoad h tmpl (PodParams td) outYAMLPath zeroPod s) (\<lambda>pod s.
        let (pod, s) = stampNow h pod s in
        simplePodsLoop h tmpl d is' (out\<lparr>pgoPods := pgoPods out @ [pod],
          pgoYAMLPaths := AList.update (NamespacedName (ometa pod)) outYAMLPath (pgoYAMLPaths out)\<rparr>) s))"

text \<open>\<open>make([]corev1.Pod, 0, num)\<close> panics on a negative capacity.\<close>

definition GenerateSimplePodsWithTemplateData ::
  "sample_host \<Rightarrow> int \<Rightarrow> pod_template_data \<Rightarrow> sample_state \<Rightarrow> (pod_gen_output, sample_state) eff" where
  "GenerateSimplePodsWithTemplateData h num d s =
     bindE (LoadEmbeddedTextTemplate h ''data/simple-pod-template.yaml'', s) (\<lambda>tmpl s.
       if pgiGenDir (ptdInput d) = [] then (Err (Plain ''PodTemplateData.GenDir is empty''), s)
       else if num < 0 then (Panic ''makeslice: cap out of range'', s)
       else simplePodsLoop h tmpl d [1..<Suc (nat num)] \<lparr>pgoYAMLPaths = [], pgoPods = []\<rparr> s)"

definition GenerateSimplePodsForResourcePreset ::
  "sample_host \<Rightarrow> resource_preset \<Rightarrow> int \<Rightarrow> pod_gen_input \<Rightarrow> sample_state \<Rightarrow> (pod_gen_output, sample_state) eff" where
  "GenerateSimplePodsForResourcePreset h category num metadata s =
     GenerateSimplePodsWithTemplateData h num \<lparr>ptdResources = AsResourceList category, ptdInput = metadata\<rparr> s"

subsection \<open>Claims and volumes\<close>

definition zeroPVC :: kobj where
  "zeroPVC = zeroObj\<lparr>body := PVCBody \<lparr>pvcStorageClassName = None, pvcVolumeName = [], pvcVolumeMode = None,
     pvcAccessModes = [], pvcRequests = [], pvcSelector = None, pvcVolumeAttributesClassName = None, pvcRest = []\<rparr> [] []\<rparr>"

definition zeroPV :: kobj where
  "zeroPV = zeroObj\<lparr>body := PVBody \<lparr>pvCapacity = [], pvNodeAffinity = None, pvClaimRef = None, pvStorageClassName = [],
     pvVolumeMode = None, pvAccessModes = [], pvReclaimPolicy = [], pvVolumeAttributesClassName = None\<rparr> [] None\<rparr>"

definition zeroStorageClass :: kobj where
  "zeroStorageClass = zeroObj\<lparr>body := StorageClassBody \<lparr>scProvisioner = [], scVolumeBindingMode = None,
     scAllowedTopologies = None, scRest = []\<rparr>\<rparr>"

definition pvcTmplData :: "sample_host \<Rightarrow> vol_gen_input \<Rightarrow> string \<Rightarrow> pvc_tmpl_data" where
  "pvcTmplData h vi pvcName =
     \<lparr>ctName = pvcName, ctNamespace = vgiNamespace vi, ctAccessMode = vgiAccessMode vi,
      ctStorage = saQuantityString h (vgiStorage vi), ctPhase = vgiClaimPhase vi,
      ctStorageClassName = vgiStorageClassName vi,
      ctVolumeName = (if vgiClaimPhase vi = ''Bound'' then ''pv-'' @ pvcName @ ''-0'' else []), ctUID = pvcName\<rparr>"

fun pvcLoop :: "sample_host \<Rightarrow> string \<Rightarrow> string \<Rightarrow> vol_gen_input \<Rightarrow> string list \<Rightarrow> vol_gen_output \<Rightarrow> sample_state \<Rightarrow>
  (vol_gen_output, sample_state) eff" where
  "pvcLoop h tmpl genDir vi [] out s = (Ok out, s)"
| "pvcLoop h tmpl genDir vi (pvcName # names) out s =
     (let yamlPath = pathJoin [genDir, ''pvc-'' @ pvcName @ ''.yaml''] in
      bindE (GenerateAndLoad h tmpl (PVCParams (pvcTmplData h vi pvcName)) yamlPath zeroPVC s) (\<lambda>pvc s.
        let (pvc, s) = stampNow h pvc s in
        pvcLoop h tmpl genDir vi names (out\<lparr>vgoPVCs := vgoPVCs out @ [pvc],
          vgoYAMLPaths := AList.update (NamespacedName (ometa pvc)) yamlPath (vgoYAMLPaths out)\<rparr>) s))"

definition GeneratePersistentVolumeClaims ::
  "sample_host \<Rightarrow> string \<Rightarrow> vol_gen_input \<Rightarrow> sample_state \<Rightarrow> (vol_gen_output, sample_state) eff" where
  "GeneratePersistentVolumeClaims h genDir vi s =
     bindE (LoadEmbeddedTextTemplate h ''data/simple-pvc-template.yaml'', s) (\<lambda>tmpl s.
     bindE (ValidateAndFillDefaults vi, s) (\<lambda>vi s.
       pvcLoop h tmpl genDir vi (vgiPVCNames vi) \<lparr>vgoYAMLPaths = [], vgoPVs = [], vgoPVCs = []\<rparr> s))"

definition pvTmplData :: "sample_host \<Rightarrow> csi_defaults \<Rightarrow> vol_gen_input \<Rightarrow> string \<Rightarrow> nat \<Rightarrow> string \<Rightarrow> pv_tmpl_data" where
  "pvTmplData h csi vi pvcName i zone =
     (let pvName = ''pv-'' @ pvcName @ ''-'' @ digits i in
      \<lparr>vtCSIDriver = cdfDriverName csi, vtName = pvName, vtNamespace = vgiNamespace vi,
       vtStorage = saQuantityString h (vgiStorage vi), vtAccessMode = vgiAccessMode vi, vtVolumeHandle = pvName,
       vtPVCName = pvcName, vtZone = zone,
       vtPhase = (if vgiClaimPhase vi = ''Pending'' then ''Available'' else ''Bound''),
       vtStorageClassName = vgiStorageClassName vi, vtPVCUID = pvcName\<rparr>)"

text \<open>The variable \<open>pv\<close> is declared outside the loop over the zones: a later decode goes into the same object.\<close>

fun pvZoneLoop :: "sample_host \<Rightarrow> string \<Rightarrow> string \<Rightarrow> csi_defaults \<Rightarrow> vol_gen_input \<Rightarrow> string \<Rightarrow> (nat \<times> string) list \<Rightarrow>
  kobj \<Rightarrow> vol_gen_output \<Rightarrow> sample_state \<Rightarrow> (vol_gen_output, sample_state) eff" where
  "pvZoneLoop h tmpl genDir csi vi pvcName [] pv out s = (Ok out, s)"
| "pvZoneLoop h tmpl genDir csi vi pvcName ((i, zone) # zones) pv out s =
     (let td = pvTmplData h csi vi pvcName i zone;
          yamlPath = pathJoin [genDir, vtName td @ ''.yaml''] in
      bindE (GenerateAndLoad h tmpl (PVParams td) yamlPath pv s) (\<lambda>pv s.
        let (pv, s) = stampNow h pv s in
        pvZoneLoop h tmpl genDir csi vi pvcName zones pv (out\<lparr>vgoPVs := vgoPVs out @ [pv],
          vgoYAMLPaths := AList.update (NamespacedName (ometa pv)) yamlPath (vgoYAMLPaths out)\<rparr>) s))"

fun pvLoop :: "sample_host \<Rightarrow> string \<Rightarrow> string \<Rightarrow> csi_defaults \<Rightarrow> vol_gen_input \<Rightarrow> string list \<Rightarrow> vol_gen_output \<Rightarrow>
  sample_state \<Rightarrow> (vol_gen_output, sample_state) eff" where
  "pvLoop h tmpl genDir csi vi [] out s = (Ok out, s)"
| "pvLoop h tmpl genDir csi vi (pvcName # names) out s =
     bindE (pvZoneLoop h tmpl genDir csi vi pvcName (enumerate 0 (vgiPVZones vi)) zeroPV out s) (\<lambda>out s.
       pvLoop h tmpl genDir csi vi names out s)"

definition GeneratePersistentVolumes ::
  "sample_host \<Rightarrow> string \<Rightarrow> vol_gen_input \<Rightarrow> sample_state \<Rightarrow> (vol_gen_output, sample_state) eff" where
  "GeneratePersistentVolumes h genDir vi s =
     bindE (LoadEmbeddedTextTemplate h ''data/simple-pv-template.yaml'', s) (\<lambda>tmpl s.
     bindE (ValidateAndFillDefaults vi, s) (\<lambda>vi s.
       if vgiPVZones vi = [] then (Err (Plain ''empty PVZones''), s)
       else bindE (GetCSIDefaults (vgiProvider vi), s) (\<lambda>csi s.
         pvLoop h tmpl genDir csi vi (vgiPVCNames vi) \<lparr>vgoYAMLPaths = [], vgoPVs = [], vgoPVCs = []\<rparr> s)))"

definition GenerateDefaultStorageClass ::
  "sample_host \<Rightarrow> string \<Rightarrow> string \<Rightarrow> string \<Rightarrow> string \<Rightarrow> sample_state \<Rightarrow> (kobj \<times> string, sample_state) eff" where
  "GenerateDefaultStorageClass h genDir provider name volumeBindingMode s =
     bindE (LoadEmbeddedTextTemplate h ''data/sc-template.yaml'', s) (\<lambda>tmpl s.
       let outYAMLPath = pathJoin [genDir, ''sc-'' @ name @ ''.yaml''] in
       bindE (GetCSIDefaults provider, s) (\<lambda>csi s.
         if name = [] then (Err (Plain ''must specify non-empty name for StorageClass''), s)
         else bindE (GenerateAndLoad h tmpl (SCParams \<lparr>stCSIDriver = cdfDriverName csi, stName = name,
               stVolumeBindingMode = volumeBindingMode\<rparr>) outYAMLPath zeroStorageClass s) (\<lambda>sc s.
           let (sc, s) = stampNow h sc s in (Ok (sc, outYAMLPath), s))))"

subsection \<open>Scaling constraints\<close>

fun setZones :: "string list list \<Rightarrow> nat \<Rightarrow> node_pool list \<Rightarrow> node_pool list" where
  "setZones [] idx pools = pools"
| "setZones (zones # zs) idx pools =
     setZones zs (Suc idx) (pools[idx := (pools ! idx)\<lparr>plAvailabilityZones := zones\<rparr>])"

text \<open>\<open>saveObjToPath\<close>: the file is created or truncated before the object is encoded, so a failed encoding
  leaves it empty.\<close>

definition saveObjToPath :: "sample_host \<Rightarrow> sample_constraint \<Rightarrow> string \<Rightarrow> sample_state \<Rightarrow> (unit, sample_state) eff" where
  "saveObjToPath h c savePath s =
     (case writeFile h savePath [] s of
        (Err e, s) \<Rightarrow> (Err (Wrapped ''failed to open file'' [e]), s)
      | (Panic m, s) \<Rightarrow> (Panic m, s)
      | (Ok _, s) \<Rightarrow> (case saEncodeConstraint h c of
            Err e \<Rightarrow> (Err (Wrapped ''failed to write object'' [e]), s)
          | Panic m \<Rightarrow> (Panic m, s)
          | Ok data \<Rightarrow> (Ok (), s\<lparr>ssFiles := AList.update (resolve h savePath) data (ssFiles s)\<rparr>)))"

definition SaveRuntimeObjAsYAMLToPath ::
  "sample_host \<Rightarrow> sample_constraint \<Rightarrow> string \<Rightarrow> string \<Rightarrow> sample_state \<Rightarrow> (string, sample_state) eff" where
  "SaveRuntimeObjAsYAMLToPath h c saveDir saveFilename s =
     (let savePath = fileJoin saveDir (fileBase saveFilename) in
      bindE (saveObjToPath h c savePath s) (\<lambda>_ s. (Ok savePath, s)))"

definition GenScalingConstraints ::
  "sample_host \<Rightarrow> constraint_gen_input \<Rightarrow> sample_state \<Rightarrow> (constraint_gen_output, sample_state) eff" where
  "GenScalingConstraints h inp s =
     (let presetPath = ''data/scaling-constraints/'' @ cgiPoolPreset inp @ ''.yaml'' in
      if cgiPoolPreset inp = PoolPreset1P \<or> cgiPoolPreset inp = PoolPreset2P then
        bindE (wrapErr (\<lambda>e. Plain ''failed to load scaling constraints'')
            (bindO (saReadEmbedded h presetPath) (saDecodeConstraint h)), s) (\<lambda>c s.
          if length (cgiPoolZones inp) > length (scoNodePools c) then (Err (Plain ''in.PoolZones exceeds number of pools''), s)
          else
            let c = c\<lparr>scoNodePools := setZones (cgiPoolZones inp) 0 (scoNodePools c)\<rparr> in
            if cgiGenDir inp \<noteq> [] then
              bindE (SaveRuntimeObjAsYAMLToPath h c (cgiGenDir inp) ''constraint.yaml'' s) (\<lambda>p s.
                (Ok \<lparr>cgoGenYAMLPath = p, cgoConstraint = c\<rparr>, s))
            else (Ok \<lparr>cgoGenYAMLPath = [], cgoConstraint = c\<rparr>, s))
      else (Err (Wrapped ''unsupported'' [Sentinel ''ErrUnimplemented'']), s))"

subsection \<open>More unscheduled pods\<close>

text \<open>The copies of one pod; \<open>upod.Name[len(upod.Name)-1:]\<close> panics on an empty name.\<close>

definition replicasOf :: "int \<Rightarrow> pod_info \<Rightarrow> pod_info list outcome" where
  "replicasOf amount upod =
     (let name = mName (piMeta upod) in
      if name = [] then Panic ''slice bounds out of range''
      else
        let endsWithDigit = isDigit (last name);
            existingBase = (if endsWithDigit then of_char (last name) - 48 else 0 :: nat);
            pref = (if endsWithDigit then butlast name else name)
        in Ok (map (\<lambda>i. upod\<lparr>piMeta := (piMeta upod)\<lparr>
              mName := (if endsWithDigit then pref @ digits (existingBase + i) else pref @ ''-'' @ digits (existingBase + i)),
              mUID := mUID (piMeta upod) @ ''-'' @ digits i\<rparr>\<rparr>) [1..<Suc (nat amount)]))"

fun increaseLoop :: "int \<Rightarrow> pod_info list \<Rightarrow> pod_info list \<Rightarrow> pod_info list outcome" where
  "increaseLoop amount [] extra = Ok extra"
| "increaseLoop amount (upod # upods) extra =
     bindO (replicasOf amount upod) (\<lambda>ps. increaseLoop amount upods (extra @ ps))"

definition IncreaseUnscheduledWorkLoad :: "cluster_snapshot \<Rightarrow> int \<Rightarrow> cluster_snapshot outcome" where
  "IncreaseUnscheduledWorkLoad snapshot amount =
     bindO (increaseLoop amount (GetUnscheduledPods snapshot) []) (\<lambda>extra.
       Ok (snapshot\<lparr>csPods := csPods snapshot @ extra\<rparr>))"

end
