(* ===== verification/SamplesProps.thy ===== *)
theory SamplesProps
  imports Samples
begin

text \<open>
  What the sample generators guarantee: how the unscheduled work of a snapshot grows and when the new
  names collide, that volumes and claims of one input fit together, and where a rendered object is
  looked for.
\<close>

subsection \<open>Growing the unscheduled work\<close>

definition nameStem :: "string \<Rightarrow> string" where
  "nameStem n = (if isDigit (last n) then butlast n else n @ ''-'')"

definition nameBase :: "string \<Rightarrow> nat" where
  "nameBase n = (if isDigit (last n) then of_char (last n) - 48 else 0)"

definition replica :: "pod_info \<Rightarrow> nat \<Rightarrow> pod_info" where
  "replica p i = p\<lparr>piMeta := (piMeta p)\<lparr>mName := nameStem (mName (piMeta p)) @ digits (nameBase (mName (piMeta p)) + i),
     mUID := mUID (piMeta p) @ ''-'' @ digits i\<rparr>\<rparr>"

definition podName :: "pod_info \<Rightarrow> string" where
  "podName p = mName (piMeta p)"

lemma replicasOf_eq:
  "podName p \<noteq> [] \<Longrightarrow> replicasOf amount p = Ok (map (replica p) [1..<Suc (nat amount)])"
  by (simp add: replicasOf_def Let_def replica_def nameStem_def nameBase_def podName_def)

lemma increaseLoop_eq:
  "\<forall>p\<in>set ps. podName p \<noteq> [] \<Longrightarrow>
     increaseLoop amount ps extra = Ok (extra @ concat (map (\<lambda>p. map (replica p) [1..<Suc (nat amount)]) ps))"
  by (induction ps arbitrary: extra) (simp_all add: replicasOf_eq del: upt_Suc)

lemma increaseLoop_panic:
  "\<exists>p\<in>set ps. podName p = [] \<Longrightarrow> \<exists>m. increaseLoop amount ps extra = Panic m"
proof (induction ps arbitrary: extra)
  case (Cons p ps)
  show ?case
  proof (cases "podName p = []")
    case True
    then show ?thesis by (simp add: replicasOf_def podName_def)
  next
    case False
    then show ?thesis using Cons by (simp add: replicasOf_eq del: upt_Suc)
  qed
qed simp

lemma digit_name:
  assumes "n \<noteq> []" "isDigit (last n)"
  shows "n = nameStem n @ digits (nameBase n)"
proof -
  have "nameBase n < 10" "(of_char (last n) :: nat) = 48 + nameBase n"
    using assms(2) by (auto simp: nameBase_def isDigit_def)
  then have "digits (nameBase n) = [last n]" by (subst digits.simps) (metis char_of_char)
  then show ?thesis using assms by (simp add: nameStem_def)
qed

lemma replica_name_distinct:
  assumes "podName p \<noteq> []"
  shows "distinct (map podName (p # map (replica p) [1..<Suc m]))"
proof -
  have inj: "podName (replica p i) = podName (replica p j) \<Longrightarrow> i = j" for i j
    by (auto simp: replica_def podName_def dest!: digits_inj)
  have own: "podName p \<noteq> podName (replica p i)" if "0 < i" for i
  proof (cases "isDigit (last (podName p))")
    case True
    then have "podName p = nameStem (podName p) @ digits (nameBase (podName p))" by (rule digit_name [OF assms])
    moreover have "digits (nameBase (podName p)) \<noteq> digits (nameBase (podName p) + i)"
      using that digits_inj by fastforce
    ultimately show ?thesis by (simp add: replica_def podName_def) (metis same_append_eq)
  next
    case False
    then have "length (podName p) < length (podName (replica p i))"
      by (simp add: replica_def podName_def nameStem_def)
    then show ?thesis by auto
  qed
  have "podName p \<notin> podName ` replica p ` {1..<Suc m}" 
  proof
    assume "podName p \<in> podName ` replica p ` {1..<Suc m}"
    then obtain i where "i \<in> {1..<Suc m}" "podName p = podName (replica p i)" by blast
    then show False using own [of i] by simp
  qed
  then show ?thesis using inj by (simp add: distinct_map inj_on_def image_image del: upt_Suc)
qed

text \<open>
  When no unscheduled pod has an empty name, growing the unscheduled work by an amount appends for
  every unscheduled pod that many copies of it, unscheduled too, which differ from it in name and UID
  only; the copies of one pod have names different from each other's and from its own. One unscheduled
  pod with an empty name makes the call panic.
\<close>

lemma new_unscheduled:
  assumes "\<forall>p \<in> set ps. piNodeName p = []"
  shows "filter (\<lambda>p. piNodeName p = []) (concat (map (\<lambda>p. map (replica p) ks) ps)) = concat (map (\<lambda>p. map (replica p) ks) ps)"
  using assms by (induction ps) (auto simp: replica_def filter_id_conv)

lemma new_length: "length (concat (map (\<lambda>p. map (replica p) ks) ps)) = length ks * length ps"
  by (induction ps) simp_all

theorem IncreaseUnscheduledWorkLoad_exact:
  fixes snap :: cluster_snapshot and amount :: int
  defines "us \<equiv> GetUnscheduledPods snap" and "copies \<equiv> \<lambda>p. map (replica p) [1..<Suc (nat amount)]"
  shows "if list_ex (\<lambda>p. podName p = []) us then \<exists>m. IncreaseUnscheduledWorkLoad snap amount = Panic m
    else \<exists>snap'. IncreaseUnscheduledWorkLoad snap amount = Ok snap' \<and>
      snap'\<lparr>csPods := csPods snap\<rparr> = snap \<and> csPods snap' = csPods snap @ concat (map copies us) \<and>
      length (GetUnscheduledPods snap') = Suc (nat amount) * length us \<and>
      list_all (\<lambda>p. distinct (map podName (p # copies p))) us"
proof (cases "list_ex (\<lambda>p. podName p = []) us")
  case True
  then show ?thesis
    using increaseLoop_panic [of us amount "[]"] by (auto simp: IncreaseUnscheduledWorkLoad_def us_def list_ex_iff)
next
  case False
  have eq: "IncreaseUnscheduledWorkLoad snap amount = Ok (snap\<lparr>csPods := csPods snap @ concat (map copies us)\<rparr>)"
    using increaseLoop_eq [of us amount "[]"] False
    by (simp add: IncreaseUnscheduledWorkLoad_def us_def [symmetric] copies_def list_ex_iff del: upt_Suc)
  have un: "\<forall>p \<in> set us. piNodeName p = []" by (simp add: us_def GetUnscheduledPods_def)
  have "GetUnscheduledPods (snap\<lparr>csPods := csPods snap @ concat (map copies us)\<rparr>) = us @ concat (map copies us)"
    using new_unscheduled [OF un] by (simp add: copies_def us_def GetUnscheduledPods_def del: upt_Suc)
  moreover have "list_all (\<lambda>p. distinct (map podName (p # copies p))) us"
    using False replica_name_distinct unfolding list_all_iff list_ex_iff copies_def by blast
  ultimately show ?thesis using False eq by (simp add: copies_def new_length del: upt_Suc)
qed

text \<open>
  The copies of different pods may collide: of two unscheduled pods whose names differ in the final
  digit only, the one with the smaller digit gets a copy with the name of the other as soon as the
  amount reaches the difference.
\<close>

lemma increase_collides:
  assumes "p \<in> set (GetUnscheduledPods snap)" "q \<in> set (csPods snap)" "\<forall>u \<in> set (GetUnscheduledPods snap). podName u \<noteq> []"
    and "podName p = stem @ digits i" "podName q = stem @ digits j" "j < 10" "i < j" "int (j - i) \<le> amount"
  shows "\<exists>snap'. IncreaseUnscheduledWorkLoad snap amount = Ok snap' \<and> \<not> distinct (map podName (csPods snap'))"
proof -
  let ?new = "concat (map (\<lambda>p. map (replica p) [1..<Suc (nat amount)]) (GetUnscheduledPods snap))"
  have i: "digits i = [char_of (48 + i)]" using assms(6,7) by (subst digits.simps) simp
  have "isDigit (char_of (48 + i))" using assms(6,7) by (simp add: isDigit_def of_char_digit)
  then have "nameStem (podName p) = stem" "nameBase (podName p) = i"
    using assms(4,6,7) i by (simp_all add: nameStem_def nameBase_def of_char_digit)
  then have "podName (replica p (j - i)) = podName q" using assms(5,7) by (simp add: replica_def podName_def)
  moreover have "replica p (j - i) \<in> set ?new" proof -
    have "j - i \<in> {1..<Suc (nat amount)}" using assms(7,8) by auto
    then show ?thesis using assms(1) unfolding set_concat set_map set_upt image_image by blast
  qed
  ultimately have "podName q \<in> podName ` set ?new" by (metis imageI)
  then have "\<not> distinct (map podName (csPods snap @ ?new))" using assms(2) by (auto simp: image_iff simp del: upt_Suc)
  then show ?thesis using increaseLoop_eq [OF assms(3), of amount "[]"] by (simp add: IncreaseUnscheduledWorkLoad_def del: upt_Suc)
qed

subsection \<open>Claims and volumes\<close>

lemma GenerateAndLoad_Ok:
  assumes "GenerateAndLoad h tmpl params path o' s = (Ok x, s')"
  obtains data where "saExecute h tmpl params = Ok data" "writeFile h path data s = (Ok (), s')" "saOpenRoot h = None"
    "LoadIntoRuntimeObj h (TrimPrefix path ''/'') o' s' = Ok x"
  using assms by (auto simp: GenerateAndLoad_def split: outcome.splits prod.splits option.splits)

text \<open>What is loaded comes from the file that was just written, when it is found at the root.\<close>

lemma GenerateAndLoad_decodes:
  assumes "GenerateAndLoad h tmpl params path o' s = (Ok x, s')" "prefix ''/'' path" "fileClean path = path"
  obtains data where "saExecute h tmpl params = Ok data" "saDecode h data o' = Ok x"
proof -
  from assms(2) obtain q where q: "path = ''/'' @ q" by (auto simp: prefix_def)
  then have r: "resolve h path = ''/'' @ q" "TrimPrefix path ''/'' = q"
    using assms(3) by (simp_all add: resolve_def TrimPrefix_def)
  from assms(1) show thesis
  proof (rule GenerateAndLoad_Ok)
    fix data
    assume a: "saExecute h tmpl params = Ok data" "writeFile h path data s = (Ok (), s')"
      "LoadIntoRuntimeObj h (TrimPrefix path ''/'') o' s' = Ok x"
    then have "readRoot s' q = (if validPath q then Ok data else Err (Sentinel ''ErrInvalid''))"
      using r by (auto simp: writeFile_def readRoot_def split: option.splits)
    then have "saDecode h data o' = Ok x" using a(3) r by (simp add: LoadIntoRuntimeObj_def split: if_splits)
    with a(1) show thesis by (rule that)
  qed
qed

lemma relative_path_not_found:
  assumes "\<not> prefix ''/'' path" "resolve h path \<noteq> ''/'' @ path" "map_of (ssFiles s) (''/'' @ path) = None"
  shows "\<nexists>x s'. GenerateAndLoad h tmpl params path o' s = (Ok x, s')"
proof
  assume "\<exists>x s'. GenerateAndLoad h tmpl params path o' s = (Ok x, s')"
  then obtain x s' where "GenerateAndLoad h tmpl params path o' s = (Ok x, s')" by blast
  then show False
    by (rule GenerateAndLoad_Ok)
      (use assms in \<open>auto simp: TrimPrefix_def writeFile_def LoadIntoRuntimeObj_def readRoot_def bindO_eq_Ok split: option.splits if_splits\<close>)
qed

text \<open>The names of the volumes: one for every claim and zone, all different.\<close>

definition volumeName :: "string \<Rightarrow> nat \<Rightarrow> string" where
  "volumeName pvcName i = ''pv-'' @ pvcName @ ''-'' @ digits i"

lemma last_occurrence_unique:
  assumes "xs @ c # as = ys @ c # bs" "c \<notin> set as" "c \<notin> set bs"
  shows "xs = ys \<and> as = bs"
proof -
  have tw: "takeWhile (\<lambda>x. x \<noteq> c) (rev (zs @ c # ds)) = rev ds" if "c \<notin> set ds" for zs ds
  proof -
    have "takeWhile (\<lambda>x. x \<noteq> c) (rev ds @ c # rev zs) = rev ds @ takeWhile (\<lambda>x. x \<noteq> c) (c # rev zs)"
      by (rule takeWhile_append2) (use that in auto)
    then show ?thesis by simp
  qed
  have "rev as = rev bs" using tw [OF assms(2), of xs] tw [OF assms(3), of ys] assms(1) by simp
  then show ?thesis using assms(1) by simp
qed

lemma volumeName_inj: "volumeName n i = volumeName m j \<longleftrightarrow> n = m \<and> i = j"
proof
  have no: "CHR ''-'' \<notin> set (digits k)" for k using digits_isDigit [of "CHR ''-''" k] by (auto simp: isDigit_def)
  assume "volumeName n i = volumeName m j"
  then have "n @ CHR ''-'' # digits i = m @ CHR ''-'' # digits j" by (simp add: volumeName_def)
  then have "n = m \<and> digits i = digits j" by (rule last_occurrence_unique [OF _ no no])
  then show "n = m \<and> i = j" using digits_inj by blast
qed simp

definition volumeNames :: "vol_gen_input \<Rightarrow> string list" where
  "volumeNames vi = concat (map (\<lambda>n. map (volumeName n) [0..<length (vgiPVZones vi)]) (vgiPVCNames vi))"

lemma volumeNames_distinct: "distinct (vgiPVCNames vi) \<Longrightarrow> distinct (volumeNames vi)"
proof -
  have "distinct (concat (map (\<lambda>n. map (volumeName n) [0..<k]) ns))" if "distinct ns" for k ns
    using that by (induction ns) (auto simp: distinct_map inj_on_def volumeName_inj)
  then show "distinct (vgiPVCNames vi) \<Longrightarrow> distinct (volumeNames vi)" by (simp add: volumeNames_def)
qed

lemma ValidateAndFillDefaults_keeps:
  assumes "ValidateAndFillDefaults vi = Ok vi'"
  shows "vgiPVCNames vi' = vgiPVCNames vi" "vgiPVZones vi' = vgiPVZones vi" "vgiClaimPhase vi' = vgiClaimPhase vi"
    "vgiPVCNames vi \<noteq> []"
  using assms by (auto simp: ValidateAndFillDefaults_def Let_def split: if_splits)

text \<open>
  Objects rendered from a list of template data, one after the other: each is what the decoder makes of
  the executed template, decoded over the object before it, with a creation time.
\<close>

fun rendered :: "sample_host \<Rightarrow> string \<Rightarrow> ('a \<Rightarrow> tmpl_params) \<Rightarrow> 'a list \<Rightarrow> kobj \<Rightarrow> kobj list \<Rightarrow> bool" where
  "rendered h tmpl mk [] o' xs \<longleftrightarrow> xs = []"
| "rendered h tmpl mk (td # tds) o' xs \<longleftrightarrow> (\<exists>data x0 t x xs'. saExecute h tmpl (mk td) = Ok data \<and> saDecode h data o' = Ok x0 \<and>
     x = x0\<lparr>ometa := (ometa x0)\<lparr>mCreationTimestamp := t\<rparr>\<rparr> \<and> xs = x # xs' \<and> rendered h tmpl mk tds x xs')"

abbreviation pvData :: "sample_host \<Rightarrow> csi_defaults \<Rightarrow> vol_gen_input \<Rightarrow> string \<Rightarrow> (nat \<times> string) list \<Rightarrow> pv_tmpl_data list" where
  "pvData h csi vi n \<equiv> map (\<lambda>(i, z). pvTmplData h csi vi n i z)"

lemma pvZoneLoop_renders:
  assumes dir: "prefix ''/'' dir" and "pvZoneLoop h tmpl dir csi vi n zs pv out s = (Ok out', s')"
  shows "\<exists>xs. vgoPVs out' = vgoPVs out @ xs \<and> rendered h tmpl PVParams (pvData h csi vi n zs) pv xs"
  using assms(2)
proof (induction zs arbitrary: pv out s)
  case (Cons z zs)
  obtain i zone where z: "z = (i, zone)" by (cases z)
  let ?td = "pvTmplData h csi vi n i zone"
  let ?path = "pathJoin [dir, vtName ?td @ ''.yaml'']"
  from Cons.prems obtain pv1 s1 where g: "GenerateAndLoad h tmpl (PVParams ?td) ?path pv s = (Ok pv1, s1)"
    and rest: "(let (pv2, s2) = stampNow h pv1 s1 in pvZoneLoop h tmpl dir csi vi n zs pv2 (out\<lparr>vgoPVs := vgoPVs out @ [pv2],
        vgoYAMLPaths := AList.update (NamespacedName (ometa pv2)) ?path (vgoYAMLPaths out)\<rparr>) s2) = (Ok out', s')"
    unfolding z pvZoneLoop.simps Let_def [of ?td] Let_def [of ?path] bindE_eq_Ok by blast
  obtain data where data: "saExecute h tmpl (PVParams ?td) = Ok data" "saDecode h data pv = Ok pv1"
    by (rule GenerateAndLoad_decodes [OF g fileClean_pathJoin [OF dir]])
  let ?x = "fst (stampNow h pv1 s1)"
  obtain xs where xs: "vgoPVs out' = vgoPVs out @ ?x # xs" "rendered h tmpl PVParams (pvData h csi vi n zs) ?x xs"
    using Cons.IH [OF rest [unfolded Let_def case_prod_beta]] by auto
  have "?x = pv1\<lparr>ometa := (ometa pv1)\<lparr>mCreationTimestamp := saNowAt h (ssTick s1)\<rparr>\<rparr>" by (simp add: stampNow_def)
  then have "rendered h tmpl PVParams (?td # pvData h csi vi n zs) pv (?x # xs)"
    unfolding rendered.simps using data xs(2) by blast
  then show ?case using xs(1) by (auto simp: z)
qed simp

lemma pvLoop_renders:
  assumes dir: "prefix ''/'' dir" and "pvLoop h tmpl dir csi vi ns out s = (Ok out', s')"
  shows "\<exists>xss. vgoPVs out' = vgoPVs out @ concat xss \<and>
    list_all2 (\<lambda>n xs. rendered h tmpl PVParams (pvData h csi vi n (enumerate 0 (vgiPVZones vi))) zeroPV xs) ns xss"
  using assms(2)
proof (induction ns arbitrary: out s)
  case (Cons n ns)
  then obtain out1 s1 where 1: "pvZoneLoop h tmpl dir csi vi n (enumerate 0 (vgiPVZones vi)) zeroPV out s = (Ok out1, s1)"
    and 2: "pvLoop h tmpl dir csi vi ns out1 s1 = (Ok out', s')"
    unfolding pvLoop.simps bindE_eq_Ok by blast
  obtain xs where "vgoPVs out1 = vgoPVs out @ xs"
    "rendered h tmpl PVParams (pvData h csi vi n (enumerate 0 (vgiPVZones vi))) zeroPV xs"
    using pvZoneLoop_renders [OF dir 1] by blast
  moreover obtain xss where "vgoPVs out' = vgoPVs out1 @ concat xss"
    "list_all2 (\<lambda>n xs. rendered h tmpl PVParams (pvData h csi vi n (enumerate 0 (vgiPVZones vi))) zeroPV xs) ns xss"
    using Cons.IH [OF 2] by blast
  ultimately show ?case by (intro exI [of _ "xs # xss"]) simp
qed simp

lemma pvcLoop_renders:
  assumes dir: "prefix ''/'' dir" and "pvcLoop h tmpl dir vi ns out s = (Ok out', s')"
  shows "\<exists>cs. vgoPVCs out' = vgoPVCs out @ cs \<and> list_all2 (\<lambda>n c. rendered h tmpl PVCParams [pvcTmplData h vi n] zeroPVC [c]) ns cs"
  using assms(2)
proof (induction ns arbitrary: out s)
  case (Cons n ns)
  let ?td = "pvcTmplData h vi n"
  let ?path = "pathJoin [dir, ''pvc-'' @ n @ ''.yaml'']"
  from Cons.prems obtain c s1 where g: "GenerateAndLoad h tmpl (PVCParams ?td) ?path zeroPVC s = (Ok c, s1)"
    and rest: "(let (c2, s2) = stampNow h c s1 in pvcLoop h tmpl dir vi ns (out\<lparr>vgoPVCs := vgoPVCs out @ [c2],
        vgoYAMLPaths := AList.update (NamespacedName (ometa c2)) ?path (vgoYAMLPaths out)\<rparr>) s2) = (Ok out', s')"
    unfolding pvcLoop.simps Let_def [of ?path] bindE_eq_Ok by blast
  obtain data where ex: "saExecute h tmpl (PVCParams ?td) = Ok data" "saDecode h data zeroPVC = Ok c"
    by (rule GenerateAndLoad_decodes [OF g fileClean_pathJoin [OF dir]])
  let ?c2 = "fst (stampNow h c s1)"
  have "?c2 = c\<lparr>ometa := (ometa c)\<lparr>mCreationTimestamp := saNowAt h (ssTick s1)\<rparr>\<rparr>" by (simp add: stampNow_def)
  then have "rendered h tmpl PVCParams [?td] zeroPVC [?c2]" using ex by auto
  moreover obtain cs where "vgoPVCs out' = (vgoPVCs out @ [?c2]) @ cs"
    "list_all2 (\<lambda>n c. rendered h tmpl PVCParams [pvcTmplData h vi n] zeroPVC [c]) ns cs"
    using Cons.IH [OF rest [unfolded Let_def case_prod_beta]] by auto
  ultimately show ?case by (intro exI [of _ "?c2 # cs"]) (simp del: rendered.simps)
qed simp

text \<open>The data the templates are executed with: a volume for every claim and zone, a claim for every name.\<close>

definition volumeData :: "sample_host \<Rightarrow> csi_defaults \<Rightarrow> vol_gen_input \<Rightarrow> pv_tmpl_data list" where
  "volumeData h csi vi = concat (map (\<lambda>n. pvData h csi vi n (enumerate 0 (vgiPVZones vi))) (vgiPVCNames vi))"

lemma volumeData_names: "map vtName (volumeData h csi vi) = volumeNames vi"
proof -
  have "map vtName (pvData h csi vi n (enumerate 0 zs)) = map (volumeName n) [0..<length zs]" for n zs
  proof -
    have "map vtName (pvData h csi vi n (enumerate 0 zs)) = map (volumeName n) (map fst (enumerate 0 zs))"
      unfolding map_map by (rule map_cong [OF refl]) (simp add: pvTmplData_def volumeName_def Let_def split_beta)
    then show ?thesis by (simp only: map_fst_enumerate) simp
  qed
  then show ?thesis by (simp add: volumeData_def volumeNames_def map_concat comp_def)
qed

lemma volumeData_claim:
  assumes "v \<in> set (volumeData h csi vi)" "vtPVCName v = ctName (pvcTmplData h vi n)"
  shows "vtNamespace v = ctNamespace (pvcTmplData h vi n) \<and> vtStorage v = ctStorage (pvcTmplData h vi n) \<and>
    vtAccessMode v = ctAccessMode (pvcTmplData h vi n) \<and> vtStorageClassName v = ctStorageClassName (pvcTmplData h vi n) \<and>
    vtPVCUID v = ctUID (pvcTmplData h vi n)"
  using assms by (auto simp: volumeData_def pvTmplData_def pvcTmplData_def Let_def)

lemma volumeData_first:
  assumes "n \<in> set (vgiPVCNames vi)" "vgiPVZones vi \<noteq> []" "vgiClaimPhase vi = ''Bound''"
  shows "\<exists>v\<in>set (volumeData h csi vi). vtName v = ctVolumeName (pvcTmplData h vi n) \<and> vtPVCName v = n \<and>
    vtZone v = hd (vgiPVZones vi) \<and> vtPhase v = ''Bound''"
proof -
  have d0: "digits 0 = ''0''" by code_simp
  have "(0, hd (vgiPVZones vi)) \<in> set (enumerate 0 (vgiPVZones vi))" using assms(2) by (cases "vgiPVZones vi") simp_all
  then have "pvTmplData h csi vi n 0 (hd (vgiPVZones vi)) \<in> set (volumeData h csi vi)"
    using assms(1) unfolding volumeData_def by force
  then show ?thesis using assms(3) by (rule_tac bexI) (simp_all add: pvTmplData_def pvcTmplData_def d0 Let_def)
qed

text \<open>
  C40. Volumes and claims generated from one input into an absolute directory fit together. Every
  object is what the decoder makes of the embedded template, executed with data of its own, read back
  from the file just written: the claims one for every name, the volumes one for every claim and
  zone, in that order (those of one claim decoded over each other). And these data fit: the names of the
  volumes are all different when the claims have different names; a volume agrees with its claim on
  namespace, storage, access mode, storage class and UID; and a claim names a volume exactly if the
  claims are to be bound, namely the first of its own, in the first zone, which is bound too.
\<close>

theorem generated_volumes_fit:
  assumes dir: "prefix ''/'' dir"
    and vols: "GeneratePersistentVolumes h dir vi s = (Ok outV, s1)"
    and claims: "GeneratePersistentVolumeClaims h dir vi s' = (Ok outC, s2)"
  shows "\<exists>vi' csi tv tc xss. ValidateAndFillDefaults vi = Ok vi' \<and> GetCSIDefaults (vgiProvider vi') = Ok csi \<and>
    LoadEmbeddedTextTemplate h ''data/simple-pv-template.yaml'' = Ok tv \<and>
    LoadEmbeddedTextTemplate h ''data/simple-pvc-template.yaml'' = Ok tc \<and>
    vgoPVs outV = concat xss \<and>
    list_all2 (\<lambda>n xs. rendered h tv PVParams (map (\<lambda>(i, z). pvTmplData h csi vi' n i z) (enumerate 0 (vgiPVZones vi))) zeroPV xs)
      (vgiPVCNames vi) xss \<and>
    list_all2 (\<lambda>n c. rendered h tc PVCParams [pvcTmplData h vi' n] zeroPVC [c]) (vgiPVCNames vi) (vgoPVCs outC) \<and>
    (distinct (vgiPVCNames vi) \<longrightarrow> distinct (map vtName (volumeData h csi vi'))) \<and>
    (\<forall>n\<in>set (vgiPVCNames vi). let c = pvcTmplData h vi' n in
      (\<forall>v\<in>set (volumeData h csi vi'). vtPVCName v = ctName c \<longrightarrow>
        vtNamespace v = ctNamespace c \<and> vtStorage v = ctStorage c \<and> vtAccessMode v = ctAccessMode c \<and>
        vtStorageClassName v = ctStorageClassName c \<and> vtPVCUID v = ctUID c) \<and>
      (if vgiClaimPhase vi = ''Bound'' then \<exists>v\<in>set (volumeData h csi vi'). vtName v = ctVolumeName c \<and> vtPVCName v = n \<and>
          vtZone v = hd (vgiPVZones vi) \<and> vtPhase v = ''Bound''
       else ctVolumeName c = []))"
proof -
  from vols obtain tv vi' csi s3 where v: "LoadEmbeddedTextTemplate h ''data/simple-pv-template.yaml'' = Ok tv"
    "ValidateAndFillDefaults vi = Ok vi'" "vgiPVZones vi' \<noteq> []" "GetCSIDefaults (vgiProvider vi') = Ok csi"
    "pvLoop h tv dir csi vi' (vgiPVCNames vi') \<lparr>vgoYAMLPaths = [], vgoPVs = [], vgoPVCs = []\<rparr> s3 = (Ok outV, s1)"
    by (auto simp: GeneratePersistentVolumes_def bindE_eq_Ok split: if_splits)
  note keep = ValidateAndFillDefaults_keeps [OF v(2)]
  from claims v(2) obtain tc s4 where c: "LoadEmbeddedTextTemplate h ''data/simple-pvc-template.yaml'' = Ok tc"
    "pvcLoop h tc dir vi' (vgiPVCNames vi') \<lparr>vgoYAMLPaths = [], vgoPVs = [], vgoPVCs = []\<rparr> s4 = (Ok outC, s2)"
    by (auto simp: GeneratePersistentVolumeClaims_def bindE_eq_Ok)
  obtain xss where "vgoPVs outV = concat xss"
    "list_all2 (\<lambda>n xs. rendered h tv PVParams (pvData h csi vi' n (enumerate 0 (vgiPVZones vi))) zeroPV xs) (vgiPVCNames vi) xss"
    using pvLoop_renders [OF dir v(5)] keep by auto
  moreover have "list_all2 (\<lambda>n c. rendered h tc PVCParams [pvcTmplData h vi' n] zeroPVC [c]) (vgiPVCNames vi) (vgoPVCs outC)"
    using pvcLoop_renders [OF dir c(2)] keep by (auto simp del: rendered.simps)
  moreover have "distinct (map vtName (volumeData h csi vi'))" if "distinct (vgiPVCNames vi)"
    unfolding volumeData_names using volumeNames_distinct [of vi'] that keep by simp
  moreover have "if vgiClaimPhase vi = ''Bound'' then \<exists>v\<in>set (volumeData h csi vi'). vtName v = ctVolumeName (pvcTmplData h vi' n) \<and>
      vtPVCName v = n \<and> vtZone v = hd (vgiPVZones vi) \<and> vtPhase v = ''Bound''
    else ctVolumeName (pvcTmplData h vi' n) = []" if "n \<in> set (vgiPVCNames vi)" for n
    using volumeData_first [of n vi' h csi] that v(3) keep by (simp add: pvcTmplData_def)
  ultimately show ?thesis
    unfolding Let_def using v c(1) volumeData_claim
    by (intro exI [of _ vi'] exI [of _ csi] exI [of _ tv] exI [of _ tc] exI [of _ xss]) (simp del: rendered.simps)
qed

definition tinyDecode :: "string \<Rightarrow> kobj \<Rightarrow> kobj outcome" where
  "tinyDecode data o' = (case data of
       c # n \<Rightarrow> if c = CHR ''V'' then Ok (zeroPV\<lparr>ometa := emptyMeta\<lparr>mName := n\<rparr>\<rparr>)
         else (case body zeroPVC of PVCBody sp ph cap \<Rightarrow> Ok (zeroPVC\<lparr>body := PVCBody (sp\<lparr>pvcVolumeName := n\<rparr>) ph cap\<rparr>) | _ \<Rightarrow> Ok zeroPVC)
     | [] \<Rightarrow> Err (Plain ''empty''))"

definition tinyHost :: sample_host where
  "tinyHost = \<lparr>saReadEmbedded = (\<lambda>_. Ok ''t''), saParse = (\<lambda>_. None),
     saExecute = (\<lambda>_ ps. case ps of PVParams td \<Rightarrow> Ok (CHR ''V'' # vtName td) | PVCParams td \<Rightarrow> Ok (CHR ''C'' # ctVolumeName td)
       | _ \<Rightarrow> Err (Plain ''unused'')),
     saWrite = (\<lambda>_ _. None), saOpenRoot = None, saCwd = ''/w'', saDecode = tinyDecode,
     saDecodeConstraint = (\<lambda>_. Err (Plain ''unused'')), saEncodeConstraint = (\<lambda>_. Err (Plain ''unused'')),
     saQuantityString = (\<lambda>_. ''1Gi''), saNowAt = int\<rparr>"

definition tinyVolumes :: vol_gen_input where
  "tinyVolumes = \<lparr>vgiProvider = ''aws'', vgiNamespace = [], vgiStorage = 0, vgiAccessMode = [], vgiStorageClassName = [],
     vgiClaimPhase = ''Bound'', vgiVolumeBindingMode = [], vgiPVCNames = [''a''], vgiPVZones = [''x'', ''y''],
     vgiMaxAllocatableVolumes = 0, vgiGeneratePV = True\<rparr>"

definition tinyState :: sample_state where "tinyState = \<lparr>ssFiles = [], ssTick = 1\<rparr>"

definition noVolumes :: vol_gen_output where "noVolumes = \<lparr>vgoYAMLPaths = [], vgoPVs = [], vgoPVCs = []\<rparr>"

definition okOr :: "'a \<Rightarrow> ('a, 's) eff \<Rightarrow> 'a" where
  "okOr d r = (case fst r of Ok x \<Rightarrow> x | _ \<Rightarrow> d)"

definition isOk :: "('a, 's) eff \<Rightarrow> bool" where
  "isOk r \<longleftrightarrow> (case fst r of Ok _ \<Rightarrow> True | _ \<Rightarrow> False)"

lemma isOk_pair: "isOk r \<Longrightarrow> r = (Ok (okOr d r), snd r)"
  by (cases r; cases "fst r") (auto simp: isOk_def okOr_def)

lemma tiny_runs:
  "isOk (GeneratePersistentVolumes tinyHost ''/g'' tinyVolumes tinyState)"
  "isOk (GeneratePersistentVolumeClaims tinyHost ''/g'' tinyVolumes tinyState)"
  by code_simp+

theorem generated_volumes_fit_witness:
  "\<exists>a b c. vgoPVs (okOr noVolumes (GeneratePersistentVolumes tinyHost ''/g'' tinyVolumes tinyState)) = [a, b] \<and>
    vgoPVCs (okOr noVolumes (GeneratePersistentVolumeClaims tinyHost ''/g'' tinyVolumes tinyState)) = [c]"
proof -
  have "prefix ''/'' ''/g''" by simp
  from generated_volumes_fit [OF this isOk_pair [OF tiny_runs(1)] isOk_pair [OF tiny_runs(2)], of noVolumes noVolumes]
  show ?thesis by (auto simp: tinyVolumes_def list_all2_Cons1)
qed

end
