(* ===== verification/Spec2Isabelle.thy ===== *)
theory Spec2Isabelle
  imports StoreProps ViewProps ScoreProps ClientProps PlannerProps Launcher
    ObfuscateProps GenScenarioProps AwsPriceProps ScenarioCmd RootProps WatchProps ServiceProps Operator SamplesProps
begin

text \<open>
  A verification development for the scaling advisor, a Go program that advises a Kubernetes cluster
  which nodes to add for pods that cannot be scheduled. The program takes a snapshot of the cluster,
  loads it into an in-memory API server (\<open>minkapi\<close>), simulates the scheduler on sandboxes of that
  server, one for each candidate node, scores the results, and plans the winners.

  \<^bold>\<open>The parts and their theories.\<close>

  \<^item> \<open>Prelude\<close> and \<open>GoLib\<close>: outcomes (a value, an error, a panic), functions with effects and their
    composition, Go maps as association lists, the library functions the program uses (integers to
    and from decimal, stable sorting with a three-way comparison, trimming).
  \<^item> \<open>KubeTypes\<close>, \<open>TypeInfo\<close>, \<open>ObjUtil\<close>, \<open>Memory\<close>: the Kubernetes objects, the registry of supported
    kinds (\<open>minkapi/view/typeinfo\<close>), object helpers (\<open>common/objutil\<close>), and the store of addresses
    objects live at. Objects are pointers in the code, shared between stores, watchers and callers;
    here an object is at an address, and every read and write goes through the memory.
  \<^item> \<open>MatchCriteria\<close>, \<open>ResStore\<close>, \<open>StoreLists\<close>, \<open>StoreProps\<close>: the resource store of one kind
    (\<open>minkapi/view/store\<close>): add, update, delete with or without tombstone, listing, bulk
    deletion, watching.
  \<^item> \<open>Views\<close>, \<open>EventSink\<close>, \<open>ViewInv\<close>, \<open>ViewOps\<close>, \<open>ViewProps\<close>: base and sandbox views and the access to
    them (\<open>minkapi/view\<close>). A sandbox reads through to its delegate what it has not changed.
  \<^item> \<open>Client\<close>, \<open>ClientProps\<close>: the Kubernetes client on a view that the scheduler is started with
    (\<open>minkapi/view/inmclient\<close>), each typed access as the table of its methods.
  \<^item> \<open>Watching\<close>, \<open>WatchProps\<close>: watches and watchers through a chain of views, with the goroutines of
    the stores as moves that interleave (\<open>minkapi/view\<close>, \<open>common/watchutil\<close>).
  \<^item> \<open>Paths\<close>, \<open>ServeMux\<close>: paths and the request multiplexer of Go's library. \<open>Discovery\<close>: the documents
    in which the server announces its kinds. \<open>Handlers\<close>, \<open>Server\<close>: the API server
    (\<open>minkapi/server\<close>): every handler, the routes of a view, start and stop, sandbox views on request,
    and serving a request through the two levels of multiplexers. \<open>RouteProps\<close>, \<open>RouteLookup\<close>,
    \<open>ServerProps\<close>, \<open>RootProps\<close>: what is shown of it.
  \<^item> \<open>Launcher\<close>: the launcher of schedulers and its permits (\<open>planner/scheduler\<close>), as a step relation.
  \<^item> \<open>PlannerTypes\<close>, \<open>PodNodeUtil\<close>: the planner's data (\<open>api/planner\<close>, \<open>api/core/v1alpha1\<close>) and the
    pod and node helpers (\<open>common/podutil\<close>, \<open>common/nodeutil\<close>).
  \<^item> \<open>Volumes\<close>, \<open>VolumeProps\<close>: binding and provisioning of volumes (\<open>common/volutil\<close>).
  \<^item> \<open>Float64\<close>, \<open>Scoring\<close>, \<open>ScoreProps\<close>: the weigher and the two scorers (\<open>planner/weigher\<close>,
    \<open>planner/scorer\<close>).
  \<^item> \<open>RunState\<close>, \<open>RunStateProps\<close>, \<open>RunNodes\<close>, \<open>Simulation\<close>, \<open>SimulationProps\<close>: one simulation
    (\<open>planner/simulation/scaleout\<close>): its run state, the nodes it creates, the loop that works and
    tracks until nothing changes.
  \<^item> \<open>Populate\<close>, \<open>Simulator\<close>, \<open>SimulatorProps\<close>: loading the snapshot, groups of simulations, passes,
    the plan (\<open>planner/simulator\<close>).
  \<^item> \<open>Planner\<close>, \<open>PlannerProps\<close> and this theory: from a request to its responses (\<open>planner/planner.go\<close>).
  \<^item> \<open>Service\<close>, \<open>ServiceProps\<close>: the planner service and the command lines of service and server
    (\<open>service\<close>, \<open>minkapi/cli\<close>, \<open>common/cliutil\<close>). \<open>Operator\<close>: the operator and its configuration
    (\<open>operator\<close>, \<open>api/config\<close>).
  \<^item> \<open>Obfuscate\<close>, \<open>ObfuscateProps\<close>, \<open>GenScenario\<close>, \<open>GenScenarioProps\<close>, \<open>AwsPrice\<close>, \<open>AwsPriceProps\<close>,
    \<open>ScenarioCmd\<close>: the tool \<open>scadctl\<close>, which records a cluster as a scenario and generates price files
    (\<open>tools\<close>). \<open>Samples\<close>, \<open>SamplesProps\<close>: generated sample clusters (\<open>samples\<close>). \<open>Paths\<close>: slash-separated paths.

  \<^bold>\<open>How the model is made.\<close> A struct is a record with prefixed fields, a tagged choice a datatype; Go's
  \<open>int64\<close>, \<open>int32\<close> and \<open>uint32\<close> counters are words and wrap; \<open>float64\<close> is a rational rounded to the
  nearest binary64 value at every operation. A function that returns an error has the type
  \<open>outcome\<close>; \<open>Panic\<close> is a nil dereference or an index out of range. A function that changes state takes and
  returns it: the memory and the views (\<open>world\<close>), a store, a run state, a simulator state. Loops are
  recursive functions; those that may not end are \<open>partial_function (option)\<close>, where \<open>None\<close> is not
  returning. Iteration over a Go map has no order in the code: the theorems that depend on the order
  speak of sets or counts.

  \<^bold>\<open>Parameters.\<close> The kube-scheduler is a parameter (\<open>scheduler\<close>): what it does to the world between
  the steps of a round. Contexts are functions that tell at which point they are done. The random
  choices, clock ticks and generated identifiers, the approximation of a quantity by a float, the test for a
  default storage class and the volume finder of the Kubernetes library are arguments. So are, of the
  server and the tools, encoding and decoding of JSON (\<open>server_env\<close>, \<open>price_env\<close>), rendering of
  templates, files and the network (\<open>server_host\<close>, \<open>service_host\<close>, \<open>landscape\<close>, \<open>sample_host\<close>), parsing of flags, and
  the order in which Go ranges over a map or sorts equal elements.

  \<^bold>\<open>What is shown.\<close> Stores: every reachable store is well-formed, and its operations refine updates of an
  abstract map (\<open>StoreProps\<close>). Views: creation, update, deletion and reading through any depth of
  sandboxes refine an overlay of maps, and write nothing to the delegate's stores, though an update
  through a pointer that the delegate holds stamps its object; binding a pod works once (\<open>ViewProps\<close>). The proofs rest on the locales \<open>keyed_cache\<close> and \<open>object_repository\<close>, interpreted
  on the cache of a store and on the operations of a view. Planner helpers: sums of requests, round trips of
  pod information and placements (\<open>PodNodeUtil\<close>). Scoring: a selected score is a best one, cheaper is
  never worse (\<open>ScoreProps\<close>, with the locales \<open>three_way\<close> and \<open>node_scoring\<close>). Volumes: binding
  writes claim and volume (\<open>VolumeProps\<close>). Client: what it hands out fits the registry of types, what it creates it reads back
  (\<open>ClientProps\<close>). Launcher: never more schedulers than permitted. Runs: the pods left over are exactly those not recorded,
  tracking records every event, a run ends and reports what it tracked (\<open>RunNodes\<close>, \<open>SimulationProps\<close>).
  Simulator: a populated view shows exactly the snapshot, groups partition the simulations, a winner
  belongs to a simulation of its pass, the plan counts the winners (\<open>Populate\<close>, \<open>SimulatorProps\<close>). Planner:
  below, every request is answered, wherever the context ends, or panics in a named component. Server:
  the routes of a view do not conflict and lead to the handlers of their kind, with and without a namespace
  in the path, where some kinds are refused \<open>PUT\<close> and \<open>PATCH\<close>, the
  discovery documents agree with the registry, what is posted can be read back, a read answers what the
  view shows; and where it goes wrong: a refused \<open>PUT\<close> has changed the delegate, a sandbox view cannot
  be asked for twice. Watches: any interleaving replays exactly what the view shows, while a watcher
  shows what the sandbox hides. Service: it never starts, for it leaves out arguments the planner
  insists on (\<open>ServiceProps\<close>). Operator: which configurations it accepts. Tools: obfuscation preserves what
  the constraints of a pod read of nodes and other pods, except that nodes change their names (\<open>ObfuscateProps\<close>), the variants of a snapshot and the node pools of a shoot are what a direct
  specification says, a generated price file answers with the lowest offer. Sample clusters
  (\<open>SamplesProps\<close>): volumes and claims are rendered from data that fit together, the unscheduled work grows by copies whose names
  differ within one pod but may collide with another's.

  \<^bold>\<open>Bounds.\<close> \<open>noWrap\<close> and \<open>room w n\<close> say that a version counter has room for the next writes before
  it wraps at \<open>2\<^sup>6\<^sup>3\<close>: the code does not handle the wrap. Lists of templates and winners are shorter
  than \<open>2\<^sup>3\<^sup>2\<close> and \<open>2\<^sup>3\<^sup>1\<close> where counters of that width count them. No fuel is used.

  \<^bold>\<open>Not modelled.\<close> Helpers of the tests (\<open>testutil\<close>); logging and tracing
  (\<open>common/logutil\<close>); clients over the network and the controller manager of the operator, which are libraries that the
  sources only call. Locks: each operation of a store or view holds a lock in the code and is one
  step here; the simulations of a group run one after the other. Generated deep copies are the copying of a
  record. The texts of error messages are kept only where the code distinguishes them.
\<close>

subsection \<open>From a request to its responses\<close>






lemma Plan_total:
  assumes "\<forall>k\<ge>n. seDone env k \<noteq> None" "\<forall>c. \<exists>k. scDone (seRunCtx env c) k \<noteq> None"
  shows "Plan args env stop rid rq w \<noteq> None"
proof -
  have "groupsLoop env scorer i v ws cs s \<noteq> None" for scorer i v ws cs s
    by (rule groupsLoop_total [of env n]) (use assms in \<open>simp add: deadline_def\<close>)
  then have "doSimulate env sm s \<noteq> None" for sm s
    by (simp add: doSimulate_def runStabilizationCyclesForAllGroups_def del: not_None_eq split: option.split prod.split outcome.split)
  then have "Simulate env sm rq w \<noteq> None" for sm by (simp add: Simulate_def del: not_None_eq)
  then show ?thesis by (simp add: Plan_def del: not_None_eq split: outcome.split)
qed


definition demoRequest :: Simulator.request where
  "demoRequest = \<lparr>rqID = ''r1'', rqCorrelationID = ''c1'', rqCreationTime = 1, rqNodePools = Some [],
     rqSimulatorStrategy = SingleNodeMultiSim, rqScoringStrategy = ''least-cost'', rqAdviceGenerationMode = ''all-at-once'',
     rqSnapshot = \<lparr>csPods = [], csNodes = [], csPVs = [], csPVCs = [], csStorageClasses = [], csPriorityClasses = [],
       csRuntimeClasses = []\<rparr>, rqDiagnosticVerbosity = 0\<rparr>"

definition demoPlanner :: planner_args where
  "demoPlanner = \<lparr>paViewAccess = Some \<lparr>vaBaseView = demoBase, vaSandboxViews = []\<rparr>, paResourceWeigher = Some GetWeights,
     paPricingAccess = Some (\<lambda>_ it. Ok (demoInfo it)), paSchedulerLauncher = Some (\<lambda>_. demoScheduler),
     paStorageMetaAccess = Some demoStorage, paSimulatorFactory = Some GetScaleOutSimulator, paSimulationFactory = True,
     paSimulatorConfig = saConfig demoSimArgs\<rparr>"

definition demoEnv :: sim_env where
  "demoEnv = \<lparr>seRunCtx = (\<lambda>_. demoCtx 5), seDone = (\<lambda>k. if k < 10 then None else Some (Plain ''context canceled'')),
     seRandom = (\<lambda>_. 0), seApprox = of_int, seIsDefaultClass = (\<lambda>_. False), seFindVolume = (\<lambda>_ _ _. Ok None), seInitCtx = (\<lambda>_. noCancel)\<rparr>"


lemma demoEnv_deadline: "\<forall>k\<ge>10. seDone demoEnv k \<noteq> None" "\<forall>c. \<exists>k. scDone (seRunCtx demoEnv c) k \<noteq> None"
  by (simp_all add: demoEnv_def) (simp add: demoCtx_def, blast)


text \<open>
  C24. Planning ends: if the context of the passes is done from some pass on, and that of each
  simulation at some round, every request comes to an end, with whatever results.
\<close>

theorem Plan_terminates:
  assumes "\<forall>k\<ge>n. seDone env k \<noteq> None" "\<forall>c. \<exists>k. scDone (seRunCtx env c) k \<noteq> None"
  shows "\<exists>res. Plan args env stop rid rq w = Some res"
  using Plan_total [OF assms] by simp

theorem Plan_terminates_witness:
  "\<exists>res. Plan demoPlanner demoEnv None (\<lambda>_. ''id'') demoRequest demoWorld = Some res"
  by (rule Plan_terminates [OF demoEnv_deadline])

end
